(* ===== verification/Prelude.thy ===== *)
theory Prelude
  imports Complex_Main
begin

text \<open>
  What every component of the model shares: strings as JavaScript reads them, the
  world-passing computations that stand for \<^verbatim>\<open>async\<close> methods, and the rules that
  carry invariants through those computations.

  A JavaScript string is a list of \<open>char\<close>: one \<open>char\<close> is one UTF-16 code unit below 256,
  so the model covers text in Latin-1. A \<^verbatim>\<open>string | null | undefined\<close> is a
  \<open>string option\<close>. A computation that may throw and that changes the world is a function
  \<open>'w \<Rightarrow> ('e + 'a) \<times> 'w\<close>: \<open>Inl e\<close> is a thrown error, and the world reached before
  the throw is kept (only a database transaction undoes it).
\<close>

named_theorems preserve_rules \<open>rules that push an invariant through a computation\<close>
named_theorems run_simps \<open>equations that run a computation on a given world\<close>

section \<open>Strings\<close>

definition is_ws :: "char \<Rightarrow> bool" where
  "is_ws c \<longleftrightarrow> (of_char c :: nat) \<in> {9, 10, 11, 12, 13, 32, 160}"

definition is_digit :: "char \<Rightarrow> bool" where
  "is_digit c \<longleftrightarrow> (48 :: nat) \<le> of_char c \<and> of_char c \<le> (57 :: nat)"

definition is_upper :: "char \<Rightarrow> bool" where
  "is_upper c \<longleftrightarrow> (65 :: nat) \<le> of_char c \<and> of_char c \<le> (90 :: nat)"

definition is_lower :: "char \<Rightarrow> bool" where
  "is_lower c \<longleftrightarrow> (97 :: nat) \<le> of_char c \<and> of_char c \<le> (122 :: nat)"

definition is_word :: "char \<Rightarrow> bool" where
  "is_word c \<longleftrightarrow> is_digit c \<or> is_upper c \<or> is_lower c \<or> c = CHR ''_''"

text \<open>\<^verbatim>\<open>toLowerCase\<close> on Latin-1: the ASCII capitals and the capitals from 192 to 222
  except the multiplication sign 215.\<close>

definition lower_char :: "char \<Rightarrow> char" where
  "lower_char c =
     (let n = (of_char c :: nat)
      in if (65 \<le> n \<and> n \<le> 90) \<or> (192 \<le> n \<and> n \<le> 222 \<and> n \<noteq> 215)
         then char_of (n + 32) else c)"

definition to_lower :: "string \<Rightarrow> string" where
  "to_lower s = map lower_char s"

text \<open>\<^verbatim>\<open>toUpperCase\<close> on the letters that have a capital in Latin-1.\<close>

definition upper_char :: "char \<Rightarrow> char" where
  "upper_char c =
     (let n = (of_char c :: nat)
      in if (97 \<le> n \<and> n \<le> 122) \<or> (224 \<le> n \<and> n \<le> 254 \<and> n \<noteq> 247)
         then char_of (n - 32) else c)"

definition to_upper :: "string \<Rightarrow> string" where
  "to_upper s = map upper_char s"

definition trim :: "string \<Rightarrow> string" where
  "trim s = rev (dropWhile is_ws (rev (dropWhile is_ws s)))"

definition starts_with :: "string \<Rightarrow> string \<Rightarrow> bool" where
  "starts_with p s \<longleftrightarrow> take (length p) s = p"

fun contains :: "string \<Rightarrow> string \<Rightarrow> bool" where
  "contains p [] = (p = [])"
| "contains p (c # cs) = (starts_with p (c # cs) \<or> contains p cs)"

text \<open>\<^verbatim>\<open>s.indexOf(p)\<close>, with \<open>None\<close> for \<^verbatim>\<open>-1\<close>.\<close>

fun index_of :: "string \<Rightarrow> string \<Rightarrow> nat option" where
  "index_of p [] = (if p = [] then Some 0 else None)"
| "index_of p (c # cs) =
     (if starts_with p (c # cs) then Some 0 else map_option Suc (index_of p cs))"

text \<open>\<^verbatim>\<open>s.slice(0, m)\<close>: a negative \<open>m\<close> counts from the end.\<close>

definition slice0 :: "string \<Rightarrow> int \<Rightarrow> string" where
  "slice0 s m = (if 0 \<le> m then take (nat m) s else take (length s - nat (- m)) s)"

fun join_with :: "string \<Rightarrow> string list \<Rightarrow> string" where
  "join_with sep [] = []"
| "join_with sep [s] = s"
| "join_with sep (s # t # ss) = s @ sep @ join_with sep (t # ss)"

text \<open>Splitting at the characters of a class, dropping the empty pieces: the source writes
  it \<^verbatim>\<open>split(/[...]+/)\<close> followed by \<^verbatim>\<open>filter(Boolean)\<close>.\<close>

fun words_of :: "(char \<Rightarrow> bool) \<Rightarrow> string \<Rightarrow> string \<Rightarrow> string list" where
  "words_of p acc [] = (if acc = [] then [] else [rev acc])"
| "words_of p acc (c # cs) =
     (if p c then words_of p (c # acc) cs
      else if acc = [] then words_of p [] cs
      else rev acc # words_of p [] cs)"

text \<open>\<^verbatim>\<open>Number.parseInt(s, 10)\<close>: leading white space, a sign, then the longest run of
  digits; \<open>None\<close> is \<^verbatim>\<open>NaN\<close>.\<close>

definition digit_val :: "char \<Rightarrow> int" where
  "digit_val c = int (of_char c) - 48"

definition digits_val :: "string \<Rightarrow> int" where
  "digits_val s = foldl (\<lambda>n c. 10 * n + digit_val c) 0 s"

definition parse_int :: "string \<Rightarrow> int option" where
  "parse_int s =
     (let t = dropWhile is_ws s;
          neg = (starts_with ''-'' t);
          u = (if neg \<or> starts_with ''+'' t then tl t else t);
          ds = takeWhile is_digit u
      in if ds = [] then None
         else Some (if neg then - digits_val ds else digits_val ds))"

text \<open>Truthiness of a \<^verbatim>\<open>string | null | undefined\<close>, \<^verbatim>\<open>a || b\<close> and \<^verbatim>\<open>a ?? b\<close>.\<close>

definition truthy :: "string option \<Rightarrow> bool" where
  "truthy v \<longleftrightarrow> (case v of None \<Rightarrow> False | Some s \<Rightarrow> s \<noteq> [])"

definition str_or :: "string option \<Rightarrow> string \<Rightarrow> string" where
  "str_or v d = (case v of None \<Rightarrow> d | Some s \<Rightarrow> if s = [] then d else s)"

definition nullish :: "'a option \<Rightarrow> 'a \<Rightarrow> 'a" where
  "nullish v d = (case v of None \<Rightarrow> d | Some x \<Rightarrow> x)"

definition nullish2 :: "'a option \<Rightarrow> 'a option \<Rightarrow> 'a option" where
  "nullish2 v d = (case v of None \<Rightarrow> d | Some x \<Rightarrow> Some x)"

text \<open>Decimal printing of integers, as in a template literal.\<close>

fun show_nat :: "nat \<Rightarrow> string" where
  "show_nat n =
     (if n < 10 then [char_of (48 + n)] else show_nat (n div 10) @ [char_of (48 + n mod 10)])"

declare show_nat.simps [simp del]

definition show_int :: "int \<Rightarrow> string" where
  "show_int z = (if z < 0 then ''-'' @ show_nat (nat (- z)) else show_nat (nat z))"

text \<open>\<^verbatim>\<open>Math.max\<close> with an operand that may be \<^verbatim>\<open>NaN\<close>.\<close>

definition max_nan :: "int option \<Rightarrow> int \<Rightarrow> int option" where
  "max_nan v lo = map_option (\<lambda>x. max x lo) v"

definition min_nan :: "int option \<Rightarrow> int \<Rightarrow> int option" where
  "min_nan v hi = map_option (\<lambda>x. min x hi) v"

lemma show_nat_small: "n < 10 \<Longrightarrow> show_nat n = [char_of (48 + n)]"
  by (simp add: show_nat.simps [of n])

lemma show_nat_large:
  "\<not> n < 10 \<Longrightarrow> show_nat n = show_nat (n div 10) @ [char_of (48 + n mod 10)]"
  by (simp add: show_nat.simps [of n])

lemma digit_char: "n < 10 \<Longrightarrow> is_digit (char_of (48 + n))" "n < 10 \<Longrightarrow> digit_val (char_of (48 + n)) = int n"
  by (simp_all add: is_digit_def digit_val_def)

lemma digits_val_append: "digits_val (s @ [c]) = 10 * digits_val s + digit_val c"
  by (simp add: digits_val_def)

lemma show_nat_digits: "list_all is_digit (show_nat n)"
proof (induction n rule: show_nat.induct)
  case (1 n)
  then show ?case
    by (cases "n < 10") (simp_all add: show_nat_small show_nat_large digit_char)
qed

lemma digits_val_show_nat: "digits_val (show_nat n) = int n"
proof (induction n rule: show_nat.induct)
  case (1 n)
  show ?case
  proof (cases "n < 10")
    case True
    then show ?thesis
      by (simp add: show_nat_small digits_val_append [of "[]", simplified] digit_char digits_val_def)
  next
    case False
    have "10 * int (n div 10) + int (n mod 10) = int (10 * (n div 10) + n mod 10)"
      by (simp only: of_nat_add of_nat_mult of_nat_numeral)
    also have "10 * (n div 10) + n mod 10 = n" by presburger
    finally show ?thesis
      using False 1 by (simp add: show_nat_large digits_val_append digit_char)
  qed
qed

lemma show_nat_inj: "show_nat m = show_nat n \<Longrightarrow> m = n"
  by (metis digits_val_show_nat of_nat_eq_iff)

lemma show_nat_not_Nil [simp]: "show_nat n \<noteq> []"
  by (cases "n < 10") (simp_all add: show_nat_small show_nat_large)

lemma parse_int_show_nat: "parse_int (show_nat n) = Some (int n)"
proof -
  have all: "list_all is_digit (show_nat n)" by (rule show_nat_digits)
  then obtain c cs where c: "show_nat n = c # cs" "is_digit c"
    by (cases "show_nat n") auto
  then have ne: "\<not> is_ws c" "c \<noteq> CHR ''-''" "c \<noteq> CHR ''+''"
    by (auto simp: is_digit_def is_ws_def)
  have tw: "takeWhile is_digit cs = cs"
    using all c(1) by (simp add: takeWhile_eq_all_conv list_all_iff)
  show ?thesis
    using ne c(2) digits_val_show_nat [of n]
    by (simp add: parse_int_def starts_with_def Let_def c(1) tw)
qed

lemma nullish_simps [simp]: "nullish None d = d" "nullish (Some x) d = x"
  by (simp_all add: nullish_def)

lemma nullish2_simps [simp]: "nullish2 None d = d" "nullish2 (Some x) d = Some x"
  by (simp_all add: nullish2_def)

lemma truthy_simps [simp]: "\<not> truthy None" "truthy (Some s) = (s \<noteq> [])"
  by (simp_all add: truthy_def)

lemma starts_with_iff: "starts_with p s \<longleftrightarrow> (\<exists>t. s = p @ t)"
  by (auto simp: starts_with_def) (metis append_take_drop_id)

lemma contains_iff: "contains p s \<longleftrightarrow> (\<exists>a b. s = a @ p @ b)"
proof (induction s)
  case Nil
  then show ?case by auto
next
  case (Cons c cs)
  show ?case
  proof
    assume "contains p (c # cs)"
    then consider "starts_with p (c # cs)" | "contains p cs" by auto
    then show "\<exists>a b. c # cs = a @ p @ b"
    proof cases
      case 1
      then obtain t where "c # cs = [] @ p @ t" by (auto simp: starts_with_iff)
      then show ?thesis by blast
    next
      case 2
      with Cons.IH obtain a b where "c # cs = (c # a) @ p @ b" by auto
      then show ?thesis by blast
    qed
  next
    assume "\<exists>a b. c # cs = a @ p @ b"
    then obtain a b where ab: "c # cs = a @ p @ b" by blast
    show "contains p (c # cs)"
    proof (cases a)
      case Nil
      with ab have "starts_with p (c # cs)" by (auto simp: starts_with_iff)
      then show ?thesis by simp
    next
      case (Cons x xs)
      with ab have "cs = xs @ p @ b" by simp
      with Cons.IH show ?thesis by auto
    qed
  qed
qed

lemma contains_append: "contains p s \<Longrightarrow> contains p (a @ s @ b)"
  by (auto simp: contains_iff) (metis append.assoc)

lemma index_of_None: "index_of p s = None \<longleftrightarrow> \<not> contains p s"
  by (induction s) auto

lemma index_of_Some: "index_of p s = Some i \<Longrightarrow> take (length p) (drop i s) = p \<and> i \<le> length s"
  by (induction s arbitrary: i) (auto simp: starts_with_def split: if_splits)

lemma length_trim: "length (trim s) \<le> length s"
  by (simp add: trim_def) (metis length_dropWhile_le length_rev order_trans)

lemma set_trim: "set (trim s) \<subseteq> set s"
proof
  fix x assume "x \<in> set (trim s)"
  then have "x \<in> set (rev (dropWhile is_ws s))"
    unfolding trim_def by (metis set_dropWhileD set_rev)
  then show "x \<in> set s" by (metis set_dropWhileD set_rev)
qed

lemma trim_Nil [simp]: "trim [] = []"
  by (simp add: trim_def)

lemma not_isl: "\<not> isl x \<Longrightarrow> x = Inr (projr x)"
  by (cases x) simp_all

lemma trim_blank: "list_all is_ws s \<Longrightarrow> trim s = []"
  by (auto simp: trim_def list_all_iff dest: set_dropWhileD)

end
