(* ===== verification/Exec.thy ===== *)
theory Exec
  imports Prelude
begin

text \<open>
  Computations of the model. An \<^verbatim>\<open>async\<close> method of the source is a function of type
  \<open>('w, 'e, 'a) sx\<close>: it takes the world and returns either the thrown error (\<open>Inl\<close>) or the
  returned value (\<open>Inr\<close>) with the world it leaves behind. \<open>bind_x\<close> is \<^verbatim>\<open>await\<close>
  followed by the rest of the method, \<open>catch_x\<close> is \<^verbatim>\<open>try/catch\<close>, \<open>transaction_x\<close> is
  \<^verbatim>\<open>prisma.$transaction\<close>. The second half is the calculus that pushes an invariant
  through a method without unfolding the combinators.
\<close>

type_synonym ('w, 'e, 'a) sx = "'w \<Rightarrow> ('e + 'a) \<times> 'w"

definition ret_x :: "'a \<Rightarrow> ('w, 'e, 'a) sx" where
  "ret_x a = (\<lambda>w. (Inr a, w))"

definition throw_x :: "'e \<Rightarrow> ('w, 'e, 'a) sx" where
  "throw_x e = (\<lambda>w. (Inl e, w))"

definition bind_x :: "('w, 'e, 'a) sx \<Rightarrow> ('a \<Rightarrow> ('w, 'e, 'b) sx) \<Rightarrow> ('w, 'e, 'b) sx" where
  "bind_x m k = (\<lambda>w. case m w of (r, w') \<Rightarrow> (case r of Inl e \<Rightarrow> (Inl e, w') | Inr a \<Rightarrow> k a w'))"

definition then_x :: "('w, 'e, 'a) sx \<Rightarrow> ('w, 'e, 'b) sx \<Rightarrow> ('w, 'e, 'b) sx" where
  "then_x m n = bind_x m (\<lambda>_. n)"

definition catch_x :: "('w, 'e, 'a) sx \<Rightarrow> ('e \<Rightarrow> ('w, 'f, 'a) sx) \<Rightarrow> ('w, 'f, 'a) sx" where
  "catch_x m h = (\<lambda>w. case m w of (r, w') \<Rightarrow> (case r of Inl e \<Rightarrow> h e w' | Inr a \<Rightarrow> (Inr a, w')))"

definition gets_x :: "('w \<Rightarrow> 'a) \<Rightarrow> ('w, 'e, 'a) sx" where
  "gets_x f = (\<lambda>w. (Inr (f w), w))"

definition modify_x :: "('w \<Rightarrow> 'w) \<Rightarrow> ('w, 'e, unit) sx" where
  "modify_x f = (\<lambda>w. (Inr (), f w))"

definition when_x :: "bool \<Rightarrow> ('w, 'e, unit) sx \<Rightarrow> ('w, 'e, unit) sx" where
  "when_x b m = (if b then m else ret_x ())"

text \<open>A promise whose rejection is ignored: \<^verbatim>\<open>p.catch(() => undefined)\<close>.\<close>

definition ignore_x :: "('w, 'e, 'a) sx \<Rightarrow> ('w, 'f, unit) sx" where
  "ignore_x m = (\<lambda>w. (Inr (), snd (m w)))"

text \<open>\<^verbatim>\<open>for (const x of xs) await f(x)\<close>, and the same collecting what each turn returns.\<close>

primrec for_x :: "'a list \<Rightarrow> ('a \<Rightarrow> ('w, 'e, unit) sx) \<Rightarrow> ('w, 'e, unit) sx" where
  "for_x [] f = ret_x ()"
| "for_x (x # xs) f = then_x (f x) (for_x xs f)"

primrec collect_x :: "'a list \<Rightarrow> ('a \<Rightarrow> ('w, 'e, 'b list) sx) \<Rightarrow> ('w, 'e, 'b list) sx" where
  "collect_x [] f = ret_x []"
| "collect_x (x # xs) f =
     bind_x (f x) (\<lambda>ys. bind_x (collect_x xs f) (\<lambda>zs. ret_x (ys @ zs)))"

text \<open>A transaction runs \<open>m\<close>; when it throws, \<open>rollback\<close> rebuilds the world from the one
  before (first argument) and the one reached (second argument).\<close>

definition transaction_x :: "('w \<Rightarrow> 'w \<Rightarrow> 'w) \<Rightarrow> ('w, 'e, 'a) sx \<Rightarrow> ('w, 'e, 'a) sx" where
  "transaction_x rollback m =
     (\<lambda>w. case m w of (r, w') \<Rightarrow>
        (case r of Inl e \<Rightarrow> (Inl e, rollback w w') | Inr a \<Rightarrow> (Inr a, w')))"

section \<open>Running a computation\<close>

lemma ret_x_run [run_simps]: "ret_x a w = (Inr a, w)"
  by (simp add: ret_x_def)

lemma throw_x_run [run_simps]: "throw_x e w = (Inl e, w)"
  by (simp add: throw_x_def)

lemma gets_x_run [run_simps]: "gets_x f w = (Inr (f w), w)"
  by (simp add: gets_x_def)

lemma modify_x_run [run_simps]: "modify_x f w = (Inr (), f w)"
  by (simp add: modify_x_def)

lemma when_x_run [run_simps]: "when_x b m w = (if b then m w else (Inr (), w))"
  by (simp add: when_x_def ret_x_def)

lemma ignore_x_run [run_simps]: "ignore_x m w = (Inr (), snd (m w))"
  by (simp add: ignore_x_def)

lemma bind_x_run [run_simps]:
  "bind_x m k w = (case fst (m w) of Inl e \<Rightarrow> (Inl e, snd (m w)) | Inr a \<Rightarrow> k a (snd (m w)))"
  by (simp add: bind_x_def case_prod_beta)

lemma then_x_run [run_simps]:
  "then_x m n w = (case fst (m w) of Inl e \<Rightarrow> (Inl e, snd (m w)) | Inr a \<Rightarrow> n (snd (m w)))"
  by (simp add: then_x_def bind_x_run)

lemma catch_x_run [run_simps]:
  "catch_x m h w = (case fst (m w) of Inl e \<Rightarrow> h e (snd (m w)) | Inr a \<Rightarrow> (Inr a, snd (m w)))"
  by (simp add: catch_x_def case_prod_beta)

lemma transaction_x_run [run_simps]:
  "transaction_x rb m w =
     (case fst (m w) of Inl e \<Rightarrow> (Inl e, rb w (snd (m w))) | Inr a \<Rightarrow> (Inr a, snd (m w)))"
  by (simp add: transaction_x_def case_prod_beta)

lemma for_x_run [run_simps]:
  "for_x [] f w = (Inr (), w)"
  "for_x (x # xs) f w =
     (case fst (f x w) of Inl e \<Rightarrow> (Inl e, snd (f x w)) | Inr a \<Rightarrow> for_x xs f (snd (f x w)))"
  by (simp_all add: run_simps)

lemma bind_ret: "bind_x (ret_x a) k = k a"
  by (rule ext) (simp add: run_simps)

lemma bind_throw: "bind_x (throw_x e) k = throw_x e"
  by (rule ext) (simp add: run_simps)

lemma bind_assoc: "bind_x (bind_x m k) l = bind_x m (\<lambda>a. bind_x (k a) l)"
  by (rule ext) (simp add: run_simps split: sum.split)

section \<open>Invariants\<close>

definition preserves :: "('w \<Rightarrow> bool) \<Rightarrow> ('w, 'e, 'a) sx \<Rightarrow> bool" where
  "preserves I m \<longleftrightarrow> (\<forall>w. I w \<longrightarrow> I (snd (m w)))"

lemma preservesI [intro]: "(\<And>w. I w \<Longrightarrow> I (snd (m w))) \<Longrightarrow> preserves I m"
  by (simp add: preserves_def)

lemma preservesD: "preserves I m \<Longrightarrow> I w \<Longrightarrow> I (snd (m w))"
  by (simp add: preserves_def)

lemma preserves_ret [preserve_rules]: "preserves I (ret_x a)"
  by (simp add: preserves_def run_simps)

lemma preserves_throw [preserve_rules]: "preserves I (throw_x e)"
  by (simp add: preserves_def run_simps)

lemma preserves_gets [preserve_rules]: "preserves I (gets_x f)"
  by (simp add: preserves_def run_simps)

lemma preserves_modify: "(\<And>w. I w \<Longrightarrow> I (f w)) \<Longrightarrow> preserves I (modify_x f)"
  by (simp add: preserves_def run_simps)

lemma preserves_bind [preserve_rules]:
  "preserves I m \<Longrightarrow> (\<And>a. preserves I (k a)) \<Longrightarrow> preserves I (bind_x m k)"
  by (auto simp: preserves_def run_simps split: sum.split)

lemma preserves_then [preserve_rules]:
  "preserves I m \<Longrightarrow> preserves I n \<Longrightarrow> preserves I (then_x m n)"
  by (auto simp: preserves_def run_simps split: sum.split)

lemma preserves_catch [preserve_rules]:
  "preserves I m \<Longrightarrow> (\<And>e. preserves I (h e)) \<Longrightarrow> preserves I (catch_x m h)"
  by (auto simp: preserves_def run_simps split: sum.split)

lemma preserves_when [preserve_rules]: "preserves I m \<Longrightarrow> preserves I (when_x b m)"
  by (auto simp: preserves_def run_simps)

lemma preserves_ignore [preserve_rules]: "preserves I m \<Longrightarrow> preserves I (ignore_x m)"
  by (auto simp: preserves_def run_simps)

lemma preserves_for [preserve_rules]:
  "(\<And>x. preserves I (f x)) \<Longrightarrow> preserves I (for_x xs f)"
  by (induction xs) (auto intro: preserve_rules)

lemma preserves_collect [preserve_rules]:
  "(\<And>x. preserves I (f x)) \<Longrightarrow> preserves I (collect_x xs f)"
  by (induction xs) (auto intro!: preserve_rules)

lemma preserves_transaction:
  "preserves I m \<Longrightarrow> (\<And>w w'. I w \<Longrightarrow> I w' \<Longrightarrow> I (rb w w')) \<Longrightarrow> preserves I (transaction_x rb m)"
  by (auto simp: preserves_def run_simps split: sum.split)

lemma preserves_if [preserve_rules]:
  "(b \<Longrightarrow> preserves I m) \<Longrightarrow> (\<not> b \<Longrightarrow> preserves I n) \<Longrightarrow> preserves I (if b then m else n)"
  by simp

lemma preserves_option [preserve_rules]:
  "(v = None \<Longrightarrow> preserves I m) \<Longrightarrow> (\<And>x. v = Some x \<Longrightarrow> preserves I (k x)) \<Longrightarrow>
   preserves I (case v of None \<Rightarrow> m | Some x \<Rightarrow> k x)"
  by (cases v) simp_all

lemma preserves_sum [preserve_rules]:
  "(\<And>x. v = Inl x \<Longrightarrow> preserves I (m x)) \<Longrightarrow> (\<And>x. v = Inr x \<Longrightarrow> preserves I (k x)) \<Longrightarrow>
   preserves I (case v of Inl x \<Rightarrow> m x | Inr x \<Rightarrow> k x)"
  by (cases v) simp_all

lemma preserves_prod [preserve_rules]:
  "(\<And>x y. v = (x, y) \<Longrightarrow> preserves I (k x y)) \<Longrightarrow> preserves I (case v of (x, y) \<Rightarrow> k x y)"
  by (cases v) simp_all

lemma preserves_let [preserve_rules]:
  "(\<And>x. x = v \<Longrightarrow> preserves I (k x)) \<Longrightarrow> preserves I (let x = v in k x)"
  by (simp add: Let_def)

lemma preserves_both: "preserves I m \<Longrightarrow> preserves J m \<Longrightarrow> preserves (\<lambda>w. I w \<and> J w) m"
  by (simp add: preserves_def)

lemma preserves_True: "preserves (\<lambda>_. True) m"
  by (simp add: preserves_def)

section \<open>Postconditions\<close>

text \<open>\<open>ensures P m Q\<close>: from a world that satisfies \<open>P\<close>, a normal return of \<open>m\<close> satisfies
  \<open>Q\<close>. \<open>establishes I m\<close> is the case of an invariant that needs nothing before.\<close>

definition ensures :: "('w \<Rightarrow> bool) \<Rightarrow> ('w, 'e, 'a) sx \<Rightarrow> ('a \<Rightarrow> 'w \<Rightarrow> bool) \<Rightarrow> bool" where
  "ensures P m Q \<longleftrightarrow> (\<forall>w a. P w \<longrightarrow> fst (m w) = Inr a \<longrightarrow> Q a (snd (m w)))"

definition establishes :: "('w \<Rightarrow> bool) \<Rightarrow> ('w, 'e, 'a) sx \<Rightarrow> bool" where
  "establishes I m \<longleftrightarrow> (\<forall>w a. fst (m w) = Inr a \<longrightarrow> I (snd (m w)))"

lemma ensuresD: "ensures P m Q \<Longrightarrow> P w \<Longrightarrow> fst (m w) = Inr a \<Longrightarrow> Q a (snd (m w))"
  by (simp add: ensures_def)

lemma ensures_bind: "ensures P m M \<Longrightarrow> (\<And>a. ensures (M a) (k a) Q) \<Longrightarrow> ensures P (bind_x m k) Q"
  by (auto simp: ensures_def run_simps split: sum.splits)

lemma ensures_bind_keep:
  "preserves I m \<Longrightarrow> (\<And>a. ensures I (k a) Q) \<Longrightarrow> ensures I (bind_x m k) Q"
  by (auto simp: ensures_def preserves_def run_simps split: sum.splits)

lemma ensures_then_keep: "preserves I m \<Longrightarrow> ensures I n Q \<Longrightarrow> ensures I (then_x m n) Q"
  unfolding then_x_def by (rule ensures_bind_keep)

lemma ensures_ret: "(\<And>w. P w \<Longrightarrow> Q a w) \<Longrightarrow> ensures P (ret_x a) Q"
  by (simp add: ensures_def run_simps)

lemma ensures_throw: "ensures P (throw_x e) Q"
  by (simp add: ensures_def run_simps)

lemma ensures_if:
  "(b \<Longrightarrow> ensures P m Q) \<Longrightarrow> (\<not> b \<Longrightarrow> ensures P n Q) \<Longrightarrow> ensures P (if b then m else n) Q"
  by simp

lemma ensures_option:
  "(v = None \<Longrightarrow> ensures P m Q) \<Longrightarrow> (\<And>x. v = Some x \<Longrightarrow> ensures P (k x) Q) \<Longrightarrow>
   ensures P (case v of None \<Rightarrow> m | Some x \<Rightarrow> k x) Q"
  by (cases v) simp_all

lemma ensures_weaken:
  "ensures P m Q \<Longrightarrow> (\<And>w. P' w \<Longrightarrow> P w) \<Longrightarrow> (\<And>a w. Q a w \<Longrightarrow> Q' a w) \<Longrightarrow> ensures P' m Q'"
  by (auto simp: ensures_def)

lemma ensures_then: "ensures P m (\<lambda>_. M) \<Longrightarrow> ensures M n Q \<Longrightarrow> ensures P (then_x m n) Q"
  unfolding then_x_def by (rule ensures_bind)

lemma ensures_both: "ensures P m Q \<Longrightarrow> ensures P m R \<Longrightarrow> ensures P m (\<lambda>a w. Q a w \<and> R a w)"
  by (simp add: ensures_def)

lemma ensures_establishes: "establishes I m \<Longrightarrow> ensures P m (\<lambda>_. I)"
  by (simp add: ensures_def establishes_def)

lemma ensures_catch: "ensures P m Q \<Longrightarrow> (\<And>e. ensures (\<lambda>_. True) (h e) Q) \<Longrightarrow> ensures P (catch_x m h) Q"
  by (auto simp: ensures_def run_simps split: sum.splits)

lemma preserves_imp: "preserves I m \<Longrightarrow> preserves (\<lambda>w. X \<longrightarrow> I w) m"
  by (auto simp: preserves_def)

lemma establishesD: "establishes I m \<Longrightarrow> fst (m w) = Inr a \<Longrightarrow> I (snd (m w))"
  by (simp add: establishes_def)

lemma establishes_throw: "establishes I (throw_x e)"
  by (simp add: establishes_def run_simps)

lemma establishes_first:
  "establishes I m \<Longrightarrow> (\<And>a. preserves I (k a)) \<Longrightarrow> establishes I (bind_x m k)"
  by (auto simp: establishes_def preserves_def run_simps split: sum.splits)

lemma establishes_rest: "(\<And>a. establishes I (k a)) \<Longrightarrow> establishes I (bind_x m k)"
  by (auto simp: establishes_def run_simps split: sum.splits)

lemma establishes_then_first: "establishes I m \<Longrightarrow> preserves I n \<Longrightarrow> establishes I (then_x m n)"
  unfolding then_x_def by (rule establishes_first)

lemma establishes_then_rest: "establishes I n \<Longrightarrow> establishes I (then_x m n)"
  unfolding then_x_def by (rule establishes_rest)

lemma establishes_if:
  "(b \<Longrightarrow> establishes I m) \<Longrightarrow> (\<not> b \<Longrightarrow> establishes I n) \<Longrightarrow> establishes I (if b then m else n)"
  by simp

lemma bind_x_ok:
  assumes "fst (bind_x m k w) = Inr b"
  obtains a where "fst (m w) = Inr a" "bind_x m k w = k a (snd (m w))" "fst (k a (snd (m w))) = Inr b"
  using assms by (cases "fst (m w)") (auto simp: run_simps)

lemma then_x_ok:
  assumes "fst (then_x m n w) = Inr b"
  obtains a where "fst (m w) = Inr a" "then_x m n w = n (snd (m w))" "fst (n (snd (m w))) = Inr b"
  using assms by (cases "fst (m w)") (auto simp: run_simps)

lemma ensures_true_bind:
  "(\<And>a. ensures (\<lambda>_. True) (k a) Q) \<Longrightarrow> ensures (\<lambda>_. True) (bind_x m k) Q"
  by (rule ensures_bind_keep [OF preserves_True])

lemma ensures_true_then: "ensures (\<lambda>_. True) n Q \<Longrightarrow> ensures (\<lambda>_. True) (then_x m n) Q"
  by (rule ensures_then_keep [OF preserves_True])

lemma ensures_bind_value:
  "ensures (\<lambda>_. True) m (\<lambda>r _. Q r) \<Longrightarrow> (\<And>a. Q a \<Longrightarrow> ensures (\<lambda>_. True) (k a) R) \<Longrightarrow>
   ensures (\<lambda>_. True) (bind_x m k) R"
  by (auto simp: ensures_def run_simps split: sum.splits)

lemma ensures_conj_keep:
  "ensures P m (\<lambda>_. P) \<Longrightarrow> ensures R m (\<lambda>_. R) \<Longrightarrow> ensures (\<lambda>w. P w \<and> R w) m (\<lambda>_ w. P w \<and> R w)"
  by (simp add: ensures_def)

lemma ensures_conj_add:
  "ensures P m (\<lambda>_. P) \<Longrightarrow> ensures (\<lambda>_. True) m R \<Longrightarrow> ensures P m (\<lambda>r w. P w \<and> R r w)"
  by (simp add: ensures_def)

section \<open>Total correctness\<close>

text \<open>\<open>achieves P m Q\<close>: from a world that satisfies \<open>P\<close>, \<open>m\<close> returns and does not throw,
  and its return satisfies \<open>Q\<close>.\<close>

definition achieves :: "('w \<Rightarrow> bool) \<Rightarrow> ('w, 'e, 'a) sx \<Rightarrow> ('a \<Rightarrow> 'w \<Rightarrow> bool) \<Rightarrow> bool" where
  "achieves P m Q \<longleftrightarrow> (\<forall>w. P w \<longrightarrow> (\<exists>a. fst (m w) = Inr a \<and> Q a (snd (m w))))"

lemma achievesD: "achieves P m Q \<Longrightarrow> P w \<Longrightarrow> \<exists>a. fst (m w) = Inr a \<and> Q a (snd (m w))"
  by (simp add: achieves_def)

lemma achieves_bind: "achieves P m M \<Longrightarrow> (\<And>a. achieves (M a) (k a) Q) \<Longrightarrow> achieves P (bind_x m k) Q"
  by (fastforce simp: achieves_def run_simps)

lemma achieves_then: "achieves P m (\<lambda>_. M) \<Longrightarrow> achieves M n Q \<Longrightarrow> achieves P (then_x m n) Q"
  unfolding then_x_def by (rule achieves_bind)

lemma achieves_keep: "achieves P m (\<lambda>_. P) \<Longrightarrow> (\<And>a. achieves P (k a) Q) \<Longrightarrow> achieves P (bind_x m k) Q"
  by (rule achieves_bind)

lemma achieves_then_keep: "achieves P m (\<lambda>_. P) \<Longrightarrow> achieves P n Q \<Longrightarrow> achieves P (then_x m n) Q"
  by (rule achieves_then)

lemma achieves_ret: "(\<And>w. P w \<Longrightarrow> Q a w) \<Longrightarrow> achieves P (ret_x a) Q"
  by (simp add: achieves_def run_simps)

lemma achieves_catch: "achieves P m Q \<Longrightarrow> achieves P (catch_x m h) Q"
  by (fastforce simp: achieves_def run_simps)

lemma achieves_when: "achieves P m (\<lambda>_. P) \<Longrightarrow> achieves P (when_x b m) (\<lambda>_. P)"
  by (auto simp: achieves_def run_simps)

lemma achieves_weaken:
  "achieves P m Q \<Longrightarrow> (\<And>w. P' w \<Longrightarrow> P w) \<Longrightarrow> (\<And>a w. Q a w \<Longrightarrow> Q' a w) \<Longrightarrow> achieves P' m Q'"
  by (fastforce simp: achieves_def)

lemma achieves_fixed: "(X \<Longrightarrow> Y \<Longrightarrow> achieves P m Q) \<Longrightarrow> achieves (\<lambda>w. X \<and> Y \<and> P w) m Q"
  by (auto simp: achieves_def)

lemma achieves_preserves:
  "achieves P m (\<lambda>_. P) \<Longrightarrow> preserves I m \<Longrightarrow> achieves (\<lambda>w. P w \<and> I w) m (\<lambda>_ w. P w \<and> I w)"
  by (fastforce simp: achieves_def preserves_def)

section \<open>Table operations\<close>

text \<open>A database table is the list of its rows in insertion order. The operations below are the
  ones the source calls on a Prisma delegate; they are stated on a list, and \<^verbatim>\<open>Schema\<close>
  lifts them to a table of the world.\<close>

definition first_where :: "('r \<Rightarrow> bool) \<Rightarrow> 'r list \<Rightarrow> 'r option" where
  "first_where P t = List.find P t"

definition count_where :: "('r \<Rightarrow> bool) \<Rightarrow> 'r list \<Rightarrow> nat" where
  "count_where P t = length (filter P t)"

definition update_where :: "('r \<Rightarrow> bool) \<Rightarrow> ('r \<Rightarrow> 'r) \<Rightarrow> 'r list \<Rightarrow> 'r list" where
  "update_where P f t = map (\<lambda>r. if P r then f r else r) t"

text \<open>Postgres orders \<^verbatim>\<open>asc\<close> and \<^verbatim>\<open>desc\<close> by a key; rows with equal keys keep their
  insertion order here.\<close>

definition order_asc :: "('r \<Rightarrow> int) \<Rightarrow> 'r list \<Rightarrow> 'r list" where
  "order_asc k t = sort_key k t"

definition order_desc :: "('r \<Rightarrow> int) \<Rightarrow> 'r list \<Rightarrow> 'r list" where
  "order_desc k t = sort_key (\<lambda>r. - k r) t"

lemma first_where_Some: "first_where P t = Some r \<Longrightarrow> r \<in> set t \<and> P r"
  by (auto simp: first_where_def find_Some_iff)

lemma first_where_None: "first_where P t = None \<longleftrightarrow> (\<forall>r \<in> set t. \<not> P r)"
  by (auto simp: first_where_def find_None_iff)

lemma length_update_where [simp]: "length (update_where P f t) = length t"
  by (simp add: update_where_def)

lemma map_update_where:
  "(\<And>r. P r \<Longrightarrow> g (f r) = g r) \<Longrightarrow> map g (update_where P f t) = map g t"
  by (simp add: update_where_def)

lemma set_update_where: "set (update_where P f t) = (\<lambda>r. if P r then f r else r) ` set t"
  by (simp add: update_where_def)

lemma update_where_none: "count_where P t = 0 \<Longrightarrow> update_where P f t = t"
  by (induction t) (auto simp: update_where_def count_where_def split: if_splits)

lemma filter_update_where:
  "(\<And>r. P r \<Longrightarrow> Q (f r) = Q r) \<Longrightarrow>
   filter Q (update_where P f t) = update_where P f (filter Q t)"
  by (induction t) (auto simp: update_where_def)

lemma set_order_asc [simp]: "set (order_asc k t) = set t"
  by (simp add: order_asc_def)

lemma set_order_desc [simp]: "set (order_desc k t) = set t"
  by (simp add: order_desc_def)

lemma order_asc_sorted: "sorted (map k (order_asc k t))"
  by (simp add: order_asc_def)

end
