(* ===== verification/Json.thy ===== *)
theory Json
  imports Exec "HOL-Library.List_Lexorder" "HOL-Library.Char_ord" "HOL-Library.Multiset"
begin

text \<open>
  JSON values, and the canonical text of \<^verbatim>\<open>apps/api/src/channels/channel-sanitizer.ts\<close>
  (\<^verbatim>\<open>stableStringify\<close>). A number is a rational; printing it is the parameter \<open>num\<close>
  (ECMAScript \<^verbatim>\<open>Number::toString\<close>). An object is an association list in insertion order.
\<close>

datatype json =
    JNull
  | JBool bool
  | JNum rat
  | JStr string
  | JArr "json list"
  | JObj "(string \<times> json) list"

definition j_str :: "string option \<Rightarrow> json" where
  "j_str v = (case v of None \<Rightarrow> JNull | Some s \<Rightarrow> JStr s)"

definition j_int :: "int \<Rightarrow> json" where
  "j_int n = JNum (of_int n)"

text \<open>An object field given as \<^verbatim>\<open>undefined\<close> is not stored.\<close>

definition j_field :: "string \<Rightarrow> json option \<Rightarrow> (string \<times> json) list" where
  "j_field k v = (case v of None \<Rightarrow> [] | Some j \<Rightarrow> [(k, j)])"

definition j_get :: "string \<Rightarrow> json \<Rightarrow> json option" where
  "j_get k j = (case j of JObj kvs \<Rightarrow> map_of kvs k | _ \<Rightarrow> None)"

definition j_get_str :: "string \<Rightarrow> json \<Rightarrow> string option" where
  "j_get_str k j = (case j_get k j of Some (JStr s) \<Rightarrow> Some s | _ \<Rightarrow> None)"

section \<open>Text of a value\<close>

text \<open>The bytes of a text in UTF-8; a character above 127 takes two.\<close>

definition utf8 :: "string \<Rightarrow> string" where
  "utf8 s = concat (map (\<lambda>c. let n = (of_char c :: nat) in
     if n < 128 then [c] else [char_of (192 + n div 64), char_of (128 + n mod 64)]) s)"

definition hex_char :: "nat \<Rightarrow> char" where
  "hex_char n = (if n < 10 then char_of (48 + n) else char_of (87 + n))"

definition escape_char :: "char \<Rightarrow> string" where
  "escape_char c =
     (let n = (of_char c :: nat)
      in if n = 34 then [char_of (92::nat), char_of (34::nat)]
         else if n = 92 then [char_of (92::nat), char_of (92::nat)]
         else if n = 8 then char_of (92::nat) # ''b''
         else if n = 9 then char_of (92::nat) # ''t''
         else if n = 10 then char_of (92::nat) # ''n''
         else if n = 12 then char_of (92::nat) # ''f''
         else if n = 13 then char_of (92::nat) # ''r''
         else if n < 32 then char_of (92::nat) # ''u00'' @ [hex_char (n div 16), hex_char (n mod 16)]
         else [c])"

definition quote_string :: "string \<Rightarrow> string" where
  "quote_string s = [char_of (34::nat)] @ concat (map escape_char s) @ [char_of (34::nat)]"

text \<open>\<^verbatim>\<open>stableStringify\<close>: keys in code unit order, no white space.\<close>

fun stableStringify :: "(rat \<Rightarrow> string) \<Rightarrow> json \<Rightarrow> string" where
  "stableStringify num JNull = ''null''"
| "stableStringify num (JBool b) = (if b then ''true'' else ''false'')"
| "stableStringify num (JNum q) = num q"
| "stableStringify num (JStr s) = quote_string s"
| "stableStringify num (JArr js) = ''['' @ join_with '','' (map (stableStringify num) js) @ '']''"
| "stableStringify num (JObj kvs) =
     ''{'' @ join_with '',''
       (map (\<lambda>e. quote_string (fst e) @ '':'' @ snd e)
         (sort_key fst (map (\<lambda>e. (fst e, stableStringify num (snd e))) kvs))) @ ''}''"

text \<open>Deep reordering of the keys of the objects of a value.\<close>

inductive reordered :: "json \<Rightarrow> json \<Rightarrow> bool" where
  refl: "reordered j j"
| arr: "list_all2 reordered js ks \<Longrightarrow> reordered (JArr js) (JArr ks)"
| obj: "list_all2 (\<lambda>a b. fst a = fst b \<and> reordered (snd a) (snd b)) kvs mvs \<Longrightarrow>
        mset mvs = mset nvs \<Longrightarrow> distinct (map fst kvs) \<Longrightarrow> reordered (JObj kvs) (JObj nvs)"
monos list_all2_mono

lemma sort_key_mset_eq:
  assumes "mset xs = mset ys" "distinct (map f xs)"
  shows "sort_key f xs = sort_key (f :: 'a \<Rightarrow> 'b::linorder) ys"
proof -
  have uniq: "filter (\<lambda>x. f k = f x) zs = [k]" if "distinct (map f zs)" "k \<in> set zs" for zs k
    using that
  proof (induction zs)
    case (Cons z zs)
    have nil: "f z \<notin> f ` set ws \<Longrightarrow> filter (\<lambda>x. f z = f x) ws = []" for ws
      by (induction ws) auto
    from Cons nil show ?case by (cases "z = k") auto
  qed simp
  have d: "distinct (map f zs)" if "mset zs = mset xs" for zs
    using that assms(2) by (metis mset_eq_imp_distinct_iff mset_map)
  have "sort_key f ys = sort_key f xs"
  proof (rule properties_for_sort_key)
    show "mset (sort_key f xs) = mset ys" using assms(1) by simp
  next
    fix k assume "k \<in> set (sort_key f xs)"
    moreover from this have "k \<in> set ys" using assms(1) by (metis mset_eq_setD set_sort)
    ultimately show "filter (\<lambda>x. f k = f x) (sort_key f xs) = filter (\<lambda>x. f k = f x) ys"
      using uniq d assms(1) by (metis mset_sort)
  qed simp
  then show ?thesis by simp
qed

lemma stable_obj_cong:
  assumes "list_all2 (\<lambda>a b. fst a = fst b \<and> stableStringify num (snd a) = stableStringify num (snd b)) kvs mvs"
    and "mset mvs = mset nvs" and "distinct (map fst kvs)"
  shows "stableStringify num (JObj kvs) = stableStringify num (JObj nvs)"
proof -
  let ?g = "\<lambda>e. (fst e, stableStringify num (snd e))"
  have kv: "map ?g kvs = map ?g mvs" "map fst kvs = map fst mvs"
    using assms(1) by (induction rule: list_all2_induct) simp_all
  have "sort_key fst (map ?g mvs) = sort_key fst (map ?g nvs)"
  proof (rule sort_key_mset_eq)
    show "mset (map ?g mvs) = mset (map ?g nvs)" using assms(2) by simp
    show "distinct (map fst (map ?g mvs))" using assms(3) kv(2) by (simp add: comp_def)
  qed
  with kv show ?thesis by simp
qed

section \<open>Independence of the order of keys\<close>

text \<open>The stable serialisation, which is what a payload's hash is taken of, does not depend on
  the order in which the keys of an object arrive, at any depth.\<close>

theorem stable_reordered:
  "reordered a b \<Longrightarrow> stableStringify num a = stableStringify num b"
proof (induction rule: reordered.induct)
  case (arr js ks)
  then have "map (stableStringify num) js = map (stableStringify num) ks"
    by (induction rule: list_all2_induct) simp_all
  then show ?case by simp
next
  case (obj kvs mvs nvs)
  show ?case
    by (rule stable_obj_cong [OF _ obj(2,3)]) (rule list_all2_mono [OF obj(1)], simp)
qed simp

theorem stable_reordered_witness:
  "stableStringify (\<lambda>q. show_int \<lfloor>q\<rfloor>) (JObj [(''a'', JNull), (''b'', JBool True)]) =
   stableStringify (\<lambda>q. show_int \<lfloor>q\<rfloor>) (JObj [(''b'', JBool True), (''a'', JNull)])"
  by (rule stable_reordered, rule reordered.obj
      [where mvs = "[(''a'', JNull), (''b'', JBool True)]"]) (auto intro: reordered.refl)

end
