(* ===== verification/Schema.thy ===== *)
theory Schema
  imports Json
begin

text \<open>
  The data model: the enumerations and tables of \<^verbatim>\<open>packages/db/prisma/schema.prisma\<close>.
  A table row is a record whose fields carry a table prefix (\<open>om_status\<close> is
  \<^verbatim>\<open>OutboundMessage.status\<close>); a nullable column is an \<open>option\<close>, a date is its
  milliseconds since the epoch, an id is its text. \<open>blank_...\<close> is a row with the column
  defaults of the schema, so a Prisma \<^verbatim>\<open>create\<close> reads as an update of it. The
  \<^verbatim>\<open>updatedAt\<close> columns that no code reads are left out.
\<close>

section \<open>Enumerations\<close>

datatype TicketStatus =
    OPEN | PENDING | WAITING_CUSTOMER | RESOLVED | CLOSED

datatype TicketPriority =
    LOW | NORMAL | HIGH | URGENT

datatype ApprovalStatus =
    PENDING | APPROVED | REJECTED

datatype MessageDirection =
    INBOUND | OUTBOUND

datatype MessageStatus =
    RECEIVED | DRAFTED | SENT

datatype DraftStatus =
    DRAFT | PENDING_APPROVAL | APPROVED | REJECTED | SENT

datatype AgentRunStatus =
    QUEUED | RUNNING | SUCCEEDED | FAILED | BLOCKED | CANCELLED

datatype AgentStepType =
    ROUTER | RETRIEVER | RESOLVER | CRITIC

datatype AgentStepStatus =
    STARTED | SUCCEEDED | FAILED | BLOCKED

datatype AgentRunTrigger =
    TICKET_CREATED | HUMAN_REQUESTED_RETRY | SCHEDULED

datatype AgentEventType =
    RUN_QUEUED | RUN_STARTED | ROUTER_STARTED | ROUTER_DECISION | RETRIEVER_STARTED
    | RETRIEVER_RESULTS | KNOWLEDGE_USED | KNOWLEDGE_NOT_FOUND | RESOLVER_STARTED
    | RESOLVER_DRAFTED | CRITIC_STARTED | CRITIC_REVIEWED | CRITIC_BLOCKED | DRAFT_CREATED
    | DRAFT_EDITED | DRAFT_APPROVED | DRAFT_REJECTED | DRAFT_AUTO_APPROVED | DRAFT_SENT
    | OUTBOUND_MESSAGE_CREATED | HUMAN_APPROVAL_CREATED | AGENT_STEP_FAILED
    | TICKET_STATUS_CHANGED | TICKET_PRIORITY_CHANGED | RUN_FINISHED | RUN_FAILED
    | GUARDRAIL_STARTED | GUARDRAIL_CHECK_PASSED | GUARDRAIL_REQUIRES_APPROVAL
    | GUARDRAIL_BLOCKED | GUARDRAIL_PII_DETECTED | GUARDRAIL_SECRET_DETECTED
    | GUARDRAIL_COST_LIMIT_EXCEEDED | GUARDRAIL_KNOWLEDGE_GROUNDING_FAILED
    | LLM_CALL_STARTED | LLM_CALL_SUCCEEDED | LLM_CALL_FAILED | LLM_FALLBACK_USED
    | LLM_USAGE_RECORDED | CHANNEL_CONNECTION_CREATED | CHANNEL_CONNECTION_UPDATED
    | CHANNEL_CONNECTION_DISABLED | CHANNEL_CONNECTION_ENABLED | CHANNEL_CONNECTION_TESTED
    | CHANNEL_WEBHOOK_RECEIVED | CHANNEL_WEBHOOK_DUPLICATE | CHANNEL_WEBHOOK_REJECTED
    | CHANNEL_CUSTOMER_MATCHED | CHANNEL_CONVERSATION_CREATED | CHANNEL_MESSAGE_RECEIVED
    | CHANNEL_TICKET_CREATED | CHANNEL_ATTACHMENT_RECORDED
    | CHANNEL_DRAFT_APPROVED_FOR_DELIVERY | CHANNEL_OUTBOUND_QUEUED
    | CHANNEL_DELIVERY_ATTEMPT_STARTED | CHANNEL_DELIVERY_RETRY_SCHEDULED
    | CHANNEL_MESSAGE_SENT | CHANNEL_MESSAGE_DELIVERED | CHANNEL_MESSAGE_FAILED
    | CHANNEL_MESSAGE_DEAD_LETTERED | CHANNEL_MESSAGE_REPLAYED | CHANNEL_OUTBOUND_CANCELLED

datatype KnowledgeArticleStatus =
    DRAFT | PUBLISHED | ARCHIVED

datatype GuardrailDecision =
    ALLOW | REQUIRE_APPROVAL | BLOCK

datatype GuardrailType =
    COST_LIMIT | SAFETY_POLICY | KNOWLEDGE_GROUNDING | PII_DETECTION | SECRET_DETECTION
    | AUTO_SEND_POLICY

datatype OrganizationRole =
    OWNER | ADMIN | AGENT | VIEWER

datatype ActorType =
    USER | AGENT | SYSTEM

datatype ChannelProvider =
    MOCK_EMAIL | GENERIC_EMAIL

datatype ChannelConnectionStatus =
    ACTIVE | DISABLED | ERROR

datatype ConversationStatus =
    OPEN | CLOSED | ARCHIVED

datatype ExternalMessageDirection =
    INBOUND | OUTBOUND

datatype MessageAttachmentStatus =
    METADATA_ONLY | AVAILABLE | REJECTED | QUARANTINED

datatype WebhookReceiptStatus =
    RECEIVED | VERIFIED | PROCESSING | PROCESSED | DUPLICATE | REJECTED | FAILED

datatype OutboundMessageStatus =
    PENDING | PROCESSING | SENT | DELIVERED | RETRY_SCHEDULED | FAILED | DEAD_LETTER
    | CANCELLED

datatype DeliveryAttemptOutcome =
    SUCCEEDED | RETRYABLE_FAILURE | PERMANENT_FAILURE | UNKNOWN

datatype InboundDispatchStatus =
    PENDING | PROCESSING | COMPLETED | FAILED

primrec name_of_TicketStatus :: "TicketStatus \<Rightarrow> string" where
  "name_of_TicketStatus TicketStatus.OPEN = ''OPEN''"
| "name_of_TicketStatus TicketStatus.PENDING = ''PENDING''"
| "name_of_TicketStatus TicketStatus.WAITING_CUSTOMER = ''WAITING_CUSTOMER''"
| "name_of_TicketStatus TicketStatus.RESOLVED = ''RESOLVED''"
| "name_of_TicketStatus TicketStatus.CLOSED = ''CLOSED''"

primrec name_of_TicketPriority :: "TicketPriority \<Rightarrow> string" where
  "name_of_TicketPriority TicketPriority.LOW = ''LOW''"
| "name_of_TicketPriority TicketPriority.NORMAL = ''NORMAL''"
| "name_of_TicketPriority TicketPriority.HIGH = ''HIGH''"
| "name_of_TicketPriority TicketPriority.URGENT = ''URGENT''"

primrec name_of_ApprovalStatus :: "ApprovalStatus \<Rightarrow> string" where
  "name_of_ApprovalStatus ApprovalStatus.PENDING = ''PENDING''"
| "name_of_ApprovalStatus ApprovalStatus.APPROVED = ''APPROVED''"
| "name_of_ApprovalStatus ApprovalStatus.REJECTED = ''REJECTED''"

primrec name_of_DraftStatus :: "DraftStatus \<Rightarrow> string" where
  "name_of_DraftStatus DraftStatus.DRAFT = ''DRAFT''"
| "name_of_DraftStatus DraftStatus.PENDING_APPROVAL = ''PENDING_APPROVAL''"
| "name_of_DraftStatus DraftStatus.APPROVED = ''APPROVED''"
| "name_of_DraftStatus DraftStatus.REJECTED = ''REJECTED''"
| "name_of_DraftStatus DraftStatus.SENT = ''SENT''"

primrec name_of_AgentRunStatus :: "AgentRunStatus \<Rightarrow> string" where
  "name_of_AgentRunStatus AgentRunStatus.QUEUED = ''QUEUED''"
| "name_of_AgentRunStatus AgentRunStatus.RUNNING = ''RUNNING''"
| "name_of_AgentRunStatus AgentRunStatus.SUCCEEDED = ''SUCCEEDED''"
| "name_of_AgentRunStatus AgentRunStatus.FAILED = ''FAILED''"
| "name_of_AgentRunStatus AgentRunStatus.BLOCKED = ''BLOCKED''"
| "name_of_AgentRunStatus AgentRunStatus.CANCELLED = ''CANCELLED''"

primrec name_of_AgentStepType :: "AgentStepType \<Rightarrow> string" where
  "name_of_AgentStepType AgentStepType.ROUTER = ''ROUTER''"
| "name_of_AgentStepType AgentStepType.RETRIEVER = ''RETRIEVER''"
| "name_of_AgentStepType AgentStepType.RESOLVER = ''RESOLVER''"
| "name_of_AgentStepType AgentStepType.CRITIC = ''CRITIC''"

primrec name_of_AgentRunTrigger :: "AgentRunTrigger \<Rightarrow> string" where
  "name_of_AgentRunTrigger AgentRunTrigger.TICKET_CREATED = ''TICKET_CREATED''"
| "name_of_AgentRunTrigger AgentRunTrigger.HUMAN_REQUESTED_RETRY = ''HUMAN_REQUESTED_RETRY''"
| "name_of_AgentRunTrigger AgentRunTrigger.SCHEDULED = ''SCHEDULED''"

primrec name_of_GuardrailDecision :: "GuardrailDecision \<Rightarrow> string" where
  "name_of_GuardrailDecision GuardrailDecision.ALLOW = ''ALLOW''"
| "name_of_GuardrailDecision GuardrailDecision.REQUIRE_APPROVAL = ''REQUIRE_APPROVAL''"
| "name_of_GuardrailDecision GuardrailDecision.BLOCK = ''BLOCK''"

primrec name_of_GuardrailType :: "GuardrailType \<Rightarrow> string" where
  "name_of_GuardrailType GuardrailType.COST_LIMIT = ''COST_LIMIT''"
| "name_of_GuardrailType GuardrailType.SAFETY_POLICY = ''SAFETY_POLICY''"
| "name_of_GuardrailType GuardrailType.KNOWLEDGE_GROUNDING = ''KNOWLEDGE_GROUNDING''"
| "name_of_GuardrailType GuardrailType.PII_DETECTION = ''PII_DETECTION''"
| "name_of_GuardrailType GuardrailType.SECRET_DETECTION = ''SECRET_DETECTION''"
| "name_of_GuardrailType GuardrailType.AUTO_SEND_POLICY = ''AUTO_SEND_POLICY''"

primrec name_of_OrganizationRole :: "OrganizationRole \<Rightarrow> string" where
  "name_of_OrganizationRole OrganizationRole.OWNER = ''OWNER''"
| "name_of_OrganizationRole OrganizationRole.ADMIN = ''ADMIN''"
| "name_of_OrganizationRole OrganizationRole.AGENT = ''AGENT''"
| "name_of_OrganizationRole OrganizationRole.VIEWER = ''VIEWER''"

primrec name_of_ActorType :: "ActorType \<Rightarrow> string" where
  "name_of_ActorType ActorType.USER = ''USER''"
| "name_of_ActorType ActorType.AGENT = ''AGENT''"
| "name_of_ActorType ActorType.SYSTEM = ''SYSTEM''"

primrec name_of_ChannelProvider :: "ChannelProvider \<Rightarrow> string" where
  "name_of_ChannelProvider ChannelProvider.MOCK_EMAIL = ''MOCK_EMAIL''"
| "name_of_ChannelProvider ChannelProvider.GENERIC_EMAIL = ''GENERIC_EMAIL''"

primrec name_of_OutboundMessageStatus :: "OutboundMessageStatus \<Rightarrow> string" where
  "name_of_OutboundMessageStatus OutboundMessageStatus.PENDING = ''PENDING''"
| "name_of_OutboundMessageStatus OutboundMessageStatus.PROCESSING = ''PROCESSING''"
| "name_of_OutboundMessageStatus OutboundMessageStatus.SENT = ''SENT''"
| "name_of_OutboundMessageStatus OutboundMessageStatus.DELIVERED = ''DELIVERED''"
| "name_of_OutboundMessageStatus OutboundMessageStatus.RETRY_SCHEDULED = ''RETRY_SCHEDULED''"
| "name_of_OutboundMessageStatus OutboundMessageStatus.FAILED = ''FAILED''"
| "name_of_OutboundMessageStatus OutboundMessageStatus.DEAD_LETTER = ''DEAD_LETTER''"
| "name_of_OutboundMessageStatus OutboundMessageStatus.CANCELLED = ''CANCELLED''"

section \<open>Rows\<close>

record organization =
  og_id :: "string"
  og_name :: "string"
  og_slug :: "string"
  og_createdAt :: "int"

definition blank_organization :: organization where
  "blank_organization = \<lparr>
     og_id = [], og_name = [], og_slug = [], og_createdAt = 0\<rparr>"

record user =
  us_id :: "string"
  us_email :: "string"
  us_normalizedEmail :: "string"
  us_passwordHash :: "string"
  us_displayName :: "string option"
  us_isActive :: "bool"
  us_createdAt :: "int"

definition blank_user :: user where
  "blank_user = \<lparr>
     us_id = [], us_email = [], us_normalizedEmail = [], us_passwordHash = [],
     us_displayName = None, us_isActive = True, us_createdAt = 0\<rparr>"

record membership =
  mb_id :: "string"
  mb_userId :: "string"
  mb_organizationId :: "string"
  mb_role :: "OrganizationRole"
  mb_createdAt :: "int"

definition blank_membership :: membership where
  "blank_membership = \<lparr>
     mb_id = [], mb_userId = [], mb_organizationId = [], mb_role = OrganizationRole.VIEWER,
     mb_createdAt = 0\<rparr>"

record refresh_session =
  se_id :: "string"
  se_userId :: "string"
  se_tokenHash :: "string"
  se_expiresAt :: "int"
  se_revokedAt :: "int option"
  se_createdAt :: "int"
  se_lastUsedAt :: "int option"
  se_userAgent :: "string option"
  se_ipAddress :: "string option"

definition blank_refresh_session :: refresh_session where
  "blank_refresh_session = \<lparr>
     se_id = [], se_userId = [], se_tokenHash = [], se_expiresAt = 0, se_revokedAt = None,
     se_createdAt = 0, se_lastUsedAt = None, se_userAgent = None, se_ipAddress = None\<rparr>"

record ticket =
  tk_id :: "string"
  tk_orgId :: "string"
  tk_subject :: "string"
  tk_status :: "TicketStatus"
  tk_priority :: "TicketPriority"
  tk_customerEmail :: "string"
  tk_customerName :: "string option"
  tk_createdAt :: "int"
  tk_updatedAt :: "int"

definition blank_ticket :: ticket where
  "blank_ticket = \<lparr>
     tk_id = [], tk_orgId = [], tk_subject = [], tk_status = TicketStatus.OPEN,
     tk_priority = TicketPriority.NORMAL, tk_customerEmail = [], tk_customerName = None,
     tk_createdAt = 0, tk_updatedAt = 0\<rparr>"

record ticket_message =
  tm_id :: "string"
  tm_orgId :: "string"
  tm_ticketId :: "string"
  tm_direction :: "MessageDirection"
  tm_status :: "MessageStatus"
  tm_body :: "string"
  tm_createdAt :: "int"

definition blank_ticket_message :: ticket_message where
  "blank_ticket_message = \<lparr>
     tm_id = [], tm_orgId = [], tm_ticketId = [], tm_direction = MessageDirection.INBOUND,
     tm_status = MessageStatus.RECEIVED, tm_body = [], tm_createdAt = 0\<rparr>"

record agent_run =
  run_id :: "string"
  run_orgId :: "string"
  run_ticketId :: "string"
  run_correlationId :: "string option"
  run_status :: "AgentRunStatus"
  run_trigger :: "AgentRunTrigger"
  run_queuedAt :: "int"
  run_startedAt :: "int option"
  run_finishedAt :: "int option"
  run_durationMs :: "int option"
  run_attemptCount :: "int"
  run_totalCostCents :: "int"
  run_errorCode :: "string option"
  run_errorMessage :: "string option"
  run_lastErrorCode :: "string option"
  run_lastErrorMessage :: "string option"
  run_failureStage :: "string option"
  run_createdAt :: "int"

definition blank_agent_run :: agent_run where
  "blank_agent_run = \<lparr>
     run_id = [], run_orgId = [], run_ticketId = [], run_correlationId = None,
     run_status = AgentRunStatus.QUEUED, run_trigger = AgentRunTrigger.TICKET_CREATED,
     run_queuedAt = 0, run_startedAt = None, run_finishedAt = None, run_durationMs = None,
     run_attemptCount = 0, run_totalCostCents = 0, run_errorCode = None,
     run_errorMessage = None, run_lastErrorCode = None, run_lastErrorMessage = None,
     run_failureStage = None, run_createdAt = 0\<rparr>"

record agent_step =
  st_id :: "string"
  st_orgId :: "string"
  st_agentRunId :: "string"
  st_stepType :: "AgentStepType"
  st_status :: "AgentStepStatus"
  st_inputJson :: "json option"
  st_outputJson :: "json option"
  st_errorMessage :: "string option"
  st_provider :: "string option"
  st_model :: "string option"
  st_inputTokens :: "int option"
  st_outputTokens :: "int option"
  st_estimatedCostCents :: "int option"
  st_startedAt :: "int"
  st_finishedAt :: "int option"
  st_durationMs :: "int option"
  st_retryCount :: "int"
  st_errorCode :: "string option"
  st_createdAt :: "int"

definition blank_agent_step :: agent_step where
  "blank_agent_step = \<lparr>
     st_id = [], st_orgId = [], st_agentRunId = [], st_stepType = AgentStepType.ROUTER,
     st_status = AgentStepStatus.STARTED, st_inputJson = None, st_outputJson = None,
     st_errorMessage = None, st_provider = None, st_model = None, st_inputTokens = None,
     st_outputTokens = None, st_estimatedCostCents = None, st_startedAt = 0,
     st_finishedAt = None, st_durationMs = None, st_retryCount = 0, st_errorCode = None,
     st_createdAt = 0\<rparr>"

record knowledge_article =
  ka_id :: "string"
  ka_orgId :: "string"
  ka_title :: "string"
  ka_body :: "string"
  ka_status :: "KnowledgeArticleStatus"
  ka_tags :: "string list"
  ka_createdAt :: "int"
  ka_updatedAt :: "int"

definition blank_knowledge_article :: knowledge_article where
  "blank_knowledge_article = \<lparr>
     ka_id = [], ka_orgId = [], ka_title = [], ka_body = [],
     ka_status = KnowledgeArticleStatus.DRAFT, ka_tags = [], ka_createdAt = 0,
     ka_updatedAt = 0\<rparr>"

record knowledge_retrieval =
  kr_id :: "string"
  kr_orgId :: "string"
  kr_ticketId :: "string"
  kr_agentRunId :: "string option"
  kr_query :: "string"
  kr_resultCount :: "int"
  kr_resultsJson :: "json"
  kr_createdAt :: "int"

definition blank_knowledge_retrieval :: knowledge_retrieval where
  "blank_knowledge_retrieval = \<lparr>
     kr_id = [], kr_orgId = [], kr_ticketId = [], kr_agentRunId = None, kr_query = [],
     kr_resultCount = 0, kr_resultsJson = JNull, kr_createdAt = 0\<rparr>"

record agent_event =
  ev_id :: "string"
  ev_orgId :: "string"
  ev_ticketId :: "string"
  ev_runId :: "string option"
  ev_correlationId :: "string option"
  ev_type :: "AgentEventType"
  ev_sequence :: "int"
  ev_payload :: "json"
  ev_latencyMs :: "int option"
  ev_costCents :: "int option"
  ev_createdAt :: "int"

definition blank_agent_event :: agent_event where
  "blank_agent_event = \<lparr>
     ev_id = [], ev_orgId = [], ev_ticketId = [], ev_runId = None, ev_correlationId = None,
     ev_type = AgentEventType.RUN_QUEUED, ev_sequence = 0, ev_payload = JNull,
     ev_latencyMs = None, ev_costCents = None, ev_createdAt = 0\<rparr>"

record org_settings =
  os_id :: "string"
  os_orgId :: "string"
  os_autoRespond :: "bool"
  os_requireHumanApproval :: "bool"
  os_maxAgentCostCents :: "int"
  os_maxAutoSendCostCents :: "int"
  os_requireApprovalForLowConfidence :: "bool"
  os_blockOnPiiDetection :: "bool"
  os_minCriticCompletenessScore :: "int"
  os_createdAt :: "int"

definition blank_org_settings :: org_settings where
  "blank_org_settings = \<lparr>
     os_id = [], os_orgId = [], os_autoRespond = False, os_requireHumanApproval = True,
     os_maxAgentCostCents = 50, os_maxAutoSendCostCents = 25,
     os_requireApprovalForLowConfidence = True, os_blockOnPiiDetection = True,
     os_minCriticCompletenessScore = 70, os_createdAt = 0\<rparr>"

record human_approval =
  ap_id :: "string"
  ap_orgId :: "string"
  ap_ticketId :: "string"
  ap_agentRunId :: "string option"
  ap_outboundDraftId :: "string option"
  ap_reviewedByUserId :: "string option"
  ap_status :: "ApprovalStatus"
  ap_proposedResponse :: "string option"
  ap_reviewerNote :: "string option"
  ap_createdAt :: "int"

definition blank_human_approval :: human_approval where
  "blank_human_approval = \<lparr>
     ap_id = [], ap_orgId = [], ap_ticketId = [], ap_agentRunId = None,
     ap_outboundDraftId = None, ap_reviewedByUserId = None,
     ap_status = ApprovalStatus.PENDING, ap_proposedResponse = None, ap_reviewerNote = None,
     ap_createdAt = 0\<rparr>"

record outbound_draft =
  dr_id :: "string"
  dr_orgId :: "string"
  dr_ticketId :: "string"
  dr_agentRunId :: "string option"
  dr_body :: "string"
  dr_status :: "DraftStatus"
  dr_createdAt :: "int"
  dr_sentAt :: "int option"
  dr_createdBy :: "string"
  dr_approvedBy :: "string option"
  dr_sentBy :: "string option"
  dr_createdByType :: "ActorType"
  dr_createdByUserId :: "string option"
  dr_approvedByType :: "ActorType option"
  dr_approvedByUserId :: "string option"
  dr_sentByType :: "ActorType option"
  dr_sentByUserId :: "string option"
  dr_rejectedReason :: "string option"

definition blank_outbound_draft :: outbound_draft where
  "blank_outbound_draft = \<lparr>
     dr_id = [], dr_orgId = [], dr_ticketId = [], dr_agentRunId = None, dr_body = [],
     dr_status = DraftStatus.DRAFT, dr_createdAt = 0, dr_sentAt = None,
     dr_createdBy = ''agent_stub'', dr_approvedBy = None, dr_sentBy = None,
     dr_createdByType = ActorType.AGENT, dr_createdByUserId = None,
     dr_approvedByType = None, dr_approvedByUserId = None, dr_sentByType = None,
     dr_sentByUserId = None, dr_rejectedReason = None\<rparr>"

record guardrail_check =
  gc_id :: "string"
  gc_orgId :: "string"
  gc_ticketId :: "string"
  gc_agentRunId :: "string option"
  gc_guardrailType :: "GuardrailType"
  gc_decision :: "GuardrailDecision"
  gc_reason :: "string option"
  gc_metadata :: "json option"
  gc_createdAt :: "int"

definition blank_guardrail_check :: guardrail_check where
  "blank_guardrail_check = \<lparr>
     gc_id = [], gc_orgId = [], gc_ticketId = [], gc_agentRunId = None,
     gc_guardrailType = GuardrailType.COST_LIMIT, gc_decision = GuardrailDecision.ALLOW,
     gc_reason = None, gc_metadata = None, gc_createdAt = 0\<rparr>"

record operational_failure =
  of_id :: "string"
  of_organizationId :: "string option"
  of_queueName :: "string"
  of_jobName :: "string"
  of_jobId :: "string option"
  of_correlationId :: "string option"
  of_ticketId :: "string option"
  of_runId :: "string option"
  of_errorCode :: "string"
  of_safeErrorMessage :: "string"
  of_attemptCount :: "int"
  of_payloadSummaryJson :: "json option"
  of_failedAt :: "int"
  of_resolvedAt :: "int option"
  of_resolvedByUserId :: "string option"
  of_resolutionNote :: "string option"
  of_replayedJobId :: "string option"

definition blank_operational_failure :: operational_failure where
  "blank_operational_failure = \<lparr>
     of_id = [], of_organizationId = None, of_queueName = [], of_jobName = [],
     of_jobId = None, of_correlationId = None, of_ticketId = None, of_runId = None,
     of_errorCode = [], of_safeErrorMessage = [], of_attemptCount = 0,
     of_payloadSummaryJson = None, of_failedAt = 0, of_resolvedAt = None,
     of_resolvedByUserId = None, of_resolutionNote = None, of_replayedJobId = None\<rparr>"

record channel_connection =
  cc_id :: "string"
  cc_publicId :: "string"
  cc_organizationId :: "string"
  cc_provider :: "ChannelProvider"
  cc_displayName :: "string"
  cc_status :: "ChannelConnectionStatus"
  cc_externalAccountId :: "string option"
  cc_inboundAddress :: "string option"
  cc_secretReference :: "string option"
  cc_webhookSigningSecretReference :: "string option"
  cc_config :: "json option"
  cc_isDefault :: "bool"
  cc_lastSuccessfulEventAt :: "int option"
  cc_lastErrorAt :: "int option"
  cc_lastErrorCode :: "string option"
  cc_lastErrorRedacted :: "string option"
  cc_createdAt :: "int"
  cc_updatedAt :: "int"
  cc_disabledAt :: "int option"

definition blank_channel_connection :: channel_connection where
  "blank_channel_connection = \<lparr>
     cc_id = [], cc_publicId = [], cc_organizationId = [],
     cc_provider = ChannelProvider.MOCK_EMAIL, cc_displayName = [],
     cc_status = ChannelConnectionStatus.ACTIVE, cc_externalAccountId = None,
     cc_inboundAddress = None, cc_secretReference = None,
     cc_webhookSigningSecretReference = None, cc_config = None, cc_isDefault = False,
     cc_lastSuccessfulEventAt = None, cc_lastErrorAt = None, cc_lastErrorCode = None,
     cc_lastErrorRedacted = None, cc_createdAt = 0, cc_updatedAt = 0, cc_disabledAt = None\<rparr>"

record external_customer =
  cu_id :: "string"
  cu_organizationId :: "string"
  cu_channelConnectionId :: "string"
  cu_externalCustomerId :: "string option"
  cu_email :: "string option"
  cu_normalizedEmail :: "string option"
  cu_displayName :: "string option"
  cu_metadata :: "json option"
  cu_createdAt :: "int"

definition blank_external_customer :: external_customer where
  "blank_external_customer = \<lparr>
     cu_id = [], cu_organizationId = [], cu_channelConnectionId = [],
     cu_externalCustomerId = None, cu_email = None, cu_normalizedEmail = None,
     cu_displayName = None, cu_metadata = None, cu_createdAt = 0\<rparr>"

record conversation =
  cv_id :: "string"
  cv_organizationId :: "string"
  cv_channelConnectionId :: "string"
  cv_externalCustomerId :: "string option"
  cv_ticketId :: "string option"
  cv_externalThreadId :: "string option"
  cv_subject :: "string option"
  cv_status :: "ConversationStatus"
  cv_lastMessageAt :: "int"
  cv_createdAt :: "int"

definition blank_conversation :: conversation where
  "blank_conversation = \<lparr>
     cv_id = [], cv_organizationId = [], cv_channelConnectionId = [],
     cv_externalCustomerId = None, cv_ticketId = None, cv_externalThreadId = None,
     cv_subject = None, cv_status = ConversationStatus.OPEN, cv_lastMessageAt = 0,
     cv_createdAt = 0\<rparr>"

record external_message =
  xm_id :: "string"
  xm_organizationId :: "string"
  xm_conversationId :: "string"
  xm_channelConnectionId :: "string"
  xm_providerMessageId :: "string option"
  xm_providerEventId :: "string option"
  xm_direction :: "ExternalMessageDirection"
  xm_sender :: "json"
  xm_recipients :: "json"
  xm_subject :: "string option"
  xm_textBody :: "string option"
  xm_htmlBody :: "string option"
  xm_sanitizedHtmlBody :: "string option"
  xm_replyToProviderMessageId :: "string option"
  xm_inReplyTo :: "string option"
  xm_references :: "json option"
  xm_receivedAt :: "int option"
  xm_sentAt :: "int option"
  xm_metadata :: "json option"
  xm_createdAt :: "int"

definition blank_external_message :: external_message where
  "blank_external_message = \<lparr>
     xm_id = [], xm_organizationId = [], xm_conversationId = [],
     xm_channelConnectionId = [], xm_providerMessageId = None, xm_providerEventId = None,
     xm_direction = ExternalMessageDirection.INBOUND, xm_sender = JNull,
     xm_recipients = JNull, xm_subject = None, xm_textBody = None, xm_htmlBody = None,
     xm_sanitizedHtmlBody = None, xm_replyToProviderMessageId = None, xm_inReplyTo = None,
     xm_references = None, xm_receivedAt = None, xm_sentAt = None, xm_metadata = None,
     xm_createdAt = 0\<rparr>"

record message_attachment =
  at_id :: "string"
  at_organizationId :: "string"
  at_externalMessageId :: "string"
  at_providerAttachmentId :: "string option"
  at_filename :: "string"
  at_mimeType :: "string"
  at_sizeBytes :: "int"
  at_contentDisposition :: "string option"
  at_contentId :: "string option"
  at_checksum :: "string option"
  at_status :: "MessageAttachmentStatus"
  at_metadata :: "json option"
  at_createdAt :: "int"

definition blank_message_attachment :: message_attachment where
  "blank_message_attachment = \<lparr>
     at_id = [], at_organizationId = [], at_externalMessageId = [],
     at_providerAttachmentId = None, at_filename = [], at_mimeType = [], at_sizeBytes = 0,
     at_contentDisposition = None, at_contentId = None, at_checksum = None,
     at_status = MessageAttachmentStatus.METADATA_ONLY, at_metadata = None, at_createdAt = 0\<rparr>"

record webhook_receipt =
  wr_id :: "string"
  wr_organizationId :: "string"
  wr_channelConnectionId :: "string"
  wr_provider :: "ChannelProvider"
  wr_providerEventId :: "string"
  wr_eventType :: "string"
  wr_signatureVerified :: "bool"
  wr_payloadHash :: "string"
  wr_receivedAt :: "int"
  wr_processedAt :: "int option"
  wr_status :: "WebhookReceiptStatus"
  wr_failureCode :: "string option"
  wr_failureMessageRedacted :: "string option"
  wr_correlationId :: "string option"
  wr_retryCount :: "int"
  wr_metadata :: "json option"

definition blank_webhook_receipt :: webhook_receipt where
  "blank_webhook_receipt = \<lparr>
     wr_id = [], wr_organizationId = [], wr_channelConnectionId = [],
     wr_provider = ChannelProvider.MOCK_EMAIL, wr_providerEventId = [], wr_eventType = [],
     wr_signatureVerified = False, wr_payloadHash = [], wr_receivedAt = 0,
     wr_processedAt = None, wr_status = WebhookReceiptStatus.RECEIVED,
     wr_failureCode = None, wr_failureMessageRedacted = None, wr_correlationId = None,
     wr_retryCount = 0, wr_metadata = None\<rparr>"

record inbound_dispatch =
  di_id :: "string"
  di_organizationId :: "string"
  di_ticketId :: "string"
  di_runId :: "string"
  di_webhookReceiptId :: "string option"
  di_idempotencyKey :: "string"
  di_status :: "InboundDispatchStatus"
  di_availableAt :: "int"
  di_claimedAt :: "int option"
  di_completedAt :: "int option"
  di_attemptCount :: "int"
  di_lockOwner :: "string option"
  di_lockExpiresAt :: "int option"
  di_lastErrorCode :: "string option"
  di_lastErrorRedacted :: "string option"
  di_jobId :: "string option"
  di_payload :: "json"
  di_createdAt :: "int"

definition blank_inbound_dispatch :: inbound_dispatch where
  "blank_inbound_dispatch = \<lparr>
     di_id = [], di_organizationId = [], di_ticketId = [], di_runId = [],
     di_webhookReceiptId = None, di_idempotencyKey = [],
     di_status = InboundDispatchStatus.PENDING, di_availableAt = 0, di_claimedAt = None,
     di_completedAt = None, di_attemptCount = 0, di_lockOwner = None,
     di_lockExpiresAt = None, di_lastErrorCode = None, di_lastErrorRedacted = None,
     di_jobId = None, di_payload = JNull, di_createdAt = 0\<rparr>"

record outbound_message =
  om_id :: "string"
  om_organizationId :: "string"
  om_conversationId :: "string"
  om_channelConnectionId :: "string"
  om_ticketId :: "string"
  om_draftId :: "string"
  om_externalMessageId :: "string option"
  om_idempotencyKey :: "string"
  om_status :: "OutboundMessageStatus"
  om_subject :: "string option"
  om_textBody :: "string"
  om_htmlBody :: "string option"
  om_recipients :: "json"
  om_providerMessageId :: "string option"
  om_approvedByUserId :: "string option"
  om_approvedAt :: "int option"
  om_queuedAt :: "int"
  om_processingStartedAt :: "int option"
  om_sentAt :: "int option"
  om_deliveredAt :: "int option"
  om_failedAt :: "int option"
  om_nextAttemptAt :: "int option"
  om_attemptCount :: "int"
  om_maxAttempts :: "int"
  om_leaseOwner :: "string option"
  om_leaseExpiresAt :: "int option"
  om_lastErrorCode :: "string option"
  om_lastErrorRedacted :: "string option"
  om_createdAt :: "int"
  om_updatedAt :: "int"

definition blank_outbound_message :: outbound_message where
  "blank_outbound_message = \<lparr>
     om_id = [], om_organizationId = [], om_conversationId = [],
     om_channelConnectionId = [], om_ticketId = [], om_draftId = [],
     om_externalMessageId = None, om_idempotencyKey = [],
     om_status = OutboundMessageStatus.PENDING, om_subject = None, om_textBody = [],
     om_htmlBody = None, om_recipients = JNull, om_providerMessageId = None,
     om_approvedByUserId = None, om_approvedAt = None, om_queuedAt = 0,
     om_processingStartedAt = None, om_sentAt = None, om_deliveredAt = None,
     om_failedAt = None, om_nextAttemptAt = None, om_attemptCount = 0, om_maxAttempts = 3,
     om_leaseOwner = None, om_leaseExpiresAt = None, om_lastErrorCode = None,
     om_lastErrorRedacted = None, om_createdAt = 0, om_updatedAt = 0\<rparr>"

record delivery_attempt =
  da_id :: "string"
  da_organizationId :: "string"
  da_outboundMessageId :: "string"
  da_attemptNumber :: "int"
  da_startedAt :: "int"
  da_completedAt :: "int option"
  da_outcome :: "DeliveryAttemptOutcome"
  da_providerStatusCode :: "int option"
  da_providerErrorCode :: "string option"
  da_retryable :: "bool"
  da_responseMetadata :: "json option"
  da_errorRedacted :: "string option"
  da_correlationId :: "string option"

definition blank_delivery_attempt :: delivery_attempt where
  "blank_delivery_attempt = \<lparr>
     da_id = [], da_organizationId = [], da_outboundMessageId = [], da_attemptNumber = 0,
     da_startedAt = 0, da_completedAt = None, da_outcome = DeliveryAttemptOutcome.UNKNOWN,
     da_providerStatusCode = None, da_providerErrorCode = None, da_retryable = False,
     da_responseMetadata = None, da_errorRedacted = None, da_correlationId = None\<rparr>"

record channel_audit_event =
  ca_id :: "string"
  ca_organizationId :: "string"
  ca_actorUserId :: "string option"
  ca_action :: "string"
  ca_targetType :: "string"
  ca_targetId :: "string"
  ca_correlationId :: "string option"
  ca_metadata :: "json option"
  ca_createdAt :: "int"

definition blank_channel_audit_event :: channel_audit_event where
  "blank_channel_audit_event = \<lparr>
     ca_id = [], ca_organizationId = [], ca_actorUserId = None, ca_action = [],
     ca_targetType = [], ca_targetId = [], ca_correlationId = None, ca_metadata = None,
     ca_createdAt = 0\<rparr>"

section \<open>The database\<close>

record db =
  organizations :: "organization list"
  users :: "user list"
  organizationMemberships :: "membership list"
  refreshSessions :: "refresh_session list"
  tickets :: "ticket list"
  ticketMessages :: "ticket_message list"
  agentRuns :: "agent_run list"
  agentSteps :: "agent_step list"
  knowledgeArticles :: "knowledge_article list"
  knowledgeRetrievals :: "knowledge_retrieval list"
  agentEvents :: "agent_event list"
  organizationSettings :: "org_settings list"
  humanApprovals :: "human_approval list"
  outboundDrafts :: "outbound_draft list"
  agentGuardrailChecks :: "guardrail_check list"
  operationalFailures :: "operational_failure list"
  channelConnections :: "channel_connection list"
  externalCustomers :: "external_customer list"
  conversations :: "conversation list"
  externalMessages :: "external_message list"
  messageAttachments :: "message_attachment list"
  webhookReceipts :: "webhook_receipt list"
  inboundDispatches :: "inbound_dispatch list"
  outboundMessages :: "outbound_message list"
  deliveryAttempts :: "delivery_attempt list"
  channelAuditEvents :: "channel_audit_event list"

definition empty_db :: db where
  "empty_db = \<lparr>
     organizations = [], users = [], organizationMemberships = [], refreshSessions = [],
     tickets = [], ticketMessages = [], agentRuns = [], agentSteps = [],
     knowledgeArticles = [], knowledgeRetrievals = [], agentEvents = [],
     organizationSettings = [], humanApprovals = [], outboundDrafts = [],
     agentGuardrailChecks = [], operationalFailures = [], channelConnections = [],
     externalCustomers = [], conversations = [], externalMessages = [],
     messageAttachments = [], webhookReceipts = [], inboundDispatches = [],
     outboundMessages = [], deliveryAttempts = [], channelAuditEvents = []\<rparr>"

text \<open>
  A table: how to read and write it, its key, the clash of two rows on a unique index (a
  \<^verbatim>\<open>NULL\<close> never clashes; the primary key is one of the indexes), and the maintenance
  of \<^verbatim>\<open>updatedAt\<close>.
\<close>

record 'r table =
  t_get :: "db \<Rightarrow> 'r list"
  t_map :: "('r list \<Rightarrow> 'r list) \<Rightarrow> db \<Rightarrow> db"
  t_id :: "'r \<Rightarrow> string"
  t_clash :: "'r \<Rightarrow> 'r \<Rightarrow> bool"
  t_touch :: "int \<Rightarrow> 'r \<Rightarrow> 'r"

definition both_some :: "'a option \<Rightarrow> 'a option \<Rightarrow> bool" where
  "both_some a b \<longleftrightarrow> (case a of None \<Rightarrow> False | Some x \<Rightarrow> b = Some x)"

lemma both_some_simps [simp]:
  "\<not> both_some None b" "both_some (Some x) b \<longleftrightarrow> b = Some x" "\<not> both_some a None"
  "both_some a (Some x) \<longleftrightarrow> a = Some x"
  by (auto simp: both_some_def split: option.splits)

lemma both_some_sym: "both_some a b \<Longrightarrow> both_some b a"
  by (auto simp: both_some_def split: option.splits)

definition organization_clash :: "organization \<Rightarrow> organization \<Rightarrow> bool" where
  "organization_clash a b \<longleftrightarrow>
     og_id a = og_id b \<or>
     og_slug a = og_slug b"

definition organization_t :: "organization table" where
  "organization_t = \<lparr>t_get = organizations, t_map = (\<lambda>f d. d\<lparr>organizations := f (organizations d)\<rparr>), t_id = og_id,
     t_clash = organization_clash, t_touch = (\<lambda>now r. r)\<rparr>"

definition user_clash :: "user \<Rightarrow> user \<Rightarrow> bool" where
  "user_clash a b \<longleftrightarrow>
     us_id a = us_id b \<or>
     us_email a = us_email b \<or>
     us_normalizedEmail a = us_normalizedEmail b"

definition user_t :: "user table" where
  "user_t = \<lparr>t_get = users, t_map = (\<lambda>f d. d\<lparr>users := f (users d)\<rparr>), t_id = us_id,
     t_clash = user_clash, t_touch = (\<lambda>now r. r)\<rparr>"

definition organizationMembership_clash :: "membership \<Rightarrow> membership \<Rightarrow> bool" where
  "organizationMembership_clash a b \<longleftrightarrow>
     mb_id a = mb_id b \<or>
     (mb_userId a = mb_userId b \<and> mb_organizationId a = mb_organizationId b)"

definition organizationMembership_t :: "membership table" where
  "organizationMembership_t = \<lparr>t_get = organizationMemberships, t_map = (\<lambda>f d. d\<lparr>organizationMemberships := f (organizationMemberships d)\<rparr>), t_id = mb_id,
     t_clash = organizationMembership_clash, t_touch = (\<lambda>now r. r)\<rparr>"

definition refreshSession_clash :: "refresh_session \<Rightarrow> refresh_session \<Rightarrow> bool" where
  "refreshSession_clash a b \<longleftrightarrow>
     se_id a = se_id b \<or>
     se_tokenHash a = se_tokenHash b"

definition refreshSession_t :: "refresh_session table" where
  "refreshSession_t = \<lparr>t_get = refreshSessions, t_map = (\<lambda>f d. d\<lparr>refreshSessions := f (refreshSessions d)\<rparr>), t_id = se_id,
     t_clash = refreshSession_clash, t_touch = (\<lambda>now r. r)\<rparr>"

definition ticket_clash :: "ticket \<Rightarrow> ticket \<Rightarrow> bool" where
  "ticket_clash a b \<longleftrightarrow>
     tk_id a = tk_id b"

definition ticket_t :: "ticket table" where
  "ticket_t = \<lparr>t_get = tickets, t_map = (\<lambda>f d. d\<lparr>tickets := f (tickets d)\<rparr>), t_id = tk_id,
     t_clash = ticket_clash, t_touch = (\<lambda>now r. r\<lparr>tk_updatedAt := now\<rparr>)\<rparr>"

definition ticketMessage_clash :: "ticket_message \<Rightarrow> ticket_message \<Rightarrow> bool" where
  "ticketMessage_clash a b \<longleftrightarrow>
     tm_id a = tm_id b"

definition ticketMessage_t :: "ticket_message table" where
  "ticketMessage_t = \<lparr>t_get = ticketMessages, t_map = (\<lambda>f d. d\<lparr>ticketMessages := f (ticketMessages d)\<rparr>), t_id = tm_id,
     t_clash = ticketMessage_clash, t_touch = (\<lambda>now r. r)\<rparr>"

definition agentRun_clash :: "agent_run \<Rightarrow> agent_run \<Rightarrow> bool" where
  "agentRun_clash a b \<longleftrightarrow>
     run_id a = run_id b"

definition agentRun_t :: "agent_run table" where
  "agentRun_t = \<lparr>t_get = agentRuns, t_map = (\<lambda>f d. d\<lparr>agentRuns := f (agentRuns d)\<rparr>), t_id = run_id,
     t_clash = agentRun_clash, t_touch = (\<lambda>now r. r)\<rparr>"

definition agentStep_clash :: "agent_step \<Rightarrow> agent_step \<Rightarrow> bool" where
  "agentStep_clash a b \<longleftrightarrow>
     st_id a = st_id b"

definition agentStep_t :: "agent_step table" where
  "agentStep_t = \<lparr>t_get = agentSteps, t_map = (\<lambda>f d. d\<lparr>agentSteps := f (agentSteps d)\<rparr>), t_id = st_id,
     t_clash = agentStep_clash, t_touch = (\<lambda>now r. r)\<rparr>"

definition knowledgeArticle_clash :: "knowledge_article \<Rightarrow> knowledge_article \<Rightarrow> bool" where
  "knowledgeArticle_clash a b \<longleftrightarrow>
     ka_id a = ka_id b"

definition knowledgeArticle_t :: "knowledge_article table" where
  "knowledgeArticle_t = \<lparr>t_get = knowledgeArticles, t_map = (\<lambda>f d. d\<lparr>knowledgeArticles := f (knowledgeArticles d)\<rparr>), t_id = ka_id,
     t_clash = knowledgeArticle_clash, t_touch = (\<lambda>now r. r\<lparr>ka_updatedAt := now\<rparr>)\<rparr>"

definition knowledgeRetrieval_clash :: "knowledge_retrieval \<Rightarrow> knowledge_retrieval \<Rightarrow> bool" where
  "knowledgeRetrieval_clash a b \<longleftrightarrow>
     kr_id a = kr_id b"

definition knowledgeRetrieval_t :: "knowledge_retrieval table" where
  "knowledgeRetrieval_t = \<lparr>t_get = knowledgeRetrievals, t_map = (\<lambda>f d. d\<lparr>knowledgeRetrievals := f (knowledgeRetrievals d)\<rparr>), t_id = kr_id,
     t_clash = knowledgeRetrieval_clash, t_touch = (\<lambda>now r. r)\<rparr>"

definition agentEvent_clash :: "agent_event \<Rightarrow> agent_event \<Rightarrow> bool" where
  "agentEvent_clash a b \<longleftrightarrow>
     ev_id a = ev_id b"

definition agentEvent_t :: "agent_event table" where
  "agentEvent_t = \<lparr>t_get = agentEvents, t_map = (\<lambda>f d. d\<lparr>agentEvents := f (agentEvents d)\<rparr>), t_id = ev_id,
     t_clash = agentEvent_clash, t_touch = (\<lambda>now r. r)\<rparr>"

definition organizationSettings_clash :: "org_settings \<Rightarrow> org_settings \<Rightarrow> bool" where
  "organizationSettings_clash a b \<longleftrightarrow>
     os_id a = os_id b \<or>
     os_orgId a = os_orgId b"

definition organizationSettings_t :: "org_settings table" where
  "organizationSettings_t = \<lparr>t_get = organizationSettings, t_map = (\<lambda>f d. d\<lparr>organizationSettings := f (organizationSettings d)\<rparr>), t_id = os_id,
     t_clash = organizationSettings_clash, t_touch = (\<lambda>now r. r)\<rparr>"

definition humanApproval_clash :: "human_approval \<Rightarrow> human_approval \<Rightarrow> bool" where
  "humanApproval_clash a b \<longleftrightarrow>
     ap_id a = ap_id b"

definition humanApproval_t :: "human_approval table" where
  "humanApproval_t = \<lparr>t_get = humanApprovals, t_map = (\<lambda>f d. d\<lparr>humanApprovals := f (humanApprovals d)\<rparr>), t_id = ap_id,
     t_clash = humanApproval_clash, t_touch = (\<lambda>now r. r)\<rparr>"

definition outboundDraft_clash :: "outbound_draft \<Rightarrow> outbound_draft \<Rightarrow> bool" where
  "outboundDraft_clash a b \<longleftrightarrow>
     dr_id a = dr_id b"

definition outboundDraft_t :: "outbound_draft table" where
  "outboundDraft_t = \<lparr>t_get = outboundDrafts, t_map = (\<lambda>f d. d\<lparr>outboundDrafts := f (outboundDrafts d)\<rparr>), t_id = dr_id,
     t_clash = outboundDraft_clash, t_touch = (\<lambda>now r. r)\<rparr>"

definition agentGuardrailCheck_clash :: "guardrail_check \<Rightarrow> guardrail_check \<Rightarrow> bool" where
  "agentGuardrailCheck_clash a b \<longleftrightarrow>
     gc_id a = gc_id b"

definition agentGuardrailCheck_t :: "guardrail_check table" where
  "agentGuardrailCheck_t = \<lparr>t_get = agentGuardrailChecks, t_map = (\<lambda>f d. d\<lparr>agentGuardrailChecks := f (agentGuardrailChecks d)\<rparr>), t_id = gc_id,
     t_clash = agentGuardrailCheck_clash, t_touch = (\<lambda>now r. r)\<rparr>"

definition operationalFailure_clash :: "operational_failure \<Rightarrow> operational_failure \<Rightarrow> bool" where
  "operationalFailure_clash a b \<longleftrightarrow>
     of_id a = of_id b"

definition operationalFailure_t :: "operational_failure table" where
  "operationalFailure_t = \<lparr>t_get = operationalFailures, t_map = (\<lambda>f d. d\<lparr>operationalFailures := f (operationalFailures d)\<rparr>), t_id = of_id,
     t_clash = operationalFailure_clash, t_touch = (\<lambda>now r. r)\<rparr>"

definition channelConnection_clash :: "channel_connection \<Rightarrow> channel_connection \<Rightarrow> bool" where
  "channelConnection_clash a b \<longleftrightarrow>
     cc_id a = cc_id b \<or>
     cc_publicId a = cc_publicId b \<or>
     (cc_organizationId a = cc_organizationId b \<and> cc_provider a = cc_provider b \<and> both_some (cc_externalAccountId a) (cc_externalAccountId b))"

definition channelConnection_t :: "channel_connection table" where
  "channelConnection_t = \<lparr>t_get = channelConnections, t_map = (\<lambda>f d. d\<lparr>channelConnections := f (channelConnections d)\<rparr>), t_id = cc_id,
     t_clash = channelConnection_clash, t_touch = (\<lambda>now r. r\<lparr>cc_updatedAt := now\<rparr>)\<rparr>"

definition externalCustomer_clash :: "external_customer \<Rightarrow> external_customer \<Rightarrow> bool" where
  "externalCustomer_clash a b \<longleftrightarrow>
     cu_id a = cu_id b \<or>
     (cu_organizationId a = cu_organizationId b \<and> cu_channelConnectionId a = cu_channelConnectionId b \<and> both_some (cu_externalCustomerId a) (cu_externalCustomerId b)) \<or>
     (cu_organizationId a = cu_organizationId b \<and> cu_channelConnectionId a = cu_channelConnectionId b \<and> both_some (cu_normalizedEmail a) (cu_normalizedEmail b))"

definition externalCustomer_t :: "external_customer table" where
  "externalCustomer_t = \<lparr>t_get = externalCustomers, t_map = (\<lambda>f d. d\<lparr>externalCustomers := f (externalCustomers d)\<rparr>), t_id = cu_id,
     t_clash = externalCustomer_clash, t_touch = (\<lambda>now r. r)\<rparr>"

definition conversation_clash :: "conversation \<Rightarrow> conversation \<Rightarrow> bool" where
  "conversation_clash a b \<longleftrightarrow>
     cv_id a = cv_id b \<or>
     (cv_organizationId a = cv_organizationId b \<and> cv_channelConnectionId a = cv_channelConnectionId b \<and> both_some (cv_externalThreadId a) (cv_externalThreadId b))"

definition conversation_t :: "conversation table" where
  "conversation_t = \<lparr>t_get = conversations, t_map = (\<lambda>f d. d\<lparr>conversations := f (conversations d)\<rparr>), t_id = cv_id,
     t_clash = conversation_clash, t_touch = (\<lambda>now r. r)\<rparr>"

definition externalMessage_clash :: "external_message \<Rightarrow> external_message \<Rightarrow> bool" where
  "externalMessage_clash a b \<longleftrightarrow>
     xm_id a = xm_id b \<or>
     (xm_channelConnectionId a = xm_channelConnectionId b \<and> both_some (xm_providerMessageId a) (xm_providerMessageId b)) \<or>
     (xm_channelConnectionId a = xm_channelConnectionId b \<and> both_some (xm_providerEventId a) (xm_providerEventId b))"

definition externalMessage_t :: "external_message table" where
  "externalMessage_t = \<lparr>t_get = externalMessages, t_map = (\<lambda>f d. d\<lparr>externalMessages := f (externalMessages d)\<rparr>), t_id = xm_id,
     t_clash = externalMessage_clash, t_touch = (\<lambda>now r. r)\<rparr>"

definition messageAttachment_clash :: "message_attachment \<Rightarrow> message_attachment \<Rightarrow> bool" where
  "messageAttachment_clash a b \<longleftrightarrow>
     at_id a = at_id b"

definition messageAttachment_t :: "message_attachment table" where
  "messageAttachment_t = \<lparr>t_get = messageAttachments, t_map = (\<lambda>f d. d\<lparr>messageAttachments := f (messageAttachments d)\<rparr>), t_id = at_id,
     t_clash = messageAttachment_clash, t_touch = (\<lambda>now r. r)\<rparr>"

definition webhookReceipt_clash :: "webhook_receipt \<Rightarrow> webhook_receipt \<Rightarrow> bool" where
  "webhookReceipt_clash a b \<longleftrightarrow>
     wr_id a = wr_id b \<or>
     (wr_channelConnectionId a = wr_channelConnectionId b \<and> wr_providerEventId a = wr_providerEventId b)"

definition webhookReceipt_t :: "webhook_receipt table" where
  "webhookReceipt_t = \<lparr>t_get = webhookReceipts, t_map = (\<lambda>f d. d\<lparr>webhookReceipts := f (webhookReceipts d)\<rparr>), t_id = wr_id,
     t_clash = webhookReceipt_clash, t_touch = (\<lambda>now r. r)\<rparr>"

definition inboundDispatch_clash :: "inbound_dispatch \<Rightarrow> inbound_dispatch \<Rightarrow> bool" where
  "inboundDispatch_clash a b \<longleftrightarrow>
     di_id a = di_id b \<or>
     di_idempotencyKey a = di_idempotencyKey b"

definition inboundDispatch_t :: "inbound_dispatch table" where
  "inboundDispatch_t = \<lparr>t_get = inboundDispatches, t_map = (\<lambda>f d. d\<lparr>inboundDispatches := f (inboundDispatches d)\<rparr>), t_id = di_id,
     t_clash = inboundDispatch_clash, t_touch = (\<lambda>now r. r)\<rparr>"

definition outboundMessage_clash :: "outbound_message \<Rightarrow> outbound_message \<Rightarrow> bool" where
  "outboundMessage_clash a b \<longleftrightarrow>
     om_id a = om_id b \<or>
     om_idempotencyKey a = om_idempotencyKey b \<or>
     (om_channelConnectionId a = om_channelConnectionId b \<and> both_some (om_providerMessageId a) (om_providerMessageId b))"

definition outboundMessage_t :: "outbound_message table" where
  "outboundMessage_t = \<lparr>t_get = outboundMessages, t_map = (\<lambda>f d. d\<lparr>outboundMessages := f (outboundMessages d)\<rparr>), t_id = om_id,
     t_clash = outboundMessage_clash, t_touch = (\<lambda>now r. r\<lparr>om_updatedAt := now\<rparr>)\<rparr>"

definition deliveryAttempt_clash :: "delivery_attempt \<Rightarrow> delivery_attempt \<Rightarrow> bool" where
  "deliveryAttempt_clash a b \<longleftrightarrow>
     da_id a = da_id b \<or>
     (da_outboundMessageId a = da_outboundMessageId b \<and> da_attemptNumber a = da_attemptNumber b)"

definition deliveryAttempt_t :: "delivery_attempt table" where
  "deliveryAttempt_t = \<lparr>t_get = deliveryAttempts, t_map = (\<lambda>f d. d\<lparr>deliveryAttempts := f (deliveryAttempts d)\<rparr>), t_id = da_id,
     t_clash = deliveryAttempt_clash, t_touch = (\<lambda>now r. r)\<rparr>"

definition channelAuditEvent_clash :: "channel_audit_event \<Rightarrow> channel_audit_event \<Rightarrow> bool" where
  "channelAuditEvent_clash a b \<longleftrightarrow>
     ca_id a = ca_id b"

definition channelAuditEvent_t :: "channel_audit_event table" where
  "channelAuditEvent_t = \<lparr>t_get = channelAuditEvents, t_map = (\<lambda>f d. d\<lparr>channelAuditEvents := f (channelAuditEvents d)\<rparr>), t_id = ca_id,
     t_clash = channelAuditEvent_clash, t_touch = (\<lambda>now r. r)\<rparr>"

lemmas table_defs =
  organization_t_def user_t_def organizationMembership_t_def refreshSession_t_def
  ticket_t_def ticketMessage_t_def agentRun_t_def agentStep_t_def knowledgeArticle_t_def
  knowledgeRetrieval_t_def agentEvent_t_def organizationSettings_t_def humanApproval_t_def
  outboundDraft_t_def agentGuardrailCheck_t_def operationalFailure_t_def
  channelConnection_t_def externalCustomer_t_def conversation_t_def externalMessage_t_def
  messageAttachment_t_def webhookReceipt_t_def inboundDispatch_t_def outboundMessage_t_def
  deliveryAttempt_t_def channelAuditEvent_t_def

lemmas clash_defs =
  organization_clash_def user_clash_def organizationMembership_clash_def
  refreshSession_clash_def ticket_clash_def ticketMessage_clash_def agentRun_clash_def
  agentStep_clash_def knowledgeArticle_clash_def knowledgeRetrieval_clash_def
  agentEvent_clash_def organizationSettings_clash_def humanApproval_clash_def
  outboundDraft_clash_def agentGuardrailCheck_clash_def operationalFailure_clash_def
  channelConnection_clash_def externalCustomer_clash_def conversation_clash_def
  externalMessage_clash_def messageAttachment_clash_def webhookReceipt_clash_def
  inboundDispatch_clash_def outboundMessage_clash_def deliveryAttempt_clash_def
  channelAuditEvent_clash_def

lemmas blank_defs =
  blank_organization_def blank_user_def blank_membership_def blank_refresh_session_def
  blank_ticket_def blank_ticket_message_def blank_agent_run_def blank_agent_step_def
  blank_knowledge_article_def blank_knowledge_retrieval_def blank_agent_event_def
  blank_org_settings_def blank_human_approval_def blank_outbound_draft_def
  blank_guardrail_check_def blank_operational_failure_def blank_channel_connection_def
  blank_external_customer_def blank_conversation_def blank_external_message_def
  blank_message_attachment_def blank_webhook_receipt_def blank_inbound_dispatch_def
  blank_outbound_message_def blank_delivery_attempt_def blank_channel_audit_event_def

end
