(* ===== verification/Store.thy ===== *)
theory Store
  imports Schema
begin

text \<open>
  The world a method runs in, the outside it talks to, and the Prisma delegates.
  \<open>world\<close> holds the database, how many dates and ids have been drawn, the \<^verbatim>\<open>Queue.add\<close>
  calls and the metric calls so far, and the correlation context. \<open>ext\<close> is everything that
  is not code of the repository: the clock, the id generator, the queue's answers, the
  environment, digests, the printing of numbers and dates and the names of the HTTP statuses.
\<close>

section \<open>Errors\<close>

record js_error =
  er_isError :: bool
  er_name :: string
  er_message :: string
  er_code :: "string option"
  er_status :: "int option"
  er_category :: "string option"
  er_retryable :: "bool option"
  er_providerStatusCode :: "int option"
  er_providerErrorCode :: "string option"

definition plain_error :: "string \<Rightarrow> js_error" where
  "plain_error m = \<lparr>er_isError = True, er_name = ''Error'', er_message = m, er_code = None,
     er_status = None, er_category = None, er_retryable = None, er_providerStatusCode = None,
     er_providerErrorCode = None\<rparr>"

definition http_error :: "string \<Rightarrow> int \<Rightarrow> string \<Rightarrow> js_error" where
  "http_error n st m = (plain_error m)\<lparr>er_name := n, er_status := Some st\<rparr>"

definition bad_request :: "string \<Rightarrow> js_error" where
  "bad_request m = http_error ''BadRequestException'' 400 m"

definition unauthorized :: "string \<Rightarrow> js_error" where
  "unauthorized m = http_error ''UnauthorizedException'' 401 m"

definition forbidden :: "string \<Rightarrow> js_error" where
  "forbidden m = http_error ''ForbiddenException'' 403 m"

definition not_found :: "string \<Rightarrow> js_error" where
  "not_found m = http_error ''NotFoundException'' 404 m"

definition prisma_error :: "string \<Rightarrow> string \<Rightarrow> js_error" where
  "prisma_error c m =
     (plain_error m)\<lparr>er_name := ''PrismaClientKnownRequestError'', er_code := Some c\<rparr>"

definition unique_violation :: js_error where
  "unique_violation = prisma_error ''P2002'' ''Unique constraint failed''"

definition missing_record :: js_error where
  "missing_record = prisma_error ''P2025'' ''Record to update not found.''"

text \<open>An invalid date or number is refused by the client before any query.\<close>

definition invalid_value :: js_error where
  "invalid_value = (plain_error ''Invalid value provided'')\<lparr>er_name := ''PrismaClientValidationError''\<rparr>"

lemmas error_defs = plain_error_def http_error_def bad_request_def unauthorized_def forbidden_def
  not_found_def prisma_error_def unique_violation_def missing_record_def invalid_value_def

section \<open>World and outside\<close>

record correlation =
  co_correlationId :: "string option"
  co_retryAttempt :: "int option"

record queue_call =
  qc_queue :: string
  qc_name :: string
  qc_payload :: json
  qc_jobId :: "string option"
  qc_delay :: "int option"

record world =
  db :: db
  ticks :: nat
  uuids :: nat
  qlog :: "queue_call list"
  mlog :: "(string \<times> string list) list"
  ctx :: correlation

record ext =
  x_clock :: "nat \<Rightarrow> int"
  x_uuid :: "nat \<Rightarrow> string"
  x_queue :: "nat \<Rightarrow> js_error + string"
  x_env :: "string \<Rightarrow> string option"
  x_pid :: string
  x_sha256 :: "string \<Rightarrow> string"
  x_hmac :: "string \<Rightarrow> string \<Rightarrow> string"
  x_num :: "rat \<Rightarrow> string"
  x_date :: "string \<Rightarrow> int option"
  x_iso :: "int \<Rightarrow> string"
  x_http_status :: "int \<Rightarrow> string option"
  x_elapsed :: "nat \<Rightarrow> int"

type_synonym 'a act = "(world, js_error, 'a) sx"

definition now_x :: "ext \<Rightarrow> int act" where
  "now_x E = (\<lambda>w. (Inr (x_clock E (ticks w)), w\<lparr>ticks := ticks w + 1\<rparr>))"

definition uuid_x :: "ext \<Rightarrow> string act" where
  "uuid_x E = (\<lambda>w. (Inr (x_uuid E (uuids w)), w\<lparr>uuids := uuids w + 1\<rparr>))"

definition metric_x :: "string \<Rightarrow> string list \<Rightarrow> unit act" where
  "metric_x name labels = modify_x (\<lambda>w. w\<lparr>mlog := mlog w @ [(name, labels)]\<rparr>)"

definition correlation_x :: "string option act" where
  "correlation_x = gets_x (\<lambda>w. co_correlationId (ctx w))"

text \<open>\<^verbatim>\<open>Queue.add\<close>: the call is recorded; the answer (the id of the job, or the error) is
  the outside's.\<close>

definition queue_add :: "ext \<Rightarrow> queue_call \<Rightarrow> string act" where
  "queue_add E c = (\<lambda>w. (x_queue E (length (qlog w)), w\<lparr>qlog := qlog w @ [c]\<rparr>))"

text \<open>The reading of a \<^verbatim>\<open>startTimer()\<close>, as the integer column stores it.\<close>

definition elapsed_x :: "ext \<Rightarrow> int act" where
  "elapsed_x E = gets_x (\<lambda>w. x_elapsed E (ticks w))"

text \<open>\<^verbatim>\<open>runWithCorrelationContext\<close>: the context holds while the callback runs.\<close>

definition with_context :: "correlation \<Rightarrow> 'a act \<Rightarrow> 'a act" where
  "with_context c m = (\<lambda>w. case m (w\<lparr>ctx := c\<rparr>) of (r, w') \<Rightarrow> (r, w'\<lparr>ctx := ctx w\<rparr>))"

definition require_x :: "'a option \<Rightarrow> js_error \<Rightarrow> 'a act" where
  "require_x v e = (case v of None \<Rightarrow> throw_x e | Some x \<Rightarrow> ret_x x)"

text \<open>\<^verbatim>\<open>prisma.$transaction\<close>: an error undoes the changes of the database and nothing else.\<close>

definition rollback :: "world \<Rightarrow> world \<Rightarrow> world" where
  "rollback w w' = w'\<lparr>db := db w\<rparr>"

definition transaction :: "'a act \<Rightarrow> 'a act" where
  "transaction m = transaction_x rollback m"

text \<open>\<^verbatim>\<open>process.env\<close> numbers: \<^verbatim>\<open>Number.parseInt(env ?? dflt, 10)\<close>.\<close>

definition env_int :: "ext \<Rightarrow> string \<Rightarrow> string \<Rightarrow> int option" where
  "env_int E name dflt = parse_int (nullish (x_env E name) dflt)"

definition env_int_trim :: "ext \<Rightarrow> string \<Rightarrow> string \<Rightarrow> int option" where
  "env_int_trim E name dflt = parse_int (nullish (map_option trim (x_env E name)) dflt)"

text \<open>One outside, with an empty environment, a clock that ticks and a queue that accepts every
  job; the witnesses run the program in it.\<close>

definition demo_ext :: ext where
  "demo_ext = \<lparr>x_clock = (\<lambda>n. int n), x_uuid = show_nat, x_queue = (\<lambda>n. Inr (show_nat n)),
     x_env = (\<lambda>_. None), x_pid = ''1'', x_sha256 = (\<lambda>s. s), x_hmac = (\<lambda>k s. ''0a''),
     x_num = (\<lambda>q. show_int \<lfloor>q\<rfloor>), x_date = (\<lambda>_. None), x_iso = show_int,
     x_http_status = (\<lambda>_. None), x_elapsed = (\<lambda>_. 0)\<rparr>"

definition demo_world :: "db \<Rightarrow> world" where
  "demo_world d = \<lparr>db = d, ticks = 0, uuids = 0, qlog = [], mlog = [],
     ctx = \<lparr>co_correlationId = None, co_retryAttempt = None\<rparr>\<rparr>"

section \<open>Prisma delegates\<close>

definition find_first :: "'r table \<Rightarrow> ('r \<Rightarrow> bool) \<Rightarrow> 'r option act" where
  "find_first T P = gets_x (\<lambda>w. first_where P (t_get T (db w)))"

definition find_first_asc :: "'r table \<Rightarrow> ('r \<Rightarrow> bool) \<Rightarrow> ('r \<Rightarrow> int) \<Rightarrow> 'r option act" where
  "find_first_asc T P k = gets_x (\<lambda>w. first_where P (order_asc k (t_get T (db w))))"

definition find_first_desc :: "'r table \<Rightarrow> ('r \<Rightarrow> bool) \<Rightarrow> ('r \<Rightarrow> int) \<Rightarrow> 'r option act" where
  "find_first_desc T P k = gets_x (\<lambda>w. first_where P (order_desc k (t_get T (db w))))"

definition find_many :: "'r table \<Rightarrow> ('r \<Rightarrow> bool) \<Rightarrow> 'r list act" where
  "find_many T P = gets_x (\<lambda>w. filter P (t_get T (db w)))"

definition count_rows :: "'r table \<Rightarrow> ('r \<Rightarrow> bool) \<Rightarrow> nat act" where
  "count_rows T P = gets_x (\<lambda>w. count_where P (t_get T (db w)))"

definition insert_row :: "'r table \<Rightarrow> 'r \<Rightarrow> 'r act" where
  "insert_row T r = (\<lambda>w.
     if list_ex (t_clash T r) (t_get T (db w)) then (Inl unique_violation, w)
     else (Inr r, w\<lparr>db := t_map T (\<lambda>t. t @ [r]) (db w)\<rparr>))"

text \<open>\<^verbatim>\<open>create\<close>: the id and the date defaults are drawn, then the row is inserted.\<close>

definition create_row :: "ext \<Rightarrow> 'r table \<Rightarrow> (string \<Rightarrow> int \<Rightarrow> 'r) \<Rightarrow> 'r act" where
  "create_row E T mk =
     bind_x (uuid_x E) (\<lambda>i. bind_x (now_x E) (\<lambda>now. insert_row T (mk i now)))"

text \<open>\<^verbatim>\<open>update\<close> by a unique \<^verbatim>\<open>where\<close>.\<close>

definition replace_row :: "'r table \<Rightarrow> ('r \<Rightarrow> bool) \<Rightarrow> ('r \<Rightarrow> 'r) \<Rightarrow> 'r act" where
  "replace_row T P f = (\<lambda>w.
     case first_where P (t_get T (db w)) of
       None \<Rightarrow> (Inl missing_record, w)
     | Some r \<Rightarrow>
         if list_ex (\<lambda>s. t_id T s \<noteq> t_id T r \<and> t_clash T (f r) s) (t_get T (db w))
         then (Inl unique_violation, w)
         else (Inr (f r), w\<lparr>db := t_map T (update_where (\<lambda>s. t_id T s = t_id T r) f) (db w)\<rparr>))"

definition update_row :: "ext \<Rightarrow> 'r table \<Rightarrow> ('r \<Rightarrow> bool) \<Rightarrow> ('r \<Rightarrow> 'r) \<Rightarrow> 'r act" where
  "update_row E T P f =
     bind_x (now_x E) (\<lambda>now. replace_row T P (\<lambda>r. t_touch T now (f r)))"

text \<open>\<^verbatim>\<open>updateMany\<close>: returns the count. No \<^verbatim>\<open>updateMany\<close> of the source writes a column of
  a unique index.\<close>

definition replace_rows :: "'r table \<Rightarrow> ('r \<Rightarrow> bool) \<Rightarrow> ('r \<Rightarrow> 'r) \<Rightarrow> nat act" where
  "replace_rows T P f = (\<lambda>w.
     (Inr (count_where P (t_get T (db w))), w\<lparr>db := t_map T (update_where P f) (db w)\<rparr>))"

definition update_many :: "ext \<Rightarrow> 'r table \<Rightarrow> ('r \<Rightarrow> bool) \<Rightarrow> ('r \<Rightarrow> 'r) \<Rightarrow> nat act" where
  "update_many E T P f =
     bind_x (now_x E) (\<lambda>now. replace_rows T P (\<lambda>r. t_touch T now (f r)))"

text \<open>\<^verbatim>\<open>upsert\<close> with a unique \<^verbatim>\<open>where\<close>.\<close>

definition upsert_row ::
  "ext \<Rightarrow> 'r table \<Rightarrow> ('r \<Rightarrow> bool) \<Rightarrow> ('r \<Rightarrow> 'r) option \<Rightarrow> (string \<Rightarrow> int \<Rightarrow> 'r) \<Rightarrow> 'r act" where
  "upsert_row E T P upd mk =
     bind_x (find_first T P) (\<lambda>found.
       case found of
         None \<Rightarrow> create_row E T mk
       | Some r \<Rightarrow> (case upd of None \<Rightarrow> ret_x r | Some f \<Rightarrow> update_row E T P f))"

definition delete_many :: "'r table \<Rightarrow> ('r \<Rightarrow> bool) \<Rightarrow> nat act" where
  "delete_many T P = (\<lambda>w.
     (Inr (count_where P (t_get T (db w))), w\<lparr>db := t_map T (filter (\<lambda>r. \<not> P r)) (db w)\<rparr>))"

section \<open>Running the delegates\<close>

lemma now_x_run [run_simps]:
  "now_x E w = (Inr (x_clock E (ticks w)), w\<lparr>ticks := ticks w + 1\<rparr>)"
  by (simp add: now_x_def)

lemma uuid_x_run [run_simps]:
  "uuid_x E w = (Inr (x_uuid E (uuids w)), w\<lparr>uuids := uuids w + 1\<rparr>)"
  by (simp add: uuid_x_def)

lemma metric_x_run [run_simps]:
  "metric_x n l w = (Inr (), w\<lparr>mlog := mlog w @ [(n, l)]\<rparr>)"
  by (simp add: metric_x_def run_simps)

lemma correlation_x_run [run_simps]: "correlation_x w = (Inr (co_correlationId (ctx w)), w)"
  by (simp add: correlation_x_def run_simps)

lemma queue_add_run [run_simps]:
  "queue_add E c w = (x_queue E (length (qlog w)), w\<lparr>qlog := qlog w @ [c]\<rparr>)"
  by (simp add: queue_add_def)

lemma elapsed_x_run [run_simps]: "elapsed_x E w = (Inr (x_elapsed E (ticks w)), w)"
  by (simp add: elapsed_x_def run_simps)

lemma with_context_run [run_simps]:
  "with_context c m w = (fst (m (w\<lparr>ctx := c\<rparr>)), (snd (m (w\<lparr>ctx := c\<rparr>)))\<lparr>ctx := ctx w\<rparr>)"
  by (simp add: with_context_def case_prod_beta)

lemma require_x_run [run_simps]:
  "require_x v e w = (case v of None \<Rightarrow> (Inl e, w) | Some x \<Rightarrow> (Inr x, w))"
  by (simp add: require_x_def run_simps split: option.split)

lemma transaction_run [run_simps]:
  "transaction m w =
     (case fst (m w) of Inl e \<Rightarrow> (Inl e, (snd (m w))\<lparr>db := db w\<rparr>) | Inr a \<Rightarrow> (Inr a, snd (m w)))"
  by (simp add: transaction_def rollback_def run_simps split: sum.split)

lemma find_first_run [run_simps]: "find_first T P w = (Inr (first_where P (t_get T (db w))), w)"
  by (simp add: find_first_def run_simps)

lemma find_first_asc_run [run_simps]:
  "find_first_asc T P k w = (Inr (first_where P (order_asc k (t_get T (db w)))), w)"
  by (simp add: find_first_asc_def run_simps)

lemma find_first_desc_run [run_simps]:
  "find_first_desc T P k w = (Inr (first_where P (order_desc k (t_get T (db w)))), w)"
  by (simp add: find_first_desc_def run_simps)

lemma find_many_run [run_simps]: "find_many T P w = (Inr (filter P (t_get T (db w))), w)"
  by (simp add: find_many_def run_simps)

lemma count_rows_run [run_simps]: "count_rows T P w = (Inr (count_where P (t_get T (db w))), w)"
  by (simp add: count_rows_def run_simps)

lemma create_row_run [run_simps]:
  "create_row E T mk w =
     insert_row T (mk (x_uuid E (uuids w)) (x_clock E (ticks w)))
       (w\<lparr>uuids := uuids w + 1, ticks := ticks w + 1\<rparr>)"
  by (simp add: create_row_def run_simps)

lemma update_row_run [run_simps]:
  "update_row E T P f w =
     replace_row T P (\<lambda>r. t_touch T (x_clock E (ticks w)) (f r)) (w\<lparr>ticks := ticks w + 1\<rparr>)"
  by (simp add: update_row_def run_simps)

lemma update_many_run [run_simps]:
  "update_many E T P f w =
     replace_rows T P (\<lambda>r. t_touch T (x_clock E (ticks w)) (f r)) (w\<lparr>ticks := ticks w + 1\<rparr>)"
  by (simp add: update_many_def run_simps)

lemma upsert_row_run [run_simps]:
  "upsert_row E T P upd mk w =
     (case first_where P (t_get T (db w)) of
        None \<Rightarrow> create_row E T mk w
      | Some r \<Rightarrow> (case upd of None \<Rightarrow> (Inr r, w) | Some f \<Rightarrow> update_row E T P f w))"
  by (simp add: upsert_row_def run_simps split: option.split)

lemmas delegate_run = insert_row_def replace_row_def replace_rows_def delete_many_def

section \<open>Invariants of the database\<close>

definition on_db :: "(db \<Rightarrow> bool) \<Rightarrow> world \<Rightarrow> bool" where
  "on_db J w \<longleftrightarrow> J (db w)"

lemma on_db_simps [simp]:
  "on_db J (w\<lparr>ticks := n\<rparr>) = on_db J w" "on_db J (w\<lparr>uuids := n\<rparr>) = on_db J w"
  "on_db J (w\<lparr>qlog := q\<rparr>) = on_db J w" "on_db J (w\<lparr>mlog := m\<rparr>) = on_db J w"
  "on_db J (w\<lparr>ctx := c\<rparr>) = on_db J w" "on_db J (w\<lparr>db := d\<rparr>) = J d"
  by (simp_all add: on_db_def)

lemma preserves_now [preserve_rules]: "preserves (on_db J) (now_x E)"
  by (simp add: preserves_def run_simps)

lemma preserves_uuid [preserve_rules]: "preserves (on_db J) (uuid_x E)"
  by (simp add: preserves_def run_simps)

lemma preserves_metric [preserve_rules]: "preserves (on_db J) (metric_x n l)"
  by (simp add: preserves_def run_simps)

lemma preserves_correlation [preserve_rules]: "preserves (on_db J) correlation_x"
  by (simp add: preserves_def run_simps)

lemma preserves_queue_add [preserve_rules]: "preserves (on_db J) (queue_add E c)"
  by (simp add: preserves_def run_simps)

lemma preserves_elapsed [preserve_rules]: "preserves (on_db J) (elapsed_x E)"
  by (simp add: preserves_def run_simps)

lemma preserves_with_context [preserve_rules]:
  "preserves (on_db J) m \<Longrightarrow> preserves (on_db J) (with_context c m)"
  by (simp add: preserves_def run_simps)

lemma preserves_require [preserve_rules]: "preserves (on_db J) (require_x v e)"
  by (auto simp: preserves_def run_simps split: option.split)

lemma preserves_on_transaction [preserve_rules]:
  "preserves (on_db J) m \<Longrightarrow> preserves (on_db J) (transaction m)"
  unfolding transaction_def
  by (rule preserves_transaction) (auto simp: rollback_def on_db_def)

lemma preserves_find [preserve_rules]:
  "preserves (on_db J) (find_first T P)" "preserves (on_db J) (find_first_asc T P k)"
  "preserves (on_db J) (find_first_desc T P k)" "preserves (on_db J) (find_many T P)"
  "preserves (on_db J) (count_rows T P)"
  by (simp_all add: preserves_def run_simps)

text \<open>What a write must keep: an insert is only done without a clash, an update only without
  a clash with another row.\<close>

lemma preserves_insert:
  assumes "\<And>d. J d \<Longrightarrow> \<not> list_ex (t_clash T r) (t_get T d) \<Longrightarrow> J (t_map T (\<lambda>t. t @ [r]) d)"
  shows "preserves (on_db J) (insert_row T r)"
  using assms by (auto simp: preserves_def insert_row_def on_db_def)

lemma preserves_create:
  assumes "\<And>d i now. J d \<Longrightarrow> \<not> list_ex (t_clash T (mk i now)) (t_get T d) \<Longrightarrow>
             J (t_map T (\<lambda>t. t @ [mk i now]) d)"
  shows "preserves (on_db J) (create_row E T mk)"
  unfolding create_row_def using assms by (auto intro!: preserve_rules preserves_insert)

lemma preserves_replace:
  assumes "\<And>d r. J d \<Longrightarrow> first_where P (t_get T d) = Some r \<Longrightarrow>
             \<not> list_ex (\<lambda>s. t_id T s \<noteq> t_id T r \<and> t_clash T (f r) s) (t_get T d) \<Longrightarrow>
             J (t_map T (update_where (\<lambda>s. t_id T s = t_id T r) f) d)"
  shows "preserves (on_db J) (replace_row T P f)"
  using assms by (auto simp: preserves_def replace_row_def on_db_def split: option.split)

lemma preserves_update:
  assumes "\<And>d r now. J d \<Longrightarrow> first_where P (t_get T d) = Some r \<Longrightarrow>
             \<not> list_ex (\<lambda>s. t_id T s \<noteq> t_id T r \<and> t_clash T (t_touch T now (f r)) s) (t_get T d) \<Longrightarrow>
             J (t_map T (update_where (\<lambda>s. t_id T s = t_id T r) (\<lambda>r. t_touch T now (f r))) d)"
  shows "preserves (on_db J) (update_row E T P f)"
  unfolding update_row_def using assms by (auto intro!: preserve_rules preserves_replace)

lemma preserves_update_many:
  assumes "\<And>d now. J d \<Longrightarrow> J (t_map T (update_where P (\<lambda>r. t_touch T now (f r))) d)"
  shows "preserves (on_db J) (update_many E T P f)"
  unfolding update_many_def using assms
  by (auto intro!: preserve_rules simp: preserves_def replace_rows_def on_db_def run_simps)

lemma preserves_upsert:
  assumes "preserves (on_db J) (create_row E T mk)"
    and "\<And>f. upd = Some f \<Longrightarrow> preserves (on_db J) (update_row E T P f)"
  shows "preserves (on_db J) (upsert_row E T P upd mk)"
  unfolding upsert_row_def using assms by (auto intro!: preserve_rules)

text \<open>A write of one table does not touch an invariant of another.\<close>

definition ignores :: "'r table \<Rightarrow> (db \<Rightarrow> bool) \<Rightarrow> bool" where
  "ignores T J \<longleftrightarrow> (\<forall>f d. J (t_map T f d) = J d)"

lemma preserves_other_table:
  assumes "ignores T J"
  shows "preserves (on_db J) (create_row E T mk)" "preserves (on_db J) (update_row E T P f)"
    "preserves (on_db J) (update_many E T P f)" "preserves (on_db J) (upsert_row E T P u mk)"
    "preserves (on_db J) (delete_many T P)"
proof -
  have i: "J (t_map T f d) = J d" for f d using assms by (simp add: ignores_def)
  show a: "preserves (on_db J) (create_row E T mk)" by (rule preserves_create) (simp add: i)
  show b: "preserves (on_db J) (update_row E T P f)" for f by (rule preserves_update) (simp add: i)
  show "preserves (on_db J) (update_many E T P f)" by (rule preserves_update_many) (simp add: i)
  show "preserves (on_db J) (upsert_row E T P u mk)" by (rule preserves_upsert [OF a b])
  show "preserves (on_db J) (delete_many T P)"
    by (auto simp: preserves_def delete_many_def on_db_def i)
qed

text \<open>What a write leaves in its table, and the calls of the queue that it does not make.\<close>

lemma transaction_ok:
  assumes "fst (transaction m w) = Inr b"
  shows "fst (m w) = Inr b" "transaction m w = m w"
  using assms by (cases "fst (m w)"; cases "m w"; simp add: run_simps)+

lemma ensures_transaction: "ensures P m Q \<Longrightarrow> ensures P (transaction m) Q"
  by (auto simp: ensures_def run_simps split: sum.splits)

lemma establishes_transaction: "establishes I m \<Longrightarrow> establishes I (transaction m)"
  by (auto simp: establishes_def run_simps split: sum.splits)

lemma establishes_update_many:
  assumes "\<And>now r. P r \<Longrightarrow> Q (t_touch T now (f r))" "\<And>r. \<not> P r \<Longrightarrow> Q r"
    and "\<And>g d. t_get T (t_map T g d) = g (t_get T d)"
  shows "establishes (on_db (\<lambda>d. \<forall>r \<in> set (t_get T d). Q r)) (update_many E T P f)"
  using assms by (auto simp: establishes_def run_simps replace_rows_def set_update_where)

lemma establishes_update_row:
  assumes "\<And>r. P r \<Longrightarrow> t_id T r = k" "\<And>now r. t_id T r = k \<Longrightarrow> Q (t_touch T now (f r))"
    and "\<And>r. t_id T r \<noteq> k \<Longrightarrow> Q r" "\<And>g d. t_get T (t_map T g d) = g (t_get T d)"
  shows "establishes (on_db (\<lambda>d. \<forall>r \<in> set (t_get T d). Q r)) (update_row E T P f)"
  using assms
  by (auto simp: establishes_def run_simps replace_row_def set_update_where dest!: first_where_Some
      split: option.splits if_splits)

lemma create_row_cases:
  "db (snd (create_row E T mk w)) = db w \<or>
   (\<exists>i now. db (snd (create_row E T mk w)) = t_map T (\<lambda>t. t @ [mk i now]) (db w))"
  by (auto simp: run_simps insert_row_def)

lemma ensures_bind_create:
  assumes "preserves I (create_row E T mk)" "\<And>g d. t_get T (t_map T g d) = g (t_get T d)"
    and "\<And>i now. ensures (\<lambda>w. I w \<and> on_db (\<lambda>d. mk i now \<in> set (t_get T d)) w) (k (mk i now)) Q"
  shows "ensures I (bind_x (create_row E T mk) k) Q"
proof (rule ensures_bind)
  let ?M = "\<lambda>r w. \<exists>i now. r = mk i now \<and> I w \<and> on_db (\<lambda>d. r \<in> set (t_get T d)) w"
  have "r = mk (x_uuid E (uuids w)) (x_clock E (ticks w)) \<and> on_db (\<lambda>d. r \<in> set (t_get T d)) (snd (create_row E T mk w))"
    if "fst (create_row E T mk w) = Inr r" for w r
    using that by (auto simp: run_simps insert_row_def assms(2) split: if_splits)
  then show "ensures I (create_row E T mk) ?M"
    using preservesD [OF assms(1)] unfolding ensures_def by blast
  show "ensures (?M r) (k r) Q" for r
    using assms(3) unfolding ensures_def by blast
qed

abbreviation queued_calls :: "queue_call list \<Rightarrow> world \<Rightarrow> bool" where
  "queued_calls q \<equiv> \<lambda>w. qlog w = q"

lemma silent_delegates [preserve_rules]:
  "preserves (queued_calls q) (create_row E T mk)" "preserves (queued_calls q) (update_row E T P f)"
  "preserves (queued_calls q) (update_many E T P f)" "preserves (queued_calls q) (now_x E)"
  "preserves (queued_calls q) (uuid_x E)" "preserves (queued_calls q) (metric_x n l)"
  "preserves (queued_calls q) correlation_x" "preserves (queued_calls q) (find_first T P)"
  by (auto simp: preserves_def run_simps insert_row_def replace_row_def replace_rows_def split: option.split)

lemma silent_transaction [preserve_rules]:
  "preserves (queued_calls q) m \<Longrightarrow> preserves (queued_calls q) (transaction m)"
  by (auto simp: preserves_def run_simps split: sum.split)

text \<open>Uniqueness: no two rows of a table clash.\<close>

definition no_clash :: "'r table \<Rightarrow> db \<Rightarrow> bool" where
  "no_clash T d \<longleftrightarrow> sorted_wrt (\<lambda>a b. \<not> t_clash T a b) (t_get T d)"

end
