(* ===== verification/Regex.thy ===== *)
theory Regex
  imports Prelude
begin

text \<open>
  The regular expressions of the source, run the way ECMAScript runs them: backtracking, with
  greedy and lazy stars, word boundaries and anchors. \<open>mt r (p, s)\<close> lists, in the order in
  which the engine tries them, the ends of the matches of \<open>r\<close> at the front of \<open>s\<close>, where
  \<open>p\<close> is the character before. A star never repeats an empty iteration, as the standard
  demands, so the matcher is total. \<open>mat\<close> is the declarative reading, and the two agree.

  The \<^verbatim>\<open>i\<close> flag is written out in the character classes: without the \<^verbatim>\<open>u\<close> flag a
  character above 127 never folds to an ASCII one.
\<close>

type_synonym pos = "char option \<times> string"

datatype rx =
    Eps
  | Cls "char \<Rightarrow> bool"
  | Seq rx rx
  | Alt rx rx
  | Star bool rx
  | WordB
  | Bos
  | Eos

definition word_at :: "pos \<Rightarrow> bool \<times> bool" where
  "word_at a =
     ((case fst a of None \<Rightarrow> False | Some c \<Rightarrow> is_word c),
      (case snd a of [] \<Rightarrow> False | c # cs \<Rightarrow> is_word c))"

function mt :: "rx \<Rightarrow> pos \<Rightarrow> pos list" where
  "mt Eps a = [a]"
| "mt (Cls P) a = (case snd a of [] \<Rightarrow> [] | c # cs \<Rightarrow> if P c then [(Some c, cs)] else [])"
| "mt (Seq r q) a =
     concat (map (\<lambda>b. if length (snd b) \<le> length (snd a) then mt q b else []) (mt r a))"
| "mt (Alt r q) a = mt r a @ mt q a"
| "mt (Star greedy r) a =
     (let more = concat (map (\<lambda>b. if length (snd b) < length (snd a) then mt (Star greedy r) b
                                 else []) (mt r a))
      in if greedy then more @ [a] else a # more)"
| "mt WordB a = (if fst (word_at a) \<noteq> snd (word_at a) then [a] else [])"
| "mt Bos a = (if fst a = None then [a] else [])"
| "mt Eos a = (if snd a = [] then [a] else [])"
  by pat_completeness auto
termination
  by (relation "measures [\<lambda>(r, a). length (snd a), \<lambda>(r, a). size r]") auto

declare mt.simps(5) [simp del]

text \<open>Building blocks: a literal, a literal under the \<^verbatim>\<open>i\<close> flag, \<open>r?\<close>, \<open>r{n}\<close>,
  \<open>r{n,m}\<close>, \<open>r{n,}\<close>.\<close>

definition chr :: "char \<Rightarrow> rx" where
  "chr c = Cls (\<lambda>d. d = c)"

definition chr_i :: "char \<Rightarrow> rx" where
  "chr_i c = Cls (\<lambda>d. lower_char d = lower_char c)"

primrec lit :: "string \<Rightarrow> rx" where
  "lit [] = Eps"
| "lit (c # cs) = Seq (chr c) (lit cs)"

primrec lit_i :: "string \<Rightarrow> rx" where
  "lit_i [] = Eps"
| "lit_i (c # cs) = Seq (chr_i c) (lit_i cs)"

definition opt :: "rx \<Rightarrow> rx" where
  "opt r = Alt r Eps"

primrec times :: "nat \<Rightarrow> rx \<Rightarrow> rx" where
  "times 0 r = Eps"
| "times (Suc n) r = Seq r (times n r)"

primrec upto_times :: "nat \<Rightarrow> rx \<Rightarrow> rx" where
  "upto_times 0 r = Eps"
| "upto_times (Suc n) r = Alt (Seq r (upto_times n r)) Eps"

definition at_least :: "nat \<Rightarrow> rx \<Rightarrow> rx" where
  "at_least n r = Seq (times n r) (Star True r)"

definition plus :: "rx \<Rightarrow> rx" where
  "plus r = Seq r (Star True r)"

definition any_star_lazy :: rx where
  "any_star_lazy = Star False (Cls (\<lambda>_. True))"

text \<open>\<^verbatim>\<open>r.test(s)\<close>: some position matches.\<close>

fun test_at :: "rx \<Rightarrow> char option \<Rightarrow> string \<Rightarrow> bool" where
  "test_at r p [] = (mt r (p, []) \<noteq> [])"
| "test_at r p (c # cs) = (mt r (p, c # cs) \<noteq> [] \<or> test_at r (Some c) cs)"

definition rx_test :: "rx \<Rightarrow> string \<Rightarrow> bool" where
  "rx_test r s = test_at r None s"

text \<open>\<^verbatim>\<open>s.replace(r, new)\<close> with the \<^verbatim>\<open>g\<close> flag: from left to right, the first match the
  engine finds at a position; an empty match inserts and moves on by one character.\<close>

function replace_at :: "rx \<Rightarrow> string \<Rightarrow> char option \<Rightarrow> string \<Rightarrow> string" where
  "replace_at r new p s =
     (case mt r (p, s) of
        b # _ \<Rightarrow>
          if length (snd b) < length s then new @ replace_at r new (fst b) (snd b)
          else new @ (case s of [] \<Rightarrow> [] | c # cs \<Rightarrow> c # replace_at r new (Some c) cs)
      | [] \<Rightarrow> (case s of [] \<Rightarrow> [] | c # cs \<Rightarrow> c # replace_at r new (Some c) cs))"
  by pat_completeness auto
termination
  by (relation "measure (\<lambda>(r, new, p, s). length s)") auto

declare replace_at.simps [simp del]

definition rx_replace :: "rx \<Rightarrow> string \<Rightarrow> string \<Rightarrow> string" where
  "rx_replace r new s = replace_at r new None s"

section \<open>The declarative reading\<close>

inductive mat :: "rx \<Rightarrow> pos \<Rightarrow> pos \<Rightarrow> bool" where
  eps: "mat Eps a a"
| cls: "P c \<Longrightarrow> mat (Cls P) (p, c # cs) (Some c, cs)"
| seq: "mat r a b \<Longrightarrow> mat q b c \<Longrightarrow> mat (Seq r q) a c"
| altl: "mat r a b \<Longrightarrow> mat (Alt r q) a b"
| altr: "mat q a b \<Longrightarrow> mat (Alt r q) a b"
| star0: "mat (Star g r) a a"
| star1: "mat r a b \<Longrightarrow> length (snd b) < length (snd a) \<Longrightarrow> mat (Star g r) b c \<Longrightarrow> mat (Star g r) a c"
| wordb: "fst (word_at a) \<noteq> snd (word_at a) \<Longrightarrow> mat WordB a a"
| bos: "mat Bos (None, s) (None, s)"
| eos: "mat Eos (p, []) (p, [])"

inductive_cases mat_cls_cases: "mat (Cls P) a b"
inductive_cases mat_seq_cases: "mat (Seq r q) a b"
inductive_cases mat_alt_cases: "mat (Alt r q) a b"

inductive_simps mat_eps_iff [simp]: "mat Eps a b"
inductive_simps mat_cls_iff: "mat (Cls P) a b"
inductive_simps mat_seq_iff: "mat (Seq r q) a b"
inductive_simps mat_alt_iff [simp]: "mat (Alt r q) a b"
inductive_simps mat_star_iff: "mat (Star g r) a b"
inductive_simps mat_wordb_iff [simp]: "mat WordB a b"
inductive_simps mat_bos_iff [simp]: "mat Bos a b"
inductive_simps mat_eos_iff [simp]: "mat Eos a b"

lemma mat_length: "mat r a b \<Longrightarrow> length (snd b) \<le> length (snd a)"
  by (induction rule: mat.induct) auto

lemma mt_star_iff:
  "b \<in> set (mt (Star g r) a) \<longleftrightarrow>
   b = a \<or> (\<exists>c \<in> set (mt r a). length (snd c) < length (snd a) \<and> b \<in> set (mt (Star g r) c))"
  by (subst mt.simps(5)) (auto simp: Let_def split: if_splits)

lemma mt_sound: "b \<in> set (mt r a) \<Longrightarrow> mat r a b"
proof (induction r a arbitrary: b rule: mt.induct)
  case (2 P a)
  then show ?case by (cases a) (auto split: list.splits if_splits intro: mat.cls)
next
  case (1 a)
  then show ?case by (simp add: mat.eps)
next
  case (3 r q a)
  then obtain c where "c \<in> set (mt r a)" "length (snd c) \<le> length (snd a)" "b \<in> set (mt q c)"
    by (auto split: if_splits)
  with 3 show ?case by (blast intro: mat.seq)
next
  case (4 r q a)
  from 4(3) have "b \<in> set (mt r a) \<or> b \<in> set (mt q a)" by simp
  with 4(1) [of b] 4(2) [of b] show ?case by (blast intro: mat.altl mat.altr)
next
  case (5 greedy r a)
  from 5(3) have "b = a \<or> (\<exists>c \<in> set (mt r a). length (snd c) < length (snd a) \<and> b \<in> set (mt (Star greedy r) c))"
    by (simp only: mt_star_iff [of b greedy r a])
  with 5(1,2) show ?case by (blast intro: mat.star0 mat.star1)
next
  case (6 a)
  then show ?case by (auto intro: mat.wordb split: if_splits)
next
  case (7 a)
  then show ?case by (cases a) (auto split: if_splits intro: mat.bos)
next
  case (8 a)
  then show ?case by (cases a) (auto split: if_splits intro: mat.eos)
qed

lemma mt_complete: "mat r a b \<Longrightarrow> b \<in> set (mt r a)"
proof (induction rule: mat.induct)
  case (seq r a b q c)
  have "c \<in> set (if length (snd b) \<le> length (snd a) then mt q b else [])"
    using seq mat_length [OF seq(1)] by simp
  with seq(3) show ?case unfolding mt.simps(3) set_concat set_map by blast
next
  case (star1 r a b g c)
  then show ?case unfolding mt_star_iff [of c g r a] by blast
next
  case (star0 g r a)
  then show ?case by (simp only: mt_star_iff [of a g r a] simp_thms)
qed simp_all

theorem mt_iff: "b \<in> set (mt r a) \<longleftrightarrow> mat r a b"
  using mt_sound mt_complete by blast

lemma mt_Nil_iff: "mt r a = [] \<longleftrightarrow> (\<forall>b. \<not> mat r a b)"
  using mt_iff [of _ r a] by (metis list.set_intros(1) neq_Nil_conv empty_iff list.set(1))

lemma mat_suffix: "mat r a b \<Longrightarrow> \<exists>u. snd a = u @ snd b \<and> (fst b = (if u = [] then fst a else Some (last u)))"
proof (induction rule: mat.induct)
  case (seq r a b q c)
  then obtain u v where "snd a = u @ snd b" "fst b = (if u = [] then fst a else Some (last u))"
    "snd b = v @ snd c" "fst c = (if v = [] then fst b else Some (last v))" by blast
  then show ?case by (intro exI [of _ "u @ v"]) auto
next
  case (star1 r a b g c)
  then obtain u v where "snd a = u @ snd b" "fst b = (if u = [] then fst a else Some (last u))"
    "snd b = v @ snd c" "fst c = (if v = [] then fst b else Some (last v))" by blast
  then show ?case by (intro exI [of _ "u @ v"]) auto
qed auto

text \<open>The position after the text \<open>u\<close>.\<close>

definition after :: "char option \<Rightarrow> string \<Rightarrow> char option" where
  "after p u = (if u = [] then p else Some (last u))"

lemma after_simps [simp]: "after p [] = p" "after p (u @ [c]) = Some c" "after (Some c) u = after None (c # u)"
  by (simp_all add: after_def)

lemma test_at_iff: "test_at r p s \<longleftrightarrow> (\<exists>u v b. s = u @ v \<and> mat r (after p u, v) b)"
proof (induction s arbitrary: p)
  case Nil
  then show ?case using mt_Nil_iff [of r "(p, [])"] by auto
next
  case (Cons c cs)
  have step: "after (Some c) u = after p (c # u)" for u by (simp add: after_def)
  have "(\<exists>u v b. c # cs = u @ v \<and> mat r (after p u, v) b) \<longleftrightarrow>
        (\<exists>b. mat r (p, c # cs) b) \<or> (\<exists>u v b. cs = u @ v \<and> mat r (after p (c # u), v) b)"
    (is "?l \<longleftrightarrow> ?a \<or> ?b")
  proof
    assume ?l
    then obtain u v b where "c # cs = u @ v" "mat r (after p u, v) b" by blast
    then show "?a \<or> ?b"
    proof (cases u)
      case Nil
      with \<open>mat r (after p u, v) b\<close> \<open>c # cs = u @ v\<close> have ?a by (intro exI [of _ b]) simp
      then show ?thesis ..
    next
      case (Cons x u')
      with \<open>mat r (after p u, v) b\<close> \<open>c # cs = u @ v\<close> have ?b
        by (intro exI [of _ u'] exI [of _ v] exI [of _ b]) simp
      then show ?thesis ..
    qed
  next
    assume "?a \<or> ?b"
    then show ?l
    proof
      assume ?a
      then obtain b where "mat r (p, c # cs) b" by blast
      then show ?l by (intro exI [of _ "[]"] exI [of _ "c # cs"] exI [of _ b]) simp
    next
      assume ?b
      then obtain u v b where "cs = u @ v" "mat r (after p (c # u), v) b" by blast
      then show ?l by (intro exI [of _ "c # u"] exI [of _ v] exI [of _ b]) simp
    qed
  qed
  moreover have "test_at r p (c # cs) \<longleftrightarrow> (\<exists>b. mat r (p, c # cs) b) \<or> test_at r (Some c) cs"
    unfolding test_at.simps mt_Nil_iff by blast
  ultimately show ?case by (simp only: Cons.IH step)
qed

lemma rx_test_iff: "rx_test r s \<longleftrightarrow> (\<exists>u v b. s = u @ v \<and> mat r (after None u, v) b)"
  by (simp add: rx_test_def test_at_iff)

section \<open>Languages of the building blocks\<close>

lemma mat_chr: "mat (chr c) (p, s) b \<longleftrightarrow> (\<exists>t. s = c # t \<and> b = (Some c, t))"
  by (auto simp: chr_def mat_cls_iff)

lemma mat_lit: "mat (lit w) (p, s) b \<longleftrightarrow> (\<exists>t. s = w @ t \<and> b = (after p w, t))"
proof (induction w arbitrary: p s)
  case Nil
  then show ?case by auto
next
  case (Cons c w)
  have "after (Some c) w = after p (c # w)" by (simp add: after_def)
  then show ?case by (auto simp: mat_seq_iff mat_chr Cons)
qed

lemma mat_times_cls:
  "mat (times n (Cls P)) (p, s) b \<longleftrightarrow>
   (\<exists>u t. s = u @ t \<and> length u = n \<and> list_all P u \<and> b = (after p u, t))"
proof (induction n arbitrary: p s)
  case 0
  then show ?case by auto
next
  case (Suc n)
  show ?case
  proof
    assume "mat (times (Suc n) (Cls P)) (p, s) b"
    then obtain c cs where c: "s = c # cs" "P c" "mat (times n (Cls P)) (Some c, cs) b"
      by (auto simp: mat_seq_iff mat_cls_iff)
    then obtain u t where "cs = u @ t" "length u = n" "list_all P u" "b = (after (Some c) u, t)"
      using Suc by blast
    with c show "\<exists>u t. s = u @ t \<and> length u = Suc n \<and> list_all P u \<and> b = (after p u, t)"
      by (intro exI [of _ "c # u"] exI [of _ t]) (auto simp: after_def)
  next
    assume "\<exists>u t. s = u @ t \<and> length u = Suc n \<and> list_all P u \<and> b = (after p u, t)"
    then obtain c u t where "s = c # u @ t" "length u = n" "P c" "list_all P u" "b = (after p (c # u), t)"
      by (auto simp: length_Suc_conv)
    then show "mat (times (Suc n) (Cls P)) (p, s) b"
      using Suc [of "Some c" "u @ t"] by (auto simp: mat_seq_iff mat_cls_iff after_def)
  qed
qed

lemma mat_star_cls:
  "mat (Star g (Cls P)) (p, s) b \<longleftrightarrow> (\<exists>u t. s = u @ t \<and> list_all P u \<and> b = (after p u, t))"
proof
  have "mat r a b \<Longrightarrow> r = Star g (Cls P) \<Longrightarrow>
      \<exists>u t. snd a = u @ t \<and> list_all P u \<and> b = (after (fst a) u, t)" for r a
  proof (induction rule: mat.induct)
    case (star0 g r a)
    then show ?case by (intro exI [of _ "[]"] exI [of _ "snd a"]) simp
  next
    case (star1 r a b g' c)
    then obtain x xs where "a = (fst a, x # xs)" "P x" "b = (Some x, xs)"
      by (cases a) (auto simp: mat_cls_iff)
    moreover from star1 obtain u t where "snd b = u @ t" "list_all P u" "c = (after (fst b) u, t)" by blast
    ultimately show ?case
      by (cases a) (auto simp: after_def intro!: exI [of _ "x # u"] exI [of _ t])
  qed simp_all
  then show "mat (Star g (Cls P)) (p, s) b \<Longrightarrow> \<exists>u t. s = u @ t \<and> list_all P u \<and> b = (after p u, t)"
    by fastforce
next
  have "list_all P u \<Longrightarrow> mat (Star g (Cls P)) (p, u @ t) (after p u, t)" for u t
  proof (induction u arbitrary: p)
    case Nil
    then show ?case by (simp add: mat.star0)
  next
    case (Cons x u)
    moreover have "after (Some x) u = after p (x # u)" by (simp add: after_def)
    ultimately have "mat (Star g (Cls P)) (Some x, u @ t) (after p (x # u), t)"
      using Cons.IH [of "Some x"] by simp
    with Cons.prems show ?case by (auto intro: mat.star1 [of _ _ "(Some x, u @ t)"] mat.cls)
  qed
  then show "\<exists>u t. s = u @ t \<and> list_all P u \<and> b = (after p u, t) \<Longrightarrow> mat (Star g (Cls P)) (p, s) b"
    by blast
qed

lemma mat_plus_cls:
  "mat (plus (Cls P)) (p, s) b \<longleftrightarrow>
   (\<exists>u t. s = u @ t \<and> u \<noteq> [] \<and> list_all P u \<and> b = (after p u, t))"
proof
  assume "mat (plus (Cls P)) (p, s) b"
  then obtain c u t where "s = c # u @ t" "P c" "list_all P u" "b = (after (Some c) u, t)"
    by (auto simp: plus_def mat_seq_iff mat_cls_iff mat_star_cls)
  then show "\<exists>u t. s = u @ t \<and> u \<noteq> [] \<and> list_all P u \<and> b = (after p u, t)"
    by (intro exI [of _ "c # u"] exI [of _ t]) (simp add: after_def)
next
  assume "\<exists>u t. s = u @ t \<and> u \<noteq> [] \<and> list_all P u \<and> b = (after p u, t)"
  then obtain c u t where "s = c # u @ t" "P c" "list_all P u" "b = (after p (c # u), t)"
    by (auto simp: neq_Nil_conv)
  moreover from this have "mat (Star True (Cls P)) (Some c, u @ t) b"
    unfolding mat_star_cls by (intro exI [of _ u] exI [of _ t]) (simp add: after_def)
  ultimately show "mat (plus (Cls P)) (p, s) b"
    unfolding plus_def by (auto intro: mat.seq mat.cls)
qed

lemma mat_at_least_cls:
  "mat (at_least n (Cls P)) (p, s) b \<longleftrightarrow>
   (\<exists>u t. s = u @ t \<and> n \<le> length u \<and> list_all P u \<and> b = (after p u, t))"
proof
  assume "mat (at_least n (Cls P)) (p, s) b"
  then obtain u v t where "s = u @ v @ t" "length u = n" "list_all P u" "list_all P v"
    "b = (after (after p u) v, t)"
    by (auto simp: at_least_def mat_seq_iff mat_times_cls mat_star_cls)
  then show "\<exists>u t. s = u @ t \<and> n \<le> length u \<and> list_all P u \<and> b = (after p u, t)"
    by (intro exI [of _ "u @ v"] exI [of _ t]) (auto simp: after_def)
next
  assume "\<exists>u t. s = u @ t \<and> n \<le> length u \<and> list_all P u \<and> b = (after p u, t)"
  then obtain u t where u: "s = u @ t" "n \<le> length u" "list_all P u" "b = (after p u, t)" by blast
  have all: "list_all P (take n u)" "list_all P (drop n u)"
    using u(3) by (metis append_take_drop_id list_all_append)+
  have "mat (times n (Cls P)) (p, s) (after p (take n u), drop n u @ t)"
    unfolding mat_times_cls using u all
    by (intro exI [of _ "take n u"] exI [of _ "drop n u @ t"]) auto
  moreover have "mat (Star True (Cls P)) (after p (take n u), drop n u @ t) b"
    unfolding mat_star_cls using u all
    by (intro exI [of _ "drop n u"] exI [of _ t]) (auto simp: after_def last_drop)
  ultimately show "mat (at_least n (Cls P)) (p, s) b"
    by (auto simp: at_least_def mat_seq_iff)
qed

section \<open>Languages\<close>

text \<open>\<open>language r W\<close>: at every position, \<open>r\<close> matches exactly the prefixes in \<open>W\<close>.\<close>

definition language :: "rx \<Rightarrow> (string \<Rightarrow> bool) \<Rightarrow> bool" where
  "language r W \<longleftrightarrow> (\<forall>p s b. mat r (p, s) b \<longleftrightarrow> (\<exists>u t. s = u @ t \<and> W u \<and> b = (after p u, t)))"

lemma after_append: "after (after p u) v = after p (u @ v)"
  by (simp add: after_def)

named_theorems languages

lemma language_lit [languages]: "language (lit w) (\<lambda>u. u = w)"
  unfolding language_def mat_lit by blast

lemma language_cls [languages]: "language (Cls P) (\<lambda>u. \<exists>c. u = [c] \<and> P c)"
proof -
  have "mat (Cls P) (p, s) b \<longleftrightarrow> (\<exists>u t. s = u @ t \<and> (\<exists>c. u = [c] \<and> P c) \<and> b = (after p u, t))" (is "?l \<longleftrightarrow> ?r") for p s b
  proof
    assume ?l
    then obtain c t where "s = c # t" "P c" "b = (Some c, t)" by (auto simp: mat_cls_iff)
    then show ?r by (intro exI [of _ "[c]"] exI [of _ t]) (simp add: after_def)
  next
    assume ?r
    then obtain c t where "s = c # t" "P c" "b = (Some c, t)" by (auto simp: after_def)
    then show ?l by (simp add: mat_cls_iff)
  qed
  then show ?thesis unfolding language_def by blast
qed

lemma language_times [languages]: "language (times n (Cls P)) (\<lambda>u. length u = n \<and> list_all P u)"
  unfolding language_def mat_times_cls by blast

lemma language_at_least [languages]: "language (at_least n (Cls P)) (\<lambda>u. n \<le> length u \<and> list_all P u)"
  unfolding language_def mat_at_least_cls by blast

lemma language_plus [languages]: "language (plus (Cls P)) (\<lambda>u. u \<noteq> [] \<and> list_all P u)"
  unfolding language_def mat_plus_cls by blast

lemma language_alt [languages]:
  assumes "language r V" "language q W"
  shows "language (Alt r q) (\<lambda>u. V u \<or> W u)"
proof -
  have "mat r (p, s) b \<longleftrightarrow> (\<exists>u t. s = u @ t \<and> V u \<and> b = (after p u, t))"
       "mat q (p, s) b \<longleftrightarrow> (\<exists>u t. s = u @ t \<and> W u \<and> b = (after p u, t))" for p s b
    using assms by (simp_all only: language_def)
  then show ?thesis
    by (simp only: language_def mat_alt_iff conj_disj_distribR conj_disj_distribL ex_disj_distrib simp_thms)
qed

lemma language_eps [languages]: "language Eps (\<lambda>u. u = [])"
  by (auto simp: language_def)

lemma language_opt [languages]: "language r W \<Longrightarrow> language (opt r) (\<lambda>u. W u \<or> u = [])"
  unfolding opt_def by (rule language_alt [OF _ language_eps])

lemma language_seq [languages]:
  assumes "language r V" "language q W"
  shows "language (Seq r q) (\<lambda>u. \<exists>v w. u = v @ w \<and> V v \<and> W w)"
proof -
  have "mat (Seq r q) (p, s) b \<longleftrightarrow> (\<exists>u t. s = u @ t \<and> (\<exists>v w. u = v @ w \<and> V v \<and> W w) \<and> b = (after p u, t))"
    (is "?l \<longleftrightarrow> ?r") for p s b
  proof
    assume ?l
    then obtain c where c: "mat r (p, s) c" "mat q c b" unfolding mat_seq_iff by blast
    from c(1) assms(1) obtain v t where v: "s = v @ t" "V v" "c = (after p v, t)" unfolding language_def by blast
    with c(2) assms(2) obtain w z where "t = w @ z" "W w" "b = (after (after p v) w, z)" unfolding language_def by blast
    with v show ?r by (intro exI [of _ "v @ w"] exI [of _ z]) (auto simp: after_append)
  next
    assume ?r
    then obtain v w t where e: "s = v @ w @ t" "V v" "W w" "b = (after (after p v) w, t)"
      by (auto simp: after_append)
    with assms have "mat r (p, s) (after p v, w @ t)" "mat q (after p v, w @ t) b" unfolding language_def by blast+
    then show ?l unfolding mat_seq_iff by blast
  qed
  then show ?thesis unfolding language_def by blast
qed

lemma rx_test_language:
  assumes "language r W"
  shows "rx_test r s \<longleftrightarrow> (\<exists>u v t. s = u @ v @ t \<and> W v)"
proof -
  have "mat r (p, s) b \<longleftrightarrow> (\<exists>u t. s = u @ t \<and> W u \<and> b = (after p u, t))" for p s b
    using assms by (simp only: language_def)
  then show ?thesis unfolding rx_test_iff by auto
qed

lemma language_cong: "language r V \<Longrightarrow> (\<And>u. V u = W u) \<Longrightarrow> language r W"
  by (simp add: language_def)

lemma lang_prefix: "language q W \<Longrightarrow> language (Seq (lit w) q) (\<lambda>u. \<exists>k. u = w @ k \<and> W k)"
  by (rule language_cong [OF language_seq [OF language_lit]]) auto

lemma lang_between:
  assumes "language r W" and W: "\<And>w. W w \<longleftrightarrow> w \<in> S"
  shows "language (Seq (lit x) (Seq r (lit y))) (\<lambda>u. \<exists>w \<in> S. u = x @ w @ y)"
proof (rule language_cong [OF lang_prefix [OF language_seq [OF assms(1) language_lit]]])
  show "(\<exists>k. u = x @ k \<and> (\<exists>v w. k = v @ w \<and> W v \<and> w = y)) = (\<exists>w \<in> S. u = x @ w @ y)" for u
    unfolding W by blast
qed

end
