(* ===== verification/Sanitizer.thy ===== *)
theory Sanitizer
  imports Store Regex
begin

text \<open>
  \<^verbatim>\<open>apps/api/src/channels/channel-sanitizer.ts\<close> (addresses, texts, HTML, file names) and
  \<^verbatim>\<open>packages/observability/src/redaction.ts\<close> (what reaches logs and operators). The limits
  that the source reads from the environment may be \<^verbatim>\<open>NaN\<close>, here \<open>None\<close>: every
  comparison with it is false.
\<close>

section \<open>Channel texts\<close>

definition MAX_SUBJECT_LENGTH :: "ext \<Rightarrow> int option" where
  "MAX_SUBJECT_LENGTH E = env_int_trim E ''CHANNEL_MAX_SUBJECT_LENGTH'' ''240''"

definition MAX_BODY_LENGTH :: "ext \<Rightarrow> int option" where
  "MAX_BODY_LENGTH E = env_int_trim E ''CHANNEL_MAX_BODY_LENGTH'' ''20000''"

definition email_char :: "char \<Rightarrow> bool" where
  "email_char c \<longleftrightarrow> c \<noteq> CHR ''@'' \<and> \<not> is_ws c"

text \<open>\<^verbatim>\<open>/^[^@\s]+@[^@\s]+\.[^@\s]+$/\<close>\<close>

definition EMAIL_PATTERN :: rx where
  "EMAIL_PATTERN =
     Seq Bos (Seq (plus (Cls email_char)) (Seq (chr CHR ''@'') (Seq (plus (Cls email_char))
       (Seq (chr CHR ''.'') (Seq (plus (Cls email_char)) Eos)))))"

definition normalizeEmail :: "string option \<Rightarrow> string option" where
  "normalizeEmail value =
     (case map_option (\<lambda>v. to_lower (trim v)) value of
        None \<Rightarrow> None
      | Some trimmed \<Rightarrow>
          if trimmed \<noteq> [] \<and> rx_test EMAIL_PATTERN trimmed then Some trimmed else None)"

definition truncateText :: "string option \<Rightarrow> int option \<Rightarrow> string option" where
  "truncateText value maxLength =
     (if \<not> truthy value then None
      else let normalized = trim (filter (\<lambda>c. c \<noteq> char_of (0::nat)) (the value))
           in Some (case maxLength of
                      None \<Rightarrow> normalized
                    | Some m \<Rightarrow>
                        if int (length normalized) > m then slice0 normalized m else normalized))"

definition sanitizeSubject :: "ext \<Rightarrow> string option \<Rightarrow> string" where
  "sanitizeSubject E value = nullish (truncateText value (MAX_SUBJECT_LENGTH E)) ''(no subject)''"

text \<open>\<^verbatim>\<open>/<script[\s\S]*?>[\s\S]*?<\/script>/gi\<close> and the same for \<^verbatim>\<open>iframe\<close>\<close>

definition block_pattern :: "string \<Rightarrow> rx" where
  "block_pattern tag =
     Seq (lit_i (''<'' @ tag)) (Seq any_star_lazy (Seq (chr CHR ''>'') (Seq any_star_lazy
       (lit_i (''</'' @ tag @ ''>'')))))"

definition SCRIPT_BLOCK_PATTERN :: rx where
  "SCRIPT_BLOCK_PATTERN = block_pattern ''script''"

definition IFRAME_BLOCK_PATTERN :: rx where
  "IFRAME_BLOCK_PATTERN = block_pattern ''iframe''"

text \<open>\<^verbatim>\<open>/\son[a-z]+\s*=\s*("[^"]*"|'[^']*'|[^\s>]+)/gi\<close>\<close>

definition quoted :: "char \<Rightarrow> rx" where
  "quoted q = Seq (chr q) (Seq (Star True (Cls (\<lambda>c. c \<noteq> q))) (chr q))"

definition HTML_EVENT_HANDLER_PATTERN :: rx where
  "HTML_EVENT_HANDLER_PATTERN =
     Seq (Cls is_ws) (Seq (lit_i ''on'') (Seq (plus (Cls (\<lambda>c. is_lower c \<or> is_upper c)))
       (Seq (Star True (Cls is_ws)) (Seq (chr CHR ''='') (Seq (Star True (Cls is_ws))
         (Alt (quoted (char_of (34::nat))) (Alt (quoted (char_of (39::nat)))
           (plus (Cls (\<lambda>c. \<not> is_ws c \<and> c \<noteq> CHR ''>''))))))))))"

text \<open>\<^verbatim>\<open>/\b(?:javascript|data|vbscript):/gi\<close>\<close>

definition DANGEROUS_PROTOCOL_PATTERN :: rx where
  "DANGEROUS_PROTOCOL_PATTERN =
     Seq WordB (Seq (Alt (lit_i ''javascript'') (Alt (lit_i ''data'') (lit_i ''vbscript'')))
       (chr CHR '':''))"

definition sanitizeHtml :: "ext \<Rightarrow> string option \<Rightarrow> string option" where
  "sanitizeHtml E value =
     (if \<not> truthy value then None
      else map_option (\<lambda>t.
        rx_replace DANGEROUS_PROTOCOL_PATTERN ''unsafe:''
          (rx_replace HTML_EVENT_HANDLER_PATTERN []
            (rx_replace IFRAME_BLOCK_PATTERN []
              (rx_replace SCRIPT_BLOCK_PATTERN [] t))))
        (truncateText value (MAX_BODY_LENGTH E)))"

definition safe_filename_char :: "char \<Rightarrow> bool" where
  "safe_filename_char c \<longleftrightarrow>
     is_lower c \<or> is_upper c \<or> is_digit c \<or> c \<in> {CHR ''.'', CHR ''_'', CHR '' '', CHR ''-''}"

text \<open>\<^verbatim>\<open>split(/[\\/]/).pop()\<close>: what follows the last slash or backslash.\<close>

definition last_segment :: "string \<Rightarrow> string" where
  "last_segment s = rev (takeWhile (\<lambda>c. c \<noteq> CHR ''/'' \<and> c \<noteq> char_of (92::nat)) (rev s))"

definition sanitizeFilename :: "string option \<Rightarrow> string" where
  "sanitizeFilename value =
     (let fallback = ''attachment'';
          base = trim (map (\<lambda>c. if safe_filename_char c then c else CHR ''_'')
                   (filter (\<lambda>c. c \<noteq> char_of (0::nat)) (last_segment (nullish value fallback))))
      in if base = [] \<or> base = ''.'' \<or> base = ''..'' then fallback else take 160 base)"

section \<open>Redaction\<close>

definition REDACTED :: string where
  "REDACTED = ''[REDACTED]''"

definition BODY_SUMMARY_KEYS :: "string list" where
  "BODY_SUMMARY_KEYS = [''body'', ''message'', ''prompt'', ''response'', ''content'',
     ''authorization'', ''cookie'', ''set-cookie'']"

definition SECRET_KEYS :: "string list" where
  "SECRET_KEYS = [''accesstoken'', ''access_token'', ''ai_api_key'', ''anthropic_api_key'',
     ''apikey'', ''api_key'', ''authorization'', ''cookie'', ''cookies'', ''jwt_access_secret'',
     ''jwt_refresh_secret'', ''openai_api_key'', ''password'', ''passwordhash'',
     ''password_hash'', ''refreshtoken'', ''refresh_token'', ''set-cookie'', ''smtppassword'',
     ''smtpuser'', ''token'', ''tokenhash'', ''token_hash'']"

text \<open>\<^verbatim>\<open>/\b(?:postgres(?:ql)?|mysql|redis):\/\/[^\s]+/gi\<close>\<close>

definition CONNECTION_STRING_PATTERN :: rx where
  "CONNECTION_STRING_PATTERN =
     Seq WordB (Seq (Alt (Seq (lit_i ''postgres'') (opt (lit_i ''ql'')))
         (Alt (lit_i ''mysql'') (lit_i ''redis'')))
       (Seq (lit ''://'') (plus (Cls (\<lambda>c. \<not> is_ws c)))))"

definition stableHash :: "ext \<Rightarrow> string \<Rightarrow> string" where
  "stableHash E value = take 12 (x_sha256 E (utf8 value))"

definition summarizeBody :: "ext \<Rightarrow> string \<Rightarrow> json" where
  "summarizeBody E value = JObj [(''redacted'', JBool True),
     (''length'', j_int (int (length value))), (''sha256Prefix'', JStr (stableHash E value))]"

definition shouldRedactKey :: "string \<Rightarrow> bool" where
  "shouldRedactKey key \<longleftrightarrow> to_lower (trim key) \<in> set SECRET_KEYS"

definition shouldSummarizeKey :: "string \<Rightarrow> bool" where
  "shouldSummarizeKey key \<longleftrightarrow> to_lower (trim key) \<in> set BODY_SUMMARY_KEYS"

definition sanitizeString :: "string \<Rightarrow> string" where
  "sanitizeString value = rx_replace CONNECTION_STRING_PATTERN REDACTED value"

text \<open>\<open>parentKey = []\<close> is the absent (or empty, also falsy) parent key.\<close>

fun sanitizeForLog :: "ext \<Rightarrow> int \<Rightarrow> string \<Rightarrow> json \<Rightarrow> json" where
  "sanitizeForLog E maxDepth parentKey JNull =
     (if maxDepth < 0 then JStr ''[Truncated]'' else JNull)"
| "sanitizeForLog E maxDepth parentKey (JBool b) =
     (if maxDepth < 0 then JStr ''[Truncated]'' else JBool b)"
| "sanitizeForLog E maxDepth parentKey (JNum q) =
     (if maxDepth < 0 then JStr ''[Truncated]'' else JNum q)"
| "sanitizeForLog E maxDepth parentKey (JStr s) =
     (if maxDepth < 0 then JStr ''[Truncated]''
      else if parentKey \<noteq> [] \<and> shouldRedactKey parentKey then JStr REDACTED
      else if parentKey \<noteq> [] \<and> shouldSummarizeKey parentKey then summarizeBody E s
      else JStr (sanitizeString s))"
| "sanitizeForLog E maxDepth parentKey (JArr js) =
     (if maxDepth < 0 then JStr ''[Truncated]''
      else JArr (map (sanitizeForLog E (maxDepth - 1) parentKey) js))"
| "sanitizeForLog E maxDepth parentKey (JObj kvs) =
     (if maxDepth < 0 then JStr ''[Truncated]''
      else JObj (map (\<lambda>kv. (fst kv,
             if shouldRedactKey (fst kv) then JStr REDACTED
             else sanitizeForLog E (maxDepth - 1) (fst kv) (snd kv))) kvs))"

definition sanitize_top :: "ext \<Rightarrow> json \<Rightarrow> json" where
  "sanitize_top E v = sanitizeForLog E 6 [] v"

section \<open>What sanitising achieves\<close>

text \<open>A stored file name is never empty, has at most 160 characters, all of them letters,
  digits, dots, underscores, blanks or hyphens, so no path separator, and is neither of the two
  directory names, whatever name the sender gave.\<close>

theorem sanitizeFilename_safe:
  "sanitizeFilename v \<noteq> [] \<and> length (sanitizeFilename v) \<le> 160 \<and>
   list_all safe_filename_char (sanitizeFilename v) \<and>
   sanitizeFilename v \<noteq> ''.'' \<and> sanitizeFilename v \<noteq> ''..''"
proof -
  let ?b = "trim (map (\<lambda>c. if safe_filename_char c then c else CHR ''_'')
                   (filter (\<lambda>c. c \<noteq> char_of (0::nat)) (last_segment (nullish v ''attachment''))))"
  have safe: "\<forall>c \<in> set ?b. safe_filename_char c"
    using set_trim by (fastforce simp: safe_filename_char_def)
  have att: "list_all safe_filename_char ''attachment''"
    by (simp add: safe_filename_char_def is_lower_def)
  show ?thesis
  proof (cases "?b = [] \<or> ?b = ''.'' \<or> ?b = ''..''")
    case True
    with att show ?thesis by (simp add: sanitizeFilename_def Let_def)
  next
    case False
    have cut: "take 160 b \<noteq> ''.'' \<and> take 160 b \<noteq> ''..''" if "160 < length b" for b :: string
    proof -
      have "length (take 160 b) = 160" using that by simp
      then have "take 160 b \<noteq> x" if "length x \<noteq> 160" for x :: string using that by blast
      from this [of "''.''"] this [of "''..''"] show ?thesis by simp
    qed
    have "take 160 ?b \<noteq> ''.'' \<and> take 160 ?b \<noteq> ''..''"
      using False cut [of ?b] by (cases "160 < length ?b") simp_all
    with False safe show ?thesis
      by (auto simp: sanitizeFilename_def Let_def list_all_iff dest: in_set_takeD)
  qed
qed

text \<open>An address: one \<^verbatim>\<open>@\<close>, a dot with text on both sides after it, no white space.\<close>

definition email_form :: "string \<Rightarrow> bool" where
  "email_form e \<longleftrightarrow> (\<exists>a b c. e = a @ CHR ''@'' # b @ CHR ''.'' # c \<and> a \<noteq> [] \<and> b \<noteq> [] \<and> c \<noteq> [] \<and>
     list_all email_char a \<and> list_all email_char b \<and> list_all email_char c)"

lemma EMAIL_PATTERN_iff: "rx_test EMAIL_PATTERN s \<longleftrightarrow> email_form s"
proof
  assume "rx_test EMAIL_PATTERN s"
  then show "email_form s"
    by (auto simp: email_form_def rx_test_iff EMAIL_PATTERN_def mat_seq_iff mat_plus_cls mat_chr
        after_def split: if_splits)
next
  assume "email_form s"
  then obtain a b c where s: "s = a @ CHR ''@'' # b @ CHR ''.'' # c" "a \<noteq> []" "b \<noteq> []" "c \<noteq> []"
    "list_all email_char a" "list_all email_char b" "list_all email_char c"
    by (auto simp: email_form_def)
  have run: "mat (plus (Cls email_char)) (p, u @ t) (after p u, t)" if "u \<noteq> []" "list_all email_char u" for p u t
    using that by (auto simp: mat_plus_cls)
  have one: "mat (chr x) (p, x # t) (Some x, t)" for x p t by (simp add: mat_chr)
  have fin: "mat (plus (Cls email_char)) (Some CHR ''.'', c) (after (Some CHR ''.'') c, [])"
    using run [of c "Some CHR ''.''" "[]"] s unfolding append_Nil2 by blast
  have "mat EMAIL_PATTERN (None, s) (after (Some CHR ''.'') c, [])"
    unfolding EMAIL_PATTERN_def s(1)
    by (rule mat.seq [OF mat.bos] mat.seq [OF run] mat.seq [OF one] mat.seq [OF fin mat.eos] s(2-7))+
  then show "rx_test EMAIL_PATTERN s"
    unfolding rx_test_iff by (intro exI [of _ "[]"] exI [of _ s]) auto
qed

text \<open>An address is accepted exactly when it has the form of one once trimmed and put in lower
  case, and what is stored is that form.\<close>

theorem normalizeEmail_form:
  "normalizeEmail v = Some e \<longleftrightarrow> (\<exists>t. v = Some t \<and> e = to_lower (trim t) \<and> email_form e)"
  by (auto simp: normalizeEmail_def EMAIL_PATTERN_iff email_form_def split: option.splits)

text \<open>No secret key of an object, at any depth, is left with anything but the mark.\<close>

fun secrets_redacted :: "json \<Rightarrow> bool" where
  "secrets_redacted (JArr js) = list_all secrets_redacted js"
| "secrets_redacted (JObj kvs) =
     list_all (\<lambda>kv. (shouldRedactKey (fst kv) \<longrightarrow> snd kv = JStr REDACTED) \<and> secrets_redacted (snd kv)) kvs"
| "secrets_redacted _ = True"

text \<open>What is logged of any value keeps no value under a secret key, at any depth of nesting and
  with any limit on the depth.\<close>

theorem sanitizeForLog_redacts: "secrets_redacted (sanitizeForLog E maxDepth parentKey v)"
proof (induction E maxDepth parentKey v rule: sanitizeForLog.induct)
  case (4 E maxDepth parentKey s)
  have "\<not> shouldRedactKey ''redacted''" "\<not> shouldRedactKey ''length''" "\<not> shouldRedactKey ''sha256Prefix''"
    by (simp_all add: shouldRedactKey_def SECRET_KEYS_def to_lower_def trim_def is_ws_def lower_char_def)
  then show ?case by (simp add: summarizeBody_def j_int_def)
qed (auto simp: list_all_iff)

lemma script_eval:
  "rx_replace DANGEROUS_PROTOCOL_PATTERN ''unsafe:''
          (rx_replace HTML_EVENT_HANDLER_PATTERN []
            (rx_replace IFRAME_BLOCK_PATTERN []
              (rx_replace SCRIPT_BLOCK_PATTERN [] ''<scr<script></script>ipt>x</script>''))) = ''<script>x</script>''"
  by code_simp

lemma script_text_kept:
  "truncateText (Some ''<scr<script></script>ipt>x</script>'') (Some 20000) =
     Some ''<scr<script></script>ipt>x</script>''"
  by code_simp

lemma default_body_length: "x_env E ''CHANNEL_MAX_BODY_LENGTH'' = None \<Longrightarrow> MAX_BODY_LENGTH E = Some 20000"
proof -
  have "parse_int ''20000'' = Some 20000" by code_simp
  then show "x_env E ''CHANNEL_MAX_BODY_LENGTH'' = None \<Longrightarrow> MAX_BODY_LENGTH E = Some 20000"
    by (simp add: MAX_BODY_LENGTH_def env_int_trim_def)
qed

text \<open>Removing the script blocks once is not enough. With the default limits, a text that hides
  one block in the tag of another is stored as sanitised HTML that is a script block, one that
  the sanitiser's own pattern matches.\<close>

theorem script_block_survives:
  assumes "x_env E ''CHANNEL_MAX_BODY_LENGTH'' = None"
  shows "sanitizeHtml E (Some ''<scr<script></script>ipt>x</script>'') = Some ''<script>x</script>'' \<and>
    rx_test SCRIPT_BLOCK_PATTERN ''<script>x</script>''"
proof
  show "sanitizeHtml E (Some ''<scr<script></script>ipt>x</script>'') = Some ''<script>x</script>''"
    unfolding sanitizeHtml_def default_body_length [OF assms] script_text_kept
    by (simp only: script_eval option.map) (simp add: truthy_def)
  show "rx_test SCRIPT_BLOCK_PATTERN ''<script>x</script>''"
    by code_simp
qed

theorem script_block_survives_witness:
  "sanitizeHtml demo_ext (Some ''<scr<script></script>ipt>x</script>'') = Some ''<script>x</script>'' \<and>
    rx_test SCRIPT_BLOCK_PATTERN ''<script>x</script>''"
  by (rule script_block_survives) (simp add: demo_ext_def)

text \<open>A subject of white space only becomes the empty string, not the placeholder that stands
  for a missing subject: the fallback tests for a missing value, not for an empty one.\<close>

theorem blank_subject:
  assumes "s \<noteq> []" "list_all is_ws s"
  shows "sanitizeSubject E (Some s) = [] \<and> sanitizeSubject E None = ''(no subject)''"
proof -
  have "list_all is_ws (filter (\<lambda>c. c \<noteq> char_of (0::nat)) s)" using assms(2) by (auto simp: list_all_iff)
  from trim_blank [OF this] have "truncateText (Some s) m = Some []" for m
    using assms(1) by (cases m) (simp_all add: truncateText_def Let_def slice0_def truthy_def)
  then show ?thesis by (simp add: sanitizeSubject_def truncateText_def truthy_def)
qed

theorem blank_subject_witness:
  "sanitizeSubject demo_ext (Some ''  '') = [] \<and> sanitizeSubject demo_ext None = ''(no subject)''"
  by (rule blank_subject) (simp_all add: is_ws_def)

end
