(* ===== verification/Provider.thy ===== *)
theory Provider
  imports Sanitizer
begin

text \<open>
  The mock e-mail provider: \<^verbatim>\<open>apps/api/src/channels/mock-email.provider.ts\<close> (webhook
  verification, parsing, sending) and its twin
  \<^verbatim>\<open>apps/worker/src/channels/mock-email.provider.ts\<close> (sending). A payload is a JSON value of
  the shape \<^verbatim>\<open>MockPayload\<close>; a field of another type than declared there reads as absent.
\<close>

section \<open>Channel events\<close>

record channel_address =
  ad_email :: "string option"
  ad_name :: "string option"
  ad_externalId :: "string option"

record parsed_attachment =
  pa_providerAttachmentId :: "string option"
  pa_filename :: string
  pa_mimeType :: string
  pa_sizeBytes :: int
  pa_contentDisposition :: "string option"
  pa_contentId :: "string option"
  pa_checksum :: "string option"
  pa_metadata :: "json option"

record parsed_inbound =
  pi_providerEventId :: string
  pi_eventType :: string
  pi_providerMessageId :: "string option"
  pi_providerThreadId :: "string option"
  pi_from :: channel_address
  pi_recipients :: "channel_address list"
  pi_subject :: "string option"
  pi_textBody :: "string option"
  pi_htmlBody :: "string option"
  pi_inReplyTo :: "string option"
  pi_references :: "string list option"
  pi_receivedAt :: "int option"
  pi_attachments :: "parsed_attachment list"
  pi_metadata :: "json option"

record parsed_callback =
  pc_providerEventId :: string
  pc_eventType :: string
  pc_providerMessageId :: string
  pc_status :: string
  pc_occurredAt :: "int option"

datatype ParsedChannelEvent = inbound parsed_inbound | delivery_callback parsed_callback

record verified_webhook =
  vw_verified :: bool
  vw_providerEventId :: "string option"
  vw_eventType :: "string option"
  vw_failureCode :: "string option"
  vw_failureMessage :: "string option"

definition j_address :: "channel_address \<Rightarrow> json" where
  "j_address a = JObj (j_field ''email'' (map_option JStr (ad_email a)) @
     j_field ''name'' (map_option JStr (ad_name a)) @
     j_field ''externalId'' (map_option JStr (ad_externalId a)))"

text \<open>Optional chaining: a missing or \<^verbatim>\<open>null\<close> member is absent.\<close>

definition j_sub :: "string \<Rightarrow> json option \<Rightarrow> json option" where
  "j_sub k v = (case v of None \<Rightarrow> None | Some j \<Rightarrow>
     (case j_get k j of None \<Rightarrow> None | Some JNull \<Rightarrow> None | Some x \<Rightarrow> Some x))"

definition j_text :: "json option \<Rightarrow> string option" where
  "j_text v = (case v of Some (JStr s) \<Rightarrow> Some s | _ \<Rightarrow> None)"

definition j_items :: "json option \<Rightarrow> json list option" where
  "j_items v = (case v of Some (JArr js) \<Rightarrow> Some js | _ \<Rightarrow> None)"

definition j_whole :: "json option \<Rightarrow> int option" where
  "j_whole v = (case v of Some (JNum q) \<Rightarrow> (if q = of_int \<lfloor>q\<rfloor> then Some \<lfloor>q\<rfloor> else None) | _ \<Rightarrow> None)"

section \<open>Signatures\<close>

definition MOCK_SECRET :: "ext \<Rightarrow> string" where
  "MOCK_SECRET E =
     str_or (map_option trim (x_env E ''MOCK_CHANNEL_WEBHOOK_SECRET'')) ''mock-webhook-secret''"

definition extractSecret :: "ext \<Rightarrow> string option \<Rightarrow> string" where
  "extractSecret E secretReference =
     (let reference = str_or (map_option trim secretReference) []
      in if reference = [] then MOCK_SECRET E
         else if starts_with ''mock:'' reference then drop 5 reference else reference)"

definition hex_digit :: "char \<Rightarrow> nat option" where
  "hex_digit c =
     (let n = (of_char c :: nat)
      in if 48 \<le> n \<and> n \<le> 57 then Some (n - 48)
         else if 97 \<le> n \<and> n \<le> 102 then Some (n - 87)
         else if 65 \<le> n \<and> n \<le> 70 then Some (n - 55) else None)"

text \<open>\<^verbatim>\<open>Buffer.from(s, 'hex')\<close>: pairs of digits up to the first that is none.\<close>

fun hex_decode :: "string \<Rightarrow> nat list" where
  "hex_decode (a # b # cs) =
     (case (hex_digit a, hex_digit b) of
        (Some m, Some n) \<Rightarrow> (16 * m + n) # hex_decode cs
      | _ \<Rightarrow> [])"
| "hex_decode _ = []"

definition safeEqualHex :: "string \<Rightarrow> string \<Rightarrow> bool" where
  "safeEqualHex left right \<longleftrightarrow>
     length (hex_decode left) = length (hex_decode right) \<and> hex_decode left = hex_decode right"

text \<open>\<^verbatim>\<open>/^[a-f0-9]{64}$/i\<close>\<close>

definition SIGNATURE_PATTERN :: rx where
  "SIGNATURE_PATTERN = Seq Bos (Seq (times 64 (Cls (\<lambda>c. hex_digit c \<noteq> None))) Eos)"

definition rejected_webhook :: "string \<Rightarrow> string \<Rightarrow> verified_webhook" where
  "rejected_webhook code msg = \<lparr>vw_verified = False, vw_providerEventId = None, vw_eventType = None,
     vw_failureCode = Some code, vw_failureMessage = Some msg\<rparr>"

definition type_error :: js_error where
  "type_error = (plain_error ''Cannot read properties of null'')\<lparr>er_name := ''TypeError''\<rparr>"

definition verifyWebhook ::
  "ext \<Rightarrow> json \<Rightarrow> string option \<Rightarrow> string option \<Rightarrow> string option \<Rightarrow> verified_webhook act" where
  "verifyWebhook E payload rawBody signatureHeader secretReference =
     (let signature = nullish (map_option trim signatureHeader) []
      in if \<not> starts_with ''v1='' signature
         then ret_x (rejected_webhook ''MISSING_SIGNATURE'' ''Missing mock channel signature'')
         else case rawBody of
           None \<Rightarrow> ret_x (rejected_webhook ''MISSING_RAW_BODY''
             ''Missing raw body for mock channel signature'')
         | Some body \<Rightarrow>
             (let expected = x_hmac E (utf8 (extractSecret E secretReference)) body;
                  supplied = drop 3 signature
              in if \<not> rx_test SIGNATURE_PATTERN supplied \<or> \<not> safeEqualHex expected supplied
                 then ret_x (rejected_webhook ''INVALID_SIGNATURE'' ''Invalid mock channel signature'')
                 else if payload = JNull then throw_x type_error
                 else ret_x \<lparr>vw_verified = True,
                   vw_providerEventId = j_get_str ''eventId'' payload,
                   vw_eventType = j_get_str ''type'' payload,
                   vw_failureCode = None, vw_failureMessage = None\<rparr>))"

section \<open>Parsing\<close>

definition normalizeProviderMessageId :: "string \<Rightarrow> string" where
  "normalizeProviderMessageId value = to_lower (trim value)"

definition occurred_at :: "ext \<Rightarrow> json \<Rightarrow> int option act" where
  "occurred_at E payload =
     (case j_get_str ''occurredAt'' payload of
        Some t \<Rightarrow> ret_x (x_date E t)
      | None \<Rightarrow> bind_x (now_x E) (\<lambda>now. ret_x (Some now)))"

definition parse_recipient :: "json \<Rightarrow> channel_address" where
  "parse_recipient r = \<lparr>ad_email = j_get_str ''email'' r,
     ad_name = truncateText (j_get_str ''name'' r) (Some 160), ad_externalId = j_get_str ''id'' r\<rparr>"

definition parse_attachment :: "json \<Rightarrow> parsed_attachment" where
  "parse_attachment a = \<lparr>pa_providerAttachmentId = j_get_str ''id'' a,
     pa_filename = sanitizeFilename (j_get_str ''filename'' a),
     pa_mimeType = nullish (j_get_str ''mimeType'' a) ''application/octet-stream'',
     pa_sizeBytes = max 0 (min (nullish (j_whole (j_get ''sizeBytes'' a)) 0) 25000000),
     pa_contentDisposition = j_get_str ''contentDisposition'' a,
     pa_contentId = j_get_str ''contentId'' a, pa_checksum = j_get_str ''checksum'' a,
     pa_metadata = Some (JObj [(''metadataOnly'', JBool True)])\<rparr>"

definition parse_callback :: "ext \<Rightarrow> json \<Rightarrow> string \<Rightarrow> string \<Rightarrow> ParsedChannelEvent act" where
  "parse_callback E payload eventId ty =
     (let delivery = j_sub ''delivery'' (Some payload);
          pmid = j_text (j_sub ''providerMessageId'' delivery);
          status = j_text (j_sub ''status'' delivery)
      in if \<not> truthy pmid \<or> \<not> truthy status
         then throw_x (plain_error ''Malformed mock delivery callback'')
         else bind_x (occurred_at E payload) (\<lambda>occurredAt.
           ret_x (delivery_callback \<lparr>pc_providerEventId = eventId, pc_eventType = ty,
             pc_providerMessageId = normalizeProviderMessageId (the pmid),
             pc_status = the status, pc_occurredAt = occurredAt\<rparr>)))"

definition parse_inbound :: "ext \<Rightarrow> json \<Rightarrow> string \<Rightarrow> string \<Rightarrow> ParsedChannelEvent act" where
  "parse_inbound E payload eventId ty =
     (let message = j_sub ''message'' (Some payload);
          mid = j_text (j_sub ''messageId'' message);
          from = j_sub ''from'' message;
          email = j_text (j_sub ''email'' from);
          inReplyTo = j_text (j_sub ''inReplyTo'' message)
      in if \<not> truthy mid \<or> \<not> truthy email
         then throw_x (plain_error ''Malformed mock inbound message'')
         else bind_x (occurred_at E payload) (\<lambda>receivedAt.
           ret_x (inbound \<lparr>pi_providerEventId = eventId, pi_eventType = ty,
             pi_providerMessageId = Some (normalizeProviderMessageId (the mid)),
             pi_providerThreadId = j_text (j_sub ''threadId'' message),
             pi_from = \<lparr>ad_email = email,
               ad_name = truncateText (j_text (j_sub ''name'' from)) (Some 160),
               ad_externalId = j_text (j_sub ''id'' from)\<rparr>,
             pi_recipients = map parse_recipient (nullish (j_items (j_sub ''to'' message)) []),
             pi_subject = Some (sanitizeSubject E (j_text (j_sub ''subject'' message))),
             pi_textBody = truncateText (j_text (j_sub ''text'' message)) (MAX_BODY_LENGTH E),
             pi_htmlBody = truncateText (j_text (j_sub ''html'' message)) (MAX_BODY_LENGTH E),
             pi_inReplyTo = (if truthy inReplyTo
               then Some (normalizeProviderMessageId (the inReplyTo)) else None),
             pi_references = map_option
               (\<lambda>rs. map normalizeProviderMessageId (List.map_filter (\<lambda>r. j_text (Some r)) rs))
               (j_items (j_sub ''references'' message)),
             pi_receivedAt = receivedAt,
             pi_attachments = map parse_attachment
               (take 10 (nullish (j_items (j_sub ''attachments'' message)) [])),
             pi_metadata = Some (JObj [(''provider'', JStr ''mock_email'')])\<rparr>)))"

definition parseEvent :: "ext \<Rightarrow> json \<Rightarrow> ParsedChannelEvent act" where
  "parseEvent E payload =
     (if payload = JNull then throw_x type_error
      else let eventId = j_get_str ''eventId'' payload; ty = j_get_str ''type'' payload
      in if \<not> truthy eventId \<or> \<not> truthy ty then throw_x (plain_error ''Malformed mock event'')
         else if starts_with ''delivery.'' (the ty)
         then parse_callback E payload (the eventId) (the ty)
         else parse_inbound E payload (the eventId) (the ty))"

section \<open>Sending\<close>

record send_input =
  si_idempotencyKey :: string
  si_subject :: "string option"
  si_textBody :: string
  si_htmlBody :: "string option"
  si_recipients :: "json list"
  si_externalThreadId :: "string option"
  si_failureMode :: "string option"

record send_result =
  sr_providerMessageId :: string
  sr_acceptedAt :: int
  sr_deliveryStatus :: string
  sr_metadata :: "json option"

record delivery_error =
  de_category :: string
  de_retryable :: bool
  de_message :: string
  de_providerStatusCode :: "int option"
  de_providerErrorCode :: "string option"

definition provider_error :: "string \<Rightarrow> string \<Rightarrow> bool \<Rightarrow> int option \<Rightarrow> js_error" where
  "provider_error msg category retryable status =
     (plain_error msg)\<lparr>er_category := Some category, er_retryable := Some retryable,
       er_providerStatusCode := status\<rparr>"

text \<open>The failures the connection's \<^verbatim>\<open>failureMode\<close> asks for.\<close>

definition mode_failure :: "string option \<Rightarrow> js_error option" where
  "mode_failure mode =
     (if mode = Some ''timeout''
      then Some (provider_error ''Mock provider timeout'' ''TIMEOUT'' True None)
      else if mode = Some ''retryable'' \<or> mode = Some ''429'' \<or> mode = Some ''503''
      then Some (provider_error ''Mock provider temporary failure''
        (if mode = Some ''429'' then ''RATE_LIMIT'' else ''PROVIDER_UNAVAILABLE'') True
        (Some (if mode = Some ''429'' then 429 else 503)))
      else if mode = Some ''permanent'' \<or> mode = Some ''invalid_recipient''
      then Some (provider_error ''Mock provider permanent failure'' ''INVALID_RECIPIENT'' False (Some 400))
      else if mode = Some ''malformed''
      then Some (provider_error ''Mock provider malformed response'' ''MALFORMED_RESPONSE'' False None)
      else None)"

definition mock_message_id :: "ext \<Rightarrow> string \<Rightarrow> string" where
  "mock_message_id E idempotencyKey =
     ''mock-out-'' @ take 24 (x_hmac E ''mock-send'' (utf8 idempotencyKey))"

definition api_sendMessage :: "ext \<Rightarrow> send_input \<Rightarrow> send_result act" where
  "api_sendMessage E inp =
     (let mode = map_option (\<lambda>m. to_lower (trim m)) (si_failureMode inp)
      in case mode_failure mode of
           Some e \<Rightarrow> throw_x e
         | None \<Rightarrow> bind_x (now_x E) (\<lambda>now. ret_x
             \<lparr>sr_providerMessageId = mock_message_id E (si_idempotencyKey inp), sr_acceptedAt = now,
              sr_deliveryStatus = (if mode = Some ''delivered'' then ''DELIVERED'' else ''SENT''),
              sr_metadata = Some (JObj [(''threadId'', j_str (si_externalThreadId inp)),
                (''recipients'', j_int (int (length (si_recipients inp))))])\<rparr>))"

definition worker_sendMessage :: "ext \<Rightarrow> send_input \<Rightarrow> send_result act" where
  "worker_sendMessage E inp =
     (let mode = map_option (\<lambda>m. to_lower (trim m)) (si_failureMode inp)
      in case mode_failure mode of
           Some e \<Rightarrow> throw_x e
         | None \<Rightarrow> bind_x (now_x E) (\<lambda>now. ret_x
             \<lparr>sr_providerMessageId = mock_message_id E (si_idempotencyKey inp), sr_acceptedAt = now,
              sr_deliveryStatus = (if mode = Some ''delivered'' then ''DELIVERED'' else ''SENT''),
              sr_metadata = Some (JObj [(''threadId'', j_str (si_externalThreadId inp)),
                (''recipientCount'', j_int (int (length (si_recipients inp))))])\<rparr>))"

definition api_classifyError :: "js_error \<Rightarrow> delivery_error" where
  "api_classifyError err =
     \<lparr>de_category = nullish (er_category err) ''UNKNOWN'', de_retryable = nullish (er_retryable err) False,
      de_message = nullish (truncateText (Some (er_message err)) (Some 500)) ''Unknown provider error'',
      de_providerStatusCode = er_providerStatusCode err,
      de_providerErrorCode = er_providerErrorCode err\<rparr>"

definition worker_classifyError :: "js_error \<Rightarrow> delivery_error" where
  "worker_classifyError err =
     \<lparr>de_category = nullish (er_category err) ''UNKNOWN'', de_retryable = nullish (er_retryable err) False,
      de_message = take 500 (er_message err),
      de_providerStatusCode = er_providerStatusCode err,
      de_providerErrorCode = er_providerErrorCode err\<rparr>"

definition healthCheck :: "bool \<times> json" where
  "healthCheck = (True, JObj [(''provider'', JStr ''mock_email'')])"

section \<open>The provider contract\<close>

text \<open>
  What the delivery code relies on: a send touches no table, a success names the message by its
  idempotency key alone, and the classification of a failure carries its category and whether it
  may be retried.
\<close>

locale channel_provider =
  fixes send :: "send_input \<Rightarrow> send_result act"
    and classify :: "js_error \<Rightarrow> delivery_error"
    and message_id :: "string \<Rightarrow> string"
  assumes send_frame: "snd (send inp w) = w\<lparr>ticks := ticks (snd (send inp w))\<rparr>"
    and send_id: "fst (send inp w) = Inr r \<Longrightarrow> sr_providerMessageId r = message_id (si_idempotencyKey inp)"
    and send_status: "fst (send inp w) = Inr r \<Longrightarrow> sr_deliveryStatus r \<in> {''SENT'', ''DELIVERED''}"
    and classify_category: "de_category (classify e) = nullish (er_category e) ''UNKNOWN''"
    and classify_retryable: "de_retryable (classify e) = nullish (er_retryable e) False"
    and classify_bound: "length (de_message (classify e)) \<le> 500"
begin

lemma send_db: "db (snd (send inp w)) = db w"
  by (subst send_frame) simp

lemma send_qlog: "qlog (snd (send inp w)) = qlog w"
  by (subst send_frame) simp

lemma send_preserves: "preserves (on_db J) (send inp)"
  by (simp add: preserves_def on_db_def send_db)

lemma resend_same_id:
  "fst (send inp w) = Inr r \<Longrightarrow> fst (send inp' w') = Inr r' \<Longrightarrow>
   si_idempotencyKey inp' = si_idempotencyKey inp \<Longrightarrow>
   sr_providerMessageId r' = sr_providerMessageId r"
  by (simp add: send_id)

text \<open>An error without a category, a database error say, is never retried.\<close>

lemma uncategorised_not_retried:
  "er_category e = None \<Longrightarrow> er_retryable e = None \<Longrightarrow>
   de_category (classify e) = ''UNKNOWN'' \<and> \<not> de_retryable (classify e)"
  by (simp add: classify_category classify_retryable)

end

lemma truncate_bound: "truncateText v (Some m) = Some t \<Longrightarrow> 0 \<le> m \<Longrightarrow> int (length t) \<le> m"
  by (auto simp: truncateText_def Let_def slice0_def split: if_splits)

interpretation api_mail: channel_provider "api_sendMessage E" api_classifyError "mock_message_id E" for E
proof
  fix e show "length (de_message (api_classifyError e)) \<le> 500"
  proof (cases "truncateText (Some (er_message e)) (Some 500)")
    case None
    then show ?thesis by (simp add: api_classifyError_def)
  next
    case (Some t)
    then show ?thesis using truncate_bound [OF Some] by (simp add: api_classifyError_def)
  qed
qed (auto simp: api_sendMessage_def api_classifyError_def run_simps Let_def split: option.splits)

interpretation worker_mail: channel_provider "worker_sendMessage E" worker_classifyError "mock_message_id E" for E
  by unfold_locales
     (auto simp: worker_sendMessage_def worker_classifyError_def run_simps Let_def split: option.splits)

section \<open>Signatures and message ids\<close>

definition is_hex :: "char \<Rightarrow> bool" where
  "is_hex c \<longleftrightarrow> hex_digit c \<noteq> None"

lemma SIGNATURE_PATTERN_iff: "rx_test SIGNATURE_PATTERN s \<longleftrightarrow> length s = 64 \<and> list_all is_hex s"
proof
  assume "rx_test SIGNATURE_PATTERN s"
  then obtain u v b where "s = u @ v" "mat SIGNATURE_PATTERN (after None u, v) b" by (auto simp: rx_test_iff)
  then show "length s = 64 \<and> list_all is_hex s"
    unfolding SIGNATURE_PATTERN_def mat_seq_iff mat_times_cls
    by (auto simp: is_hex_def list_all_iff after_def mat_times_cls simp del: times.simps split: if_splits)
next
  assume s: "length s = 64 \<and> list_all is_hex s"
  have "mat (times 64 (Cls (\<lambda>c. hex_digit c \<noteq> None))) (None, s) (after None s, [])"
    unfolding mat_times_cls using s by (intro exI [of _ s] exI [of _ "[]"]) (simp add: is_hex_def [abs_def])
  then have "mat SIGNATURE_PATTERN (None, s) (after None s, [])"
    unfolding SIGNATURE_PATTERN_def by (rule mat.seq [OF mat.bos mat.seq [OF _ mat.eos]])
  then show "rx_test SIGNATURE_PATTERN s"
    unfolding rx_test_iff by (intro exI [of _ "[]"] exI [of _ s]) auto
qed

text \<open>The signature of the raw body under the secret of the connection, in lower or upper case.\<close>

definition signature_ok :: "ext \<Rightarrow> string option \<Rightarrow> string option \<Rightarrow> string option \<Rightarrow> bool" where
  "signature_ok E rawBody header secretReference \<longleftrightarrow>
     (\<exists>body h sig. rawBody = Some body \<and> header = Some h \<and> trim h = ''v1='' @ sig \<and>
        length sig = 64 \<and> list_all is_hex sig \<and>
        hex_decode sig = hex_decode (x_hmac E (utf8 (extractSecret E secretReference)) body))"

text \<open>C10: A webhook with a payload is verified exactly when the request carries the raw body and a
  header of the form \<^verbatim>\<open>v1=\<close> and 64 hexadecimal digits that decode to the HMAC of that body under
  the secret of the connection; no other request is, and verification itself never throws.\<close>

theorem verifyWebhook_iff:
  assumes "payload \<noteq> JNull"
  shows "\<exists>v. verifyWebhook E payload rawBody header secretReference w = (Inr v, w) \<and>
     (vw_verified v \<longleftrightarrow> signature_ok E rawBody header secretReference)"
proof -
  have pre: "starts_with ''v1='' t \<longleftrightarrow> (\<exists>sig. t = ''v1='' @ sig)" for t by (simp add: starts_with_iff)
  show ?thesis
    using assms
    by (cases header; cases rawBody)
       (auto simp: verifyWebhook_def signature_ok_def Let_def run_simps rejected_webhook_def
         SIGNATURE_PATTERN_iff safeEqualHex_def pre)
qed

theorem verifyWebhook_iff_witness:
  "\<exists>v. verifyWebhook demo_ext (JObj []) (Some ''b'') None None (demo_world empty_db) =
       (Inr v, demo_world empty_db) \<and>
     (vw_verified v \<longleftrightarrow> signature_ok demo_ext (Some ''b'') None None)"
  by (rule verifyWebhook_iff) simp

text \<open>The id under which a sent message is stored is the one its delivery callback is looked up
  with: normalising the provider's id (trim, lower case) leaves the id of a send unchanged,
  digests being printed in lower case.\<close>

theorem callback_matches_send:
  assumes "\<And>k m. list_all (\<lambda>c. is_digit c \<or> is_lower c) (x_hmac E k m)"
  shows "normalizeProviderMessageId (mock_message_id E key) = mock_message_id E key"
proof -
  let ?p = "\<lambda>c. is_digit c \<or> is_lower c \<or> c = CHR ''-''"
  have all: "list_all ?p (mock_message_id E key)"
    using assms [of "''mock-send''" "utf8 key"]
    by (auto simp: mock_message_id_def list_all_iff is_lower_def dest: in_set_takeD)
  have keep: "lower_char c = c" "\<not> is_ws c" if "?p c" for c
    using that by (auto simp: is_digit_def is_lower_def lower_char_def is_ws_def Let_def)
  have t: "trim s = s" if "list_all ?p s" for s
  proof -
    have d: "dropWhile is_ws u = u" if "list_all ?p u" for u
      using that keep by (cases u) auto
    show ?thesis using that d [of s] d [of "rev s"] by (simp add: trim_def list_all_iff)
  qed
  have "map lower_char s = s" if "list_all ?p s" for s
    using that keep by (induction s) auto
  with t [OF all] all show ?thesis
    by (simp add: normalizeProviderMessageId_def to_lower_def)
qed

theorem callback_matches_send_witness:
  "normalizeProviderMessageId (mock_message_id demo_ext ''K'') = mock_message_id demo_ext ''K''"
  by (rule callback_matches_send) (simp add: demo_ext_def is_digit_def is_lower_def)

end
