(* ===== verification/JsonParse.thy ===== *)
theory JsonParse
  imports Json "HOL-Library.AList"
begin

text \<open>
  \<^verbatim>\<open>JSON.parse\<close>, which the worker reads model answers and price lists with. A parser takes
  the text and returns a value with the rest of the text, or \<open>None\<close> where the language throws a
  \<^verbatim>\<open>SyntaxError\<close>. A code unit above 255, which only an escape can produce here, is read as a
  question mark. A key that comes twice keeps its first place and its last value.
\<close>

section \<open>Lexical parts\<close>

definition json_ws :: "char \<Rightarrow> bool" where
  "json_ws c \<longleftrightarrow> (of_char c :: nat) \<in> {9, 10, 13, 32}"

definition skip_ws :: "string \<Rightarrow> string" where
  "skip_ws s = dropWhile json_ws s"

definition hex_val :: "char \<Rightarrow> nat option" where
  "hex_val c =
     (let n = of_char c
      in if 48 \<le> n \<and> n \<le> 57 then Some (n - 48)
         else if 97 \<le> n \<and> n \<le> 102 then Some (n - 87)
         else if 65 \<le> n \<and> n \<le> 70 then Some (n - 55) else None)"

definition unit_char :: "nat \<Rightarrow> char" where
  "unit_char n = (if n < 256 then char_of n else CHR ''?'')"

text \<open>The character an escape letter stands for; \<open>u\<close> is handled by the caller.\<close>

definition escape_of :: "char \<Rightarrow> char option" where
  "escape_of c =
     (let n = (of_char c :: nat)
      in if n = 34 \<or> n = 92 \<or> n = 47 then Some c
         else if n = 98 then Some (char_of (8::nat))
         else if n = 102 then Some (char_of (12::nat))
         else if n = 110 then Some (char_of (10::nat))
         else if n = 114 then Some (char_of (13::nat))
         else if n = 116 then Some (char_of (9::nat)) else None)"

definition quote_c :: char where "quote_c = char_of (34::nat)"
definition backslash_c :: char where "backslash_c = char_of (92::nat)"

text \<open>The rest of a string after its opening quote.\<close>

fun p_string :: "string \<Rightarrow> (string \<times> string) option" where
  "p_string [] = None"
| "p_string (c # cs) =
     (if c = quote_c then Some ([], cs)
      else if c = backslash_c then
        (case cs of
           [] \<Rightarrow> None
         | e # r \<Rightarrow>
             (if e = CHR ''u'' then
                (case r of
                   a # b # x # y # r' \<Rightarrow>
                     (case (hex_val a, hex_val b, hex_val x, hex_val y) of
                        (Some h1, Some h2, Some h3, Some h4) \<Rightarrow>
                          map_option (apfst ((#) (unit_char (((h1 * 16 + h2) * 16 + h3) * 16 + h4)))) (p_string r')
                      | _ \<Rightarrow> None)
                 | _ \<Rightarrow> None)
              else case escape_of e of
                None \<Rightarrow> None
              | Some d \<Rightarrow> map_option (apfst ((#) d)) (p_string r)))
      else if (of_char c :: nat) < 32 then None
      else map_option (apfst ((#) c)) (p_string cs))"

text \<open>A number: sign, digits without a leading zero, fraction, exponent.\<close>

definition p_digits :: "string \<Rightarrow> (string \<times> string) option" where
  "p_digits s = (let ds = takeWhile is_digit s in if ds = [] then None else Some (ds, dropWhile is_digit s))"

definition p_fraction :: "string \<Rightarrow> (rat \<times> string) option" where
  "p_fraction s =
     (case s of
        c # r \<Rightarrow>
          if c = CHR ''.''
          then map_option (\<lambda>(ds, r'). (of_int (digits_val ds) / 10 ^ length ds, r')) (p_digits r)
          else Some (0, s)
      | [] \<Rightarrow> Some (0, s))"

definition p_exponent :: "string \<Rightarrow> (rat \<times> string) option" where
  "p_exponent s =
     (case s of
        c # r \<Rightarrow>
          if c = CHR ''e'' \<or> c = CHR ''E''
          then (let neg = starts_with ''-'' r; r1 = (if neg \<or> starts_with ''+'' r then tl r else r)
                in map_option (\<lambda>(ds, r'). (if neg then 1 / 10 ^ nat (digits_val ds) else 10 ^ nat (digits_val ds), r'))
                     (p_digits r1))
          else Some (1, s)
      | [] \<Rightarrow> Some (1, s))"

definition p_number :: "string \<Rightarrow> (json \<times> string) option" where
  "p_number s =
     (let neg = starts_with ''-'' s
      in Option.bind (p_digits (if neg then tl s else s)) (\<lambda>(ds, r).
         if hd ds = CHR ''0'' \<and> length ds > 1 then None
         else Option.bind (p_fraction r) (\<lambda>(f, r1).
              map_option (\<lambda>(x, r2). (JNum ((if neg then -1 else 1) * (of_int (digits_val ds) + f) * x), r2))
                (p_exponent r1))))"

definition p_word :: "string \<Rightarrow> json \<Rightarrow> string \<Rightarrow> (json \<times> string) option" where
  "p_word w v s = (if starts_with w s then Some (v, drop (length w) s) else None)"

definition p_scalar :: "string \<Rightarrow> (json \<times> string) option" where
  "p_scalar s =
     (case s of
        [] \<Rightarrow> None
      | c # r \<Rightarrow>
          if c = quote_c then map_option (apfst JStr) (p_string r)
          else if c = CHR ''n'' then p_word ''null'' JNull s
          else if c = CHR ''t'' then p_word ''true'' (JBool True) s
          else if c = CHR ''f'' then p_word ''false'' (JBool False) s
          else p_number s)"

section \<open>Values\<close>

text \<open>\<open>p_value\<close> reads a value, \<open>p_items\<close> the elements of a list up to its closing bracket,
  \<open>p_members\<close> the members of an object up to its closing brace. The tests of lengths are always
  true (\<open>p_value_shorter\<close> below); they make the recursion visibly well-founded.\<close>

function (sequential) p_value :: "string \<Rightarrow> (json \<times> string) option"
  and p_items :: "string \<Rightarrow> (json list \<times> string) option"
  and p_members :: "string \<Rightarrow> ((string \<times> json) list \<times> string) option" where
  "p_value s =
     (case skip_ws s of
        [] \<Rightarrow> None
      | c # r \<Rightarrow>
          if length r < length s then
            (if c = CHR ''['' then
               (if starts_with '']'' (skip_ws r) then Some (JArr [], tl (skip_ws r))
                else map_option (apfst JArr) (p_items r))
             else if c = CHR ''{'' then
               (if starts_with ''}'' (skip_ws r) then Some (JObj [], tl (skip_ws r))
                else map_option (apfst (\<lambda>kvs. JObj (fold (\<lambda>(k, v). AList.update k v) kvs []))) (p_members r))
             else p_scalar (c # r))
          else None)"
| "p_items s =
     (case p_value s of
        None \<Rightarrow> None
      | Some (v, r) \<Rightarrow>
          (case skip_ws r of
             c # r' \<Rightarrow>
               if c = CHR '']'' then Some ([v], r')
               else if c = CHR '','' \<and> length r' < length s then map_option (apfst ((#) v)) (p_items r')
               else None
           | [] \<Rightarrow> None))"
| "p_members s =
     (case skip_ws s of
        [] \<Rightarrow> None
      | c # r \<Rightarrow>
          (case (if c = quote_c then p_string r else None) of
             None \<Rightarrow> None
           | Some (k, r1) \<Rightarrow>
               (case skip_ws r1 of
                  [] \<Rightarrow> None
                | d # r2 \<Rightarrow>
                    (case (if d = CHR '':'' \<and> length r2 < length s then p_value r2 else None) of
                       None \<Rightarrow> None
                     | Some (v, r3) \<Rightarrow>
                         (case skip_ws r3 of
                            [] \<Rightarrow> None
                          | x # r4 \<Rightarrow>
                              if x = CHR ''}'' then Some ([(k, v)], r4)
                              else if x = CHR '','' \<and> length r4 < length s
                              then map_option (apfst ((#) (k, v))) (p_members r4)
                              else None)))))"
  by pat_completeness auto
termination
  by (relation "measure (\<lambda>x. case x of Inl s \<Rightarrow> 2 * length s | Inr (Inl s) \<Rightarrow> 2 * length s + 1
       | Inr (Inr s) \<Rightarrow> 2 * length s + 1)") (auto split: if_splits)

declare p_value.simps [simp del] p_items.simps [simp del] p_members.simps [simp del]

definition json_parse :: "string \<Rightarrow> json option" where
  "json_parse s = (case p_value s of None \<Rightarrow> None | Some (v, r) \<Rightarrow> if skip_ws r = [] then Some v else None)"

section \<open>Parsers take from the front\<close>

lemma length_skip_ws: "length (skip_ws s) \<le> length s"
  by (simp add: skip_ws_def length_dropWhile_le)

lemma p_string_shorter: "p_string s = Some (t, r) \<Longrightarrow> length r < length s"
  by (induction s arbitrary: t r rule: p_string.induct)
     (fastforce split: if_splits list.splits option.splits)+

lemma p_digits_shorter: "p_digits s = Some (ds, r) \<Longrightarrow> length r < length s"
proof -
  assume d: "p_digits s = Some (ds, r)"
  have "length (takeWhile is_digit s @ dropWhile is_digit s) = length s" by simp
  moreover have "takeWhile is_digit s \<noteq> []" "r = dropWhile is_digit s"
    using d by (auto simp: p_digits_def Let_def split: if_splits)
  ultimately show ?thesis by (metis append_eq_conv_conj length_append less_add_same_cancel2 length_greater_0_conv)
qed

lemma p_fraction_shorter: "p_fraction s = Some (q, r) \<Longrightarrow> length r \<le> length s"
  by (auto simp: p_fraction_def split: list.splits if_splits dest!: p_digits_shorter)

lemma p_exponent_shorter: "p_exponent s = Some (q, r) \<Longrightarrow> length r \<le> length s"
  by (auto simp: p_exponent_def Let_def split: list.splits if_splits dest!: p_digits_shorter)

lemma p_number_shorter: "p_number s = Some (v, r) \<Longrightarrow> length r < length s"
  by (fastforce simp: p_number_def Let_def bind_eq_Some_conv split: if_splits
      dest!: p_digits_shorter p_fraction_shorter p_exponent_shorter)

lemma p_scalar_shorter: "p_scalar s = Some (v, r) \<Longrightarrow> length r < length s"
  by (auto simp: p_scalar_def p_word_def split: list.splits if_splits dest!: p_string_shorter p_number_shorter)

lemma p_value_shorter:
  "p_value s = Some (v, r) \<Longrightarrow> length r < length s"
  "p_items s = Some (vs, r) \<Longrightarrow> length r < length s"
  "p_members s = Some (kvs, r) \<Longrightarrow> length r < length s"
proof (induction s and s and s arbitrary: v r and vs r and kvs r rule: p_value_p_items_p_members.induct)
  case (1 s)
  have tl: "length (tl (skip_ws x)) \<le> length x" for x using length_skip_ws [of x] by simp
  from 1 show ?case
    by (subst (asm) p_value.simps)
       (auto split: list.splits if_splits dest!: p_scalar_shorter intro: le_less_trans [OF tl] less_trans)
next
  case (2 s)
  from 2(3) obtain v' r' c r1 where v: "p_value s = Some (v', r')" "skip_ws r' = c # r1"
    by (subst (asm) p_items.simps) (auto split: list.splits option.splits)
  have "length r1 < length r'" using v(2) length_skip_ws [of r'] by simp
  moreover have "length r' < length s" using 2(1) v(1) by blast
  ultimately show ?case
    using 2(2) [OF v(1) HOL.refl v(2)] 2(3) v by (subst (asm) (2) p_items.simps) (auto split: if_splits)
next
  case (3 s)
  from 3(3) obtain c r0 k r1 d r2 v r3 x r4 where m: "skip_ws s = c # r0" "c = quote_c" "p_string r0 = Some (k, r1)"
      "skip_ws r1 = d # r2" "d = CHR '':''" "length r2 < length s" "p_value r2 = Some (v, r3)" "skip_ws r3 = x # r4"
    by (subst (asm) p_members.simps) (auto split: list.splits option.splits if_splits)
  have "length r4 < length r3" using m(8) length_skip_ws [of r3] by simp
  moreover have "length r3 < length r2" using 3(1) m by (metis (no_types, lifting))
  ultimately have r4: "length r4 < length s" using m(6) by linarith
  from 3(3) m r4 consider "r = r4" | kvs' where "x = CHR '',''" "p_members r4 = Some (kvs', r)"
    by (subst (asm) p_members.simps) (auto split: if_splits)
  then show ?case
  proof cases
    case 2
    have e: "(if c = quote_c then p_string r0 else None) = Some (k, r1)"
      "(if d = CHR '':'' \<and> length r2 < length s then p_value r2 else None) = Some (v, r3)" using m by simp_all
    have "length r < length r4"
      by (rule 3(2) [OF m(1) e(1) HOL.refl m(4) e(2) HOL.refl m(8) _ _ 2(2)]) (simp_all add: 2(1) r4)
    with r4 show ?thesis by simp
  qed (simp add: r4)
qed

section \<open>Reading back what is printed\<close>

lemma hex_val_char: "n < 16 \<Longrightarrow> hex_val (hex_char n) = Some n"
  by (auto simp: hex_val_def hex_char_def Let_def)

lemma special_chars: "quote_c \<noteq> backslash_c" "of_char quote_c = (34::nat)" "of_char backslash_c = (92::nat)"
  by (simp_all add: quote_c_def backslash_c_def)

lemma escape_of_letters:
  "escape_of (char_of (34::nat)) = Some (char_of (34::nat))" "escape_of (char_of (92::nat)) = Some (char_of (92::nat))"
  "escape_of CHR ''b'' = Some (char_of (8::nat))" "escape_of CHR ''t'' = Some (char_of (9::nat))"
  "escape_of CHR ''n'' = Some (char_of (10::nat))" "escape_of CHR ''f'' = Some (char_of (12::nat))"
  "escape_of CHR ''r'' = Some (char_of (13::nat))"
  by (simp_all add: escape_of_def)

lemma p_string_escape: "p_string (escape_char c @ s) = map_option (apfst ((#) c)) (p_string s)"
proof -
  obtain n where n: "c = char_of (n::nat)" "n < 256" using that [of "of_char c"] by simp
  have m: "unit_char (((0 * 16 + 0) * 16 + n div 16) * 16 + n mod 16) = c"
    using n by (simp add: unit_char_def)
  have h: "hex_val CHR ''0'' = Some 0" "n < 32 \<Longrightarrow> hex_val (hex_char (n div 16)) = Some (n div 16)"
      "hex_val (hex_char (n mod 16)) = Some (n mod 16)"
    by (simp_all add: hex_val_char) (simp add: hex_val_def)
  have b: "char_of (92::nat) \<noteq> quote_c" "char_of (34::nat) \<noteq> CHR ''u''"
      "char_of (92::nat) \<noteq> CHR ''u''"
    by (simp_all add: backslash_c_def quote_c_def flip: of_char_eq_iff [where 'a = nat])
  consider "n \<in> {34, 92, 8, 9, 10, 12, 13}" | "n < 32" "n \<notin> {34, 92, 8, 9, 10, 12, 13}" | "32 \<le> n" "n \<notin> {34, 92}"
    by fastforce
  then show ?thesis
  proof cases
    case 1
    then show ?thesis using n(1) by (auto simp: escape_char_def b escape_of_letters backslash_c_def quote_c_def)
  next
    case 2
    then show ?thesis using n h m by (simp add: escape_char_def b backslash_c_def quote_c_def del: char_of_nat)
  next
    case 3
    then show ?thesis using n by (auto simp: escape_char_def quote_c_def backslash_c_def)
  qed
qed

lemma p_string_text: "p_string (concat (map escape_char t) @ quote_c # r) = Some (t, r)"
  by (induction t) (simp_all add: p_string_escape)

text \<open>What may follow a value in a printed text.\<close>

definition delim :: "string \<Rightarrow> bool" where
  "delim r \<longleftrightarrow> (case r of [] \<Rightarrow> True | c # _ \<Rightarrow> c \<in> set '',]}'')"

lemma delim_takeWhile: "list_all is_digit ds \<Longrightarrow> delim r \<Longrightarrow>
    takeWhile is_digit (ds @ r) = ds \<and> dropWhile is_digit (ds @ r) = r"
  by (induction ds) (auto simp: delim_def is_digit_def split: list.splits)

lemma show_nat_head: "n \<ge> 10 \<Longrightarrow> hd (show_nat n) \<noteq> CHR ''0''"
proof (induction n rule: show_nat.induct)
  case (1 n)
  then have n: "\<not> n < 10" by simp
  have small: "hd (show_nat k) \<noteq> CHR ''0''" if "0 < k" "k < 10" for k
    using that by (simp add: show_nat_small flip: of_char_eq_iff [where 'a = nat])
  show ?case
  proof (cases "n div 10 < 10")
    case True
    with n small [of "n div 10"] show ?thesis by (simp add: show_nat_large div_greater_zero_iff)
  next
    case False
    with 1(1) n show ?thesis by (simp add: show_nat_large)
  qed
qed

lemma length_show_nat: "1 < length (show_nat n) \<Longrightarrow> n \<ge> 10"
  by (cases "n < 10") (simp_all add: show_nat_small)

text \<open>Values whose numbers are integers and whose objects have each key once.\<close>

fun int_json :: "json \<Rightarrow> bool" where
  "int_json (JNum q) \<longleftrightarrow> q \<in> \<int>"
| "int_json (JArr js) \<longleftrightarrow> list_all int_json js"
| "int_json (JObj kvs) \<longleftrightarrow> distinct (map fst kvs) \<and> list_all (\<lambda>e. int_json (snd e)) kvs"
| "int_json _ \<longleftrightarrow> True"

lemma p_number_int: "delim r \<Longrightarrow> p_number (show_int z @ r) = Some (JNum (of_int z), r)"
proof -
  assume r: "delim r"
  have d: "p_digits (show_nat n @ r) = Some (show_nat n, r)" for n
    using delim_takeWhile [OF show_nat_digits r] by (simp add: p_digits_def)
  have z: "\<not> (hd (show_nat n) = CHR ''0'' \<and> 1 < length (show_nat n))" for n
    using show_nat_head length_show_nat by blast
  have f: "p_fraction r = Some (0, r)" "p_exponent r = Some (1, r)"
    using r by (auto simp: p_fraction_def p_exponent_def delim_def split: list.splits)
  obtain c cs where c: "show_nat (nat z) = c # cs" "is_digit c"
    using show_nat_digits [of "nat z"] by (cases "show_nat (nat z)") auto
  then have "\<not> starts_with ''-'' (show_nat (nat z) @ r)" by (auto simp: starts_with_def is_digit_def)
  with d z [of "nat z"] z [of "nat (- z)"] f show ?thesis
    by (cases "z < 0") (auto simp: p_number_def show_int_def digits_val_show_nat Let_def starts_with_def)
qed

lemma show_int_head: "\<exists>c t. show_int n = c # t \<and> (is_digit c \<or> c = CHR ''-'')"
proof (cases "n < 0")
  case False
  obtain c t where "show_nat (nat n) = c # t" "is_digit c"
    using show_nat_digits [of "nat n"] by (cases "show_nat (nat n)") auto
  with False show ?thesis by (simp add: show_int_def)
qed (simp add: show_int_def)

text \<open>A printed value starts with a character that no list, object or separator starts with.\<close>

lemma stringify_head:
  assumes "\<And>n. num (of_int n) = show_int n" "int_json j"
  shows "\<exists>c t. stableStringify num j = c # t \<and> \<not> json_ws c \<and> c \<notin> set '']},''"
proof -
  have ok: "\<not> json_ws c \<and> c \<notin> set '']},''" if "is_digit c \<or> c = CHR ''-''" for c
    using that by (auto simp: is_digit_def json_ws_def)
  have n: "\<exists>c t. show_int n = c # t \<and> \<not> json_ws c \<and> c \<notin> set '']},''" for n
    using show_int_head [of n] ok by auto
  show ?thesis
  proof (cases j)
    case (JNum q)
    with assms(2) obtain n where "q = of_int n" by (auto elim: Ints_cases)
    with JNum n [of n] assms(1) show ?thesis by simp
  next
    case (JStr t)
    have "\<not> json_ws (char_of (34::nat)) \<and> char_of (34::nat) \<notin> set '']},''"
      by (simp add: json_ws_def flip: of_char_eq_iff [where 'a = nat])
    with JStr show ?thesis by (simp add: quote_string_def)
  qed (auto simp: json_ws_def)
qed

lemma skip_ws_id: "\<not> json_ws c \<Longrightarrow> skip_ws (c # t) = c # t"
  by (simp add: skip_ws_def)

lemma not_ws [simp]: "\<not> json_ws CHR '']''" "\<not> json_ws CHR '',''" "\<not> json_ws CHR ''}''" "\<not> json_ws CHR '':''"
  "\<not> json_ws CHR ''[''" "\<not> json_ws CHR ''{''" "\<not> json_ws quote_c"
  by (simp_all add: json_ws_def quote_c_def)

lemma delim_simps [simp]: "delim (CHR '']'' # r)" "delim (CHR '','' # r)" "delim (CHR ''}'' # r)"
  by (simp_all add: delim_def)

lemma p_items_join:
  assumes "\<And>x r. x \<in> set xs \<Longrightarrow> delim r \<Longrightarrow> p_value (f x @ r) = Some (g x, r)" "xs \<noteq> []"
  shows "p_items (join_with '','' (map f xs) @ CHR '']'' # r) = Some (map g xs, r)"
  using assms
proof (induction xs rule: induct_list012)
  case (3 x y zs)
  then have "p_items (join_with '','' (map f (y # zs)) @ CHR '']'' # r) = Some (map g (y # zs), r)" by simp
  with 3 show ?case by (subst p_items.simps) (simp add: skip_ws_id)
qed (simp_all add: p_items.simps skip_ws_id)

definition member_text :: "('k \<Rightarrow> string) \<Rightarrow> ('k \<Rightarrow> string) \<Rightarrow> 'k \<Rightarrow> string" where
  "member_text k f e = quote_string (k e) @ '':'' @ f e"

lemma member_text_quote: "member_text k f e @ s = quote_c # concat (map escape_char (k e)) @ quote_c # CHR '':'' # f e @ s"
  by (simp add: member_text_def quote_string_def quote_c_def)

lemma p_members_join:
  assumes "\<And>x r. x \<in> set xs \<Longrightarrow> delim r \<Longrightarrow> p_value (f x @ r) = Some (g x, r)" "xs \<noteq> []"
  shows "p_members (join_with '','' (map (member_text k f) xs) @ CHR ''}'' # r) = Some (map (\<lambda>e. (k e, g e)) xs, r)"
  using assms
proof (induction xs rule: induct_list012)
  case (2 x)
  then show ?case
    by (subst p_members.simps) (simp add: member_text_quote skip_ws_id p_string_text)
next
  case (3 x y zs)
  then have "p_members (join_with '','' (map (member_text k f) (y # zs)) @ CHR ''}'' # r) = Some (map (\<lambda>e. (k e, g e)) (y # zs), r)"
    by simp
  with 3 show ?case
    by (subst p_members.simps) (simp add: member_text_quote skip_ws_id p_string_text)
qed simp

text \<open>The value with the members of every object in the order of their keys.\<close>

fun canon :: "json \<Rightarrow> json" where
  "canon (JArr js) = JArr (map canon js)"
| "canon (JObj kvs) = JObj (map (\<lambda>e. (fst e, canon (snd e))) (sort_key fst kvs))"
| "canon j = j"

lemma insort_key_map: "(\<And>x. k (h x) = k' x) \<Longrightarrow> insort_key k (h x) (map h xs) = map h (insort_key k' x xs)"
  by (induction xs) simp_all

lemma sort_key_map: "(\<And>x. k (h x) = k' x) \<Longrightarrow> sort_key k (map h xs) = map h (sort_key k' xs)"
  by (induction xs) (simp_all add: insort_key_map)

lemma update_fresh: "k \<notin> fst ` set al \<Longrightarrow> AList.update k v al = al @ [(k, v)]"
  by (induction al) auto

lemma fold_update: "distinct (map fst (al @ kvs)) \<Longrightarrow> fold (\<lambda>(k, v). AList.update k v) kvs al = al @ kvs"
proof (induction kvs arbitrary: al)
  case (Cons e kvs)
  then have "fst e \<notin> fst ` set al" by auto
  with Cons.IH [of "al @ [e]"] Cons.prems show ?case by (cases e) (simp add: update_fresh)
qed simp

lemma stringify_obj:
  "stableStringify num (JObj kvs) =
     ''{'' @ join_with '','' (map (member_text fst (\<lambda>e. stableStringify num (snd e))) (sort_key fst kvs)) @ ''}''"
  by (simp add: member_text_def [abs_def] sort_key_map [where k' = fst] comp_def)

lemma quote_c_neq [simp]: "c \<in> set ''ntf[{]},-'' \<Longrightarrow> c \<noteq> quote_c" "c \<in> set ''ntf[{]},-'' \<Longrightarrow> quote_c \<noteq> c"
  by (auto simp: quote_c_def simp flip: of_char_eq_iff [where 'a = nat])

lemma p_value_scalar:
  assumes "s = c # t" "\<not> json_ws c" "c \<noteq> CHR ''[''" "c \<noteq> CHR ''{''"
  shows "p_value s = p_scalar s"
  using assms by (simp add: p_value.simps skip_ws_id)

lemma p_value_stringify:
  assumes num: "\<And>n. num (of_int n) = show_int n"
  shows "int_json j \<Longrightarrow> delim r \<Longrightarrow> p_value (stableStringify num j @ r) = Some (canon j, r)"
proof (induction j arbitrary: r)
  case JNull
  then show ?case by (subst p_value_scalar) (auto simp: p_scalar_def p_word_def starts_with_def json_ws_def)
next
  case (JBool b)
  then show ?case
    by (cases b) (subst p_value_scalar; auto simp: p_scalar_def p_word_def starts_with_def json_ws_def)+
next
  case (JNum q)
  then obtain n where q: "q = of_int n" by (auto elim: Ints_cases)
  obtain c t where h: "show_int n = c # t" "is_digit c \<or> c = CHR ''-''" using show_int_head by blast
  then have "c \<noteq> quote_c" "c \<notin> set ''ntf[{''" "\<not> json_ws c"
    by (auto simp: is_digit_def json_ws_def quote_c_def [THEN arg_cong, where f = "of_char :: char \<Rightarrow> nat"])
  with h JNum(2) q num p_number_int [of r n] show ?case
    by (subst p_value_scalar) (auto simp: p_scalar_def)
next
  case (JStr t)
  have "stableStringify num (JStr t) @ r = quote_c # concat (map escape_char t) @ quote_c # r"
    by (simp add: quote_string_def quote_c_def)
  moreover have "quote_c \<noteq> CHR ''[''" "quote_c \<noteq> CHR ''{''"
    by (simp_all add: quote_c_def flip: of_char_eq_iff [where 'a = nat])
  ultimately show ?case by (subst p_value_scalar) (auto simp: p_scalar_def p_string_text)
next
  case (JArr js)
  show ?case
  proof (cases js)
    case Nil
    then show ?thesis by (simp add: p_value.simps skip_ws_id starts_with_def)
  next
    case (Cons x xs)
    let ?t = "join_with '','' (map (stableStringify num) js) @ CHR '']'' # r"
    have it: "p_items ?t = Some (map canon js, r)"
      using JArr Cons by (intro p_items_join) (auto simp: list_all_iff)
    obtain c t where c: "stableStringify num x = c # t" "\<not> json_ws c" "c \<noteq> CHR '']''"
      using stringify_head [OF num, of x] JArr(2) Cons by auto
    then have "\<exists>u. ?t = c # u" using Cons by (cases xs) auto
    with c have "\<not> starts_with '']'' (skip_ws ?t)" by (auto simp: skip_ws_id starts_with_def)
    with it show ?thesis by (simp add: p_value.simps [of "CHR ''['' # _"] skip_ws_id)
  qed
next
  case (JObj kvs)
  let ?ms = "sort_key fst kvs"
  show ?case
  proof (cases kvs)
    case Nil
    then show ?thesis by (simp add: p_value.simps skip_ws_id starts_with_def)
  next
    case (Cons x xs)
    then have ne: "?ms \<noteq> []" by (metis length_0_conv length_sort list.distinct(1))
    let ?f = "\<lambda>e. stableStringify num (snd e)"
    let ?t = "join_with '','' (map (member_text fst ?f) ?ms) @ CHR ''}'' # r"
    have it: "p_members ?t = Some (map (\<lambda>e. (fst e, canon (snd e))) ?ms, r)"
      using JObj ne by (intro p_members_join) (auto simp: list_all_iff)
    have "distinct (map fst ([] @ map (\<lambda>e. (fst e, canon (snd e))) ?ms))"
      using JObj(2) by (simp add: comp_def distinct_map distinct_sort)
    from fold_update [OF this] have
      "fold (\<lambda>(k, v). AList.update k v) (map (\<lambda>e. (fst e, canon (snd e))) ?ms) [] = map (\<lambda>e. (fst e, canon (snd e))) ?ms"
      by simp
    moreover obtain e es where "?ms = e # es" using ne by (cases ?ms) auto
    then have "\<exists>u. ?t = quote_c # u" by (cases es) (auto simp: member_text_quote)
    then have "\<not> starts_with ''}'' (skip_ws ?t)"
      by (auto simp: skip_ws_id starts_with_def)
    ultimately show ?thesis
      using it by (simp add: stringify_obj p_value.simps [of "CHR ''{'' # _"] skip_ws_id del: stableStringify.simps)
  qed
qed



end
