(* ===== verification/Retry.thy ===== *)
theory Retry
  imports Sanitizer
begin

text \<open>
  \<^verbatim>\<open>packages/observability/src/errors.ts\<close> (how an error is written down) and
  \<^verbatim>\<open>apps/worker/src/queue/retry-classifier.ts\<close> (whether a failed job is tried again). The
  stack and cause of an error, only serialised on request, are left out.
\<close>

record serialized_error =
  ser_errorCode :: string
  ser_errorName :: string
  ser_message :: string
  ser_statusCode :: "int option"

definition normalizeMessage :: "string \<Rightarrow> string" where
  "normalizeMessage message =
     (let s = sanitizeString message in if s = [] then ''Unexpected error'' else s)"

text \<open>An error with a status is an \<^verbatim>\<open>HttpException\<close>.\<close>

definition getErrorCode :: "ext \<Rightarrow> js_error \<Rightarrow> string" where
  "getErrorCode E err =
     (case er_status err of
        Some st \<Rightarrow> nullish (x_http_status E st) ''HTTP_EXCEPTION''
      | None \<Rightarrow>
          if er_code err \<noteq> None \<and> trim (the (er_code err)) \<noteq> [] then the (er_code err)
          else if er_isError err \<and> er_name err \<noteq> [] then to_upper (er_name err)
          else ''INTERNAL_ERROR'')"

definition serializeError :: "ext \<Rightarrow> js_error \<Rightarrow> serialized_error" where
  "serializeError E err =
     (if er_isError err
      then \<lparr>ser_errorCode = getErrorCode E err, ser_errorName = er_name err,
            ser_message = normalizeMessage (er_message err), ser_statusCode = er_status err\<rparr>
      else \<lparr>ser_errorCode = ''INTERNAL_ERROR'', ser_errorName = ''UnknownError'',
            ser_message = normalizeMessage (er_message err), ser_statusCode = None\<rparr>)"

datatype RetryDisposition = RETRYABLE | NON_RETRYABLE | BLOCKED | CONFIGURATION_ERROR

record retry_classification =
  rc_disposition :: RetryDisposition
  rc_metricOutcome :: string
  rc_retryable :: bool
  rc_shouldDeadLetter :: bool
  rc_useUnrecoverableError :: bool
  rc_serialized :: serialized_error

definition includesAny :: "string \<Rightarrow> string list \<Rightarrow> bool" where
  "includesAny message patterns \<longleftrightarrow> list_ex (\<lambda>p. contains p message) patterns"

definition getHaystack :: "serialized_error \<Rightarrow> string" where
  "getHaystack s = to_lower (ser_errorCode s @ '' '' @ ser_errorName s @ '' '' @ ser_message s)"

definition createConfigurationError :: "string \<Rightarrow> js_error" where
  "createConfigurationError message = (plain_error message)\<lparr>er_code := Some ''CONFIGURATION_ERROR''\<rparr>"

definition BLOCKED_WORDS :: "string list" where
  "BLOCKED_WORDS = [''guardrail block'', ''guardrail_block'', ''critic block'', ''critic_block'',
     ''policy rejection'', ''policy_rejection'']"

definition CONFIGURATION_WORDS :: "string list" where
  "CONFIGURATION_WORDS = [''configuration_error'', ''invalid ai_provider'',
     ''invalid provider configuration'', ''invalid llm_pricing_json'', ''invalid_api_key'',
     ''invalid api key'', ''incorrect api key'', ''unauthorized'', ''authentication failed'',
     ''missing production secret'', ''missing ai_api_key'', ''malformed required env'',
     ''unsupported provider'']"

definition VALIDATION_WORDS :: "string list" where
  "VALIDATION_WORDS = [''badrequest'', ''validation'', ''schema'', ''missing ticket'',
     ''ticket not found'', ''tenant mismatch'', ''invalid organization'',
     ''malformed persisted data'', ''unsupported payload'', ''notfound'', ''conflict'']"

definition RATE_LIMIT_WORDS :: "string list" where
  "RATE_LIMIT_WORDS = [''429'', ''rate limit'', ''too many requests'']"

definition TIMEOUT_WORDS :: "string list" where
  "TIMEOUT_WORDS = [''timeout'', ''timed out'', ''econnreset'', ''econnrefused'', ''enotfound'',
     ''socket hang up'', ''temporary network failure'', ''temporary provider outage'',
     ''postgres'', ''redis'', ''502'', ''503'', ''504'']"

definition PROVIDER_WORDS :: "string list" where
  "PROVIDER_WORDS = [''openai api error'', ''anthropic api error'']"

definition classification ::
  "RetryDisposition \<Rightarrow> string \<Rightarrow> bool \<Rightarrow> bool \<Rightarrow> bool \<Rightarrow> serialized_error \<Rightarrow> retry_classification" where
  "classification d m r dl u s = \<lparr>rc_disposition = d, rc_metricOutcome = m, rc_retryable = r,
     rc_shouldDeadLetter = dl, rc_useUnrecoverableError = u, rc_serialized = s\<rparr>"

definition classifyRetryableError :: "ext \<Rightarrow> js_error \<Rightarrow> retry_classification" where
  "classifyRetryableError E err =
     (let serialized = serializeError E err; haystack = getHaystack serialized
      in if includesAny haystack BLOCKED_WORDS
         then classification BLOCKED ''blocked'' False False False serialized
         else if includesAny haystack CONFIGURATION_WORDS
         then classification CONFIGURATION_ERROR ''configuration_error'' False True True serialized
         else if includesAny haystack VALIDATION_WORDS
         then classification NON_RETRYABLE ''validation_error'' False True True serialized
         else if includesAny haystack RATE_LIMIT_WORDS
         then classification RETRYABLE ''rate_limited'' True True False serialized
         else if includesAny haystack TIMEOUT_WORDS
         then classification RETRYABLE ''timeout'' True True False serialized
         else if includesAny haystack PROVIDER_WORDS
         then classification RETRYABLE ''provider_error'' True True False serialized
         else classification RETRYABLE ''unknown'' True True False serialized)"

section \<open>What a classification promises\<close>

text \<open>Of every error: exactly the retryable dispositions are retried, everything but a blocked run
  is dead-lettered, exactly configuration and permanent errors stop the queue's own retries, and
  an error is taken as blocked exactly when its text holds one of the words for it.\<close>

theorem classify_spec:
  "let c = classifyRetryableError E err
   in (rc_retryable c \<longleftrightarrow> rc_disposition c = RETRYABLE) \<and>
      (rc_shouldDeadLetter c \<longleftrightarrow> rc_disposition c \<noteq> BLOCKED) \<and>
      (rc_useUnrecoverableError c \<longleftrightarrow> rc_disposition c \<in> {CONFIGURATION_ERROR, NON_RETRYABLE}) \<and>
      (includesAny (getHaystack (serializeError E err)) BLOCKED_WORDS \<longleftrightarrow> rc_disposition c = BLOCKED)"
  by (simp add: classifyRetryableError_def classification_def Let_def)

end
