(* ===== verification/Llm.thy ===== *)
theory Llm
  imports JsonParse Retry
begin

text \<open>
  \<^verbatim>\<open>apps/worker/src/llm\<close>: the price list and cost of a call (\<^verbatim>\<open>pricing.ts\<close>), the
  configuration (\<^verbatim>\<open>llm-config.ts\<close>), reading a model's answer (\<^verbatim>\<open>safe-json.ts\<close> and the
  validators of \<^verbatim>\<open>prompt-templates.ts\<close>), the providers and the service. A function that may
  throw returns \<open>js_error + 'a\<close>. What the two remote services answer is the parameter \<open>llm_net\<close>.
  Typographic dashes of the prompts are written as plain ones, an ellipsis as three dots.
\<close>

section \<open>Results\<close>

definition of_result :: "js_error + 'a \<Rightarrow> 'a act" where
  "of_result r = (case r of Inl e \<Rightarrow> throw_x e | Inr a \<Rightarrow> ret_x a)"

definition and_then :: "'e + 'a \<Rightarrow> ('a \<Rightarrow> 'e + 'b) \<Rightarrow> 'e + 'b" where
  "and_then r k = (case r of Inl e \<Rightarrow> Inl e | Inr a \<Rightarrow> k a)"

definition check_that :: "bool \<Rightarrow> 'e \<Rightarrow> 'e + unit" where
  "check_that b e = (if b then Inr () else Inl e)"

primrec collect_results :: "('a \<Rightarrow> 'e + 'b) \<Rightarrow> 'a list \<Rightarrow> 'e + 'b list" where
  "collect_results f [] = Inr []"
| "collect_results f (x # xs) =
     and_then (f x) (\<lambda>y. and_then (collect_results f xs) (\<lambda>ys. Inr (y # ys)))"

lemma of_result_run [run_simps]: "of_result r w = (r, w)"
  by (cases r) (simp_all add: of_result_def run_simps)

lemma preserves_of_result [preserve_rules]: "preserves I (of_result r)"
  by (simp add: preserves_def run_simps)

lemma and_then_simps [simp]: "and_then (Inl e) k = Inl e" "and_then (Inr a) k = k a"
  by (simp_all add: and_then_def)

lemma and_then_Inr: "and_then r k = Inr b \<longleftrightarrow> (\<exists>a. r = Inr a \<and> k a = Inr b)"
  by (cases r) simp_all

lemma check_that_Inr: "check_that b e = Inr u \<longleftrightarrow> b"
  by (simp add: check_that_def)

section \<open>Price list\<close>

record pricing_rate =
  pr_input :: int
  pr_output :: int

type_synonym pricing = "(string \<times> (string \<times> pricing_rate) list) list"

definition DEFAULT_LLM_PRICING :: pricing where
  "DEFAULT_LLM_PRICING =
     [(''openai'', [(''gpt-4o-mini'', \<lparr>pr_input = 150, pr_output = 600\<rparr>)]),
      (''anthropic'', [(''claude-haiku-4-5'', \<lparr>pr_input = 250, pr_output = 1250\<rparr>)]),
      (''deterministic'', [])]"

definition is_integer :: "json option \<Rightarrow> bool" where
  "is_integer v \<longleftrightarrow> (case v of Some (JNum q) \<Rightarrow> q = of_int \<lfloor>q\<rfloor> | _ \<Rightarrow> False)"

definition integer_of :: "json option \<Rightarrow> int" where
  "integer_of v = (case v of Some (JNum q) \<Rightarrow> \<lfloor>q\<rfloor> | _ \<Rightarrow> 0)"

definition pricing_error :: "string \<Rightarrow> string \<Rightarrow> string \<Rightarrow> js_error" where
  "pricing_error provider model what =
     createConfigurationError (''Invalid LLM_PRICING_JSON for '' @ provider @ ''/'' @ model @ '': '' @ what)"

definition is_plain_object :: "json \<Rightarrow> bool" where
  "is_plain_object v \<longleftrightarrow> (case v of JObj _ \<Rightarrow> True | _ \<Rightarrow> False)"

definition parseRate :: "string \<Rightarrow> string \<Rightarrow> json \<Rightarrow> js_error + pricing_rate" where
  "parseRate provider model value =
     (let input = j_get ''inputMicrounitsPer1kTokens'' value;
          output = j_get ''outputMicrounitsPer1kTokens'' value
      in if \<not> is_plain_object value then Inl (pricing_error provider model ''expected object'')
         else if \<not> is_integer input \<or> integer_of input < 0
         then Inl (pricing_error provider model ''inputMicrounitsPer1kTokens must be a non-negative integer'')
         else if \<not> is_integer output \<or> integer_of output < 0
         then Inl (pricing_error provider model ''outputMicrounitsPer1kTokens must be a non-negative integer'')
         else Inr \<lparr>pr_input = integer_of input, pr_output = integer_of output\<rparr>)"

text \<open>\<^verbatim>\<open>{...a, ...b}\<close>\<close>

definition spread :: "(string \<times> 'v) list \<Rightarrow> (string \<times> 'v) list \<Rightarrow> (string \<times> 'v) list" where
  "spread a b = fold (\<lambda>e. AList.update (fst e) (snd e)) b a"

definition mergePricingConfig :: "pricing \<Rightarrow> pricing \<Rightarrow> pricing" where
  "mergePricingConfig base override =
     fold (\<lambda>e next. AList.update (fst e) (spread (nullish (map_of next (fst e)) []) (snd e)) next) override base"

definition parse_models :: "string \<times> json \<Rightarrow> js_error + string \<times> (string \<times> pricing_rate) list" where
  "parse_models e =
     (case snd e of
        JObj models \<Rightarrow>
          and_then (collect_results (\<lambda>m. and_then (parseRate (fst e) (fst m) (snd m)) (\<lambda>r. Inr (fst m, r))) models)
            (\<lambda>ms. Inr (fst e, ms))
      | _ \<Rightarrow> Inl (createConfigurationError
               (''Invalid LLM_PRICING_JSON for '' @ fst e @ '': expected object of models'')))"

definition parseLlmPricingConfig :: "string option \<Rightarrow> js_error + pricing" where
  "parseLlmPricingConfig raw =
     (if nullish (map_option trim raw) [] = [] then Inr DEFAULT_LLM_PRICING
      else case json_parse (the raw) of
        None \<Rightarrow> Inl (createConfigurationError ''Invalid LLM_PRICING_JSON: must be valid JSON'')
      | Some (JObj parsed) \<Rightarrow>
          and_then (collect_results parse_models parsed)
            (\<lambda>override. Inr (mergePricingConfig DEFAULT_LLM_PRICING override))
      | Some _ \<Rightarrow> Inl (createConfigurationError ''Invalid LLM_PRICING_JSON: expected object''))"

definition price_of :: "pricing \<Rightarrow> string \<Rightarrow> string \<Rightarrow> pricing_rate option" where
  "price_of pricing provider model = Option.bind (map_of pricing provider) (\<lambda>ms. map_of ms model)"

section \<open>Cost\<close>

definition ceilDivide :: "int \<Rightarrow> int \<Rightarrow> int" where
  "ceilDivide numerator denominator = (numerator + denominator - 1) div denominator"

record llm_cost =
  lc_microunits :: "int option"
  lc_cents :: "int option"

definition calculateLlmCost :: "ext \<Rightarrow> string \<Rightarrow> string \<Rightarrow> int \<Rightarrow> int \<Rightarrow> pricing option \<Rightarrow> js_error + llm_cost" where
  "calculateLlmCost E provider model inputTokens outputTokens pricing =
     (if provider = ''deterministic'' then Inr \<lparr>lc_microunits = Some 0, lc_cents = Some 0\<rparr>
      else and_then (case pricing of Some p \<Rightarrow> Inr p | None \<Rightarrow> parseLlmPricingConfig (x_env E ''LLM_PRICING_JSON''))
        (\<lambda>p. case price_of p provider model of
           None \<Rightarrow> Inr \<lparr>lc_microunits = None, lc_cents = None\<rparr>
         | Some rate \<Rightarrow>
             (let total = ceilDivide (inputTokens * pr_input rate) 1000 + ceilDivide (outputTokens * pr_output rate) 1000
              in Inr \<lparr>lc_microunits = Some total, lc_cents = Some (ceilDivide total 10000)\<rparr>)))"

definition sumEstimatedCostCents :: "int option list \<Rightarrow> int option" where
  "sumEstimatedCostCents values =
     (if list_ex (\<lambda>v. v = None) values then None else Some (foldl (\<lambda>total v. total + the v) 0 values))"

section \<open>Reading an answer\<close>

text \<open>\<^verbatim>\<open>JSON.stringify\<close>: members in their order.\<close>

fun js_stringify :: "(rat \<Rightarrow> string) \<Rightarrow> json \<Rightarrow> string" where
  "js_stringify num (JArr js) = ''['' @ join_with '','' (map (js_stringify num) js) @ '']''"
| "js_stringify num (JObj kvs) =
     ''{'' @ join_with '','' (map (\<lambda>e. quote_string (fst e) @ '':'' @ js_stringify num (snd e)) kvs) @ ''}''"
| "js_stringify num j = stableStringify num j"

definition safeParseJson :: "string \<Rightarrow> (json \<Rightarrow> js_error + 'a) \<Rightarrow> string \<Rightarrow> js_error + 'a" where
  "safeParseJson rawText validate schemaName =
     (case json_parse (trim rawText) of
        None \<Rightarrow> Inl (plain_error (''[safe-json] Failed to parse JSON for schema '' @ [quote_c] @ schemaName @
          [quote_c] @ '': '' @ take 300 rawText))
      | Some parsed \<Rightarrow>
          if \<not> is_plain_object parsed
          then Inl (plain_error (''[safe-json] Expected object for schema '' @ [quote_c] @ schemaName @ [quote_c] @
            '', got '' @ (case parsed of JStr _ \<Rightarrow> ''string'' | JNum _ \<Rightarrow> ''number'' | JBool _ \<Rightarrow> ''boolean''
              | _ \<Rightarrow> ''object'')))
          else case validate parsed of
            Inr a \<Rightarrow> Inr a
          | Inl err \<Rightarrow> Inl (plain_error (''[safe-json] Validation failed for '' @ [quote_c] @ schemaName @
              [quote_c] @ '': '' @ er_message err)))"

text \<open>The ellipsis that the source appends is one character outside Latin-1, here three dots.\<close>

definition truncateForLog :: "string \<Rightarrow> string" where
  "truncateForLog text =
     (if length text \<le> 500 then text
      else take 500 text @ ''... [+'' @ show_nat (length text - 500) @ '' chars]'')"

datatype TicketCategory = BILLING | TECHNICAL | ACCOUNT | GENERAL

primrec category_name :: "TicketCategory \<Rightarrow> string" where
  "category_name BILLING = ''billing''"
| "category_name TECHNICAL = ''technical''"
| "category_name ACCOUNT = ''account''"
| "category_name GENERAL = ''general''"

definition category_of :: "json option \<Rightarrow> TicketCategory option" where
  "category_of v =
     (case v of
        Some (JStr s) \<Rightarrow> List.find (\<lambda>c. category_name c = s) [BILLING, TECHNICAL, ACCOUNT, GENERAL]
      | _ \<Rightarrow> None)"

record router_output =
  ru_category :: TicketCategory
  ru_intent :: string
  ru_urgency :: string
  ru_confidence :: rat
  ru_notes :: string

record resolver_output =
  ro_draftBody :: string
  ro_resolutionSummary :: string
  ro_confidence :: rat
  ro_usedKnowledgeArticleIds :: "string list"

record critic_output =
  co_passed :: bool
  co_safetyVerdict :: string
  co_completenessScore :: rat
  co_issues :: "string list"
  co_recommendedAction :: string

definition formatUnknown :: "ext \<Rightarrow> json option \<Rightarrow> string" where
  "formatUnknown E v =
     (case v of None \<Rightarrow> ''undefined'' | Some (JStr s) \<Rightarrow> s | Some j \<Rightarrow> js_stringify (x_num E) j)"

text \<open>\<^verbatim>\<open>Math.max(0, Math.min(1, x))\<close>\<close>

definition clamp01 :: "rat \<Rightarrow> rat" where
  "clamp01 q = max 0 (min 1 q)"

definition get_num :: "string \<Rightarrow> json \<Rightarrow> rat option" where
  "get_num k j = (case j_get k j of Some (JNum q) \<Rightarrow> Some q | _ \<Rightarrow> None)"

definition get_arr :: "string \<Rightarrow> json \<Rightarrow> json list option" where
  "get_arr k j = (case j_get k j of Some (JArr js) \<Rightarrow> Some js | _ \<Rightarrow> None)"

definition get_bool :: "string \<Rightarrow> json \<Rightarrow> bool option" where
  "get_bool k j = (case j_get k j of Some (JBool b) \<Rightarrow> Some b | _ \<Rightarrow> None)"

text \<open>\<^verbatim>\<open>xs.filter((x) => typeof x === 'string')\<close>\<close>

definition strings_in :: "json list \<Rightarrow> string list" where
  "strings_in js = List.map_filter (\<lambda>j. case j of JStr s \<Rightarrow> Some s | _ \<Rightarrow> None) js"

definition one_of :: "string list \<Rightarrow> json option \<Rightarrow> bool" where
  "one_of names v \<longleftrightarrow> (case v of Some (JStr s) \<Rightarrow> s \<in> set names | _ \<Rightarrow> False)"

definition validateRouterOutput :: "ext \<Rightarrow> json \<Rightarrow> js_error + router_output" where
  "validateRouterOutput E r =
     and_then (check_that (category_of (j_get ''category'' r) \<noteq> None)
        (plain_error (''invalid category: '' @ formatUnknown E (j_get ''category'' r)))) (\<lambda>_.
     and_then (check_that (truthy (j_get_str ''intent'' r)) (plain_error ''missing intent'')) (\<lambda>_.
     and_then (check_that (one_of [''low'', ''normal'', ''high''] (j_get ''urgency'' r))
        (plain_error (''invalid urgency: '' @ formatUnknown E (j_get ''urgency'' r)))) (\<lambda>_.
     and_then (check_that (get_num ''confidence'' r \<noteq> None) (plain_error ''missing confidence'')) (\<lambda>_.
     and_then (check_that (j_get_str ''notes'' r \<noteq> None) (plain_error ''missing notes'')) (\<lambda>_.
       Inr \<lparr>ru_category = the (category_of (j_get ''category'' r)), ru_intent = the (j_get_str ''intent'' r),
         ru_urgency = the (j_get_str ''urgency'' r), ru_confidence = clamp01 (the (get_num ''confidence'' r)),
         ru_notes = the (j_get_str ''notes'' r)\<rparr>)))))"

definition validateResolverOutput :: "json \<Rightarrow> js_error + resolver_output" where
  "validateResolverOutput r =
     and_then (check_that (j_get_str ''draftBody'' r \<noteq> None \<and> \<not> length (the (j_get_str ''draftBody'' r)) < 10)
        (plain_error ''invalid or missing draftBody'')) (\<lambda>_.
     and_then (check_that (j_get_str ''resolutionSummary'' r \<noteq> None) (plain_error ''missing resolutionSummary'')) (\<lambda>_.
     and_then (check_that (get_num ''confidence'' r \<noteq> None) (plain_error ''missing confidence'')) (\<lambda>_.
     and_then (check_that (get_arr ''usedKnowledgeArticleIds'' r \<noteq> None)
        (plain_error ''missing usedKnowledgeArticleIds'')) (\<lambda>_.
       Inr \<lparr>ro_draftBody = the (j_get_str ''draftBody'' r),
         ro_resolutionSummary = the (j_get_str ''resolutionSummary'' r),
         ro_confidence = clamp01 (the (get_num ''confidence'' r)),
         ro_usedKnowledgeArticleIds = strings_in (the (get_arr ''usedKnowledgeArticleIds'' r))\<rparr>))))"

definition validateCriticOutput :: "ext \<Rightarrow> json \<Rightarrow> js_error + critic_output" where
  "validateCriticOutput E r =
     and_then (check_that (get_bool ''passed'' r \<noteq> None) (plain_error ''missing passed'')) (\<lambda>_.
     and_then (check_that (one_of [''safe'', ''needs_review'', ''blocked''] (j_get ''safetyVerdict'' r))
        (plain_error (''invalid safetyVerdict: '' @ formatUnknown E (j_get ''safetyVerdict'' r)))) (\<lambda>_.
     and_then (check_that (get_num ''completenessScore'' r \<noteq> None) (plain_error ''missing completenessScore'')) (\<lambda>_.
     and_then (check_that (get_arr ''issues'' r \<noteq> None) (plain_error ''missing issues'')) (\<lambda>_.
     and_then (check_that (one_of [''approve'', ''human_review'', ''revise''] (j_get ''recommendedAction'' r))
        (plain_error (''invalid recommendedAction: '' @ formatUnknown E (j_get ''recommendedAction'' r)))) (\<lambda>_.
       Inr \<lparr>co_passed = the (get_bool ''passed'' r), co_safetyVerdict = the (j_get_str ''safetyVerdict'' r),
         co_completenessScore = clamp01 (the (get_num ''completenessScore'' r)),
         co_issues = strings_in (the (get_arr ''issues'' r)),
         co_recommendedAction = the (j_get_str ''recommendedAction'' r)\<rparr>)))))"

section \<open>Prompts\<close>

text \<open>The dashes of the source, which are outside Latin-1, are written as hyphens here.\<close>

definition text_lines :: "string list \<Rightarrow> string" where
  "text_lines ls = join_with [char_of (10::nat)] ls"

definition ROUTER_SYSTEM_PROMPT :: string where
  "ROUTER_SYSTEM_PROMPT = text_lines [
     ''You are a customer support ticket router. Analyze the incoming ticket and respond with a JSON object only.'',
     [],
     ''Required fields:'',
     ''- category: one of \"billing\", \"technical\", \"account\", \"general\"'',
     ''- intent: short snake_case string (e.g. \"assist_billing_issue\")'',
     ''- urgency: one of \"low\", \"normal\", \"high\"'',
     ''- confidence: number 0-1'',
     ''- notes: one sentence explaining the routing decision'',
     [],
     ''Respond with valid JSON only. No markdown, no code blocks, no extra text.'']"

definition RESOLVER_SYSTEM_PROMPT :: string where
  "RESOLVER_SYSTEM_PROMPT = text_lines [
     ''You are a customer support agent. Draft a professional response to the support ticket.'',
     [],
     ''Required fields:'',
     ''- draftBody: the complete draft reply to the customer (2-5 sentences, professional tone, addressed to the customer)'',
     ''- resolutionSummary: one-sentence internal summary of the approach'',
     ''- confidence: number 0-1'',
     ''- usedKnowledgeArticleIds: array of article IDs from provided snippets (empty array if none used)'',
     [],
     ''Rules:'',
     ''- Do not invent policies not mentioned in knowledge snippets'',
     ''- Do not include internal IDs or system details in draftBody'',
     ''- draftBody must address the customer directly, not an internal reviewer'',
     [],
     ''Respond with valid JSON only. No markdown, no code blocks.'']"

definition CRITIC_SYSTEM_PROMPT :: string where
  "CRITIC_SYSTEM_PROMPT = text_lines [
     ''You are a quality reviewer for customer support draft responses.'',
     [],
     ''Required fields:'',
     ''- passed: boolean - whether the draft meets quality standards'',
     ''- safetyVerdict: one of \"safe\", \"needs_review\", \"blocked\"'',
     ''- completenessScore: number 0-1'',
     ''- issues: array of strings (empty if passed)'',
     ''- recommendedAction: one of \"approve\", \"human_review\", \"revise\"'',
     [],
     ''Review criteria:'',
     ''- Draft must not contain placeholder text, TODO markers, or internal system info'',
     (''- Draft must be professional and relevant to the customer'' @ [CHR 0x27] @ ''s issue''),
     ''- Draft should use knowledge articles if applicable and available'',
     ''- Draft must be at least 2 sentences'',
     [],
     ''Respond with valid JSON only. No markdown, no code blocks.'']"

record knowledge_snippet =
  kn_articleId :: string
  kn_title :: string
  kn_snippet :: string

definition snippet_lines :: "string \<Rightarrow> knowledge_snippet list \<Rightarrow> string" where
  "snippet_lines none snippets =
     (if snippets = [] then none
      else text_lines (map (\<lambda>s. ''['' @ kn_articleId s @ ''] '' @ kn_title s @ '': '' @ kn_snippet s) snippets))"

definition buildRouterUserPrompt :: "string \<Rightarrow> string \<Rightarrow> string" where
  "buildRouterUserPrompt subject body =
     text_lines [''Route this support ticket:'', ''Subject: '' @ subject, ''Body: '' @ take 2000 body]"

definition buildResolverUserPrompt ::
  "string \<Rightarrow> string \<Rightarrow> string \<Rightarrow> string \<Rightarrow> knowledge_snippet list \<Rightarrow> string" where
  "buildResolverUserPrompt subject body category intent snippets =
     text_lines [''Draft a response to this support ticket.'', [], ''Category: '' @ category, ''Intent: '' @ intent, [],
       ''Customer Subject: '' @ subject, ''Customer Message: '' @ take 2000 body, [],
       ''Available Knowledge Articles:'', snippet_lines ''No knowledge articles available.'' snippets]"

definition buildCriticUserPrompt ::
  "string \<Rightarrow> string \<Rightarrow> string \<Rightarrow> string list \<Rightarrow> knowledge_snippet list \<Rightarrow> string" where
  "buildCriticUserPrompt subject draftBody category usedIds snippets =
     text_lines [''Review this draft customer support response.'', [], ''Ticket Subject: '' @ subject,
       ''Category: '' @ category,
       ''Draft Used Knowledge Articles: '' @ (if usedIds = [] then ''none'' else join_with '', '' usedIds), [],
       ''Available Knowledge Snippets:'', snippet_lines ''No knowledge articles were available.'' snippets, [],
       ''Draft Response to Review:'', take 3000 draftBody]"

section \<open>Configuration\<close>

record llm_config =
  lf_provider :: string
  lf_apiKey :: "string option"
  lf_modelRouter :: string
  lf_modelResolver :: string
  lf_modelCritic :: string
  lf_timeoutMs :: int
  lf_maxOutputTokens :: int
  lf_temperature :: rat
  lf_enableFallback :: bool

text \<open>\<^verbatim>\<open>parseFloat\<close> of a decimal; \<open>None\<close> is \<^verbatim>\<open>NaN\<close> (or an infinity, which every range below
  refuses just the same).\<close>

definition parse_float :: "string \<Rightarrow> rat option" where
  "parse_float s =
     (let t = dropWhile is_ws s;
          neg = starts_with ''-'' t;
          u = (if neg \<or> starts_with ''+'' t then tl t else t);
          ds = takeWhile is_digit u; r = dropWhile is_digit u;
          fs = (if starts_with ''.'' r then takeWhile is_digit (tl r) else []);
          r' = (if starts_with ''.'' r then dropWhile is_digit (tl r) else r);
          e = (case p_exponent r' of None \<Rightarrow> 1 | Some x \<Rightarrow> fst x)
      in if ds = [] \<and> fs = [] then None
         else Some ((if neg then -1 else 1) * (of_int (digits_val ds) + of_int (digits_val fs) / 10 ^ length fs) * e))"

definition llm_parseIntEnv :: "ext \<Rightarrow> string \<Rightarrow> int \<Rightarrow> int \<Rightarrow> int \<Rightarrow> js_error + int" where
  "llm_parseIntEnv E name defaultVal lo hi =
     (case x_env E name of
        None \<Rightarrow> Inr defaultVal
      | Some raw \<Rightarrow>
          if raw = [] then Inr defaultVal
          else case parse_int raw of
            Some v \<Rightarrow> if v < lo \<or> v > hi
              then Inl (plain_error (''Invalid '' @ name @ '': expected integer '' @ show_int lo @ ''-'' @ show_int hi @
                '', got '' @ [quote_c] @ raw @ [quote_c])) else Inr v
          | None \<Rightarrow> Inl (plain_error (''Invalid '' @ name @ '': expected integer '' @ show_int lo @ ''-'' @ show_int hi @
                '', got '' @ [quote_c] @ raw @ [quote_c])))"

definition parseFloatEnv :: "ext \<Rightarrow> string \<Rightarrow> rat \<Rightarrow> rat \<Rightarrow> rat \<Rightarrow> js_error + rat" where
  "parseFloatEnv E name defaultVal lo hi =
     (let bad = \<lambda>raw. plain_error (''Invalid '' @ name @ '': expected number '' @ x_num E lo @ ''-'' @ x_num E hi @
          '', got '' @ [quote_c] @ raw @ [quote_c])
      in case x_env E name of
           None \<Rightarrow> Inr defaultVal
         | Some raw \<Rightarrow>
             if raw = [] then Inr defaultVal
             else case parse_float raw of
               None \<Rightarrow> Inl (bad raw)
             | Some v \<Rightarrow> if v < lo \<or> v > hi then Inl (bad raw) else Inr v)"

definition VALID_PROVIDERS :: "string list" where
  "VALID_PROVIDERS = [''deterministic'', ''openai'', ''anthropic'']"

definition loadLlmConfig :: "ext \<Rightarrow> js_error + llm_config" where
  "loadLlmConfig E =
     (let provider = nullish (x_env E ''AI_PROVIDER'') ''deterministic''
      in and_then (check_that (provider \<in> set VALID_PROVIDERS)
           (plain_error (''Invalid AI_PROVIDER '' @ [quote_c] @ provider @ [quote_c] @ ''. Valid values: '' @
             join_with '', '' VALID_PROVIDERS))) (\<lambda>_.
         and_then (llm_parseIntEnv E ''AI_TIMEOUT_MS'' 30000 1000 120000) (\<lambda>timeoutMs.
         and_then (llm_parseIntEnv E ''AI_MAX_OUTPUT_TOKENS'' 700 50 4096) (\<lambda>maxOutputTokens.
         and_then (parseFloatEnv E ''AI_TEMPERATURE'' (1 / 5) 0 2) (\<lambda>temperature.
           Inr \<lparr>lf_provider = provider, lf_apiKey = x_env E ''AI_API_KEY'',
             lf_modelRouter = nullish (x_env E ''AI_MODEL_ROUTER'') ''gpt-4o-mini'',
             lf_modelResolver = nullish (x_env E ''AI_MODEL_RESOLVER'') ''gpt-4o-mini'',
             lf_modelCritic = nullish (x_env E ''AI_MODEL_CRITIC'') ''gpt-4o-mini'',
             lf_timeoutMs = timeoutMs, lf_maxOutputTokens = maxOutputTokens, lf_temperature = temperature,
             lf_enableFallback = (x_env E ''AI_ENABLE_FALLBACK'' \<noteq> Some ''false'')\<rparr>)))))"

section \<open>Providers\<close>

datatype LLMTask = ROUTER_TASK | RESOLVER_TASK | CRITIC_TASK

record llm_request =
  lr_model :: string
  lr_systemPrompt :: string
  lr_userPrompt :: string
  lr_schemaName :: string
  lr_timeoutMs :: int
  lr_maxOutputTokens :: int
  lr_temperature :: rat

record llm_usage =
  lu_inputTokens :: int
  lu_outputTokens :: int
  lu_totalTokens :: int
  lu_microunits :: "int option"
  lu_cents :: "int option"

record 'a llm_response =
  lo_output :: 'a
  lo_rawText :: string
  lo_provider :: string
  lo_model :: string
  lo_usage :: llm_usage
  lo_finishReason :: "string option"

text \<open>The HTTP call and what it may come to: an error of the network or an abort after the
  timeout, a status that is not a success, or the answer as the source types it.\<close>

record http_call =
  hc_url :: string
  hc_key :: string
  hc_model :: string
  hc_system :: string
  hc_user :: string
  hc_temperature :: rat
  hc_maxTokens :: int
  hc_timeoutMs :: int

datatype 'r http_reply = Failed js_error | NotOk int string | Reply 'r

record openai_response =
  oa_choices :: "(string option \<times> string option) list"
  oa_prompt_tokens :: "int option"
  oa_completion_tokens :: "int option"
  oa_total_tokens :: "int option"
  oa_model :: "string option"

record anthropic_response =
  an_content :: "(string \<times> string option) list"
  an_input_tokens :: "int option"
  an_output_tokens :: "int option"
  an_model :: "string option"
  an_stop_reason :: "string option"

record llm_net =
  net_openai :: "nat \<Rightarrow> http_call \<Rightarrow> openai_response http_reply"
  net_anthropic :: "nat \<Rightarrow> http_call \<Rightarrow> anthropic_response http_reply"

definition reply_x :: "string \<Rightarrow> (nat \<Rightarrow> http_call \<Rightarrow> 'r http_reply) \<Rightarrow> http_call \<Rightarrow> 'r act" where
  "reply_x name net call =
     bind_x (gets_x (\<lambda>w. net (ticks w) call)) (\<lambda>reply.
       case reply of
         Failed e \<Rightarrow> throw_x e
       | NotOk status body \<Rightarrow>
           throw_x (plain_error (name @ '' API error '' @ show_int status @ '': '' @ take 300 body))
       | Reply r \<Rightarrow> ret_x r)"

text \<open>The common end of both providers: validate the text, price the tokens.\<close>

definition structured ::
  "ext \<Rightarrow> string \<Rightarrow> string \<Rightarrow> string \<Rightarrow> (json \<Rightarrow> js_error + 'a) \<Rightarrow> string \<Rightarrow> int \<Rightarrow> int \<Rightarrow> int \<Rightarrow> string option \<Rightarrow>
   'a llm_response act" where
  "structured E providerName model rawText validate schemaName inputTokens outputTokens totalTokens finishReason =
     bind_x (of_result (safeParseJson rawText validate schemaName)) (\<lambda>output.
     bind_x (of_result (calculateLlmCost E providerName model inputTokens outputTokens None)) (\<lambda>cost.
       ret_x \<lparr>lo_output = output, lo_rawText = truncateForLog rawText, lo_provider = providerName,
         lo_model = model, lo_usage = \<lparr>lu_inputTokens = inputTokens, lu_outputTokens = outputTokens,
           lu_totalTokens = totalTokens, lu_microunits = lc_microunits cost, lu_cents = lc_cents cost\<rparr>,
         lo_finishReason = finishReason\<rparr>))"

definition openai_generate ::
  "ext \<Rightarrow> llm_net \<Rightarrow> string \<Rightarrow> llm_request \<Rightarrow> (json \<Rightarrow> js_error + 'a) \<Rightarrow> 'a llm_response act" where
  "openai_generate E N apiKey req validate =
     bind_x (reply_x ''OpenAI'' (net_openai N) \<lparr>hc_url = ''https://api.openai.com/v1/chat/completions'',
         hc_key = apiKey, hc_model = lr_model req, hc_system = lr_systemPrompt req, hc_user = lr_userPrompt req,
         hc_temperature = lr_temperature req, hc_maxTokens = lr_maxOutputTokens req,
         hc_timeoutMs = lr_timeoutMs req\<rparr>) (\<lambda>r.
       let choice = (case oa_choices r of [] \<Rightarrow> (None, None) | c # _ \<Rightarrow> c);
           inputTokens = nullish (oa_prompt_tokens r) 0; outputTokens = nullish (oa_completion_tokens r) 0
       in structured E ''openai'' (nullish (oa_model r) (lr_model req)) (nullish (fst choice) []) validate
            (lr_schemaName req) inputTokens outputTokens
            (nullish (oa_total_tokens r) (inputTokens + outputTokens)) (snd choice))"

definition ANTHROPIC_SUFFIX :: string where
  "ANTHROPIC_SUFFIX = text_lines [[], [], ''IMPORTANT: Respond with valid JSON only. No markdown, no code blocks.'']"

definition anthropic_generate ::
  "ext \<Rightarrow> llm_net \<Rightarrow> string \<Rightarrow> llm_request \<Rightarrow> (json \<Rightarrow> js_error + 'a) \<Rightarrow> 'a llm_response act" where
  "anthropic_generate E N apiKey req validate =
     bind_x (reply_x ''Anthropic'' (net_anthropic N) \<lparr>hc_url = ''https://api.anthropic.com/v1/messages'',
         hc_key = apiKey, hc_model = lr_model req, hc_system = lr_systemPrompt req @ ANTHROPIC_SUFFIX,
         hc_user = lr_userPrompt req, hc_temperature = lr_temperature req,
         hc_maxTokens = lr_maxOutputTokens req, hc_timeoutMs = lr_timeoutMs req\<rparr>) (\<lambda>r.
       let rawText = nullish (Option.bind (List.find (\<lambda>c. fst c = ''text'') (an_content r)) snd) [];
           inputTokens = nullish (an_input_tokens r) 0; outputTokens = nullish (an_output_tokens r) 0
       in structured E ''anthropic'' (nullish (an_model r) (lr_model req)) rawText validate
            (lr_schemaName req) inputTokens outputTokens (inputTokens + outputTokens) (an_stop_reason r))"

definition provider_generate ::
  "ext \<Rightarrow> llm_net \<Rightarrow> llm_config \<Rightarrow> llm_request \<Rightarrow> (json \<Rightarrow> js_error + 'a) \<Rightarrow> 'a llm_response act" where
  "provider_generate E N cfg req validate =
     (if lf_provider cfg = ''openai'' then openai_generate E N (nullish (lf_apiKey cfg) []) req validate
      else if lf_provider cfg = ''anthropic'' then anthropic_generate E N (nullish (lf_apiKey cfg) []) req validate
      else throw_x (plain_error ''DeterministicProvider does not generate LLM responses''))"

section \<open>Service\<close>

definition llm_isEnabled :: "llm_config \<Rightarrow> bool" where
  "llm_isEnabled cfg \<longleftrightarrow> lf_provider cfg \<noteq> ''deterministic''"

primrec getModelForTask :: "llm_config \<Rightarrow> LLMTask \<Rightarrow> string" where
  "getModelForTask cfg ROUTER_TASK = lf_modelRouter cfg"
| "getModelForTask cfg RESOLVER_TASK = lf_modelResolver cfg"
| "getModelForTask cfg CRITIC_TASK = lf_modelCritic cfg"

definition generateStructured ::
  "ext \<Rightarrow> llm_net \<Rightarrow> llm_config \<Rightarrow> LLMTask \<Rightarrow> string \<Rightarrow> string \<Rightarrow> string \<Rightarrow> (json \<Rightarrow> js_error + 'a) \<Rightarrow>
   'a llm_response act" where
  "generateStructured E N cfg task systemPrompt userPrompt schemaName validate =
     provider_generate E N cfg \<lparr>lr_model = getModelForTask cfg task, lr_systemPrompt = systemPrompt,
       lr_userPrompt = userPrompt, lr_schemaName = schemaName, lr_timeoutMs = lf_timeoutMs cfg,
       lr_maxOutputTokens = lf_maxOutputTokens cfg, lr_temperature = lf_temperature cfg\<rparr> validate"

section \<open>Prices and costs\<close>

lemma map_of_update: "map_of (AList.update k v al) k' = (if k' = k then Some v else map_of al k')"
  by (induction al) auto

lemma map_of_spread:
  "distinct (map fst b) \<Longrightarrow> map_of (spread a b) k = (case map_of b k of Some v \<Rightarrow> Some v | None \<Rightarrow> map_of a k)"
  unfolding spread_def
proof (induction b arbitrary: a)
  case (Cons e b)
  then have "fst e = k \<Longrightarrow> map_of b k = None" by (auto simp: map_of_eq_None_iff)
  with Cons show ?case by (cases e) (auto simp: map_of_update split: option.split)
qed simp

lemma map_of_merge:
  "distinct (map fst override) \<Longrightarrow> map_of (mergePricingConfig base override) p =
     (case map_of override p of Some ms \<Rightarrow> Some (spread (nullish (map_of base p) []) ms) | None \<Rightarrow> map_of base p)"
  unfolding mergePricingConfig_def
proof (induction override arbitrary: base)
  case (Cons e override)
  then have "fst e = p \<Longrightarrow> map_of override p = None" by (auto simp: map_of_eq_None_iff)
  with Cons show ?case by (cases e) (auto simp: map_of_update split: option.split)
qed simp

text \<open>A price of the merged list is the override's where it has one and the default's elsewhere: an
  override adds and replaces single models and never loses another model or provider.\<close>

theorem merged_price:
  assumes "distinct (map fst override)" "list_all (\<lambda>e. distinct (map fst (snd e))) override"
  shows "price_of (mergePricingConfig base override) provider model =
    (case price_of override provider model of Some r \<Rightarrow> Some r | None \<Rightarrow> price_of base provider model)"
proof (cases "map_of override provider")
  case (Some ms)
  then have "distinct (map fst ms)" using assms(2) map_of_SomeD [OF Some] by (fastforce simp: list_all_iff)
  with Some show ?thesis
    using map_of_merge [OF assms(1), of base provider]
    by (cases "map_of base provider") (auto simp: price_of_def map_of_spread split: option.split)
next
  case None
  then show ?thesis using map_of_merge [OF assms(1), of base provider] by (simp add: price_of_def)
qed

theorem merged_price_witness:
  "price_of (mergePricingConfig DEFAULT_LLM_PRICING [(''openai'', [(''gpt-5'', \<lparr>pr_input = 1, pr_output = 2\<rparr>)])])
     ''openai'' ''gpt-4o-mini'' = Some \<lparr>pr_input = 150, pr_output = 600\<rparr>"
  by (subst merged_price) (simp_all add: price_of_def DEFAULT_LLM_PRICING_def)

lemma ceilDivide_bounds: "0 < d \<Longrightarrow> n \<le> d * ceilDivide n d \<and> d * ceilDivide n d < n + d"
proof -
  assume d: "0 < d"
  have "d * ((n + d - 1) div d) + (n + d - 1) mod d = n + d - 1" by simp
  moreover have "0 \<le> (n + d - 1) mod d" "(n + d - 1) mod d < d" using d by simp_all
  ultimately show ?thesis unfolding ceilDivide_def by linarith
qed

text \<open>The cost of a call is never below its price: in micro-units at least the exact price of the
  tokens and less than two above it, in cents the micro-units rounded up. A call of a model without
  a price has no cost, and only such a call.\<close>

theorem llm_cost_bounds:
  assumes "calculateLlmCost E provider model i out (Some p) = Inr c" "provider \<noteq> ''deterministic''"
  shows "case price_of p provider model of
      None \<Rightarrow> lc_microunits c = None \<and> lc_cents c = None
    | Some r \<Rightarrow> \<exists>units cents. lc_microunits c = Some units \<and> lc_cents c = Some cents \<and>
        i * pr_input r + out * pr_output r \<le> 1000 * units \<and>
        1000 * units < i * pr_input r + out * pr_output r + 2000 \<and>
        units \<le> 10000 * cents \<and> 10000 * cents < units + 10000"
proof (cases "price_of p provider model")
  case (Some r)
  let ?a = "ceilDivide (i * pr_input r) 1000" and ?b = "ceilDivide (out * pr_output r) 1000"
  have "c = \<lparr>lc_microunits = Some (?a + ?b), lc_cents = Some (ceilDivide (?a + ?b) 10000)\<rparr>"
    using assms Some by (simp add: calculateLlmCost_def Let_def)
  moreover have "i * pr_input r + out * pr_output r \<le> 1000 * (?a + ?b) \<and>
      1000 * (?a + ?b) < i * pr_input r + out * pr_output r + 2000"
    using ceilDivide_bounds [of 1000 "i * pr_input r"] ceilDivide_bounds [of 1000 "out * pr_output r"] by simp
  ultimately show ?thesis using Some ceilDivide_bounds [of 10000 "?a + ?b"] by simp
qed (use assms in \<open>auto simp: calculateLlmCost_def\<close>)

theorem llm_cost_bounds_witness:
  "\<exists>c. calculateLlmCost demo_ext ''openai'' ''gpt-4o-mini'' 1000 10 (Some DEFAULT_LLM_PRICING) = Inr c \<and>
     (\<exists>units. lc_microunits c = Some units \<and> 156000 \<le> 1000 * units \<and> 1000 * units < 158000)"
proof -
  let ?r = "calculateLlmCost demo_ext ''openai'' ''gpt-4o-mini'' 1000 10 (Some DEFAULT_LLM_PRICING)"
  obtain c where c: "?r = Inr c" by (simp add: calculateLlmCost_def price_of_def DEFAULT_LLM_PRICING_def Let_def)
  from llm_cost_bounds [OF c] c show ?thesis by (auto simp: price_of_def DEFAULT_LLM_PRICING_def)
qed

section \<open>Validated answers\<close>

lemma clamp01_range: "0 \<le> clamp01 q" "clamp01 q \<le> 1"
  by (simp_all add: clamp01_def)

lemma clamp01_id: "0 \<le> q \<Longrightarrow> q \<le> 1 \<Longrightarrow> clamp01 q = q"
  by (simp add: clamp01_def)

definition router_ok :: "router_output \<Rightarrow> bool" where
  "router_ok r \<longleftrightarrow> ru_intent r \<noteq> [] \<and> ru_urgency r \<in> {''low'', ''normal'', ''high''} \<and> 0 \<le> ru_confidence r \<and> ru_confidence r \<le> 1"

definition resolver_ok :: "resolver_output \<Rightarrow> bool" where
  "resolver_ok r \<longleftrightarrow> 10 \<le> length (ro_draftBody r) \<and> 0 \<le> ro_confidence r \<and> ro_confidence r \<le> 1"

definition critic_ok :: "critic_output \<Rightarrow> bool" where
  "critic_ok r \<longleftrightarrow> co_safetyVerdict r \<in> {''safe'', ''needs_review'', ''blocked''} \<and>
     co_recommendedAction r \<in> {''approve'', ''human_review'', ''revise''} \<and>
     0 \<le> co_completenessScore r \<and> co_completenessScore r \<le> 1"

lemma validated:
  "validateRouterOutput E raw = Inr r \<Longrightarrow> router_ok r"
  "validateResolverOutput raw = Inr s \<Longrightarrow> resolver_ok s"
  "validateCriticOutput E raw = Inr c \<Longrightarrow> critic_ok c"
  by (auto simp: validateRouterOutput_def validateResolverOutput_def validateCriticOutput_def router_ok_def
      resolver_ok_def critic_ok_def and_then_Inr check_that_Inr clamp01_range one_of_def j_get_str_def
      truthy_def split: option.splits json.splits)

end
