(* ===== verification/RuntimeConfig.thy ===== *)
theory RuntimeConfig
  imports Llm Regex "HOL-Library.State_Monad"
begin

text \<open>
  \<^verbatim>\<open>packages/observability/src/runtime-config.ts\<close>: the environment as the API, the worker
  and the web console read it at their start. The array \<^verbatim>\<open>errors\<close> that the source threads through
  its parsers is the state of a state monad; a loader returns its configuration when the array is
  empty at the end and throws one error with all messages otherwise. \<^verbatim>\<open>new URL\<close> is the parameter
  \<open>U\<close> (\<open>None\<close> where it throws).
\<close>

type_synonym env = "string \<Rightarrow> string option"
type_synonym 'a parser = "(string list, 'a) state"

record url_parts =
  url_protocol :: string
  url_hostname :: string
  url_port :: string
  url_pathname :: string
  url_href :: string

type_synonym url_parser = "string \<Rightarrow> url_parts option"

section \<open>Errors\<close>

definition push :: "string \<Rightarrow> unit parser" where
  "push e = do { es \<leftarrow> State_Monad.get; State_Monad.set (es @ [e]) }"

definition push_if :: "bool \<Rightarrow> string \<Rightarrow> unit parser" where
  "push_if b e = (if b then push e else State_Monad.return ())"

definition newline :: string where
  "newline = [char_of (10 :: nat)]"

definition quoted :: "string \<Rightarrow> string" where
  "quoted s = [char_of (34 :: nat)] @ s @ [char_of (34 :: nat)]"

definition config_failure :: "string list \<Rightarrow> js_error" where
  "config_failure errors =
     plain_error (''Invalid runtime configuration:'' @ newline @ join_with newline (map (\<lambda>e. ''- '' @ e) errors))"

definition finish_config :: "'a parser \<Rightarrow> js_error + 'a" where
  "finish_config m = (case run_state m [] of (config, errors) \<Rightarrow>
     if errors \<noteq> [] then Inl (config_failure errors) else Inr config)"

text \<open>\<^verbatim>\<open>value?.trim() || fallback\<close>\<close>

definition trim_or :: "string option \<Rightarrow> string \<Rightarrow> string" where
  "trim_or v d = str_or (map_option trim v) d"

text \<open>\<^verbatim>\<open>value?.trim() || undefined\<close>\<close>

definition trim_present :: "string option \<Rightarrow> string option" where
  "trim_present v = (let t = trim_or v [] in if t = [] then None else Some t)"

section \<open>Environments\<close>

datatype NodeEnv = node_development | node_test | node_production
datatype AppEnv = app_development | app_test | app_staging | app_production

definition parseNodeEnv :: "string option \<Rightarrow> NodeEnv parser" where
  "parseNodeEnv value =
     (let normalized = trim_or value ''development''
      in if normalized = ''development'' then State_Monad.return node_development
         else if normalized = ''test'' then State_Monad.return node_test
         else if normalized = ''production'' then State_Monad.return node_production
         else do {
           push ''NODE_ENV must be one of development, test, or production'';
           State_Monad.return node_development })"

primrec node_env_name :: "NodeEnv \<Rightarrow> string" where
  "node_env_name node_development = ''development''"
| "node_env_name node_test = ''test''"
| "node_env_name node_production = ''production''"

primrec app_env_of :: "NodeEnv \<Rightarrow> AppEnv" where
  "app_env_of node_development = app_development"
| "app_env_of node_test = app_test"
| "app_env_of node_production = app_production"

definition parseAppEnv :: "string option \<Rightarrow> NodeEnv \<Rightarrow> AppEnv parser" where
  "parseAppEnv value nodeEnv =
     (let normalized = trim_or value (node_env_name nodeEnv)
      in if normalized = ''development'' then State_Monad.return app_development
         else if normalized = ''test'' then State_Monad.return app_test
         else if normalized = ''staging'' then State_Monad.return app_staging
         else if normalized = ''production'' then State_Monad.return app_production
         else do {
           push ''APP_ENV must be one of development, test, staging, or production'';
           State_Monad.return (app_env_of nodeEnv) })"

section \<open>Numbers, flags, durations\<close>

definition parseInteger :: "env \<Rightarrow> string \<Rightarrow> int \<Rightarrow> int option \<Rightarrow> int option \<Rightarrow> int parser" where
  "parseInteger env name defaultValue minimum maximum =
     (let raw = trim_or (env name) []
      in case (if raw = [] then Some defaultValue else parse_int raw) of
           None \<Rightarrow> do { push (name @ '' must be an integer''); State_Monad.return defaultValue }
         | Some value \<Rightarrow> do {
             push_if (case minimum of None \<Rightarrow> False | Some lo \<Rightarrow> value < lo)
               (name @ '' must be >= '' @ show_int (nullish minimum 0));
             push_if (case maximum of None \<Rightarrow> False | Some hi \<Rightarrow> value > hi)
               (name @ '' must be <= '' @ show_int (nullish maximum 0));
             State_Monad.return value })"

definition parseBoolean :: "env \<Rightarrow> string \<Rightarrow> bool \<Rightarrow> bool parser" where
  "parseBoolean env name defaultValue =
     (let raw = to_lower (trim_or (env name) [])
      in if raw = [] then State_Monad.return defaultValue
         else if raw = ''true'' then State_Monad.return True
         else if raw = ''false'' then State_Monad.return False
         else do { push (name @ '' must be true or false''); State_Monad.return defaultValue })"

text \<open>The match of \<^verbatim>\<open>/^(\d+)([smhd])$/i\<close> with its amount and unit multiplied.\<close>

definition unit_seconds :: "char \<Rightarrow> int option" where
  "unit_seconds c =
     map_of [(CHR ''s'', 1), (CHR ''m'', 60), (CHR ''h'', 60 * 60), (CHR ''d'', 60 * 60 * 24)] (lower_char c)"

definition duration_match :: "string \<Rightarrow> int option" where
  "duration_match value =
     (case (takeWhile is_digit value, dropWhile is_digit value) of
        (d # ds, [u]) \<Rightarrow> map_option (\<lambda>m. digits_val (d # ds) * m) (unit_seconds u)
      | _ \<Rightarrow> None)"

text \<open>The fallbacks of all calls are well-formed durations (\<open>fallbacks_match\<close> below), so the error the
  source throws for another fallback is not reached.\<close>

definition parseDurationToSeconds :: "string option \<Rightarrow> string \<Rightarrow> string \<Rightarrow> int parser" where
  "parseDurationToSeconds rawValue variableName fallbackValue =
     (case duration_match (trim_or rawValue fallbackValue) of
        Some seconds \<Rightarrow> State_Monad.return seconds
      | None \<Rightarrow> do {
          push (variableName @ '' must be a positive duration ending in s, m, h, or d'');
          State_Monad.return (the (duration_match fallbackValue)) })"

definition parseDurationToMilliseconds :: "string option \<Rightarrow> string \<Rightarrow> int \<Rightarrow> int parser" where
  "parseDurationToMilliseconds rawValue variableName fallbackValueMs =
     (let trimmed = trim_or rawValue []
      in if trimmed = [] then State_Monad.return fallbackValueMs
         else if list_all is_digit trimmed then State_Monad.return (digits_val trimmed)
         else do {
           durationSeconds \<leftarrow> parseDurationToSeconds (Some trimmed) variableName
             (show_int (max (fallbackValueMs div 1000) 1) @ ''s'');
           State_Monad.return (durationSeconds * 1000) })"

section \<open>URLs, secrets, lists\<close>

definition parseUrl :: "url_parser \<Rightarrow> string option \<Rightarrow> string \<Rightarrow> string list \<Rightarrow> url_parts option parser" where
  "parseUrl U rawValue variableName allowedProtocols =
     (let value = trim_or rawValue []
      in if value = [] then do { push (variableName @ '' is required''); State_Monad.return None }
         else case U value of
           None \<Rightarrow> do { push (variableName @ '' must be a valid URL''); State_Monad.return None }
         | Some url \<Rightarrow> do {
             push_if (url_protocol url \<notin> set allowedProtocols)
               (variableName @ '' must use one of: '' @ join_with '', '' allowedProtocols);
             State_Monad.return (Some url) })"

definition PLACEHOLDER_SECRET_PATTERNS :: "string list" where
  "PLACEHOLDER_SECRET_PATTERNS = [''replace-with'', ''change-me'', ''placeholder'', ''dev-only'', ''example'']"

definition placeholder_secret :: "string \<Rightarrow> bool" where
  "placeholder_secret s \<longleftrightarrow> list_ex (\<lambda>p. contains p (to_lower s)) PLACEHOLDER_SECRET_PATTERNS"

definition validateSecret :: "string \<Rightarrow> string option \<Rightarrow> bool \<Rightarrow> string parser" where
  "validateSecret name value enforceStrong =
     (let trimmed = trim_or value []
      in if trimmed = [] then do { push (name @ '' is required''); State_Monad.return [] }
         else do {
           push_if (enforceStrong \<and> length trimmed < 32)
             (name @ '' must be at least 32 characters in production-like environments'');
           push_if (enforceStrong \<and> placeholder_secret trimmed)
             (name @ '' must not use a placeholder value in production-like environments'');
           State_Monad.return trimmed })"

definition split_commas :: "string \<Rightarrow> string list" where
  "split_commas raw = filter (\<lambda>v. v \<noteq> []) (map trim (words_of (\<lambda>c. c \<noteq> CHR '','') [] raw))"

definition parseCorsAllowedOrigins :: "url_parser \<Rightarrow> env \<Rightarrow> bool \<Rightarrow> string list parser" where
  "parseCorsAllowedOrigins U env isProductionLike =
     (let raw = trim_or (env ''CORS_ALLOWED_ORIGINS'') []; origins = split_commas raw
      in if raw = [] then
           (if isProductionLike then do {
              push ''CORS_ALLOWED_ORIGINS is required in production-like environments'';
              State_Monad.return [] }
            else State_Monad.return [''http://localhost:3000''])
         else do {
           push_if (origins = []) ''CORS_ALLOWED_ORIGINS must contain at least one origin'';
           push_if (isProductionLike \<and> list_ex (\<lambda>origin. CHR ''*'' \<in> set origin) origins)
             ''CORS_ALLOWED_ORIGINS must not contain wildcards in production-like environments'';
           urls \<leftarrow> State_Monad.traverse_list (\<lambda>origin. parseUrl U (Some origin)
             (''CORS_ALLOWED_ORIGINS entry '' @ quoted origin) [''http:'', ''https:'']) origins;
           State_Monad.return origins })"

definition ends_with :: "string \<Rightarrow> string \<Rightarrow> bool" where
  "ends_with p s = starts_with (rev p) (rev s)"

definition isLocalHostname :: "string \<Rightarrow> bool" where
  "isLocalHostname hostname =
     (let normalized = to_lower hostname
      in normalized = ''localhost'' \<or> normalized = ''127.0.0.1'' \<or> normalized = ''::1'' \<or>
         ends_with ''.localhost'' normalized)"

definition allowsLocalStaging :: "env \<Rightarrow> bool" where
  "allowsLocalStaging env \<longleftrightarrow> to_lower (trim_or (env ''ALLOW_LOCAL_STAGING'') []) = ''true''"

definition PRODUCTION_HOST_PATTERN :: rx where
  "PRODUCTION_HOST_PATTERN = Seq WordB (Seq (lit_i ''prod'') (Seq (opt (lit_i ''uction'')) WordB))"

definition validateHostedUrl :: "url_parts option \<Rightarrow> string \<Rightarrow> AppEnv \<Rightarrow> env \<Rightarrow> unit parser" where
  "validateHostedUrl url variableName appEnv env =
     (case url of
        None \<Rightarrow> State_Monad.return ()
      | Some u \<Rightarrow>
          if appEnv \<noteq> app_staging then State_Monad.return ()
          else do {
            push_if (url_protocol u = ''http:'' \<and> \<not> allowsLocalStaging env)
              (variableName @ '' must use https in staging'');
            push_if (isLocalHostname (url_hostname u) \<and> \<not> allowsLocalStaging env)
              (variableName @ '' must not use localhost in staging'');
            push_if (rx_test PRODUCTION_HOST_PATTERN (url_hostname u))
              (variableName @ '' must not use a production-looking hostname in staging'') })"

datatype same_site = Lax | Strict | None_site

definition parseSameSite :: "string option \<Rightarrow> string \<Rightarrow> same_site parser" where
  "parseSameSite rawValue variableName =
     (let normalized = to_lower (trim_or rawValue [])
      in if normalized = [] \<or> normalized = ''lax'' then State_Monad.return Lax
         else if normalized = ''strict'' then State_Monad.return Strict
         else if normalized = ''none'' then State_Monad.return None_site
         else do { push (variableName @ '' must be one of lax, strict, or none''); State_Monad.return Lax })"

datatype trust_proxy = ProxyFlag bool | ProxyHops int | ProxyList string

definition parse_proxy_list :: "string \<Rightarrow> trust_proxy parser" where
  "parse_proxy_list trimmed =
     (if trimmed \<in> {''loopback'', ''linklocal'', ''uniquelocal''} \<or> CHR '','' \<in> set trimmed
      then State_Monad.return (ProxyList trimmed)
      else do {
        push ''TRUST_PROXY must be true, false, an integer hop count, or a supported proxy list'';
        State_Monad.return (ProxyFlag False) })"

definition parseTrustProxy :: "string option \<Rightarrow> trust_proxy parser" where
  "parseTrustProxy rawValue =
     (let trimmed = trim_or rawValue []
      in if trimmed = [] then State_Monad.return (ProxyFlag False)
         else if trimmed = ''true'' then State_Monad.return (ProxyFlag True)
         else if trimmed = ''false'' then State_Monad.return (ProxyFlag False)
         else case parse_int trimmed of
           Some n \<Rightarrow>
             if show_int n = trimmed then State_Monad.return (ProxyHops n) else parse_proxy_list trimmed
         | None \<Rightarrow> parse_proxy_list trimmed)"

datatype redis_connection = ConnectionUrl string | ConnectionHost string int

text \<open>A port or database index that \<^verbatim>\<open>Number.parseInt\<close> reads as \<^verbatim>\<open>NaN\<close> is \<open>None\<close>.\<close>

record redis_config =
  rd_url :: "string option"
  rd_connection :: redis_connection
  rd_host :: string
  rd_port :: "int option"
  rd_db :: "int option"

definition redis_of_url :: "string \<Rightarrow> url_parts option \<Rightarrow> redis_config" where
  "redis_of_url redisUrl parsed =
     \<lparr>rd_url = Some redisUrl, rd_connection = ConnectionUrl redisUrl,
      rd_host = (case parsed of None \<Rightarrow> ''localhost'' | Some u \<Rightarrow> url_hostname u),
      rd_port = (case parsed of None \<Rightarrow> Some 6379
        | Some u \<Rightarrow> if url_port u = [] then Some 6379 else parse_int (url_port u)),
      rd_db = (case parsed of None \<Rightarrow> Some 0
        | Some u \<Rightarrow> if url_pathname u = [] \<or> url_pathname u = ''/'' then Some 0
            else parse_int (tl (url_pathname u)))\<rparr>"

definition parseRedisRuntimeConfig :: "url_parser \<Rightarrow> env \<Rightarrow> redis_config parser" where
  "parseRedisRuntimeConfig U env =
     (let redisUrl = trim_or (env ''REDIS_URL'') []
      in if redisUrl \<noteq> [] then do {
           parsed \<leftarrow> parseUrl U (Some redisUrl) ''REDIS_URL'' [''redis:'', ''rediss:''];
           State_Monad.return (redis_of_url redisUrl parsed) }
         else do {
           port \<leftarrow> parseInteger env ''REDIS_PORT'' 6379 (Some 1) (Some 65535);
           let host = trim_or (env ''REDIS_HOST'') ''localhost'';
           State_Monad.return \<lparr>rd_url = None, rd_connection = ConnectionHost host port, rd_host = host,
             rd_port = Some port, rd_db = Some 0\<rparr> })"

definition parseSwaggerEnabled :: "env \<Rightarrow> bool \<Rightarrow> bool parser" where
  "parseSwaggerEnabled env isProductionLike =
     (if env ''SWAGGER_ENABLED'' = None then State_Monad.return (\<not> isProductionLike)
      else parseBoolean env ''SWAGGER_ENABLED'' (\<not> isProductionLike))"

datatype fail_mode = Open | Closed

definition parseFailMode :: "string option \<Rightarrow> string \<Rightarrow> fail_mode \<Rightarrow> fail_mode parser" where
  "parseFailMode rawValue variableName defaultValue =
     (let normalized = to_lower (trim_or rawValue [])
      in if normalized = [] then State_Monad.return defaultValue
         else if normalized = ''open'' then State_Monad.return Open
         else if normalized = ''closed'' then State_Monad.return Closed
         else do {
           push (variableName @ '' must be '' @ quoted ''open'' @ '' or '' @ quoted ''closed'');
           State_Monad.return defaultValue })"

section \<open>The API\<close>

record queue_config =
  qf_attempts :: int
  qf_backoffBaseMs :: int
  qf_removeOnCompleteCount :: int
  qf_removeOnFailCount :: int
  qf_stalledIntervalMs :: int
  qf_maxStalledCount :: int

record auth_config =
  au_accessSecret :: string
  au_refreshSecret :: string
  au_accessTtlSeconds :: int
  au_refreshTtlSeconds :: int

record limit_config =
  lm_windowMs :: int
  lm_max :: int
  lm_failMode :: fail_mode

record api_config =
  af_nodeEnv :: NodeEnv
  af_appEnv :: AppEnv
  af_isProduction :: bool
  af_port :: int
  af_trustProxy :: trust_proxy
  af_databaseUrl :: string
  af_redis :: redis_config
  af_corsAllowedOrigins :: "string list"
  af_swaggerEnabled :: bool
  af_shutdownGraceMs :: int
  af_healthTimeoutMs :: int
  af_metricsEnabled :: bool
  af_metricsAuthToken :: "string option"
  af_queue :: queue_config
  af_auth :: auth_config
  af_authLimit :: limit_config
  af_apiLimit :: limit_config

definition production_like :: "NodeEnv \<Rightarrow> AppEnv \<Rightarrow> bool" where
  "production_like nodeEnv appEnv \<longleftrightarrow>
     nodeEnv = node_production \<or> appEnv = app_staging \<or> appEnv = app_production"

definition parse_queue :: "env \<Rightarrow> queue_config parser" where
  "parse_queue env = do {
     attempts \<leftarrow> parseInteger env ''QUEUE_JOB_ATTEMPTS'' 3 (Some 1) None;
     backoffBaseMs \<leftarrow> parseInteger env ''QUEUE_BACKOFF_BASE_MS'' 1000 (Some 100) None;
     removeOnCompleteCount \<leftarrow> parseInteger env ''QUEUE_REMOVE_ON_COMPLETE_COUNT'' 100 (Some 1) None;
     removeOnFailCount \<leftarrow> parseInteger env ''QUEUE_REMOVE_ON_FAIL_COUNT'' 200 (Some 1) None;
     stalledIntervalMs \<leftarrow> parseInteger env ''QUEUE_STALLED_INTERVAL_MS'' 30000 (Some 5000) None;
     maxStalledCount \<leftarrow> parseInteger env ''QUEUE_MAX_STALLED_COUNT'' 1 (Some 0) None;
     State_Monad.return \<lparr>qf_attempts = attempts, qf_backoffBaseMs = backoffBaseMs,
       qf_removeOnCompleteCount = removeOnCompleteCount, qf_removeOnFailCount = removeOnFailCount,
       qf_stalledIntervalMs = stalledIntervalMs, qf_maxStalledCount = maxStalledCount\<rparr> }"

definition parse_limit :: "env \<Rightarrow> string \<Rightarrow> string \<Rightarrow> string \<Rightarrow> int \<Rightarrow> int \<Rightarrow> fail_mode \<Rightarrow> limit_config parser" where
  "parse_limit env windowName maxName modeName windowMs limit mode = do {
     window \<leftarrow> parseDurationToMilliseconds (env windowName) windowName windowMs;
     maximum \<leftarrow> parseInteger env maxName limit (Some 1) None;
     failMode \<leftarrow> parseFailMode (env modeName) modeName mode;
     State_Monad.return \<lparr>lm_windowMs = window, lm_max = maximum, lm_failMode = failMode\<rparr> }"

definition parse_auth :: "env \<Rightarrow> bool \<Rightarrow> auth_config parser" where
  "parse_auth env isProductionLike = do {
     accessSecret \<leftarrow> validateSecret ''JWT_ACCESS_SECRET'' (env ''JWT_ACCESS_SECRET'') isProductionLike;
     refreshSecret \<leftarrow> validateSecret ''JWT_REFRESH_SECRET'' (env ''JWT_REFRESH_SECRET'') isProductionLike;
     accessTtlSeconds \<leftarrow> parseDurationToSeconds (env ''JWT_ACCESS_TTL'') ''JWT_ACCESS_TTL'' ''15m'';
     refreshTtlSeconds \<leftarrow> parseDurationToSeconds (env ''JWT_REFRESH_TTL'') ''JWT_REFRESH_TTL'' ''7d'';
     push_if (refreshTtlSeconds \<le> accessTtlSeconds) ''JWT_REFRESH_TTL must be greater than JWT_ACCESS_TTL'';
     State_Monad.return \<lparr>au_accessSecret = accessSecret, au_refreshSecret = refreshSecret,
       au_accessTtlSeconds = accessTtlSeconds, au_refreshTtlSeconds = refreshTtlSeconds\<rparr> }"

definition api_checks :: "url_parser \<Rightarrow> env \<Rightarrow> api_config parser" where
  "api_checks U env = do {
     nodeEnv \<leftarrow> parseNodeEnv (env ''NODE_ENV'');
     appEnv \<leftarrow> parseAppEnv (env ''APP_ENV'') nodeEnv;
     let isProductionLike = production_like nodeEnv appEnv;
     parsedDatabaseUrl \<leftarrow> parseUrl U (env ''DATABASE_URL'') ''DATABASE_URL'' [''postgres:'', ''postgresql:''];
     validateHostedUrl parsedDatabaseUrl ''DATABASE_URL'' appEnv env;
     redis \<leftarrow> parseRedisRuntimeConfig U env;
     push_if (appEnv = app_staging \<and> isLocalHostname (rd_host redis) \<and> \<not> allowsLocalStaging env)
       ''REDIS_URL must not use localhost in staging'';
     auth \<leftarrow> parse_auth env isProductionLike;
     port \<leftarrow> parseInteger env ''PORT'' 3001 (Some 1) (Some 65535);
     trustProxy \<leftarrow> parseTrustProxy (env ''TRUST_PROXY'');
     corsAllowedOrigins \<leftarrow> parseCorsAllowedOrigins U env isProductionLike;
     swaggerEnabled \<leftarrow> parseSwaggerEnabled env isProductionLike;
     shutdownGraceMs \<leftarrow> parseDurationToMilliseconds (env ''SHUTDOWN_GRACE_MS'') ''SHUTDOWN_GRACE_MS'' 15000;
     healthTimeoutMs \<leftarrow> parseDurationToMilliseconds (env ''HEALTH_CHECK_TIMEOUT_MS'') ''HEALTH_CHECK_TIMEOUT_MS'' 2000;
     metricsEnabled \<leftarrow> parseBoolean env ''METRICS_ENABLED'' True;
     let metricsAuthToken = trim_present (env ''METRICS_AUTH_TOKEN'');
     queue \<leftarrow> parse_queue env;
     authLimit \<leftarrow> parse_limit env ''RATE_LIMIT_AUTH_WINDOW_MS'' ''RATE_LIMIT_AUTH_MAX_ATTEMPTS''
       ''RATE_LIMIT_AUTH_FAIL_MODE'' (15 * 60000) 5 Closed;
     apiLimit \<leftarrow> parse_limit env ''RATE_LIMIT_API_WINDOW_MS'' ''RATE_LIMIT_API_MAX_REQUESTS''
       ''RATE_LIMIT_API_FAIL_MODE'' 60000 120 Open;
     push_if (isProductionLike \<and> metricsAuthToken = None \<and> metricsEnabled)
       ''METRICS_AUTH_TOKEN is required when METRICS_ENABLED=true in production-like environments'';
     push_if (shutdownGraceMs < healthTimeoutMs)
       ''SHUTDOWN_GRACE_MS must be greater than or equal to HEALTH_CHECK_TIMEOUT_MS'';
     State_Monad.return \<lparr>af_nodeEnv = nodeEnv, af_appEnv = appEnv, af_isProduction = (nodeEnv = node_production),
       af_port = port, af_trustProxy = trustProxy,
       af_databaseUrl = (case parsedDatabaseUrl of None \<Rightarrow> [] | Some u \<Rightarrow> url_href u), af_redis = redis,
       af_corsAllowedOrigins = corsAllowedOrigins, af_swaggerEnabled = swaggerEnabled,
       af_shutdownGraceMs = shutdownGraceMs, af_healthTimeoutMs = healthTimeoutMs,
       af_metricsEnabled = metricsEnabled, af_metricsAuthToken = metricsAuthToken, af_queue = queue,
       af_auth = auth, af_authLimit = authLimit, af_apiLimit = apiLimit\<rparr> }"

definition loadApiRuntimeConfig :: "url_parser \<Rightarrow> env \<Rightarrow> js_error + api_config" where
  "loadApiRuntimeConfig U env = finish_config (api_checks U env)"

section \<open>The worker\<close>

record worker_llm_config =
  wl_provider :: string
  wl_apiKey :: "string option"
  wl_enableFallback :: bool

record worker_config =
  wf_nodeEnv :: NodeEnv
  wf_appEnv :: AppEnv
  wf_isProduction :: bool
  wf_port :: int
  wf_databaseUrl :: string
  wf_redis :: redis_config
  wf_shutdownGraceMs :: int
  wf_healthTimeoutMs :: int
  wf_metricsEnabled :: bool
  wf_metricsAuthToken :: "string option"
  wf_queue :: queue_config
  wf_llm :: worker_llm_config

definition worker_checks :: "url_parser \<Rightarrow> env \<Rightarrow> worker_config parser" where
  "worker_checks U env = do {
     nodeEnv \<leftarrow> parseNodeEnv (env ''NODE_ENV'');
     appEnv \<leftarrow> parseAppEnv (env ''APP_ENV'') nodeEnv;
     parsedDatabaseUrl \<leftarrow> parseUrl U (env ''DATABASE_URL'') ''DATABASE_URL'' [''postgres:'', ''postgresql:''];
     validateHostedUrl parsedDatabaseUrl ''DATABASE_URL'' appEnv env;
     let provider = nullish (map_option (\<lambda>v. to_lower (trim v)) (env ''AI_PROVIDER'')) ''deterministic'';
     push_if (provider \<notin> {''deterministic'', ''openai'', ''anthropic''})
       ''AI_PROVIDER must be deterministic, openai, or anthropic'';
     let apiKey = map_option trim (env ''AI_API_KEY'');
     push_if (provider \<noteq> ''deterministic'' \<and> nullish apiKey [] = [])
       ''AI_API_KEY is required when AI_PROVIDER is openai or anthropic'';
     port \<leftarrow> parseInteger env ''PORT'' 3002 (Some 1) (Some 65535);
     redis \<leftarrow> parseRedisRuntimeConfig U env;
     shutdownGraceMs \<leftarrow> parseDurationToMilliseconds (env ''WORKER_SHUTDOWN_GRACE_MS'') ''WORKER_SHUTDOWN_GRACE_MS'' 30000;
     healthTimeoutMs \<leftarrow> parseDurationToMilliseconds (env ''HEALTH_CHECK_TIMEOUT_MS'') ''HEALTH_CHECK_TIMEOUT_MS'' 2000;
     metricsEnabled \<leftarrow> parseBoolean env ''METRICS_ENABLED'' True;
     let metricsAuthToken = trim_present (env ''METRICS_AUTH_TOKEN'');
     queue \<leftarrow> parse_queue env;
     enableFallback \<leftarrow> parseBoolean env ''AI_ENABLE_FALLBACK'' True;
     push_if (appEnv = app_staging \<and> isLocalHostname (rd_host redis) \<and> \<not> allowsLocalStaging env)
       ''REDIS_URL must not use localhost in staging'';
     push_if ((nodeEnv = node_production \<or> appEnv = app_staging) \<and> metricsAuthToken = None \<and> metricsEnabled)
       ''METRICS_AUTH_TOKEN is required when METRICS_ENABLED=true in production-like environments'';
     State_Monad.return \<lparr>wf_nodeEnv = nodeEnv, wf_appEnv = appEnv, wf_isProduction = (nodeEnv = node_production),
       wf_port = port, wf_databaseUrl = (case parsedDatabaseUrl of None \<Rightarrow> [] | Some u \<Rightarrow> url_href u),
       wf_redis = redis, wf_shutdownGraceMs = shutdownGraceMs, wf_healthTimeoutMs = healthTimeoutMs,
       wf_metricsEnabled = metricsEnabled, wf_metricsAuthToken = metricsAuthToken, wf_queue = queue,
       wf_llm = \<lparr>wl_provider = provider, wl_apiKey = apiKey, wl_enableFallback = enableFallback\<rparr>\<rparr> }"

definition loadWorkerRuntimeConfig :: "url_parser \<Rightarrow> env \<Rightarrow> js_error + worker_config" where
  "loadWorkerRuntimeConfig U env = finish_config (worker_checks U env)"

section \<open>The web console\<close>

record web_config =
  xf_nodeEnv :: NodeEnv
  xf_appEnv :: AppEnv
  xf_isProduction :: bool
  xf_apiBaseUrl :: string
  xf_publicWebUrl :: "string option"
  xf_internalApiUrl :: "string option"
  xf_cookieSecure :: bool
  xf_cookieSameSite :: same_site
  xf_cookieNamePrefix :: string
  xf_cookieDomain :: "string option"
  xf_accessTtlSeconds :: int
  xf_refreshTtlSeconds :: int

definition optional_url :: "url_parser \<Rightarrow> env \<Rightarrow> string \<Rightarrow> url_parts option parser" where
  "optional_url U env name =
     (if trim_or (env name) [] = [] then State_Monad.return None
      else parseUrl U (env name) name [''http:'', ''https:''])"

definition cookie_prefix_char :: "char \<Rightarrow> bool" where
  "cookie_prefix_char c \<longleftrightarrow> is_lower c \<or> is_upper c \<or> is_digit c \<or> c = CHR ''_'' \<or> c = CHR ''-''"

definition cookie_prefix_ok :: "string \<Rightarrow> bool" where
  "cookie_prefix_ok s \<longleftrightarrow> 2 \<le> length s \<and> length s \<le> 31 \<and> list_all cookie_prefix_char s \<and>
     hd s \<noteq> CHR ''_'' \<and> hd s \<noteq> CHR ''-''"

definition web_checks :: "url_parser \<Rightarrow> env \<Rightarrow> web_config parser" where
  "web_checks U env = do {
     nodeEnv \<leftarrow> parseNodeEnv (env ''NODE_ENV'');
     appEnv \<leftarrow> parseAppEnv (env ''APP_ENV'') nodeEnv;
     let isProductionLike = production_like nodeEnv appEnv;
     apiBaseUrl \<leftarrow> parseUrl U (env ''API_BASE_URL'') ''API_BASE_URL'' [''http:'', ''https:''];
     publicWebUrl \<leftarrow> optional_url U env ''WEB_PUBLIC_URL'';
     internalApiUrl \<leftarrow> optional_url U env ''INTERNAL_API_URL'';
     cookieSecure \<leftarrow> parseBoolean env ''AUTH_COOKIE_SECURE'' isProductionLike;
     cookieSameSite \<leftarrow> parseSameSite (env ''AUTH_COOKIE_SAME_SITE'') ''AUTH_COOKIE_SAME_SITE'';
     accessTtlSeconds \<leftarrow> parseDurationToSeconds (env ''JWT_ACCESS_TTL'') ''JWT_ACCESS_TTL'' ''15m'';
     refreshTtlSeconds \<leftarrow> parseDurationToSeconds (env ''JWT_REFRESH_TTL'') ''JWT_REFRESH_TTL'' ''7d'';
     validateHostedUrl apiBaseUrl ''API_BASE_URL'' appEnv env;
     validateHostedUrl publicWebUrl ''WEB_PUBLIC_URL'' appEnv env;
     push_if (isProductionLike \<and> \<not> cookieSecure \<and> \<not> allowsLocalStaging env)
       ''AUTH_COOKIE_SECURE must be true in production-like environments'';
     push_if (cookieSameSite = None_site \<and> \<not> cookieSecure)
       ''AUTH_COOKIE_SECURE must be true when AUTH_COOKIE_SAME_SITE=none'';
     push_if (refreshTtlSeconds \<le> accessTtlSeconds) ''JWT_REFRESH_TTL must be greater than JWT_ACCESS_TTL'';
     let cookieNamePrefix = trim_or (env ''AUTH_COOKIE_NAME_PREFIX'') ''au'';
     push_if (\<not> cookie_prefix_ok cookieNamePrefix) ''AUTH_COOKIE_NAME_PREFIX must be 2-31 URL-safe characters'';
     let cookieDomain = trim_present (env ''AUTH_COOKIE_DOMAIN'');
     push_if (appEnv = app_staging \<and> cookieDomain = None \<and> \<not> allowsLocalStaging env)
       ''AUTH_COOKIE_DOMAIN is required in staging'';
     State_Monad.return \<lparr>xf_nodeEnv = nodeEnv, xf_appEnv = appEnv, xf_isProduction = (nodeEnv = node_production),
       xf_apiBaseUrl = (case apiBaseUrl of None \<Rightarrow> [] | Some u \<Rightarrow> url_href u),
       xf_publicWebUrl = map_option url_href publicWebUrl, xf_internalApiUrl = map_option url_href internalApiUrl,
       xf_cookieSecure = cookieSecure, xf_cookieSameSite = cookieSameSite, xf_cookieNamePrefix = cookieNamePrefix,
       xf_cookieDomain = cookieDomain, xf_accessTtlSeconds = accessTtlSeconds,
       xf_refreshTtlSeconds = refreshTtlSeconds\<rparr> }"

definition loadWebRuntimeConfig :: "url_parser \<Rightarrow> env \<Rightarrow> js_error + web_config" where
  "loadWebRuntimeConfig U env = finish_config (web_checks U env)"

section \<open>What a configuration without errors satisfies\<close>

text \<open>\<open>checked Q m\<close>: when no error has been pushed by the end of \<open>m\<close>, none had been pushed before it and
  the value satisfies \<open>Q\<close>.\<close>

definition checked :: "('a \<Rightarrow> bool) \<Rightarrow> 'a parser \<Rightarrow> bool" where
  "checked Q m \<longleftrightarrow> (\<forall>es v. run_state m es = (v, []) \<longrightarrow> es = [] \<and> Q v)"

lemma checked_return: "Q v \<Longrightarrow> checked Q (State_Monad.return v)"
  by (simp add: checked_def)

lemma checked_bind:
  "checked P m \<Longrightarrow> (\<And>v. checked (\<lambda>x. P v \<longrightarrow> Q x) (f v)) \<Longrightarrow> checked Q (State_Monad.bind m f)"
  unfolding checked_def by (fastforce split: prod.splits)

lemma checked_push: "checked Q (push e)"
  by (simp add: checked_def push_def)

lemma checked_push_if: "checked (\<lambda>_. \<not> b) (push_if b e)"
  by (simp add: checked_def push_if_def push_def)

lemma checked_push_return: "checked Q (State_Monad.bind (push e) (\<lambda>_. State_Monad.return d))"
  by (rule checked_bind [where P = "\<lambda>_. False"]) (simp_all add: checked_push checked_return)

lemma checked_mono: "checked P m \<Longrightarrow> (\<And>v. P v \<Longrightarrow> Q v) \<Longrightarrow> checked Q m"
  by (simp add: checked_def)

lemma finish_config_checked: "checked Q m \<Longrightarrow> finish_config m = Inr c \<Longrightarrow> Q c"
  by (auto simp: finish_config_def checked_def split: prod.splits if_splits)

lemma parseInteger_checked:
  "checked (\<lambda>v. (case lo of None \<Rightarrow> True | Some l \<Rightarrow> l \<le> v) \<and> (case hi of None \<Rightarrow> True | Some h \<Rightarrow> v \<le> h))
     (parseInteger env name d lo hi)"
  unfolding parseInteger_def Let_def
  by (auto intro!: checked_push_return checked_bind [OF checked_push_if] checked_return split: option.splits)

lemma digits_val_nonneg: "list_all is_digit s \<Longrightarrow> 0 \<le> digits_val s"
proof -
  have "0 \<le> n \<Longrightarrow> list_all is_digit s \<Longrightarrow> 0 \<le> foldl (\<lambda>n c. 10 * n + digit_val c) n s" for n
    by (induction s arbitrary: n) (auto simp: digit_val_def is_digit_def)
  then show "list_all is_digit s \<Longrightarrow> 0 \<le> digits_val s" by (simp add: digits_val_def)
qed

lemma duration_nonneg: "duration_match s = Some n \<Longrightarrow> 0 \<le> n"
proof -
  assume "duration_match s = Some n"
  then obtain m u where "n = digits_val (takeWhile is_digit s) * m" "unit_seconds u = Some m"
    by (auto simp: duration_match_def split: list.splits)
  moreover from this have "0 \<le> m" by (auto simp: unit_seconds_def split: if_splits)
  moreover have "list_all is_digit (takeWhile is_digit s)"
    by (auto simp: list_all_iff dest: set_takeWhileD)
  ultimately show ?thesis using digits_val_nonneg by simp
qed

lemma fallbacks_match:
  "duration_match ''15m'' = Some 900" "duration_match ''7d'' = Some 604800"
  "0 \<le> n \<Longrightarrow> duration_match (show_int n @ ''s'') = Some n"
proof -
  show "duration_match ''15m'' = Some 900" "duration_match ''7d'' = Some 604800" by code_simp+
  assume n: "0 \<le> n"
  obtain c t where c: "show_nat (nat n) = c # t" using show_nat_digits [of "nat n"] by (cases "show_nat (nat n)") auto
  have "takeWhile is_digit (show_nat (nat n) @ ''s'') = show_nat (nat n) \<and>
      dropWhile is_digit (show_nat (nat n) @ ''s'') = ''s''"
    using show_nat_digits [of "nat n"] by (simp add: takeWhile_append2 dropWhile_append2 list_all_iff is_digit_def)
  with n c show "duration_match (show_int n @ ''s'') = Some n"
    by (simp add: duration_match_def show_int_def unit_seconds_def lower_char_def digits_val_show_nat [of "nat n", unfolded c])
qed

lemma seconds_checked: "checked (\<lambda>v. 0 \<le> v) (parseDurationToSeconds raw name fallback)"
  unfolding parseDurationToSeconds_def
  by (auto intro: checked_push_return checked_return duration_nonneg split: option.split)

lemma milliseconds_checked: "0 \<le> fallback \<Longrightarrow> checked (\<lambda>v. 0 \<le> v) (parseDurationToMilliseconds raw name fallback)"
  unfolding parseDurationToMilliseconds_def Let_def
  by (auto intro!: checked_return checked_bind [OF seconds_checked] digits_val_nonneg)

lemma parseUrl_checked:
  "checked (\<lambda>v. \<exists>u. v = Some u \<and> url_protocol u \<in> set allowed) (parseUrl U raw name allowed)"
  unfolding parseUrl_def Let_def
  by (auto intro!: checked_push_return checked_bind [OF checked_push_if] checked_return split: option.split)

definition secret_ok :: "bool \<Rightarrow> string \<Rightarrow> bool" where
  "secret_ok strong s \<longleftrightarrow> s \<noteq> [] \<and> (strong \<longrightarrow> 32 \<le> length s \<and> \<not> placeholder_secret s)"

lemma validateSecret_checked: "checked (secret_ok strong) (validateSecret name v strong)"
  unfolding validateSecret_def Let_def
  by (auto intro!: checked_push_return checked_bind [OF checked_push_if] checked_return simp: secret_ok_def)

definition origins_ok :: "bool \<Rightarrow> string list \<Rightarrow> bool" where
  "origins_ok strict os \<longleftrightarrow> os \<noteq> [] \<and> (strict \<longrightarrow> list_all (\<lambda>origin. CHR ''*'' \<notin> set origin) os)"

lemma traverse_checked: "(\<And>x. checked (\<lambda>_. True) (f x)) \<Longrightarrow> checked (\<lambda>_. True) (State_Monad.traverse_list f xs)"
  by (induction xs) (auto intro!: checked_return checked_bind [where P = "\<lambda>_. True"])

lemma cors_checked: "checked (origins_ok strict) (parseCorsAllowedOrigins U env strict)"
  unfolding parseCorsAllowedOrigins_def Let_def
  by (auto intro!: checked_push_return checked_bind [OF checked_push_if] checked_return
      checked_bind [OF traverse_checked] checked_mono [OF parseUrl_checked] simp: origins_ok_def list_all_iff list_ex_iff)

lemma any_checked:
  "checked (\<lambda>_. True) (parseNodeEnv v)" "checked (\<lambda>_. True) (parseAppEnv v n)"
  "checked (\<lambda>_. True) (parseBoolean env name d)" "checked (\<lambda>_. True) (parseTrustProxy v)"
  "checked (\<lambda>_. True) (parseSwaggerEnabled env p)" "checked (\<lambda>_. True) (parseFailMode v name m)"
  "checked (\<lambda>_. True) (parseSameSite v name)"
  unfolding parseNodeEnv_def parseAppEnv_def parseBoolean_def parseTrustProxy_def parse_proxy_list_def
    parseSwaggerEnabled_def parseFailMode_def parseSameSite_def Let_def
  by (auto intro!: checked_return checked_push_return split: option.split)

definition hosted_ok :: "AppEnv \<Rightarrow> env \<Rightarrow> url_parts option \<Rightarrow> bool" where
  "hosted_ok appEnv env v \<longleftrightarrow> (case v of None \<Rightarrow> True | Some u \<Rightarrow> appEnv = app_staging \<longrightarrow>
     (allowsLocalStaging env \<or> url_protocol u \<noteq> ''http:'' \<and> \<not> isLocalHostname (url_hostname u)) \<and>
     \<not> rx_test PRODUCTION_HOST_PATTERN (url_hostname u))"

lemma hosted_checked: "checked (\<lambda>_. hosted_ok appEnv env url) (validateHostedUrl url name appEnv env)"
  unfolding validateHostedUrl_def
  by (auto intro!: checked_return checked_bind [OF checked_push_if] checked_mono [OF checked_push_if]
      simp: hosted_ok_def split: option.split)

lemma redis_checked: "checked (\<lambda>_. True) (parseRedisRuntimeConfig U env)"
  unfolding parseRedisRuntimeConfig_def Let_def
  by (auto intro!: checked_return checked_bind [OF parseUrl_checked] checked_bind [OF parseInteger_checked])

definition queue_ok :: "queue_config \<Rightarrow> bool" where
  "queue_ok q \<longleftrightarrow> 1 \<le> qf_attempts q \<and> 100 \<le> qf_backoffBaseMs q \<and> 1 \<le> qf_removeOnCompleteCount q \<and>
     1 \<le> qf_removeOnFailCount q \<and> 5000 \<le> qf_stalledIntervalMs q \<and> 0 \<le> qf_maxStalledCount q"

lemma queue_checked: "checked queue_ok (parse_queue env)"
  unfolding parse_queue_def by (intro checked_bind [OF parseInteger_checked] checked_return) (simp add: queue_ok_def)

definition limit_ok :: "limit_config \<Rightarrow> bool" where
  "limit_ok l \<longleftrightarrow> 1 \<le> lm_max l \<and> 0 \<le> lm_windowMs l"

lemma limit_checked: "0 \<le> window \<Longrightarrow> checked limit_ok (parse_limit env a b c window n mode)"
  unfolding parse_limit_def
  by (intro checked_bind [OF milliseconds_checked] checked_bind [OF parseInteger_checked]
      checked_bind [OF any_checked(6)] checked_return) (simp_all add: limit_ok_def)

definition auth_ok :: "bool \<Rightarrow> auth_config \<Rightarrow> bool" where
  "auth_ok strong a \<longleftrightarrow> secret_ok strong (au_accessSecret a) \<and> secret_ok strong (au_refreshSecret a) \<and>
     0 \<le> au_accessTtlSeconds a \<and> au_accessTtlSeconds a < au_refreshTtlSeconds a"

lemma auth_checked: "checked (auth_ok strong) (parse_auth env strong)"
  unfolding parse_auth_def
  by (intro checked_bind [OF validateSecret_checked] checked_bind [OF seconds_checked]
      checked_bind [OF checked_push_if] checked_return) (simp add: auth_ok_def)

definition api_config_ok :: "api_config \<Rightarrow> bool" where
  "api_config_ok c \<longleftrightarrow>
     (let strict = production_like (af_nodeEnv c) (af_appEnv c)
      in 1 \<le> af_port c \<and> af_port c \<le> 65535 \<and> auth_ok strict (af_auth c) \<and>
         origins_ok strict (af_corsAllowedOrigins c) \<and> queue_ok (af_queue c) \<and>
         limit_ok (af_authLimit c) \<and> limit_ok (af_apiLimit c) \<and>
         af_healthTimeoutMs c \<le> af_shutdownGraceMs c \<and>
         (strict \<longrightarrow> af_metricsEnabled c \<longrightarrow> af_metricsAuthToken c \<noteq> None))"

lemma api_checked: "checked api_config_ok (api_checks U env)"
  unfolding api_checks_def Let_def
  by (intro checked_bind [OF any_checked(1)] checked_bind [OF any_checked(2)] checked_bind [OF parseUrl_checked]
      checked_bind [OF hosted_checked] checked_bind [OF redis_checked] checked_bind [OF checked_push_if]
      checked_bind [OF auth_checked] checked_bind [OF parseInteger_checked] checked_bind [OF any_checked(4)]
      checked_bind [OF cors_checked] checked_bind [OF any_checked(5)] checked_bind [OF milliseconds_checked]
      checked_bind [OF any_checked(3)] checked_bind [OF queue_checked] checked_bind [OF limit_checked] checked_return)
    (auto simp: api_config_ok_def)

definition worker_config_ok :: "worker_config \<Rightarrow> bool" where
  "worker_config_ok c \<longleftrightarrow>
     1 \<le> wf_port c \<and> wf_port c \<le> 65535 \<and> queue_ok (wf_queue c) \<and>
     0 \<le> wf_shutdownGraceMs c \<and> 0 \<le> wf_healthTimeoutMs c \<and>
     wl_provider (wf_llm c) \<in> {''deterministic'', ''openai'', ''anthropic''} \<and>
     (wl_provider (wf_llm c) \<noteq> ''deterministic'' \<longrightarrow> nullish (wl_apiKey (wf_llm c)) [] \<noteq> []) \<and>
     (wf_nodeEnv c = node_production \<or> wf_appEnv c = app_staging \<longrightarrow>
        wf_metricsEnabled c \<longrightarrow> wf_metricsAuthToken c \<noteq> None)"

lemma worker_checked: "checked worker_config_ok (worker_checks U env)"
  unfolding worker_checks_def Let_def
  by (intro checked_bind [OF any_checked(1)] checked_bind [OF any_checked(2)] checked_bind [OF parseUrl_checked]
      checked_bind [OF hosted_checked] checked_bind [OF redis_checked] checked_bind [OF checked_push_if]
      checked_bind [OF parseInteger_checked] checked_bind [OF milliseconds_checked]
      checked_bind [OF any_checked(3)] checked_bind [OF queue_checked] checked_return)
    (auto simp: worker_config_ok_def)

definition web_config_ok :: "env \<Rightarrow> web_config \<Rightarrow> bool" where
  "web_config_ok env c \<longleftrightarrow>
     0 \<le> xf_accessTtlSeconds c \<and> xf_accessTtlSeconds c < xf_refreshTtlSeconds c \<and>
     cookie_prefix_ok (xf_cookieNamePrefix c) \<and>
     (xf_cookieSameSite c = None_site \<longrightarrow> xf_cookieSecure c) \<and>
     (production_like (xf_nodeEnv c) (xf_appEnv c) \<longrightarrow> xf_cookieSecure c \<or> allowsLocalStaging env) \<and>
     (xf_appEnv c = app_staging \<longrightarrow> xf_cookieDomain c \<noteq> None \<or> allowsLocalStaging env)"

lemma optional_checked: "checked (\<lambda>_. True) (optional_url U env name)"
  unfolding optional_url_def by (auto intro: checked_return checked_mono [OF parseUrl_checked])

lemma web_checked: "checked (web_config_ok env) (web_checks U env)"
  unfolding web_checks_def Let_def
  by (intro checked_bind [OF any_checked(1)] checked_bind [OF any_checked(2)] checked_bind [OF parseUrl_checked]
      checked_bind [OF optional_checked] checked_bind [OF hosted_checked] checked_bind [OF checked_push_if]
      checked_bind [OF any_checked(3)] checked_bind [OF any_checked(7)] checked_bind [OF seconds_checked] checked_return)
    (auto simp: web_config_ok_def)

text \<open>C23: A process that starts has a sound configuration. Whatever the environment, a configuration that
  the API's loader returns has refresh tokens that outlive access tokens, both secrets (long and not a known
  placeholder in a production-like environment), at least one allowed origin (and no wildcard there),
  usable limits and queue settings, and a metrics token where metrics are exposed in production; the
  worker's has a known provider and a key for it; the web console's cookies are secure in production.\<close>

theorem loaded_config_ok:
  "(case loadApiRuntimeConfig U env of Inl _ \<Rightarrow> True | Inr c \<Rightarrow> api_config_ok c) \<and>
   (case loadWorkerRuntimeConfig U env of Inl _ \<Rightarrow> True | Inr c \<Rightarrow> worker_config_ok c) \<and>
   (case loadWebRuntimeConfig U env of Inl _ \<Rightarrow> True | Inr c \<Rightarrow> web_config_ok env c)"
  using finish_config_checked [OF api_checked] finish_config_checked [OF worker_checked]
    finish_config_checked [OF web_checked]
  by (auto simp: loadApiRuntimeConfig_def loadWorkerRuntimeConfig_def loadWebRuntimeConfig_def split: sum.split)

definition demo_url :: url_parser where
  "demo_url s = Some \<lparr>url_protocol = (if starts_with ''postgres:'' s then ''postgres:'' else ''https:''),
     url_hostname = ''db'', url_port = [], url_pathname = [], url_href = s\<rparr>"

definition demo_secret :: string where
  "demo_secret = ''0123456789abcdef0123456789abcdef''"

definition demo_env :: env where
  "demo_env = map_of [(''APP_ENV'', ''production''), (''DATABASE_URL'', ''postgres://db''),
     (''JWT_ACCESS_SECRET'', demo_secret), (''JWT_REFRESH_SECRET'', demo_secret),
     (''CORS_ALLOWED_ORIGINS'', ''https://a''),
     (''AI_PROVIDER'', ''OpenAI''), (''AI_API_KEY'', ''k''), (''AI_ENABLE_FALLBACK'', ''FALSE'')]"

lemma demo_evals: "to_lower ''FALSE'' = ''false''" "to_lower ''OpenAI'' = ''openai''" "to_lower [] = []"
  "trim demo_secret = demo_secret" "demo_secret \<noteq> []" "\<not> length demo_secret < 32" "\<not> placeholder_secret demo_secret"
  "trim ''https://a'' = ''https://a''" "split_commas ''https://a'' = [''https://a'']"
  "trim ''postgres://db'' = ''postgres://db''" "starts_with ''postgres:'' ''postgres://db''" "\<not> starts_with ''postgres:'' ''https://a''"
  "trim ''production'' = ''production''" "trim ''OpenAI'' = ''OpenAI''" "trim ''FALSE'' = ''FALSE''" "trim ''k'' = ''k''" "trim [] = []"
  by code_simp+

lemmas eval_config = finish_config_def parseNodeEnv_def parseAppEnv_def parseUrl_def validateHostedUrl_def
  parseInteger_def parseBoolean_def parseRedisRuntimeConfig_def redis_of_url_def validateSecret_def parse_auth_def
  parseDurationToSeconds_def parseTrustProxy_def parseCorsAllowedOrigins_def parseSwaggerEnabled_def parse_limit_def
  parseFailMode_def production_like_def
  parseDurationToMilliseconds_def parse_queue_def push_if_def push_def trim_or_def trim_present_def str_or_def nullish_def
  Let_def demo_evals fallbacks_match

lemma demo_worker: "\<exists>c. loadWorkerRuntimeConfig demo_url demo_env = Inr c \<and> wf_appEnv c = app_production \<and>
   wf_metricsEnabled c \<and> wf_metricsAuthToken c = None \<and> \<not> wl_enableFallback (wf_llm c) \<and> wl_provider (wf_llm c) = ''openai''"
  by (simp add: loadWorkerRuntimeConfig_def worker_checks_def eval_config demo_url_def demo_env_def)

lemma demo_api: "loadApiRuntimeConfig demo_url demo_env = Inl (config_failure
  [''METRICS_AUTH_TOKEN is required when METRICS_ENABLED=true in production-like environments''])"
  by (simp add: loadApiRuntimeConfig_def api_checks_def eval_config demo_url_def demo_env_def)

text \<open>The worker does not ask for a metrics token where the API does: in a deployment marked production by
  APP_ENV alone the worker starts with metrics on and no token, and the API refuses the same
  environment for that reason only.\<close>

theorem worker_metrics_unprotected:
  "\<exists>U env c. loadWorkerRuntimeConfig U env = Inr c \<and> production_like (wf_nodeEnv c) (wf_appEnv c) \<and>
     wf_metricsEnabled c \<and> wf_metricsAuthToken c = None \<and> loadApiRuntimeConfig U env = Inl (config_failure
       [''METRICS_AUTH_TOKEN is required when METRICS_ENABLED=true in production-like environments''])"
proof -
  obtain c where "loadWorkerRuntimeConfig demo_url demo_env = Inr c" "wf_appEnv c = app_production"
    "wf_metricsEnabled c" "wf_metricsAuthToken c = None" using demo_worker by blast
  with demo_api show ?thesis unfolding production_like_def by blast
qed

lemma parseBoolean_value:
  "checked (\<lambda>b. b = (if to_lower (trim_or (env name) []) = [] then d else to_lower (trim_or (env name) []) = ''true''))
     (parseBoolean env name d)"
  unfolding parseBoolean_def Let_def by (auto intro: checked_return checked_push_return)

lemma worker_fallback:
  "checked (\<lambda>c. wl_enableFallback (wf_llm c) =
     (let raw = to_lower (trim_or (env ''AI_ENABLE_FALLBACK'') []) in if raw = [] then True else raw = ''true''))
     (worker_checks U env)"
  unfolding worker_checks_def Let_def
  by (intro checked_bind [OF any_checked(1)] checked_bind [OF any_checked(2)] checked_bind [OF parseUrl_checked]
      checked_bind [OF hosted_checked] checked_bind [OF redis_checked] checked_bind [OF checked_push_if]
      checked_bind [OF parseInteger_checked] checked_bind [OF milliseconds_checked]
      checked_bind [OF parseBoolean_value] checked_bind [OF queue_checked] checked_return) auto

text \<open>Two readers of the same settings disagree. With fallback switched off in any spelling other than lower
  case without blanks, the validated configuration of the worker says off and the model service
  still falls back.\<close>

theorem fallback_switch_ignored:
  assumes "x_env E ''AI_ENABLE_FALLBACK'' = Some v" "to_lower (trim v) = ''false''" "v \<noteq> ''false''"
    and "loadWorkerRuntimeConfig U (x_env E) = Inr c" "loadLlmConfig E = Inr l"
  shows "\<not> wl_enableFallback (wf_llm c) \<and> lf_enableFallback l"
proof
  have "trim v \<noteq> []" using assms(2) by (auto simp: to_lower_def)
  moreover have "wl_enableFallback (wf_llm c) =
     (let raw = to_lower (trim_or (x_env E ''AI_ENABLE_FALLBACK'') []) in if raw = [] then True else raw = ''true'')"
    using finish_config_checked [OF worker_fallback] assms(4) by (simp add: loadWorkerRuntimeConfig_def)
  ultimately show "\<not> wl_enableFallback (wf_llm c)"
    using assms(1,2) by (simp add: trim_or_def str_or_def)
  show "lf_enableFallback l"
    using assms(1,3,5) by (auto simp: loadLlmConfig_def and_then_Inr Let_def)
qed

definition demo_llm_ext :: ext where
  "demo_llm_ext = demo_ext\<lparr>x_env := map_of [(''DATABASE_URL'', ''postgres://db''), (''AI_ENABLE_FALLBACK'', ''FALSE'')]\<rparr>"

theorem fallback_switch_ignored_witness:
  "\<exists>c l. loadWorkerRuntimeConfig demo_url (x_env demo_llm_ext) = Inr c \<and> loadLlmConfig demo_llm_ext = Inr l \<and>
     \<not> wl_enableFallback (wf_llm c) \<and> lf_enableFallback l"
proof -
  have v: "x_env demo_llm_ext ''AI_ENABLE_FALLBACK'' = Some ''FALSE''" by (simp add: demo_llm_ext_def)
  obtain c where c: "loadWorkerRuntimeConfig demo_url (x_env demo_llm_ext) = Inr c"
    by (simp add: loadWorkerRuntimeConfig_def worker_checks_def eval_config demo_url_def demo_llm_ext_def)
  obtain l where l: "loadLlmConfig demo_llm_ext = Inr l"
    by (simp add: loadLlmConfig_def demo_llm_ext_def nullish_def VALID_PROVIDERS_def check_that_def llm_parseIntEnv_def
        parseFloatEnv_def Let_def)
  show ?thesis using fallback_switch_ignored [OF v _ _ c l] c l by (simp add: demo_evals)
qed

end
