(* ===== verification/Tokens.thy ===== *)
theory Tokens
  imports Provider RuntimeConfig
begin

text \<open>
  \<^verbatim>\<open>apps/api/src/auth/token.service.ts\<close>: the signed tokens of the API (JWT with HMAC-SHA256),
  with the base64 and UTF-8 readers of \<^verbatim>\<open>Buffer\<close> they go through. A character above 255, which
  only a forged token can hold, is read as a question mark.
\<close>

section \<open>Base64\<close>

text \<open>\<^verbatim>\<open>Buffer.toString('base64')\<close> and \<^verbatim>\<open>Buffer.from(s, 'base64')\<close>; the reader skips
  characters outside the alphabet and also takes the URL-safe ones.\<close>

definition b64_char :: "nat \<Rightarrow> char" where
  "b64_char n =
     (if n < 26 then char_of (65 + n) else if n < 52 then char_of (71 + n)
      else if n < 62 then char_of (n - 4) else if n = 62 then CHR ''+'' else CHR ''/'')"

definition b64_val :: "char \<Rightarrow> nat option" where
  "b64_val c =
     (let n = of_char c
      in if 65 \<le> n \<and> n \<le> 90 then Some (n - 65) else if 97 \<le> n \<and> n \<le> 122 then Some (n - 71)
         else if 48 \<le> n \<and> n \<le> 57 then Some (n + 4)
         else if c = CHR ''+'' \<or> c = CHR ''-'' then Some 62
         else if c = CHR ''/'' \<or> c = CHR ''_'' then Some 63 else None)"

fun b64_encode :: "string \<Rightarrow> string" where
  "b64_encode [] = []"
| "b64_encode [a] =
     (let x = of_char a in [b64_char (x div 4), b64_char (x mod 4 * 16), CHR ''='', CHR ''=''])"
| "b64_encode [a, b] =
     (let x = of_char a; y = of_char b
      in [b64_char (x div 4), b64_char (x mod 4 * 16 + y div 16), b64_char (y mod 16 * 4), CHR ''=''])"
| "b64_encode (a # b # c # cs) =
     (let x = of_char a; y = of_char b; z = of_char c
      in [b64_char (x div 4), b64_char (x mod 4 * 16 + y div 16), b64_char (y mod 16 * 4 + z div 64),
          b64_char (z mod 64)] @ b64_encode cs)"

fun b64_bytes :: "nat list \<Rightarrow> string" where
  "b64_bytes (a # b # c # d # ns) =
     [char_of (a * 4 + b div 16), char_of (b mod 16 * 16 + c div 4), char_of (c mod 4 * 64 + d)] @ b64_bytes ns"
| "b64_bytes [a, b, c] = [char_of (a * 4 + b div 16), char_of (b mod 16 * 16 + c div 4)]"
| "b64_bytes [a, b] = [char_of (a * 4 + b div 16)]"
| "b64_bytes _ = []"

definition b64_decode :: "string \<Rightarrow> string" where
  "b64_decode s = b64_bytes (List.map_filter b64_val s)"

fun utf8_decode :: "string \<Rightarrow> string" where
  "utf8_decode [] = []"
| "utf8_decode (c # cs) =
     (let n = (of_char c :: nat)
      in if n < 128 then c # utf8_decode cs
         else case cs of
           [] \<Rightarrow> ''?''
         | d # ds \<Rightarrow>
             (let m = (of_char d :: nat)
              in if (n = 194 \<or> n = 195) \<and> 128 \<le> m \<and> m < 192
                 then char_of ((n - 192) * 64 + (m - 128)) # utf8_decode ds else CHR ''?'' # utf8_decode cs))"

definition url_char :: "char \<Rightarrow> char" where
  "url_char c = (if c = CHR ''+'' then CHR ''-'' else if c = CHR ''/'' then CHR ''_'' else c)"

definition std_char :: "char \<Rightarrow> char" where
  "std_char c = (if c = CHR ''-'' then CHR ''+'' else if c = CHR ''_'' then CHR ''/'' else c)"

definition base64UrlEncode :: "string \<Rightarrow> string" where
  "base64UrlEncode bytes =
     rev (dropWhile (\<lambda>c. c = CHR ''='') (rev (map url_char (b64_encode bytes))))"

definition base64UrlDecode :: "string \<Rightarrow> string" where
  "base64UrlDecode value =
     (let normalized = map std_char value; padding = length normalized mod 4;
          padded = (if padding = 0 then normalized else normalized @ replicate (4 - padding) CHR ''='')
      in utf8_decode (b64_decode padded))"

section \<open>Signing\<close>

definition hmac_bytes :: "ext \<Rightarrow> string \<Rightarrow> string \<Rightarrow> string" where
  "hmac_bytes E secret text = map char_of (hex_decode (x_hmac E (utf8 secret) text))"

definition token_part :: "ext \<Rightarrow> (string \<times> json) list \<Rightarrow> string" where
  "token_part E kvs = base64UrlEncode (utf8 (js_stringify (x_num E) (JObj kvs)))"

definition token_header :: "(string \<times> json) list" where
  "token_header = [(''alg'', JStr ''HS256''), (''typ'', JStr ''JWT'')]"

definition signed_text :: "ext \<Rightarrow> string \<Rightarrow> (string \<times> json) list \<Rightarrow> string" where
  "signed_text E secret payload =
     (let text = token_part E token_header @ ''.'' @ token_part E payload
      in text @ ''.'' @ base64UrlEncode (hmac_bytes E secret text))"

definition timed_payload :: "(string \<times> json) list \<Rightarrow> int \<Rightarrow> int \<Rightarrow> (string \<times> json) list" where
  "timed_payload payload now ttlSeconds = payload @ [(''iat'', j_int now), (''exp'', j_int (now + ttlSeconds))]"

definition signToken :: "ext \<Rightarrow> (string \<times> json) list \<Rightarrow> string \<Rightarrow> int \<Rightarrow> string act" where
  "signToken E payload secret ttlSeconds =
     bind_x (now_x E) (\<lambda>t. ret_x (signed_text E secret (timed_payload payload (t div 1000) ttlSeconds)))"

section \<open>Verifying\<close>

fun split_on :: "char \<Rightarrow> string \<Rightarrow> string list" where
  "split_on s [] = [[]]"
| "split_on s (c # cs) =
     (if c = s then [] # split_on s cs
      else case split_on s cs of p # ps \<Rightarrow> (c # p) # ps | [] \<Rightarrow> [[c]])"

definition syntax_error :: js_error where
  "syntax_error = (plain_error ''Unexpected token'')\<lparr>er_name := ''SyntaxError''\<rparr>"

definition type_error :: js_error where
  "type_error = (plain_error ''Cannot read properties of null'')\<lparr>er_name := ''TypeError''\<rparr>"

text \<open>\<^verbatim>\<open>JSON.parse(base64UrlDecode(part))\<close>, whose result is used as an object.\<close>

definition read_part :: "string \<Rightarrow> js_error + json" where
  "read_part part =
     (case json_parse (base64UrlDecode part) of
        None \<Rightarrow> Inl syntax_error | Some j \<Rightarrow> if j = JNull then Inl type_error else Inr j)"

definition verify_text :: "ext \<Rightarrow> string \<Rightarrow> string \<Rightarrow> js_error + json" where
  "verify_text E secret token =
     (case split_on CHR ''.'' token of
        [encodedHeader, encodedPayload, encodedSignature] \<Rightarrow>
          and_then (read_part encodedHeader) (\<lambda>header.
          and_then (check_that (j_get ''alg'' header = Some (JStr ''HS256'') \<and> j_get ''typ'' header = Some (JStr ''JWT''))
            (plain_error ''Unsupported token algorithm'')) (\<lambda>_.
          and_then (check_that (b64_decode (map std_char encodedSignature) =
              hmac_bytes E secret (encodedHeader @ ''.'' @ encodedPayload))
            (plain_error ''Invalid token signature'')) (\<lambda>_.
          and_then (read_part encodedPayload) (\<lambda>payload.
          and_then (check_that (j_get_str ''sub'' payload \<noteq> None \<and> get_num ''exp'' payload \<noteq> None \<and>
              get_num ''iat'' payload \<noteq> None \<and> j_get_str ''typ'' payload \<noteq> None)
            (plain_error ''Invalid token payload'')) (\<lambda>_.
            Inr payload)))))
      | _ \<Rightarrow> Inl (plain_error ''Malformed token''))"

definition verifyToken :: "ext \<Rightarrow> string \<Rightarrow> string \<Rightarrow> json act" where
  "verifyToken E token secret =
     bind_x (of_result (verify_text E secret token)) (\<lambda>payload.
     bind_x (now_x E) (\<lambda>t.
       if the (get_num ''exp'' payload) \<le> of_int (t div 1000)
       then throw_x (plain_error ''Token expired'') else ret_x payload))"

section \<open>Access and refresh tokens\<close>

definition createAccessToken :: "ext \<Rightarrow> auth_config \<Rightarrow> string \<Rightarrow> string \<Rightarrow> string act" where
  "createAccessToken E A userId email =
     signToken E [(''sub'', JStr userId), (''email'', JStr email), (''typ'', JStr ''access'')]
       (au_accessSecret A) (au_accessTtlSeconds A)"

definition createRefreshToken :: "ext \<Rightarrow> auth_config \<Rightarrow> string \<Rightarrow> string \<Rightarrow> string act" where
  "createRefreshToken E A userId sessionId =
     signToken E [(''sub'', JStr userId), (''sid'', JStr sessionId), (''typ'', JStr ''refresh'')]
       (au_refreshSecret A) (au_refreshTtlSeconds A)"

record access_payload =
  ap_sub :: string
  ap_email :: string

record refresh_payload =
  rp_sub :: string
  rp_sid :: string
  rp_exp :: rat

definition verifyAccessToken :: "ext \<Rightarrow> auth_config \<Rightarrow> string \<Rightarrow> access_payload act" where
  "verifyAccessToken E A token =
     bind_x (verifyToken E token (au_accessSecret A)) (\<lambda>payload.
       if j_get_str ''typ'' payload \<noteq> Some ''access'' \<or> j_get_str ''email'' payload = None
       then throw_x (plain_error ''Invalid access token payload'')
       else ret_x \<lparr>ap_sub = the (j_get_str ''sub'' payload), ap_email = the (j_get_str ''email'' payload)\<rparr>)"

definition verifyRefreshToken :: "ext \<Rightarrow> auth_config \<Rightarrow> string \<Rightarrow> refresh_payload act" where
  "verifyRefreshToken E A token =
     bind_x (verifyToken E token (au_refreshSecret A)) (\<lambda>payload.
       if j_get_str ''typ'' payload \<noteq> Some ''refresh'' \<or> j_get_str ''sid'' payload = None
       then throw_x (plain_error ''Invalid refresh token payload'')
       else ret_x \<lparr>rp_sub = the (j_get_str ''sub'' payload), rp_sid = the (j_get_str ''sid'' payload),
         rp_exp = the (get_num ''exp'' payload)\<rparr>)"

definition hashRefreshToken :: "ext \<Rightarrow> string \<Rightarrow> string" where
  "hashRefreshToken E token = x_sha256 E (utf8 token)"

text \<open>Milliseconds; a fraction of one is dropped by the date column.\<close>

definition getRefreshExpiry :: "rat \<Rightarrow> int" where
  "getRefreshExpiry expiresAtSecondsFromEpoch = \<lfloor>expiresAtSecondsFromEpoch * 1000\<rfloor>"

section \<open>Reading back what is encoded\<close>

lemma b64_val_char: "n < 64 \<Longrightarrow> b64_val (b64_char n) = Some n"
  by (auto simp: b64_val_def b64_char_def Let_def simp flip: of_char_eq_iff [where 'a = nat])

lemma b64_val_pad: "b64_val CHR ''='' = None"
  by (simp add: b64_val_def)

lemma b64_val_url: "b64_val (std_char (url_char c)) = b64_val c"
  by (auto simp: std_char_def url_char_def b64_val_def)

lemma map_filter_append: "List.map_filter f (xs @ ys) = List.map_filter f xs @ List.map_filter f ys"
  by (simp add: List.map_filter_def)

lemma char_below: "(of_char c :: nat) < 256"
  by simp

lemma char_high: "of_char c div 16 div 16 = (0 :: nat)" "of_char c div 16 mod 16 = (of_char c div 16 :: nat)"
  "of_char c div 64 div 4 = (0 :: nat)" "of_char c div 64 mod 4 = (of_char c div 64 :: nat)"
proof -
  have "of_char c div 16 < (16 :: nat)" "of_char c div 64 < (4 :: nat)" using char_below [of c] by linarith+
  then show "of_char c div 16 div 16 = (0 :: nat)" "of_char c div 16 mod 16 = (of_char c div 16 :: nat)"
    "of_char c div 64 div 4 = (0 :: nat)" "of_char c div 64 mod 4 = (of_char c div 64 :: nat)"
    by simp_all
qed

lemma sextets:
  fixes x y z :: nat
  shows "x < 256 \<Longrightarrow> x div 4 < 64" "x mod 4 * 16 < 64" "y < 256 \<Longrightarrow> x mod 4 * 16 + y div 16 < 64" "y mod 16 * 4 < 64"
    "z < 256 \<Longrightarrow> y mod 16 * 4 + z div 64 < 64" "z mod 64 < 64"
proof -
  have m: "x mod 4 < 4" "y mod 16 < 16" by simp_all
  then show "x mod 4 * 16 < 64" "y mod 16 * 4 < 64" "z mod 64 < 64" by simp_all
  show "x < 256 \<Longrightarrow> x div 4 < 64" by auto
  have "y < 256 \<Longrightarrow> y div 16 < 16" "z < 256 \<Longrightarrow> z div 64 < 4" by auto
  with m show "y < 256 \<Longrightarrow> x mod 4 * 16 + y div 16 < 64" "z < 256 \<Longrightarrow> y mod 16 * 4 + z div 64 < 64"
    by linarith+
qed

lemma b64_roundtrip: "b64_decode (b64_encode s) = s"
proof -
  have "b64_bytes (List.map_filter b64_val (b64_encode s)) = s"
    by (induction s rule: b64_encode.induct)
       (simp_all add: Let_def map_filter_append b64_val_pad b64_val_char sextets char_high)
  then show ?thesis by (simp add: b64_decode_def)
qed

lemma map_filter_strip: "f p = None \<Longrightarrow> List.map_filter f (rev (dropWhile (\<lambda>c. c = p) (rev xs))) = List.map_filter f xs"
  by (induction xs rule: rev_induct) (simp_all add: map_filter_append split: option.split)

lemma map_filter_std: "List.map_filter b64_val (map std_char (base64UrlEncode s)) = List.map_filter b64_val (b64_encode s)"
proof -
  have "List.map_filter b64_val (map std_char t) = List.map_filter (\<lambda>c. b64_val (std_char c)) t" for t
    by (induction t) (simp_all split: option.split)
  moreover have "b64_val (std_char CHR ''='') = None" by (simp add: std_char_def b64_val_pad)
  moreover have "List.map_filter (\<lambda>c. b64_val (std_char c)) (map url_char t) = List.map_filter b64_val t" for t
    by (induction t) (simp_all add: b64_val_url split: option.split)
  ultimately show ?thesis by (simp add: base64UrlEncode_def map_filter_strip)
qed

lemma signature_roundtrip: "b64_decode (map std_char (base64UrlEncode s)) = s"
  using b64_roundtrip [of s] by (simp add: b64_decode_def map_filter_std)

lemma url_roundtrip: "base64UrlDecode (base64UrlEncode s) = utf8_decode s"
proof -
  have "List.map_filter b64_val (replicate n CHR ''='') = []" for n
    by (induction n) (simp_all add: b64_val_pad)
  then have "b64_decode (map std_char (base64UrlEncode s) @ replicate n CHR ''='') = s" for n
    using signature_roundtrip [of s] by (simp add: b64_decode_def map_filter_append)
  moreover from this [of 0] have "b64_decode (map std_char (base64UrlEncode s)) = s" by simp
  ultimately show ?thesis by (simp add: base64UrlDecode_def Let_def)
qed

lemma utf8_roundtrip: "utf8_decode (utf8 s) = s"
proof (induction s)
  case (Cons c s)
  have u: "utf8 (c # s) = utf8 [c] @ utf8 s" by (simp add: utf8_def)
  show ?case
  proof (cases "(of_char c :: nat) < 128")
    case True
    then show ?thesis using Cons u by (simp add: utf8_def [of "[c]"])
  next
    case False
    let ?n = "of_char c :: nat"
    have n: "?n div 64 = 2 \<or> ?n div 64 = 3" using False char_below [of c] by linarith
    have b: "192 + ?n div 64 < 256" "128 + ?n mod 64 < 256" "?n mod 64 < 64" using n by auto
    have e: "of_char (char_of (192 + ?n div 64) :: char) = 192 + ?n div 64"
      "of_char (char_of (128 + ?n mod 64) :: char) = 128 + ?n mod 64"
      using b by simp_all
    have "utf8 [c] = [char_of (192 + ?n div 64), char_of (128 + ?n mod 64)]" using False by (simp add: utf8_def Let_def)
    moreover have "?n div 64 * 64 + ?n mod 64 = ?n" by simp
    ultimately show ?thesis using Cons u n b e by (auto simp: Let_def simp del: char_of_nat)
  qed
qed (simp add: utf8_def)

lemma split_on_end: "s \<notin> set a \<Longrightarrow> split_on s a = [a]"
  by (induction a) auto

lemma split_on_first: "s \<notin> set a \<Longrightarrow> split_on s (a @ s # r) = a # split_on s r"
  by (induction a) auto

lemma b64_encode_chars: "set (b64_encode s) \<subseteq> b64_char ` UNIV \<union> {CHR ''=''}"
  by (induction s rule: b64_encode.induct) (auto simp: Let_def)

lemma no_dot: "CHR ''.'' \<notin> set (base64UrlEncode s)"
proof -
  have "url_char (b64_char n) \<noteq> CHR ''.''" for n
    by (auto simp: url_char_def b64_char_def simp flip: of_char_eq_iff [where 'a = nat])
  moreover have "set (base64UrlEncode s) \<subseteq> url_char ` set (b64_encode s)"
    by (auto simp: base64UrlEncode_def dest!: set_dropWhileD)
  ultimately show ?thesis using b64_encode_chars [of s] by (fastforce simp: url_char_def)
qed
text \<open>An object of strings and integers, printed by \<^verbatim>\<open>JSON.stringify\<close>.\<close>

definition flat_json :: "(string \<times> json) list \<Rightarrow> bool" where
  "flat_json kvs \<longleftrightarrow> kvs \<noteq> [] \<and> distinct (map fst kvs) \<and>
     list_all (\<lambda>e. (\<exists>s. snd e = JStr s) \<or> (\<exists>n. snd e = j_int n)) kvs"

lemma parse_flat:
  assumes num: "\<And>n. num (of_int n) = show_int n" and "flat_json kvs"
  shows "json_parse (js_stringify num (JObj kvs)) = Some (JObj kvs)"
proof -
  let ?f = "\<lambda>e. js_stringify num (snd e)"
  let ?t = "join_with '','' (map (member_text fst ?f) kvs) @ ''}''"
  have v: "p_value (?f e @ r) = Some (snd e, r)" if "e \<in> set kvs" "delim r" for e r
  proof -
    have "(\<exists>s. snd e = JStr s) \<or> (\<exists>n. snd e = j_int n)"
      using assms(2) that(1) by (auto simp: flat_json_def list_all_iff)
    then show ?thesis
      using p_value_stringify [OF num _ that(2), of "snd e"] by (auto simp: j_int_def)
  qed
  have "p_members ?t = Some (map (\<lambda>e. (fst e, snd e)) kvs, [])"
    using assms(2) v p_members_join [of kvs ?f snd fst "[]"] by (simp add: flat_json_def)
  moreover obtain e es where "kvs = e # es" using assms(2) by (cases kvs) (auto simp: flat_json_def)
  then have "\<exists>u. ?t = quote_c # u" by (cases es) (auto simp: member_text_quote)
  then have "\<not> starts_with ''}'' (skip_ws ?t)" by (auto simp: skip_ws_id starts_with_def)
  moreover have "fold (\<lambda>(k, v). AList.update k v) kvs [] = kvs"
    using fold_update [of "[]" kvs] assms(2) by (simp add: flat_json_def)
  moreover have "js_stringify num (JObj kvs) = CHR ''{'' # ?t"
    by (simp add: member_text_def [abs_def])
  ultimately show ?thesis
    by (simp add: json_parse_def p_value.simps [of "CHR ''{'' # _"] skip_ws_id skip_ws_def [of "[]"] del: js_stringify.simps)
qed

lemma read_token_part:
  "(\<And>n. x_num E (of_int n) = show_int n) \<Longrightarrow> flat_json kvs \<Longrightarrow> read_part (token_part E kvs) = Inr (JObj kvs)"
  by (simp add: read_part_def token_part_def url_roundtrip utf8_roundtrip parse_flat del: js_stringify.simps)

lemma split_signed:
  "split_on CHR ''.'' (signed_text E secret kvs) = [token_part E token_header, token_part E kvs,
     base64UrlEncode (hmac_bytes E secret (token_part E token_header @ ''.'' @ token_part E kvs))]"
proof -
  have "CHR ''.'' \<notin> set (token_part E kvs)" for kvs using no_dot by (simp add: token_part_def)
  then show ?thesis
    using split_on_first split_on_end [OF no_dot] by (simp add: signed_text_def Let_def)
qed

lemma read_header: "(\<And>n. x_num E (of_int n) = show_int n) \<Longrightarrow> read_part (token_part E token_header) = Inr (JObj token_header)"
  by (rule read_token_part) (simp_all add: flat_json_def token_header_def)

text \<open>Under the secret it was signed with, a token reads back; under another it may be refused, but
  never reads as something else.\<close>

lemma verify_signed:
  assumes "\<And>n. x_num E (of_int n) = show_int n" "flat_json kvs"
    and "j_get_str ''sub'' (JObj kvs) \<noteq> None" "get_num ''exp'' (JObj kvs) \<noteq> None"
    and "get_num ''iat'' (JObj kvs) \<noteq> None" "j_get_str ''typ'' (JObj kvs) \<noteq> None"
  shows "verify_text E secret (signed_text E secret kvs) = Inr (JObj kvs)"
    and "verify_text E other (signed_text E secret kvs) = Inr j \<Longrightarrow> j = JObj kvs"
  using assms read_token_part [OF assms(1,2)] read_header [OF assms(1)] signature_roundtrip
  by (auto simp: verify_text_def split_signed token_header_def j_get_def and_then_Inr check_that_def split: if_splits)

definition access_claims :: "string \<Rightarrow> string \<Rightarrow> (string \<times> json) list" where
  "access_claims userId email = [(''sub'', JStr userId), (''email'', JStr email), (''typ'', JStr ''access'')]"

definition refresh_claims :: "string \<Rightarrow> string \<Rightarrow> (string \<times> json) list" where
  "refresh_claims userId sessionId = [(''sub'', JStr userId), (''sid'', JStr sessionId), (''typ'', JStr ''refresh'')]"

lemma claims_ok:
  assumes "kvs = timed_payload (access_claims u e) now ttl \<or> kvs = timed_payload (refresh_claims u e) now ttl"
  shows "flat_json kvs" "j_get_str ''sub'' (JObj kvs) = Some u" "get_num ''exp'' (JObj kvs) = Some (of_int (now + ttl))"
    "get_num ''iat'' (JObj kvs) = Some (of_int now)" "j_get_str ''typ'' (JObj kvs) \<noteq> None"
  using assms by (auto simp: timed_payload_def access_claims_def refresh_claims_def flat_json_def j_get_str_def j_get_def
      get_num_def j_int_def list_all_iff simp del: of_int_add)

lemma access_fields:
  "j_get_str ''typ'' (JObj (timed_payload (access_claims u e) now ttl)) = Some ''access''"
  "j_get_str ''email'' (JObj (timed_payload (access_claims u e) now ttl)) = Some e"
  "j_get_str ''typ'' (JObj (timed_payload (refresh_claims u i) now ttl)) = Some ''refresh''"
  "j_get_str ''sid'' (JObj (timed_payload (refresh_claims u i) now ttl)) = Some i"
  by (simp_all add: timed_payload_def access_claims_def refresh_claims_def j_get_str_def j_get_def)

lemma of_int_le: "(of_int a \<le> (of_int b :: rat)) = (a \<le> b)"
  by simp

lemma verifyToken_signed:
  assumes num: "\<And>n. x_num E (of_int n) = show_int n"
    and kvs: "kvs = timed_payload (access_claims u e) now ttl \<or> kvs = timed_payload (refresh_claims u e) now ttl"
  shows "fst (verifyToken E (signed_text E secret kvs) secret v) =
      (if now + ttl \<le> x_clock E (ticks v) div 1000 then Inl (plain_error ''Token expired'') else Inr (JObj kvs))"
    and "fst (verifyToken E (signed_text E secret kvs) other v) = Inr j \<Longrightarrow> j = JObj kvs"
proof -
  note c = claims_ok [OF kvs]
  have t: "verify_text E secret (signed_text E secret kvs) = Inr (JObj kvs)"
    by (rule verify_signed(1) [OF num c(1)]) (simp_all add: c)
  then show "fst (verifyToken E (signed_text E secret kvs) secret v) =
      (if now + ttl \<le> x_clock E (ticks v) div 1000 then Inl (plain_error ''Token expired'') else Inr (JObj kvs))"
    by (simp add: verifyToken_def run_simps c(3) of_int_le del: of_int_add)
  have o: "verify_text E other (signed_text E secret kvs) = Inr k \<Longrightarrow> k = JObj kvs" for k
    by (rule verify_signed(2) [OF num c(1)]) (simp_all add: c)
  assume "fst (verifyToken E (signed_text E secret kvs) other v) = Inr j"
  then show "j = JObj kvs"
    using o by (auto simp: verifyToken_def run_simps split: sum.splits if_splits)
qed

lemma created_tokens:
  "createAccessToken E A u e w = (Inr (signed_text E (au_accessSecret A)
     (timed_payload (access_claims u e) (x_clock E (ticks w) div 1000) (au_accessTtlSeconds A))), w\<lparr>ticks := ticks w + 1\<rparr>)"
  "createRefreshToken E A u i w = (Inr (signed_text E (au_refreshSecret A)
     (timed_payload (refresh_claims u i) (x_clock E (ticks w) div 1000) (au_refreshTtlSeconds A))), w\<lparr>ticks := ticks w + 1\<rparr>)"
  by (simp_all add: createAccessToken_def createRefreshToken_def signToken_def run_simps access_claims_def refresh_claims_def)

text \<open>C24: A token says what it was made for, until it expires and not after: verifying an access token gives
  back its user and e-mail address while its lifetime lasts and fails from the second it ends, in
  whatever characters the address is written; the same holds for the user and session of a refresh
  token. Neither kind is ever accepted as the other, even if both secrets are the same.\<close>

theorem token_roundtrip:
  assumes "\<And>n. x_num E (of_int n) = show_int n"
    and "fst (createAccessToken E A u e w) = Inr a" "fst (createRefreshToken E A u i w) = Inr r"
  shows "fst (verifyAccessToken E A a v) =
      (if x_clock E (ticks w) div 1000 + au_accessTtlSeconds A \<le> x_clock E (ticks v) div 1000
       then Inl (plain_error ''Token expired'') else Inr \<lparr>ap_sub = u, ap_email = e\<rparr>) \<and>
    fst (verifyRefreshToken E A r v) =
      (if x_clock E (ticks w) div 1000 + au_refreshTtlSeconds A \<le> x_clock E (ticks v) div 1000
       then Inl (plain_error ''Token expired'') else Inr \<lparr>rp_sub = u, rp_sid = i,
         rp_exp = of_int (x_clock E (ticks w) div 1000 + au_refreshTtlSeconds A)\<rparr>) \<and>
    isl (fst (verifyRefreshToken E A a v)) \<and> isl (fst (verifyAccessToken E A r v))"
proof -
  let ?n = "x_clock E (ticks w) div 1000"
  let ?a = "timed_payload (access_claims u e) ?n (au_accessTtlSeconds A)"
  let ?r = "timed_payload (refresh_claims u i) ?n (au_refreshTtlSeconds A)"
  have a: "a = signed_text E (au_accessSecret A) ?a" and r: "r = signed_text E (au_refreshSecret A) ?r"
    using assms by (simp_all add: created_tokens)
  note va = verifyToken_signed [OF assms(1) disjI1 [OF HOL.refl]] and vr = verifyToken_signed [OF assms(1) disjI2 [OF HOL.refl]]
  have 1: "fst (verifyAccessToken E A a v) =
      (if ?n + au_accessTtlSeconds A \<le> x_clock E (ticks v) div 1000
       then Inl (plain_error ''Token expired'') else Inr \<lparr>ap_sub = u, ap_email = e\<rparr>)"
    by (simp add: verifyAccessToken_def a va(1) run_simps access_fields claims_ok [OF disjI1 [OF HOL.refl]])
  have 2: "fst (verifyRefreshToken E A r v) =
      (if ?n + au_refreshTtlSeconds A \<le> x_clock E (ticks v) div 1000
       then Inl (plain_error ''Token expired'') else Inr \<lparr>rp_sub = u, rp_sid = i, rp_exp = of_int (?n + au_refreshTtlSeconds A)\<rparr>)"
    by (simp add: verifyRefreshToken_def r vr(1) run_simps access_fields claims_ok [OF disjI2 [OF HOL.refl]] del: of_int_add)
  have 3: "isl (fst (verifyRefreshToken E A a v))"
    by (auto simp: verifyRefreshToken_def a run_simps access_fields split: sum.split dest!: va(2))
  have 4: "isl (fst (verifyAccessToken E A r v))"
    by (auto simp: verifyAccessToken_def r run_simps access_fields split: sum.split dest!: vr(2))
  from 1 2 3 4 show ?thesis by blast
qed

definition demo_auth :: auth_config where
  "demo_auth = \<lparr>au_accessSecret = ''a'', au_refreshSecret = ''a'', au_accessTtlSeconds = 900, au_refreshTtlSeconds = 604800\<rparr>"

theorem token_roundtrip_witness:
  "\<exists>a r. fst (createAccessToken demo_ext demo_auth ''u'' ''e'' (demo_world empty_db)) = Inr a \<and>
     fst (createRefreshToken demo_ext demo_auth ''u'' ''s'' (demo_world empty_db)) = Inr r \<and>
     fst (verifyAccessToken demo_ext demo_auth a (demo_world empty_db)) = Inr \<lparr>ap_sub = ''u'', ap_email = ''e''\<rparr> \<and>
     isl (fst (verifyRefreshToken demo_ext demo_auth a (demo_world empty_db)))"
proof -
  have n: "x_num demo_ext (of_int n) = show_int n" for n by (simp add: demo_ext_def)
  obtain a where a: "fst (createAccessToken demo_ext demo_auth ''u'' ''e'' (demo_world empty_db)) = Inr a"
    by (simp add: created_tokens)
  obtain r where r: "fst (createRefreshToken demo_ext demo_auth ''u'' ''s'' (demo_world empty_db)) = Inr r"
    by (simp add: created_tokens)
  from token_roundtrip [OF n a r, of "demo_world empty_db"] a r show ?thesis
    by (simp add: demo_ext_def demo_world_def demo_auth_def)
qed

end
