(* ===== verification/Timeline.thy ===== *)
theory Timeline
  imports Store
begin

text \<open>
  The ticket timeline: \<^verbatim>\<open>packages/db/src/event-sequence.ts\<close>, and the contract that every
  append operation of the program obeys. An append draws the next sequence number of the
  ticket and inserts one \<^verbatim>\<open>AgentEvent\<close>; the services and workers each have their own.
\<close>

definition ticket_events :: "string \<Rightarrow> string \<Rightarrow> agent_event list \<Rightarrow> agent_event list" where
  "ticket_events orgId ticketId evs =
     filter (\<lambda>e. ev_orgId e = orgId \<and> ev_ticketId e = ticketId) evs"

text \<open>\<^verbatim>\<open>_max.sequence\<close> of an aggregate: \<open>None\<close> when there is no row.\<close>

definition max_sequence :: "agent_event list \<Rightarrow> int option" where
  "max_sequence evs =
     (case map ev_sequence evs of [] \<Rightarrow> None | n # ns \<Rightarrow> Some (foldl max n ns))"

definition next_sequence :: "string \<Rightarrow> string \<Rightarrow> agent_event list \<Rightarrow> int" where
  "next_sequence orgId ticketId evs =
     nullish (max_sequence (ticket_events orgId ticketId evs)) 0 + 1"

definition nextEventSequence :: "string \<Rightarrow> string \<Rightarrow> int act" where
  "nextEventSequence orgId ticketId =
     gets_x (\<lambda>w. next_sequence orgId ticketId (agentEvents (db w)))"

text \<open>The timeline of every ticket is numbered \<open>1, 2, \<dots>\<close> in the order of insertion.\<close>

definition timeline_ok :: "db \<Rightarrow> bool" where
  "timeline_ok d \<longleftrightarrow>
     (\<forall>orgId ticketId. map ev_sequence (ticket_events orgId ticketId (agentEvents d)) =
        map int [1..<length (ticket_events orgId ticketId (agentEvents d)) + 1])"

lemma nextEventSequence_run [run_simps]:
  "nextEventSequence orgId ticketId w =
     (Inr (next_sequence orgId ticketId (agentEvents (db w))), w)"
  by (simp add: nextEventSequence_def run_simps)

lemma preserves_nextEventSequence [preserve_rules]: "preserves I (nextEventSequence orgId ticketId)"
  unfolding nextEventSequence_def by (rule preserves_gets)

lemma foldl_max_upper: "m \<le> foldl max m ns \<and> (\<forall>n \<in> set ns. n \<le> foldl max (m :: int) ns)"
  by (induction ns arbitrary: m) (auto simp: max_def, (smt (verit))+)

lemma next_sequence_fresh:
  assumes "e \<in> set evs" "ev_orgId e = orgId" "ev_ticketId e = ticketId"
  shows "ev_sequence e < next_sequence orgId ticketId evs"
proof -
  let ?t = "ticket_events orgId ticketId evs"
  have e: "ev_sequence e \<in> set (map ev_sequence ?t)" using assms by (simp add: ticket_events_def)
  then obtain n ns where ns: "map ev_sequence ?t = n # ns" by (cases "map ev_sequence ?t") auto
  with e foldl_max_upper [of n ns] have "ev_sequence e \<le> foldl max n ns" by auto
  with ns show ?thesis by (simp add: next_sequence_def max_sequence_def)
qed

lemma next_sequence_gapless:
  assumes "map ev_sequence (ticket_events orgId ticketId evs) =
      map int [1..<length (ticket_events orgId ticketId evs) + 1]"
  shows "next_sequence orgId ticketId evs = int (length (ticket_events orgId ticketId evs)) + 1"
proof (cases "ticket_events orgId ticketId evs")
  case Nil
  then show ?thesis by (simp add: next_sequence_def max_sequence_def)
next
  case (Cons e es)
  have fm: "foldl max (int k) (map int [Suc k..<Suc k + n]) = int (k + n)" for k n
    by (induction n arbitrary: k) simp_all
  have "map ev_sequence (ticket_events orgId ticketId evs) =
      int 1 # map int [Suc 1..<Suc 1 + length es]"
    using assms Cons by (simp add: upt_conv_Cons del: upt_Suc)
  then show ?thesis
    using Cons fm [of 1 "length es"] by (simp add: next_sequence_def max_sequence_def)
qed

section \<open>The append contract\<close>

text \<open>An append either adds exactly one event, numbered next for its ticket, and leaves every
  other table alone, or fails and leaves the database alone.\<close>

definition appended ::
  "string \<Rightarrow> string \<Rightarrow> AgentEventType \<Rightarrow> json \<Rightarrow> string option \<Rightarrow> db \<Rightarrow> db \<Rightarrow> bool" where
  "appended orgId ticketId ty payload runId d d' \<longleftrightarrow>
     (\<exists>e. d' = d\<lparr>agentEvents := agentEvents d @ [e]\<rparr> \<and> ev_orgId e = orgId \<and>
          ev_ticketId e = ticketId \<and> ev_type e = ty \<and> ev_payload e = payload \<and>
          ev_runId e = runId \<and> ev_sequence e = next_sequence orgId ticketId (agentEvents d) \<and>
          \<not> list_ex (agentEvent_clash e) (agentEvents d))"

locale event_log =
  fixes append :: "string \<Rightarrow> string \<Rightarrow> AgentEventType \<Rightarrow> json \<Rightarrow> 'a act"
    and run_of :: "string option"
  assumes append_ok:
    "fst (append orgId ticketId ty payload w) = Inr a \<Longrightarrow>
     appended orgId ticketId ty payload run_of (db w) (db (snd (append orgId ticketId ty payload w)))"
  and append_fails:
    "fst (append orgId ticketId ty payload w) = Inl e \<Longrightarrow>
     db (snd (append orgId ticketId ty payload w)) = db w"
begin

lemma append_cases:
  "db (snd (append orgId ticketId ty payload w)) = db w \<or>
   appended orgId ticketId ty payload run_of (db w) (db (snd (append orgId ticketId ty payload w)))"
  by (cases "fst (append orgId ticketId ty payload w)") (auto dest: append_ok append_fails)

lemma append_preserves:
  assumes "\<And>d d'. J d \<Longrightarrow> appended orgId ticketId ty payload run_of d d' \<Longrightarrow> J d'"
  shows "preserves (on_db J) (append orgId ticketId ty payload)"
proof (rule preservesI)
  fix w assume "on_db J w"
  then have "J (db w)" by (simp add: on_db_def)
  with append_cases [of orgId ticketId ty payload w]
  show "on_db J (snd (append orgId ticketId ty payload w))"
    unfolding on_db_def by (auto intro: assms)
qed

lemma append_other: "ignores agentEvent_t J \<Longrightarrow> preserves (on_db J) (append orgId ticketId ty payload)"
proof (rule append_preserves)
  fix d d' assume i: "ignores agentEvent_t J" "J d" "appended orgId ticketId ty payload run_of d d'"
  then obtain e where "d' = t_map agentEvent_t (\<lambda>t. t @ [e]) d"
    unfolding appended_def agentEvent_t_def by fastforce
  with i show "J d'" by (simp add: ignores_def)
qed

lemma append_timeline: "preserves (on_db timeline_ok) (append orgId ticketId ty payload)"
proof (rule append_preserves)
  fix d d' assume ok: "timeline_ok d" and app: "appended orgId ticketId ty payload run_of d d'"
  then obtain e where e: "d' = d\<lparr>agentEvents := agentEvents d @ [e]\<rparr>" "ev_orgId e = orgId"
    "ev_ticketId e = ticketId" "ev_sequence e = next_sequence orgId ticketId (agentEvents d)"
    by (auto simp: appended_def)
  show "timeline_ok d'"
    unfolding timeline_ok_def
  proof (intro allI)
    fix oi ti
    have old: "map ev_sequence (ticket_events oi ti (agentEvents d)) =
        map int [1..<length (ticket_events oi ti (agentEvents d)) + 1]"
      using ok by (simp add: timeline_ok_def)
    show "map ev_sequence (ticket_events oi ti (agentEvents d')) =
        map int [1..<length (ticket_events oi ti (agentEvents d')) + 1]"
    proof (cases "oi = orgId \<and> ti = ticketId")
      case True
      with old e next_sequence_gapless [OF old] show ?thesis by (simp add: ticket_events_def)
    next
      case False
      with old e show ?thesis by (auto simp: ticket_events_def)
    qed
  qed
qed

end

text \<open>The shape every implementation has: draw the number, insert the row.\<close>

definition append_event_with ::
  "ext \<Rightarrow> string option \<Rightarrow> string \<Rightarrow> string \<Rightarrow> string option \<Rightarrow> AgentEventType \<Rightarrow> json \<Rightarrow>
   agent_event act" where
  "append_event_with E correlationId orgId ticketId runId ty payload =
     bind_x (nextEventSequence orgId ticketId) (\<lambda>sequence.
       create_row E agentEvent_t (\<lambda>i now. blank_agent_event\<lparr>
         ev_id := i, ev_createdAt := now, ev_orgId := orgId, ev_ticketId := ticketId,
         ev_runId := runId, ev_correlationId := correlationId, ev_type := ty,
         ev_sequence := sequence, ev_payload := payload\<rparr>))"

definition append_event ::
  "ext \<Rightarrow> string \<Rightarrow> string \<Rightarrow> string option \<Rightarrow> AgentEventType \<Rightarrow> json \<Rightarrow> agent_event act" where
  "append_event E orgId ticketId runId ty payload =
     bind_x correlation_x (\<lambda>correlationId.
       append_event_with E correlationId orgId ticketId runId ty payload)"

lemma append_event_with_spec:
  "fst (append_event_with E c orgId ticketId runId ty payload w) = Inr a \<Longrightarrow>
   appended orgId ticketId ty payload runId (db w)
     (db (snd (append_event_with E c orgId ticketId runId ty payload w)))"
  "fst (append_event_with E c orgId ticketId runId ty payload w) = Inl e \<Longrightarrow>
   db (snd (append_event_with E c orgId ticketId runId ty payload w)) = db w"
  by (auto simp: append_event_with_def run_simps insert_row_def agentEvent_t_def appended_def
      blank_agent_event_def split: if_splits)

lemma append_event_spec:
  "fst (append_event E orgId ticketId runId ty payload w) = Inr a \<Longrightarrow>
   appended orgId ticketId ty payload runId (db w)
     (db (snd (append_event E orgId ticketId runId ty payload w)))"
  "fst (append_event E orgId ticketId runId ty payload w) = Inl e \<Longrightarrow>
   db (snd (append_event E orgId ticketId runId ty payload w)) = db w"
  by (simp_all add: append_event_def run_simps append_event_with_spec)

interpretation ev: event_log "\<lambda>orgId ticketId ty payload. append_event E orgId ticketId runId ty payload"
    runId for E runId
  by unfold_locales (simp_all add: append_event_spec)

interpretation evw: event_log "\<lambda>orgId ticketId ty payload. append_event_with E c orgId ticketId runId ty payload"
    runId for E c runId
  by unfold_locales (simp_all add: append_event_with_spec)

lemma silent_append [preserve_rules]:
  "preserves (queued_calls q) (append_event_with E c orgId ticketId runId ty payload)"
  "preserves (queued_calls q) (append_event E orgId ticketId runId ty payload)"
  unfolding append_event_def append_event_with_def nextEventSequence_def by (intro preserve_rules)+

end
