(* ===== verification/Tables.thy ===== *)
theory Tables
  imports Timeline
begin

text \<open>
  The contract of a Prisma table (reading what was written, a symmetric uniqueness relation that
  contains the primary key, an \<^verbatim>\<open>updatedAt\<close> that is not part of any index), the
  uniqueness invariant that every delegate keeps under it, and its instances: the tables of the
  schema.
\<close>

locale prisma_table =
  fixes T :: "'r table"
  assumes get_map: "t_get T (t_map T f d) = f (t_get T d)"
    and clash_sym: "t_clash T a b \<Longrightarrow> t_clash T b a"
    and clash_id: "t_id T a = t_id T b \<Longrightarrow> t_clash T a b"
    and touch_id: "t_id T (t_touch T n r) = t_id T r"
    and touch_clash: "t_clash T (t_touch T n a) b = t_clash T a b"
begin

lemma unique_ids_list: "sorted_wrt (\<lambda>a b. \<not> t_clash T a b) ys \<Longrightarrow> distinct (map (t_id T) ys)"
  by (induction ys) (auto dest: clash_id)

lemma unique_ids: "no_clash T d \<Longrightarrow> distinct (map (t_id T) (t_get T d))"
  by (simp add: no_clash_def unique_ids_list)

lemma clash_commute: "t_clash T a b = t_clash T b a"
  using clash_sym by blast

lemma no_clash_pair:
  "no_clash T d \<Longrightarrow> a \<in> set (t_get T d) \<Longrightarrow> b \<in> set (t_get T d) \<Longrightarrow> t_clash T a b \<Longrightarrow> a = b"
  unfolding no_clash_def
proof -
  have "sorted_wrt (\<lambda>a b. \<not> t_clash T a b) ys \<Longrightarrow> a \<in> set ys \<Longrightarrow> b \<in> set ys \<Longrightarrow> t_clash T a b \<Longrightarrow> a = b" for ys
    by (induction ys) (auto dest: clash_sym)
  then show "sorted_wrt (\<lambda>a b. \<not> t_clash T a b) (t_get T d) \<Longrightarrow> a \<in> set (t_get T d) \<Longrightarrow>
      b \<in> set (t_get T d) \<Longrightarrow> t_clash T a b \<Longrightarrow> a = b" .
qed

lemma create_no_clash [preserve_rules]: "preserves (on_db (no_clash T)) (create_row E T mk)"
proof (rule preserves_create)
  fix d i now
  assume "no_clash T d" "\<not> list_ex (t_clash T (mk i now)) (t_get T d)"
  then show "no_clash T (t_map T (\<lambda>t. t @ [mk i now]) d)"
    by (auto simp: no_clash_def get_map sorted_wrt_append list_ex_iff dest: clash_sym)
qed

lemma sorted_update:
  assumes "sorted_wrt (\<lambda>a b. \<not> t_clash T a b) ys" "t_id T (f r) = t_id T r"
    and "\<And>s. s \<in> set ys \<Longrightarrow> t_id T s \<noteq> t_id T r \<Longrightarrow> \<not> t_clash T (f r) s"
    and "\<And>s. s \<in> set ys \<Longrightarrow> t_id T s = t_id T r \<Longrightarrow> s = r"
  shows "sorted_wrt (\<lambda>a b. \<not> t_clash T a b) (update_where (\<lambda>s. t_id T s = t_id T r) f ys)"
  using assms(1,3,4)
proof (induction ys)
  case Nil
  then show ?case by (simp add: update_where_def)
next
  case (Cons x xs)
  have rest: "\<not> t_clash T (if t_id T x = t_id T r then f x else x) z"
    if "z \<in> set (update_where (\<lambda>s. t_id T s = t_id T r) f xs)" for z
  proof -
    from that obtain y where y: "y \<in> set xs" "z = (if t_id T y = t_id T r then f y else y)"
      by (auto simp: set_update_where)
    have xy: "\<not> t_clash T x y" using Cons.prems(1) y by simp
    then have "t_id T x \<noteq> t_id T y" using clash_id by blast
    with y xy Cons.prems show ?thesis
      by (cases "t_id T x = t_id T r"; cases "t_id T y = t_id T r") (auto dest: clash_sym)
  qed
  with Cons show ?case by (auto simp: update_where_def)
qed

lemma update_no_clash:
  assumes "\<And>r. t_id T (f r) = t_id T r"
  shows "preserves (on_db (no_clash T)) (update_row E T P f)"
proof (rule preserves_update)
  fix d r now
  assume n: "no_clash T d" and first: "first_where P (t_get T d) = Some r"
    and ok: "\<not> list_ex (\<lambda>s. t_id T s \<noteq> t_id T r \<and> t_clash T (t_touch T now (f r)) s) (t_get T d)"
  have "r \<in> set (t_get T d)" using first_where_Some [OF first] by simp
  then have same: "s = r" if "s \<in> set (t_get T d)" "t_id T s = t_id T r" for s
    using that no_clash_pair [OF n] clash_id by blast
  have "sorted_wrt (\<lambda>a b. \<not> t_clash T a b)
      (update_where (\<lambda>s. t_id T s = t_id T r) (\<lambda>r. t_touch T now (f r)) (t_get T d))"
    using n ok same by (intro sorted_update) (auto simp: no_clash_def list_ex_iff touch_id assms)
  then show "no_clash T (t_map T (update_where (\<lambda>s. t_id T s = t_id T r) (\<lambda>r. t_touch T now (f r))) d)"
    by (simp add: no_clash_def get_map)
qed

lemma update_many_no_clash:
  assumes "\<And>a b. t_clash T (f a) b = t_clash T a b"
  shows "preserves (on_db (no_clash T)) (update_many E T P f)"
proof (rule preserves_update_many)
  fix d now assume n: "no_clash T d"
  let ?g = "\<lambda>a. if P a then t_touch T now (f a) else a"
  have left: "t_clash T (?g a) b = t_clash T a b" for a b
    by (simp add: touch_clash assms)
  have eq: "t_clash T (?g a) (?g b) = t_clash T a b" for a b
    unfolding left clash_commute [of a "?g b"] by (simp only: left clash_commute)
  have "sorted_wrt (\<lambda>a b. \<not> t_clash T a b) ys \<Longrightarrow>
      sorted_wrt (\<lambda>a b. \<not> t_clash T a b) (update_where P (\<lambda>r. t_touch T now (f r)) ys)" for ys
    unfolding update_where_def sorted_wrt_map eq .
  with n show "no_clash T (t_map T (update_where P (\<lambda>r. t_touch T now (f r))) d)"
    by (simp add: no_clash_def get_map)
qed

lemma upsert_no_clash:
  "(\<And>f r. upd = Some f \<Longrightarrow> t_id T (f r) = t_id T r) \<Longrightarrow>
   preserves (on_db (no_clash T)) (upsert_row E T P upd mk)"
  by (rule preserves_upsert [OF create_no_clash]) (rule update_no_clash, simp)

end

text \<open>A table under an invariant that bounds it by nothing but its unique index: every write through a
  delegate keeps the invariant.\<close>

locale kept_table = prisma_table T for T :: "'r table" +
  fixes J :: "db \<Rightarrow> bool"
  assumes unique: "J d \<Longrightarrow> no_clash T d"
    and keep: "J d \<Longrightarrow> no_clash T (t_map T f d) \<Longrightarrow> J (t_map T f d)"
begin

lemma keep_write:
  assumes "preserves (on_db (no_clash T)) m"
    and "\<And>w. db (snd (m w)) = db w \<or> (\<exists>f. db (snd (m w)) = t_map T f (db w))"
  shows "preserves (on_db J) m"
proof (rule preservesI)
  fix w assume "on_db J w"
  then have J: "J (db w)" by (simp add: on_db_def)
  then have "no_clash T (db (snd (m w)))"
    using preservesD [OF assms(1)] unique by (simp add: on_db_def)
  with J keep assms(2) [of w] show "on_db J (snd (m w))" by (auto simp: on_db_def)
qed

lemma create_ok [preserve_rules]: "preserves (on_db J) (create_row E T mk)"
  by (rule keep_write [OF create_no_clash]) (auto simp: run_simps insert_row_def)

lemma update_ok [preserve_rules]:
  "(\<And>r. t_id T (f r) = t_id T r) \<Longrightarrow> preserves (on_db J) (update_row E T P f)"
  by (rule keep_write [OF update_no_clash])
    (auto simp: run_simps replace_row_def split: option.split)

lemma update_many_ok [preserve_rules]:
  "(\<And>a b. t_clash T (f a) b = t_clash T a b) \<Longrightarrow> preserves (on_db J) (update_many E T P f)"
  by (rule keep_write [OF update_many_no_clash]) (auto simp: run_simps replace_rows_def)

end

section \<open>The tables of the schema\<close>

interpretation organization_tb: prisma_table organization_t
  by unfold_locales (auto simp: organization_t_def organization_clash_def dest: both_some_sym)

interpretation user_tb: prisma_table user_t
  by unfold_locales (auto simp: user_t_def user_clash_def dest: both_some_sym)

interpretation organizationMembership_tb: prisma_table organizationMembership_t
  by unfold_locales (auto simp: organizationMembership_t_def organizationMembership_clash_def dest: both_some_sym)

interpretation refreshSession_tb: prisma_table refreshSession_t
  by unfold_locales (auto simp: refreshSession_t_def refreshSession_clash_def dest: both_some_sym)

interpretation ticket_tb: prisma_table ticket_t
  by unfold_locales (auto simp: ticket_t_def ticket_clash_def dest: both_some_sym)

interpretation ticketMessage_tb: prisma_table ticketMessage_t
  by unfold_locales (auto simp: ticketMessage_t_def ticketMessage_clash_def dest: both_some_sym)

interpretation agentRun_tb: prisma_table agentRun_t
  by unfold_locales (auto simp: agentRun_t_def agentRun_clash_def dest: both_some_sym)

interpretation agentStep_tb: prisma_table agentStep_t
  by unfold_locales (auto simp: agentStep_t_def agentStep_clash_def dest: both_some_sym)

interpretation knowledgeArticle_tb: prisma_table knowledgeArticle_t
  by unfold_locales (auto simp: knowledgeArticle_t_def knowledgeArticle_clash_def dest: both_some_sym)

interpretation knowledgeRetrieval_tb: prisma_table knowledgeRetrieval_t
  by unfold_locales (auto simp: knowledgeRetrieval_t_def knowledgeRetrieval_clash_def dest: both_some_sym)

interpretation agentEvent_tb: prisma_table agentEvent_t
  by unfold_locales (auto simp: agentEvent_t_def agentEvent_clash_def dest: both_some_sym)

interpretation organizationSettings_tb: prisma_table organizationSettings_t
  by unfold_locales (auto simp: organizationSettings_t_def organizationSettings_clash_def dest: both_some_sym)

interpretation humanApproval_tb: prisma_table humanApproval_t
  by unfold_locales (auto simp: humanApproval_t_def humanApproval_clash_def dest: both_some_sym)

interpretation outboundDraft_tb: prisma_table outboundDraft_t
  by unfold_locales (auto simp: outboundDraft_t_def outboundDraft_clash_def dest: both_some_sym)

interpretation agentGuardrailCheck_tb: prisma_table agentGuardrailCheck_t
  by unfold_locales (auto simp: agentGuardrailCheck_t_def agentGuardrailCheck_clash_def dest: both_some_sym)

interpretation operationalFailure_tb: prisma_table operationalFailure_t
  by unfold_locales (auto simp: operationalFailure_t_def operationalFailure_clash_def dest: both_some_sym)

interpretation channelConnection_tb: prisma_table channelConnection_t
  by unfold_locales (auto simp: channelConnection_t_def channelConnection_clash_def dest: both_some_sym)

interpretation externalCustomer_tb: prisma_table externalCustomer_t
  by unfold_locales (auto simp: externalCustomer_t_def externalCustomer_clash_def dest: both_some_sym)

interpretation conversation_tb: prisma_table conversation_t
  by unfold_locales (auto simp: conversation_t_def conversation_clash_def dest: both_some_sym)

interpretation externalMessage_tb: prisma_table externalMessage_t
  by unfold_locales (auto simp: externalMessage_t_def externalMessage_clash_def dest: both_some_sym)

interpretation messageAttachment_tb: prisma_table messageAttachment_t
  by unfold_locales (auto simp: messageAttachment_t_def messageAttachment_clash_def dest: both_some_sym)

interpretation webhookReceipt_tb: prisma_table webhookReceipt_t
  by unfold_locales (auto simp: webhookReceipt_t_def webhookReceipt_clash_def dest: both_some_sym)

interpretation inboundDispatch_tb: prisma_table inboundDispatch_t
  by unfold_locales (auto simp: inboundDispatch_t_def inboundDispatch_clash_def dest: both_some_sym)

interpretation outboundMessage_tb: prisma_table outboundMessage_t
  by unfold_locales (auto simp: outboundMessage_t_def outboundMessage_clash_def dest: both_some_sym)

interpretation deliveryAttempt_tb: prisma_table deliveryAttempt_t
  by unfold_locales (auto simp: deliveryAttempt_t_def deliveryAttempt_clash_def dest: both_some_sym)

interpretation channelAuditEvent_tb: prisma_table channelAuditEvent_t
  by unfold_locales (auto simp: channelAuditEvent_t_def channelAuditEvent_clash_def dest: both_some_sym)

section \<open>The invariant of the database\<close>

text \<open>The timelines are gapless and no unique index of the schema is violated.\<close>

definition db_ok :: "db \<Rightarrow> bool" where
  "db_ok d \<longleftrightarrow> timeline_ok d \<and>
     no_clash organization_t d \<and> no_clash user_t d \<and> no_clash organizationMembership_t d \<and>
     no_clash refreshSession_t d \<and> no_clash ticket_t d \<and> no_clash ticketMessage_t d \<and>
     no_clash agentRun_t d \<and> no_clash agentStep_t d \<and> no_clash knowledgeArticle_t d \<and>
     no_clash knowledgeRetrieval_t d \<and> no_clash agentEvent_t d \<and> no_clash organizationSettings_t d \<and>
     no_clash humanApproval_t d \<and> no_clash outboundDraft_t d \<and> no_clash agentGuardrailCheck_t d \<and>
     no_clash operationalFailure_t d \<and> no_clash channelConnection_t d \<and> no_clash externalCustomer_t d \<and>
     no_clash conversation_t d \<and> no_clash externalMessage_t d \<and> no_clash messageAttachment_t d \<and>
     no_clash webhookReceipt_t d \<and> no_clash inboundDispatch_t d \<and> no_clash outboundMessage_t d \<and>
     no_clash deliveryAttempt_t d \<and> no_clash channelAuditEvent_t d"

lemma preserves_conj:
  "preserves (on_db J) m \<Longrightarrow> preserves (on_db K) m \<Longrightarrow> preserves (on_db (\<lambda>d. J d \<and> K d)) m"
  by (simp add: preserves_def on_db_def)

lemmas ignores_simps = ignores_def timeline_ok_def no_clash_def table_defs

text \<open>The table of the events is written by the appenders only; they have a rule of their own below.\<close>

interpretation organization_kept: kept_table organization_t db_ok
  by unfold_locales (simp_all add: db_ok_def ignores_simps)

interpretation user_kept: kept_table user_t db_ok
  by unfold_locales (simp_all add: db_ok_def ignores_simps)

interpretation organizationMembership_kept: kept_table organizationMembership_t db_ok
  by unfold_locales (simp_all add: db_ok_def ignores_simps)

interpretation refreshSession_kept: kept_table refreshSession_t db_ok
  by unfold_locales (simp_all add: db_ok_def ignores_simps)

interpretation ticket_kept: kept_table ticket_t db_ok
  by unfold_locales (simp_all add: db_ok_def ignores_simps)

interpretation ticketMessage_kept: kept_table ticketMessage_t db_ok
  by unfold_locales (simp_all add: db_ok_def ignores_simps)

interpretation agentRun_kept: kept_table agentRun_t db_ok
  by unfold_locales (simp_all add: db_ok_def ignores_simps)

interpretation agentStep_kept: kept_table agentStep_t db_ok
  by unfold_locales (simp_all add: db_ok_def ignores_simps)

interpretation knowledgeArticle_kept: kept_table knowledgeArticle_t db_ok
  by unfold_locales (simp_all add: db_ok_def ignores_simps)

interpretation knowledgeRetrieval_kept: kept_table knowledgeRetrieval_t db_ok
  by unfold_locales (simp_all add: db_ok_def ignores_simps)

interpretation organizationSettings_kept: kept_table organizationSettings_t db_ok
  by unfold_locales (simp_all add: db_ok_def ignores_simps)

interpretation humanApproval_kept: kept_table humanApproval_t db_ok
  by unfold_locales (simp_all add: db_ok_def ignores_simps)

interpretation outboundDraft_kept: kept_table outboundDraft_t db_ok
  by unfold_locales (simp_all add: db_ok_def ignores_simps)

interpretation agentGuardrailCheck_kept: kept_table agentGuardrailCheck_t db_ok
  by unfold_locales (simp_all add: db_ok_def ignores_simps)

interpretation operationalFailure_kept: kept_table operationalFailure_t db_ok
  by unfold_locales (simp_all add: db_ok_def ignores_simps)

interpretation channelConnection_kept: kept_table channelConnection_t db_ok
  by unfold_locales (simp_all add: db_ok_def ignores_simps)

interpretation externalCustomer_kept: kept_table externalCustomer_t db_ok
  by unfold_locales (simp_all add: db_ok_def ignores_simps)

interpretation conversation_kept: kept_table conversation_t db_ok
  by unfold_locales (simp_all add: db_ok_def ignores_simps)

interpretation externalMessage_kept: kept_table externalMessage_t db_ok
  by unfold_locales (simp_all add: db_ok_def ignores_simps)

interpretation messageAttachment_kept: kept_table messageAttachment_t db_ok
  by unfold_locales (simp_all add: db_ok_def ignores_simps)

interpretation webhookReceipt_kept: kept_table webhookReceipt_t db_ok
  by unfold_locales (simp_all add: db_ok_def ignores_simps)

interpretation inboundDispatch_kept: kept_table inboundDispatch_t db_ok
  by unfold_locales (simp_all add: db_ok_def ignores_simps)

interpretation outboundMessage_kept: kept_table outboundMessage_t db_ok
  by unfold_locales (simp_all add: db_ok_def ignores_simps)

interpretation deliveryAttempt_kept: kept_table deliveryAttempt_t db_ok
  by unfold_locales (simp_all add: db_ok_def ignores_simps)

interpretation channelAuditEvent_kept: kept_table channelAuditEvent_t db_ok
  by unfold_locales (simp_all add: db_ok_def ignores_simps)

text \<open>Every append keeps the invariant, whoever implements it.\<close>

context event_log
begin

lemma append_unique: "preserves (on_db (no_clash agentEvent_t)) (append orgId ticketId ty payload)"
proof (rule append_preserves)
  fix d d' assume n: "no_clash agentEvent_t d" and "appended orgId ticketId ty payload run_of d d'"
  then obtain e where e: "d' = d\<lparr>agentEvents := agentEvents d @ [e]\<rparr>"
    and fresh: "\<not> list_ex (agentEvent_clash e) (agentEvents d)" by (auto simp: appended_def)
  have "\<not> agentEvent_clash x e" if "x \<in> set (agentEvents d)" for x
    using that fresh by (metis agentEvent_clash_def list_ex_iff)
  with n e show "no_clash agentEvent_t d'"
    by (simp add: no_clash_def agentEvent_t_def sorted_wrt_append)
qed

lemma append_db_ok: "preserves (on_db db_ok) (append orgId ticketId ty payload)"
  unfolding db_ok_def
  by (intro preserves_conj append_timeline append_unique append_other; simp add: ignores_simps)

end

lemmas append_db_ok [preserve_rules] = ev.append_db_ok evw.append_db_ok

lemma upsert_db_ok [preserve_rules]:
  "preserves (on_db db_ok) (create_row E T mk) \<Longrightarrow> preserves (on_db db_ok) (upsert_row E T P None mk)"
  "preserves (on_db db_ok) (create_row E T mk) \<Longrightarrow> preserves (on_db db_ok) (update_row E T P f) \<Longrightarrow>
   preserves (on_db db_ok) (upsert_row E T P (Some f) mk)"
  by (auto intro: preserves_upsert)

end
