(* ===== verification/Auth.thy ===== *)
theory Auth
  imports Tokens Tables
begin

text \<open>
  \<^verbatim>\<open>apps/api/src/auth\<close>: registration, login, refresh with rotation, logout, and the three
  guards in front of the controllers. Argon2 is the parameter \<open>P\<close>, the injected login limiter the
  parameter \<open>L\<close>. A row whose id the source draws itself is created with that id.
\<close>

record passwords =
  pw_hash :: "nat \<Rightarrow> string \<Rightarrow> js_error + string"
  pw_verify :: "string \<Rightarrow> string \<Rightarrow> js_error + bool"

type_synonym limiter = "string \<Rightarrow> string option \<Rightarrow> unit act"

record request_metadata =
  md_userAgent :: "string option"
  md_ipAddress :: "string option"

record register_dto =
  rg_email :: string
  rg_password :: string
  rg_displayName :: "string option"
  rg_organizationName :: string
  rg_organizationSlug :: "string option"

record membership_view =
  mv_organizationId :: string
  mv_organizationSlug :: string
  mv_organizationName :: string
  mv_role :: OrganizationRole

record me_response =
  mr_id :: string
  mr_email :: string
  mr_displayName :: "string option"
  mr_memberships :: "membership_view list"

record auth_response =
  ar_me :: me_response
  ar_accessToken :: string
  ar_refreshToken :: string

definition conflict :: "string \<Rightarrow> js_error" where
  "conflict m = http_error ''ConflictException'' 409 m"

section \<open>Names\<close>

definition auth_normalizeEmail :: "string \<Rightarrow> string" where
  "auth_normalizeEmail email = to_lower (trim email)"

definition slug_char :: "char \<Rightarrow> bool" where
  "slug_char c \<longleftrightarrow> is_lower c \<or> is_digit c"

definition slug_of :: "string \<Rightarrow> string" where
  "slug_of value =
     rx_replace (at_least 2 (chr CHR ''-'')) ''-''
       (rx_replace (Alt (Seq Bos (plus (chr CHR ''-''))) (Seq (plus (chr CHR ''-'')) Eos)) []
         (rx_replace (plus (Cls (\<lambda>c. \<not> slug_char c))) ''-'' (to_lower (trim value))))"

definition normalizeOrganizationSlug :: "string \<Rightarrow> js_error + string" where
  "normalizeOrganizationSlug value =
     (let slug = slug_of value
      in if length slug < 3 \<or> length slug > 64
         then Inl (conflict ''Organization slug must be between 3 and 64 characters after normalization'')
         else Inr slug)"

section \<open>Profiles\<close>

primrec role_rank :: "OrganizationRole \<Rightarrow> int" where
  "role_rank OrganizationRole.OWNER = 0"
| "role_rank OrganizationRole.ADMIN = 1"
| "role_rank OrganizationRole.AGENT = 2"
| "role_rank OrganizationRole.VIEWER = 3"

definition membership_view_of :: "membership \<Rightarrow> organization \<Rightarrow> membership_view" where
  "membership_view_of m g = \<lparr>mv_organizationId = og_id g, mv_organizationSlug = og_slug g,
     mv_organizationName = og_name g, mv_role = mb_role m\<rparr>"

text \<open>The memberships with their organisations, ordered by role and then by name. (Postgres orders
  names by its collation, the model by code units.)\<close>

definition views_of :: "organization list \<Rightarrow> membership list \<Rightarrow> membership_view list" where
  "views_of gs ms =
     sort_key (\<lambda>v. role_rank (mv_role v)) (sort_key mv_organizationName
       (List.map_filter (\<lambda>m. map_option (membership_view_of m) (first_where (\<lambda>g. og_id g = mb_organizationId m) gs)) ms))"

definition getMe :: "string \<Rightarrow> me_response act" where
  "getMe userId =
     bind_x (find_first user_t (\<lambda>u. us_id u = userId)) (\<lambda>found.
     bind_x (find_many organizationMembership_t (\<lambda>m. mb_userId m = userId)) (\<lambda>ms.
     bind_x (find_many organization_t (\<lambda>_. True)) (\<lambda>gs.
       case found of
         None \<Rightarrow> throw_x (unauthorized ''User is not active'')
       | Some u \<Rightarrow>
           if \<not> us_isActive u then throw_x (unauthorized ''User is not active'')
           else ret_x \<lparr>mr_id = us_id u, mr_email = us_email u, mr_displayName = us_displayName u,
             mr_memberships = views_of gs ms\<rparr>)))"

section \<open>Sessions\<close>

definition create_session ::
  "ext \<Rightarrow> string \<Rightarrow> string \<Rightarrow> string \<Rightarrow> refresh_payload \<Rightarrow> string option \<Rightarrow> string option \<Rightarrow> refresh_session act" where
  "create_session E userId sessionId token payload userAgent ipAddress =
     create_row E refreshSession_t (\<lambda>_ now. blank_refresh_session\<lparr>se_id := sessionId, se_createdAt := now,
       se_userId := userId, se_tokenHash := hashRefreshToken E token,
       se_expiresAt := getRefreshExpiry (rp_exp payload), se_userAgent := userAgent, se_ipAddress := ipAddress\<rparr>)"

definition display_name :: "string option \<Rightarrow> string option" where
  "display_name v = trim_present v"

definition create_owner ::
  "ext \<Rightarrow> register_dto \<Rightarrow> request_metadata \<Rightarrow> string \<Rightarrow> string \<Rightarrow> string \<Rightarrow> string \<Rightarrow> string \<Rightarrow> string \<Rightarrow> string \<Rightarrow> string \<Rightarrow>
   refresh_payload \<Rightarrow> refresh_session act" where
  "create_owner E dto md normalizedEmail slug passwordHash userId organizationId membershipId sessionId token payload =
     bind_x (create_row E user_t (\<lambda>_ now. blank_user\<lparr>us_id := userId, us_createdAt := now,
       us_email := normalizedEmail, us_normalizedEmail := normalizedEmail, us_passwordHash := passwordHash,
       us_displayName := display_name (rg_displayName dto)\<rparr>)) (\<lambda>_.
     bind_x (create_row E organization_t (\<lambda>_ now. blank_organization\<lparr>og_id := organizationId,
       og_createdAt := now, og_name := trim (rg_organizationName dto), og_slug := slug\<rparr>)) (\<lambda>_.
     bind_x (create_row E organizationSettings_t (\<lambda>i now. blank_org_settings\<lparr>os_id := i, os_createdAt := now,
       os_orgId := organizationId\<rparr>)) (\<lambda>_.
     bind_x (create_row E organizationMembership_t (\<lambda>_ now. blank_membership\<lparr>mb_id := membershipId,
       mb_createdAt := now, mb_userId := userId, mb_organizationId := organizationId,
       mb_role := OrganizationRole.OWNER\<rparr>)) (\<lambda>_.
       create_session E userId sessionId token payload (md_userAgent md) (md_ipAddress md)))))"

definition hash_x :: "passwords \<Rightarrow> string \<Rightarrow> string act" where
  "hash_x P password = bind_x (gets_x (\<lambda>w. pw_hash P (ticks w) password)) of_result"

definition register_body ::
  "ext \<Rightarrow> auth_config \<Rightarrow> passwords \<Rightarrow> register_dto \<Rightarrow> request_metadata \<Rightarrow> auth_response act" where
  "register_body E A P dto md =
     (let normalizedEmail = auth_normalizeEmail (rg_email dto)
      in bind_x (of_result (normalizeOrganizationSlug (nullish (rg_organizationSlug dto) (rg_organizationName dto)))) (\<lambda>slug.
         bind_x (find_first user_t (\<lambda>u. us_normalizedEmail u = normalizedEmail)) (\<lambda>existingUser.
         bind_x (find_first organization_t (\<lambda>g. og_slug g = slug)) (\<lambda>existingOrganization.
         if existingUser \<noteq> None then throw_x (conflict ''Email is already in use'')
         else if existingOrganization \<noteq> None then throw_x (conflict ''Organization slug is already in use'')
         else bind_x (hash_x P (rg_password dto)) (\<lambda>passwordHash.
         bind_x (uuid_x E) (\<lambda>userId.
         bind_x (uuid_x E) (\<lambda>organizationId.
         bind_x (uuid_x E) (\<lambda>membershipId.
         bind_x (uuid_x E) (\<lambda>sessionId.
         bind_x (createRefreshToken E A userId sessionId) (\<lambda>refreshToken.
         bind_x (verifyRefreshToken E A refreshToken) (\<lambda>refreshPayload.
         bind_x (createAccessToken E A userId normalizedEmail) (\<lambda>accessToken.
         bind_x (transaction (create_owner E dto md normalizedEmail slug passwordHash userId organizationId
           membershipId sessionId refreshToken refreshPayload)) (\<lambda>_.
         bind_x (getMe userId) (\<lambda>profile.
         then_x (metric_x ''incrementAuthRegistration'' [''success''])
           (ret_x \<lparr>ar_me = profile, ar_accessToken = accessToken, ar_refreshToken = refreshToken\<rparr>)))))))))))))))"

definition register ::
  "ext \<Rightarrow> auth_config \<Rightarrow> passwords \<Rightarrow> register_dto \<Rightarrow> request_metadata \<Rightarrow> auth_response act" where
  "register E A P dto md =
     catch_x (register_body E A P dto md)
       (\<lambda>err. then_x (metric_x ''incrementAuthRegistration'' [''validation_error'']) (throw_x err))"

definition refuse_login :: "'a act" where
  "refuse_login = then_x (metric_x ''incrementAuthFailure'' [''login'', ''auth_error''])
     (throw_x (unauthorized ''Invalid email or password''))"

definition open_session :: "ext \<Rightarrow> auth_config \<Rightarrow> user \<Rightarrow> request_metadata \<Rightarrow> auth_response act" where
  "open_session E A u md =
     bind_x (uuid_x E) (\<lambda>sessionId.
     bind_x (createRefreshToken E A (us_id u) sessionId) (\<lambda>refreshToken.
     bind_x (verifyRefreshToken E A refreshToken) (\<lambda>refreshPayload.
     bind_x (createAccessToken E A (us_id u) (us_email u)) (\<lambda>accessToken.
     bind_x (create_session E (us_id u) sessionId refreshToken refreshPayload (md_userAgent md) (md_ipAddress md)) (\<lambda>_.
     bind_x (getMe (us_id u)) (\<lambda>profile.
     then_x (metric_x ''incrementAuthLogin'' [''success''])
       (ret_x \<lparr>ar_me = profile, ar_accessToken = accessToken, ar_refreshToken = refreshToken\<rparr>)))))))"

definition login ::
  "ext \<Rightarrow> auth_config \<Rightarrow> passwords \<Rightarrow> limiter \<Rightarrow> string \<Rightarrow> string \<Rightarrow> request_metadata \<Rightarrow> auth_response act" where
  "login E A P L email password md =
     (let normalizedEmail = auth_normalizeEmail email
      in then_x (L normalizedEmail (md_ipAddress md))
        (bind_x (find_first user_t (\<lambda>u. us_normalizedEmail u = normalizedEmail)) (\<lambda>found.
           case found of
             None \<Rightarrow> refuse_login
           | Some u \<Rightarrow>
               if \<not> us_isActive u then refuse_login
               else bind_x (of_result (pw_verify P (us_passwordHash u) password)) (\<lambda>passwordMatches.
                 if \<not> passwordMatches then refuse_login else open_session E A u md))))"

section \<open>Refresh\<close>

definition invalid_refresh :: js_error where
  "invalid_refresh = unauthorized ''Invalid refresh token''"

definition refuse_refresh :: "'a act" where
  "refuse_refresh = then_x (metric_x ''incrementAuthRefresh'' [''auth_error'']) (throw_x invalid_refresh)"

definition live_session :: "string \<Rightarrow> string \<Rightarrow> int \<Rightarrow> refresh_session \<Rightarrow> bool" where
  "live_session sid tokenHash now s \<longleftrightarrow>
     se_id s = sid \<and> se_revokedAt s = None \<and> se_tokenHash s = tokenHash \<and> se_expiresAt s > now"

definition revoke_session :: "int \<Rightarrow> int \<Rightarrow> refresh_session \<Rightarrow> refresh_session" where
  "revoke_session revokedAt lastUsedAt s = s\<lparr>se_revokedAt := Some revokedAt, se_lastUsedAt := Some lastUsedAt\<rparr>"

text \<open>The transaction, on the session as it was read before.\<close>

definition rotate_tx ::
  "ext \<Rightarrow> refresh_session \<Rightarrow> string \<Rightarrow> string \<Rightarrow> string \<Rightarrow> refresh_payload \<Rightarrow> request_metadata \<Rightarrow> refresh_session act" where
  "rotate_tx E existing expectedHash newSessionId nextToken nextPayload md =
     transaction
       (bind_x (now_x E) (\<lambda>now. bind_x (now_x E) (\<lambda>revokedAt. bind_x (now_x E) (\<lambda>lastUsedAt.
        bind_x (update_many E refreshSession_t (live_session (se_id existing) expectedHash now)
          (revoke_session revokedAt lastUsedAt)) (\<lambda>count.
        if count \<noteq> 1 then throw_x invalid_refresh
        else create_session E (se_userId existing) newSessionId nextToken nextPayload
          (nullish2 (md_userAgent md) (se_userAgent existing))
          (nullish2 (md_ipAddress md) (se_ipAddress existing)))))))"

definition rotate_session ::
  "ext \<Rightarrow> auth_config \<Rightarrow> refresh_session \<Rightarrow> user \<Rightarrow> string \<Rightarrow> request_metadata \<Rightarrow> auth_response act" where
  "rotate_session E A existing u expectedHash md =
     bind_x (uuid_x E) (\<lambda>newSessionId.
     bind_x (createRefreshToken E A (us_id u) newSessionId) (\<lambda>nextToken.
     bind_x (verifyRefreshToken E A nextToken) (\<lambda>nextPayload.
     bind_x (createAccessToken E A (us_id u) (us_email u)) (\<lambda>accessToken.
     bind_x (rotate_tx E existing expectedHash newSessionId nextToken nextPayload md) (\<lambda>_.
     bind_x (getMe (us_id u)) (\<lambda>profile.
     then_x (metric_x ''incrementAuthRefresh'' [''success''])
       (ret_x \<lparr>ar_me = profile, ar_accessToken = accessToken, ar_refreshToken = nextToken\<rparr>)))))))"

definition refresh :: "ext \<Rightarrow> auth_config \<Rightarrow> string \<Rightarrow> request_metadata \<Rightarrow> auth_response act" where
  "refresh E A token md =
     bind_x (catch_x (verifyRefreshToken E A token) (\<lambda>_. refuse_refresh)) (\<lambda>payload.
     bind_x (find_first refreshSession_t (\<lambda>s. se_id s = rp_sid payload)) (\<lambda>found.
     case found of
       None \<Rightarrow> refuse_refresh
     | Some existing \<Rightarrow>
         bind_x (find_first user_t (\<lambda>u. us_id u = se_userId existing)) (\<lambda>owner.
         bind_x (require_x owner missing_record) (\<lambda>u.
         bind_x (now_x E) (\<lambda>now.
           if se_revokedAt existing \<noteq> None \<or> se_expiresAt existing \<le> now \<or> \<not> us_isActive u
           then refuse_refresh
           else if hashRefreshToken E token \<noteq> se_tokenHash existing then refuse_refresh
           else rotate_session E A existing u (hashRefreshToken E token) md)))))"

definition logout :: "ext \<Rightarrow> auth_config \<Rightarrow> string \<Rightarrow> unit act" where
  "logout E A token =
     catch_x
       (bind_x (verifyRefreshToken E A token) (\<lambda>payload.
        bind_x (now_x E) (\<lambda>revokedAt. bind_x (now_x E) (\<lambda>lastUsedAt.
        bind_x (update_many E refreshSession_t (\<lambda>s. se_id s = rp_sid payload \<and> se_revokedAt s = None)
          (revoke_session revokedAt lastUsedAt)) (\<lambda>_. ret_x ())))))
       (\<lambda>_. ret_x ())"

section \<open>Guards\<close>

record request =
  rq_authorization :: "string option"
  rq_organizationId :: "string option"

record tenant_membership =
  tm_membershipId :: string
  tm_organizationId :: string
  tm_organizationSlug :: string
  tm_organizationName :: string
  tm_role :: OrganizationRole

definition resolveTenantMembership :: "string \<Rightarrow> string \<Rightarrow> tenant_membership option act" where
  "resolveTenantMembership userId organizationId =
     bind_x (find_first user_t (\<lambda>u. us_id u = userId \<and> us_isActive u)) (\<lambda>active.
     bind_x (find_first organizationMembership_t (\<lambda>m. mb_userId m = userId \<and>
        mb_organizationId m = organizationId \<and> active \<noteq> None)) (\<lambda>found.
     bind_x (find_first organization_t (\<lambda>g. og_id g = organizationId)) (\<lambda>org.
       ret_x (case (found, org) of
          (Some m, Some g) \<Rightarrow> Some \<lparr>tm_membershipId = mb_id m, tm_organizationId = og_id g,
            tm_organizationSlug = og_slug g, tm_organizationName = og_name g, tm_role = mb_role m\<rparr>
        | _ \<Rightarrow> None))))"

definition jwt_guard :: "ext \<Rightarrow> auth_config \<Rightarrow> request \<Rightarrow> access_payload act" where
  "jwt_guard E A rq =
     (case rq_authorization rq of
        None \<Rightarrow> throw_x (unauthorized ''Missing bearer token'')
      | Some h \<Rightarrow>
          if \<not> starts_with ''Bearer '' h then throw_x (unauthorized ''Missing bearer token'')
          else catch_x (verifyAccessToken E A (trim (drop 7 h))) (\<lambda>_. throw_x (unauthorized ''Invalid access token'')))"

definition tenant_guard :: "request \<Rightarrow> access_payload option \<Rightarrow> tenant_membership act" where
  "tenant_guard rq user =
     (case user of
        None \<Rightarrow> throw_x (unauthorized ''Authentication required'')
      | Some p \<Rightarrow>
          (let organizationId = trim_or (rq_organizationId rq) []
           in if organizationId = [] then throw_x (bad_request ''Missing X-Organization-Id header'')
              else bind_x (resolveTenantMembership (ap_sub p) organizationId) (\<lambda>membership.
                require_x membership (forbidden ''Forbidden''))))"

definition roles_guard :: "OrganizationRole list \<Rightarrow> tenant_membership option \<Rightarrow> unit act" where
  "roles_guard requiredRoles current =
     (if requiredRoles = [] then ret_x ()
      else case current of
        None \<Rightarrow> throw_x (forbidden ''Insufficient organization role'')
      | Some m \<Rightarrow> if tm_role m \<notin> set requiredRoles
          then throw_x (forbidden ''Insufficient organization role'') else ret_x ())"

definition MUTATING_ORG_ROLES :: "OrganizationRole list" where
  "MUTATING_ORG_ROLES = [OrganizationRole.OWNER, OrganizationRole.ADMIN, OrganizationRole.AGENT]"

definition MANAGE_ORG_ROLES :: "OrganizationRole list" where
  "MANAGE_ORG_ROLES = [OrganizationRole.OWNER, OrganizationRole.ADMIN]"

text \<open>The three guards in the order the controllers list them.\<close>

definition authorize ::
  "ext \<Rightarrow> auth_config \<Rightarrow> OrganizationRole list \<Rightarrow> request \<Rightarrow> (access_payload \<times> tenant_membership) act" where
  "authorize E A requiredRoles rq =
     bind_x (jwt_guard E A rq) (\<lambda>user.
     bind_x (tenant_guard rq (Some user)) (\<lambda>current.
     bind_x (roles_guard requiredRoles (Some current)) (\<lambda>_.
       ret_x (user, current))))"

section \<open>A refresh token works once\<close>

text \<open>No session of the id can be exchanged any more.\<close>

definition revoked :: "string \<Rightarrow> db \<Rightarrow> bool" where
  "revoked sid d \<longleftrightarrow> list_all (\<lambda>s. se_id s = sid \<longrightarrow> se_revokedAt s \<noteq> None) (refreshSessions d)"

text \<open>\<open>later n J\<close>: \<open>J\<close> holds of the database and at least \<open>n\<close> ids have been drawn.\<close>

definition later :: "nat \<Rightarrow> (db \<Rightarrow> bool) \<Rightarrow> world \<Rightarrow> bool" where
  "later n J v \<longleftrightarrow> n \<le> uuids v \<and> J (db v)"

lemma later_delegates [preserve_rules]:
  "preserves (later n J) (now_x E)" "preserves (later n J) (metric_x m l)"
  "preserves (later n J) (find_first T P)" "preserves (later n J) (find_many T P)"
  "preserves (later n J) (require_x v e)" "preserves (later n J) (of_result r)"
  by (auto simp: preserves_def later_def run_simps split: option.split sum.split)

lemma later_transaction [preserve_rules]: "preserves (later n J) m \<Longrightarrow> preserves (later n J) (transaction m)"
  unfolding transaction_def by (rule preserves_transaction) (auto simp: rollback_def later_def)

lemma later_create:
  "preserves (on_db J) (create_row E T mk) \<Longrightarrow> preserves (later n J) (create_row E T mk)"
  by (auto simp: preserves_def later_def on_db_def run_simps insert_row_def)

lemma later_update_many:
  "preserves (on_db J) (update_many E T P f) \<Longrightarrow> preserves (later n J) (update_many E T P f)"
  by (auto simp: preserves_def later_def on_db_def run_simps replace_rows_def)

lemma later_uuid:
  "(\<And>i. n \<le> i \<Longrightarrow> x_uuid E i \<noteq> sid) \<Longrightarrow> (\<And>i. i \<noteq> sid \<Longrightarrow> preserves (later n J) (k i)) \<Longrightarrow>
   preserves (later n J) (bind_x (uuid_x E) k)"
  by (auto simp: preserves_def later_def run_simps)

lemma later_create_other [preserve_rules]:
  "preserves (later n (revoked sid)) (create_row E user_t mku)"
  "preserves (later n (revoked sid)) (create_row E organization_t mko)"
  "preserves (later n (revoked sid)) (create_row E organizationSettings_t mks)"
  "preserves (later n (revoked sid)) (create_row E organizationMembership_t mkm)"
  by (rule later_create, rule preserves_other_table, simp add: ignores_def revoked_def table_defs)+

lemma later_create_session:
  "i \<noteq> sid \<Longrightarrow> preserves (later n (revoked sid)) (create_session E u i t p ua ip)"
  unfolding create_session_def
  by (rule later_create, rule preserves_create) (simp add: revoked_def refreshSession_t_def)

lemma later_revoke [preserve_rules]:
  "preserves (later n (revoked sid)) (update_many E refreshSession_t P (revoke_session a b))"
  by (rule later_update_many, rule preserves_update_many)
    (auto simp: revoked_def refreshSession_t_def list_all_iff set_update_where revoke_session_def)

lemma later_tokens [preserve_rules]:
  "preserves (later n J) (createAccessToken E A u e)" "preserves (later n J) (createRefreshToken E A u i)"
  "preserves (later n J) (verifyAccessToken E A t)" "preserves (later n J) (verifyRefreshToken E A t)"
  "preserves (later n J) (getMe u)"
  unfolding createAccessToken_def createRefreshToken_def verifyAccessToken_def verifyRefreshToken_def
    signToken_def verifyToken_def getMe_def Let_def
  by (intro preserve_rules)+

text \<open>The requests of a client, one after another.\<close>

datatype auth_request = Register register_dto | Login string string | Refresh string | Logout string

primrec serve ::
  "ext \<Rightarrow> auth_config \<Rightarrow> passwords \<Rightarrow> limiter \<Rightarrow> request_metadata \<Rightarrow> auth_request \<Rightarrow> world \<Rightarrow> world" where
  "serve E A P L md (Register dto) w = snd (register E A P dto md w)"
| "serve E A P L md (Login email password) w = snd (login E A P L email password md w)"
| "serve E A P L md (Refresh token) w = snd (refresh E A token md w)"
| "serve E A P L md (Logout token) w = snd (logout E A token w)"

text \<open>The login limiter keeps its counts in Redis: it neither writes the database nor draws ids.\<close>

definition quiet :: "limiter \<Rightarrow> bool" where
  "quiet L \<longleftrightarrow> (\<forall>email ip v. db (snd (L email ip v)) = db v \<and> uuids (snd (L email ip v)) = uuids v)"

lemma later_rotate:
  "newSessionId \<noteq> sid \<Longrightarrow> preserves (later n (revoked sid)) (rotate_tx E existing h newSessionId t p md)"
  unfolding rotate_tx_def by (intro preserve_rules later_create_session)

lemma later_requests:
  assumes "\<And>i. n \<le> i \<Longrightarrow> x_uuid E i \<noteq> sid"
  shows "preserves (later n (revoked sid)) (refresh E A token md)"
    and "preserves (later n (revoked sid)) (logout E A token)"
    and "preserves (later n (revoked sid)) (register E A P dto md)"
    and "quiet L \<Longrightarrow> preserves (later n (revoked sid)) (login E A P L email password md)"
proof -
  note ids = later_uuid [OF assms]
  show "preserves (later n (revoked sid)) (refresh E A token md)"
    unfolding refresh_def refuse_refresh_def rotate_session_def
    by (intro preserve_rules ids later_rotate)
  show "preserves (later n (revoked sid)) (logout E A token)"
    unfolding logout_def by (intro preserve_rules)
  show "preserves (later n (revoked sid)) (register E A P dto md)"
    unfolding register_def register_body_def create_owner_def hash_x_def Let_def
    by (intro preserve_rules ids later_create_session)
  assume "quiet L"
  then have [preserve_rules]: "preserves (later n (revoked sid)) (L e ip)" for e ip
    by (simp add: quiet_def preserves_def later_def)
  show "preserves (later n (revoked sid)) (login E A P L email password md)"
    unfolding login_def refuse_login_def open_session_def Let_def
    by (intro preserve_rules ids later_create_session)
qed

lemma serve_later:
  assumes "\<And>i. n \<le> i \<Longrightarrow> x_uuid E i \<noteq> sid" "quiet L" "later n (revoked sid) v"
  shows "later n (revoked sid) (foldl (\<lambda>v (md, r). serve E A P L md r v) v rs)"
  using assms(3)
proof (induction rs arbitrary: v)
  case (Cons x rs)
  obtain md r where x: "x = (md, r)" by (cases x)
  have "later n (revoked sid) (serve E A P L md r v)"
    by (cases r) (auto intro: Cons.prems assms(2) preservesD [OF later_requests(1) [OF assms(1)]]
        preservesD [OF later_requests(2) [OF assms(1)]] preservesD [OF later_requests(3) [OF assms(1)]]
        preservesD [OF later_requests(4) [OF assms(1)]])
  with Cons.IH show ?case by (simp add: x)
qed simp

text \<open>A revoked session is refused, also to a request that read it before.\<close>

lemma count_revoked: "revoked sid d \<Longrightarrow> count_where (live_session sid h now) (refreshSessions d) = 0"
  by (auto simp: revoked_def count_where_def live_session_def list_all_iff filter_empty_conv)

lemma rotate_revoked:
  assumes "revoked sid (db v)" "se_id existing = sid"
  shows "fst (rotate_tx E existing h i t p md v) = Inl invalid_refresh"
    and "db (snd (rotate_tx E existing h i t p md v)) = db v"
  using count_revoked [OF assms(1)] assms(2)
  by (simp_all add: rotate_tx_def run_simps replace_rows_def refreshSession_t_def)

text \<open>The session a token names does not depend on when it is read.\<close>

lemma verifyRefresh_same:
  assumes "fst (verifyRefreshToken E A token w) = Inr p" "fst (verifyRefreshToken E A token v) = Inr q"
  shows "q = p"
  using assms
  by (auto simp: verifyRefreshToken_def verifyToken_def run_simps split: sum.splits if_splits)

lemma token_frame [simp]:
  "db (snd (verifyRefreshToken E A token v)) = db v" "uuids (snd (verifyRefreshToken E A token v)) = uuids v"
  by (auto simp: verifyRefreshToken_def verifyToken_def run_simps split: sum.splits)

lemma refresh_revoked:
  assumes "fst (verifyRefreshToken E A token w) = Inr p" "revoked (rp_sid p) (db v)"
  shows "fst (refresh E A token md v) = Inl invalid_refresh \<or> fst (refresh E A token md v) = Inl missing_record"
    and "db (snd (refresh E A token md v)) = db v"
proof -
  let ?v = "snd (verifyRefreshToken E A token v)"
  have live: "se_revokedAt s \<noteq> None" if "first_where (\<lambda>s. se_id s = rp_sid p) (refreshSessions (db v)) = Some s" for s
    using first_where_Some [OF that] assms(2) by (auto simp: revoked_def list_all_iff)
  have "fst (refresh E A token md v) \<in> {Inl invalid_refresh, Inl missing_record} \<and> db (snd (refresh E A token md v)) = db v"
  proof (cases "fst (verifyRefreshToken E A token v)")
    case (Inl e)
    then show ?thesis by (simp add: refresh_def refuse_refresh_def run_simps)
  next
    case (Inr q)
    then have "q = p" using verifyRefresh_same [OF assms(1)] by simp
    with Inr live show ?thesis
      by (auto simp: refresh_def refuse_refresh_def run_simps refreshSession_t_def split: option.split)
  qed
  then show "fst (refresh E A token md v) = Inl invalid_refresh \<or> fst (refresh E A token md v) = Inl missing_record"
    "db (snd (refresh E A token md v)) = db v" by auto
qed

text \<open>An exchange revokes its session.\<close>

lemma update_live_revokes:
  assumes "no_clash refreshSession_t d" "count_where (live_session sid h now) (refreshSessions d) = 1"
  shows "revoked sid (d\<lparr>refreshSessions := update_where (live_session sid h now) (revoke_session a b) (refreshSessions d)\<rparr>)"
proof -
  have "filter (live_session sid h now) (refreshSessions d) \<noteq> []"
    using assms(2) by (auto simp: count_where_def)
  then obtain s where s: "s \<in> set (refreshSessions d)" "live_session sid h now s"
    by (auto simp: filter_empty_conv)
  have "r = s" if "r \<in> set (refreshSessions d)" "se_id r = sid" for r
    using refreshSession_tb.no_clash_pair [OF assms(1), of r s] s that
    by (simp add: refreshSession_t_def refreshSession_clash_def live_session_def)
  then show ?thesis
    using s(2) by (auto simp: revoked_def list_all_iff set_update_where revoke_session_def)
qed

lemma rotate_tx_revokes:
  assumes "newSessionId \<noteq> sid" "se_id existing = sid"
  shows "ensures (later n (no_clash refreshSession_t)) (rotate_tx E existing h newSessionId t p md) (\<lambda>_. later n (revoked sid))"
proof -
  have upd: "ensures (later n (no_clash refreshSession_t))
      (update_many E refreshSession_t (live_session sid h now) (revoke_session a b))
      (\<lambda>count v. count = 1 \<longrightarrow> later n (revoked sid) v)" for a b now
    by (auto simp: ensures_def later_def run_simps replace_rows_def refreshSession_t_def update_live_revokes [unfolded refreshSession_t_def])
  have new: "ensures (\<lambda>v. count = 1 \<longrightarrow> later n (revoked sid) v)
     (if count \<noteq> 1 then throw_x invalid_refresh else create_session E u newSessionId t p ua ip)
     (\<lambda>_. later n (revoked sid))" for count ua ip u
    using preservesD [OF later_create_session [OF assms(1)]]
    by (auto simp: ensures_def run_simps)
  show ?thesis
    unfolding rotate_tx_def assms(2)
    by (intro ensures_transaction ensures_bind_keep [OF later_delegates(1)] ensures_bind [OF upd] new)
qed

lemma refresh_revokes:
  assumes "\<And>i. n \<le> i \<Longrightarrow> x_uuid E i \<noteq> rp_sid p" "fst (verifyRefreshToken E A token w) = Inr p"
    and "later n (no_clash refreshSession_t) w" "fst (refresh E A token md w) = Inr r"
  shows "later n (revoked (rp_sid p)) (snd (refresh E A token md w))"
proof -
  let ?P = "later n (no_clash refreshSession_t)" and ?Q = "later n (revoked (rp_sid p))"
  have uuid: "ensures ?P (uuid_x E) (\<lambda>i v. i \<noteq> rp_sid p \<and> ?P v)"
    using assms(1) by (auto simp: ensures_def later_def run_simps)
  have tx: "ensures (\<lambda>v. i \<noteq> rp_sid p \<and> ?P v) (k i) (\<lambda>_. ?Q)"
    if "\<And>i. i \<noteq> rp_sid p \<Longrightarrow> ensures ?P (k i) (\<lambda>_. ?Q)" for k :: "string \<Rightarrow> auth_response act" and i
    using that [of i] by (auto simp: ensures_def)
  have tail: "ensures ?Q m (\<lambda>_. ?Q)" if "preserves ?Q m" for m :: "auth_response act"
    using that by (auto simp: ensures_def preserves_def)
  have rot: "ensures ?P (rotate_session E A s u h md) (\<lambda>_. ?Q)" if "se_id s = rp_sid p" for s u h
    unfolding rotate_session_def
    by (rule ensures_bind [OF uuid], rule tx)
      (intro ensures_bind_keep preserve_rules ensures_bind [OF rotate_tx_revokes [OF _ that]] tail; assumption?)
  obtain s u where "se_id s = rp_sid p"
    "\<exists>t. refresh E A token md w = rotate_session E A s u (hashRefreshToken E token) md
        (snd (verifyRefreshToken E A token w)\<lparr>ticks := t\<rparr>)"
    using assms(2,4)
    by (auto simp: refresh_def refuse_refresh_def run_simps refreshSession_t_def dest!: first_where_Some split: option.splits if_splits)
  moreover have "?P (snd (verifyRefreshToken E A token w)\<lparr>ticks := t\<rparr>)" for t
    using assms(3) by (simp add: later_def)
  ultimately show ?thesis using assms(4) ensuresD [OF rot] by metis
qed

text \<open>C25: A refresh token works once. After an exchange that succeeded, and after any further registrations,
  logins, exchanges and logouts of anyone, the token is refused and nothing is written; the same
  holds for a request that read the session before the exchange and writes after it.\<close>

theorem refresh_token_single_use:
  assumes "fst (refresh E A token md w) = Inr r" "fst (verifyRefreshToken E A token w) = Inr p"
    and "\<And>i. uuids w \<le> i \<Longrightarrow> x_uuid E i \<noteq> rp_sid p" "no_clash refreshSession_t (db w)" "quiet L"
    and "v = foldl (\<lambda>v (md, q). serve E A P L md q v) (snd (refresh E A token md w)) rs"
  shows "isl (fst (refresh E A token md' v)) \<and> db (snd (refresh E A token md' v)) = db v \<and>
    (se_id s = rp_sid p \<longrightarrow> fst (rotate_tx E s h i t q md' v) = Inl invalid_refresh \<and>
       db (snd (rotate_tx E s h i t q md' v)) = db v)"
proof -
  have "later (uuids w) (revoked (rp_sid p)) (snd (refresh E A token md w))"
    by (rule refresh_revokes [OF assms(3,2) _ assms(1)]) (simp_all add: later_def assms(4))
  then have "revoked (rp_sid p) (db v)"
    using serve_later [OF assms(3,5)] unfolding assms(6) by (auto simp: later_def)
  then show ?thesis
    using refresh_revoked [OF assms(2)] rotate_revoked by (metis sum.disc(1))
qed

definition demo_token :: string where
  "demo_token = signed_text demo_ext ''a'' (timed_payload (refresh_claims ''u'' ''s'') 0 604800)"

definition demo_sessions :: world where
  "demo_sessions = demo_world (empty_db\<lparr>users := [blank_user\<lparr>us_id := ''u'', us_isActive := True\<rparr>],
     refreshSessions := [blank_refresh_session\<lparr>se_id := ''s'', se_userId := ''u'',
       se_tokenHash := hashRefreshToken demo_ext demo_token, se_expiresAt := 1000\<rparr>]\<rparr>)"

definition demo_md :: request_metadata where
  "demo_md = \<lparr>md_userAgent = None, md_ipAddress = None\<rparr>"

lemma demo_num: "x_num demo_ext (of_int n) = show_int n"
  by (simp add: demo_ext_def)

lemma refresh_verified:
  assumes "0 \<le> now" "x_clock demo_ext (ticks v) div 1000 < now + 604800"
  shows "verifyRefreshToken demo_ext demo_auth (signed_text demo_ext ''a'' (timed_payload (refresh_claims u i) now 604800)) v =
     (Inr \<lparr>rp_sub = u, rp_sid = i, rp_exp = of_int (now + 604800)\<rparr>, v\<lparr>ticks := ticks v + 1\<rparr>)"
proof -
  let ?kvs = "timed_payload (refresh_claims u i) now 604800"
  note c = claims_ok [OF disjI2 [OF HOL.refl]]
  have "verify_text demo_ext ''a'' (signed_text demo_ext ''a'' ?kvs) = Inr (JObj ?kvs)"
    by (rule verify_signed(1) [OF demo_num c(1)]) (simp_all add: c)
  with assms show ?thesis
    by (simp add: verifyRefreshToken_def verifyToken_def run_simps demo_auth_def c access_fields of_int_le del: of_int_add)
qed

lemma demo_refresh: "\<exists>r. fst (refresh demo_ext demo_auth demo_token demo_md demo_sessions) = Inr r"
proof -
  let ?n = "show_nat 0"
  let ?new = "signed_text demo_ext ''a'' (timed_payload (refresh_claims ''u'' ?n) 0 604800)"
  have clock: "x_clock demo_ext t = int t" "x_uuid demo_ext t = show_nat t" for t by (simp_all add: demo_ext_def)
  have auth: "au_refreshSecret demo_auth = ''a''" "au_refreshTtlSeconds demo_auth = 604800" by (simp_all add: demo_auth_def)
  have old: "verifyRefreshToken demo_ext demo_auth demo_token v = (Inr \<lparr>rp_sub = ''u'', rp_sid = ''s'', rp_exp = 604800\<rparr>, v\<lparr>ticks := ticks v + 1\<rparr>)"
    and new: "verifyRefreshToken demo_ext demo_auth ?new v = (Inr \<lparr>rp_sub = ''u'', rp_sid = ?n, rp_exp = 604800\<rparr>, v\<lparr>ticks := ticks v + 1\<rparr>)"
    if "ticks v < 10" for v
    using that refresh_verified [of 0 v] by (simp_all add: demo_token_def clock)
  have letter: "show_nat k \<noteq> ''s''" for k
    using show_nat_digits [of k] by (auto simp: is_digit_def)
  have "?new \<noteq> demo_token"
    using letter [of 0] old [of "demo_world empty_db"] new [of "demo_world empty_db"] by (auto simp: demo_world_def)
  then have "hashRefreshToken demo_ext ?new \<noteq> hashRefreshToken demo_ext demo_token"
    using utf8_roundtrip by (metis (no_types, lifting) demo_ext_def ext.select_convs(6) hashRefreshToken_def)
  with letter [of 0] show ?thesis
    by (simp add: refresh_def rotate_session_def rotate_tx_def create_session_def getMe_def run_simps old new created_tokens
        insert_row_def replace_rows_def count_where_def update_where_def live_session_def revoke_session_def clock
        demo_sessions_def demo_world_def empty_db_def first_where_def refreshSession_t_def refreshSession_clash_def
        user_t_def organizationMembership_t_def organization_t_def blank_refresh_session_def blank_user_def auth)
qed

definition demo_passwords :: passwords where
  "demo_passwords = \<lparr>pw_hash = (\<lambda>_ s. Inr s), pw_verify = (\<lambda>h s. Inr (h = s))\<rparr>"

theorem refresh_token_single_use_witness:
  "\<exists>r v. fst (refresh demo_ext demo_auth demo_token demo_md demo_sessions) = Inr r \<and>
     v = serve demo_ext demo_auth demo_passwords (\<lambda>_ _. ret_x ()) demo_md (Logout demo_token)
       (snd (refresh demo_ext demo_auth demo_token demo_md demo_sessions)) \<and>
     isl (fst (refresh demo_ext demo_auth demo_token demo_md v))"
proof -
  obtain r where r: "fst (refresh demo_ext demo_auth demo_token demo_md demo_sessions) = Inr r"
    using demo_refresh by blast
  have p: "fst (verifyRefreshToken demo_ext demo_auth demo_token demo_sessions) =
      Inr \<lparr>rp_sub = ''u'', rp_sid = ''s'', rp_exp = 604800\<rparr>"
    using refresh_verified [of 0 demo_sessions "''u''" "''s''"]
    by (simp add: demo_token_def demo_sessions_def demo_world_def demo_ext_def)
  have ids: "x_uuid demo_ext i \<noteq> ''s''" for i
    using show_nat_digits [of i] by (auto simp: is_digit_def demo_ext_def)
  have one: "no_clash refreshSession_t (db demo_sessions)"
    by (simp add: no_clash_def refreshSession_t_def demo_sessions_def demo_world_def)
  have quiet: "quiet (\<lambda>_ _. ret_x ())" by (simp add: quiet_def run_simps)
  from refresh_token_single_use [OF r p _ one quiet, of _ demo_passwords "[(demo_md, Logout demo_token)]"] ids r show ?thesis
    by simp
qed

end
