(* ===== verification/RateLimit.thy ===== *)
theory RateLimit
  imports Auth
begin

text \<open>
  \<^verbatim>\<open>apps/api/src/rate-limit/rate-limit.service.ts\<close>: fixed windows counted in Redis by a Lua
  script, the limit on logins and the one on all other requests. The commands the script calls, the
  server's clock and its failures are the parameter \<open>R\<close>; \<open>redis_laws\<close> states what the documentation
  of INCR, PEXPIRE and PTTL says of them, for a reading \<open>entry\<close> of the server's state.
\<close>

section \<open>The script\<close>

record 's redis_server =
  rs_incr :: "int \<Rightarrow> string \<Rightarrow> 's \<Rightarrow> int \<times> 's"
  rs_pexpire :: "int \<Rightarrow> string \<Rightarrow> int \<Rightarrow> 's \<Rightarrow> 's"
  rs_pttl :: "int \<Rightarrow> string \<Rightarrow> 's \<Rightarrow> int"
  rs_clock :: "nat \<Rightarrow> int"
  rs_error :: "nat \<Rightarrow> js_error option"

text \<open>What a limiter works on: the server's state, how many scripts it was sent, the metric calls.\<close>

record 's limits =
  lw_redis :: 's
  lw_calls :: nat
  lw_mlog :: "(string \<times> string list) list"

type_synonym ('s, 'a) limiting = "('s limits, js_error, 'a) sx"

definition RATE_LIMIT_SCRIPT :: "'s redis_server \<Rightarrow> int \<Rightarrow> string \<Rightarrow> int \<Rightarrow> 's \<Rightarrow> (int \<times> int) \<times> 's" where
  "RATE_LIMIT_SCRIPT R t key windowMs s =
     (let (hits, s1) = rs_incr R t key s;
          s2 = (if hits = 1 then rs_pexpire R t key windowMs s1 else s1);
          ttl = rs_pttl R t key s2
      in ((hits, ttl), s2))"

definition eval_script :: "'s redis_server \<Rightarrow> string \<Rightarrow> int \<Rightarrow> ('s, int \<times> int) limiting" where
  "eval_script R key windowMs = (\<lambda>w.
     let n = lw_calls w; w1 = w\<lparr>lw_calls := n + 1\<rparr>
     in case rs_error R n of
          Some e \<Rightarrow> (Inl e, w1)
        | None \<Rightarrow> (case RATE_LIMIT_SCRIPT R (rs_clock R n) key windowMs (lw_redis w) of
            (r, s) \<Rightarrow> (Inr r, w1\<lparr>lw_redis := s\<rparr>)))"

section \<open>Consuming\<close>

datatype limit_namespace = auth_namespace | api_namespace

primrec namespace_name :: "limit_namespace \<Rightarrow> string" where
  "namespace_name auth_namespace = ''auth''"
| "namespace_name api_namespace = ''api''"

definition buildKey :: "ext \<Rightarrow> limit_namespace \<Rightarrow> string list \<Rightarrow> string" where
  "buildKey E namespace segments =
     ''rate-limit:'' @ namespace_name namespace @ '':'' @ x_sha256 E (utf8 (join_with ''|'' segments))"

record rate_limit_result =
  rr_allowed :: bool
  rr_remaining :: int
  rr_resetAfterMs :: int
  rr_degraded :: bool

definition consume ::
  "ext \<Rightarrow> 's redis_server \<Rightarrow> limit_namespace \<Rightarrow> string list \<Rightarrow> limit_config \<Rightarrow> ('s, rate_limit_result) limiting" where
  "consume E R namespace segments cfg =
     catch_x
       (bind_x (eval_script R (buildKey E namespace segments) (lm_windowMs cfg)) (\<lambda>(hits, ttl).
          ret_x \<lparr>rr_allowed = (hits \<le> lm_max cfg), rr_remaining = max (lm_max cfg - hits) 0,
            rr_resetAfterMs = (if ttl > 0 then ttl else lm_windowMs cfg), rr_degraded = False\<rparr>))
       (\<lambda>_. if lm_failMode cfg = Open
            then ret_x \<lparr>rr_allowed = True, rr_remaining = lm_max cfg, rr_resetAfterMs = lm_windowMs cfg, rr_degraded = True\<rparr>
            else throw_x (http_error ''ServiceUnavailableException'' 503 ''Rate limiting is temporarily unavailable''))"

section \<open>Logins\<close>

definition too_many_logins :: js_error where
  "too_many_logins = http_error ''HttpException'' 429 ''Too many login attempts. Please try again later.''"

definition limit_metric :: "string \<Rightarrow> string list \<Rightarrow> ('s, unit) limiting" where
  "limit_metric name labels = modify_x (\<lambda>w. w\<lparr>lw_mlog := lw_mlog w @ [(name, labels)]\<rparr>)"

definition login_segments :: "string \<Rightarrow> string option \<Rightarrow> string list" where
  "login_segments email ipAddress = [to_lower (trim email), nullish ipAddress ''unknown'']"

definition assertLoginAllowed ::
  "ext \<Rightarrow> 's redis_server \<Rightarrow> limit_config \<Rightarrow> string \<Rightarrow> string option \<Rightarrow> ('s, unit) limiting" where
  "assertLoginAllowed E R cfg email ipAddress =
     bind_x (consume E R auth_namespace (login_segments email ipAddress) cfg) (\<lambda>result.
       if \<not> rr_allowed result
       then then_x (limit_metric ''incrementAuthFailure'' [''login'', ''rate_limited'']) (throw_x too_many_logins)
       else ret_x ())"

section \<open>Requests\<close>

definition SKIPPED_GENERAL_LIMIT_PREFIXES :: "string list" where
  "SKIPPED_GENERAL_LIMIT_PREFIXES = [''/health'', ''/metrics'', ''/docs'', ''/auth'']"

definition shouldSkipGeneralLimit :: "string \<Rightarrow> bool" where
  "shouldSkipGeneralLimit path \<longleftrightarrow> list_ex (\<lambda>prefix. starts_with prefix path) SKIPPED_GENERAL_LIMIT_PREFIXES"

text \<open>\<^verbatim>\<open>/^[0-9a-f-]{8,}$/i\<close>\<close>

definition id_char :: "char \<Rightarrow> bool" where
  "id_char c \<longleftrightarrow> is_digit c \<or> lower_char c \<in> set ''abcdef'' \<or> c = CHR ''-''"

definition id_segment :: "string \<Rightarrow> bool" where
  "id_segment s \<longleftrightarrow> 8 \<le> length s \<and> list_all id_char s"

definition toRouteBucket :: "string \<Rightarrow> string" where
  "toRouteBucket path =
     (let segments = map (\<lambda>s. if id_segment s then '':id'' else to_lower s)
            (take 2 (filter (\<lambda>s. s \<noteq> []) (split_on CHR ''/'' path)))
      in if segments = [] then ''root'' else join_with ''/'' segments)"

record api_request =
  aq_path :: string
  aq_method :: string
  aq_ip :: "string option"
  aq_organizationId :: "string option"
  aq_correlationId :: "string option"

text \<open>\<^verbatim>\<open>next()\<close>, \<^verbatim>\<open>next(error)\<close>, or the 429 answer with its correlation id.\<close>

datatype api_outcome = next_handler | next_error js_error | too_many_requests string

record api_reply =
  ay_headers :: "(string \<times> string) list"
  ay_outcome :: api_outcome

definition api_segments :: "api_request \<Rightarrow> string list" where
  "api_segments rq = [toRouteBucket (aq_path rq), to_upper (aq_method rq), nullish (aq_ip rq) ''unknown'',
     nullish (aq_organizationId rq) ''anonymous'']"

definition limit_headers :: "limit_config \<Rightarrow> rate_limit_result \<Rightarrow> (string \<times> string) list" where
  "limit_headers cfg result = [(''x-ratelimit-limit'', show_int (lm_max cfg)),
     (''x-ratelimit-remaining'', show_int (rr_remaining result)),
     (''x-ratelimit-reset-ms'', show_int (max (rr_resetAfterMs result) 0))]"

definition applyApiRateLimit ::
  "ext \<Rightarrow> 's redis_server \<Rightarrow> limit_config \<Rightarrow> api_request \<Rightarrow> ('s, api_reply) limiting" where
  "applyApiRateLimit E R cfg rq =
     (if shouldSkipGeneralLimit (aq_path rq) then ret_x \<lparr>ay_headers = [], ay_outcome = next_handler\<rparr>
      else catch_x
        (bind_x (consume E R api_namespace (api_segments rq) cfg) (\<lambda>result.
           let headers = limit_headers cfg result; correlationId = nullish (aq_correlationId rq) ''rate-limit''
           in if \<not> rr_allowed result
              then ret_x \<lparr>ay_headers = headers @ [(''x-correlation-id'', correlationId)],
                ay_outcome = too_many_requests correlationId\<rparr>
              else ret_x \<lparr>ay_headers = headers, ay_outcome = next_handler\<rparr>))
        (\<lambda>err. ret_x \<lparr>ay_headers = [], ay_outcome = next_error err\<rparr>))"

section \<open>What the commands do\<close>

text \<open>The value of a key and the time it expires, if it has not expired.\<close>

definition alive :: "int \<Rightarrow> (int \<times> int option) option \<Rightarrow> (int \<times> int option) option" where
  "alive t e = (case e of None \<Rightarrow> None
     | Some (n, ex) \<Rightarrow> if (case ex of None \<Rightarrow> True | Some x \<Rightarrow> t < x) then Some (n, ex) else None)"

definition value_at :: "int \<Rightarrow> (int \<times> int option) option \<Rightarrow> int \<times> int option" where
  "value_at t e = (case alive t e of None \<Rightarrow> (0, None) | Some p \<Rightarrow> p)"

definition incr_law :: "'s redis_server \<Rightarrow> ('s \<Rightarrow> string \<Rightarrow> (int \<times> int option) option) \<Rightarrow> bool" where
  "incr_law R entry \<longleftrightarrow> (\<forall>t k s j. fst (rs_incr R t k s) = fst (value_at t (entry s k)) + 1 \<and>
     entry (snd (rs_incr R t k s)) j =
       (if j = k then Some (fst (value_at t (entry s k)) + 1, snd (value_at t (entry s k))) else entry s j))"

definition pexpire_law :: "'s redis_server \<Rightarrow> ('s \<Rightarrow> string \<Rightarrow> (int \<times> int option) option) \<Rightarrow> bool" where
  "pexpire_law R entry \<longleftrightarrow> (\<forall>t k ms s j. entry (rs_pexpire R t k ms s) j =
     (case alive t (entry s k) of None \<Rightarrow> entry s j
      | Some (n, ex) \<Rightarrow> if j \<noteq> k then entry s j else if ms \<le> 0 then None else Some (n, Some (t + ms))))"

definition pttl_law :: "'s redis_server \<Rightarrow> ('s \<Rightarrow> string \<Rightarrow> (int \<times> int option) option) \<Rightarrow> bool" where
  "pttl_law R entry \<longleftrightarrow> (\<forall>t k s. rs_pttl R t k s =
     (case alive t (entry s k) of None \<Rightarrow> -2 | Some (n, None) \<Rightarrow> -1 | Some (n, Some x) \<Rightarrow> x - t))"

definition redis_laws :: "'s redis_server \<Rightarrow> ('s \<Rightarrow> string \<Rightarrow> (int \<times> int option) option) \<Rightarrow> bool" where
  "redis_laws R entry \<longleftrightarrow> incr_law R entry \<and> pexpire_law R entry \<and> pttl_law R entry"

lemma alive_later: "alive t e = None \<Longrightarrow> t \<le> u \<Longrightarrow> alive u e = None"
  by (auto simp: alive_def split: option.splits if_splits)

lemma alive_simps [simp]:
  "alive t (Some (n, None)) = Some (n, None)" "alive t (Some (n, Some x)) = (if t < x then Some (n, Some x) else None)"
  "alive t None = None"
  by (simp_all add: alive_def)

text \<open>The script on a key without a live value, and on one that is being counted.\<close>

lemma script_first:
  assumes "redis_laws R entry" "alive t (entry s k) = None"
  shows "fst (fst (RATE_LIMIT_SCRIPT R t k win s)) = 1"
    and "entry (snd (RATE_LIMIT_SCRIPT R t k win s)) j =
      (if j = k then (if win \<le> 0 then None else Some (1, Some (t + win))) else entry s j)"
proof -
  have i: "fst (rs_incr R t k s) = 1" "entry (snd (rs_incr R t k s)) j = (if j = k then Some (1, None) else entry s j)" for j
    using assms by (simp_all add: redis_laws_def incr_law_def value_at_def)
  show "fst (fst (RATE_LIMIT_SCRIPT R t k win s)) = 1"
    by (simp add: RATE_LIMIT_SCRIPT_def Let_def case_prod_beta i)
  show "entry (snd (RATE_LIMIT_SCRIPT R t k win s)) j =
      (if j = k then (if win \<le> 0 then None else Some (1, Some (t + win))) else entry s j)"
    using assms(1) i by (simp add: RATE_LIMIT_SCRIPT_def Let_def case_prod_beta redis_laws_def pexpire_law_def)
qed

lemma script_next:
  assumes "redis_laws R entry" "alive t (entry s k) = Some (n, ex)" "0 < n"
  shows "fst (fst (RATE_LIMIT_SCRIPT R t k win s)) = n + 1"
    and "entry (snd (RATE_LIMIT_SCRIPT R t k win s)) j = (if j = k then Some (n + 1, ex) else entry s j)"
proof -
  have i: "fst (rs_incr R t k s) = n + 1" "entry (snd (rs_incr R t k s)) j = (if j = k then Some (n + 1, ex) else entry s j)" for j
    using assms by (simp_all add: redis_laws_def incr_law_def value_at_def)
  with assms(3) show "fst (fst (RATE_LIMIT_SCRIPT R t k win s)) = n + 1"
    and "entry (snd (RATE_LIMIT_SCRIPT R t k win s)) j = (if j = k then Some (n + 1, ex) else entry s j)"
    by (simp_all add: RATE_LIMIT_SCRIPT_def Let_def case_prod_beta)
qed

lemma script_other:
  assumes "redis_laws R entry" "j \<noteq> k"
  shows "entry (snd (RATE_LIMIT_SCRIPT R t k win s)) j = entry s j"
proof -
  have "entry (snd (rs_incr R t k s)) j = entry s j" for s
    using assms by (simp add: redis_laws_def incr_law_def)
  moreover have "entry (rs_pexpire R t k win s) j = entry s j" for s
    using assms by (simp add: redis_laws_def pexpire_law_def split: option.split)
  ultimately show ?thesis by (simp add: RATE_LIMIT_SCRIPT_def Let_def case_prod_beta)
qed

section \<open>Attempts to log in\<close>

text \<open>A key that has been counted \<open>c\<close> times in a window that starts at \<open>t0\<close> or later and ends at \<open>T\<close> or
  later.\<close>

definition counted :: "int \<Rightarrow> int \<Rightarrow> nat \<Rightarrow> (int \<times> int option) option \<Rightarrow> bool" where
  "counted t0 T c e \<longleftrightarrow> (if c = 0 then alive t0 e = None else \<exists>x \<ge> T. e = Some (int c, Some x))"

lemma script_counts:
  assumes "redis_laws R entry" "counted t0 (t0 + win) c (entry s k)" "t0 \<le> t" "t < t0 + win"
  shows "fst (fst (RATE_LIMIT_SCRIPT R t k win s)) = int c + 1"
    and "counted t0 (t0 + win) (Suc c) (entry (snd (RATE_LIMIT_SCRIPT R t k win s)) k)"
proof -
  have "fst (fst (RATE_LIMIT_SCRIPT R t k win s)) = int c + 1 \<and>
      counted t0 (t0 + win) (Suc c) (entry (snd (RATE_LIMIT_SCRIPT R t k win s)) k)"
  proof (cases "c = 0")
    case True
    then have "alive t (entry s k) = None" using assms alive_later by (simp add: counted_def)
    with True assms show ?thesis by (simp add: script_first [OF assms(1)] counted_def)
  next
    case False
    then obtain x where "t0 + win \<le> x" "entry s k = Some (int c, Some x)" using assms(2) by (auto simp: counted_def)
    with False assms script_next [OF assms(1), of t s k "int c" "Some x" win] show ?thesis by (simp add: counted_def)
  qed
  then show "fst (fst (RATE_LIMIT_SCRIPT R t k win s)) = int c + 1"
    "counted t0 (t0 + win) (Suc c) (entry (snd (RATE_LIMIT_SCRIPT R t k win s)) k)" by simp_all
qed

definition login_key :: "ext \<Rightarrow> string \<times> string option \<Rightarrow> string" where
  "login_key E p = buildKey E auth_namespace (login_segments (fst p) (snd p))"

lemma assertLogin_run:
  assumes "rs_error R (lw_calls w) = None"
  shows "fst (assertLoginAllowed E R cfg email ip w) =
      (if fst (fst (RATE_LIMIT_SCRIPT R (rs_clock R (lw_calls w)) (login_key E (email, ip)) (lm_windowMs cfg) (lw_redis w))) \<le> lm_max cfg
       then Inr () else Inl too_many_logins)"
    and "lw_calls (snd (assertLoginAllowed E R cfg email ip w)) = lw_calls w + 1"
    and "lw_redis (snd (assertLoginAllowed E R cfg email ip w)) =
      snd (RATE_LIMIT_SCRIPT R (rs_clock R (lw_calls w)) (login_key E (email, ip)) (lm_windowMs cfg) (lw_redis w))"
  using assms
  by (simp_all add: assertLoginAllowed_def consume_def eval_script_def limit_metric_def login_key_def run_simps Let_def case_prod_beta)

text \<open>The outcomes of a sequence of attempts, each with its key.\<close>

primrec login_outcomes ::
  "ext \<Rightarrow> 's redis_server \<Rightarrow> limit_config \<Rightarrow> (string \<times> string option) list \<Rightarrow> 's limits \<Rightarrow> (string \<times> (js_error + unit)) list" where
  "login_outcomes E R cfg [] w = []"
| "login_outcomes E R cfg (p # ps) w =
     (login_key E p, fst (assertLoginAllowed E R cfg (fst p) (snd p) w)) #
       login_outcomes E R cfg ps (snd (assertLoginAllowed E R cfg (fst p) (snd p) w))"

lemma outcomes_counted:
  assumes "redis_laws R entry" "\<And>n. rs_error R n = None"
    and "\<And>n. lw_calls w \<le> n \<Longrightarrow> n < lw_calls w + length ps \<Longrightarrow> t0 \<le> rs_clock R n \<and> rs_clock R n < t0 + lm_windowMs cfg"
    and "counted t0 (t0 + lm_windowMs cfg) c (entry (lw_redis w) k)"
  shows "map snd (filter (\<lambda>a. fst a = k) (login_outcomes E R cfg ps w)) =
    map (\<lambda>i. if int i \<le> lm_max cfg then Inr () else Inl too_many_logins)
      [Suc c..<Suc c + length (filter (\<lambda>p. login_key E p = k) ps)]"
  using assms(3,4)
proof (induction ps arbitrary: w c)
  case (Cons p ps)
  let ?w = "snd (assertLoginAllowed E R cfg (fst p) (snd p) w)"
  let ?t = "rs_clock R (lw_calls w)"
  note run = assertLogin_run [OF assms(2), where E = E and email = "fst p" and ip = "snd p" and w = w and cfg = cfg, simplified]
  have t: "t0 \<le> ?t" "?t < t0 + lm_windowMs cfg" using Cons.prems(1) [of "lw_calls w"] by simp_all
  have later: "t0 \<le> rs_clock R n \<and> rs_clock R n < t0 + lm_windowMs cfg"
    if "lw_calls ?w \<le> n" "n < lw_calls ?w + length ps" for n
    using Cons.prems(1) [of n] that by (simp add: run)
  show ?case
  proof (cases "login_key E p = k")
    case True
    note step = script_counts [OF assms(1) Cons.prems(2) t]
    have "counted t0 (t0 + lm_windowMs cfg) (Suc c) (entry (lw_redis ?w) k)"
      using step(2) True by (simp add: run)
    from Cons.IH [OF later this] True show ?thesis
      by (simp add: run step(1) upt_conv_Cons add.commute del: upt_Suc)
  next
    case False
    have "counted t0 (t0 + lm_windowMs cfg) c (entry (lw_redis ?w) k)"
      using Cons.prems(2) False script_other [OF assms(1), of k] by (simp add: run)
    from Cons.IH [OF later this] False show ?thesis by simp
  qed
qed simp

text \<open>C27: Within a window exactly the first \<open>maxAttempts\<close> attempts of an address from one IP get to the password
  check, and every further one is answered 429, however attempts of others come between: of the
  attempts that share a key, the i-th is let through exactly when i is at most the limit, as long as
  all of them fall into one window after the key was last alive.\<close>

theorem login_attempts_limited:
  assumes "redis_laws R entry" "\<And>n. rs_error R n = None"
    and "\<And>n. lw_calls w \<le> n \<Longrightarrow> n < lw_calls w + length ps \<Longrightarrow> t0 \<le> rs_clock R n \<and> rs_clock R n < t0 + lm_windowMs cfg"
    and "alive t0 (entry (lw_redis w) k) = None"
  shows "map snd (filter (\<lambda>a. fst a = k) (login_outcomes E R cfg ps w)) =
    map (\<lambda>i. if int i \<le> lm_max cfg then Inr () else Inl too_many_logins)
      [1..<1 + length (filter (\<lambda>p. login_key E p = k) ps)]"
  using outcomes_counted [OF assms(1-3), where c = 0] assms(4) by (simp add: counted_def)

text \<open>One Redis: a map from keys to values and expiry times, one millisecond per call.\<close>

definition demo_redis :: "(string \<Rightarrow> (int \<times> int option) option) redis_server" where
  "demo_redis = \<lparr>
     rs_incr = (\<lambda>t k s. (fst (value_at t (s k)) + 1, s(k := Some (fst (value_at t (s k)) + 1, snd (value_at t (s k)))))),
     rs_pexpire = (\<lambda>t k ms s. case alive t (s k) of None \<Rightarrow> s
       | Some (n, ex) \<Rightarrow> s(k := if ms \<le> 0 then None else Some (n, Some (t + ms)))),
     rs_pttl = (\<lambda>t k s. case alive t (s k) of None \<Rightarrow> -2 | Some (n, None) \<Rightarrow> -1 | Some (n, Some x) \<Rightarrow> x - t),
     rs_clock = int, rs_error = (\<lambda>_. None)\<rparr>"

lemma demo_redis_laws: "redis_laws demo_redis (\<lambda>s. s)"
  by (auto simp: redis_laws_def incr_law_def pexpire_law_def pttl_law_def demo_redis_def split: option.split)

definition demo_limits :: "(string \<Rightarrow> (int \<times> int option) option) limits" where
  "demo_limits = \<lparr>lw_redis = (\<lambda>_. None), lw_calls = 0, lw_mlog = []\<rparr>"

definition two_per_minute :: limit_config where
  "two_per_minute = \<lparr>lm_windowMs = 60000, lm_max = 2, lm_failMode = Closed\<rparr>"

theorem login_attempts_limited_witness:
  "map snd (filter (\<lambda>a. fst a = login_key demo_ext (''a'', None))
     (login_outcomes demo_ext demo_redis two_per_minute [(''a'', None), (''A'', None), (''a'', None)] demo_limits)) =
   [Inr (), Inr (), Inl too_many_logins]"
proof -
  have e: "rs_error demo_redis n = None" and c: "rs_clock demo_redis n = int n" for n
    by (simp_all add: demo_redis_def)
  have k: "login_key demo_ext (''A'', None) = login_key demo_ext (''a'', None)"
  proof -
    have "to_lower (trim ''A'') = ''a''" "to_lower (trim ''a'') = ''a''" by code_simp+
    then show ?thesis by (simp add: login_key_def login_segments_def)
  qed
  show ?thesis
    by (subst login_attempts_limited [OF demo_redis_laws e, where ?t0.0 = 0])
      (simp_all add: c k demo_limits_def two_per_minute_def upt_rec)
qed

text \<open>A window of zero turns the limit off: Redis deletes a key whose expiry is not in the future, so
  every attempt is the first of its window and is let through. The configuration accepts a window of
  zero (its message asks for a positive duration).\<close>

theorem zero_window_never_limits:
  assumes "redis_laws R entry" "\<And>n. rs_error R n = None" "lm_windowMs cfg = 0" "1 \<le> lm_max cfg"
    and "\<And>n k. lw_calls w \<le> n \<Longrightarrow> alive (rs_clock R n) (entry (lw_redis w) k) = None"
  shows "list_all (\<lambda>a. snd a = Inr ()) (login_outcomes E R cfg ps w)"
  using assms(5)
proof (induction ps arbitrary: w)
  case (Cons p ps)
  note run = assertLogin_run [OF assms(2), where E = E and email = "fst p" and ip = "snd p" and w = w and cfg = cfg, simplified]
  note first = script_first [OF assms(1) Cons.prems [of "lw_calls w"]]
  have "alive (rs_clock R n) (entry (lw_redis (snd (assertLoginAllowed E R cfg (fst p) (snd p) w))) k) = None"
    if "lw_calls (snd (assertLoginAllowed E R cfg (fst p) (snd p) w)) \<le> n" for n k
    using Cons.prems [of n k] that by (simp add: run first assms(3))
  from Cons.IH [OF this] show ?case by (simp add: run first assms(4))
qed simp

theorem zero_window_never_limits_witness:
  "list_all (\<lambda>a. snd a = Inr ()) (login_outcomes demo_ext demo_redis (two_per_minute\<lparr>lm_windowMs := 0\<rparr>)
     (replicate 100 (''a'', None)) demo_limits)"
  by (rule zero_window_never_limits [OF demo_redis_laws])
    (simp_all add: demo_redis_def demo_limits_def two_per_minute_def)

section \<open>Requests\<close>

primrec api_replies :: "ext \<Rightarrow> 's redis_server \<Rightarrow> limit_config \<Rightarrow> api_request list \<Rightarrow> 's limits \<Rightarrow> (js_error + api_reply) list" where
  "api_replies E R cfg [] w = []"
| "api_replies E R cfg (rq # rqs) w =
     fst (applyApiRateLimit E R cfg rq w) # api_replies E R cfg rqs (snd (applyApiRateLimit E R cfg rq w))"

definition api_key :: "ext \<Rightarrow> api_request \<Rightarrow> string" where
  "api_key E rq = buildKey E api_namespace (api_segments rq)"

lemma apply_run:
  fixes R :: "'s redis_server" and w :: "'s limits" and E cfg
  defines "r \<equiv> \<lambda>rq. RATE_LIMIT_SCRIPT R (rs_clock R (lw_calls w)) (api_key E rq) (lm_windowMs cfg) (lw_redis w)"
  assumes "rs_error R (lw_calls w) = None" "\<not> shouldSkipGeneralLimit (aq_path rq)"
  shows "fst (fst (r rq)) \<le> lm_max cfg \<Longrightarrow> \<exists>h. fst (applyApiRateLimit E R cfg rq w) = Inr \<lparr>ay_headers = h, ay_outcome = next_handler\<rparr>"
    and "lw_calls (snd (applyApiRateLimit E R cfg rq w)) = lw_calls w + 1"
    and "lw_redis (snd (applyApiRateLimit E R cfg rq w)) = snd (r rq)"
  using assms(2,3)
  by (auto simp: r_def applyApiRateLimit_def consume_def eval_script_def api_key_def run_simps Let_def case_prod_beta)

lemma fresh_keys_pass:
  assumes "redis_laws R entry" "\<And>n. rs_error R n = None" "1 \<le> lm_max cfg" "\<And>n. t0 \<le> rs_clock R n"
    and "distinct (map (api_key E) rqs)" "list_all (\<lambda>rq. \<not> shouldSkipGeneralLimit (aq_path rq)) rqs"
    and "list_all (\<lambda>rq. alive t0 (entry (lw_redis w) (api_key E rq)) = None) rqs"
  shows "list_all (\<lambda>r. \<exists>h. r = Inr \<lparr>ay_headers = h, ay_outcome = next_handler\<rparr>) (api_replies E R cfg rqs w)"
  using assms(5-)
proof (induction rqs arbitrary: w)
  case (Cons rq rqs)
  have skip: "\<not> shouldSkipGeneralLimit (aq_path rq)" using Cons.prems by simp
  note run = apply_run [OF assms(2) skip, where E = E and cfg = cfg and w = w]
  have "alive (rs_clock R (lw_calls w)) (entry (lw_redis w) (api_key E rq)) = None"
    using Cons.prems(3) alive_later [OF _ assms(4)] by simp
  note first = script_first [OF assms(1) this]
  have "list_all (\<lambda>q. alive t0 (entry (lw_redis (snd (applyApiRateLimit E R cfg rq w))) (api_key E q)) = None) rqs"
    using Cons.prems(1,3) by (auto simp: list_all_iff run(3) first image_iff)
  with Cons first run(1) assms(3) show ?case by simp
qed simp

lemma api_keys_distinct:
  assumes "distinct hs"
    and "inj_on (x_sha256 E) ((\<lambda>h. utf8 (join_with ''|'' (api_segments (rq\<lparr>aq_organizationId := Some h\<rparr>)))) ` set hs)"
  shows "distinct (map (api_key E) (map (\<lambda>h. rq\<lparr>aq_organizationId := Some h\<rparr>) hs))"
proof -
  have "h = g" if "h \<in> set hs" "g \<in> set hs"
      "api_key E (rq\<lparr>aq_organizationId := Some h\<rparr>) = api_key E (rq\<lparr>aq_organizationId := Some g\<rparr>)" for h g
  proof -
    have "utf8 (join_with ''|'' (api_segments (rq\<lparr>aq_organizationId := Some h\<rparr>))) =
        utf8 (join_with ''|'' (api_segments (rq\<lparr>aq_organizationId := Some g\<rparr>)))"
      using inj_onD [OF assms(2) _ imageI [OF that(1)] imageI [OF that(2)]] that(3) by (simp add: api_key_def buildKey_def)
    then have "join_with ''|'' (api_segments (rq\<lparr>aq_organizationId := Some h\<rparr>)) =
        join_with ''|'' (api_segments (rq\<lparr>aq_organizationId := Some g\<rparr>))"
      by (metis utf8_roundtrip)
    then show ?thesis by (simp add: api_segments_def)
  qed
  with assms(1) show ?thesis by (auto simp: distinct_map comp_def inj_on_def)
qed

lemma length_api_replies [simp]: "length (api_replies E R cfg rqs w) = length rqs"
  by (induction rqs arbitrary: w) simp_all

text \<open>C28: The limit on requests does not bound a client. The organisation header is part of the counted key
  and nothing has verified it when the limit is applied, so the same request sent any number of
  times from the same address, each time with another value of the header, always reaches the
  handler (keys as good as distinct digests, and unused before).\<close>

theorem api_limit_evaded:
  assumes "redis_laws R entry" "\<And>n. rs_error R n = None" "1 \<le> lm_max cfg" "\<And>n. t0 \<le> rs_clock R n"
    and "\<not> shouldSkipGeneralLimit (aq_path rq)" "distinct hs"
    and "inj_on (x_sha256 E) ((\<lambda>h. utf8 (join_with ''|'' (api_segments (rq\<lparr>aq_organizationId := Some h\<rparr>)))) ` set hs)"
    and "\<And>k. alive t0 (entry (lw_redis w) k) = None"
  shows "map (map_sum id ay_outcome) (api_replies E R cfg (map (\<lambda>h. rq\<lparr>aq_organizationId := Some h\<rparr>) hs) w) =
    replicate (length hs) (Inr next_handler)"
proof -
  let ?rs = "api_replies E R cfg (map (\<lambda>h. rq\<lparr>aq_organizationId := Some h\<rparr>) hs) w"
  have "list_all (\<lambda>r. \<exists>h. r = Inr \<lparr>ay_headers = h, ay_outcome = next_handler\<rparr>) ?rs"
    by (rule fresh_keys_pass [OF assms(1-4) api_keys_distinct [OF assms(6,7)]]) (simp_all add: list_all_iff assms(5,8))
  then have "map_sum id ay_outcome r = Inr next_handler" if "r \<in> set ?rs" for r
    using that by (auto simp: list_all_iff)
  then have "map (map_sum id ay_outcome) ?rs = map (\<lambda>_. Inr next_handler) ?rs" by simp
  then show ?thesis by (simp add: map_replicate_const)
qed

definition demo_api_request :: api_request where
  "demo_api_request = \<lparr>aq_path = ''/tickets'', aq_method = ''GET'', aq_ip = Some ''1.2.3.4'',
     aq_organizationId = None, aq_correlationId = None\<rparr>"

theorem api_limit_evaded_witness:
  "map (map_sum id ay_outcome) (api_replies demo_ext demo_redis two_per_minute
     (map (\<lambda>h. demo_api_request\<lparr>aq_organizationId := Some h\<rparr>) [''a'', ''b'', ''c'', ''d'']) demo_limits) =
   replicate 4 (Inr next_handler)"
  by (subst api_limit_evaded [OF demo_redis_laws, where ?t0.0 = 0])
    (simp_all add: demo_redis_def demo_limits_def two_per_minute_def demo_api_request_def demo_ext_def
      shouldSkipGeneralLimit_def SKIPPED_GENERAL_LIMIT_PREFIXES_def starts_with_def eval_nat_numeral)

end
