(* ===== verification/Maintenance.thy ===== *)
theory Maintenance
  imports Tables
begin

text \<open>
  \<^verbatim>\<open>packages/db/scripts/maintenance-cleanup.ts\<close>: the deletion of old sessions, resolved failures
  and, on request, timeline events, in batches until a selection comes back empty. The loop is
  written as the code has it, with nothing that makes it end: \<open>None\<close> is a run that never
  returns. Disconnecting and the two lines it prints are left out.
\<close>

section \<open>The loop\<close>

type_synonym 'a run = "world \<Rightarrow> ((js_error + 'a) \<times> world) option"

definition bind_run :: "'a run \<Rightarrow> ('a \<Rightarrow> 'b run) \<Rightarrow> 'b run" where
  "bind_run m k = (\<lambda>w. case m w of
      None \<Rightarrow> None
    | Some (Inl e, v) \<Rightarrow> Some (Inl e, v)
    | Some (Inr a, v) \<Rightarrow> k a v)"

definition run_x :: "'a act \<Rightarrow> 'a run" where
  "run_x m = (\<lambda>w. Some (m w))"

partial_function (option) delete_batches ::
  "string list act \<Rightarrow> (string list \<Rightarrow> nat act) \<Rightarrow> bool \<Rightarrow> nat \<Rightarrow> world \<Rightarrow> ((js_error + nat) \<times> world) option" where
  "delete_batches selectIds deleteMany dryRun counted w =
     (case selectIds w of (r, v) \<Rightarrow> (case r of
        Inl e \<Rightarrow> Some (Inl e, v)
      | Inr ids \<Rightarrow>
          if ids = [] then Some (Inr counted, v)
          else if dryRun then delete_batches selectIds deleteMany dryRun (counted + length ids) v
          else (case deleteMany ids v of (r', v') \<Rightarrow> (case r' of
              Inl e \<Rightarrow> Some (Inl e, v')
            | Inr _ \<Rightarrow> delete_batches selectIds deleteMany dryRun (counted + length ids) v'))))"

declare delete_batches.simps [code]

definition deleteInBatches :: "string list act \<Rightarrow> (string list \<Rightarrow> nat act) \<Rightarrow> bool \<Rightarrow> nat run" where
  "deleteInBatches selectIds deleteMany dryRun = delete_batches selectIds deleteMany dryRun 0"

section \<open>The script\<close>

record cleanup_summary =
  cs_refreshSessions :: nat
  cs_operationalFailures :: nat
  cs_agentEvents :: nat

record retention =
  rt_batchSize :: int
  rt_dryRun :: bool
  rt_refreshSessionDays :: int
  rt_operationalFailureDays :: int
  rt_agentEventDays :: int

definition parseIntegerEnv :: "ext \<Rightarrow> string \<Rightarrow> int \<Rightarrow> int act" where
  "parseIntegerEnv E name defaultValue =
     (let raw = nullish (map_option trim (x_env E name)) []
      in if raw = [] then ret_x defaultValue
         else case parse_int raw of
             None \<Rightarrow> throw_x (plain_error (name @ '' must be a non-negative integer''))
           | Some parsed \<Rightarrow>
               if parsed < 0 then throw_x (plain_error (name @ '' must be a non-negative integer''))
               else ret_x parsed)"

definition dry_run :: "ext \<Rightarrow> bool" where
  "dry_run E \<longleftrightarrow> nullish (map_option (\<lambda>s. to_lower (trim s)) (x_env E ''RETENTION_DRY_RUN'')) ''true'' \<noteq> ''false''"

definition retention_of :: "ext \<Rightarrow> retention act" where
  "retention_of E =
     bind_x (parseIntegerEnv E ''RETENTION_BATCH_SIZE'' 100) (\<lambda>batchSize.
     bind_x (parseIntegerEnv E ''RETENTION_REFRESH_SESSION_DAYS'' 30) (\<lambda>refreshSessionDays.
     bind_x (parseIntegerEnv E ''RETENTION_OPERATIONAL_FAILURE_DAYS'' 30) (\<lambda>operationalFailureDays.
     bind_x (parseIntegerEnv E ''RETENTION_AGENT_EVENT_DAYS'' 0) (\<lambda>agentEventDays.
       ret_x \<lparr>rt_batchSize = batchSize, rt_dryRun = dry_run E, rt_refreshSessionDays = refreshSessionDays,
         rt_operationalFailureDays = operationalFailureDays, rt_agentEventDays = agentEventDays\<rparr>))))"

text \<open>A date outside the range of \<^verbatim>\<open>Date\<close> is invalid, and the query with it is refused.\<close>

definition getCutoffDate :: "ext \<Rightarrow> int \<Rightarrow> int act" where
  "getCutoffDate E days =
     bind_x (now_x E) (\<lambda>now. let t = now - days * 24 * 60 * 60 * 1000
       in if \<bar>t\<bar> \<le> 8640000000000000 then ret_x t else throw_x invalid_value)"

definition before_cutoff :: "int option \<Rightarrow> int \<Rightarrow> bool" where
  "before_cutoff date cutoff = (case date of None \<Rightarrow> False | Some t \<Rightarrow> t < cutoff)"

definition find_ids :: "'r table \<Rightarrow> ('r \<Rightarrow> bool) \<Rightarrow> ('r \<Rightarrow> int) \<Rightarrow> int \<Rightarrow> string list act" where
  "find_ids T P k n = gets_x (\<lambda>w. map (t_id T) (take (nat n) (order_asc k (filter P (t_get T (db w))))))"

definition delete_ids :: "'r table \<Rightarrow> string list \<Rightarrow> nat act" where
  "delete_ids T ids = delete_many T (\<lambda>r. t_id T r \<in> set ids)"

definition old_session :: "int \<Rightarrow> int \<Rightarrow> refresh_session \<Rightarrow> bool" where
  "old_session c c' s \<longleftrightarrow> se_expiresAt s < c \<or> before_cutoff (se_revokedAt s) c'"

definition session_ids :: "ext \<Rightarrow> retention \<Rightarrow> string list act" where
  "session_ids E R =
     bind_x (getCutoffDate E (rt_refreshSessionDays R)) (\<lambda>c.
     bind_x (getCutoffDate E (rt_refreshSessionDays R)) (\<lambda>c'.
       find_ids refreshSession_t (old_session c c') se_createdAt (rt_batchSize R)))"

definition failure_ids :: "ext \<Rightarrow> retention \<Rightarrow> string list act" where
  "failure_ids E R =
     bind_x (getCutoffDate E (rt_operationalFailureDays R)) (\<lambda>c.
       find_ids operationalFailure_t (\<lambda>f. before_cutoff (of_resolvedAt f) c) of_failedAt (rt_batchSize R))"

definition event_ids :: "ext \<Rightarrow> retention \<Rightarrow> string list act" where
  "event_ids E R =
     bind_x (getCutoffDate E (rt_agentEventDays R)) (\<lambda>c.
       find_ids agentEvent_t (\<lambda>e. ev_createdAt e < c) ev_createdAt (rt_batchSize R))"

definition cleanup :: "ext \<Rightarrow> cleanup_summary run" where
  "cleanup E =
     bind_run (run_x (retention_of E)) (\<lambda>R.
     bind_run (deleteInBatches (session_ids E R) (delete_ids refreshSession_t) (rt_dryRun R)) (\<lambda>sessions.
     bind_run (deleteInBatches (failure_ids E R) (delete_ids operationalFailure_t) (rt_dryRun R)) (\<lambda>failures.
     bind_run (if rt_agentEventDays R > 0
         then deleteInBatches (event_ids E R) (delete_ids agentEvent_t) (rt_dryRun R)
         else run_x (ret_x 0)) (\<lambda>events.
       run_x (ret_x \<lparr>cs_refreshSessions = sessions, cs_operationalFailures = failures, cs_agentEvents = events\<rparr>)))))"

section \<open>The loop ends when it deletes\<close>

text \<open>A selection: it writes nothing, and the ids it returns are of rows that \<open>P\<close> holds of; when it
  returns none, it missed none, provided that the limit is not zero.\<close>

definition selects :: "'r table \<Rightarrow> (nat \<Rightarrow> 'r \<Rightarrow> bool) \<Rightarrow> bool \<Rightarrow> string list act \<Rightarrow> bool" where
  "selects T P full sel \<longleftrightarrow> (\<forall>w. db (snd (sel w)) = db w \<and> (\<forall>ids. fst (sel w) = Inr ids \<longrightarrow>
     (\<exists>n. set ids \<subseteq> t_id T ` {r \<in> set (t_get T (db w)). P n r} \<and>
       (ids = [] \<longrightarrow> full \<longrightarrow> (\<forall>r \<in> set (t_get T (db w)). \<not> P n r)))))"

text \<open>Every row that is gone was due at some reading of the clock.\<close>

definition deleted :: "'r table \<Rightarrow> (nat \<Rightarrow> 'r \<Rightarrow> bool) \<Rightarrow> db \<Rightarrow> db \<Rightarrow> bool" where
  "deleted T P d d' \<longleftrightarrow> set (t_get T d') \<subseteq> set (t_get T d) \<and>
     (\<forall>r \<in> set (t_get T d) - set (t_get T d'). \<exists>n. P n r)"

context prisma_table
begin

lemma delete_ids_run: "delete_ids T ids w =
   (Inr (count_where (\<lambda>r. t_id T r \<in> set ids) (t_get T (db w))), w\<lparr>db := t_map T (filter (\<lambda>r. t_id T r \<notin> set ids)) (db w)\<rparr>)"
  by (simp add: delete_ids_def delete_many_def)

lemma selectsD:
  assumes "selects T P full sel" "sel w = (r, v)"
  shows "db v = db w" "r = Inr ids \<Longrightarrow> \<exists>n. set ids \<subseteq> t_id T ` {r \<in> set (t_get T (db w)). P n r} \<and>
       (ids = [] \<longrightarrow> full \<longrightarrow> (\<forall>r \<in> set (t_get T (db w)). \<not> P n r))"
  using assms unfolding selects_def by (metis fst_conv snd_conv)+

lemma no_clash_filter: "no_clash T d \<Longrightarrow> no_clash T (t_map T (filter Q) d)"
  by (simp add: no_clash_def get_map sorted_wrt_filter)

lemma deleted_trans: "deleted T P d d' \<Longrightarrow> deleted T P d' d'' \<Longrightarrow> deleted T P d d''"
  by (auto simp: deleted_def)

lemma delete_selected:
  assumes "no_clash T d" "set ids \<subseteq> t_id T ` {r \<in> set (t_get T d). P n r}"
  shows "deleted T P d (t_map T (filter (\<lambda>r. t_id T r \<notin> set ids)) d)"
proof -
  have "P n r" if r: "r \<in> set (t_get T d)" "t_id T r \<in> set ids" for r
  proof -
    from assms(2) r(2) obtain s where "s \<in> set (t_get T d)" "P n s" "t_id T r = t_id T s" by auto
    then have "r = s" using no_clash_pair [OF assms(1) r(1)] clash_id [of r s] by blast
    with \<open>P n s\<close> show ?thesis by simp
  qed
  then show ?thesis by (auto simp: deleted_def get_map)
qed

lemma batches_end:
  assumes sel: "selects T P full sel" and keep: "\<And>d Q. J d \<Longrightarrow> J (t_map T (filter Q) d)"
    and "J (db w)" "no_clash T (db w)"
  shows "\<exists>r v. delete_batches sel (delete_ids T) False m w = Some (r, v) \<and> J (db v) \<and> no_clash T (db v) \<and>
     deleted T P (db w) (db v) \<and> (isl r \<or> \<not> full \<or> (\<exists>n. \<forall>s \<in> set (t_get T (db v)). \<not> P n s))"
  using assms(3,4)
proof (induction "length (t_get T (db w))" arbitrary: m w rule: less_induct)
  case less
  obtain r v where s: "sel w = (r, v)" by (cases "sel w")
  note s1 = selectsD [OF sel s]
  have same: "deleted T P (db w) (db v)" by (simp add: s1(1) deleted_def)
  show ?case
  proof (cases r)
    case (Inl e)
    then have "delete_batches sel (delete_ids T) False m w = Some (Inl e, v)"
      by (simp add: delete_batches.simps s)
    with less.prems same show ?thesis by (simp add: s1(1))
  next
    case (Inr ids)
    from s1(2) [OF Inr] obtain n where n: "set ids \<subseteq> t_id T ` {r \<in> set (t_get T (db w)). P n r}"
      "ids = [] \<Longrightarrow> full \<Longrightarrow> \<forall>r \<in> set (t_get T (db w)). \<not> P n r" by blast
    show ?thesis
    proof (cases "ids = []")
      case True
      then have "delete_batches sel (delete_ids T) False m w = Some (Inr m, v)"
        by (simp add: delete_batches.simps [of _ _ _ _ w] s Inr)
      with less.prems same n(2) [OF True] show ?thesis by (auto simp: s1(1))
    next
      case False
      let ?v = "v\<lparr>db := t_map T (filter (\<lambda>r. t_id T r \<notin> set ids)) (db w)\<rparr>"
      have step: "delete_batches sel (delete_ids T) False m w =
          delete_batches sel (delete_ids T) False (m + length ids) ?v"
        using False by (simp add: delete_batches.simps [of _ _ _ _ w] s Inr delete_ids_run s1(1))
      from False n(1) obtain x where x: "x \<in> set (t_get T (db w))" "t_id T x \<in> set ids"
        by (cases ids) auto
      have "length (t_get T (db ?v)) < length (t_get T (db w))"
        using length_filter_less [of x _ "\<lambda>r. t_id T r \<notin> set ids"] x by (simp add: get_map)
      from less.hyps [OF this, of "m + length ids"] less.prems keep no_clash_filter
      obtain r' v' where ih: "delete_batches sel (delete_ids T) False (m + length ids) ?v = Some (r', v')"
        "J (db v')" "no_clash T (db v')" "deleted T P (db ?v) (db v')"
        "isl r' \<or> \<not> full \<or> (\<exists>n. \<forall>s \<in> set (t_get T (db v')). \<not> P n s)" by auto
      moreover have "deleted T P (db w) (db v')"
        using delete_selected [where P = P, OF less.prems(2) n(1)] ih(4) by (auto intro: deleted_trans)
      ultimately show ?thesis unfolding step by blast
    qed
  qed
qed

text \<open>A dry run deletes nothing, and goes on as long as the selection finds something.\<close>

lemma dry_run_endless:
  assumes sel: "\<And>w. Q (db w) \<Longrightarrow> db (snd (sel w)) = db w \<and> (\<exists>i is. fst (sel w) = Inr (i # is))"
    and "Q (db w)"
  shows "delete_batches sel del True m w = None"
proof -
  have "\<not> Q (db w)" if "delete_batches sel del True m w = Some y" for y
  proof -
    have "d \<longrightarrow> s = sel \<longrightarrow> \<not> Q (db w)" if "delete_batches s del d m w = Some y" for s d m w
      by (rule delete_batches.raw_induct [where P = "\<lambda>s del d m w y. d \<longrightarrow> s = sel \<longrightarrow> \<not> Q (db w)", OF _ that])
        (use sel in \<open>fastforce split: prod.splits sum.splits if_splits\<close>)
    with that show ?thesis by blast
  qed
  with assms(2) show ?thesis by (cases "delete_batches sel del True m w") auto
qed

end

section \<open>What the script does\<close>

lemma getCutoffDate_run:
  "getCutoffDate E days w =
     (let t = x_clock E (ticks w) - 86400000 * days
      in (if \<bar>t\<bar> \<le> 8640000000000000 then Inr t else Inl invalid_value, w\<lparr>ticks := ticks w + 1\<rparr>))"
  by (simp add: getCutoffDate_def run_simps Let_def)

text \<open>Due at the \<open>n\<close>-th reading of the clock.\<close>

definition session_due :: "ext \<Rightarrow> retention \<Rightarrow> nat \<Rightarrow> refresh_session \<Rightarrow> bool" where
  "session_due E R n = old_session (x_clock E n - 86400000 * rt_refreshSessionDays R)
     (x_clock E (n + 1) - 86400000 * rt_refreshSessionDays R)"

definition failure_due :: "ext \<Rightarrow> retention \<Rightarrow> nat \<Rightarrow> operational_failure \<Rightarrow> bool" where
  "failure_due E R n f = before_cutoff (of_resolvedAt f) (x_clock E n - 86400000 * rt_operationalFailureDays R)"

definition event_due :: "ext \<Rightarrow> retention \<Rightarrow> nat \<Rightarrow> agent_event \<Rightarrow> bool" where
  "event_due E R n e \<longleftrightarrow> ev_createdAt e < x_clock E n - 86400000 * rt_agentEventDays R"

lemma found_ids:
  assumes "fst (find_ids T P k n w) = Inr ids"
  shows "set ids \<subseteq> t_id T ` {r \<in> set (t_get T (db w)). P r}"
    "ids = [] \<Longrightarrow> n > 0 \<Longrightarrow> \<forall>r \<in> set (t_get T (db w)). \<not> P r"
proof -
  let ?rows = "order_asc k (filter P (t_get T (db w)))"
  have ids: "ids = map (t_id T) (take (nat n) ?rows)" using assms by (simp add: find_ids_def run_simps)
  show "set ids \<subseteq> t_id T ` {r \<in> set (t_get T (db w)). P r}"
    using set_take_subset [of "nat n" ?rows] by (auto simp: ids)
  assume "ids = []" "n > 0"
  then have "?rows = []" by (simp add: ids)
  then have "set ?rows = {}" by simp
  then show "\<forall>r \<in> set (t_get T (db w)). \<not> P r" by (auto simp: filter_empty_conv)
qed

lemma find_ids_db: "db (snd (find_ids T P k n w)) = db w"
  by (simp add: find_ids_def run_simps)

lemma selects_found:
  assumes "\<And>w. (\<exists>e. fst (sel w) = Inl e) \<and> db (snd (sel w)) = db w \<or>
      (\<exists>v n. db v = db w \<and> sel w = find_ids T (P n) k bound v)"
  shows "selects T P (bound > 0) sel"
  unfolding selects_def
proof (intro allI conjI impI)
  fix w
  show "db (snd (sel w)) = db w" using assms [of w] by (auto simp: find_ids_db)
  fix ids assume ids: "fst (sel w) = Inr ids"
  then obtain v n where v: "db v = db w" "fst (find_ids T (P n) k bound v) = Inr ids"
    using assms [of w] by auto
  show "\<exists>n. set ids \<subseteq> t_id T ` {r \<in> set (t_get T (db w)). P n r} \<and>
      (ids = [] \<longrightarrow> bound > 0 \<longrightarrow> (\<forall>r \<in> set (t_get T (db w)). \<not> P n r))"
    using found_ids [OF v(2)] v(1) by auto
qed

text \<open>A selection reads the clock and fails on an invalid date, or searches.\<close>

lemma selections_run:
  "(\<exists>v. session_ids E R w = (Inl invalid_value, v) \<and> db v = db w) \<or>
   session_ids E R w = find_ids refreshSession_t (session_due E R (ticks w)) se_createdAt (rt_batchSize R)
     (w\<lparr>ticks := ticks w + 2\<rparr>)"
  "(\<exists>v. failure_ids E R w = (Inl invalid_value, v) \<and> db v = db w) \<or>
   failure_ids E R w = find_ids operationalFailure_t (failure_due E R (ticks w)) of_failedAt (rt_batchSize R)
     (w\<lparr>ticks := ticks w + 1\<rparr>)"
  "(\<exists>v. event_ids E R w = (Inl invalid_value, v) \<and> db v = db w) \<or>
   event_ids E R w = find_ids agentEvent_t (event_due E R (ticks w)) ev_createdAt (rt_batchSize R)
     (w\<lparr>ticks := ticks w + 1\<rparr>)"
  by (simp_all add: session_ids_def failure_ids_def event_ids_def run_simps getCutoffDate_run Let_def
      session_due_def [abs_def] failure_due_def [abs_def] event_due_def [abs_def])

lemma selections:
  "selects refreshSession_t (session_due E R) (rt_batchSize R > 0) (session_ids E R)"
  "selects operationalFailure_t (failure_due E R) (rt_batchSize R > 0) (failure_ids E R)"
  "selects agentEvent_t (event_due E R) (rt_batchSize R > 0) (event_ids E R)"
proof -
  show "selects refreshSession_t (session_due E R) (rt_batchSize R > 0) (session_ids E R)"
  proof (rule selects_found [where k = se_createdAt])
    fix w
    show "(\<exists>e. fst (session_ids E R w) = Inl e) \<and> db (snd (session_ids E R w)) = db w \<or>
      (\<exists>v n. db v = db w \<and> session_ids E R w =
         find_ids refreshSession_t (session_due E R n) se_createdAt (rt_batchSize R) v)"
      using selections_run(1) [of E R w] by force
  qed
  show "selects operationalFailure_t (failure_due E R) (rt_batchSize R > 0) (failure_ids E R)"
  proof (rule selects_found [where k = of_failedAt])
    fix w
    show "(\<exists>e. fst (failure_ids E R w) = Inl e) \<and> db (snd (failure_ids E R w)) = db w \<or>
      (\<exists>v n. db v = db w \<and> failure_ids E R w =
         find_ids operationalFailure_t (failure_due E R n) of_failedAt (rt_batchSize R) v)"
      using selections_run(2) [of E R w] by force
  qed
  show "selects agentEvent_t (event_due E R) (rt_batchSize R > 0) (event_ids E R)"
  proof (rule selects_found [where k = ev_createdAt])
    fix w
    show "(\<exists>e. fst (event_ids E R w) = Inl e) \<and> db (snd (event_ids E R w)) = db w \<or>
      (\<exists>v n. db v = db w \<and> event_ids E R w =
         find_ids agentEvent_t (event_due E R n) ev_createdAt (rt_batchSize R) v)"
      using selections_run(3) [of E R w] by force
  qed
qed

lemma retention_of_run:
  "\<exists>r. retention_of E w = (r, w) \<and> (\<forall>R. r = Inr R \<longrightarrow> rt_dryRun R = dry_run E \<and>
     rt_batchSize R \<ge> 0 \<and> rt_refreshSessionDays R \<ge> 0)"
  by (auto simp: retention_of_def parseIntegerEnv_def run_simps Let_def split: option.split)

lemma filter_keeps:
  "db_ok d \<Longrightarrow> db_ok (t_map refreshSession_t (filter Q) d)"
  "db_ok d \<Longrightarrow> db_ok (t_map operationalFailure_t (filter Q') d)"
  by (auto intro!: refreshSession_kept.keep operationalFailure_kept.keep
      refreshSession_tb.no_clash_filter operationalFailure_tb.no_clash_filter
      dest: refreshSession_kept.unique operationalFailure_kept.unique)

text \<open>The three loops, each with what it leaves alone.\<close>

lemma session_batches:
  assumes "db_ok (db w)"
  shows "\<exists>r v. delete_batches (session_ids E R) (delete_ids refreshSession_t) False m w = Some (r, v) \<and>
    (db_ok (db v) \<and> operationalFailures (db v) = operationalFailures (db w) \<and> agentEvents (db v) = agentEvents (db w)) \<and>
    no_clash refreshSession_t (db v) \<and> deleted refreshSession_t (session_due E R) (db w) (db v) \<and>
    (isl r \<or> \<not> rt_batchSize R > 0 \<or> (\<exists>n. \<forall>s \<in> set (t_get refreshSession_t (db v)). \<not> session_due E R n s))"
  by (rule refreshSession_tb.batches_end [OF selections(1)])
    (use assms refreshSession_kept.unique [OF assms] in \<open>simp_all add: filter_keeps, simp_all add: refreshSession_t_def\<close>)

lemma failure_batches:
  assumes "db_ok (db w)"
  shows "\<exists>r v. delete_batches (failure_ids E R) (delete_ids operationalFailure_t) False m w = Some (r, v) \<and>
    (db_ok (db v) \<and> refreshSessions (db v) = refreshSessions (db w) \<and> agentEvents (db v) = agentEvents (db w)) \<and>
    no_clash operationalFailure_t (db v) \<and> deleted operationalFailure_t (failure_due E R) (db w) (db v) \<and>
    (isl r \<or> \<not> rt_batchSize R > 0 \<or> (\<exists>n. \<forall>f \<in> set (t_get operationalFailure_t (db v)). \<not> failure_due E R n f))"
  by (rule operationalFailure_tb.batches_end [OF selections(2)])
    (use assms operationalFailure_kept.unique [OF assms] in \<open>simp_all add: filter_keeps, simp_all add: operationalFailure_t_def\<close>)

lemma event_batches:
  assumes "no_clash agentEvent_t (db w)"
  shows "\<exists>r v. delete_batches (event_ids E R) (delete_ids agentEvent_t) False m w = Some (r, v) \<and>
    (refreshSessions (db v) = refreshSessions (db w) \<and> operationalFailures (db v) = operationalFailures (db w)) \<and>
    no_clash agentEvent_t (db v) \<and> deleted agentEvent_t (event_due E R) (db w) (db v) \<and>
    (isl r \<or> \<not> rt_batchSize R > 0 \<or> (\<exists>n. \<forall>e \<in> set (t_get agentEvent_t (db v)). \<not> event_due E R n e))"
  by (rule agentEvent_tb.batches_end [OF selections(3)]) (use assms in \<open>simp_all, simp_all add: agentEvent_t_def\<close>)

lemma refreshSession_rows: "t_get refreshSession_t d = refreshSessions d"
  by (simp add: refreshSession_t_def)

lemma operationalFailure_rows: "t_get operationalFailure_t d = operationalFailures d"
  by (simp add: operationalFailure_t_def)

lemma agentEvent_rows: "t_get agentEvent_t d = agentEvents d"
  by (simp add: agentEvent_t_def)

lemmas cleaned_rows = refreshSession_rows operationalFailure_rows agentEvent_rows

lemma deleted_same: "t_get T d = t_get T e \<Longrightarrow> deleted T P d e"
  by (simp add: deleted_def)

lemma deleted_cong: "t_get T d = t_get T d' \<Longrightarrow> t_get T e = t_get T e' \<Longrightarrow> deleted T P d e \<Longrightarrow> deleted T P d' e'"
  by (simp add: deleted_def)

text \<open>How far a clean-up comes: an error of a loop ends it, and events are only deleted on demand.\<close>

lemma cleanup_run:
  assumes "retention_of E w = (Inr R, w)" "\<not> rt_dryRun R"
    and "deleteInBatches (session_ids E R) (delete_ids refreshSession_t) False w = Some (r1, v1)"
    and "deleteInBatches (failure_ids E R) (delete_ids operationalFailure_t) False v1 = Some (r2, v2)"
    and "deleteInBatches (event_ids E R) (delete_ids agentEvent_t) False v2 = Some (r3, v3)"
  obtains r v where "cleanup E w = Some (r, v)" "isl r" "v = v1"
  | r v where "cleanup E w = Some (r, v)" "\<not> isl r1" "v = v2" "isl r \<or> rt_agentEventDays R \<le> 0"
  | r v where "cleanup E w = Some (r, v)" "\<not> isl r1" "v = v3" "0 < rt_agentEventDays R"
proof -
  note run = cleanup_def bind_run_def run_x_def ret_x_run assms
  show thesis
  proof (cases r1)
    case (Inl e)
    then have "cleanup E w = Some (Inl e, v1)" by (simp add: run)
    then show thesis using that(1) by simp
  next
    case one: (Inr m1)
    show thesis
    proof (cases r2)
      case (Inl e)
      with one have "cleanup E w = Some (Inl e, v2)" by (simp add: run)
      then show thesis using that(2) one by simp
    next
      case (Inr m2)
      show thesis
      proof (cases "rt_agentEventDays R > 0")
        case False
        with one Inr have "\<exists>r. cleanup E w = Some (r, v2)" by (simp add: run)
        then show thesis using that(2) one False by auto
      next
        case True
        with one Inr have "\<exists>r. cleanup E w = Some (r, v3)" by (cases r3) (simp_all add: run)
        then show thesis using that(3) one True by auto
      qed
    qed
  qed
qed

text \<open>C34: A clean-up that deletes always returns. Every session, failure and event that is gone was due at
  some reading of the clock, and unless events are to be deleted the database stays consistent. When
  it returns without an error and the batch is not empty, no session was due any more at some reading.\<close>

theorem cleanup_ends:
  assumes "fst (retention_of E w) = Inr R" "\<not> dry_run E" "db_ok (db w)"
  shows "\<exists>r v. cleanup E w = Some (r, v) \<and>
    deleted refreshSession_t (session_due E R) (db w) (db v) \<and>
    deleted operationalFailure_t (failure_due E R) (db w) (db v) \<and>
    deleted agentEvent_t (event_due E R) (db w) (db v) \<and>
    (rt_agentEventDays R \<le> 0 \<longrightarrow> db_ok (db v) \<and> agentEvents (db v) = agentEvents (db w)) \<and>
    (isl r \<or> rt_batchSize R \<le> 0 \<or> (\<exists>n. \<forall>s \<in> set (refreshSessions (db v)). \<not> session_due E R n s))"
proof -
  have R: "retention_of E w = (Inr R, w)" "\<not> rt_dryRun R"
    using retention_of_run [of E w] assms(1,2) by auto
  obtain r1 v1 where 1: "deleteInBatches (session_ids E R) (delete_ids refreshSession_t) False w = Some (r1, v1)"
    "db_ok (db v1)" "operationalFailures (db v1) = operationalFailures (db w)" "agentEvents (db v1) = agentEvents (db w)"
    "deleted refreshSession_t (session_due E R) (db w) (db v1)"
    "isl r1 \<or> rt_batchSize R \<le> 0 \<or> (\<exists>n. \<forall>s \<in> set (refreshSessions (db v1)). \<not> session_due E R n s)"
    using session_batches [OF assms(3), of E R 0] unfolding deleteInBatches_def refreshSession_rows not_less by blast
  obtain r2 v2 where 2: "deleteInBatches (failure_ids E R) (delete_ids operationalFailure_t) False v1 = Some (r2, v2)"
    "db_ok (db v2)" "refreshSessions (db v2) = refreshSessions (db v1)" "agentEvents (db v2) = agentEvents (db v1)"
    "deleted operationalFailure_t (failure_due E R) (db v1) (db v2)"
    using failure_batches [OF 1(2), of E R 0] unfolding deleteInBatches_def by blast
  have "no_clash agentEvent_t (db v2)" using 2(2) by (simp add: db_ok_def)
  from event_batches [OF this, of E R 0]
  obtain r3 v3 where 3: "deleteInBatches (event_ids E R) (delete_ids agentEvent_t) False v2 = Some (r3, v3)"
    "refreshSessions (db v3) = refreshSessions (db v2)" "operationalFailures (db v3) = operationalFailures (db v2)"
    "deleted agentEvent_t (event_due E R) (db v2) (db v3)"
    unfolding deleteInBatches_def by blast
  have ends: "isl r1 \<or> rt_batchSize R \<le> 0 \<or> (\<exists>n. \<forall>s \<in> set (refreshSessions (db v3)). \<not> session_due E R n s)"
    "refreshSessions (db v2) = refreshSessions (db v1)" "refreshSessions (db v3) = refreshSessions (db v1)"
    using 1(6) by (simp_all add: 3(2) 2(3))
  have s: "deleted refreshSession_t (session_due E R) (db w) (db v)" if "v \<in> {v1, v2, v3}" for v
    using that ends(2,3) by (auto intro: deleted_cong [OF _ _ 1(5)] simp: cleaned_rows)
  have f: "deleted operationalFailure_t (failure_due E R) (db w) (db v)" if "v \<in> {v1, v2, v3}" for v
    using that 1(3) 3(3) by (auto intro: deleted_same deleted_cong [OF _ _ 2(5)] simp: cleaned_rows)
  have e: "deleted agentEvent_t (event_due E R) (db w) (db v)" if "v \<in> {v1, v2, v3}" for v
    using that 1(4) 2(4) by (auto intro: deleted_same deleted_cong [OF _ _ 3(4)] simp: cleaned_rows)
  from cleanup_run [OF R 1(1) 2(1) 3(1)] show ?thesis
    using 1(2,4) 2(2,4) s f e ends by cases (intro exI conjI, assumption, auto)+
qed

text \<open>C35: A dry run, which is what the script does unless it is told not to, never returns once some
  session is past its retention: nothing is deleted, so the selection never comes back empty.\<close>

theorem dry_run_never_returns:
  assumes "fst (retention_of E w) = Inr R" "dry_run E" "rt_batchSize R > 0"
    and "s \<in> set (refreshSessions (db w))"
    and "\<And>n. \<bar>x_clock E n - 86400000 * rt_refreshSessionDays R\<bar> \<le> 8640000000000000 \<and>
          se_expiresAt s < x_clock E n - 86400000 * rt_refreshSessionDays R"
  shows "cleanup E w = None"
proof -
  have R: "retention_of E w = (Inr R, w)" "rt_dryRun R"
    using retention_of_run [of E w] assms(1,2) by auto
  have "db (snd (session_ids E R v)) = db v \<and> (\<exists>i is. fst (session_ids E R v) = Inr (i # is))"
    if "s \<in> set (refreshSessions (db v))" for v
  proof -
    let ?v = "v\<lparr>ticks := ticks v + 2\<rparr>"
    have run: "session_ids E R v =
        find_ids refreshSession_t (session_due E R (ticks v)) se_createdAt (rt_batchSize R) ?v"
      using assms(5) by (simp add: session_ids_def run_simps getCutoffDate_run session_due_def)
    have "session_due E R (ticks v) s" using assms(5) by (simp add: session_due_def old_session_def)
    then have "fst (session_ids E R v) \<noteq> Inr []"
      using found_ids(2) [of refreshSession_t "session_due E R (ticks v)" se_createdAt "rt_batchSize R" ?v "[]"]
        that assms(3) unfolding run by (auto simp: refreshSession_t_def)
    moreover obtain ids where "fst (session_ids E R v) = Inr ids" unfolding run by (simp add: find_ids_def run_simps)
    moreover have "db (snd (session_ids E R v)) = db v" unfolding run by (simp add: find_ids_db)
    ultimately show ?thesis by (cases ids) auto
  qed
  then have "delete_batches (session_ids E R) (delete_ids refreshSession_t) True 0 w = None"
    using assms(4) by (rule refreshSession_tb.dry_run_endless [where Q = "\<lambda>d. s \<in> set (refreshSessions d)"])
  then show ?thesis by (simp add: cleanup_def bind_run_def run_x_def R deleteInBatches_def)
qed

section \<open>Witnesses\<close>

text \<open>A database with one session that has expired and one that has not, a month and a day after.\<close>

definition demo_session :: "string \<Rightarrow> int \<Rightarrow> refresh_session" where
  "demo_session i t = blank_refresh_session\<lparr>se_id := i, se_tokenHash := i, se_expiresAt := t\<rparr>"

definition demo_retention :: "string \<Rightarrow> ext" where
  "demo_retention mode = demo_ext\<lparr>x_clock := \<lambda>_. 2678400000, x_env := [''RETENTION_DRY_RUN'' \<mapsto> mode]\<rparr>"

definition aged_sessions :: world where
  "aged_sessions = demo_world (empty_db\<lparr>refreshSessions := [demo_session ''s1'' 5, demo_session ''s2'' 2678400000]\<rparr>)"

lemma demo_retention_run:
  "fst (retention_of (demo_retention mode) w) = Inr \<lparr>rt_batchSize = 100, rt_dryRun = dry_run (demo_retention mode),
     rt_refreshSessionDays = 30, rt_operationalFailureDays = 30, rt_agentEventDays = 0\<rparr>"
  by (simp add: retention_of_def parseIntegerEnv_def run_simps demo_retention_def demo_ext_def nullish_def)

theorem dry_run_never_returns_witness: "cleanup (demo_retention ''true'') aged_sessions = None"
  by (rule dry_run_never_returns [OF demo_retention_run, where s = "demo_session ''s1'' 5"])
    (simp_all add: dry_run_def demo_retention_def demo_ext_def aged_sessions_def demo_world_def demo_session_def
      nullish_def, code_simp)

theorem cleanup_ends_witness:
  "\<exists>r v. cleanup (demo_retention ''false'') aged_sessions = Some (r, v) \<and> db_ok (db v) \<and>
     demo_session ''s2'' 2678400000 \<in> set (refreshSessions (db v))"
proof -
  have ok: "db_ok (db aged_sessions)"
    by (simp add: aged_sessions_def demo_world_def db_ok_def demo_session_def timeline_ok_def no_clash_def
        empty_db_def table_defs ticket_events_def refreshSession_clash_def blank_refresh_session_def)
  have "\<not> dry_run (demo_retention ''false'')"
    by (simp add: dry_run_def demo_retention_def demo_ext_def nullish_def, code_simp)
  from cleanup_ends [OF demo_retention_run this ok] obtain r v
    where v: "cleanup (demo_retention ''false'') aged_sessions = Some (r, v)" "db_ok (db v)"
      "deleted refreshSession_t (session_due (demo_retention ''false'')
         \<lparr>rt_batchSize = 100, rt_dryRun = dry_run (demo_retention ''false''), rt_refreshSessionDays = 30,
           rt_operationalFailureDays = 30, rt_agentEventDays = 0\<rparr>) (db aged_sessions) (db v)"
    by auto
  have "\<not> session_due (demo_retention ''false'') \<lparr>rt_batchSize = 100, rt_dryRun = dry_run (demo_retention ''false''),
      rt_refreshSessionDays = 30, rt_operationalFailureDays = 30, rt_agentEventDays = 0\<rparr> n (demo_session ''s2'' 2678400000)" for n
    by (simp add: session_due_def old_session_def before_cutoff_def demo_session_def blank_refresh_session_def
        demo_retention_def)
  moreover have "demo_session ''s2'' 2678400000 \<in> set (t_get refreshSession_t (db aged_sessions))"
    by (simp add: aged_sessions_def demo_world_def refreshSession_t_def)
  ultimately have "demo_session ''s2'' 2678400000 \<in> set (refreshSessions (db v))"
    using v(3) by (fastforce simp: deleted_def refreshSession_rows)
  with v show ?thesis by blast
qed

text \<open>Deleting old events leaves a timeline that does not start at its first event: the script is no
  operation of the reachable worlds of \<^verbatim>\<open>Steps\<close>.\<close>

definition demo_event :: "string \<Rightarrow> int \<Rightarrow> int \<Rightarrow> agent_event" where
  "demo_event i n t = blank_agent_event\<lparr>ev_id := i, ev_ticketId := ''t'', ev_sequence := n, ev_createdAt := t\<rparr>"

definition demo_timeline :: world where
  "demo_timeline = demo_world (empty_db\<lparr>agentEvents := [demo_event ''e1'' 1 5, demo_event ''e2'' 2 2678400000]\<rparr>)"

lemma event_cleanup_gap:
  "map_option (\<lambda>(_, v). agentEvents (db v))
     (cleanup (demo_ext\<lparr>x_clock := \<lambda>_. 2678400000, x_env := [''RETENTION_DRY_RUN'' \<mapsto> ''false'',
        ''RETENTION_AGENT_EVENT_DAYS'' \<mapsto> ''30'']\<rparr>) demo_timeline) = Some [demo_event ''e2'' 2 2678400000]"
  by code_simp

lemma timeline_gap: "agentEvents d = [demo_event ''e2'' 2 2678400000] \<Longrightarrow> \<not> timeline_ok d"
  by (auto simp: timeline_ok_def ticket_events_def demo_event_def blank_agent_event_def
      intro!: exI [of _ "[]"] exI [of _ "''t''"])

end
