(* ===== verification/WebProxy.thy ===== *)
theory WebProxy
  imports RuntimeConfig JsonParse
begin

text \<open>
  \<^verbatim>\<open>apps/web/src/app/api/_utils/proxy.ts\<close> and the session routes under
  \<^verbatim>\<open>apps/web/src/app/api/auth\<close>: the web server between the browser and the API. The browser
  holds both tokens in cookies; the proxy sends the access token upstream, exchanges the refresh
  token when the API answers 401, tries again, and answers with the cookies it got. What \<^verbatim>\<open>fetch\<close>
  reaches is the state \<open>'n\<close> with the function \<open>ws_fetch\<close>; log lines are left out.
\<close>

section \<open>Requests, replies, responses\<close>

datatype http_method = GET | POST | PATCH | DELETE

record fetch_call =
  fc_url :: string
  fc_method :: http_method
  fc_headers :: "string \<rightharpoonup> string"
  fc_body :: "string option"

text \<open>What \<^verbatim>\<open>fetch\<close> resolves to; reading the body may fail.\<close>

record reply =
  rp_status :: int
  rp_header :: "string \<Rightarrow> string option"
  rp_text :: "js_error + string"

record web_request =
  wq_header :: "string \<Rightarrow> string option"
  wq_cookie :: "string \<Rightarrow> string option"
  wq_body :: "js_error + string"
  wq_search :: string

record cookie =
  ck_name :: string
  ck_value :: string
  ck_maxAge :: int
  ck_httpOnly :: bool
  ck_sameSite :: same_site
  ck_secure :: bool
  ck_domain :: "string option"
  ck_path :: string

datatype web_body = Text_body string | Json_body json

record web_response =
  wp_status :: int
  wp_body :: web_body
  wp_headers :: "string \<rightharpoonup> string"
  wp_cookies :: "cookie list"

record 'n site =
  ws_fetch :: "fetch_call \<Rightarrow> 'n \<Rightarrow> (js_error + reply) \<times> 'n"
  ws_uuid :: "nat \<Rightarrow> string"
  ws_env :: env
  ws_url :: url_parser

record 'n web =
  wb_net :: 'n
  wb_uuids :: nat
  wb_calls :: "fetch_call list"

type_synonym ('n, 'a) page = "('n web, js_error, 'a) sx"

definition of_sum :: "js_error + 'a \<Rightarrow> ('n, 'a) page" where
  "of_sum r = (\<lambda>w. (r, w))"

definition fetch_x :: "'n site \<Rightarrow> fetch_call \<Rightarrow> ('n, reply) page" where
  "fetch_x W c = (\<lambda>w. case ws_fetch W c (wb_net w) of
     (r, n) \<Rightarrow> (r, w\<lparr>wb_net := n, wb_calls := wb_calls w @ [c]\<rparr>))"

definition reply_ok :: "reply \<Rightarrow> bool" where
  "reply_ok r \<longleftrightarrow> 200 \<le> rp_status r \<and> rp_status r \<le> 299"

text \<open>\<^verbatim>\<open>new Response(body, {status})\<close> refuses a body for a status that has none.\<close>

definition response_x :: "web_body \<Rightarrow> int \<Rightarrow> (string \<rightharpoonup> string) \<Rightarrow> ('n, web_response) page" where
  "response_x body status headers =
     (if status < 200 \<or> 599 < status
      then throw_x ((plain_error ''init[status] must be in the range of 200 to 599, inclusive.'')\<lparr>er_name := ''RangeError''\<rparr>)
      else if status \<in> {204, 205, 304}
      then throw_x ((plain_error ''Response constructor: Invalid response status code'')\<lparr>er_name := ''TypeError''\<rparr>)
      else ret_x \<lparr>wp_status = status, wp_body = body, wp_headers = headers, wp_cookies = []\<rparr>)"

definition set_cookie :: "cookie \<Rightarrow> web_response \<Rightarrow> web_response" where
  "set_cookie c r = r\<lparr>wp_cookies := filter (\<lambda>d. ck_name d \<noteq> ck_name c) (wp_cookies r) @ [c]\<rparr>"

definition set_header :: "string \<Rightarrow> string \<Rightarrow> web_response \<Rightarrow> web_response" where
  "set_header k v r = r\<lparr>wp_headers := (wp_headers r)(k \<mapsto> v)\<rparr>"

section \<open>Correlation ids\<close>

definition CORRELATION_ID_HEADER :: string where
  "CORRELATION_ID_HEADER = ''x-correlation-id''"

definition CORRELATION_ID_MAX_LENGTH :: nat where
  "CORRELATION_ID_MAX_LENGTH = 128"

definition correlation_char :: "char \<Rightarrow> bool" where
  "correlation_char c \<longleftrightarrow> is_lower c \<or> is_upper c \<or> is_digit c \<or> c \<in> set '':/_.-''"

definition CORRELATION_ID_PATTERN :: "string \<Rightarrow> bool" where
  "CORRELATION_ID_PATTERN s \<longleftrightarrow> list_all correlation_char s \<and> 8 \<le> length s \<and> length s \<le> 128"

definition normalizeCorrelationId :: "string option \<Rightarrow> string option" where
  "normalizeCorrelationId value =
     (if \<not> truthy value then None
      else let trimmed = trim (the value)
        in if trimmed = [] \<or> CORRELATION_ID_MAX_LENGTH < length trimmed then None
           else if CORRELATION_ID_PATTERN trimmed then Some trimmed else None)"

definition createCorrelationId :: "'n site \<Rightarrow> ('n, string) page" where
  "createCorrelationId W = (\<lambda>w. (Inr (ws_uuid W (wb_uuids w)), w\<lparr>wb_uuids := wb_uuids w + 1\<rparr>))"

definition ensureCorrelationId :: "'n site \<Rightarrow> string option \<Rightarrow> ('n, string) page" where
  "ensureCorrelationId W value =
     (case normalizeCorrelationId value of Some c \<Rightarrow> ret_x c | None \<Rightarrow> createCorrelationId W)"

definition resolveCorrelationId :: "'n site \<Rightarrow> web_request \<Rightarrow> ('n, string) page" where
  "resolveCorrelationId W req =
     (case normalizeCorrelationId (wq_header req CORRELATION_ID_HEADER) of
        Some c \<Rightarrow> ret_x c
      | None \<Rightarrow> ensureCorrelationId W None)"

section \<open>Configuration and headers\<close>

definition getWebConfig :: "'n site \<Rightarrow> ('n, web_config) page" where
  "getWebConfig W = of_sum (loadWebRuntimeConfig (ws_url W) (ws_env W))"

record cookie_names =
  cn_access :: string
  cn_refresh :: string
  cn_organization :: string

definition cookie_names_of :: "web_config \<Rightarrow> cookie_names" where
  "cookie_names_of C = \<lparr>cn_access = xf_cookieNamePrefix C @ ''_access_token'',
     cn_refresh = xf_cookieNamePrefix C @ ''_refresh_token'',
     cn_organization = xf_cookieNamePrefix C @ ''_organization_id''\<rparr>"

definition getAuthCookieNames :: "'n site \<Rightarrow> ('n, cookie_names) page" where
  "getAuthCookieNames W = bind_x (getWebConfig W) (\<lambda>C. ret_x (cookie_names_of C))"

definition strip_slashes :: "string \<Rightarrow> string" where
  "strip_slashes s = rev (dropWhile (\<lambda>c. c = CHR ''/'') (rev s))"

definition getApiBaseUrl :: "'n site \<Rightarrow> ('n, string) page" where
  "getApiBaseUrl W = bind_x (getWebConfig W) (\<lambda>C. ret_x (strip_slashes (xf_apiBaseUrl C)))"

definition header_if :: "string \<Rightarrow> string option \<Rightarrow> (string \<rightharpoonup> string) \<Rightarrow> (string \<rightharpoonup> string)" where
  "header_if k v hs = (if truthy v then hs(k := v) else hs)"

definition buildForwardedHeaders :: "web_request \<Rightarrow> string \<Rightarrow> (string \<rightharpoonup> string)" where
  "buildForwardedHeaders req correlationId =
     (header_if ''user-agent'' (wq_header req ''user-agent'')
       (header_if ''x-forwarded-for'' (wq_header req ''x-forwarded-for'') Map.empty))
     (CORRELATION_ID_HEADER \<mapsto> correlationId)"

definition getForwardedHeaders :: "'n site \<Rightarrow> web_request \<Rightarrow> ('n, string \<rightharpoonup> string) page" where
  "getForwardedHeaders W req =
     bind_x (resolveCorrelationId W req) (\<lambda>c. ret_x (buildForwardedHeaders req c))"

definition buildProxyHeaders ::
  "web_request \<Rightarrow> string \<Rightarrow> string option \<Rightarrow> string option \<Rightarrow> bool \<Rightarrow> (string \<rightharpoonup> string)" where
  "buildProxyHeaders req correlationId accessToken organizationId includeJsonBodyHeader =
     header_if ''x-organization-id'' organizationId
       (header_if ''authorization'' (if truthy accessToken then Some (''Bearer '' @ the accessToken) else None)
         ((if includeJsonBodyHeader then (\<lambda>hs. hs(''content-type'' \<mapsto> ''application/json'')) else id)
           (buildForwardedHeaders req correlationId)))"

section \<open>Cookies\<close>

record auth_payload =
  py_accessToken :: "string option"
  py_refreshToken :: "string option"
  py_organization :: "string option"

text \<open>\<^verbatim>\<open>payload.memberships?.[0]?.organizationId\<close>\<close>

definition first_organization :: "json \<Rightarrow> string option" where
  "first_organization j = (case j_get ''memberships'' j of
     Some (JArr (m # _)) \<Rightarrow> j_get_str ''organizationId'' m | _ \<Rightarrow> None)"

definition payload_of :: "json \<Rightarrow> auth_payload" where
  "payload_of j = \<lparr>py_accessToken = j_get_str ''accessToken'' j,
     py_refreshToken = j_get_str ''refreshToken'' j, py_organization = first_organization j\<rparr>"

definition cookie_of :: "web_config \<Rightarrow> string \<Rightarrow> string \<Rightarrow> int \<Rightarrow> cookie" where
  "cookie_of C name v maxAge = \<lparr>ck_name = name, ck_value = v, ck_maxAge = maxAge, ck_httpOnly = True,
     ck_sameSite = xf_cookieSameSite C, ck_secure = xf_cookieSecure C, ck_domain = xf_cookieDomain C, ck_path = ''/''\<rparr>"

definition organization_cookie :: "web_config \<Rightarrow> string \<Rightarrow> cookie" where
  "organization_cookie C organizationId =
     cookie_of C (cn_organization (cookie_names_of C)) organizationId (xf_refreshTtlSeconds C)"

definition setAuthCookies :: "'n site \<Rightarrow> auth_payload \<Rightarrow> string option \<Rightarrow> web_response \<Rightarrow> ('n, web_response) page" where
  "setAuthCookies W payload organizationId response =
     bind_x (getWebConfig W) (\<lambda>C. let names = cookie_names_of C;
         r1 = set_cookie (cookie_of C (cn_access names) (nullish (py_accessToken payload) []) (xf_accessTtlSeconds C)) response;
         r2 = set_cookie (cookie_of C (cn_refresh names) (nullish (py_refreshToken payload) []) (xf_refreshTtlSeconds C)) r1;
         fallbackOrganizationId = nullish2 organizationId (py_organization payload)
       in ret_x (if truthy fallbackOrganizationId
                 then set_cookie (organization_cookie C (the fallbackOrganizationId)) r2 else r2))"

definition setSelectedOrganizationCookie :: "'n site \<Rightarrow> string \<Rightarrow> web_response \<Rightarrow> ('n, web_response) page" where
  "setSelectedOrganizationCookie W organizationId response =
     bind_x (getWebConfig W) (\<lambda>C. ret_x (set_cookie (organization_cookie C organizationId) response))"

definition clearAuthCookies :: "'n site \<Rightarrow> web_response \<Rightarrow> ('n, web_response) page" where
  "clearAuthCookies W response =
     bind_x (getWebConfig W) (\<lambda>C. let names = cookie_names_of C
       in ret_x (fold (\<lambda>name. set_cookie (cookie_of C name [] 0))
            [cn_access names, cn_refresh names, cn_organization names] response))"

section \<open>The call upstream\<close>

definition failure_body :: "string \<Rightarrow> string \<Rightarrow> json" where
  "failure_body error correlationId = JObj [(''error'', JStr error), (''correlationId'', JStr correlationId)]"

definition failure_x :: "string \<Rightarrow> string \<Rightarrow> int \<Rightarrow> ('n, web_response) page" where
  "failure_x error correlationId status =
     response_x (Json_body (failure_body error correlationId)) status [CORRELATION_ID_HEADER \<mapsto> correlationId]"

definition refresh_body :: "string \<Rightarrow> string" where
  "refresh_body token = stableStringify (\<lambda>q. show_int \<lfloor>q\<rfloor>) (JObj [(''refreshToken'', JStr token)])"

text \<open>The truth value of a JSON value.\<close>

fun json_truthy :: "json \<Rightarrow> bool" where
  "json_truthy JNull = False"
| "json_truthy (JBool b) = b"
| "json_truthy (JNum q) = (q \<noteq> 0)"
| "json_truthy (JStr s) = (s \<noteq> [])"
| "json_truthy _ = True"

definition syntax_error :: js_error where
  "syntax_error = (plain_error ''Unexpected token in JSON'')\<lparr>er_name := ''SyntaxError''\<rparr>"

definition reply_json :: "reply \<Rightarrow> ('n, json) page" where
  "reply_json r = bind_x (of_sum (rp_text r)) (\<lambda>text.
     case json_parse text of None \<Rightarrow> throw_x syntax_error | Some j \<Rightarrow> ret_x j)"

definition auth_call :: "'n site \<Rightarrow> string \<Rightarrow> (string \<rightharpoonup> string) \<Rightarrow> string \<Rightarrow> ('n, reply) page" where
  "auth_call W path headers body =
     bind_x (getApiBaseUrl W) (\<lambda>base. fetch_x W \<lparr>fc_url = base @ path, fc_method = POST,
       fc_headers = headers(''content-type'' \<mapsto> ''application/json''), fc_body = Some body\<rparr>)"

definition refreshTokens :: "'n site \<Rightarrow> web_request \<Rightarrow> string \<Rightarrow> string \<Rightarrow> ('n, auth_payload option) page" where
  "refreshTokens W req refreshToken correlationId =
     bind_x (auth_call W ''/auth/refresh'' (buildForwardedHeaders req correlationId) (refresh_body refreshToken)) (\<lambda>response.
       if \<not> reply_ok response then ret_x None
       else bind_x (reply_json response) (\<lambda>j. ret_x (if json_truthy j then Some (payload_of j) else None)))"

record upstream_request =
  uq_url :: string
  uq_method :: http_method
  uq_body :: "string option"
  uq_requireAuth :: bool
  uq_requireOrganization :: bool
  uq_allowRefresh :: bool

datatype sent =
    Answered web_response
  | Upstream reply "auth_payload option" "string option"

definition upstream_call ::
  "web_request \<Rightarrow> upstream_request \<Rightarrow> string \<Rightarrow> string option \<Rightarrow> string option \<Rightarrow> fetch_call" where
  "upstream_call req q correlationId accessToken organizationId =
     \<lparr>fc_url = uq_url q, fc_method = uq_method q,
      fc_headers = buildProxyHeaders req correlationId accessToken
        (if uq_requireOrganization q then organizationId else None) (uq_method q \<noteq> GET \<and> uq_method q \<noteq> DELETE),
      fc_body = uq_body q\<rparr>"

definition signed_out :: "'n site \<Rightarrow> string \<Rightarrow> ('n, web_response) page" where
  "signed_out W correlationId =
     bind_x (response_x (Json_body (JObj [(''error'', JStr ''Authentication required'')])) 401
       [CORRELATION_ID_HEADER \<mapsto> correlationId]) (clearAuthCookies W)"

definition sendUpstreamRequest :: "'n site \<Rightarrow> web_request \<Rightarrow> upstream_request \<Rightarrow> string \<Rightarrow> ('n, sent) page" where
  "sendUpstreamRequest W req q correlationId =
     bind_x (getAuthCookieNames W) (\<lambda>names.
     let accessToken = wq_cookie req (cn_access names);
         refreshToken = wq_cookie req (cn_refresh names);
         organizationId = wq_cookie req (cn_organization names)
     in if uq_requireAuth q \<and> \<not> truthy accessToken \<and> \<not> truthy refreshToken
        then bind_x (failure_x ''Authentication required'' correlationId 401) (\<lambda>r. ret_x (Answered r))
        else if uq_requireOrganization q \<and> \<not> truthy organizationId
        then bind_x (failure_x ''Organization selection required'' correlationId 400) (\<lambda>r. ret_x (Answered r))
        else bind_x (fetch_x W (upstream_call req q correlationId accessToken organizationId)) (\<lambda>first.
          if rp_status first = 401 \<and> uq_allowRefresh q \<and> truthy refreshToken
          then bind_x (refreshTokens W req (the refreshToken) correlationId) (\<lambda>refreshed.
            case refreshed of
              None \<Rightarrow> bind_x (signed_out W correlationId) (\<lambda>r. ret_x (Answered r))
            | Some payload \<Rightarrow>
                bind_x (fetch_x W (upstream_call req q correlationId (py_accessToken payload) organizationId))
                  (\<lambda>second. ret_x (Upstream second (Some payload) organizationId)))
          else ret_x (Upstream first None organizationId)))"

section \<open>The proxy\<close>

record proxy_request =
  px_url :: string
  px_method :: http_method
  px_context :: string

definition buildSanitizedFailureResponse :: "string \<Rightarrow> string \<Rightarrow> int \<Rightarrow> string option \<Rightarrow> ('n, web_response) page" where
  "buildSanitizedFailureResponse correlationId errorContext status upstreamCorrelationId =
     failure_x errorContext (nullish upstreamCorrelationId correlationId) status"

definition answer_upstream ::
  "'n site \<Rightarrow> string \<Rightarrow> proxy_request \<Rightarrow> reply \<Rightarrow> auth_payload option \<Rightarrow> string option \<Rightarrow> ('n, web_response) page" where
  "answer_upstream W correlationId p upstream refreshedAuth organizationId =
     (if \<not> reply_ok upstream
      then buildSanitizedFailureResponse correlationId (px_context p) (rp_status upstream)
             (rp_header upstream CORRELATION_ID_HEADER)
      else bind_x (of_sum (rp_text upstream)) (\<lambda>body.
        bind_x (response_x (Text_body body) (rp_status upstream)
          [''content-type'' \<mapsto> ''application/json'',
           CORRELATION_ID_HEADER \<mapsto> nullish (rp_header upstream CORRELATION_ID_HEADER) correlationId]) (\<lambda>response.
        case refreshedAuth of
          None \<Rightarrow> ret_x response
        | Some payload \<Rightarrow> setAuthCookies W payload organizationId response)))"

text \<open>Every caller leaves \<^verbatim>\<open>requireAuth\<close>, \<^verbatim>\<open>requireOrganization\<close> and
  \<^verbatim>\<open>allowRefresh\<close> at their default \<^verbatim>\<open>true\<close>.\<close>

definition proxyJsonRequest :: "'n site \<Rightarrow> web_request \<Rightarrow> proxy_request \<Rightarrow> ('n, web_response) page" where
  "proxyJsonRequest W req p =
     bind_x (resolveCorrelationId W req) (\<lambda>correlationId.
       catch_x
         (bind_x (if px_method p = GET \<or> px_method p = DELETE then ret_x None
             else bind_x (of_sum (wq_body req)) (\<lambda>b. ret_x (Some b))) (\<lambda>forwardedBody.
          bind_x (sendUpstreamRequest W req \<lparr>uq_url = px_url p, uq_method = px_method p, uq_body = forwardedBody,
            uq_requireAuth = True, uq_requireOrganization = True, uq_allowRefresh = True\<rparr> correlationId) (\<lambda>sent.
          case sent of
            Answered r \<Rightarrow> ret_x (set_header CORRELATION_ID_HEADER correlationId r)
          | Upstream upstream refreshedAuth organizationId \<Rightarrow>
              answer_upstream W correlationId p upstream refreshedAuth organizationId)))
         (\<lambda>_. failure_x (px_context p) correlationId 502))"

definition fetchAuthenticatedJson :: "'n site \<Rightarrow> web_request \<Rightarrow> string \<Rightarrow> bool \<Rightarrow> ('n, sent) page" where
  "fetchAuthenticatedJson W req upstreamUrl requireOrganization =
     bind_x (resolveCorrelationId W req) (\<lambda>correlationId.
       sendUpstreamRequest W req \<lparr>uq_url = upstreamUrl, uq_method = GET, uq_body = None, uq_requireAuth = True,
         uq_requireOrganization = requireOrganization, uq_allowRefresh = True\<rparr> correlationId)"

section \<open>Session routes\<close>

text \<open>\<^verbatim>\<open>JSON.parse\<close>; reading a member of \<^verbatim>\<open>null\<close> or \<^verbatim>\<open>undefined\<close> is a \<^verbatim>\<open>TypeError\<close>.\<close>

definition type_error :: js_error where
  "type_error = (plain_error ''Cannot read properties of undefined'')\<lparr>er_name := ''TypeError''\<rparr>"

definition parse_x :: "string \<Rightarrow> ('n, json) page" where
  "parse_x text = (case json_parse text of
     None \<Rightarrow> throw_x syntax_error
   | Some JNull \<Rightarrow> throw_x type_error
   | Some j \<Rightarrow> ret_x j)"

definition session_body :: "json \<Rightarrow> web_body" where
  "session_body j = Json_body (JObj (j_field ''user'' (j_get ''user'' j) @ j_field ''memberships'' (j_get ''memberships'' j)))"

definition entry_accepted :: "'n site \<Rightarrow> reply \<Rightarrow> string \<Rightarrow> string \<Rightarrow> ('n, web_response) page" where
  "entry_accepted W response correlationId body =
     bind_x (parse_x body) (\<lambda>j.
     bind_x (response_x (session_body j) 200
       [CORRELATION_ID_HEADER \<mapsto> nullish (rp_header response CORRELATION_ID_HEADER) correlationId]) (\<lambda>r.
       if j_get ''memberships'' j \<in> {None, Some JNull} then throw_x type_error
       else setAuthCookies W (payload_of j) (first_organization j) r))"

text \<open>Login and registration differ in the path and the text of a failure only.\<close>

definition entry_route :: "'n site \<Rightarrow> string \<Rightarrow> string \<Rightarrow> web_request \<Rightarrow> ('n, web_response) page" where
  "entry_route W path failed req =
     bind_x (resolveCorrelationId W req) (\<lambda>correlationId.
       catch_x
         (bind_x (getForwardedHeaders W req) (\<lambda>headers.
          bind_x (getApiBaseUrl W) (\<lambda>_.
          bind_x (of_sum (wq_body req)) (\<lambda>sent.
          bind_x (auth_call W path headers sent) (\<lambda>response.
          bind_x (of_sum (rp_text response)) (\<lambda>body.
            if \<not> reply_ok response
            then response_x (Text_body (if body = [] then stableStringify (\<lambda>_. []) (JObj [(''error'', JStr failed)]) else body))
              (rp_status response) [''content-type'' \<mapsto> ''application/json'',
                CORRELATION_ID_HEADER \<mapsto> nullish (rp_header response CORRELATION_ID_HEADER) correlationId]
            else entry_accepted W response correlationId body))))))
         (\<lambda>_. bind_x (failure_x failed correlationId 502) (clearAuthCookies W)))"

definition login_route :: "'n site \<Rightarrow> web_request \<Rightarrow> ('n, web_response) page" where
  "login_route W = entry_route W ''/auth/login'' ''Login failed''"

definition register_route :: "'n site \<Rightarrow> web_request \<Rightarrow> ('n, web_response) page" where
  "register_route W = entry_route W ''/auth/register'' ''Registration failed''"

definition logout_route :: "'n site \<Rightarrow> web_request \<Rightarrow> ('n, web_response) page" where
  "logout_route W req =
     bind_x (resolveCorrelationId W req) (\<lambda>correlationId.
     bind_x (getAuthCookieNames W) (\<lambda>names. let refreshToken = wq_cookie req (cn_refresh names) in
     then_x (when_x (truthy refreshToken)
         (bind_x (getForwardedHeaders W req) (\<lambda>headers.
          bind_x (getApiBaseUrl W) (\<lambda>_.
            ignore_x (auth_call W ''/auth/logout'' headers (refresh_body (the refreshToken)))))))
     (bind_x (response_x (Json_body (JObj [(''success'', JBool True)])) 200 [CORRELATION_ID_HEADER \<mapsto> correlationId])
       (clearAuthCookies W))))"

definition refresh_refused :: "'n site \<Rightarrow> string \<Rightarrow> int \<Rightarrow> string \<Rightarrow> ('n, web_response) page" where
  "refresh_refused W correlationId status headerId =
     bind_x (response_x (Json_body (failure_body ''Authentication required'' correlationId)) status
       [CORRELATION_ID_HEADER \<mapsto> headerId]) (clearAuthCookies W)"

definition refresh_route :: "'n site \<Rightarrow> web_request \<Rightarrow> ('n, web_response) page" where
  "refresh_route W req =
     bind_x (resolveCorrelationId W req) (\<lambda>correlationId.
     bind_x (getAuthCookieNames W) (\<lambda>names. let refreshToken = wq_cookie req (cn_refresh names) in
       if \<not> truthy refreshToken then refresh_refused W correlationId 401 correlationId
       else catch_x
         (bind_x (getForwardedHeaders W req) (\<lambda>headers.
          bind_x (auth_call W ''/auth/refresh'' headers (refresh_body (the refreshToken))) (\<lambda>response.
          bind_x (of_sum (rp_text response)) (\<lambda>body.
            let headerId = nullish (rp_header response CORRELATION_ID_HEADER) correlationId in
            if \<not> reply_ok response then refresh_refused W correlationId (rp_status response) headerId
            else bind_x (parse_x body) (\<lambda>j.
              bind_x (response_x (session_body j) 200 [CORRELATION_ID_HEADER \<mapsto> headerId])
                (setAuthCookies W (payload_of j) (wq_cookie req (cn_organization names))))))))
         (\<lambda>_. refresh_refused W correlationId 502 correlationId)))"

definition me_route :: "'n site \<Rightarrow> web_request \<Rightarrow> ('n, web_response) page" where
  "me_route W req =
     bind_x (getApiBaseUrl W) (\<lambda>base.
     bind_x (fetchAuthenticatedJson W req (base @ ''/auth/me'') False) (\<lambda>result.
     case result of
       Answered r \<Rightarrow> ret_x r
     | Upstream upstream refreshedAuth organizationId \<Rightarrow>
         bind_x (of_sum (rp_text upstream)) (\<lambda>body.
           if \<not> reply_ok upstream
           then bind_x (response_x (Json_body (JObj [(''error'', JStr ''Authentication required'')])) (rp_status upstream) Map.empty)
             (if rp_status upstream = 401 then clearAuthCookies W else ret_x)
           else bind_x (response_x (Text_body body) (rp_status upstream) [''content-type'' \<mapsto> ''application/json''])
             (case refreshedAuth of None \<Rightarrow> ret_x | Some payload \<Rightarrow> setAuthCookies W payload organizationId))))"

text \<open>Whether one of the memberships is of the organisation; \<^verbatim>\<open>find\<close> needs an array, and a null
  member is a \<^verbatim>\<open>TypeError\<close>.\<close>

definition find_membership :: "string \<Rightarrow> json \<Rightarrow> ('n, bool) page" where
  "find_membership organizationId me = (case j_get ''memberships'' me of
     Some (JArr ms) \<Rightarrow>
       (let before = takeWhile (\<lambda>m. j_get_str ''organizationId'' m \<noteq> Some organizationId) ms
        in if JNull \<in> set before then throw_x type_error else ret_x (before \<noteq> ms))
   | _ \<Rightarrow> throw_x type_error)"

definition organization_route :: "'n site \<Rightarrow> web_request \<Rightarrow> ('n, web_response) page" where
  "organization_route W req =
     bind_x (of_sum (wq_body req)) (\<lambda>text. bind_x (parse_x text) (\<lambda>payload.
     let organizationId = nullish (map_option trim (j_get_str ''organizationId'' payload)) [] in
     if j_get_str ''organizationId'' payload = None \<and> j_get ''organizationId'' payload \<notin> {None, Some JNull}
     then throw_x type_error
     else if organizationId = []
     then response_x (Json_body (JObj [(''error'', JStr ''Organization selection is required'')])) 400 Map.empty
     else bind_x (getApiBaseUrl W) (\<lambda>base.
       bind_x (fetchAuthenticatedJson W req (base @ ''/auth/me'') False) (\<lambda>result.
       case result of
         Answered r \<Rightarrow> ret_x r
       | Upstream upstream refreshedAuth _ \<Rightarrow>
           if \<not> reply_ok upstream
           then response_x (Json_body (JObj [(''error'', JStr ''Authentication required'')])) (rp_status upstream) Map.empty
           else bind_x (reply_json upstream) (\<lambda>me. bind_x (find_membership organizationId me) (\<lambda>membership.
             if \<not> membership then response_x (Json_body (JObj [(''error'', JStr ''Forbidden'')])) 403 Map.empty
             else bind_x (response_x (Json_body (JObj [(''organizationId'', JStr organizationId)])) 200 Map.empty) (\<lambda>r.
               bind_x (setSelectedOrganizationCookie W organizationId r)
                 (case refreshedAuth of None \<Rightarrow> ret_x | Some auth \<Rightarrow> setAuthCookies W auth (Some organizationId)))))))))"

text \<open>The export of the audit search, the one page that answers with the body as it comes.\<close>

definition export_route :: "'n site \<Rightarrow> web_request \<Rightarrow> ('n, web_response) page" where
  "export_route W req =
     bind_x (getApiBaseUrl W) (\<lambda>base.
     bind_x (fetchAuthenticatedJson W req (base @ ''/operations/audit/export'' @ wq_search req) True) (\<lambda>result.
     case result of
       Answered r \<Rightarrow> ret_x r
     | Upstream upstream _ _ \<Rightarrow>
         bind_x (of_sum (rp_text upstream)) (\<lambda>body.
         response_x (Text_body body) (rp_status upstream)
           ((header_if ''content-disposition'' (rp_header upstream ''content-disposition'')
              [''content-type'' \<mapsto> nullish (rp_header upstream ''content-type'') ''text/csv''])
            (CORRELATION_ID_HEADER \<mapsto> nullish (nullish2 (rp_header upstream CORRELATION_ID_HEADER)
               (wq_header req CORRELATION_ID_HEADER)) [])))))"

section \<open>What the browser gets\<close>

lemma page_run [run_simps]:
  "of_sum r w = (r, w)"
  "fetch_x W c w = (fst (ws_fetch W c (wb_net w)), w\<lparr>wb_net := snd (ws_fetch W c (wb_net w)), wb_calls := wb_calls w @ [c]\<rparr>)"
  "createCorrelationId W w = (Inr (ws_uuid W (wb_uuids w)), w\<lparr>wb_uuids := wb_uuids w + 1\<rparr>)"
  by (simp_all add: of_sum_def fetch_x_def createCorrelationId_def split: prod.split)

text \<open>The texts of the proxy's own.\<close>

definition own_error :: "string \<Rightarrow> json \<Rightarrow> bool" where
  "own_error context body \<longleftrightarrow>
     (\<exists>e \<in> {context, ''Authentication required'', ''Organization selection required''}.
        body = JObj [(''error'', JStr e)] \<or> (\<exists>c. body = failure_body e c))"

text \<open>What a response may be: an error of the proxy's own, or a text that came with a status of
  success; and its cookies are out of reach of scripts.\<close>

definition conceals :: "string \<Rightarrow> web_response \<Rightarrow> bool" where
  "conceals context r \<longleftrightarrow>
     (case wp_body r of Json_body j \<Rightarrow> own_error context j | Text_body _ \<Rightarrow> 200 \<le> wp_status r \<and> wp_status r \<le> 299) \<and>
     list_all ck_httpOnly (wp_cookies r)"

abbreviation returns :: "('n, 'a) page \<Rightarrow> ('a \<Rightarrow> bool) \<Rightarrow> bool" where
  "returns m R \<equiv> ensures (\<lambda>_. True) m (\<lambda>a _. R a)"

lemma response_x_conceals:
  "own_error x j \<Longrightarrow> returns (response_x (Json_body j) s hs) (conceals x)"
  "200 \<le> s \<Longrightarrow> s \<le> 299 \<Longrightarrow> returns (response_x (Text_body b) s hs) (conceals x)"
  by (auto simp: response_x_def conceals_def ensures_def run_simps)

lemma set_cookie_conceals: "conceals x r \<Longrightarrow> ck_httpOnly c \<Longrightarrow> conceals x (set_cookie c r)"
  by (auto simp: conceals_def set_cookie_def list_all_iff split: web_body.splits)

lemma set_header_conceals: "conceals x r \<Longrightarrow> conceals x (set_header k v r)"
  by (auto simp: conceals_def set_header_def split: web_body.splits)

lemma cookies_conceal:
  assumes "conceals x r"
  shows "returns (setAuthCookies W payload i r) (conceals x)" "returns (clearAuthCookies W r) (conceals x)"
  unfolding setAuthCookies_def clearAuthCookies_def organization_cookie_def Let_def
  by (auto intro!: ensures_true_bind ensures_ret set_cookie_conceals assms simp: cookie_of_def)

lemma own_errors:
  "own_error x (failure_body x c)" "own_error x (failure_body ''Authentication required'' c)"
  "own_error x (failure_body ''Organization selection required'' c)"
  "own_error x (JObj [(''error'', JStr ''Authentication required'')])"
  by (auto simp: own_error_def)

lemma send_conceals:
  "returns (sendUpstreamRequest W req q c) (\<lambda>s. case s of Answered r \<Rightarrow> conceals x r | Upstream _ _ _ \<Rightarrow> True)"
  unfolding sendUpstreamRequest_def signed_out_def failure_x_def Let_def
  by (intro ensures_true_bind ensures_if ensures_option ensures_ret
      ensures_bind_value [OF response_x_conceals(1)] ensures_bind_value [OF cookies_conceal(2)]
      ensures_bind_value [OF ensures_bind_value [OF response_x_conceals(1) cookies_conceal(2)]] own_errors)
    (simp_all)

lemma answer_conceals: "returns (answer_upstream W c p u a i) (conceals (px_context p))"
proof (cases "reply_ok u")
  case False
  then show ?thesis
    by (simp add: answer_upstream_def buildSanitizedFailureResponse_def failure_x_def response_x_conceals(1) own_errors)
next
  case True
  have cookies: "returns (case a of None \<Rightarrow> ret_x r | Some payload \<Rightarrow> setAuthCookies W payload i r) (conceals (px_context p))"
    if "conceals (px_context p) r" for r
    using that by (cases a) (simp_all add: cookies_conceal ensures_ret)
  have "returns (answer_upstream W c p u a i) (conceals (px_context p)) = returns (bind_x (of_sum (rp_text u)) (\<lambda>body.
      bind_x (response_x (Text_body body) (rp_status u) [''content-type'' \<mapsto> ''application/json'',
        CORRELATION_ID_HEADER \<mapsto> nullish (rp_header u CORRELATION_ID_HEADER) c])
      (\<lambda>r. case a of None \<Rightarrow> ret_x r | Some payload \<Rightarrow> setAuthCookies W payload i r))) (conceals (px_context p))"
    using True by (simp add: answer_upstream_def)
  also have "\<dots>"
    by (rule ensures_true_bind, rule ensures_bind_value [OF response_x_conceals(2) cookies])
      (use True in \<open>simp_all add: reply_ok_def\<close>)
  finally show ?thesis .
qed

text \<open>The handler of every error answers, whatever went wrong.\<close>

lemma failure_returns: "fst (failure_x t c 502 w) = Inr \<lparr>wp_status = 502, wp_body = Json_body (failure_body t c),
    wp_headers = [CORRELATION_ID_HEADER \<mapsto> c], wp_cookies = []\<rparr>"
  by (simp add: failure_x_def response_x_def run_simps)

lemma resolve_returns: "\<exists>c. fst (resolveCorrelationId W req w) = Inr c"
  by (auto simp: resolveCorrelationId_def ensureCorrelationId_def run_simps split: option.split)

lemma proxy_returns: "\<exists>r. fst (proxyJsonRequest W req p w) = Inr r"
proof -
  have handled: "\<exists>r. fst (catch_x m (\<lambda>_. failure_x t c 502) v) = Inr r" for m :: "('a, web_response) page" and t c v
    using failure_returns by (cases "fst (m v)") (auto simp: catch_x_run)
  obtain c where "fst (resolveCorrelationId W req w) = Inr c" using resolve_returns by blast
  then show ?thesis unfolding proxyJsonRequest_def by (simp add: bind_x_run handled)
qed


section \<open>What it sends\<close>

text \<open>\<open>sends n good m\<close>: \<open>m\<close> calls upstream at most \<open>n\<close> times, and only as \<open>good\<close> says.\<close>

definition sends :: "nat \<Rightarrow> (fetch_call \<Rightarrow> bool) \<Rightarrow> ('n, 'a) page \<Rightarrow> bool" where
  "sends n good m \<longleftrightarrow> (\<forall>w. \<exists>cs. wb_calls (snd (m w)) = wb_calls w @ cs \<and> length cs \<le> n \<and> list_all good cs)"

lemma sends_none: "(\<And>w. wb_calls (snd (m w)) = wb_calls w) \<Longrightarrow> sends n good m"
  by (simp add: sends_def)

lemma sends_basic:
  "sends n good (ret_x a)" "sends n good (throw_x e)" "sends n good (of_sum v)" "sends n good (getWebConfig W)"
  "sends n good (response_x b s hs)" "sends n good (setAuthCookies W payload i r)" "sends n good (clearAuthCookies W r)"
  "sends n good (getApiBaseUrl W)" "sends n good (getAuthCookieNames W)" "sends n good (resolveCorrelationId W req)"
  "sends n good (getForwardedHeaders W req)" "sends n good (failure_x t c s)" "sends n good (signed_out W c)"
  "sends n good (reply_json u)"
  by (rule sends_none, auto simp: run_simps getWebConfig_def response_x_def setAuthCookies_def clearAuthCookies_def
      getApiBaseUrl_def getAuthCookieNames_def resolveCorrelationId_def ensureCorrelationId_def getForwardedHeaders_def
      failure_x_def signed_out_def reply_json_def Let_def split: sum.split option.split)+

lemma sends_fetch: "good c \<Longrightarrow> sends (Suc n) good (fetch_x W c)"
  by (simp add: sends_def run_simps)

lemma sends_bind:
  assumes "sends n good m" "\<And>a. sends k good (f a)"
  shows "sends (n + k) good (bind_x m f)"
  unfolding sends_def
proof
  fix w
  obtain r v where m: "m w = (r, v)" by (cases "m w")
  obtain cs where cs: "wb_calls v = wb_calls w @ cs" "length cs \<le> n" "list_all good cs"
    using assms(1) m unfolding sends_def by (metis snd_conv)
  show "\<exists>cs. wb_calls (snd (bind_x m f w)) = wb_calls w @ cs \<and> length cs \<le> n + k \<and> list_all good cs"
  proof (cases r)
    case (Inl e)
    then show ?thesis using cs m by (simp add: run_simps)
  next
    case (Inr a)
    obtain ds where "wb_calls (snd (f a v)) = wb_calls v @ ds" "length ds \<le> k" "list_all good ds"
      using assms(2) unfolding sends_def by blast
    then show ?thesis using cs m Inr by (auto simp: run_simps intro!: exI [of _ "cs @ ds"])
  qed
qed

text \<open>A call on behalf of the request \<open>k\<close>: to the page asked for, or an exchange of the token.\<close>

definition call_for :: "string \<Rightarrow> string \<Rightarrow> fetch_call \<Rightarrow> bool" where
  "call_for url k c \<longleftrightarrow> fc_headers c CORRELATION_ID_HEADER = Some k \<and>
     (fc_url c = url \<or> fc_method c = POST \<and> (\<exists>base. fc_url c = base @ ''/auth/refresh''))"

lemma forwarded_id: "buildForwardedHeaders req k CORRELATION_ID_HEADER = Some k"
  by (simp add: buildForwardedHeaders_def)

lemma proxied_id: "buildProxyHeaders req k t i b CORRELATION_ID_HEADER = Some k"
  by (simp add: buildProxyHeaders_def header_if_def forwarded_id) (simp add: CORRELATION_ID_HEADER_def)

lemma upstream_for: "call_for (uq_url q) k (upstream_call req q k t i)"
  by (simp add: call_for_def upstream_call_def proxied_id)

lemma sends_free: "sends 0 good m \<Longrightarrow> (\<And>a. sends n good (f a)) \<Longrightarrow> sends n good (bind_x m f)"
  using sends_bind [of 0 good m n f] by simp

lemma sends_once: "sends (Suc 0) good m \<Longrightarrow> (\<And>a. sends n good (f a)) \<Longrightarrow> sends (Suc n) good (bind_x m f)"
  using sends_bind [of "Suc 0" good m n f] by simp

lemma sends_call: "good c \<Longrightarrow> (\<And>a. sends n good (f a)) \<Longrightarrow> sends (Suc n) good (bind_x (fetch_x W c) f)"
  by (rule sends_once [OF sends_fetch])

lemma sends_cases:
  "(b \<Longrightarrow> sends n good m) \<Longrightarrow> (\<not> b \<Longrightarrow> sends n good m') \<Longrightarrow> sends n good (if b then m else m')"
  "sends n good m \<Longrightarrow> (\<And>x. sends n good (g x)) \<Longrightarrow> sends n good (case v of None \<Rightarrow> m | Some x \<Rightarrow> g x)"
  by (simp_all split: option.split)

lemma sends_auth:
  "sends (Suc 0) (call_for url k) (auth_call W ''/auth/refresh'' (buildForwardedHeaders req k) body)"
  unfolding auth_call_def
  by (intro sends_free sends_basic sends_fetch) (simp add: call_for_def forwarded_id, simp add: CORRELATION_ID_HEADER_def)

lemma sends_refresh: "sends (Suc 0) (call_for url k) (refreshTokens W req t k)"
  unfolding refreshTokens_def by (intro sends_once [OF sends_auth] sends_cases sends_free sends_basic)

lemma sends_upstream: "sends (Suc (Suc (Suc 0))) (call_for (uq_url q) k) (sendUpstreamRequest W req q k)"
  unfolding sendUpstreamRequest_def Let_def
  by (intro sends_free [OF sends_basic(9)] sends_cases sends_free [OF sends_basic(12)] sends_free [OF sends_basic(13)]
      sends_basic sends_call sends_once [OF sends_refresh] upstream_for)

lemma sends_catch: "sends n good m \<Longrightarrow> (\<And>e. sends 0 good (h e)) \<Longrightarrow> sends n good (catch_x m h)"
  unfolding sends_def by (fastforce simp: run_simps split: sum.split)

lemma sends_answer: "sends n good (answer_upstream W k p u a i)"
  unfolding answer_upstream_def buildSanitizedFailureResponse_def
  by (intro sends_cases sends_basic sends_free)

text \<open>A request of the browser makes at most three calls to the API, whatever it answers: the page asked
  for, one exchange of the refresh token and the page again; all of them carry one correlation id.\<close>

theorem proxy_calls_bounded:
  "\<exists>cs k. wb_calls (snd (proxyJsonRequest W req p w)) = wb_calls w @ cs \<and> length cs \<le> 3 \<and>
     list_all (call_for (px_url p) k) cs"
proof -
  obtain k where k: "fst (resolveCorrelationId W req w) = Inr k" using resolve_returns by blast
  let ?v = "snd (resolveCorrelationId W req w)"
  let ?q = "\<lambda>b. \<lparr>uq_url = px_url p, uq_method = px_method p, uq_body = b,
            uq_requireAuth = True, uq_requireOrganization = True, uq_allowRefresh = True\<rparr>"
  have body: "sends 0 good (if px_method p = GET \<or> px_method p = DELETE then ret_x None
      else bind_x (of_sum (wq_body req)) (\<lambda>b. ret_x (Some b)))" for good
    by (intro sends_cases sends_basic sends_free)
  have up: "sends (Suc (Suc (Suc 0))) (call_for (px_url p) k) (sendUpstreamRequest W req (?q b) k)" for b
    using sends_upstream [of "?q b"] by simp
  have sent: "sends 0 (call_for (px_url p) k) (case sent of
        Answered r \<Rightarrow> ret_x (set_header CORRELATION_ID_HEADER k r)
      | Upstream u a i \<Rightarrow> answer_upstream W k p u a i)" for sent
    by (cases sent) (simp_all add: sends_basic sends_answer)
  have "sends (Suc (Suc (Suc 0))) (call_for (px_url p) k) (catch_x
      (bind_x (if px_method p = GET \<or> px_method p = DELETE then ret_x None
          else bind_x (of_sum (wq_body req)) (\<lambda>b. ret_x (Some b))) (\<lambda>b.
        bind_x (sendUpstreamRequest W req (?q b) k) (\<lambda>sent. case sent of
          Answered r \<Rightarrow> ret_x (set_header CORRELATION_ID_HEADER k r)
        | Upstream u a i \<Rightarrow> answer_upstream W k p u a i)))
      (\<lambda>_. failure_x (px_context p) k 502))"
    using sends_bind [OF up sent] by (intro sends_catch sends_free [OF body] sends_basic) simp
  from this [unfolded sends_def, rule_format, of ?v] k sends_basic(10) [of 0 "\<lambda>_. True" W req, unfolded sends_def, rule_format, of w]
  show ?thesis unfolding proxyJsonRequest_def by (fastforce simp: bind_x_run numeral_3_eq_3)
qed

text \<open>Without a token, or without an organisation chosen, nothing is sent.\<close>

lemma no_session_no_call:
  assumes "loadWebRuntimeConfig (ws_url W) (ws_env W) = Inr C" "uq_requireAuth q" "uq_requireOrganization q"
    and "\<not> truthy (wq_cookie req (cn_access (cookie_names_of C))) \<and> \<not> truthy (wq_cookie req (cn_refresh (cookie_names_of C))) \<or>
      \<not> truthy (wq_cookie req (cn_organization (cookie_names_of C)))"
  shows "wb_calls (snd (sendUpstreamRequest W req q k w)) = wb_calls w"
  using assms
  by (auto simp: sendUpstreamRequest_def getAuthCookieNames_def getWebConfig_def run_simps failure_x_def response_x_def Let_def)

end
