(* ===== verification/WebSession.thy ===== *)
theory WebSession
  imports WebProxy Auth
begin

text \<open>
  The proxy of \<^verbatim>\<open>WebProxy\<close> in front of the sessions of \<^verbatim>\<open>Auth\<close>: the API as \<^verbatim>\<open>fetch\<close>
  reaches it, with the exchange of refresh tokens as the service does it and every other page as it
  answers. What is composed is the life of a session: a refresh token works once, so a browser that
  does not get the new one is signed out.
\<close>

section \<open>The API behind the proxy\<close>

text \<open>\<open>ap_render\<close> is \<^verbatim>\<open>JSON.stringify\<close> of an answer, \<open>ap_page\<close> what the pages other than the
  exchange answer; \<open>ap_ip\<close> is the address the API sees.\<close>

record api =
  ap_render :: "auth_response \<Rightarrow> string"
  ap_page :: "fetch_call \<Rightarrow> js_error + reply"
  ap_ip :: "string option"

definition call_metadata :: "api \<Rightarrow> fetch_call \<Rightarrow> request_metadata" where
  "call_metadata P c = \<lparr>md_userAgent = fc_headers c ''user-agent'', md_ipAddress = ap_ip P\<rparr>"

definition text_reply :: "int \<Rightarrow> string \<Rightarrow> reply" where
  "text_reply status text = \<lparr>rp_status = status, rp_header = Map.empty, rp_text = Inr text\<rparr>"

text \<open>\<^verbatim>\<open>AuthController.refresh\<close>: a body without a token is a bad request, a thrown error answers
  with its status or 500, and a \<^verbatim>\<open>POST\<close> that returns with 201.\<close>

definition refresh_endpoint :: "ext \<Rightarrow> auth_config \<Rightarrow> api \<Rightarrow> fetch_call \<Rightarrow> world \<Rightarrow> reply \<times> world" where
  "refresh_endpoint E A P c w =
     (case Option.bind (Option.bind (fc_body c) json_parse) (j_get_str ''refreshToken'') of
        None \<Rightarrow> (text_reply 400 [], w)
      | Some token \<Rightarrow> (case refresh E A token (call_metadata P c) w of
          (Inl e, v) \<Rightarrow> (text_reply (nullish (er_status e) 500) [], v)
        | (Inr r, v) \<Rightarrow> (text_reply 201 (ap_render P r), v)))"

definition api_fetch :: "ext \<Rightarrow> auth_config \<Rightarrow> api \<Rightarrow> string \<Rightarrow> fetch_call \<Rightarrow> world \<Rightarrow> (js_error + reply) \<times> world" where
  "api_fetch E A P base c w =
     (if fc_url c = base @ ''/auth/refresh'' then (case refresh_endpoint E A P c w of (r, v) \<Rightarrow> (Inr r, v))
      else (ap_page P c, w))"

text \<open>Reading the answer back gives its tokens.\<close>

definition renders :: "api \<Rightarrow> bool" where
  "renders P \<longleftrightarrow> (\<forall>r. \<exists>j. json_parse (ap_render P r) = Some j \<and> json_truthy j \<and>
     py_accessToken (payload_of j) = Some (ar_accessToken r) \<and> py_refreshToken (payload_of j) = Some (ar_refreshToken r))"

lemma refresh_body_read: "json_parse (refresh_body t) = Some (JObj [(''refreshToken'', JStr t)])"
  using p_value_stringify [of "\<lambda>q. show_int \<lfloor>q\<rfloor>" "JObj [(''refreshToken'', JStr t)]" "[]"]
  by (simp add: refresh_body_def json_parse_def delim_def skip_ws_def)

text \<open>A request with what it needs: a configured site over this API, both cookies, and a method without
  a body.\<close>

definition session_request ::
  "ext \<Rightarrow> auth_config \<Rightarrow> api \<Rightarrow> world site \<Rightarrow> web_config \<Rightarrow> web_request \<Rightarrow> proxy_request \<Rightarrow> string \<Rightarrow> bool" where
  "session_request E A P W C req p token \<longleftrightarrow>
     loadWebRuntimeConfig (ws_url W) (ws_env W) = Inr C \<and>
     ws_fetch W = api_fetch E A P (strip_slashes (xf_apiBaseUrl C)) \<and>
     wq_cookie req (cn_refresh (cookie_names_of C)) = Some token \<and> token \<noteq> [] \<and>
     truthy (wq_cookie req (cn_organization (cookie_names_of C))) \<and> px_method p = GET \<and>
     px_url p \<noteq> strip_slashes (xf_apiBaseUrl C) @ ''/auth/refresh''"

definition bearer :: "string option \<Rightarrow> string option" where
  "bearer t = (if truthy t then Some (''Bearer '' @ the t) else None)"

lemma authorization_header: "fc_headers (upstream_call req q k t i) ''authorization'' = bearer t"
  by (auto simp: upstream_call_def buildProxyHeaders_def buildForwardedHeaders_def header_if_def bearer_def
      CORRELATION_ID_HEADER_def)

definition browser_md :: "api \<Rightarrow> web_request \<Rightarrow> request_metadata" where
  "browser_md P req = \<lparr>md_userAgent = (if truthy (wq_header req ''user-agent'') then wq_header req ''user-agent'' else None),
     md_ipAddress = ap_ip P\<rparr>"

lemma exchange_metadata:
  "call_metadata P \<lparr>fc_url = u, fc_method = m, fc_headers = (buildForwardedHeaders req k)(''content-type'' \<mapsto> x),
     fc_body = b\<rparr> = browser_md P req"
  by (auto simp: call_metadata_def browser_md_def buildForwardedHeaders_def header_if_def CORRELATION_ID_HEADER_def)

lemma resolve_keeps: "\<exists>k v. resolveCorrelationId W req w = (Inr k, v) \<and> wb_net v = wb_net w"
  by (auto simp: resolveCorrelationId_def ensureCorrelationId_def run_simps split: option.split)

text \<open>The exchange as the proxy sees it.\<close>

lemma exchange_run:
  assumes "session_request E A P W C req p token"
  shows "refresh E A token (browser_md P req) (wb_net v) = (Inr s, n) \<Longrightarrow> renders P \<Longrightarrow>
      \<exists>payload v'. refreshTokens W req token k v = (Inr (Some payload), v') \<and> wb_net v' = n"
    and "refresh E A token (browser_md P req) (wb_net v) = (Inl e, n) \<Longrightarrow>
      nullish (er_status e) 500 < 200 \<or> 299 < nullish (er_status e) 500 \<Longrightarrow>
      \<exists>v'. refreshTokens W req token k v = (Inr None, v') \<and> wb_net v' = n"
proof -
  have config: "loadWebRuntimeConfig (ws_url W) (ws_env W) = Inr C"
    and site: "ws_fetch W = api_fetch E A P (strip_slashes (xf_apiBaseUrl C))"
    using assms by (simp_all add: session_request_def)
  note run = refreshTokens_def auth_call_def getApiBaseUrl_def getWebConfig_def run_simps config site api_fetch_def
    refresh_endpoint_def refresh_body_read j_get_str_def j_get_def exchange_metadata text_reply_def reply_ok_def reply_json_def
  show "\<exists>payload v'. refreshTokens W req token k v = (Inr (Some payload), v') \<and> wb_net v' = n"
    if ok: "refresh E A token (browser_md P req) (wb_net v) = (Inr s, n)" "renders P"
  proof -
    obtain j where "json_parse (ap_render P s) = Some j" "json_truthy j"
      using ok(2) unfolding renders_def by blast
    then show ?thesis by (simp add: run ok(1))
  qed
  show "\<exists>v'. refreshTokens W req token k v = (Inr None, v') \<and> wb_net v' = n"
    if "refresh E A token (browser_md P req) (wb_net v) = (Inl e, n)" "nullish (er_status e) 500 < 200 \<or> 299 < nullish (er_status e) 500"
    using that(2) by (auto simp: run that(1))
qed

definition cleared_cookies :: "web_config \<Rightarrow> cookie list" where
  "cleared_cookies C = map (\<lambda>name. cookie_of C name [] 0)
     [cn_access (cookie_names_of C), cn_refresh (cookie_names_of C), cn_organization (cookie_names_of C)]"

text \<open>A page that refuses whatever token it is sent, with 401 for the one of the browser.\<close>

definition refusing :: "api \<Rightarrow> proxy_request \<Rightarrow> string option \<Rightarrow> bool" where
  "refusing P p access \<longleftrightarrow> (\<forall>c. fc_url c = px_url p \<longrightarrow> (\<exists>r. ap_page P c = Inr r \<and> \<not> reply_ok r \<and>
     (fc_headers c ''authorization'' = bearer access \<longrightarrow> rp_status r = 401)))"

lemma page_call:
  assumes "session_request E A P W C req p token" "refusing P p access" "uq_url q = px_url p"
  shows "\<exists>r. ws_fetch W (upstream_call req q k t i) n = (Inr r, n) \<and> \<not> reply_ok r \<and> (t = access \<longrightarrow> rp_status r = 401)"
proof -
  have "fc_url (upstream_call req q k t i) = px_url p" by (simp add: upstream_call_def assms(3))
  with assms(2) obtain r where "ap_page P (upstream_call req q k t i) = Inr r" "\<not> reply_ok r"
    "t = access \<longrightarrow> rp_status r = 401"
    unfolding refusing_def using authorization_header by metis
  moreover have "ws_fetch W (upstream_call req q k t i) n = (ap_page P (upstream_call req q k t i), n)"
    using assms(1,3) by (simp add: session_request_def api_fetch_def upstream_call_def)
  ultimately show ?thesis by simp
qed

lemma proxy_run:
  assumes sr: "session_request E A P W C req p token"
    and page: "refusing P p (wq_cookie req (cn_access (cookie_names_of C)))"
  shows "refresh E A token (browser_md P req) (wb_net w) = (Inr s, n) \<Longrightarrow> renders P \<Longrightarrow>
      \<exists>r v. proxyJsonRequest W req p w = (Inr r, v) \<and> wp_cookies r = [] \<and> wb_net v = n"
    and "refresh E A token (browser_md P req) (wb_net w) = (Inl e, n) \<Longrightarrow>
      nullish (er_status e) 500 < 200 \<or> 299 < nullish (er_status e) 500 \<Longrightarrow>
      \<exists>r v. proxyJsonRequest W req p w = (Inr r, v) \<and> wp_status r = 401 \<and> wp_cookies r = cleared_cookies C \<and> wb_net v = n"
proof -
  let ?q = "\<lparr>uq_url = px_url p, uq_method = px_method p, uq_body = None,
      uq_requireAuth = True, uq_requireOrganization = True, uq_allowRefresh = True\<rparr>"
  let ?access = "wq_cookie req (cn_access (cookie_names_of C))" and ?org = "wq_cookie req (cn_organization (cookie_names_of C))"
  obtain k v0 where k: "resolveCorrelationId W req w = (Inr k, v0)" "wb_net v0 = wb_net w" using resolve_keeps by blast
  obtain r1 where r1: "ws_fetch W (upstream_call req ?q k ?access ?org) (wb_net v0) = (Inr r1, wb_net v0)" "rp_status r1 = 401"
    using page_call [OF sr page, of ?q k ?access ?org "wb_net v0"] by auto
  let ?v1 = "v0\<lparr>wb_calls := wb_calls v0 @ [upstream_call req ?q k ?access ?org]\<rparr>"
  have send: "sendUpstreamRequest W req ?q k v0 = bind_x (refreshTokens W req token k) (\<lambda>refreshed.
      case refreshed of None \<Rightarrow> bind_x (signed_out W k) (\<lambda>r. ret_x (Answered r))
      | Some payload \<Rightarrow> bind_x (fetch_x W (upstream_call req ?q k (py_accessToken payload) ?org))
          (\<lambda>second. ret_x (Upstream second (Some payload) ?org))) ?v1"
  proof -
    have "loadWebRuntimeConfig (ws_url W) (ws_env W) = Inr C"
      "wq_cookie req (cn_refresh (cookie_names_of C)) = Some token" "token \<noteq> []" "truthy ?org"
      using sr by (simp_all add: session_request_def)
    then have names: "getAuthCookieNames W v0 = (Inr (cookie_names_of C), v0)"
      and token: "truthy (wq_cookie req (cn_refresh (cookie_names_of C)))" "the (wq_cookie req (cn_refresh (cookie_names_of C))) = token"
      and org: "truthy ?org"
      by (simp_all add: getAuthCookieNames_def getWebConfig_def run_simps)
    have fetch: "fetch_x W (upstream_call req ?q k ?access ?org) v0 = (Inr r1, ?v1)"
      using r1 by (simp add: run_simps)
    show ?thesis
      unfolding sendUpstreamRequest_def bind_x_run [of "getAuthCookieNames W"] names fst_conv snd_conv sum.case Let_def
      by (simp only: token org simp_thms if_False if_True bind_x_run [of "fetch_x W (upstream_call req ?q k ?access ?org)"]
          fetch fst_conv snd_conv sum.case r1(2) upstream_request.select_convs)
  qed
  have proxy: "proxyJsonRequest W req p w = catch_x (bind_x (sendUpstreamRequest W req ?q k) (\<lambda>sent. case sent of
        Answered r \<Rightarrow> ret_x (set_header CORRELATION_ID_HEADER k r)
      | Upstream u a i \<Rightarrow> answer_upstream W k p u a i)) (\<lambda>_. failure_x (px_context p) k 502) v0"
  proof -
    have get: "px_method p = GET" using sr by (simp add: session_request_def)
    show ?thesis
      unfolding proxyJsonRequest_def bind_x_run [of "resolveCorrelationId W req"] k fst_conv snd_conv sum.case get
      by (simp only: simp_thms if_True if_False) (simp add: bind_x_run [of "ret_x _"] bind_ret)
  qed
  have net: "wb_net ?v1 = wb_net w" by (simp add: k(2))
  show "\<exists>r v. proxyJsonRequest W req p w = (Inr r, v) \<and> wp_cookies r = [] \<and> wb_net v = n"
    if ok: "refresh E A token (browser_md P req) (wb_net w) = (Inr s, n)" "renders P"
  proof -
    obtain payload v2 where p: "refreshTokens W req token k ?v1 = (Inr (Some payload), v2)" "wb_net v2 = n"
      using exchange_run(1) [OF sr, of ?v1] ok unfolding net by blast
    obtain r2 where r2: "ws_fetch W (upstream_call req ?q k (py_accessToken payload) ?org) n = (Inr r2, n)" "\<not> reply_ok r2"
      using page_call [OF sr page, of ?q k "py_accessToken payload" ?org n] by auto
    have "sendUpstreamRequest W req ?q k v0 = (Inr (Upstream r2 (Some payload) ?org),
        v2\<lparr>wb_net := n, wb_calls := wb_calls v2 @ [upstream_call req ?q k (py_accessToken payload) ?org]\<rparr>)"
      unfolding send using p r2 by (simp add: run_simps)
    then show ?thesis
      unfolding proxy using r2(2)
      by (auto simp: run_simps answer_upstream_def buildSanitizedFailureResponse_def failure_x_def response_x_def)
  qed
  show "\<exists>r v. proxyJsonRequest W req p w = (Inr r, v) \<and> wp_status r = 401 \<and> wp_cookies r = cleared_cookies C \<and> wb_net v = n"
    if bad: "refresh E A token (browser_md P req) (wb_net w) = (Inl e, n)"
      "nullish (er_status e) 500 < 200 \<or> 299 < nullish (er_status e) 500"
  proof -
    obtain v2 where p: "refreshTokens W req token k ?v1 = (Inr None, v2)" "wb_net v2 = n"
      using exchange_run(2) [OF sr, of ?v1] bad unfolding net by blast
    have config: "loadWebRuntimeConfig (ws_url W) (ws_env W) = Inr C" using sr by (simp add: session_request_def)
    have "\<exists>r. signed_out W k v2 = (Inr r, v2) \<and> wp_status r = 401 \<and> wp_cookies r = cleared_cookies C"
      by (simp add: signed_out_def response_x_def clearAuthCookies_def getWebConfig_def run_simps config cleared_cookies_def
          set_cookie_def cookie_of_def cookie_names_of_def)
    then obtain r where "signed_out W k v2 = (Inr r, v2)" "wp_status r = 401" "wp_cookies r = cleared_cookies C" by blast
    moreover from this have "sendUpstreamRequest W req ?q k v0 = (Inr (Answered r), v2)"
      unfolding send by (simp add: run_simps p)
    ultimately show ?thesis using p(2) by (simp add: proxy run_simps set_header_def)
  qed
qed

section \<open>A session lost\<close>

text \<open>C31: When the access token has run out and the page asked for refuses the request, the proxy exchanges
  the refresh token but leaves the new tokens out of its answer. The browser keeps the token that
  was used, so whatever registrations, logins, exchanges and logouts come in between, its next
  request for the page is answered with 401 and the cookies are taken away.\<close>

theorem session_lost:
  assumes "session_request E A P W C req p token" "renders P"
    and "refusing P p (wq_cookie req (cn_access (cookie_names_of C)))"
    and "fst (refresh E A token (browser_md P req) (wb_net w)) = Inr s"
    and "fst (verifyRefreshToken E A token (wb_net w)) = Inr pl"
    and "\<And>i. uuids (wb_net w) \<le> i \<Longrightarrow> x_uuid E i \<noteq> rp_sid pl" "no_clash refreshSession_t (db (wb_net w))" "quiet L"
  shows "\<exists>a v b v'. proxyJsonRequest W req p w = (Inr a, v) \<and> wp_cookies a = [] \<and>
    proxyJsonRequest W req p (v\<lparr>wb_net := foldl (\<lambda>n (md, q). serve E A Q L md q n) (wb_net v) rs\<rparr>) = (Inr b, v') \<and>
    wp_status b = 401 \<and> wp_cookies b = cleared_cookies C"
proof -
  let ?md = "browser_md P req"
  obtain n where n: "refresh E A token ?md (wb_net w) = (Inr s, n)"
    using assms(4) by (cases "refresh E A token ?md (wb_net w)") auto
  obtain a v where a: "proxyJsonRequest W req p w = (Inr a, v)" "wp_cookies a = []" "wb_net v = n"
    using proxy_run(1) [OF assms(1,3) n assms(2)] by blast
  have "later (uuids (wb_net w)) (revoked (rp_sid pl)) n"
    using refresh_revokes [OF assms(6,5) _ assms(4)] assms(7) n by (simp add: later_def)
  then have "later (uuids (wb_net w)) (revoked (rp_sid pl)) (foldl (\<lambda>n (md, q). serve E A Q L md q n) n rs)"
    using serve_later [where n = "uuids (wb_net w)", OF assms(6,8), of n A Q rs] by simp
  then have rev: "revoked (rp_sid pl) (db (foldl (\<lambda>n (md, q). serve E A Q L md q n) n rs))" by (simp add: later_def)
  let ?v = "v\<lparr>wb_net := foldl (\<lambda>n (md, q). serve E A Q L md q n) (wb_net v) rs\<rparr>"
  have refused: "fst (refresh E A token ?md (wb_net ?v)) = Inl invalid_refresh \<or>
      fst (refresh E A token ?md (wb_net ?v)) = Inl missing_record"
    using refresh_revoked(1) [OF assms(5) rev] by (simp add: a(3))
  obtain r n' where r: "refresh E A token ?md (wb_net ?v) = (r, n')"
    by (cases "refresh E A token ?md (wb_net ?v)")
  then obtain e where "r = Inl e" "nullish (er_status e) 500 < 200 \<or> 299 < nullish (er_status e) 500"
    using refused by (auto simp: invalid_refresh_def unauthorized_def missing_record_def http_error_def prisma_error_def
        plain_error_def nullish_def)
  from proxy_run(2) [OF assms(1,3) r [unfolded this(1)] this(2)] a(1,2) show ?thesis by blast
qed

definition demo_api :: api where
  "demo_api = \<lparr>ap_render = (\<lambda>r. stableStringify (\<lambda>q. show_int \<lfloor>q\<rfloor>)
      (JObj [(''accessToken'', JStr (ar_accessToken r)), (''refreshToken'', JStr (ar_refreshToken r))])),
     ap_page = (\<lambda>_. Inr (text_reply 401 [])), ap_ip = None\<rparr>"

definition demo_web_env :: env where
  "demo_web_env = [''API_BASE_URL'' \<mapsto> ''https://a'']"

definition demo_site :: "world site" where
  "demo_site = \<lparr>ws_fetch = api_fetch demo_ext demo_auth demo_api
      (case loadWebRuntimeConfig demo_url demo_web_env of Inr C \<Rightarrow> strip_slashes (xf_apiBaseUrl C)),
     ws_uuid = show_nat, ws_env = demo_web_env, ws_url = demo_url\<rparr>"

definition demo_browser :: web_request where
  "demo_browser = \<lparr>wq_header = Map.empty, wq_cookie = (\<lambda>_. Some demo_token), wq_body = Inr [], wq_search = []\<rparr>"

definition demo_page :: proxy_request where
  "demo_page = \<lparr>px_url = [], px_method = GET, px_context = ''Failed''\<rparr>"

lemma demo_web_config: "\<exists>C. loadWebRuntimeConfig demo_url demo_web_env = Inr C"
proof -
  have "cookie_prefix_ok ''au''" "\<not> production_like node_development app_development" by code_simp+
  then show ?thesis
    by (simp add: loadWebRuntimeConfig_def web_checks_def eval_config demo_url_def demo_web_env_def optional_url_def
        parseSameSite_def)
qed

lemma demo_renders: "renders demo_api"
  unfolding renders_def
proof
  fix r :: auth_response
  let ?j = "JObj [(''accessToken'', JStr (ar_accessToken r)), (''refreshToken'', JStr (ar_refreshToken r))]"
  have "p_value (ap_render demo_api r @ []) = Some (canon ?j, [])"
    unfolding demo_api_def api.select_convs by (rule p_value_stringify) (simp_all add: delim_def)
  then have "json_parse (ap_render demo_api r) = Some (canon ?j)" by (simp add: json_parse_def skip_ws_def)
  moreover have "canon ?j = ?j" by simp
  ultimately show "\<exists>j. json_parse (ap_render demo_api r) = Some j \<and> json_truthy j \<and>
      py_accessToken (payload_of j) = Some (ar_accessToken r) \<and> py_refreshToken (payload_of j) = Some (ar_refreshToken r)"
    by (simp add: payload_of_def j_get_str_def j_get_def)
qed

theorem session_lost_witness:
  "\<exists>a v b v'. proxyJsonRequest demo_site demo_browser demo_page \<lparr>wb_net = demo_sessions, wb_uuids = 0, wb_calls = []\<rparr> = (Inr a, v) \<and>
    wp_cookies a = [] \<and>
    proxyJsonRequest demo_site demo_browser demo_page
      (v\<lparr>wb_net := serve demo_ext demo_auth demo_passwords (\<lambda>_ _. ret_x ()) demo_md (Logout demo_token) (wb_net v)\<rparr>) = (Inr b, v') \<and>
    wp_status b = 401"
proof -
  obtain C where C: "loadWebRuntimeConfig demo_url demo_web_env = Inr C" using demo_web_config by blast
  have "truthy (Some demo_token)" "demo_token \<noteq> []"
    by (simp_all add: demo_token_def signed_text_def)
  then have sr: "session_request demo_ext demo_auth demo_api demo_site C demo_browser demo_page demo_token"
    by (simp add: session_request_def demo_site_def C demo_browser_def demo_page_def)
  have page: "refusing demo_api demo_page (wq_cookie demo_browser (cn_access (cookie_names_of C)))"
    by (simp add: refusing_def demo_api_def text_reply_def reply_ok_def)
  have md: "browser_md demo_api demo_browser = demo_md"
    by (simp add: browser_md_def demo_api_def demo_browser_def demo_md_def truthy_simps)
  let ?w = "\<lparr>wb_net = demo_sessions, wb_uuids = 0, wb_calls = []\<rparr>"
  obtain r where r: "fst (refresh demo_ext demo_auth demo_token (browser_md demo_api demo_browser) (wb_net ?w)) = Inr r"
    using demo_refresh by (auto simp: md)
  have p: "fst (verifyRefreshToken demo_ext demo_auth demo_token (wb_net ?w)) = Inr \<lparr>rp_sub = ''u'', rp_sid = ''s'', rp_exp = 604800\<rparr>"
    using refresh_verified [of 0 demo_sessions "''u''" "''s''"]
    by (simp add: demo_token_def demo_sessions_def demo_world_def demo_ext_def)
  have ids: "x_uuid demo_ext i \<noteq> rp_sid \<lparr>rp_sub = ''u'', rp_sid = ''s'', rp_exp = 604800\<rparr>" for i
    using show_nat_digits [of i] by (auto simp: is_digit_def demo_ext_def)
  have one: "no_clash refreshSession_t (db (wb_net ?w))"
    by (simp add: no_clash_def refreshSession_t_def demo_sessions_def demo_world_def)
  have quiet: "quiet (\<lambda>_ _. ret_x ())" by (simp add: quiet_def run_simps)
  from session_lost [OF sr demo_renders page r p ids one quiet, of demo_passwords "[(demo_md, Logout demo_token)]"]
  show ?thesis by auto
qed

end
