(* ===== verification/Channels.thy ===== *)
theory Channels
  imports Provider Tables
begin

text \<open>
  \<^verbatim>\<open>apps/api/src/channels/channels.service.ts\<close>, first part: the constants, the helpers
  every method uses and the operations on channel connections. The webhooks are in
  \<^verbatim>\<open>Inbound\<close>, the outbound messages in \<^verbatim>\<open>Outbound\<close>.
\<close>

section \<open>Constants and small helpers\<close>

definition CHANNEL_DELIVERY_QUEUE_NAME :: "ext \<Rightarrow> string" where
  "CHANNEL_DELIVERY_QUEUE_NAME E =
     str_or (map_option trim (x_env E ''CHANNEL_DELIVERY_QUEUE_NAME'')) ''channel-delivery''"

definition SUPPORT_QUEUE_NAME :: string where
  "SUPPORT_QUEUE_NAME = ''support''"

definition MAX_WEBHOOK_BYTES :: "ext \<Rightarrow> int option" where
  "MAX_WEBHOOK_BYTES E = env_int_trim E ''CHANNEL_WEBHOOK_PAYLOAD_LIMIT_BYTES'' ''262144''"

definition REPLAY_BLOCKED_STATUSES :: "OutboundMessageStatus set" where
  "REPLAY_BLOCKED_STATUSES = {OutboundMessageStatus.SENT, OutboundMessageStatus.DELIVERED,
     OutboundMessageStatus.CANCELLED}"

definition CANCEL_BLOCKED_STATUSES :: "OutboundMessageStatus set" where
  "CANCEL_BLOCKED_STATUSES = {OutboundMessageStatus.SENT, OutboundMessageStatus.DELIVERED,
     OutboundMessageStatus.DEAD_LETTER}"

definition INBOUND_DISPATCH_LEASE_MS :: "ext \<Rightarrow> int option" where
  "INBOUND_DISPATCH_LEASE_MS E =
     max_nan (env_int E ''CHANNEL_INBOUND_DISPATCH_LEASE_MS'' ''120000'') 10000"

definition INBOUND_DISPATCH_RETRY_DELAY_MS :: "ext \<Rightarrow> int option" where
  "INBOUND_DISPATCH_RETRY_DELAY_MS E =
     max_nan (env_int E ''CHANNEL_INBOUND_DISPATCH_RETRY_DELAY_MS'' ''5000'') 500"

definition redactedMessage :: "js_error \<Rightarrow> string" where
  "redactedMessage err =
     nullish (truncateText (Some (er_message err)) (Some 500)) ''Unknown channel error''"

definition isUniqueConstraint :: "js_error \<Rightarrow> bool" where
  "isUniqueConstraint err \<longleftrightarrow> er_code err = Some ''P2002''"

definition getProvider :: "ChannelProvider \<Rightarrow> unit act" where
  "getProvider providerName =
     (if providerName = ChannelProvider.MOCK_EMAIL then ret_x ()
      else throw_x (bad_request (''Unsupported channel provider '' @ name_of_ChannelProvider providerName)))"

definition ch_appendTimelineEvent ::
  "ext \<Rightarrow> string \<Rightarrow> string \<Rightarrow> AgentEventType \<Rightarrow> json \<Rightarrow> string option \<Rightarrow> unit act" where
  "ch_appendTimelineEvent E orgId ticketId ty payload runId =
     bind_x (append_event E orgId ticketId runId ty payload) (\<lambda>_. ret_x ())"

interpretation ch: event_log "\<lambda>orgId ticketId ty payload. ch_appendTimelineEvent E orgId ticketId ty payload runId"
    runId for E runId
proof
  fix orgId ticketId ty payload w a
  assume "fst (ch_appendTimelineEvent E orgId ticketId ty payload runId w) = Inr (a :: unit)"
  then show "appended orgId ticketId ty payload runId (db w)
      (db (snd (ch_appendTimelineEvent E orgId ticketId ty payload runId w)))"
    using append_event_spec(1) [of E orgId ticketId runId ty payload w]
    by (auto simp: ch_appendTimelineEvent_def run_simps split: sum.splits)
next
  fix orgId ticketId ty payload w e
  assume "fst (ch_appendTimelineEvent E orgId ticketId ty payload runId w) = Inl e"
  then show "db (snd (ch_appendTimelineEvent E orgId ticketId ty payload runId w)) = db w"
    using append_event_spec(2) [of E orgId ticketId runId ty payload w]
    by (auto simp: ch_appendTimelineEvent_def run_simps split: sum.splits)
qed

definition create_audit ::
  "ext \<Rightarrow> string \<Rightarrow> string option \<Rightarrow> string \<Rightarrow> string \<Rightarrow> string \<Rightarrow> json \<Rightarrow> unit act" where
  "create_audit E orgId actorUserId action targetType targetId metadata =
     bind_x correlation_x (\<lambda>correlationId.
     bind_x (create_row E channelAuditEvent_t (\<lambda>i now. blank_channel_audit_event\<lparr>
         ca_id := i, ca_createdAt := now, ca_organizationId := orgId, ca_actorUserId := actorUserId,
         ca_action := action, ca_targetType := targetType, ca_targetId := targetId,
         ca_correlationId := correlationId, ca_metadata := Some metadata\<rparr>)) (\<lambda>_. ret_x ()))"

definition recordChannelAudit ::
  "ext \<Rightarrow> string \<Rightarrow> string option \<Rightarrow> string \<Rightarrow> string \<Rightarrow> json \<Rightarrow> unit act" where
  "recordChannelAudit E orgId actorUserId action targetId metadata =
     create_audit E orgId actorUserId action ''ChannelConnection'' targetId metadata"

definition j_provider :: "ChannelProvider \<Rightarrow> json" where
  "j_provider p = JStr (name_of_ChannelProvider p)"

section \<open>Connections\<close>

record safe_connection =
  sc_id :: string
  sc_publicId :: string
  sc_provider :: ChannelProvider
  sc_displayName :: string
  sc_status :: ChannelConnectionStatus
  sc_externalAccountId :: "string option"
  sc_inboundAddress :: "string option"
  sc_config :: json
  sc_isDefault :: bool
  sc_lastSuccessfulEventAt :: "int option"
  sc_lastErrorAt :: "int option"
  sc_lastErrorCode :: "string option"
  sc_lastErrorRedacted :: "string option"
  sc_createdAt :: int
  sc_updatedAt :: int
  sc_disabledAt :: "int option"

definition toSafeConnection :: "ext \<Rightarrow> channel_connection \<Rightarrow> safe_connection" where
  "toSafeConnection E c = \<lparr>sc_id = cc_id c, sc_publicId = cc_publicId c, sc_provider = cc_provider c,
     sc_displayName = cc_displayName c, sc_status = cc_status c,
     sc_externalAccountId = cc_externalAccountId c, sc_inboundAddress = cc_inboundAddress c,
     sc_config = sanitize_top E (nullish (cc_config c) JNull), sc_isDefault = cc_isDefault c,
     sc_lastSuccessfulEventAt = cc_lastSuccessfulEventAt c, sc_lastErrorAt = cc_lastErrorAt c,
     sc_lastErrorCode = cc_lastErrorCode c, sc_lastErrorRedacted = cc_lastErrorRedacted c,
     sc_createdAt = cc_createdAt c, sc_updatedAt = cc_updatedAt c, sc_disabledAt = cc_disabledAt c\<rparr>"

record create_connection_dto =
  cd_provider :: ChannelProvider
  cd_displayName :: string
  cd_externalAccountId :: "string option"
  cd_inboundAddress :: "string option"
  cd_webhookSecret :: "string option"
  cd_config :: "json option"
  cd_isDefault :: "bool option"

record update_connection_dto =
  ud_displayName :: "string option"
  ud_inboundAddress :: "string option"
  ud_config :: "json option"
  ud_isDefault :: "bool option"

definition own_connection :: "string \<Rightarrow> string \<Rightarrow> channel_connection \<Rightarrow> bool" where
  "own_connection orgId connectionId c \<longleftrightarrow> cc_id c = connectionId \<and> cc_organizationId c = orgId"

definition listConnections :: "ext \<Rightarrow> string \<Rightarrow> safe_connection list act" where
  "listConnections E orgId =
     bind_x (find_many channelConnection_t (\<lambda>c. cc_organizationId c = orgId)) (\<lambda>connections.
       ret_x (map (toSafeConnection E) (order_desc cc_createdAt connections)))"

definition createConnection ::
  "ext \<Rightarrow> string \<Rightarrow> create_connection_dto \<Rightarrow> string option \<Rightarrow> safe_connection act" where
  "createConnection E orgId dto actorUserId =
     (if cd_provider dto \<noteq> ChannelProvider.MOCK_EMAIL
      then throw_x (bad_request ''Only MOCK_EMAIL is available in zero-spend local mode'')
      else bind_x (uuid_x E) (\<lambda>publicId.
        bind_x (create_row E channelConnection_t (\<lambda>i now. blank_channel_connection\<lparr>
          cc_id := i, cc_publicId := publicId, cc_createdAt := now, cc_updatedAt := now,
          cc_organizationId := orgId, cc_provider := cd_provider dto,
          cc_displayName := trim (cd_displayName dto),
          cc_externalAccountId := Some (str_or (map_option trim (cd_externalAccountId dto)) (''mock:'' @ orgId)),
          cc_inboundAddress := Some (str_or (map_option trim (cd_inboundAddress dto)) ''support@example.test''),
          cc_webhookSigningSecretReference := Some (''mock:'' @
            str_or (map_option trim (cd_webhookSecret dto)) (MOCK_SECRET E)),
          cc_config := Some (nullish (cd_config dto) (JObj [(''mode'', JStr ''mock'')])),
          cc_isDefault := nullish (cd_isDefault dto) True\<rparr>)) (\<lambda>connection.
        then_x (recordChannelAudit E orgId actorUserId ''channel_connection.created''
            (cc_id connection) (JObj [(''provider'', j_provider (cc_provider connection))]))
          (ret_x (toSafeConnection E connection)))))"

definition getConnection :: "ext \<Rightarrow> string \<Rightarrow> string \<Rightarrow> safe_connection act" where
  "getConnection E orgId connectionId =
     bind_x (find_first channelConnection_t (own_connection orgId connectionId)) (\<lambda>found.
     bind_x (require_x found (not_found ''Channel connection not found'')) (\<lambda>connection.
       ret_x (toSafeConnection E connection)))"

definition updateConnection ::
  "ext \<Rightarrow> string \<Rightarrow> string \<Rightarrow> update_connection_dto \<Rightarrow> string option \<Rightarrow> safe_connection act" where
  "updateConnection E orgId connectionId dto actorUserId =
     then_x (getConnection E orgId connectionId)
     (bind_x (update_row E channelConnection_t (\<lambda>c. cc_id c = connectionId) (\<lambda>c. c\<lparr>
         cc_displayName := nullish (map_option trim (ud_displayName dto)) (cc_displayName c),
         cc_inboundAddress := nullish2 (map_option trim (ud_inboundAddress dto)) (cc_inboundAddress c),
         cc_config := nullish2 (ud_config dto) (cc_config c),
         cc_isDefault := nullish (ud_isDefault dto) (cc_isDefault c)\<rparr>)) (\<lambda>connection.
       then_x (recordChannelAudit E orgId actorUserId ''channel_connection.updated''
           (cc_id connection) (JObj [(''provider'', j_provider (cc_provider connection))]))
         (ret_x (toSafeConnection E connection))))"

definition setConnectionEnabled ::
  "ext \<Rightarrow> string \<Rightarrow> string \<Rightarrow> bool \<Rightarrow> string option \<Rightarrow> safe_connection act" where
  "setConnectionEnabled E orgId connectionId enabled actorUserId =
     then_x (getConnection E orgId connectionId)
     (bind_x (if enabled then ret_x None else bind_x (now_x E) (\<lambda>now. ret_x (Some now))) (\<lambda>disabledAt.
      bind_x (update_row E channelConnection_t (\<lambda>c. cc_id c = connectionId) (\<lambda>c. c\<lparr>
         cc_status := (if enabled then ChannelConnectionStatus.ACTIVE else ChannelConnectionStatus.DISABLED),
         cc_disabledAt := disabledAt,
         cc_lastErrorCode := (if enabled then None else cc_lastErrorCode c),
         cc_lastErrorRedacted := (if enabled then None else cc_lastErrorRedacted c)\<rparr>)) (\<lambda>connection.
       then_x (recordChannelAudit E orgId actorUserId
           (if enabled then ''channel_connection.enabled'' else ''channel_connection.disabled'')
           (cc_id connection) (JObj [(''provider'', j_provider (cc_provider connection))]))
         (ret_x (toSafeConnection E connection)))))"

definition testConnection ::
  "ext \<Rightarrow> string \<Rightarrow> string \<Rightarrow> string option \<Rightarrow> (bool \<times> ChannelProvider \<times> json) act" where
  "testConnection E orgId connectionId actorUserId =
     bind_x (find_first channelConnection_t (own_connection orgId connectionId)) (\<lambda>found.
     bind_x (require_x found (not_found ''Channel connection not found'')) (\<lambda>connection.
     then_x (getProvider (cc_provider connection))
     (let ok = fst healthCheck in
      bind_x (now_x E) (\<lambda>now.
      then_x (update_row E channelConnection_t (\<lambda>c. cc_id c = cc_id connection) (\<lambda>c. c\<lparr>
           cc_lastSuccessfulEventAt := (if ok then Some now else cc_lastSuccessfulEventAt c),
           cc_lastErrorAt := (if ok then None else Some now),
           cc_lastErrorCode := (if ok then None else Some ''HEALTH_CHECK_FAILED''),
           cc_lastErrorRedacted := (if ok then None else Some ''Mock provider health check failed'')\<rparr>))
      (then_x (recordChannelAudit E orgId actorUserId ''channel_connection.tested'' (cc_id connection)
           (JObj [(''provider'', j_provider (cc_provider connection)), (''ok'', JBool ok)]))
        (ret_x (ok, cc_provider connection, sanitize_top E (snd healthCheck))))))))"

end
