(* ===== verification/Outbound.thy ===== *)
theory Outbound
  imports Channels
begin

text \<open>
  \<^verbatim>\<open>apps/api/src/channels/channels.service.ts\<close>, third part: reading a ticket's
  conversation, and the life of an outbound message on the API side (created for an approved
  draft, queued for delivery, replayed, cancelled).
\<close>

section \<open>Reading\<close>

record conversation_view =
  vc_id :: string
  vc_subject :: "string option"
  vc_status :: ConversationStatus
  vc_externalThreadId :: "string option"
  vc_channel :: safe_connection
  vc_customer :: "(string \<times> string option \<times> string option) option"
  vc_lastMessageAt :: int

definition of_ticket :: "string \<Rightarrow> string \<Rightarrow> conversation \<Rightarrow> bool" where
  "of_ticket orgId ticketId c \<longleftrightarrow> cv_organizationId c = orgId \<and> cv_ticketId c = Some ticketId"

definition customer_of :: "conversation \<Rightarrow> external_customer option act" where
  "customer_of c =
     (case cv_externalCustomerId c of
        None \<Rightarrow> ret_x None
      | Some i \<Rightarrow> find_first externalCustomer_t (\<lambda>u. cu_id u = i))"

definition getTicketConversation :: "ext \<Rightarrow> string \<Rightarrow> string \<Rightarrow> conversation_view option act" where
  "getTicketConversation E orgId ticketId =
     bind_x (find_first conversation_t (of_ticket orgId ticketId)) (\<lambda>found.
     case found of
       None \<Rightarrow> ret_x None
     | Some c \<Rightarrow>
         bind_x (find_first channelConnection_t (\<lambda>k. cc_id k = cv_channelConnectionId c)) (\<lambda>k.
         bind_x (require_x k missing_record) (\<lambda>connection.
         bind_x (customer_of c) (\<lambda>customer.
           ret_x (Some \<lparr>vc_id = cv_id c, vc_subject = cv_subject c, vc_status = cv_status c,
             vc_externalThreadId = cv_externalThreadId c,
             vc_channel = toSafeConnection E connection,
             vc_customer = map_option (\<lambda>u. (cu_id u, cu_email u, cu_displayName u)) customer,
             vc_lastMessageAt = cv_lastMessageAt c\<rparr>)))))"

definition listTicketMessages ::
  "string \<Rightarrow> string \<Rightarrow> (external_message \<times> message_attachment list) list act" where
  "listTicketMessages orgId ticketId =
     bind_x (find_first conversation_t (of_ticket orgId ticketId)) (\<lambda>found.
     case found of
       None \<Rightarrow> ret_x []
     | Some c \<Rightarrow>
         bind_x (find_many externalMessage_t (\<lambda>m. xm_organizationId m = orgId \<and>
             xm_conversationId m = cv_id c)) (\<lambda>ms.
         bind_x (gets_x (\<lambda>w. messageAttachments (db w))) (\<lambda>ats.
           ret_x (map (\<lambda>m. (m, filter (\<lambda>a. at_externalMessageId a = xm_id m) ats))
             (order_asc xm_createdAt ms)))))"

definition attempts_of :: "delivery_attempt list \<Rightarrow> outbound_message \<Rightarrow> delivery_attempt list" where
  "attempts_of das m = order_asc da_attemptNumber (filter (\<lambda>a. da_outboundMessageId a = om_id m) das)"

definition listTicketOutboundMessages ::
  "string \<Rightarrow> string \<Rightarrow> (outbound_message \<times> delivery_attempt list) list act" where
  "listTicketOutboundMessages orgId ticketId =
     bind_x (find_many outboundMessage_t (\<lambda>m. om_organizationId m = orgId \<and> om_ticketId m = ticketId)) (\<lambda>ms.
     bind_x (gets_x (\<lambda>w. deliveryAttempts (db w))) (\<lambda>das.
       ret_x (map (\<lambda>m. (m, attempts_of das m)) (order_desc om_createdAt ms))))"

definition own_outbound :: "string \<Rightarrow> string \<Rightarrow> outbound_message \<Rightarrow> bool" where
  "own_outbound orgId outboundMessageId m \<longleftrightarrow>
     om_id m = outboundMessageId \<and> om_organizationId m = orgId"

definition getOutboundMessage ::
  "string \<Rightarrow> string \<Rightarrow> (outbound_message \<times> delivery_attempt list) act" where
  "getOutboundMessage orgId outboundMessageId =
     bind_x (find_first outboundMessage_t (own_outbound orgId outboundMessageId)) (\<lambda>found.
     bind_x (require_x found (not_found ''Outbound message not found'')) (\<lambda>outbound.
     bind_x (gets_x (\<lambda>w. deliveryAttempts (db w))) (\<lambda>das.
       ret_x (outbound, attempts_of das outbound))))"

section \<open>Queueing a delivery\<close>

definition delivery_call :: "ext \<Rightarrow> string \<Rightarrow> string \<Rightarrow> int option \<Rightarrow> queue_call" where
  "delivery_call E outboundMessageId jobId delay =
     \<lparr>qc_queue = CHANNEL_DELIVERY_QUEUE_NAME E, qc_name = ''send-outbound-message'',
      qc_payload = JObj [(''outboundMessageId'', JStr outboundMessageId)],
      qc_jobId = Some jobId, qc_delay = delay\<rparr>"

definition attempt_job_id :: "string \<Rightarrow> int \<Rightarrow> string" where
  "attempt_job_id outboundMessageId attemptCount =
     ''channel-delivery-'' @ outboundMessageId @ ''-'' @ show_int attemptCount"

definition enqueueDelivery :: "ext \<Rightarrow> string \<Rightarrow> string option act" where
  "enqueueDelivery E outboundMessageId =
     catch_x
       (bind_x (find_first outboundMessage_t (\<lambda>m. om_id m = outboundMessageId)) (\<lambda>found.
        case found of
          None \<Rightarrow> ret_x None
        | Some outbound \<Rightarrow>
            bind_x (queue_add E (delivery_call E outboundMessageId
               (attempt_job_id outboundMessageId (om_attemptCount outbound)) None)) (\<lambda>jobId.
              ret_x (Some jobId))))
       (\<lambda>err.
        then_x (ignore_x (update_row E outboundMessage_t (\<lambda>m. om_id m = outboundMessageId) (\<lambda>m. m\<lparr>
            om_lastErrorCode := Some ''QUEUE_ENQUEUE_FAILED'',
            om_lastErrorRedacted := Some (redactedMessage err)\<rparr>)))
          (ret_x None))"

section \<open>Replay and cancel\<close>

definition replay_message :: "int \<Rightarrow> outbound_message \<Rightarrow> outbound_message" where
  "replay_message now m =
     m\<lparr>om_status := OutboundMessageStatus.PENDING, om_nextAttemptAt := Some now, om_leaseOwner := None,
       om_leaseExpiresAt := None, om_lastErrorCode := None, om_lastErrorRedacted := None\<rparr>"

definition outbound_note :: "string \<Rightarrow> string \<Rightarrow> json" where
  "outbound_note outboundMessageId actorUserId =
     JObj [(''outboundMessageId'', JStr outboundMessageId), (''actorUserId'', JStr actorUserId)]"

definition replay_tx :: "ext \<Rightarrow> string \<Rightarrow> outbound_message \<Rightarrow> string \<Rightarrow> unit act" where
  "replay_tx E orgId outbound actorUserId =
     transaction
       (bind_x (now_x E) (\<lambda>now.
        then_x (update_row E outboundMessage_t (\<lambda>m. om_id m = om_id outbound) (replay_message now))
        (then_x (ch_appendTimelineEvent E orgId (om_ticketId outbound)
           AgentEventType.CHANNEL_MESSAGE_REPLAYED (outbound_note (om_id outbound) actorUserId) None)
         (create_audit E orgId (Some actorUserId) ''outbound_message.replayed'' ''OutboundMessage''
           (om_id outbound) (JObj [(''ticketId'', JStr (om_ticketId outbound))])))))"

definition replayOutboundMessage ::
  "ext \<Rightarrow> string \<Rightarrow> string \<Rightarrow> string \<Rightarrow> (outbound_message \<times> delivery_attempt list) act" where
  "replayOutboundMessage E orgId outboundMessageId actorUserId =
     bind_x (getOutboundMessage orgId outboundMessageId) (\<lambda>found.
     let outbound = fst found
     in if om_status outbound \<in> REPLAY_BLOCKED_STATUSES
        then throw_x (bad_request ''Terminal outbound message cannot be replayed'')
        else then_x (replay_tx E orgId outbound actorUserId)
          (bind_x (enqueueDelivery E (om_id outbound)) (\<lambda>_. getOutboundMessage orgId (om_id outbound))))"

definition cancel_message :: "int \<Rightarrow> outbound_message \<Rightarrow> outbound_message" where
  "cancel_message now m =
     m\<lparr>om_status := OutboundMessageStatus.CANCELLED, om_failedAt := Some now, om_leaseOwner := None,
       om_leaseExpiresAt := None\<rparr>"

definition cancel_tx :: "ext \<Rightarrow> string \<Rightarrow> outbound_message \<Rightarrow> string \<Rightarrow> outbound_message act" where
  "cancel_tx E orgId outbound actorUserId =
     transaction
       (bind_x (now_x E) (\<lambda>now.
        bind_x (update_row E outboundMessage_t (\<lambda>m. om_id m = om_id outbound) (cancel_message now)) (\<lambda>updated.
        then_x (ch_appendTimelineEvent E orgId (om_ticketId outbound)
           AgentEventType.CHANNEL_OUTBOUND_CANCELLED (outbound_note (om_id outbound) actorUserId) None)
        (then_x (create_audit E orgId (Some actorUserId) ''outbound_message.cancelled'' ''OutboundMessage''
           (om_id outbound) (JObj [(''ticketId'', JStr (om_ticketId outbound))]))
          (ret_x updated)))))"

definition cancelOutboundMessage :: "ext \<Rightarrow> string \<Rightarrow> string \<Rightarrow> string \<Rightarrow> outbound_message act" where
  "cancelOutboundMessage E orgId outboundMessageId actorUserId =
     bind_x (getOutboundMessage orgId outboundMessageId) (\<lambda>found.
     let outbound = fst found
     in if om_status outbound \<in> CANCEL_BLOCKED_STATUSES
        then throw_x (bad_request ''Terminal outbound message cannot be cancelled'')
        else cancel_tx E orgId outbound actorUserId)"

section \<open>Approved drafts\<close>

text \<open>The oldest open conversation of the ticket on an active connection.\<close>

definition deliverable_conversation ::
  "string \<Rightarrow> string \<Rightarrow> (conversation \<times> channel_connection) option act" where
  "deliverable_conversation orgId ticketId =
     gets_x (\<lambda>w.
       let connection = (\<lambda>c. first_where (\<lambda>k. cc_id k = cv_channelConnectionId c) (channelConnections (db w)));
           ok = (\<lambda>c. of_ticket orgId ticketId c \<and> cv_status c = ConversationStatus.OPEN \<and>
                  map_option cc_status (connection c) = Some ChannelConnectionStatus.ACTIVE)
       in map_option (\<lambda>c. (c, the (connection c)))
            (first_where ok (order_asc cv_createdAt (conversations (db w)))))"

definition CHANNEL_DELIVERY_MAX_ATTEMPTS :: "ext \<Rightarrow> int option" where
  "CHANNEL_DELIVERY_MAX_ATTEMPTS E = max_nan (env_int E ''CHANNEL_DELIVERY_MAX_ATTEMPTS'' ''3'') 1"

definition draft_key :: "string \<Rightarrow> string" where
  "draft_key draftId = ''draft:'' @ draftId @ '':channel-send:v1''"

definition upsert_outbound ::
  "ext \<Rightarrow> string \<Rightarrow> outbound_draft \<Rightarrow> conversation \<Rightarrow> external_customer \<Rightarrow> string \<Rightarrow> string \<Rightarrow>
   outbound_message act" where
  "upsert_outbound E orgId draft conversation customer recipientEmail actorUserId =
     bind_x (now_x E) (\<lambda>approvedAt.
     bind_x (require_x (CHANNEL_DELIVERY_MAX_ATTEMPTS E) invalid_value) (\<lambda>maxAttempts.
       upsert_row E outboundMessage_t (\<lambda>m. om_idempotencyKey m = draft_key (dr_id draft)) None
         (\<lambda>i now. blank_outbound_message\<lparr>om_id := i, om_createdAt := now, om_updatedAt := now,
           om_queuedAt := now, om_organizationId := orgId, om_conversationId := cv_id conversation,
           om_channelConnectionId := cv_channelConnectionId conversation,
           om_ticketId := dr_ticketId draft, om_draftId := dr_id draft,
           om_idempotencyKey := draft_key (dr_id draft), om_subject := cv_subject conversation,
           om_textBody := dr_body draft,
           om_recipients := JArr [JObj [(''email'', JStr recipientEmail),
             (''name'', j_str (cu_displayName customer)),
             (''externalId'', j_str (cu_externalCustomerId customer))]],
           om_approvedByUserId := Some actorUserId, om_approvedAt := Some approvedAt,
           om_maxAttempts := maxAttempts\<rparr>)))"

definition queue_for_delivery ::
  "ext \<Rightarrow> string \<Rightarrow> outbound_draft \<Rightarrow> conversation \<times> channel_connection \<Rightarrow> external_customer \<Rightarrow> string \<Rightarrow>
   string \<Rightarrow> outbound_message act" where
  "queue_for_delivery E orgId draft conversation customer recipientEmail actorUserId =
     bind_x (upsert_outbound E orgId draft (fst conversation) customer recipientEmail actorUserId) (\<lambda>outbound.
     then_x (ch_appendTimelineEvent E orgId (dr_ticketId draft)
       AgentEventType.CHANNEL_DRAFT_APPROVED_FOR_DELIVERY
       (JObj [(''draftId'', JStr (dr_id draft)), (''outboundMessageId'', JStr (om_id outbound)),
         (''actorUserId'', JStr actorUserId)]) (dr_agentRunId draft))
     (then_x (ch_appendTimelineEvent E orgId (dr_ticketId draft) AgentEventType.CHANNEL_OUTBOUND_QUEUED
       (JObj [(''draftId'', JStr (dr_id draft)), (''outboundMessageId'', JStr (om_id outbound))])
       (dr_agentRunId draft))
     (then_x (create_audit E orgId (Some actorUserId) ''outbound_message.queued_from_approval''
       ''OutboundMessage'' (om_id outbound)
       (JObj [(''ticketId'', JStr (dr_ticketId draft)), (''draftId'', JStr (dr_id draft))]))
     (then_x (metric_x ''incrementChannelOutboundQueued''
       [name_of_ChannelProvider (cc_provider (snd conversation))])
       (ret_x outbound)))))"

definition run_of_draft :: "outbound_draft \<Rightarrow> agent_run option act" where
  "run_of_draft draft =
     (case dr_agentRunId draft of
        None \<Rightarrow> ret_x None
      | Some i \<Rightarrow> find_first agentRun_t (\<lambda>r. run_id r = i))"

definition createOutboundForApprovedDraft ::
  "ext \<Rightarrow> string \<Rightarrow> string \<Rightarrow> string \<Rightarrow> outbound_message option act" where
  "createOutboundForApprovedDraft E orgId draftId actorUserId =
     bind_x (find_first outboundDraft_t (\<lambda>d. dr_id d = draftId \<and> dr_orgId d = orgId)) (\<lambda>found.
     case found of
       None \<Rightarrow> ret_x None
     | Some draft \<Rightarrow>
         if dr_status draft \<noteq> DraftStatus.APPROVED then ret_x None
         else bind_x (run_of_draft draft) (\<lambda>run.
           if map_option run_status run = Some AgentRunStatus.BLOCKED
           then throw_x (bad_request ''Blocked agent run drafts cannot send'')
           else bind_x (deliverable_conversation orgId (dr_ticketId draft)) (\<lambda>conv.
             case conv of
               None \<Rightarrow> ret_x None
             | Some conversation \<Rightarrow>
                 bind_x (customer_of (fst conversation)) (\<lambda>customer.
                   case customer of
                     None \<Rightarrow> ret_x None
                   | Some u \<Rightarrow>
                       (case normalizeEmail (cu_email u) of
                          None \<Rightarrow> throw_x (bad_request ''Conversation has no verified recipient email'')
                        | Some recipientEmail \<Rightarrow>
                            bind_x (queue_for_delivery E orgId draft conversation u recipientEmail actorUserId)
                              (\<lambda>outbound. ret_x (Some outbound)))))))"

section \<open>What queueing a draft touches\<close>

lemma createOutbound_other:
  assumes "ignores outboundMessage_t J" "ignores agentEvent_t J" "ignores channelAuditEvent_t J"
  shows "preserves (on_db J) (createOutboundForApprovedDraft E a b c)"
  unfolding createOutboundForApprovedDraft_def queue_for_delivery_def upsert_outbound_def create_audit_def
   deliverable_conversation_def customer_of_def run_of_draft_def
  by (intro preserve_rules ch.append_other preserves_other_table assms)

section \<open>One message of a draft\<close>

definition queued_once :: "string \<Rightarrow> string \<Rightarrow> outbound_message list \<Rightarrow> outbound_message \<Rightarrow> outbound_message list \<Rightarrow> bool" where
  "queued_once draftId body old m new \<longleftrightarrow>
     om_idempotencyKey m = draft_key draftId \<and> m \<in> set new \<and>
     (if list_ex (\<lambda>x. om_idempotencyKey x = draft_key draftId) old then new = old
      else new = old @ [m] \<and> om_textBody m = body \<and> om_status m = OutboundMessageStatus.PENDING)"

lemma upsert_outbound_spec:
  assumes "fst (upsert_outbound E orgId draft conversation customer email actor w) = Inr m"
  shows "queued_once (dr_id draft) (dr_body draft) (outboundMessages (db w)) m
    (outboundMessages (db (snd (upsert_outbound E orgId draft conversation customer email actor w))))"
proof (cases "first_where (\<lambda>x. om_idempotencyKey x = draft_key (dr_id draft)) (outboundMessages (db w))")
  case None
  then have "\<not> list_ex (\<lambda>x. om_idempotencyKey x = draft_key (dr_id draft)) (outboundMessages (db w))"
    by (simp add: first_where_None list_ex_iff)
  with None assms show ?thesis
    by (auto simp: upsert_outbound_def run_simps outboundMessage_t_def queued_once_def insert_row_def
        blank_outbound_message_def split: option.splits if_splits)
next
  case (Some x)
  then have "list_ex (\<lambda>x. om_idempotencyKey x = draft_key (dr_id draft)) (outboundMessages (db w))"
    using first_where_Some [OF Some] by (auto simp: list_ex_iff)
  with Some assms first_where_Some [OF Some] show ?thesis
    by (auto simp: upsert_outbound_def run_simps outboundMessage_t_def queued_once_def split: option.splits)
qed

lemma queue_for_delivery_spec:
  assumes "fst (queue_for_delivery E orgId draft conv customer email actor w) = Inr m"
  shows "queued_once (dr_id draft) (dr_body draft) (outboundMessages (db w)) m
    (outboundMessages (db (snd (queue_for_delivery E orgId draft conv customer email actor w))))"
proof -
  let ?J = "\<lambda>x d. queued_once (dr_id draft) (dr_body draft) (outboundMessages (db w)) x (outboundMessages d)"
  have ig: "ignores agentEvent_t (?J x)" "ignores channelAuditEvent_t (?J x)" for x
    by (simp_all add: ignores_def table_defs)
  have u: "ensures (\<lambda>v. v = w) (upsert_outbound E orgId draft (fst conv) customer email actor) (\<lambda>x. on_db (?J x))"
    unfolding ensures_def on_db_def using upsert_outbound_spec by blast
  have "ensures (\<lambda>v. v = w) (queue_for_delivery E orgId draft conv customer email actor) (\<lambda>x. on_db (?J x))"
    unfolding queue_for_delivery_def create_audit_def
    by (rule ensures_bind [OF u], (rule ensures_then_keep, intro preserve_rules ch.append_other preserves_other_table ig)+,
        rule ensures_ret)
  from ensuresD [OF this _ assms] show ?thesis by (simp add: on_db_def)
qed

text \<open>C8: Queueing an approved draft makes at most one outbound message of it: when a message with
  the key of the draft exists, that one is returned and the table is unchanged; otherwise exactly
  one is added, pending, with the text of the draft.\<close>

theorem draft_queued_once:
  assumes "fst (createOutboundForApprovedDraft E orgId draftId actor w) = Inr (Some m)"
  shows "\<exists>draft \<in> set (outboundDrafts (db w)). dr_id draft = draftId \<and> dr_orgId draft = orgId \<and>
    dr_status draft = DraftStatus.APPROVED \<and>
    queued_once draftId (dr_body draft) (outboundMessages (db w)) m
      (outboundMessages (db (snd (createOutboundForApprovedDraft E orgId draftId actor w))))"
proof -
  let ?own = "\<lambda>d. dr_id d = draftId \<and> dr_orgId d = orgId"
  let ?G = "\<lambda>m v. \<exists>draft \<in> set (outboundDrafts (db w)). ?own draft \<and> dr_status draft = DraftStatus.APPROVED \<and>
    queued_once draftId (dr_body draft) (outboundMessages (db w)) m (outboundMessages (db v))"
  have reads: "preserves (\<lambda>v. v = w) (run_of_draft x)" "preserves (\<lambda>v. v = w) (customer_of y)"
      "preserves (\<lambda>v. v = w) (deliverable_conversation a b)" for x y a b
    by (auto simp: preserves_def run_of_draft_def customer_of_def deliverable_conversation_def run_simps split: option.split)
  have find: "ensures (\<lambda>v. v = w) (find_first outboundDraft_t ?own)
      (\<lambda>found v. v = w \<and> found = first_where ?own (outboundDrafts (db w)))"
    by (simp add: ensures_def run_simps outboundDraft_t_def)
  have queue: "ensures (\<lambda>v. v = w) (bind_x (queue_for_delivery E orgId draft conv customer email actor) (\<lambda>x. ret_x (Some x)))
      (\<lambda>r v. \<forall>m. r = Some m \<longrightarrow> ?G m v)"
    if "first_where ?own (outboundDrafts (db w)) = Some draft" "dr_status draft = DraftStatus.APPROVED" for draft conv customer email
    using queue_for_delivery_spec [of E orgId draft conv customer email actor w] first_where_Some [OF that(1)] that(2)
    by (auto simp: ensures_def run_simps split: sum.splits)
  have none: "ensures P (ret_x None) (\<lambda>r v. \<forall>m. r = Some m \<longrightarrow> ?G m v)" for P
    by (rule ensures_ret) simp
  have "ensures (\<lambda>v. v = w) (createOutboundForApprovedDraft E orgId draftId actor) (\<lambda>r v. \<forall>m. r = Some m \<longrightarrow> ?G m v)"
    unfolding createOutboundForApprovedDraft_def
  proof (rule ensures_bind [OF find])
    fix found
    show "ensures (\<lambda>v. v = w \<and> found = first_where ?own (outboundDrafts (db w)))
      (case found of None \<Rightarrow> ret_x None | Some draft \<Rightarrow>
         if dr_status draft \<noteq> DraftStatus.APPROVED then ret_x None
         else bind_x (run_of_draft draft) (\<lambda>run.
           if map_option run_status run = Some AgentRunStatus.BLOCKED
           then throw_x (bad_request ''Blocked agent run drafts cannot send'')
           else bind_x (deliverable_conversation orgId (dr_ticketId draft)) (\<lambda>conv.
             case conv of
               None \<Rightarrow> ret_x None
             | Some conversation \<Rightarrow>
                 bind_x (customer_of (fst conversation)) (\<lambda>customer.
                   case customer of
                     None \<Rightarrow> ret_x None
                   | Some u \<Rightarrow>
                       (case normalizeEmail (cu_email u) of
                          None \<Rightarrow> throw_x (bad_request ''Conversation has no verified recipient email'')
                        | Some recipientEmail \<Rightarrow>
                            bind_x (queue_for_delivery E orgId draft conversation u recipientEmail actor)
                              (\<lambda>outbound. ret_x (Some outbound)))))))
      (\<lambda>r v. \<forall>m. r = Some m \<longrightarrow> ?G m v)"
    proof (cases "found = first_where ?own (outboundDrafts (db w))")
      case True
      have weak: "ensures (\<lambda>v. v = w) m Q \<Longrightarrow> ensures (\<lambda>v. v = w \<and> found = first_where ?own (outboundDrafts (db w))) m Q"
        for m :: "outbound_message option act" and Q by (auto simp: ensures_def)
      from True show ?thesis
        by (intro weak ensures_option none ensures_if ensures_throw ensures_bind_keep reads queue) auto
    qed (simp add: ensures_def)
  qed
  from ensuresD [OF this _ assms] show ?thesis by simp
qed

definition demo_outbox :: world where
  "demo_outbox = demo_world (empty_db\<lparr>
     outboundDrafts := [blank_outbound_draft\<lparr>dr_id := ''d'', dr_orgId := ''o'', dr_ticketId := ''t'',
       dr_status := DraftStatus.APPROVED, dr_body := ''hello''\<rparr>],
     conversations := [blank_conversation\<lparr>cv_id := ''v'', cv_organizationId := ''o'',
       cv_ticketId := Some ''t'', cv_channelConnectionId := ''k'', cv_externalCustomerId := Some ''c'',
       cv_status := ConversationStatus.OPEN\<rparr>],
     channelConnections := [blank_channel_connection\<lparr>cc_id := ''k'',
       cc_status := ChannelConnectionStatus.ACTIVE\<rparr>],
     externalCustomers := [blank_external_customer\<lparr>cu_id := ''c'', cu_email := Some ''a@b.c''\<rparr>]\<rparr>)"

theorem draft_queued_once_witness:
  "\<exists>m. queued_once ''d'' ''hello'' (outboundMessages (db demo_outbox)) m
     (outboundMessages (db (snd (createOutboundForApprovedDraft demo_ext ''o'' ''d'' ''u'' demo_outbox))))"
proof -
  have "case fst (createOutboundForApprovedDraft demo_ext ''o'' ''d'' ''u'' demo_outbox) of
      Inr (Some m) \<Rightarrow> True | _ \<Rightarrow> False" by code_simp
  then obtain m where "fst (createOutboundForApprovedDraft demo_ext ''o'' ''d'' ''u'' demo_outbox) = Inr (Some m)"
    by (auto split: sum.splits option.splits)
  from draft_queued_once [OF this] show ?thesis
    by (auto simp: demo_outbox_def demo_world_def)
qed

end
