(* ===== verification/Lease.thy ===== *)
theory Lease
  imports Tables
begin

text \<open>
  The contract of a claim: a due row is taken by one conditional \<^verbatim>\<open>updateMany\<close>, whose count
  tells the caller whether it was taken, and is not due again before the lease has expired. The
  delivery worker and the dispatcher of inbound runs rely on it.
\<close>

text \<open>The counts of a sequence of claims, one after the other; a claim that throws counts nothing.\<close>

primrec claim_counts :: "nat act list \<Rightarrow> world \<Rightarrow> nat list" where
  "claim_counts [] w = []"
| "claim_counts (m # ms) w =
     (case fst (m w) of Inl e \<Rightarrow> 0 | Inr n \<Rightarrow> n) # claim_counts ms (snd (m w))"

lemma one_row: "distinct (map f xs) \<Longrightarrow> length (filter (\<lambda>r. f r = i \<and> Q r) xs) \<le> 1"
proof (induction xs)
  case Nil
  then show ?case by simp
next
  case (Cons x xs)
  show ?case
  proof (cases "f x = i \<and> Q x")
    case True
    then have "filter (\<lambda>r. f r = i \<and> Q r) xs = []" using Cons.prems by (auto simp: filter_empty_conv image_iff)
    with True show ?thesis by simp
  next
    case False
    with Cons show ?thesis by auto
  qed
qed

locale lease =
  fixes T :: "'r table"
    and due :: "int \<Rightarrow> 'r \<Rightarrow> bool"
    and attempt :: "string \<Rightarrow> 's \<Rightarrow> nat act"
    and time :: "'s \<Rightarrow> int"
    and expiry :: "'s \<Rightarrow> int"
    and taken :: "int \<Rightarrow> 's \<Rightarrow> 'r \<Rightarrow> 'r"
  assumes counted: "fst (attempt i s w) = Inr (count_where (\<lambda>r. t_id T r = i \<and> due (time s) r) (t_get T (db w)))"
    and rows: "\<exists>now. t_get T (db (snd (attempt i s w))) =
        update_where (\<lambda>r. t_id T r = i \<and> due (time s) r) (taken now s) (t_get T (db w))"
    and taken_id: "t_id T (taken now s r) = t_id T r"
    and taken_not_due: "later \<le> expiry s \<Longrightarrow> \<not> due later (taken now s r)"
begin

text \<open>Nobody can take the row up to a time.\<close>

definition held :: "string \<Rightarrow> int \<Rightarrow> db \<Rightarrow> bool" where
  "held i until d \<longleftrightarrow> (\<forall>r \<in> set (t_get T d). t_id T r = i \<longrightarrow> (\<forall>now \<le> until. \<not> due now r))"

lemma ids_kept: "map (t_id T) (t_get T (db (snd (attempt i s w)))) = map (t_id T) (t_get T (db w))"
  using rows [of i s w] by (auto simp: map_update_where taken_id)

lemma refused:
  assumes "held i until (db w)" "time s \<le> until"
  shows "fst (attempt i s w) = Inr 0" "held i until (db (snd (attempt i s w)))"
proof -
  have none: "count_where (\<lambda>r. t_id T r = i \<and> due (time s) r) (t_get T (db w)) = 0"
    using assms by (auto simp: held_def count_where_def filter_empty_conv)
  then show "fst (attempt i s w) = Inr 0" by (simp add: counted)
  from none have "t_get T (db (snd (attempt i s w))) = t_get T (db w)"
    using rows [of i s w] update_where_none by metis
  with assms(1) show "held i until (db (snd (attempt i s w)))" by (simp add: held_def)
qed

lemma held_counts:
  assumes "held i until (db w)" "\<forall>s \<in> set ss. time s \<le> until"
  shows "sum_list (claim_counts (map (attempt i) ss) w) = 0"
  using assms
proof (induction ss arbitrary: w)
  case (Cons s ss)
  then have "time s \<le> until" "\<forall>s \<in> set ss. time s \<le> until" by simp_all
  with refused [OF Cons.prems(1), of s] Cons.IH show ?case by simp
qed simp

lemma taking:
  assumes "distinct (map (t_id T) (t_get T (db w)))" "until \<le> expiry s"
    and "fst (attempt i s w) = Inr n" "n \<noteq> 0"
  shows "n = 1" "held i until (db (snd (attempt i s w)))"
proof -
  let ?P = "\<lambda>r. t_id T r = i \<and> due (time s) r" and ?t = "t_get T (db w)"
  have n: "n = count_where ?P ?t" using assms(3) by (simp add: counted)
  with one_row [OF assms(1), of i "due (time s)"] assms(4) show "n = 1"
    unfolding count_where_def by linarith
  from n assms(4) obtain r0 where r0: "r0 \<in> set ?t" "?P r0"
    by (auto simp: count_where_def filter_empty_conv)
  have same: "r = r0" if "r \<in> set ?t" "t_id T r = i" for r
    using assms(1) that r0 by (auto simp: distinct_map dest: inj_onD)
  obtain now where "t_get T (db (snd (attempt i s w))) = update_where ?P (taken now s) ?t"
    using rows by blast
  then show "held i until (db (snd (attempt i s w)))"
    using same r0 assms(2) taken_not_due
    by (auto simp: held_def set_update_where taken_id)
qed

text \<open>Of all claims of one row within the lease that any of them would get, at most one succeeds.\<close>

lemma exclusive:
  assumes "distinct (map (t_id T) (t_get T (db w)))"
    and "\<forall>s \<in> set ss. time s \<le> until \<and> until \<le> expiry s"
  shows "sum_list (claim_counts (map (attempt i) ss) w) \<le> 1"
  using assms
proof (induction ss arbitrary: w)
  case (Cons s ss)
  have later: "until \<le> expiry s" "\<forall>s \<in> set ss. time s \<le> until" using Cons.prems(2) by simp_all
  obtain n where n: "fst (attempt i s w) = Inr n" using counted by blast
  show ?case
  proof (cases "n = 0")
    case True
    have "distinct (map (t_id T) (t_get T (db (snd (attempt i s w)))))"
      using Cons.prems(1) by (simp only: ids_kept)
    with Cons.IH Cons.prems(2) n True show ?thesis by simp
  next
    case False
    with taking [OF Cons.prems(1) later(1) n] held_counts [OF _ later(2)] n show ?thesis by simp
  qed
qed simp

end

end
