(* ===== verification/Delivery.thy ===== *)
theory Delivery
  imports Outbound Lease
begin

text \<open>
  \<^verbatim>\<open>apps/worker/src/channels/channel-delivery.processor.ts\<close> (one job delivers one outbound
  message: claim, attempt, success or failure) and
  \<^verbatim>\<open>apps/worker/src/channels/outbound-delivery-reconciler.service.ts\<close> (due messages get a job
  again). The row read at the start of a job is a snapshot; the claim and what follows are
  definitions of their own that take it, so that other steps may come between.
\<close>

section \<open>Configuration\<close>

definition TERMINAL_STATUSES :: "OutboundMessageStatus set" where
  "TERMINAL_STATUSES = {OutboundMessageStatus.SENT, OutboundMessageStatus.DELIVERED,
     OutboundMessageStatus.CANCELLED, OutboundMessageStatus.DEAD_LETTER}"

definition parseIntEnv :: "ext \<Rightarrow> string \<Rightarrow> int \<Rightarrow> int" where
  "parseIntEnv E name fallback =
     nullish (parse_int (nullish (map_option trim (x_env E name)) [])) fallback"

text \<open>\<^verbatim>\<open>Math.floor(capped * 0.2)\<close> is integer division by five: the double nearest to 0.2 lies
  above it, and \<open>capped\<close> is an integer of at most 60000.\<close>

definition backoffDelayMs :: "ext \<Rightarrow> int \<Rightarrow> int" where
  "backoffDelayMs E attempt =
     (let base = max (parseIntEnv E ''CHANNEL_DELIVERY_RETRY_BASE_DELAY_MS'' 1000) 100;
          capped = min (base * 2 ^ nat (max (attempt - 1) 0)) 60000;
          jitter = capped div 5
      in capped + jitter)"

definition CHANNEL_DELIVERY_LEASE_MS :: "ext \<Rightarrow> int" where
  "CHANNEL_DELIVERY_LEASE_MS E = max (parseIntEnv E ''CHANNEL_DELIVERY_LEASE_MS'' 120000) 10000"

record delivery_job =
  dj_id :: string
  dj_name :: string
  dj_outboundMessageId :: string
  dj_correlationId :: "string option"

datatype delivery_result =
    JobIgnored
  | MissingMessage
  | SkippedTerminal OutboundMessageStatus
  | JobDelayed
  | AlreadyClaimed
  | DeliverySent string
  | DeliveryFailed OutboundMessageStatus bool

section \<open>Steps of a delivery\<close>

definition dl_appendTimelineEvent ::
  "ext \<Rightarrow> string \<Rightarrow> string \<Rightarrow> AgentEventType \<Rightarrow> json \<Rightarrow> unit act" where
  "dl_appendTimelineEvent E orgId ticketId ty payload =
     transaction (bind_x (append_event E orgId ticketId None ty payload) (\<lambda>_. ret_x ()))"

definition dl_enqueue :: "ext \<Rightarrow> string \<Rightarrow> int \<Rightarrow> unit act" where
  "dl_enqueue E outboundMessageId delayMs =
     bind_x (now_x E) (\<lambda>now.
     bind_x (queue_add E (delivery_call E outboundMessageId
         (''channel-delivery-'' @ outboundMessageId @ ''-'' @ show_int now) (Some (max delayMs 0))))
       (\<lambda>_. ret_x ()))"

definition claimable :: "int \<Rightarrow> string \<Rightarrow> outbound_message \<Rightarrow> bool" where
  "claimable now outboundId m \<longleftrightarrow>
     om_id m = outboundId \<and>
     om_status m \<in> {OutboundMessageStatus.PENDING, OutboundMessageStatus.RETRY_SCHEDULED,
       OutboundMessageStatus.FAILED, OutboundMessageStatus.PROCESSING} \<and>
     (om_leaseExpiresAt m = None \<or>
      (case om_leaseExpiresAt m of None \<Rightarrow> False | Some t \<Rightarrow> t < now) \<or>
      om_status m \<noteq> OutboundMessageStatus.PROCESSING)"

definition claim_message :: "int \<Rightarrow> int \<Rightarrow> string \<Rightarrow> int \<Rightarrow> outbound_message \<Rightarrow> outbound_message" where
  "claim_message now leaseMs jobId attemptNumber m =
     m\<lparr>om_status := OutboundMessageStatus.PROCESSING, om_processingStartedAt := Some now,
       om_leaseOwner := Some jobId, om_leaseExpiresAt := Some (now + leaseMs),
       om_attemptCount := attemptNumber\<rparr>"

definition claim_delivery :: "ext \<Rightarrow> int \<Rightarrow> string \<Rightarrow> outbound_message \<Rightarrow> nat act" where
  "claim_delivery E now jobId outbound =
     update_many E outboundMessage_t (claimable now (om_id outbound))
       (claim_message now (CHANNEL_DELIVERY_LEASE_MS E) jobId (om_attemptCount outbound + 1))"

definition start_attempt :: "ext \<Rightarrow> string \<Rightarrow> outbound_message \<Rightarrow> delivery_attempt act" where
  "start_attempt E correlationId outbound =
     (let n = om_attemptCount outbound + 1
      in bind_x (create_row E deliveryAttempt_t (\<lambda>i now. blank_delivery_attempt\<lparr>da_id := i,
             da_startedAt := now, da_organizationId := om_organizationId outbound,
             da_outboundMessageId := om_id outbound, da_attemptNumber := n,
             da_outcome := DeliveryAttemptOutcome.UNKNOWN,
             da_correlationId := Some correlationId\<rparr>)) (\<lambda>attempt.
         then_x (dl_appendTimelineEvent E (om_organizationId outbound) (om_ticketId outbound)
             AgentEventType.CHANNEL_DELIVERY_ATTEMPT_STARTED
             (JObj [(''outboundMessageId'', JStr (om_id outbound)), (''attemptNumber'', j_int n)]))
           (ret_x attempt)))"

definition send_checked ::
  "ext \<Rightarrow> outbound_message \<Rightarrow> channel_connection \<Rightarrow> conversation \<Rightarrow> send_result act" where
  "send_checked E outbound connection conversation =
     (if cc_status connection \<noteq> ChannelConnectionStatus.ACTIVE
      then throw_x (provider_error ''Channel connection is disabled'' ''CONNECTION_DISABLED'' False None)
      else if cc_provider connection \<noteq> ChannelProvider.MOCK_EMAIL
      then throw_x (provider_error ''Unsupported channel provider'' ''CONFIGURATION_ERROR'' False None)
      else worker_sendMessage E \<lparr>si_idempotencyKey = om_idempotencyKey outbound,
        si_subject = om_subject outbound, si_textBody = om_textBody outbound,
        si_htmlBody = om_htmlBody outbound,
        si_recipients = nullish (j_items (Some (om_recipients outbound))) [],
        si_externalThreadId = cv_externalThreadId conversation,
        si_failureMode = j_text (j_sub ''failureMode'' (cc_config connection))\<rparr>)"

definition sent_message :: "send_result \<Rightarrow> string \<Rightarrow> outbound_message \<Rightarrow> outbound_message" where
  "sent_message result externalMessageId m =
     m\<lparr>om_externalMessageId := Some externalMessageId,
       om_providerMessageId := Some (sr_providerMessageId result),
       om_status := (if sr_deliveryStatus result = ''DELIVERED'' then OutboundMessageStatus.DELIVERED
                     else OutboundMessageStatus.SENT),
       om_sentAt := Some (sr_acceptedAt result),
       om_deliveredAt := (if sr_deliveryStatus result = ''DELIVERED'' then Some (sr_acceptedAt result)
                          else None),
       om_leaseOwner := None, om_leaseExpiresAt := None, om_nextAttemptAt := None,
       om_lastErrorCode := None, om_lastErrorRedacted := None\<rparr>"

definition success_tx ::
  "ext \<Rightarrow> outbound_message \<Rightarrow> delivery_attempt \<Rightarrow> send_result \<Rightarrow> unit act" where
  "success_tx E outbound attempt result =
     transaction
       (bind_x (create_row E externalMessage_t (\<lambda>i now. blank_external_message\<lparr>xm_id := i,
            xm_createdAt := now, xm_organizationId := om_organizationId outbound,
            xm_conversationId := om_conversationId outbound,
            xm_channelConnectionId := om_channelConnectionId outbound,
            xm_providerMessageId := Some (sr_providerMessageId result),
            xm_direction := ExternalMessageDirection.OUTBOUND,
            xm_sender := JObj [(''type'', JStr ''support'')],
            xm_recipients := om_recipients outbound, xm_subject := om_subject outbound,
            xm_textBody := Some (om_textBody outbound), xm_htmlBody := om_htmlBody outbound,
            xm_sentAt := Some (sr_acceptedAt result),
            xm_metadata := Some (nullish (sr_metadata result) (JObj []))\<rparr>)) (\<lambda>externalMessage.
        then_x (update_row E outboundMessage_t (\<lambda>m. om_id m = om_id outbound)
            (sent_message result (xm_id externalMessage)))
        (bind_x (now_x E) (\<lambda>completedAt.
         then_x (update_row E deliveryAttempt_t (\<lambda>a. da_id a = da_id attempt) (\<lambda>a. a\<lparr>
            da_outcome := DeliveryAttemptOutcome.SUCCEEDED, da_completedAt := Some completedAt,
            da_retryable := False,
            da_responseMetadata := Some (nullish (sr_metadata result) (JObj []))\<rparr>))
          (ret_x ())))))"

definition sent_events :: "ext \<Rightarrow> outbound_message \<Rightarrow> send_result \<Rightarrow> unit act" where
  "sent_events E outbound result =
     (let payload = JObj [(''outboundMessageId'', JStr (om_id outbound)),
            (''providerMessageId'', JStr (sr_providerMessageId result)),
            (''attemptNumber'', j_int (om_attemptCount outbound + 1))]
      in then_x (dl_appendTimelineEvent E (om_organizationId outbound) (om_ticketId outbound)
             AgentEventType.CHANNEL_MESSAGE_SENT payload)
           (when_x (sr_deliveryStatus result = ''DELIVERED'')
             (dl_appendTimelineEvent E (om_organizationId outbound) (om_ticketId outbound)
               AgentEventType.CHANNEL_MESSAGE_DELIVERED payload)))"

definition deliver_claimed ::
  "ext \<Rightarrow> outbound_message \<Rightarrow> channel_connection \<Rightarrow> conversation \<Rightarrow> delivery_attempt \<Rightarrow>
   delivery_result act" where
  "deliver_claimed E outbound connection conversation attempt =
     bind_x (send_checked E outbound connection conversation) (\<lambda>result.
     then_x (success_tx E outbound attempt result)
     (then_x (sent_events E outbound result)
       (ret_x (DeliverySent (sr_deliveryStatus result)))))"

definition can_retry :: "js_error \<Rightarrow> outbound_message \<Rightarrow> bool" where
  "can_retry err outbound \<longleftrightarrow>
     de_retryable (worker_classifyError err) \<and> om_attemptCount outbound + 1 < om_maxAttempts outbound"

definition failure_status :: "bool \<Rightarrow> OutboundMessageStatus" where
  "failure_status canRetry =
     (if canRetry then OutboundMessageStatus.RETRY_SCHEDULED else OutboundMessageStatus.DEAD_LETTER)"

definition failed_message ::
  "bool \<Rightarrow> int option \<Rightarrow> int option \<Rightarrow> delivery_error \<Rightarrow> outbound_message \<Rightarrow> outbound_message" where
  "failed_message canRetry failedAt nextAttemptAt classified m =
     m\<lparr>om_status := failure_status canRetry, om_failedAt := failedAt, om_nextAttemptAt := nextAttemptAt,
       om_leaseOwner := None, om_leaseExpiresAt := None,
       om_lastErrorCode := Some (de_category classified),
       om_lastErrorRedacted := Some (de_message classified)\<rparr>"

definition record_dead_letter ::
  "ext \<Rightarrow> delivery_job \<Rightarrow> string \<Rightarrow> outbound_message \<Rightarrow> delivery_error \<Rightarrow> unit act" where
  "record_dead_letter E job correlationId outbound classified =
     bind_x (create_row E operationalFailure_t (\<lambda>i now. blank_operational_failure\<lparr>of_id := i,
         of_failedAt := now, of_organizationId := Some (om_organizationId outbound),
         of_queueName := CHANNEL_DELIVERY_QUEUE_NAME E, of_jobName := dj_name job,
         of_jobId := Some (dj_id job), of_correlationId := Some correlationId,
         of_ticketId := Some (om_ticketId outbound), of_errorCode := de_category classified,
         of_safeErrorMessage := de_message classified,
         of_attemptCount := om_attemptCount outbound + 1,
         of_payloadSummaryJson := Some (sanitize_top E
           (JObj [(''outboundMessageId'', JStr (om_id outbound))]))\<rparr>)) (\<lambda>_. ret_x ())"

definition failure_tx ::
  "ext \<Rightarrow> delivery_job \<Rightarrow> string \<Rightarrow> outbound_message \<Rightarrow> delivery_attempt \<Rightarrow> bool \<Rightarrow> int option \<Rightarrow>
   delivery_error \<Rightarrow> unit act" where
  "failure_tx E job correlationId outbound attempt canRetry nextAttemptAt classified =
     transaction
       (bind_x (now_x E) (\<lambda>completedAt.
        then_x (update_row E deliveryAttempt_t (\<lambda>a. da_id a = da_id attempt) (\<lambda>a. a\<lparr>
            da_outcome := (if canRetry then DeliveryAttemptOutcome.RETRYABLE_FAILURE
                           else DeliveryAttemptOutcome.PERMANENT_FAILURE),
            da_completedAt := Some completedAt,
            da_providerStatusCode := nullish2 (de_providerStatusCode classified) (da_providerStatusCode a),
            da_providerErrorCode := Some (nullish (de_providerErrorCode classified) (de_category classified)),
            da_retryable := canRetry, da_errorRedacted := Some (de_message classified)\<rparr>))
        (bind_x (if canRetry then ret_x None else bind_x (now_x E) (\<lambda>t. ret_x (Some t))) (\<lambda>failedAt.
         then_x (update_row E outboundMessage_t (\<lambda>m. om_id m = om_id outbound)
            (failed_message canRetry failedAt nextAttemptAt classified))
          (when_x (\<not> canRetry) (record_dead_letter E job correlationId outbound classified))))))"

definition handle_failure ::
  "ext \<Rightarrow> delivery_job \<Rightarrow> string \<Rightarrow> outbound_message \<Rightarrow> delivery_attempt \<Rightarrow> js_error \<Rightarrow>
   delivery_result act" where
  "handle_failure E job correlationId outbound attempt err =
     (let classified = worker_classifyError err;
          n = om_attemptCount outbound + 1;
          canRetry = can_retry err outbound
      in bind_x (if canRetry then bind_x (now_x E) (\<lambda>t. ret_x (Some (t + backoffDelayMs E n)))
                 else ret_x None) (\<lambda>nextAttemptAt.
         then_x (failure_tx E job correlationId outbound attempt canRetry nextAttemptAt classified)
         (then_x (dl_appendTimelineEvent E (om_organizationId outbound) (om_ticketId outbound)
             (if canRetry then AgentEventType.CHANNEL_DELIVERY_RETRY_SCHEDULED
              else AgentEventType.CHANNEL_MESSAGE_DEAD_LETTERED)
             (JObj [(''outboundMessageId'', JStr (om_id outbound)), (''attemptNumber'', j_int n),
               (''errorCode'', JStr (de_category classified)), (''retryable'', JBool canRetry),
               (''nextAttemptAt'', j_str (map_option (x_iso E) nextAttemptAt))]))
         (then_x (case nextAttemptAt of
             None \<Rightarrow> ret_x ()
           | Some t \<Rightarrow> when_x canRetry (bind_x (now_x E) (\<lambda>now. dl_enqueue E (om_id outbound) (t - now))))
           (ret_x (DeliveryFailed (failure_status canRetry) canRetry))))))"

section \<open>The job\<close>

definition load_outbound ::
  "string \<Rightarrow> (outbound_message \<times> channel_connection \<times> conversation) option act" where
  "load_outbound outboundMessageId =
     bind_x (find_first outboundMessage_t (\<lambda>m. om_id m = outboundMessageId)) (\<lambda>found.
     case found of
       None \<Rightarrow> ret_x None
     | Some m \<Rightarrow>
         bind_x (find_first channelConnection_t (\<lambda>k. cc_id k = om_channelConnectionId m)) (\<lambda>k.
         bind_x (require_x k missing_record) (\<lambda>connection.
         bind_x (find_first conversation_t (\<lambda>c. cv_id c = om_conversationId m)) (\<lambda>c.
         bind_x (require_x c missing_record) (\<lambda>conversation.
           ret_x (Some (m, connection, conversation)))))))"

definition run_attempt ::
  "ext \<Rightarrow> delivery_job \<Rightarrow> string \<Rightarrow> int \<Rightarrow> outbound_message \<Rightarrow> channel_connection \<Rightarrow> conversation \<Rightarrow>
   delivery_result act" where
  "run_attempt E job correlationId now outbound connection conversation =
     bind_x (claim_delivery E now (dj_id job) outbound) (\<lambda>claimed.
       if claimed \<noteq> 1 then ret_x AlreadyClaimed
       else bind_x (start_attempt E correlationId outbound) (\<lambda>attempt.
         catch_x (deliver_claimed E outbound connection conversation attempt)
           (handle_failure E job correlationId outbound attempt)))"

definition sendOutboundMessage :: "ext \<Rightarrow> delivery_job \<Rightarrow> string \<Rightarrow> delivery_result act" where
  "sendOutboundMessage E job correlationId =
     bind_x (load_outbound (dj_outboundMessageId job)) (\<lambda>loaded.
     case loaded of
       None \<Rightarrow> ret_x MissingMessage
     | Some (outbound, connection, conversation) \<Rightarrow>
         if om_status outbound \<in> TERMINAL_STATUSES then ret_x (SkippedTerminal (om_status outbound))
         else bind_x (now_x E) (\<lambda>now.
           case om_nextAttemptAt outbound of
             Some t \<Rightarrow>
               if t > now
               then then_x (dl_enqueue E (om_id outbound) (t - now)) (ret_x JobDelayed)
               else run_attempt E job correlationId now outbound connection conversation
           | None \<Rightarrow> run_attempt E job correlationId now outbound connection conversation))"

definition process_delivery :: "ext \<Rightarrow> delivery_job \<Rightarrow> delivery_result act" where
  "process_delivery E job =
     (if dj_name job \<noteq> ''send-outbound-message'' then ret_x JobIgnored
      else bind_x correlation_x (\<lambda>current.
        let correlationId = nullish (nullish2 (dj_correlationId job) current)
              (''channel-delivery-'' @ dj_id job)
        in with_context \<lparr>co_correlationId = Some correlationId, co_retryAttempt = None\<rparr>
             (sendOutboundMessage E job correlationId)))"

section \<open>The reconciler\<close>

definition delivery_due :: "int \<Rightarrow> outbound_message \<Rightarrow> bool" where
  "delivery_due now m \<longleftrightarrow>
     (om_status m \<in> {OutboundMessageStatus.PENDING, OutboundMessageStatus.FAILED,
        OutboundMessageStatus.RETRY_SCHEDULED} \<and>
      (case om_nextAttemptAt m of None \<Rightarrow> True | Some t \<Rightarrow> t \<le> now)) \<or>
     (om_status m = OutboundMessageStatus.PROCESSING \<and>
      (case om_leaseExpiresAt m of None \<Rightarrow> False | Some t \<Rightarrow> t < now))"

text \<open>\<^verbatim>\<open>nextAttemptAt asc, createdAt asc\<close>; Postgres puts \<^verbatim>\<open>NULL\<close> last.\<close>

definition delivery_order :: "outbound_message list \<Rightarrow> outbound_message list" where
  "delivery_order ms =
     order_asc (\<lambda>m. case om_nextAttemptAt m of None \<Rightarrow> 1 | Some _ \<Rightarrow> 0)
       (order_asc (\<lambda>m. nullish (om_nextAttemptAt m) 0) (order_asc om_createdAt ms))"

definition reconcile_one :: "ext \<Rightarrow> outbound_message \<Rightarrow> unit list act" where
  "reconcile_one E m =
     catch_x (bind_x (queue_add E (delivery_call E (om_id m)
         (attempt_job_id (om_id m) (om_attemptCount m)) None)) (\<lambda>_. ret_x [()]))
       (\<lambda>err. ret_x [])"

text \<open>\<open>running\<close> is the flag of the service; \<open>None\<close> is the skipped call.\<close>

definition reconcile :: "ext \<Rightarrow> bool \<Rightarrow> nat \<Rightarrow> nat option act" where
  "reconcile E running limit =
     (if running then ret_x None
      else bind_x (now_x E) (\<lambda>now.
        bind_x (find_many outboundMessage_t (delivery_due now)) (\<lambda>candidates.
        bind_x (collect_x (take limit (delivery_order candidates)) (reconcile_one E)) (\<lambda>enqueued.
          ret_x (Some (length enqueued))))))"

interpretation dl: event_log "dl_appendTimelineEvent E" None for E
proof
  fix orgId ticketId ty payload w a
  assume "fst (dl_appendTimelineEvent E orgId ticketId ty payload w) = Inr (a :: unit)"
  then show "appended orgId ticketId ty payload None (db w)
      (db (snd (dl_appendTimelineEvent E orgId ticketId ty payload w)))"
    using append_event_spec(1) [of E orgId ticketId None ty payload w]
    by (auto simp: dl_appendTimelineEvent_def run_simps split: sum.splits)
next
  fix orgId ticketId ty payload w e
  assume "fst (dl_appendTimelineEvent E orgId ticketId ty payload w) = Inl e"
  then show "db (snd (dl_appendTimelineEvent E orgId ticketId ty payload w)) = db w"
    by (auto simp: dl_appendTimelineEvent_def run_simps split: sum.splits)
qed

section \<open>Claiming a message\<close>

definition claim_of :: "ext \<Rightarrow> string \<Rightarrow> int \<times> string \<times> outbound_message \<Rightarrow> nat act" where
  "claim_of E i s = claim_delivery E (fst s) (fst (snd s)) ((snd (snd s))\<lparr>om_id := i\<rparr>)"

interpretation delivery_lease: lease outboundMessage_t "\<lambda>now m. claimable now (om_id m) m" "claim_of E" fst
    "\<lambda>s. fst s + CHANNEL_DELIVERY_LEASE_MS E"
    "\<lambda>now s m. t_touch outboundMessage_t now
       (claim_message (fst s) (CHANNEL_DELIVERY_LEASE_MS E) (fst (snd s)) (om_attemptCount (snd (snd s)) + 1) m)" for E
proof
  fix i :: string and s :: "int \<times> string \<times> outbound_message" and w
  have p: "claimable (fst s) i = (\<lambda>r. om_id r = i \<and> claimable (fst s) (om_id r) r)"
    by (rule ext) (auto simp: claimable_def)
  show "fst (claim_of E i s w) = Inr (count_where (\<lambda>r. t_id outboundMessage_t r = i \<and> claimable (fst s) (om_id r) r)
      (t_get outboundMessage_t (db w)))"
    using p by (simp add: claim_of_def claim_delivery_def run_simps replace_rows_def outboundMessage_t_def)
  show "\<exists>now. t_get outboundMessage_t (db (snd (claim_of E i s w))) =
      update_where (\<lambda>r. t_id outboundMessage_t r = i \<and> claimable (fst s) (om_id r) r)
       (\<lambda>m. t_touch outboundMessage_t now (claim_message (fst s) (CHANNEL_DELIVERY_LEASE_MS E) (fst (snd s))
         (om_attemptCount (snd (snd s)) + 1) m)) (t_get outboundMessage_t (db w))"
    using p by (auto simp: claim_of_def claim_delivery_def run_simps replace_rows_def outboundMessage_t_def)
qed (auto simp: outboundMessage_t_def claim_message_def claimable_def)

text \<open>C6: Of all claims of one outbound message, by any workers on any stale reads, made within the
  lease that each would get, at most one succeeds: two workers never send the same message at the
  same time, whatever the order in which their claims reach the database.\<close>

theorem delivery_claim_exclusive:
  assumes "no_clash outboundMessage_t (db w)"
    and "\<forall>s \<in> set ss. om_id (snd (snd s)) = i \<and> fst s \<le> until \<and> until \<le> fst s + CHANNEL_DELIVERY_LEASE_MS E"
  shows "sum_list (claim_counts (map (\<lambda>s. claim_delivery E (fst s) (fst (snd s)) (snd (snd s))) ss) w) \<le> 1"
proof -
  have eq: "map (\<lambda>s. claim_delivery E (fst s) (fst (snd s)) (snd (snd s))) ss = map (claim_of E i) ss"
    using assms(2) by (auto simp: claim_of_def)
  have "distinct (map (t_id outboundMessage_t) (t_get outboundMessage_t (db w)))"
    using assms(1) by (rule outboundMessage_tb.unique_ids)
  then show ?thesis
    unfolding eq using assms(2) by (intro delivery_lease.exclusive [where until = until]) auto
qed

lemma lease_at_least_ten_seconds: "10000 \<le> CHANNEL_DELIVERY_LEASE_MS E"
  by (simp add: CHANNEL_DELIVERY_LEASE_MS_def)

section \<open>Backoff\<close>

lemma base_bounds: "100 \<le> max (parseIntEnv E n 1000) 100"
  by simp

text \<open>The delay before the next attempt is between 120 milliseconds and 72 seconds, whatever the
  configuration and the number of attempts, and it never shrinks from one attempt to the next.\<close>

theorem backoff_bounds:
  "120 \<le> backoffDelayMs E n \<and> backoffDelayMs E n \<le> 72000 \<and> backoffDelayMs E n \<le> backoffDelayMs E (n + 1)"
proof -
  let ?b = "max (parseIntEnv E ''CHANNEL_DELIVERY_RETRY_BASE_DELAY_MS'' 1000) 100"
  let ?c = "\<lambda>n. min (?b * 2 ^ nat (max (n - 1) 0)) 60000"
  have one: "(1::int) \<le> 2 ^ k" for k by simp
  have "?b * 1 \<le> ?b * 2 ^ nat (max (n - 1) 0)" by (rule mult_left_mono [OF one]) simp
  then have lo: "100 \<le> ?c n" by linarith
  have hi: "?c n \<le> 60000" by simp
  have "(2::int) ^ nat (max (n - 1) 0) \<le> 2 ^ nat (max (n + 1 - 1) 0)"
    by (rule power_increasing) auto
  then have "?b * 2 ^ nat (max (n - 1) 0) \<le> ?b * 2 ^ nat (max (n + 1 - 1) 0)"
    by (rule mult_left_mono) simp
  then have mono: "?c n \<le> ?c (n + 1)" by linarith
  have step: "120 \<le> c + c div 5 \<and> c + c div 5 \<le> 72000 \<and> c + c div 5 \<le> c' + c' div 5"
    if "100 \<le> c" "c \<le> 60000" "c \<le> c'" for c c' :: int
  proof -
    have "100 div 5 \<le> c div 5" "c div 5 \<le> 60000 div 5" "c div 5 \<le> c' div 5"
      using that by (simp_all only: zdiv_mono1)
    with that show ?thesis by simp
  qed
  show ?thesis
    using step [OF lo hi mono] by (simp only: backoffDelayMs_def Let_def)
qed

section \<open>Success\<close>

definition messages_all :: "string \<Rightarrow> (outbound_message \<Rightarrow> bool) \<Rightarrow> db \<Rightarrow> bool" where
  "messages_all i Q d \<longleftrightarrow> (\<forall>m \<in> set (outboundMessages d). om_id m = i \<longrightarrow> Q m)"

lemma messages_all_ignores:
  "ignores deliveryAttempt_t (messages_all i Q)" "ignores agentEvent_t (messages_all i Q)"
  "ignores externalMessage_t (messages_all i Q)" "ignores operationalFailure_t (messages_all i Q)"
  by (simp_all add: ignores_def messages_all_def table_defs)

lemma update_message_establishes:
  assumes "\<And>now m. Q (f m\<lparr>om_updatedAt := now\<rparr>)" "\<And>m. om_id (f m) = om_id m"
  shows "establishes (on_db (messages_all i Q)) (update_row E outboundMessage_t (\<lambda>m. om_id m = i) f)"
proof -
  have "establishes (on_db (\<lambda>d. \<forall>m \<in> set (t_get outboundMessage_t d). om_id m = i \<longrightarrow> Q m))
      (update_row E outboundMessage_t (\<lambda>m. om_id m = i) f)"
    by (rule establishes_update_row [where k = i]) (simp_all add: outboundMessage_t_def assms)
  then show ?thesis by (simp add: messages_all_def [abs_def] outboundMessage_t_def)
qed

text \<open>Recording a success is unconditional: whatever the status of the message by then, cancelled
  included, it becomes sent or delivered, with the provider's id and without a lease.\<close>

theorem delivery_success_overwrites:
  assumes "fst (success_tx E outbound attempt result w) = Inr ()"
  shows "\<forall>m \<in> set (outboundMessages (db (snd (success_tx E outbound attempt result w)))).
    om_id m = om_id outbound \<longrightarrow>
      om_status m \<in> {OutboundMessageStatus.SENT, OutboundMessageStatus.DELIVERED} \<and>
      om_providerMessageId m = Some (sr_providerMessageId result) \<and> om_leaseOwner m = None"
proof -
  let ?Q = "\<lambda>m. om_status m \<in> {OutboundMessageStatus.SENT, OutboundMessageStatus.DELIVERED} \<and>
      om_providerMessageId m = Some (sr_providerMessageId result) \<and> om_leaseOwner m = None"
  have u: "establishes (on_db (messages_all (om_id outbound) ?Q))
      (update_row E outboundMessage_t (\<lambda>m. om_id m = om_id outbound) (sent_message result x))" for x
    by (rule update_message_establishes) (simp_all add: sent_message_def)
  have "establishes (on_db (messages_all (om_id outbound) ?Q)) (success_tx E outbound attempt result)"
    unfolding success_tx_def
    by (rule establishes_transaction, rule establishes_rest, rule establishes_then_first [OF u],
        intro preserve_rules preserves_other_table messages_all_ignores)
  from establishesD [OF this assms] show ?thesis by (simp add: on_db_def messages_all_def)
qed

text \<open>A message whose earlier send is on record cannot be sent again with success: the mock provider
  names a message by its idempotency key alone, so recording the second send violates the unique
  index of external messages, which changes nothing in the database and is never retried: the
  message is dead-lettered although the provider took it twice.\<close>

theorem resend_dead_letters:
  assumes "x \<in> set (externalMessages (db w))" "xm_channelConnectionId x = om_channelConnectionId outbound"
    and "xm_providerMessageId x = Some (mock_message_id E (om_idempotencyKey outbound))"
    and "fst (send_checked E outbound connection conversation w) = Inr result"
  shows "fst (deliver_claimed E outbound connection conversation attempt w) = Inl unique_violation \<and>
    db (snd (deliver_claimed E outbound connection conversation attempt w)) = db w \<and>
    \<not> can_retry unique_violation outbound \<and> failure_status (can_retry unique_violation outbound) = OutboundMessageStatus.DEAD_LETTER"
proof -
  have id: "sr_providerMessageId result = mock_message_id E (om_idempotencyKey outbound)"
    using assms(4) worker_mail.send_id
    by (fastforce simp: send_checked_def run_simps split: if_splits)
  have same: "db (snd (send_checked E outbound connection conversation w)) = db w"
    by (simp add: send_checked_def run_simps worker_mail.send_db)
  have clash: "list_ex (externalMessage_clash r) (externalMessages (db w))"
    if "xm_channelConnectionId r = om_channelConnectionId outbound"
      "xm_providerMessageId r = Some (mock_message_id E (om_idempotencyKey outbound))" for r
    unfolding list_ex_iff
  proof
    show "x \<in> set (externalMessages (db w))" by (rule assms(1))
    show "externalMessage_clash r x" using assms(2,3) that by (simp add: externalMessage_clash_def both_some_def)
  qed
  have tx: "fst (success_tx E outbound attempt result v) = Inl unique_violation \<and>
      db (snd (success_tx E outbound attempt result v)) = db v" if "db v = db w" for v
    using clash that id
    by (simp add: success_tx_def run_simps insert_row_def externalMessage_t_def blank_external_message_def)
  have retry: "\<not> can_retry unique_violation outbound"
    using worker_mail.uncategorised_not_retried [of unique_violation]
    by (simp add: can_retry_def error_defs)
  show ?thesis
    using tx [OF same] same assms(4) retry by (simp add: deliver_claimed_def run_simps failure_status_def)
qed

section \<open>Failure\<close>

definition failures_count :: "nat \<Rightarrow> db \<Rightarrow> bool" where
  "failures_count n d \<longleftrightarrow> length (operationalFailures d) = n"

lemma failures_count_ignores:
  "ignores deliveryAttempt_t (failures_count n)" "ignores outboundMessage_t (failures_count n)"
  "ignores agentEvent_t (failures_count n)"
  by (simp_all add: ignores_def failures_count_def table_defs)

lemma failure_tx_count:
  "ensures (on_db (failures_count n)) (failure_tx E job correlationId outbound attempt canRetry nxt classified)
     (\<lambda>_. on_db (failures_count (n + (if canRetry then 0 else 1))))"
  unfolding failure_tx_def
proof (rule ensures_transaction, rule ensures_bind_keep, intro preserve_rules,
    rule ensures_then_keep, intro preserve_rules preserves_other_table failures_count_ignores,
    rule ensures_bind_keep, intro preserve_rules,
    rule ensures_then_keep, intro preserve_rules preserves_other_table failures_count_ignores)
  show "ensures (on_db (failures_count n)) (when_x (\<not> canRetry) (record_dead_letter E job correlationId outbound classified))
     (\<lambda>_. on_db (failures_count (n + (if canRetry then 0 else 1))))"
    by (auto simp: ensures_def run_simps record_dead_letter_def insert_row_def operationalFailure_t_def
        failures_count_def on_db_def split: if_splits)
qed

lemma failure_tx_message:
  "establishes (on_db (messages_all (om_id outbound) (\<lambda>m. om_status m = failure_status canRetry \<and>
       om_leaseOwner m = None \<and> om_nextAttemptAt m = nxt)))
     (failure_tx E job correlationId outbound attempt canRetry nxt classified)"
  unfolding failure_tx_def record_dead_letter_def
  by (rule establishes_transaction, rule establishes_rest, rule establishes_then_rest, rule establishes_rest,
      rule establishes_then_first, rule update_message_establishes)
     (simp_all add: failed_message_def, intro preserve_rules preserves_other_table messages_all_ignores)


section \<open>A worker in the demonstration world\<close>

definition demo_message :: outbound_message where
  "demo_message = blank_outbound_message\<lparr>om_id := ''m'', om_status := OutboundMessageStatus.CANCELLED,
     om_channelConnectionId := ''k'', om_idempotencyKey := ''key'', om_maxAttempts := 3\<rparr>"

definition demo_connection :: channel_connection where
  "demo_connection = blank_channel_connection\<lparr>cc_id := ''k'', cc_provider := ChannelProvider.MOCK_EMAIL,
     cc_status := ChannelConnectionStatus.ACTIVE\<rparr>"

definition demo_attempt :: delivery_attempt where
  "demo_attempt = blank_delivery_attempt\<lparr>da_id := ''a'', da_outboundMessageId := ''m''\<rparr>"

definition demo_result :: send_result where
  "demo_result = \<lparr>sr_providerMessageId = ''p'', sr_acceptedAt = 1, sr_deliveryStatus = ''SENT'',
     sr_metadata = None\<rparr>"

definition demo_job :: delivery_job where
  "demo_job = \<lparr>dj_id = ''j'', dj_name = ''send-outbound-message'', dj_outboundMessageId = ''m'',
     dj_correlationId = None\<rparr>"

definition demo_delivery :: world where
  "demo_delivery = demo_world (empty_db\<lparr>outboundMessages := [demo_message],
     channelConnections := [demo_connection], deliveryAttempts := [demo_attempt],
     externalMessages := [blank_external_message\<lparr>xm_id := ''x'', xm_channelConnectionId := ''k'',
       xm_providerMessageId := Some (mock_message_id demo_ext ''key'')\<rparr>]\<rparr>)"

lemma demo_delivery_runs:
  "\<not> isl (fst (success_tx demo_ext demo_message demo_attempt demo_result demo_delivery))"
  "\<not> isl (fst (send_checked demo_ext demo_message demo_connection blank_conversation demo_delivery))"
  "\<not> isl (fst (handle_failure demo_ext demo_job ''c'' demo_message demo_attempt
     (provider_error ''down'' ''TIMEOUT'' True None) demo_delivery))"
  by code_simp+

theorem delivery_claim_exclusive_witness:
  "sum_list (claim_counts (map (\<lambda>s. claim_delivery demo_ext (fst s) (fst (snd s)) (snd (snd s)))
     [(0, ''j1'', demo_message), (5, ''j2'', demo_message)]) demo_delivery) \<le> 1"
proof (rule delivery_claim_exclusive)
  show "no_clash outboundMessage_t (db demo_delivery)"
    by (simp add: no_clash_def demo_delivery_def demo_world_def outboundMessage_t_def)
  show "\<forall>s \<in> set [(0, ''j1'', demo_message), (5, ''j2'', demo_message)]. om_id (snd (snd s)) = ''m'' \<and>
      fst s \<le> 100 \<and> 100 \<le> fst s + CHANNEL_DELIVERY_LEASE_MS demo_ext"
    using lease_at_least_ten_seconds [of demo_ext] by (simp add: demo_message_def)
qed

theorem delivery_success_overwrites_witness:
  "om_status demo_message = OutboundMessageStatus.CANCELLED \<and> demo_message \<in> set (outboundMessages (db demo_delivery)) \<and>
   filter (\<lambda>m. om_id m = om_id demo_message \<and>
        om_status m \<notin> {OutboundMessageStatus.SENT, OutboundMessageStatus.DELIVERED})
      (outboundMessages (db (snd (success_tx demo_ext demo_message demo_attempt demo_result demo_delivery)))) = []"
  using delivery_success_overwrites [of demo_ext demo_message demo_attempt demo_result demo_delivery]
    not_isl [OF demo_delivery_runs(1)]
  by (simp add: filter_empty_conv demo_message_def demo_delivery_def demo_world_def)

theorem resend_dead_letters_witness:
  "fst (deliver_claimed demo_ext demo_message demo_connection blank_conversation demo_attempt demo_delivery) =
     Inl unique_violation"
proof -
  let ?x = "blank_external_message\<lparr>xm_id := ''x'', xm_channelConnectionId := ''k'',
       xm_providerMessageId := Some (mock_message_id demo_ext ''key'')\<rparr>"
  have "?x \<in> set (externalMessages (db demo_delivery))" by (simp add: demo_delivery_def demo_world_def)
  from resend_dead_letters [OF this _ _ not_isl [OF demo_delivery_runs(2)]]
  show ?thesis by (simp add: demo_message_def blank_external_message_def)
qed


end
