(* ===== verification/Retries.thy ===== *)
theory Retries
  imports Delivery
begin

text \<open>
  The life of one outbound message over any number of delivery jobs of \<^verbatim>\<open>Delivery\<close>: every job
  that takes the message up uses one of its attempts, and a message whose attempts are used up is
  at rest. Between two jobs the outside may change: each job comes with its own.
\<close>

section \<open>What a job does to the count of attempts\<close>

definition attempts_at :: "string \<Rightarrow> int \<Rightarrow> int \<Rightarrow> db \<Rightarrow> bool" where
  "attempts_at i a M = messages_all i (\<lambda>m. om_attemptCount m = a \<and> om_maxAttempts m = M)"

definition at_rest :: "string \<Rightarrow> db \<Rightarrow> bool" where
  "at_rest i = messages_all i (\<lambda>m. om_status m \<in> TERMINAL_STATUSES)"

definition attempted :: "js_error + delivery_result \<Rightarrow> bool" where
  "attempted r \<longleftrightarrow> (case r of Inr (DeliverySent _) \<Rightarrow> True | Inr (DeliveryFailed _ _) \<Rightarrow> True | _ \<Rightarrow> False)"

lemma update_message_keeps:
  assumes "\<And>m now. om_attemptCount (f m\<lparr>om_updatedAt := now\<rparr>) = om_attemptCount m"
    "\<And>m now. om_maxAttempts (f m\<lparr>om_updatedAt := now\<rparr>) = om_maxAttempts m" "\<And>m now. om_id (f m) = om_id m"
  shows "preserves (on_db (attempts_at i a M)) (update_row E outboundMessage_t P f)"
  by (rule preserves_update)
    (use assms in \<open>auto simp: attempts_at_def messages_all_def outboundMessage_t_def set_update_where\<close>)

lemma attempts_ignores:
  "ignores deliveryAttempt_t (attempts_at i a M)" "ignores agentEvent_t (attempts_at i a M)"
  "ignores externalMessage_t (attempts_at i a M)" "ignores operationalFailure_t (attempts_at i a M)"
  "ignores deliveryAttempt_t (at_rest i)" "ignores agentEvent_t (at_rest i)"
  "ignores externalMessage_t (at_rest i)" "ignores operationalFailure_t (at_rest i)"
  by (simp_all add: attempts_at_def at_rest_def messages_all_ignores)

text \<open>After the claim nothing changes the count.\<close>

lemma success_keeps: "preserves (on_db (attempts_at i a M)) (success_tx E outbound attempt result)"
  unfolding success_tx_def
  by (intro preserve_rules preserves_other_table attempts_ignores update_message_keeps) (simp_all add: sent_message_def)

lemma failure_keeps: "preserves (on_db (attempts_at i a M)) (failure_tx E job c outbound attempt r t k)"
  unfolding failure_tx_def record_dead_letter_def
  by (intro preserve_rules preserves_other_table attempts_ignores update_message_keeps) (simp_all add: failed_message_def)

lemma send_keeps: "preserves (on_db J) (send_checked E outbound connection conversation)"
  by (auto simp: preserves_def on_db_def send_checked_def run_simps worker_mail.send_db)

lemma events_keep:
  assumes "ignores agentEvent_t J"
  shows "preserves (on_db J) (dl_appendTimelineEvent E org t ty p)" "preserves (on_db J) (sent_events E outbound result)"
    "preserves (on_db J) (dl_enqueue E i d)"
  unfolding sent_events_def Let_def dl_enqueue_def
  by (intro preserve_rules dl.append_other assms)+

lemma deliver_keeps: "preserves (on_db (attempts_at i a M)) (deliver_claimed E outbound connection conversation attempt)"
  unfolding deliver_claimed_def by (intro preserve_rules send_keeps success_keeps events_keep attempts_ignores)

lemma handle_keeps: "preserves (on_db (attempts_at i a M)) (handle_failure E job c outbound attempt err)"
  unfolding handle_failure_def Let_def by (intro preserve_rules failure_keeps events_keep attempts_ignores)

text \<open>An attempt that ends without another to follow leaves the message at rest.\<close>

lemma success_rests: "establishes (on_db (at_rest (om_id outbound))) (success_tx E outbound attempt result)"
  unfolding success_tx_def at_rest_def
  by (rule establishes_transaction, rule establishes_rest, rule establishes_then_first, rule update_message_establishes)
    (auto simp: sent_message_def TERMINAL_STATUSES_def intro!: preserve_rules preserves_other_table messages_all_ignores)

lemma deliver_rests:
  "ensures (\<lambda>_. True) (deliver_claimed E outbound connection conversation attempt) (\<lambda>_. on_db (at_rest (om_id outbound)))"
  unfolding deliver_claimed_def
  by (rule ensures_true_bind, rule ensures_then [OF ensures_establishes [OF success_rests]],
      rule ensures_then_keep, rule events_keep, rule attempts_ignores, rule ensures_ret)

lemma establishes_weaken: "establishes I m \<Longrightarrow> (\<And>w. I w \<Longrightarrow> J w) \<Longrightarrow> establishes J m"
  by (simp add: establishes_def)

lemma failure_rests:
  "\<not> r \<Longrightarrow> establishes (on_db (at_rest (om_id outbound))) (failure_tx E job c outbound attempt r t k)"
  unfolding at_rest_def
  by (rule establishes_weaken [OF failure_tx_message])
    (auto simp: on_db_def messages_all_def failure_status_def TERMINAL_STATUSES_def)

text \<open>One job: what the outcome says about the message afterwards.\<close>

definition job_leaves :: "string \<Rightarrow> int \<Rightarrow> int \<Rightarrow> js_error + delivery_result \<Rightarrow> db \<Rightarrow> bool" where
  "job_leaves i a M r d \<longleftrightarrow>
     attempts_at i a M d \<and> \<not> attempted r \<or>
     attempts_at i (a + 1) M d \<and> (\<not> attempted r \<or> a + 1 < M) \<or>
     at_rest i d"

lemma handle_leaves:
  assumes "om_id outbound = i" "om_attemptCount outbound = a" "om_maxAttempts outbound = M" "on_db (attempts_at i (a + 1) M) w"
  shows "job_leaves i a M (fst (handle_failure E job c outbound attempt err w)) (db (snd (handle_failure E job c outbound attempt err w)))"
proof -
  let ?r = "can_retry err outbound"
  have keep: "attempts_at i (a + 1) M (db (snd (handle_failure E job c outbound attempt err w)))"
    using preservesD [OF handle_keeps] assms(4) by (simp add: on_db_def)
  show ?thesis
  proof (cases ?r)
    case True
    then have "a + 1 < M" using assms by (simp add: can_retry_def)
    with keep show ?thesis by (simp add: job_leaves_def)
  next
    case False
    have "ensures (\<lambda>_. True) (handle_failure E job c outbound attempt err) (\<lambda>_. on_db (at_rest i))"
      unfolding handle_failure_def Let_def assms(1) [symmetric]
      by (rule ensures_true_bind, rule ensures_then [OF ensures_establishes [OF failure_rests [OF False]]],
          rule ensures_then_keep, rule events_keep, rule attempts_ignores, rule ensures_then_keep)
        (auto intro!: preserve_rules events_keep attempts_ignores ensures_ret)
    from ensuresD [OF this TrueI] have "at_rest i (db (snd (handle_failure E job c outbound attempt err w)))"
      if "fst (handle_failure E job c outbound attempt err w) = Inr x" for x
      using that by (simp add: on_db_def)
    with keep show ?thesis
      by (cases "fst (handle_failure E job c outbound attempt err w)") (auto simp: job_leaves_def attempted_def)
  qed
qed

lemma start_keeps: "preserves (on_db (attempts_at i a M)) (start_attempt E c outbound)"
  unfolding start_attempt_def Let_def
  by (intro preserve_rules preserves_other_table attempts_ignores events_keep)

lemma run_leaves:
  assumes "om_id outbound = i" "om_attemptCount outbound = a" "om_maxAttempts outbound = M"
    and "attempts_at i a M (db w)" "no_clash outboundMessage_t (db w)"
  shows "job_leaves i a M (fst (run_attempt E job c now outbound k v w)) (db (snd (run_attempt E job c now outbound k v w)))"
proof -
  let ?n = "count_where (claimable now i) (outboundMessages (db w))"
  let ?w = "snd (claim_delivery E now (dj_id job) outbound w)"
  have claim: "fst (claim_delivery E now (dj_id job) outbound w) = Inr ?n"
    "outboundMessages (db ?w) = update_where (claimable now i) (\<lambda>m. claim_message now (CHANNEL_DELIVERY_LEASE_MS E) (dj_id job) (a + 1) m
       \<lparr>om_updatedAt := x_clock E (ticks w)\<rparr>) (outboundMessages (db w))"
    using assms(1,2) by (simp_all add: claim_delivery_def run_simps replace_rows_def outboundMessage_t_def)
  show ?thesis
  proof (cases "?n = 1")
    case False
    have "?n \<le> 1"
    proof -
      have "(\<lambda>r. om_id r = i \<and> claimable now i r) = claimable now i" by (auto simp: claimable_def)
      then show ?thesis
        using one_row [OF outboundMessage_tb.unique_ids [OF assms(5)], of i "claimable now i"]
        by (simp add: count_where_def outboundMessage_t_def)
    qed
    then have "?n = 0 \<or> ?n = 1" by auto
    with False have none: "\<forall>m \<in> set (outboundMessages (db w)). \<not> claimable now i m"
      by (auto simp: count_where_def filter_empty_conv)
    then have "attempts_at i a M (db ?w)"
      using assms(4) by (auto simp: attempts_at_def messages_all_def claim(2) set_update_where)
    moreover have "run_attempt E job c now outbound k v w = (Inr AlreadyClaimed, ?w)"
      using False by (simp add: run_attempt_def bind_x_run claim(1) ret_x_run)
    ultimately show ?thesis by (simp add: job_leaves_def attempted_def)
  next
    case True
    then have "filter (claimable now i) (outboundMessages (db w)) \<noteq> []" by (auto simp: count_where_def)
    then obtain m where "m \<in> set (outboundMessages (db w))" "claimable now i m"
      by (auto simp: filter_empty_conv)
    then have "r = m" if "r \<in> set (outboundMessages (db w))" "om_id r = i" for r
      using outboundMessage_tb.no_clash_pair [OF assms(5), of r m] that
      by (simp add: outboundMessage_t_def outboundMessage_clash_def claimable_def)
    then have st: "attempts_at i (a + 1) M (db ?w)"
      using assms(4) \<open>claimable now i m\<close>
      by (auto simp: attempts_at_def messages_all_def claim(2) set_update_where claim_message_def)
    have run: "run_attempt E job c now outbound k v w = bind_x (start_attempt E c outbound) (\<lambda>attempt.
         catch_x (deliver_claimed E outbound k v attempt) (handle_failure E job c outbound attempt)) ?w"
      using True by (simp add: run_attempt_def bind_x_run [of "claim_delivery E now (dj_id job) outbound"] claim(1))
    let ?v = "snd (start_attempt E c outbound ?w)"
    have sv: "attempts_at i (a + 1) M (db ?v)" using preservesD [OF start_keeps] st by (simp add: on_db_def)
    show ?thesis
    proof (cases "fst (start_attempt E c outbound ?w)")
      case (Inl e)
      with sv show ?thesis by (simp add: run bind_x_run job_leaves_def attempted_def)
    next
      case (Inr attempt)
      let ?d = "deliver_claimed E outbound k v attempt ?v"
      have eq: "run_attempt E job c now outbound k v w =
          (case fst ?d of Inl err \<Rightarrow> handle_failure E job c outbound attempt err (snd ?d) | Inr x \<Rightarrow> (Inr x, snd ?d))"
        by (simp add: run bind_x_run [of "start_attempt E c outbound"] Inr catch_x_run)
      have dv: "on_db (attempts_at i (a + 1) M) (snd ?d)" using preservesD [OF deliver_keeps] sv by (simp add: on_db_def)
      show ?thesis
      proof (cases "fst ?d")
        case (Inl err)
        then show ?thesis using handle_leaves [OF assms(1-3) dv] by (simp add: eq)
      next
        case (Inr x)
        then have "at_rest i (db (snd ?d))" using ensuresD [OF deliver_rests TrueI Inr] assms(1) by (simp add: on_db_def)
        then show ?thesis by (simp add: eq Inr job_leaves_def)
      qed
    qed
  qed
qed

section \<open>Any number of jobs\<close>

lemma process_unique: "preserves (on_db (no_clash outboundMessage_t)) (process_delivery E job)"
proof -
  have other: "ignores deliveryAttempt_t (no_clash outboundMessage_t)" "ignores agentEvent_t (no_clash outboundMessage_t)"
    "ignores externalMessage_t (no_clash outboundMessage_t)" "ignores operationalFailure_t (no_clash outboundMessage_t)"
    by (simp_all add: ignores_def no_clash_def table_defs)
  show ?thesis
    unfolding process_delivery_def sendOutboundMessage_def load_outbound_def run_attempt_def claim_delivery_def
      start_attempt_def deliver_claimed_def success_tx_def handle_failure_def failure_tx_def record_dead_letter_def Let_def
    by (intro preserve_rules preserves_other_table other send_keeps events_keep outboundMessage_tb.update_no_clash
        outboundMessage_tb.update_many_no_clash)
      (simp_all add: sent_message_def failed_message_def claim_message_def outboundMessage_t_def outboundMessage_clash_def)
qed

lemma send_leaves:
  assumes "attempts_at i a M (db w)" "no_clash outboundMessage_t (db w)" "dj_outboundMessageId job = i"
  shows "job_leaves i a M (fst (sendOutboundMessage E job c w)) (db (snd (sendOutboundMessage E job c w)))"
proof -
  have same: "job_leaves i a M r (db w)" if "\<not> attempted r" for r
    using assms(1) that by (simp add: job_leaves_def)
  have load: "snd (load_outbound i w) = w" "\<And>m k v. fst (load_outbound i w) = Inr (Some (m, k, v)) \<Longrightarrow>
      om_id m = i \<and> m \<in> set (outboundMessages (db w))"
    by (auto simp: load_outbound_def run_simps outboundMessage_t_def dest!: first_where_Some split: option.splits)
  show ?thesis
  proof (cases "fst (load_outbound i w)")
    case (Inl e)
    then show ?thesis using load(1) same by (simp add: sendOutboundMessage_def assms(3) run_simps attempted_def)
  next
    case (Inr loaded)
    show ?thesis
    proof (cases loaded)
      case None
      then show ?thesis using Inr load(1) same by (simp add: sendOutboundMessage_def assms(3) run_simps attempted_def)
    next
      case (Some l)
      obtain m k v where l: "l = (m, k, v)" by (cases l)
      with load(2) Inr Some have m: "om_id m = i" "m \<in> set (outboundMessages (db w))" by auto
      then have count: "om_attemptCount m = a" "om_maxAttempts m = M" using assms(1) by (auto simp: attempts_at_def messages_all_def)
      let ?w = "w\<lparr>ticks := ticks w + 1\<rparr>" and ?now = "x_clock E (ticks w)"
      have run: "job_leaves i a M (fst (run_attempt E job c ?now m k v ?w)) (db (snd (run_attempt E job c ?now m k v ?w)))"
        by (rule run_leaves [OF m(1) count]) (simp_all add: assms)
      have later: "db (snd (dl_enqueue E j d v')) = db v'" for j d v'
        by (simp add: dl_enqueue_def run_simps split: sum.split)
      have eq: "sendOutboundMessage E job c w =
          (if om_status m \<in> TERMINAL_STATUSES then (Inr (SkippedTerminal (om_status m)), w)
           else if (\<exists>t. om_nextAttemptAt m = Some t \<and> t > ?now)
           then then_x (dl_enqueue E i (the (om_nextAttemptAt m) - ?now)) (ret_x JobDelayed) ?w
           else run_attempt E job c ?now m k v ?w)"
        using Inr Some l load(1) m(1)
        by (simp add: sendOutboundMessage_def assms(3) bind_x_run [of "load_outbound i"] bind_x_run [of "now_x E"] now_x_run ret_x_run
            split: option.split)
      have "\<not> attempted (fst (then_x (dl_enqueue E j d) (ret_x JobDelayed) v'))" for j d v'
        by (simp add: run_simps attempted_def split: sum.split)
      moreover have "db (snd (then_x (dl_enqueue E j d) (ret_x JobDelayed) v')) = db v'" for j d v'
        using later by (simp add: run_simps split: sum.split)
      ultimately show ?thesis using same run by (simp add: eq attempted_def)
    qed
  qed
qed

lemma process_leaves:
  assumes "attempts_at i a M (db w)" "no_clash outboundMessage_t (db w)" "dj_outboundMessageId job = i"
  shows "job_leaves i a M (fst (process_delivery E job w)) (db (snd (process_delivery E job w)))"
proof (cases "dj_name job = ''send-outbound-message''")
  case False
  then show ?thesis using assms(1) by (simp add: process_delivery_def run_simps job_leaves_def attempted_def)
next
  case True
  let ?c = "nullish (nullish2 (dj_correlationId job) (co_correlationId (ctx w))) (''channel-delivery-'' @ dj_id job)"
  let ?w = "w\<lparr>ctx := \<lparr>co_correlationId = Some ?c, co_retryAttempt = None\<rparr>\<rparr>"
  have "process_delivery E job w = (fst (sendOutboundMessage E job ?c ?w), (snd (sendOutboundMessage E job ?c ?w))\<lparr>ctx := ctx w\<rparr>)"
    using True by (simp add: process_delivery_def bind_x_run correlation_x_run with_context_run Let_def)
  then show ?thesis using send_leaves [of i a M ?w job E ?c] assms by simp
qed

lemma rest_stays:
  assumes "at_rest i (db w)" "dj_outboundMessageId job = i"
  shows "\<not> attempted (fst (process_delivery E job w)) \<and> db (snd (process_delivery E job w)) = db w"
proof -
  have "\<not> attempted (fst (sendOutboundMessage E job c v)) \<and> db (snd (sendOutboundMessage E job c v)) = db v"
    if "db v = db w" for c v
  proof -
    have "om_status m \<in> TERMINAL_STATUSES" if "fst (load_outbound i v) = Inr (Some (m, k, u))" for m k u
      using that assms(1) \<open>db v = db w\<close>
      by (auto simp: load_outbound_def run_simps outboundMessage_t_def at_rest_def messages_all_def
          dest!: first_where_Some split: option.splits)
    moreover have "snd (load_outbound i v) = v" by (auto simp: load_outbound_def run_simps split: option.split)
    ultimately show ?thesis
      by (auto simp: sendOutboundMessage_def assms(2) bind_x_run [of "load_outbound i"] ret_x_run attempted_def
          split: sum.split option.split)
  qed
  then show ?thesis
    by (simp add: process_delivery_def run_simps attempted_def Let_def)
qed

fun deliveries :: "(ext \<times> delivery_job) list \<Rightarrow> world \<Rightarrow> (js_error + delivery_result) list \<times> world" where
  "deliveries [] w = ([], w)"
| "deliveries ((E, job) # js) w =
     (case process_delivery E job w of (r, v) \<Rightarrow> (case deliveries js v of (rs, u) \<Rightarrow> (r # rs, u)))"

lemma deliveries_rest:
  assumes "at_rest i (db w)" "list_all (\<lambda>j. dj_outboundMessageId (snd j) = i) js"
  shows "filter attempted (fst (deliveries js w)) = [] \<and> at_rest i (db (snd (deliveries js w)))"
  using assms
proof (induction js w rule: deliveries.induct)
  case (2 E job js w)
  obtain r v where "process_delivery E job w = (r, v)" by (cases "process_delivery E job w")
  with 2 rest_stays [of i w job E] show ?case by (auto split: prod.split)
qed simp


definition demo_pending :: world where
  "demo_pending = demo_world (empty_db\<lparr>outboundMessages := [demo_message\<lparr>om_status := OutboundMessageStatus.PENDING\<rparr>],
     channelConnections := [demo_connection]\<rparr>)"


end
