(* ===== verification/Logger.thy ===== *)
theory Logger
  imports Retry RuntimeConfig "HOL-Library.AList"
begin

text \<open>
  \<^verbatim>\<open>packages/observability/src/logger.ts\<close>: which lines a service writes, where, and what stands in
  them. A record of the source is an object, here its members in order; a member that is
  \<^verbatim>\<open>undefined\<close> is not there, as in its JSON text. The time of a line is the argument \<open>now\<close>, the
  correlation context the argument \<open>context\<close>.
\<close>

section \<open>Text of a value\<close>

text \<open>\<^verbatim>\<open>JSON.stringify\<close> without a gap, and \<^verbatim>\<open>String(value)\<close> as a template literal uses it.\<close>

fun json_text :: "(rat \<Rightarrow> string) \<Rightarrow> json \<Rightarrow> string" where
  "json_text num JNull = ''null''"
| "json_text num (JBool b) = (if b then ''true'' else ''false'')"
| "json_text num (JNum q) = num q"
| "json_text num (JStr s) = quote_string s"
| "json_text num (JArr js) = ''['' @ join_with '','' (map (json_text num) js) @ '']''"
| "json_text num (JObj kvs) =
     ''{'' @ join_with '','' (map (\<lambda>kv. quote_string (fst kv) @ '':'' @ json_text num (snd kv)) kvs) @ ''}''"

fun to_text :: "(rat \<Rightarrow> string) \<Rightarrow> json \<Rightarrow> string" where
  "to_text num JNull = ''null''"
| "to_text num (JBool b) = (if b then ''true'' else ''false'')"
| "to_text num (JNum q) = num q"
| "to_text num (JStr s) = s"
| "to_text num (JArr js) =
     join_with '','' (map (\<lambda>j. case j of JNull \<Rightarrow> [] | _ \<Rightarrow> to_text num j) js)"
| "to_text num (JObj kvs) = ''[object Object]''"

type_synonym members = "(string \<times> json) list"

text \<open>\<^verbatim>\<open>{ ...a, ...b }\<close>: a member of \<open>b\<close> takes the place of the one of that name in \<open>a\<close>.\<close>

definition spread_members :: "members \<Rightarrow> members \<Rightarrow> members" where
  "spread_members a b = fold (\<lambda>(k, v). AList.update k v) b a"

text \<open>The members that spreading a value gives: of an object its own, of an array its elements by index.\<close>

definition own_members :: "json \<Rightarrow> members" where
  "own_members j = (case j of JObj kvs \<Rightarrow> kvs | JArr js \<Rightarrow> zip (map show_nat [0..<length js]) js | _ \<Rightarrow> [])"

section \<open>Levels\<close>

datatype StructuredLogLevel = log_fatal | log_error | log_warn | log_info | log_debug | log_trace

primrec level_name :: "StructuredLogLevel \<Rightarrow> string" where
  "level_name log_fatal = ''fatal''"
| "level_name log_error = ''error''"
| "level_name log_warn = ''warn''"
| "level_name log_info = ''info''"
| "level_name log_debug = ''debug''"
| "level_name log_trace = ''trace''"

primrec level_priority :: "StructuredLogLevel \<Rightarrow> int" where
  "level_priority log_fatal = 0"
| "level_priority log_error = 1"
| "level_priority log_warn = 2"
| "level_priority log_info = 3"
| "level_priority log_debug = 4"
| "level_priority log_trace = 5"

definition log_levels :: "StructuredLogLevel list" where
  "log_levels = [log_fatal, log_error, log_warn, log_info, log_debug, log_trace]"

definition getConfiguredLevel :: "env \<Rightarrow> string" where
  "getConfiguredLevel env = str_or (map_option (\<lambda>v. to_lower (trim v)) (env ''LOG_LEVEL'')) ''info''"

definition shouldPrettyPrint :: "env \<Rightarrow> bool" where
  "shouldPrettyPrint env \<longleftrightarrow>
     map_option (\<lambda>v. to_lower (trim v)) (env ''LOG_PRETTY'') = Some ''true'' \<or>
     map_option (\<lambda>v. to_lower (trim v)) (env ''LOG_FORMAT'') = Some ''pretty'' \<or>
     env ''NODE_ENV'' \<noteq> Some ''production''"

text \<open>An unknown level has the priority \<^verbatim>\<open>undefined\<close>, with which every comparison is false.\<close>

definition normalized_level :: "env \<Rightarrow> string" where
  "normalized_level env =
     (let configured = getConfiguredLevel env
      in if configured = ''log'' then ''info'' else if configured = ''verbose'' then ''debug'' else configured)"

definition canLog :: "env \<Rightarrow> StructuredLogLevel \<Rightarrow> bool" where
  "canLog env level \<longleftrightarrow>
     (case map_of (map (\<lambda>l. (level_name l, level_priority l)) log_levels) (normalized_level env) of
        None \<Rightarrow> False
      | Some p \<Rightarrow> level_priority level \<le> p)"

section \<open>Errors in a line\<close>

text \<open>An error as the logger gets it: with its stack, its cause when it has one, and the members that
  the error object itself enumerates.\<close>

record logged_error =
  le_error :: js_error
  le_stack :: string
  le_cause :: "json option"
  le_members :: members

definition error_members :: "ext \<Rightarrow> env \<Rightarrow> logged_error \<Rightarrow> members" where
  "error_members E env e =
     (let s = serializeError E (le_error e);
          includeStack = (env ''NODE_ENV'' \<noteq> Some ''production'' \<and> er_isError (le_error e))
      in [(''errorCode'', JStr (ser_errorCode s)), (''errorName'', JStr (ser_errorName s)),
          (''message'', JStr (ser_message s))] @
         j_field ''statusCode'' (map_option j_int (ser_statusCode s)) @
         (if includeStack
          then (''stack'', JStr (le_stack e)) # j_field ''cause'' (map_option (sanitize_top E) (le_cause e))
          else []))"

datatype log_param = Error_param logged_error | Value_param json

fun parseFieldsAndError :: "log_param list \<Rightarrow> log_param option \<times> logged_error option" where
  "parseFieldsAndError [] = (None, None)"
| "parseFieldsAndError (Error_param e # ps) = ((case ps of [] \<Rightarrow> None | p # _ \<Rightarrow> Some p), Some e)"
| "parseFieldsAndError (Value_param j # Error_param e # _) = (Some (Value_param j), Some e)"
| "parseFieldsAndError (Value_param j # _) = (Some (Value_param j), None)"

definition field_members :: "log_param option \<Rightarrow> members" where
  "field_members p = (case p of None \<Rightarrow> [] | Some (Error_param e) \<Rightarrow> le_members e
     | Some (Value_param j) \<Rightarrow> own_members j)"

section \<open>A line\<close>

record log_site =
  ls_service :: string
  ls_env :: env
  ls_context :: "members option"

definition message_text :: "ext \<Rightarrow> json \<Rightarrow> string" where
  "message_text E message =
     (case message of JStr s \<Rightarrow> s | _ \<Rightarrow> json_text (x_num E) (sanitize_top E message))"

definition line_members ::
  "ext \<Rightarrow> log_site \<Rightarrow> StructuredLogLevel \<Rightarrow> int \<Rightarrow> json \<Rightarrow> log_param option \<Rightarrow> logged_error option \<Rightarrow> members" where
  "line_members E L level now message fs err =
     spread_members (spread_members (spread_members
       [(''service'', JStr (ls_service L)),
        (''environment'', JStr (nullish (ls_env L ''NODE_ENV'') ''development'')),
        (''level'', JStr (level_name level)), (''timestamp'', JStr (x_iso E now)),
        (''message'', JStr (message_text E message))]
       (nullish (ls_context L) [])) (field_members fs))
       (case err of None \<Rightarrow> [] | Some e \<Rightarrow> error_members E (ls_env L) e)"

definition line_record ::
  "ext \<Rightarrow> log_site \<Rightarrow> StructuredLogLevel \<Rightarrow> int \<Rightarrow> json \<Rightarrow> log_param option \<Rightarrow> logged_error option \<Rightarrow> json" where
  "line_record E L level now message fs err = sanitize_top E (JObj (line_members E L level now message fs err))"

definition text_member :: "(rat \<Rightarrow> string) \<Rightarrow> string \<Rightarrow> json \<Rightarrow> string" where
  "text_member num k r = (case j_get k r of None \<Rightarrow> ''undefined'' | Some j \<Rightarrow> to_text num j)"

definition formatRecord :: "ext \<Rightarrow> env \<Rightarrow> json \<Rightarrow> string" where
  "formatRecord E env r =
     (if \<not> shouldPrettyPrint env then json_text (x_num E) r
      else let rest = filter (\<lambda>kv. fst kv \<notin> {''level'', ''service'', ''message''}) (own_members r);
               extra = (if rest \<noteq> [] then '' '' @ json_text (x_num E) (JObj rest) else [])
           in ''['' @ to_upper (text_member (x_num E) ''level'' r) @ ''] '' @
              text_member (x_num E) ''service'' r @ '': '' @ text_member (x_num E) ''message'' r @ extra)"

datatype stream = Stdout | Stderr

definition write_line ::
  "ext \<Rightarrow> log_site \<Rightarrow> StructuredLogLevel \<Rightarrow> int \<Rightarrow> json \<Rightarrow> log_param option \<Rightarrow> logged_error option \<Rightarrow> (stream \<times> string) option" where
  "write_line E L level now message fs err =
     (if \<not> canLog (ls_env L) level then None
      else Some (if level = log_error \<or> level = log_fatal then Stderr else Stdout,
        formatRecord E (ls_env L) (line_record E L level now message fs err) @ newline))"

text \<open>The methods of the logger: \<^verbatim>\<open>info\<close> takes its fields as they are, the others look for an error among
  their parameters; a child logger adds its fields to each line.\<close>

definition logger_info :: "ext \<Rightarrow> log_site \<Rightarrow> int \<Rightarrow> json \<Rightarrow> log_param option \<Rightarrow> (stream \<times> string) option" where
  "logger_info E L now message fs = write_line E L log_info now message fs None"

definition logger_method ::
  "StructuredLogLevel \<Rightarrow> ext \<Rightarrow> log_site \<Rightarrow> int \<Rightarrow> json \<Rightarrow> log_param list \<Rightarrow> (stream \<times> string) option" where
  "logger_method level E L now message params =
     (case parseFieldsAndError params of (fs, err) \<Rightarrow> write_line E L level now message fs err)"

definition logger_log :: "ext \<Rightarrow> log_site \<Rightarrow> int \<Rightarrow> json \<Rightarrow> log_param list \<Rightarrow> (stream \<times> string) option" where
  "logger_log = logger_method log_info"

definition logger_error :: "ext \<Rightarrow> log_site \<Rightarrow> int \<Rightarrow> json \<Rightarrow> log_param list \<Rightarrow> (stream \<times> string) option" where
  "logger_error = logger_method log_error"

definition logger_warn :: "ext \<Rightarrow> log_site \<Rightarrow> int \<Rightarrow> json \<Rightarrow> log_param list \<Rightarrow> (stream \<times> string) option" where
  "logger_warn = logger_method log_warn"

definition logger_debug :: "ext \<Rightarrow> log_site \<Rightarrow> int \<Rightarrow> json \<Rightarrow> log_param list \<Rightarrow> (stream \<times> string) option" where
  "logger_debug = logger_method log_debug"

definition logger_verbose :: "ext \<Rightarrow> log_site \<Rightarrow> int \<Rightarrow> json \<Rightarrow> log_param list \<Rightarrow> (stream \<times> string) option" where
  "logger_verbose = logger_method log_trace"

definition logger_fatal :: "ext \<Rightarrow> log_site \<Rightarrow> int \<Rightarrow> json \<Rightarrow> log_param list \<Rightarrow> (stream \<times> string) option" where
  "logger_fatal = logger_method log_fatal"

definition child_line ::
  "StructuredLogLevel \<Rightarrow> ext \<Rightarrow> log_site \<Rightarrow> members \<Rightarrow> int \<Rightarrow> string \<Rightarrow> logged_error option \<Rightarrow> members \<Rightarrow>
     (stream \<times> string) option" where
  "child_line level E L fs now message err extra =
     write_line E L level now (JStr message) (Some (Value_param (JObj (spread_members fs extra)))) err"

section \<open>What is in a line\<close>

lemma map_of_spread_members: "map_of (spread_members a b) = map_of a ++ map_of (rev b)"
  by (induction b arbitrary: a) (auto simp: spread_members_def update_conv' map_add_def split: option.splits)

lemma spread_get: "map_of (rev b) k = None \<Longrightarrow> map_of (spread_members a b) k = map_of a k"
  by (simp add: map_of_spread_members map_add_def)

lemma sanitized_member:
  "0 \<le> d \<Longrightarrow> j_get k (sanitizeForLog E d p (JObj kvs)) =
     map_option (\<lambda>v. if shouldRedactKey k then JStr REDACTED else sanitizeForLog E (d - 1) k v) (map_of kvs k)"
  by (induction kvs) (auto simp: j_get_def)

lemma message_key: "\<not> shouldRedactKey ''message''" "shouldSummarizeKey ''message''"
  by (simp_all add: shouldRedactKey_def shouldSummarizeKey_def SECRET_KEYS_def BODY_SUMMARY_KEYS_def to_lower_def
      trim_def is_ws_def lower_char_def)

lemma map_of_rev_None: "map_of (rev b) k = None \<longleftrightarrow> k \<notin> fst ` set b"
  by (simp add: map_of_eq_None_iff)

text \<open>The text of the message of a line: an error brings its own.\<close>

definition line_text :: "ext \<Rightarrow> json \<Rightarrow> logged_error option \<Rightarrow> string" where
  "line_text E message err =
     (case err of None \<Rightarrow> message_text E message | Some e \<Rightarrow> ser_message (serializeError E (le_error e)))"

lemma line_message:
  assumes "''message'' \<notin> fst ` set (nullish (ls_context L) [])" "''message'' \<notin> fst ` set (field_members fs)"
  shows "map_of (line_members E L level now message fs err) ''message'' = Some (JStr (line_text E message err))"
proof -
  have "map_of (rev (error_members E (ls_env L) e)) ''message'' = Some (JStr (ser_message (serializeError E (le_error e))))" for e
    by (auto simp: error_members_def Let_def j_field_def map_add_def split: option.splits)
  moreover have "map_of (line_members E L level now message fs None) ''message'' = Some (JStr (message_text E message))"
    unfolding line_members_def by (simp add: spread_get assms map_of_rev_None)
  moreover have "line_members E L level now message fs (Some e) =
      spread_members (line_members E L level now message fs None) (error_members E (ls_env L) e)" for e
    by (simp add: line_members_def spread_members_def)
  ultimately show ?thesis
    by (cases err) (simp_all add: line_text_def map_of_spread_members map_add_def)
qed

text \<open>C40: No line of a service can be read. Whatever is logged, the sanitiser treats the record of the
  line like a customer's message: its member \<open>message\<close> is replaced by a summary, the length and the
  first digits of a hash of the text, and in the readable format the line has \<open>[object Object]\<close> where its
  message should be. No secret key of the record keeps its value either.\<close>

theorem log_message_unreadable:
  assumes "''message'' \<notin> fst ` set (nullish (ls_context L) [])" "''message'' \<notin> fst ` set (field_members fs)"
  shows "secrets_redacted (line_record E L level now message fs err) \<and>
    j_get ''message'' (line_record E L level now message fs err) = Some (summarizeBody E (line_text E message err)) \<and>
    (shouldPrettyPrint (ls_env L) \<longrightarrow> (\<exists>front extra.
       formatRecord E (ls_env L) (line_record E L level now message fs err) = front @ '': [object Object]'' @ extra))"
proof (intro conjI impI)
  let ?r = "line_record E L level now message fs err"
  show "secrets_redacted ?r"
    unfolding line_record_def sanitize_top_def by (rule sanitizeForLog_redacts)
  show m: "j_get ''message'' ?r = Some (summarizeBody E (line_text E message err))"
    unfolding line_record_def sanitize_top_def by (simp add: sanitized_member line_message [OF assms] message_key del: sanitizeForLog.simps(6))
  assume "shouldPrettyPrint (ls_env L)"
  then have "formatRecord E (ls_env L) ?r = (''['' @ to_upper (text_member (x_num E) ''level'' ?r) @ ''] '' @
      text_member (x_num E) ''service'' ?r) @ '': [object Object]'' @
      (let rest = filter (\<lambda>kv. fst kv \<notin> {''level'', ''service'', ''message''}) (own_members ?r)
       in if rest \<noteq> [] then '' '' @ json_text (x_num E) (JObj rest) else [])"
    by (simp add: formatRecord_def text_member_def [of _ "''message''"] m summarizeBody_def Let_def)
  then show "\<exists>front extra. formatRecord E (ls_env L) ?r = front @ '': [object Object]'' @ extra" by blast
qed

definition demo_log_site :: log_site where
  "demo_log_site = \<lparr>ls_service = ''api'', ls_env = (\<lambda>_. None), ls_context = Some [(''correlationId'', JStr ''c'')]\<rparr>"

theorem log_message_unreadable_witness:
  "\<exists>front extra. formatRecord demo_ext (\<lambda>_. None)
     (line_record demo_ext demo_log_site log_warn 0 (JStr ''API shutdown requested'')
       (Some (Value_param (JObj [(''signal'', JStr ''SIGTERM'')]))) None) = front @ '': [object Object]'' @ extra"
proof -
  have site: "ls_env demo_log_site = (\<lambda>_. None)" "shouldPrettyPrint (\<lambda>_. None)"
    by (simp_all add: demo_log_site_def shouldPrettyPrint_def)
  have "''message'' \<notin> fst ` set (nullish (ls_context demo_log_site) [])"
    "''message'' \<notin> fst ` set (field_members (Some (Value_param (JObj [(''signal'', JStr ''SIGTERM'')]))))"
    by (simp_all add: demo_log_site_def nullish_def field_members_def own_members_def)
  from log_message_unreadable [OF this, unfolded site] site(2) show ?thesis by blast
qed

section \<open>Which lines are written\<close>

text \<open>A level that is not one of the eight names silences the service, errors included.\<close>

lemma unknown_level_silent:
  "normalized_level env \<notin> level_name ` set log_levels \<Longrightarrow> \<not> canLog env level"
  by (auto simp: canLog_def log_levels_def split: if_splits option.splits)

lemma canLog_mono: "canLog env l \<Longrightarrow> level_priority k \<le> level_priority l \<Longrightarrow> canLog env k"
  by (auto simp: canLog_def split: option.splits)

lemma misspelt_level: "env ''LOG_LEVEL'' = Some ''warning'' \<Longrightarrow> write_line E \<lparr>ls_service = s, ls_env = env, ls_context = c\<rparr> log_error now m fs err = None"
  using unknown_level_silent [of env log_error]
  by (simp add: write_line_def normalized_level_def getConfiguredLevel_def str_or_def trim_def is_ws_def to_lower_def
      lower_char_def log_levels_def Let_def)

end
