(* ===== verification/PostgresTools.thy ===== *)
theory PostgresTools
  imports Logger
begin

text \<open>
  \<^verbatim>\<open>scripts/lib/postgres-tools.mjs\<close>: what the backup scripts share. A script runs in a world of
  files (by full path, with the time of their last change) and of the programs it has started so far. The
  programs themselves, the parser of URLs and the path functions of the platform are the record
  \<open>machine\<close>: a program may fail, print anything and change any file.
\<close>

section \<open>The machine\<close>

record disk_file =
  fl_text :: string
  fl_mtime :: int

type_synonym files = "(string \<times> disk_file) list"

record program =
  pg_command :: string
  pg_args :: "string list"
  pg_env :: env

record script_world =
  sw_files :: files
  sw_ran :: "program list"

text \<open>How a child process ends: it cannot be started (with the code of the error), or it exits.\<close>

datatype ending = Not_started js_error | Exited int string string

record pg_url = url_parts +
  ur_username :: string
  ur_password :: string
  ur_search :: "string \<Rightarrow> string option"

record machine =
  mc_spawn :: "script_world \<Rightarrow> program \<Rightarrow> ending \<times> files"
  mc_url :: "string \<Rightarrow> pg_url option"
  mc_set_pathname :: "string \<Rightarrow> string \<Rightarrow> string"
  mc_decode :: "string \<Rightarrow> string option"
  mc_resolve :: "string \<Rightarrow> string"
  mc_env :: env
  mc_windows :: bool
  mc_now :: int
  mc_root :: string
  mc_answer :: string

type_synonym 'a script = "(script_world, js_error, 'a) sx"

definition lift_x :: "'e + 'a \<Rightarrow> ('w, 'e, 'a) sx" where
  "lift_x r = (case r of Inl e \<Rightarrow> throw_x e | Inr a \<Rightarrow> ret_x a)"

definition join_path :: "string \<Rightarrow> string \<Rightarrow> string" where
  "join_path directory name = directory @ ''/'' @ name"

section \<open>Arguments and names\<close>

record script_args =
  sa_positional :: "string list"
  sa_flags :: "string \<Rightarrow> string option"

text \<open>\<^verbatim>\<open>const [rawKey, rawValue] = entry.slice(2).split('=')\<close>: the second piece ends at the second
  equals sign.\<close>

definition split_flag :: "string \<Rightarrow> string \<times> string option" where
  "split_flag entry =
     (let key = takeWhile (\<lambda>c. c \<noteq> CHR ''='') entry; rest = dropWhile (\<lambda>c. c \<noteq> CHR ''='') entry
      in (key, if rest = [] then None else Some (takeWhile (\<lambda>c. c \<noteq> CHR ''='') (tl rest))))"

definition parse_entry :: "script_args \<Rightarrow> string \<Rightarrow> script_args" where
  "parse_entry acc entry =
     (if starts_with ''--'' entry
      then (case split_flag (drop 2 entry) of (rawKey, rawValue) \<Rightarrow>
              acc\<lparr>sa_flags := (sa_flags acc)(rawKey \<mapsto> nullish rawValue ''true'')\<rparr>)
      else acc\<lparr>sa_positional := sa_positional acc @ [entry]\<rparr>)"

definition parseArgs :: "string list \<Rightarrow> script_args" where
  "parseArgs argv = foldl parse_entry \<lparr>sa_positional = [], sa_flags = Map.empty\<rparr> argv"

definition tool_command :: "machine \<Rightarrow> string \<Rightarrow> string \<Rightarrow> string" where
  "tool_command M variable tool =
     nullish (mc_env M variable) (if mc_windows M then tool @ ''.exe'' else tool)"

definition getPsqlCommand :: "machine \<Rightarrow> string" where
  "getPsqlCommand M = tool_command M ''PSQL_PATH'' ''psql''"

definition getPgDumpCommand :: "machine \<Rightarrow> string" where
  "getPgDumpCommand M = tool_command M ''PG_DUMP_PATH'' ''pg_dump''"

definition getPgRestoreCommand :: "machine \<Rightarrow> string" where
  "getPgRestoreCommand M = tool_command M ''PG_RESTORE_PATH'' ''pg_restore''"

definition getWorkspacePrismaCommand :: "machine \<Rightarrow> string" where
  "getWorkspacePrismaCommand M =
     mc_resolve M (mc_root M @ ''/packages/db/node_modules/.bin/'' @ (if mc_windows M then ''prisma.cmd'' else ''prisma''))"

definition getTimestamp :: "ext \<Rightarrow> int \<Rightarrow> string" where
  "getTimestamp E now = map (\<lambda>c. if c = CHR '':'' \<or> c = CHR ''.'' then CHR ''-'' else c) (x_iso E now)"

definition TEMP_PREFIX :: string where
  "TEMP_PREFIX = ''autonomous_restore_verify_''"

definition createTempDatabaseName :: "string \<Rightarrow> string" where
  "createTempDatabaseName seed =
     (let suffix = take (63 - length TEMP_PREFIX) (filter (\<lambda>c. is_digit c \<or> is_lower c \<or> is_upper c) seed)
      in TEMP_PREFIX @ (if suffix = [] then ''temp'' else suffix))"

section \<open>Database URLs\<close>

record database_url =
  du_url :: pg_url
  du_databaseName :: string
  du_safeDisplay :: string

definition invalid_url :: js_error where
  "invalid_url = (plain_error ''Invalid URL'')\<lparr>er_name := ''TypeError'', er_code := Some ''ERR_INVALID_URL''\<rparr>"

definition parseDatabaseUrl :: "machine \<Rightarrow> string \<Rightarrow> js_error + database_url" where
  "parseDatabaseUrl M databaseUrl =
     (case mc_url M databaseUrl of
        None \<Rightarrow> Inl invalid_url
      | Some parsed \<Rightarrow>
          if url_protocol parsed \<notin> {''postgres:'', ''postgresql:''}
          then Inl (plain_error ''DATABASE_URL must use the postgres:// or postgresql:// protocol'')
          else let databaseName = dropWhile (\<lambda>c. c = CHR ''/'') (url_pathname parsed)
            in if databaseName = [] then Inl (plain_error ''DATABASE_URL must include a database name'')
               else Inr \<lparr>du_url = parsed, du_databaseName = databaseName,
                 du_safeDisplay = url_protocol parsed @ ''//'' @
                   (if ur_username parsed \<noteq> [] then ur_username parsed @ ''@'' else []) @ url_hostname parsed @ '':'' @
                   str_or (Some (url_port parsed)) ''5432'' @ ''/'' @ databaseName\<rparr>)"

definition withDatabaseName :: "machine \<Rightarrow> string \<Rightarrow> string \<Rightarrow> js_error + string" where
  "withDatabaseName M databaseUrl databaseName =
     (case mc_url M databaseUrl of
        None \<Rightarrow> Inl invalid_url
      | Some _ \<Rightarrow> Inr (mc_set_pathname M databaseUrl (''/'' @ databaseName)))"

definition isProductionLikeDatabase :: "machine \<Rightarrow> string \<Rightarrow> js_error + bool" where
  "isProductionLikeDatabase M databaseUrl =
     map_sum id (\<lambda>d. let host = to_lower (url_hostname (du_url d))
        in host \<notin> {''localhost'', ''127.0.0.1'', ''::1''} \<and>
           (contains ''prod'' host \<or> contains ''production'' host \<or> contains ''primary'' host))
       (parseDatabaseUrl M databaseUrl)"

text \<open>\<^verbatim>\<open>decodeURIComponent\<close> throws on a malformed escape.\<close>

definition decode_part :: "machine \<Rightarrow> string \<Rightarrow> js_error + string" where
  "decode_part M s = (case mc_decode M s of
     None \<Rightarrow> Inl ((plain_error ''URI malformed'')\<lparr>er_name := ''URIError''\<rparr>) | Some t \<Rightarrow> Inr t)"

definition buildPostgresEnv :: "machine \<Rightarrow> string \<Rightarrow> js_error + env" where
  "buildPostgresEnv M databaseUrl =
     (case parseDatabaseUrl M databaseUrl of
        Inl e \<Rightarrow> Inl e
      | Inr d \<Rightarrow> (case decode_part M (ur_username (du_url d)) of
          Inl e \<Rightarrow> Inl e
        | Inr user \<Rightarrow> (case decode_part M (ur_password (du_url d)) of
            Inl e \<Rightarrow> Inl e
          | Inr password \<Rightarrow>
              let env = (mc_env M)(''PGHOST'' \<mapsto> url_hostname (du_url d), ''PGPORT'' \<mapsto> str_or (Some (url_port (du_url d))) ''5432'',
                    ''PGUSER'' \<mapsto> user, ''PGPASSWORD'' \<mapsto> password, ''PGDATABASE'' \<mapsto> du_databaseName d);
                  sslmode = ur_search (du_url d) ''sslmode''
              in Inr (if truthy sslmode then env(''PGSSLMODE'' \<mapsto> the sslmode) else env))))"

section \<open>Starting programs\<close>

record run_options =
  ro_env :: "env option"
  ro_executableName :: "string option"
  ro_overrideEnvVar :: "string option"

definition formatMissingExecutableError :: "string \<Rightarrow> run_options \<Rightarrow> js_error" where
  "formatMissingExecutableError command options =
     (let executableName = nullish (ro_executableName options) command;
          locationHint = (if truthy (ro_overrideEnvVar options)
            then ''Set '' @ the (ro_overrideEnvVar options) @ ''=<absolute path to '' @ executableName @ ''> or add '' @
              executableName @ '' to PATH.''
            else ''Add '' @ executableName @ '' to PATH.'')
      in plain_error (''Required executable '' @ quoted executableName @ '' was not found. '' @ locationHint))"

definition quoteWindowsShellArgument :: "string \<Rightarrow> string" where
  "quoteWindowsShellArgument v =
     (if v = [] then quoted []
      else if \<not> list_ex (\<lambda>c. is_ws c \<or> c = char_of (34 :: nat)) v then v
      else quoted (concat (map (\<lambda>c. if c = char_of (34 :: nat) then [c, c] else [c]) v)))"

definition is_batch_file :: "string \<Rightarrow> bool" where
  "is_batch_file command \<longleftrightarrow> to_lower (drop (length command - 4) command) \<in> {''.cmd'', ''.bat''}"

text \<open>What is really started: a batch file of Windows goes through its command processor.\<close>

definition spawned :: "machine \<Rightarrow> string \<Rightarrow> string list \<Rightarrow> run_options \<Rightarrow> program" where
  "spawned M command args options =
     (let env = nullish (ro_env options) (mc_env M)
      in if mc_windows M \<and> is_batch_file command
         then \<lparr>pg_command = nullish (mc_env M ''ComSpec'') ''cmd.exe'',
                pg_args = [''/d'', ''/s'', ''/c'', join_with '' '' (map quoteWindowsShellArgument (command # args))],
                pg_env = env\<rparr>
         else \<lparr>pg_command = command, pg_args = args, pg_env = env\<rparr>)"

definition runCommand :: "machine \<Rightarrow> string \<Rightarrow> string list \<Rightarrow> run_options \<Rightarrow> (string \<times> string) script" where
  "runCommand M command args options = (\<lambda>w.
     let p = spawned M command args options
     in case mc_spawn M w p of (r, fs) \<Rightarrow>
        let v = w\<lparr>sw_files := fs, sw_ran := sw_ran w @ [p]\<rparr>
        in case r of
             Not_started e \<Rightarrow>
               (Inl (if er_code e = Some ''ENOENT'' then formatMissingExecutableError command options else e), v)
           | Exited code out err \<Rightarrow>
               if code = 0 then (Inr (out, err), v)
               else (Inl (plain_error (trim (command @ '' '' @ join_with '' '' args @ '' failed with exit code '' @
                 show_int code @ newline @ (if err \<noteq> [] then err else out)))), v))"

definition tool_options :: "env option \<Rightarrow> string \<Rightarrow> string \<Rightarrow> run_options" where
  "tool_options env name variable =
     \<lparr>ro_env = env, ro_executableName = Some name, ro_overrideEnvVar = Some variable\<rparr>"

section \<open>Versions\<close>

text \<open>\<^verbatim>\<open>/(?:PostgreSQL\)?\s+|^)(\d+)(?:\.\d+)?/i\<close>: the digits of the first place that matches.\<close>

definition version_here :: "bool \<Rightarrow> string \<Rightarrow> string" where
  "version_here start s =
     (let t = drop 10 s; u = (if starts_with '')'' t then tl t else t); v = dropWhile is_ws u;
          named = (if to_lower (take 10 s) = ''postgresql'' \<and> v \<noteq> u then takeWhile is_digit v else [])
      in if named \<noteq> [] then named else if start then takeWhile is_digit s else [])"

fun version_digits :: "bool \<Rightarrow> string \<Rightarrow> string" where
  "version_digits start [] = []"
| "version_digits start (c # cs) =
     (let ds = version_here start (c # cs) in if ds \<noteq> [] then ds else version_digits False cs)"

definition parsePostgresMajorVersion :: "string \<Rightarrow> string \<Rightarrow> js_error + int" where
  "parsePostgresMajorVersion output label =
     (let text = trim output; ds = version_digits True text
      in if ds = [] \<or> digits_val ds \<le> 0
         then Inl (plain_error (''Could not parse '' @ label @ '' major version from '' @
           quoted (if text = [] then ''<empty>'' else text)))
         else Inr (digits_val ds))"

definition evaluatePostgresToolCompatibility :: "int \<Rightarrow> int \<Rightarrow> string \<Rightarrow> js_error + string option" where
  "evaluatePostgresToolCompatibility serverMajor toolMajor toolName =
     (if serverMajor \<le> 0 then Inl (plain_error (''Invalid PostgreSQL server major version: '' @ show_int serverMajor))
      else if toolMajor \<le> 0 then Inl (plain_error (''Invalid '' @ toolName @ '' major version: '' @ show_int toolMajor))
      else if toolMajor < serverMajor then
        Inl (plain_error (toolName @ '' major version '' @ show_int toolMajor @
          '' is older than PostgreSQL server major version '' @ show_int serverMajor @ ''. Use PostgreSQL '' @
          show_int serverMajor @ '' or newer client tools, for example by setting the matching *_PATH environment variable.''))
      else if toolMajor > serverMajor then
        Inr (Some (toolName @ '' major version '' @ show_int toolMajor @
          '' is newer than PostgreSQL server major version '' @ show_int serverMajor @
          ''; this is allowed for logical backup/restore tooling, but matching major-version client tools are recommended.''))
      else Inr None)"

record detected =
  dt_output :: string
  dt_major :: int

definition detectPostgresClientMajorVersion :: "machine \<Rightarrow> string \<Rightarrow> string \<Rightarrow> string \<Rightarrow> detected script" where
  "detectPostgresClientMajorVersion M command name variable =
     bind_x (runCommand M command [''--version''] (tool_options None name variable)) (\<lambda>(out, _).
     bind_x (lift_x (parsePostgresMajorVersion (trim out) name)) (\<lambda>major.
     ret_x \<lparr>dt_output = trim out, dt_major = major\<rparr>))"

definition detectPostgresServerMajorVersion :: "machine \<Rightarrow> string \<Rightarrow> string \<Rightarrow> detected script" where
  "detectPostgresServerMajorVersion M databaseUrl psqlPath =
     bind_x (lift_x (buildPostgresEnv M databaseUrl)) (\<lambda>env.
     bind_x (runCommand M psqlPath [''-tAc'', ''SHOW server_version;''] (tool_options (Some env) ''psql'' ''PSQL_PATH'')) (\<lambda>(out, _).
     bind_x (lift_x (parsePostgresMajorVersion (trim out) ''PostgreSQL server'')) (\<lambda>major.
     ret_x \<lparr>dt_output = trim out, dt_major = major\<rparr>)))"

datatype operation = Backup | Restore | Verify

record compatibility =
  ct_operation :: operation
  ct_server :: detected
  ct_tools :: "(string \<times> detected) list"
  ct_warnings :: "string list"

primrec tool_warnings :: "int \<Rightarrow> (string \<times> detected) list \<Rightarrow> js_error + string list" where
  "tool_warnings serverMajor [] = Inr []"
| "tool_warnings serverMajor (t # ts) =
     (case evaluatePostgresToolCompatibility serverMajor (dt_major (snd t)) (fst t) of
        Inl e \<Rightarrow> Inl e
      | Inr warning \<Rightarrow> map_sum id (\<lambda>ws. (case warning of None \<Rightarrow> ws | Some m \<Rightarrow> m # ws)) (tool_warnings serverMajor ts))"

text \<open>The tool beside \<^verbatim>\<open>psql\<close> is \<^verbatim>\<open>pg_dump\<close> for a backup and \<^verbatim>\<open>pg_restore\<close> otherwise.\<close>

definition assertPostgresToolCompatibility ::
  "machine \<Rightarrow> string \<Rightarrow> operation \<Rightarrow> string \<Rightarrow> string \<Rightarrow> compatibility script" where
  "assertPostgresToolCompatibility M databaseUrl op pgDumpPath pgRestorePath =
     (if databaseUrl = []
      then throw_x (plain_error ''databaseUrl is required for PostgreSQL client/server compatibility checks'')
      else bind_x (detectPostgresServerMajorVersion M databaseUrl (getPsqlCommand M)) (\<lambda>server.
        bind_x (detectPostgresClientMajorVersion M (getPsqlCommand M) ''psql'' ''PSQL_PATH'') (\<lambda>psql.
        bind_x (if op = Backup
          then bind_x (detectPostgresClientMajorVersion M pgDumpPath ''pg_dump'' ''PG_DUMP_PATH'') (\<lambda>t. ret_x (''pgDump'', t))
          else bind_x (detectPostgresClientMajorVersion M pgRestorePath ''pg_restore'' ''PG_RESTORE_PATH'')
            (\<lambda>t. ret_x (''pgRestore'', t))) (\<lambda>tool.
        bind_x (lift_x (tool_warnings (dt_major server) [(''psql'', psql), tool])) (\<lambda>warnings.
        ret_x \<lparr>ct_operation = op, ct_server = server, ct_tools = [(''psql'', psql), tool], ct_warnings = warnings\<rparr>)))))"

section \<open>Files\<close>

definition missing_file :: js_error where
  "missing_file = (plain_error ''ENOENT: no such file or directory'')\<lparr>er_code := Some ''ENOENT''\<rparr>"

definition read_file :: "string \<Rightarrow> string script" where
  "read_file path = (\<lambda>w. (case map_of (sw_files w) path of None \<Rightarrow> Inl missing_file | Some f \<Rightarrow> Inr (fl_text f), w))"

definition write_file :: "machine \<Rightarrow> string \<Rightarrow> string \<Rightarrow> unit script" where
  "write_file M path text =
     modify_x (\<lambda>w. w\<lparr>sw_files := AList.update path \<lparr>fl_text = text, fl_mtime = mc_now M\<rparr> (sw_files w)\<rparr>)"

definition sha256File :: "ext \<Rightarrow> string \<Rightarrow> string script" where
  "sha256File E path = bind_x (read_file path) (\<lambda>bytes. ret_x (x_sha256 E bytes))"

definition base_name :: "string \<Rightarrow> string" where
  "base_name path = rev (takeWhile (\<lambda>c. c \<noteq> CHR ''/'' \<and> c \<noteq> char_of (92 :: nat)) (rev path))"

definition checksum_line :: "string \<Rightarrow> string \<Rightarrow> string" where
  "checksum_line targetPath checksum = checksum @ ''  '' @ base_name targetPath @ newline"

definition writeChecksumFile :: "machine \<Rightarrow> string \<Rightarrow> string \<Rightarrow> unit script" where
  "writeChecksumFile M targetPath checksum =
     write_file M (targetPath @ ''.sha256'') (checksum_line targetPath checksum)"

definition first_word :: "string \<Rightarrow> string" where
  "first_word line = takeWhile (\<lambda>c. \<not> is_ws c) (trim line)"

definition verifyChecksumFile :: "ext \<Rightarrow> string \<Rightarrow> string script" where
  "verifyChecksumFile E targetPath =
     bind_x (read_file (targetPath @ ''.sha256'')) (\<lambda>expectedLine.
     bind_x (sha256File E targetPath) (\<lambda>actual.
       if first_word expectedLine \<noteq> actual then throw_x (plain_error (''Checksum mismatch for '' @ targetPath))
       else ret_x actual))"

text \<open>The files of a directory, by name. \<open>None\<close> is a number of days that is \<^verbatim>\<open>NaN\<close>, with which
  neither comparison holds.\<close>

definition entry_of :: "string \<Rightarrow> string \<Rightarrow> string option" where
  "entry_of directory path =
     (let name = drop (length directory + 1) path
      in if starts_with (directory @ ''/'') path \<and> name \<noteq> [] \<and> CHR ''/'' \<notin> set name then Some name else None)"

definition kept :: "int \<Rightarrow> int option \<Rightarrow> disk_file \<Rightarrow> bool" where
  "kept now retentionDays f \<longleftrightarrow>
     (case retentionDays of None \<Rightarrow> False | Some d \<Rightarrow> fl_mtime f \<ge> now - d * 24 * 60 * 60 * 1000)"

definition pruneOldBackups :: "machine \<Rightarrow> string \<Rightarrow> int option \<Rightarrow> string list script" where
  "pruneOldBackups M directory retentionDays =
     (if (case retentionDays of None \<Rightarrow> False | Some d \<Rightarrow> d \<le> 0) then ret_x []
      else (\<lambda>w. let old = (\<lambda>(p, f). entry_of directory p \<noteq> None \<and> \<not> kept (mc_now M) retentionDays f)
        in (Inr (map (\<lambda>(p, f). the (entry_of directory p)) (filter old (sw_files w))),
            w\<lparr>sw_files := filter (\<lambda>e. \<not> old e) (sw_files w)\<rparr>)))"

definition countTableRows :: "machine \<Rightarrow> string \<Rightarrow> string \<Rightarrow> int option script" where
  "countTableRows M databaseUrl tableName =
     bind_x (lift_x (buildPostgresEnv M databaseUrl)) (\<lambda>env.
     bind_x (runCommand M (getPsqlCommand M) [''-tAc'', ''SELECT COUNT(*) FROM '' @ quoted tableName]
       (tool_options (Some env) ''psql'' ''PSQL_PATH'')) (\<lambda>(out, _).
     ret_x (parse_int (trim out))))"

definition assertTableExists :: "machine \<Rightarrow> string \<Rightarrow> string \<Rightarrow> unit script" where
  "assertTableExists M databaseUrl tableName =
     bind_x (lift_x (buildPostgresEnv M databaseUrl)) (\<lambda>env.
     bind_x (runCommand M (getPsqlCommand M) [''-tAc'', ''SELECT to_regclass('' @ [char_of (39 :: nat)] @ ''public.'' @
         quoted tableName @ [char_of (39 :: nat)] @ '')''] (tool_options (Some env) ''psql'' ''PSQL_PATH'')) (\<lambda>(out, _).
       if \<not> contains tableName out
       then throw_x (plain_error (''Expected table '' @ tableName @ '' was not found after restore''))
       else ret_x ()))"

end
