(* ===== verification/Backups.thy ===== *)
theory Backups
  imports PostgresTools
begin

text \<open>
  \<^verbatim>\<open>scripts/db-backup.mjs\<close>, \<^verbatim>\<open>scripts/db-restore.mjs\<close> and \<^verbatim>\<open>scripts/db-backup-verify.mjs\<close> as runs of
  the machine of \<^verbatim>\<open>PostgresTools\<close>: a run returns what the script prints when it is done or the error it
  ends with. What is shown is what they may do to a database and to the backups at hand. The directory
  of the backups exists.
\<close>

section \<open>Backup\<close>

record backup_metadata =
  bm_timestamp :: string
  bm_appVersion :: string
  bm_gitSha :: string
  bm_database :: string
  bm_migrationCount :: int
  bm_checksum :: string
  bm_postgresVersions :: compatibility

definition createBackupMetadata ::
  "machine \<Rightarrow> string \<Rightarrow> string \<Rightarrow> string \<Rightarrow> string \<Rightarrow> int \<Rightarrow> string \<Rightarrow> compatibility \<Rightarrow> js_error + backup_metadata" where
  "createBackupMetadata M timestamp appVersion gitSha databaseUrl migrationCount checksum versions =
     map_sum id (\<lambda>d. \<lparr>bm_timestamp = timestamp, bm_appVersion = appVersion, bm_gitSha = gitSha,
         bm_database = du_safeDisplay d, bm_migrationCount = migrationCount, bm_checksum = checksum,
         bm_postgresVersions = versions\<rparr>) (parseDatabaseUrl M databaseUrl)"

definition getGitSha :: "machine \<Rightarrow> string script" where
  "getGitSha M =
     catch_x (bind_x (runCommand M ''git'' [''rev-parse'', ''--short'', ''HEAD'']
         \<lparr>ro_env = None, ro_executableName = None, ro_overrideEnvVar = None\<rparr>)
       (\<lambda>(out, _). ret_x (str_or (Some (trim out)) ''unknown''))) (\<lambda>_. ret_x ''unknown'')"

record backup_result =
  br_backupPath :: string
  br_checksum :: string
  br_retentionDays :: "int option"
  br_removed :: "string list"
  br_compatibility :: compatibility

text \<open>The text of the metadata file is the parameter \<open>render\<close>, the number of migrations
  \<open>migrations\<close>.\<close>

definition backup_settings :: "machine \<Rightarrow> script_args \<Rightarrow> (js_error + string) \<times> string \<times> string \<times> int option" where
  "backup_settings M args =
     (let databaseUrl = nullish2 (sa_flags args ''database-url'') (mc_env M ''DATABASE_URL'')
      in (if truthy databaseUrl then Inr (the databaseUrl)
          else Inl (plain_error ''DATABASE_URL or --database-url is required''),
          mc_resolve M (nullish (nullish2 (sa_flags args ''output-dir'') (mc_env M ''BACKUP_DIR''))
            (join_path (mc_root M) ''backups'')),
          nullish (sa_flags args ''pg-dump-path'') (getPgDumpCommand M),
          parse_int (nullish (nullish2 (sa_flags args ''retention-days'') (mc_env M ''BACKUP_RETENTION_DAYS'')) ''14'')))"

definition backup_main ::
  "ext \<Rightarrow> machine \<Rightarrow> (backup_metadata \<Rightarrow> string) \<Rightarrow> int \<Rightarrow> string list \<Rightarrow> backup_result script" where
  "backup_main E M render migrations argv =
     (case backup_settings M (parseArgs argv) of (url, outputDirectory, pgDumpPath, retentionDays) \<Rightarrow>
      bind_x (lift_x url) (\<lambda>databaseUrl.
      bind_x (lift_x (parseDatabaseUrl M databaseUrl)) (\<lambda>database.
      bind_x (assertPostgresToolCompatibility M databaseUrl Backup pgDumpPath (getPgRestoreCommand M)) (\<lambda>compatibility.
      let baseName = ''autonomous-csa-'' @ du_databaseName database @ ''-'' @ getTimestamp E (mc_now M);
          backupPath = join_path outputDirectory (baseName @ ''.dump'')
      in bind_x (lift_x (buildPostgresEnv M databaseUrl)) (\<lambda>env.
         bind_x (runCommand M pgDumpPath [''--format=custom'', ''--compress=9'', ''--file'', backupPath]
           (tool_options (Some env) ''pg_dump'' ''PG_DUMP_PATH'')) (\<lambda>_.
         bind_x (sha256File E backupPath) (\<lambda>checksum.
         bind_x (writeChecksumFile M backupPath checksum) (\<lambda>_.
         bind_x (getGitSha M) (\<lambda>gitSha.
         bind_x (lift_x (createBackupMetadata M (x_iso E (mc_now M)) (nullish (mc_env M ''APP_VERSION'') ''dev'') gitSha
           databaseUrl migrations checksum compatibility)) (\<lambda>metadata.
         bind_x (write_file M (backupPath @ ''.json'') (render metadata)) (\<lambda>_.
         bind_x (pruneOldBackups M outputDirectory retentionDays) (\<lambda>removed.
         ret_x \<lparr>br_backupPath = backupPath, br_checksum = checksum, br_retentionDays = retentionDays,
           br_removed = removed, br_compatibility = compatibility\<rparr>))))))))))))"

section \<open>Restore\<close>

definition confirmed :: "machine \<Rightarrow> bool" where
  "confirmed M \<longleftrightarrow> to_lower (trim (mc_answer M)) = ''restore''"

definition restore_arguments :: "string \<Rightarrow> string \<Rightarrow> string list" where
  "restore_arguments databaseName backupPath =
     [''--clean'', ''--if-exists'', ''--no-owner'', ''--no-privileges'', ''--dbname'', databaseName, backupPath]"

record restore_result =
  rr_backupPath :: string
  rr_target :: string
  rr_checksum :: string
  rr_compatibility :: compatibility

definition restore_target :: "machine \<Rightarrow> script_args \<Rightarrow> js_error + (string \<times> string)" where
  "restore_target M args =
     (let backupPath = (case sa_positional args of [] \<Rightarrow> [] | p # _ \<Rightarrow> p);
          target = nullish2 (sa_flags args ''target-database-url'') (mc_env M ''TARGET_DATABASE_URL'')
      in if backupPath = []
         then Inl (plain_error ''Usage: node scripts/db-restore.mjs <backup-file> --target-database-url=<url>'')
         else if \<not> truthy target then Inl (plain_error ''TARGET_DATABASE_URL or --target-database-url is required'')
         else Inr (backupPath, the target))"

text \<open>The refusals before anything runs: a target that looks like production without the flag, an operator
  who does not type the word.\<close>

definition restore_allowed :: "machine \<Rightarrow> script_args \<Rightarrow> string \<Rightarrow> js_error + unit" where
  "restore_allowed M args target =
     (case isProductionLikeDatabase M target of
        Inl e \<Rightarrow> Inl e
      | Inr production \<Rightarrow>
          if production \<and> sa_flags args ''allow-production'' \<noteq> Some ''true''
          then Inl (plain_error ''Refusing production-like restore without --allow-production=true'')
          else if sa_flags args ''yes'' \<noteq> Some ''true'' \<and> \<not> confirmed M
          then Inl (plain_error ''Restore aborted by operator'') else Inr ())"

definition restore_main :: "ext \<Rightarrow> machine \<Rightarrow> string list \<Rightarrow> restore_result script" where
  "restore_main E M argv =
     (let args = parseArgs argv
      in bind_x (lift_x (restore_target M args)) (\<lambda>(backupPath, target).
         bind_x (lift_x (restore_allowed M args target)) (\<lambda>_.
         bind_x (verifyChecksumFile E backupPath) (\<lambda>checksum.
         let pgRestorePath = nullish (sa_flags args ''pg-restore-path'') (getPgRestoreCommand M)
         in bind_x (assertPostgresToolCompatibility M target Restore (getPgDumpCommand M) pgRestorePath) (\<lambda>compatibility.
         bind_x (lift_x (parseDatabaseUrl M target)) (\<lambda>database.
         bind_x (lift_x (buildPostgresEnv M target)) (\<lambda>env.
         bind_x (runCommand M pgRestorePath (restore_arguments (du_databaseName database) backupPath)
           (tool_options (Some env) ''pg_restore'' ''PG_RESTORE_PATH'')) (\<lambda>_.
         ret_x \<lparr>rr_backupPath = backupPath, rr_target = du_safeDisplay database, rr_checksum = checksum,
           rr_compatibility = compatibility\<rparr>))))))))"

section \<open>Verification of a backup\<close>

definition TABLES_TO_CHECK :: "string list" where
  "TABLES_TO_CHECK = [''Organization'', ''User'', ''OrganizationMembership'', ''Ticket'', ''TicketMessage'', ''AgentRun'',
     ''AgentStep'', ''AgentEvent'', ''OutboundDraft'', ''HumanApproval'', ''KnowledgeArticle'', ''KnowledgeRetrieval'',
     ''AgentGuardrailCheck'', ''OperationalFailure'', ''RefreshSession'']"

definition admin_command :: "machine \<Rightarrow> string \<Rightarrow> string \<Rightarrow> unit script" where
  "admin_command M adminUrl statement =
     bind_x (lift_x (buildPostgresEnv M adminUrl)) (\<lambda>env.
     bind_x (lift_x (parseDatabaseUrl M adminUrl)) (\<lambda>database.
     then_x (runCommand M (getPsqlCommand M) [''-d'', du_databaseName database, ''-c'', statement]
       (tool_options (Some env) ''psql'' ''PSQL_PATH'')) (ret_x ())))"

definition createTempDatabase :: "machine \<Rightarrow> string \<Rightarrow> string \<Rightarrow> unit script" where
  "createTempDatabase M adminUrl databaseName = admin_command M adminUrl (''CREATE DATABASE '' @ quoted databaseName)"

definition dropTempDatabase :: "machine \<Rightarrow> string \<Rightarrow> string \<Rightarrow> unit script" where
  "dropTempDatabase M adminUrl databaseName =
     admin_command M adminUrl (''DROP DATABASE IF EXISTS '' @ quoted databaseName @ '' WITH (FORCE)'')"

definition restoreBackupIntoDatabase :: "machine \<Rightarrow> string \<Rightarrow> string \<Rightarrow> unit script" where
  "restoreBackupIntoDatabase M backupPath targetUrl =
     bind_x (lift_x (parseDatabaseUrl M targetUrl)) (\<lambda>database.
     bind_x (lift_x (buildPostgresEnv M targetUrl)) (\<lambda>env.
     then_x (runCommand M (getPgRestoreCommand M) (restore_arguments (du_databaseName database) backupPath)
       (tool_options (Some env) ''pg_restore'' ''PG_RESTORE_PATH'')) (ret_x ())))"

definition runPrismaValidation :: "machine \<Rightarrow> string \<Rightarrow> unit script" where
  "runPrismaValidation M databaseUrl =
     then_x (runCommand M (getWorkspacePrismaCommand M) [''migrate'', ''status'', ''--schema'', ''prisma/schema.prisma'']
       (tool_options (Some ((mc_env M)(''DATABASE_URL'' \<mapsto> databaseUrl))) ''prisma'' ''PRISMA_PATH'')) (ret_x ())"

record table_count =
  tb_name :: string
  tb_source :: "int option"
  tb_restored :: "int option"

definition check_table :: "machine \<Rightarrow> string \<Rightarrow> string \<Rightarrow> string \<Rightarrow> table_count list script" where
  "check_table M sourceUrl tempUrl tableName =
     then_x (assertTableExists M tempUrl tableName)
       (bind_x (countTableRows M sourceUrl tableName) (\<lambda>source.
        bind_x (countTableRows M tempUrl tableName) (\<lambda>restored.
        ret_x [\<lparr>tb_name = tableName, tb_source = source, tb_restored = restored\<rparr>])))"

record verify_plan =
  vp_backupPath :: string
  vp_sourceUrl :: string
  vp_adminUrl :: string
  vp_preserve :: bool
  vp_tempName :: string
  vp_tempUrl :: string

definition verify_plan :: "machine \<Rightarrow> script_args \<Rightarrow> js_error + verify_plan" where
  "verify_plan M args =
     (let backupPath = (case sa_positional args of [] \<Rightarrow> [] | p # _ \<Rightarrow> p);
          source = nullish2 (sa_flags args ''source-database-url'') (mc_env M ''DATABASE_URL'');
          tempName = createTempDatabaseName (show_int (mc_now M))
      in if backupPath = [] then Inl (plain_error ''Usage: node scripts/db-backup-verify.mjs <backup-file>'')
         else if \<not> truthy source then Inl (plain_error ''DATABASE_URL or --source-database-url is required'')
         else case (case nullish2 (sa_flags args ''admin-database-url'') (mc_env M ''PG_ADMIN_DATABASE_URL'') of
              Some a \<Rightarrow> Inr a | None \<Rightarrow> withDatabaseName M (the source) ''postgres'') of
           Inl e \<Rightarrow> Inl e
         | Inr admin \<Rightarrow> map_sum id (\<lambda>temp. \<lparr>vp_backupPath = backupPath, vp_sourceUrl = the source, vp_adminUrl = admin,
             vp_preserve = (sa_flags args ''preserve'' = Some ''true''), vp_tempName = tempName, vp_tempUrl = temp\<rparr>)
             (withDatabaseName M (the source) tempName))"

record verify_result =
  vr_tempDatabase :: string
  vr_counts :: "table_count list"
  vr_compatibility :: compatibility

definition verify_restored :: "machine \<Rightarrow> verify_plan \<Rightarrow> compatibility \<Rightarrow> verify_result script" where
  "verify_restored M p compatibility =
     then_x (restoreBackupIntoDatabase M (vp_backupPath p) (vp_tempUrl p))
    (then_x (runPrismaValidation M (vp_tempUrl p))
       (bind_x (collect_x TABLES_TO_CHECK (check_table M (vp_sourceUrl p) (vp_tempUrl p))) (\<lambda>counts.
        bind_x (lift_x (parseDatabaseUrl M (vp_tempUrl p))) (\<lambda>database.
        ret_x \<lparr>vr_tempDatabase = du_safeDisplay database, vr_counts = counts, vr_compatibility = compatibility\<rparr>))))"

text \<open>\<^verbatim>\<open>try { ... } finally { ... }\<close>: the last part runs however the first ends, and an error of it
  replaces the outcome.\<close>

definition finally_x :: "('w, 'e, 'a) sx \<Rightarrow> ('w, 'e, unit) sx \<Rightarrow> ('w, 'e, 'a) sx" where
  "finally_x m n = (\<lambda>w. case m w of (r, v) \<Rightarrow> (case n v of (Inl e, u) \<Rightarrow> (Inl e, u) | (Inr _, u) \<Rightarrow> (r, u)))"

definition verify_prepare :: "ext \<Rightarrow> machine \<Rightarrow> string list \<Rightarrow> (verify_plan \<times> compatibility) script" where
  "verify_prepare E M argv =
     bind_x (lift_x (verify_plan M (parseArgs argv))) (\<lambda>p.
     then_x (verifyChecksumFile E (vp_backupPath p))
    (bind_x (assertPostgresToolCompatibility M (vp_sourceUrl p) Verify (getPgDumpCommand M) (getPgRestoreCommand M)) (\<lambda>compatibility.
     then_x (createTempDatabase M (vp_adminUrl p) (vp_tempName p)) (ret_x (p, compatibility)))))"

definition verify_main :: "ext \<Rightarrow> machine \<Rightarrow> string list \<Rightarrow> verify_result script" where
  "verify_main E M argv =
     bind_x (verify_prepare E M argv) (\<lambda>(p, compatibility).
       finally_x (verify_restored M p compatibility)
         (when_x (\<not> vp_preserve p) (dropTempDatabase M (vp_adminUrl p) (vp_tempName p))))"

section \<open>What a run starts\<close>

lemma map_sum_Inr: "map_sum id f r = Inr y \<longleftrightarrow> (\<exists>x. r = Inr x \<and> y = f x)"
  by (cases r) auto

lemma lift_x_run [run_simps]: "lift_x r w = (r, w)"
  by (cases r) (simp_all add: lift_x_def run_simps)

lemma preserves_lift [preserve_rules]: "preserves I (lift_x r)"
  by (simp add: preserves_def run_simps)

lemma preserves_lift_bind: "(\<And>a. r = Inr a \<Longrightarrow> preserves I (k a)) \<Longrightarrow> preserves I (bind_x (lift_x r) k)"
  by (cases r) (simp_all add: preserves_def run_simps)

lemma preserves_finally [preserve_rules]: "preserves I m \<Longrightarrow> preserves I n \<Longrightarrow> preserves I (finally_x m n)"
  by (auto simp: preserves_def finally_x_def split: prod.splits sum.splits)

text \<open>\<open>starts Q\<close>: every program started so far satisfies \<open>Q\<close>.\<close>

definition starts :: "(program \<Rightarrow> bool) \<Rightarrow> script_world \<Rightarrow> bool" where
  "starts Q w \<longleftrightarrow> list_all Q (sw_ran w)"

lemma starts_run: "Q (spawned M command args options) \<Longrightarrow> preserves (starts Q) (runCommand M command args options)"
  by (auto simp: preserves_def runCommand_def starts_def Let_def split: prod.splits ending.splits)

lemma starts_files [preserve_rules]:
  "preserves (starts Q) (read_file path)" "preserves (starts Q) (write_file M path text)"
  "preserves (starts Q) (pruneOldBackups M directory days)"
  by (auto simp: preserves_def read_file_def write_file_def pruneOldBackups_def starts_def run_simps Let_def)

lemma starts_checksum [preserve_rules]: "preserves (starts Q) (verifyChecksumFile E path)"
  unfolding verifyChecksumFile_def sha256File_def by (intro preserve_rules)

lemma spawned_plain: "\<not> mc_windows M \<Longrightarrow>
    spawned M command args options = \<lparr>pg_command = command, pg_args = args, pg_env = nullish (ro_env options) (mc_env M)\<rparr>"
  by (simp add: spawned_def Let_def)

text \<open>Programs that only read.\<close>

definition reading :: "program \<Rightarrow> bool" where
  "reading p \<longleftrightarrow> pg_args p = [''--version''] \<or>
     (\<exists>q. pg_args p = [''-tAc'', q] \<and> (starts_with ''SELECT '' q \<or> starts_with ''SHOW '' q))"

lemma reading_compat:
  "\<not> mc_windows M \<Longrightarrow> (\<And>p. reading p \<Longrightarrow> Q p) \<Longrightarrow> preserves (starts Q) (assertPostgresToolCompatibility M url op dump restore)"
  unfolding assertPostgresToolCompatibility_def detectPostgresServerMajorVersion_def detectPostgresClientMajorVersion_def
  by (intro preserve_rules starts_run) (simp_all add: spawned_plain reading_def starts_with_def)

lemma reading_tables:
  "\<not> mc_windows M \<Longrightarrow> (\<And>p. reading p \<Longrightarrow> Q p) \<Longrightarrow> preserves (starts Q) (check_table M source temp name)"
  unfolding check_table_def assertTableExists_def countTableRows_def
  by (intro preserve_rules starts_run) (simp_all add: spawned_plain reading_def starts_with_def)

text \<open>Programs that write to nothing but the database \<open>t\<close>, and the check of its migrations.\<close>

definition confined :: "string \<Rightarrow> program \<Rightarrow> bool" where
  "confined t p \<longleftrightarrow> reading p \<or>
     (\<exists>d. pg_args p \<in> {[''-d'', d, ''-c'', ''CREATE DATABASE '' @ quoted t],
        [''-d'', d, ''-c'', ''DROP DATABASE IF EXISTS '' @ quoted t @ '' WITH (FORCE)'']}) \<or>
     (\<exists>path. pg_args p = restore_arguments t path \<and> pg_env p ''PGDATABASE'' = Some t) \<or>
     pg_args p = [''migrate'', ''status'', ''--schema'', ''prisma/schema.prisma'']"

text \<open>What is relied on of \<^verbatim>\<open>URL\<close>: a path that was set is the path read.\<close>

definition url_path_law :: "machine \<Rightarrow> bool" where
  "url_path_law M \<longleftrightarrow> (\<forall>u path v. mc_url M (mc_set_pathname M u (''/'' @ path)) = Some v \<longrightarrow> url_pathname v = ''/'' @ path)"

lemma temp_database_name:
  assumes "url_path_law M" "withDatabaseName M u t = Inr temp" "parseDatabaseUrl M temp = Inr d" "take 1 t \<noteq> ''/''"
  shows "du_databaseName d = t"
proof -
  have "temp = mc_set_pathname M u (''/'' @ t)" using assms(2) by (auto simp: withDatabaseName_def split: option.splits)
  with assms(1,3) have "du_databaseName d = dropWhile (\<lambda>c. c = CHR ''/'') (''/'' @ t)"
    by (auto simp: parseDatabaseUrl_def url_path_law_def Let_def split: option.splits if_splits)
  with assms(4) show ?thesis by (cases t) auto
qed

lemma postgres_env_database: "buildPostgresEnv M u = Inr env \<Longrightarrow> \<exists>d. parseDatabaseUrl M u = Inr d \<and> env ''PGDATABASE'' = Some (du_databaseName d)"
  by (auto simp: buildPostgresEnv_def Let_def split: sum.splits if_splits)

lemma confined_restore:
  assumes "\<not> mc_windows M" "url_path_law M" "withDatabaseName M u t = Inr temp" "take 1 t \<noteq> ''/''"
  shows "preserves (starts (confined t)) (restoreBackupIntoDatabase M path temp)"
  unfolding restoreBackupIntoDatabase_def
proof (intro preserves_lift_bind preserves_then starts_run preserves_ret)
  fix d env assume d: "parseDatabaseUrl M temp = Inr d" and "buildPostgresEnv M temp = Inr env"
  then have "env ''PGDATABASE'' = Some t" "du_databaseName d = t"
    using postgres_env_database [of M temp env] temp_database_name [OF assms(2,3) _ assms(4)] by auto
  then show "confined t (spawned M (getPgRestoreCommand M) (restore_arguments (du_databaseName d) path)
      (tool_options (Some env) ''pg_restore'' ''PG_RESTORE_PATH''))"
    using assms(1) by (auto simp: confined_def spawned_plain tool_options_def nullish_def)
qed

lemma confined_admin:
  assumes "\<not> mc_windows M"
  shows "preserves (starts (confined t)) (createTempDatabase M url t)" "preserves (starts (confined t)) (dropTempDatabase M url t)"
  unfolding createTempDatabase_def dropTempDatabase_def admin_command_def
  by (intro preserve_rules starts_run; simp add: assms spawned_plain confined_def)+

lemma confined_prisma: "\<not> mc_windows M \<Longrightarrow> preserves (starts (confined t)) (runPrismaValidation M url)"
  unfolding runPrismaValidation_def by (intro preserve_rules starts_run) (simp add: spawned_plain confined_def)

lemma verify_plan_ok:
  assumes "verify_plan M args = Inr p"
  shows "withDatabaseName M (vp_sourceUrl p) (vp_tempName p) = Inr (vp_tempUrl p)"
    "vp_tempName p = createTempDatabaseName (show_int (mc_now M))"
  using assms by (auto simp: verify_plan_def Let_def map_sum_Inr split: if_splits sum.splits)

lemma temp_name: "take 1 (createTempDatabaseName seed) \<noteq> ''/''"
  by (simp add: createTempDatabaseName_def TEMP_PREFIX_def Let_def)

lemma prepare_ok:
  assumes "fst (verify_prepare E M argv w) = Inr (p, c)"
  shows "verify_plan M (parseArgs argv) = Inr p"
    "\<exists>u. fst (createTempDatabase M (vp_adminUrl p) (vp_tempName p) u) = Inr ()"
  using assms unfolding verify_prepare_def
  by (auto simp: run_simps split: sum.splits)


definition drop_program :: "machine \<Rightarrow> string \<Rightarrow> program \<Rightarrow> bool" where
  "drop_program M t p \<longleftrightarrow> pg_command p = getPsqlCommand M \<and>
     last (pg_args p) = ''DROP DATABASE IF EXISTS '' @ quoted t @ '' WITH (FORCE)''"


text \<open>A machine on which every program succeeds and prints 16 and its arguments, and whose URLs are paths.\<close>

definition demo_machine :: machine where
  "demo_machine = \<lparr>mc_spawn = (\<lambda>w p. (Exited 0 (''16 '' @ concat (pg_args p)) [], sw_files w)),
     mc_url = (\<lambda>u. Some \<lparr>url_protocol = ''postgres:'', url_hostname = ''db'', url_port = [], url_pathname = u,
       url_href = u, ur_username = ''u'', ur_password = ''p'', ur_search = Map.empty\<rparr>),
     mc_set_pathname = (\<lambda>u path. path), mc_decode = Some, mc_resolve = id, mc_env = [''DATABASE_URL'' \<mapsto> ''/csa''],
     mc_windows = False, mc_now = 0, mc_root = ''/r'', mc_answer = ''restore''\<rparr>"

definition demo_backup :: script_world where
  "demo_backup = \<lparr>sw_files = [(''b'', \<lparr>fl_text = ''data'', fl_mtime = 0\<rparr>),
     (''b.sha256'', \<lparr>fl_text = ''data  b'', fl_mtime = 0\<rparr>)], sw_ran = []\<rparr>"

lemma demo_machine_law: "url_path_law demo_machine" "\<not> mc_windows demo_machine"
  by (simp_all add: url_path_law_def demo_machine_def)


lemma demo_prepared:
  "\<exists>p c. fst (verify_prepare demo_ext demo_machine [''b''] demo_backup) = Inr (p, c) \<and> \<not> vp_preserve p \<and>
     vp_tempName p = ''autonomous_restore_verify_0''"
proof -
  have "case fst (verify_prepare demo_ext demo_machine [''b''] demo_backup) of Inl e \<Rightarrow> False
    | Inr (p, c) \<Rightarrow> \<not> vp_preserve p \<and> vp_tempName p = ''autonomous_restore_verify_0''"
    by code_simp
  then show ?thesis by (auto split: sum.splits)
qed


section \<open>What a restore needs\<close>

lemma read_only [simp]: "snd (verifyChecksumFile E path w) = w"
  by (simp add: verifyChecksumFile_def sha256File_def read_file_def run_simps split: sum.split option.split)

lemma run_one: "length (sw_ran (snd (runCommand M command args options w))) = Suc (length (sw_ran w))"
  by (simp add: runCommand_def Let_def split: prod.split ending.split)

lemma detect_one:
  "length (sw_ran (snd (detectPostgresClientMajorVersion M command name variable w))) \<le> Suc (length (sw_ran w))"
  "length (sw_ran (snd (detectPostgresServerMajorVersion M url command w))) \<le> Suc (length (sw_ran w))"
  by (simp_all add: detectPostgresClientMajorVersion_def detectPostgresServerMajorVersion_def run_simps run_one split: sum.split)

lemma tool_warnings_ok: "tool_warnings n ts = Inr ws \<Longrightarrow> t \<in> set ts \<Longrightarrow> n \<le> dt_major (snd t)"
  by (induction ts arbitrary: ws)
    (auto simp: evaluatePostgresToolCompatibility_def map_sum_Inr split: sum.splits if_splits)

lemma compat_ok:
  "fst (assertPostgresToolCompatibility M url op dump restore w) = Inr c \<Longrightarrow>
     t \<in> set (ct_tools c) \<Longrightarrow> dt_major (ct_server c) \<le> dt_major (snd t)"
  unfolding assertPostgresToolCompatibility_def
  by (auto simp: run_simps simp del: tool_warnings.simps split: if_splits sum.splits dest: tool_warnings_ok [where t = t])

lemma compat_three:
  "length (sw_ran (snd (assertPostgresToolCompatibility M url op dump restore w))) \<le> length (sw_ran w) + 3"
proof -
  let ?s = "detectPostgresServerMajorVersion M url (getPsqlCommand M)"
  let ?c = "detectPostgresClientMajorVersion M (getPsqlCommand M) ''psql'' ''PSQL_PATH''"
  have "length (sw_ran (snd (?c (snd (?s w))))) \<le> length (sw_ran w) + 2"
    using detect_one(2) [of M url "getPsqlCommand M" w] detect_one(1) [of M "getPsqlCommand M" "''psql''" "''PSQL_PATH''" "snd (?s w)"]
    by simp
  then show ?thesis
    using detect_one(2) [of M url "getPsqlCommand M" w]
      detect_one(1) [of M dump "''pg_dump''" "''PG_DUMP_PATH''" "snd (?c (snd (?s w)))"]
      detect_one(1) [of M restore "''pg_restore''" "''PG_RESTORE_PATH''" "snd (?c (snd (?s w)))"]
    by (simp add: assertPostgresToolCompatibility_def run_simps split: sum.split) linarith?
qed

text \<open>C38: A restore starts no program before it may. It starts one only if the arguments name a backup and a
  target, the target does not look like production or the flag says that it may, the operator agreed by
  flag or by word, and the backup has the checksum written beside it. It starts a fourth, which is the one
  that restores, only if no client program is older than the server.\<close>

theorem restore_guarded:
  assumes "sw_ran (snd (restore_main E M argv w)) \<noteq> sw_ran w"
  shows "\<exists>path target production checksum. restore_target M (parseArgs argv) = Inr (path, target) \<and>
    isProductionLikeDatabase M target = Inr production \<and>
    (production \<longrightarrow> sa_flags (parseArgs argv) ''allow-production'' = Some ''true'') \<and>
    (sa_flags (parseArgs argv) ''yes'' = Some ''true'' \<or> confirmed M) \<and>
    fst (verifyChecksumFile E path w) = Inr checksum \<and>
    (length (sw_ran (snd (restore_main E M argv w))) > length (sw_ran w) + 3 \<longrightarrow>
       (\<exists>c. fst (assertPostgresToolCompatibility M target Restore (getPgDumpCommand M)
            (nullish (sa_flags (parseArgs argv) ''pg-restore-path'') (getPgRestoreCommand M)) w) = Inr c \<and>
          list_all (\<lambda>tool. dt_major (ct_server c) \<le> dt_major (snd tool)) (ct_tools c)))"
proof -
  let ?v = "restore_main E M argv w"
  obtain path target where t: "restore_target M (parseArgs argv) = Inr (path, target)"
    using assms by (cases "restore_target M (parseArgs argv)") (auto simp: restore_main_def run_simps Let_def)
  have a: "restore_allowed M (parseArgs argv) target = Inr ()"
    using assms t by (cases "restore_allowed M (parseArgs argv) target") (auto simp: restore_main_def run_simps Let_def)
  obtain checksum where c: "fst (verifyChecksumFile E path w) = Inr checksum"
    using assms t a by (cases "fst (verifyChecksumFile E path w)") (auto simp: restore_main_def run_simps Let_def)
  let ?C = "assertPostgresToolCompatibility M target Restore (getPgDumpCommand M)
      (nullish (sa_flags (parseArgs argv) ''pg-restore-path'') (getPgRestoreCommand M))"
  have "\<exists>c. fst (?C w) = Inr c" if "length (sw_ran (snd ?v)) > length (sw_ran w) + 3"
  proof (cases "fst (?C w)")
    case (Inl e)
    then have "snd ?v = snd (?C w)" using t a c by (simp add: restore_main_def run_simps Let_def)
    with that compat_three [of M target Restore "getPgDumpCommand M"] show ?thesis by (metis not_le)
  qed blast
  moreover have "list_all (\<lambda>tool. dt_major (ct_server r) \<le> dt_major (snd tool)) (ct_tools r)" if "fst (?C w) = Inr r" for r
    using compat_ok [OF that] by (simp add: list_all_iff)
  moreover obtain production where "isProductionLikeDatabase M target = Inr production"
    "production \<longrightarrow> sa_flags (parseArgs argv) ''allow-production'' = Some ''true''"
    "sa_flags (parseArgs argv) ''yes'' = Some ''true'' \<or> confirmed M"
    using a by (auto simp: restore_allowed_def split: sum.splits if_splits)
  ultimately show ?thesis using t c by blast
qed

theorem restore_guarded_witness:
  "\<exists>production checksum. isProductionLikeDatabase demo_machine ''/t'' = Inr production \<and>
     fst (verifyChecksumFile demo_ext ''b'' demo_backup) = Inr checksum \<and>
     length (sw_ran (snd (restore_main demo_ext demo_machine [''b'', ''--target-database-url=/t''] demo_backup))) = 4"
proof -
  let ?argv = "[''b'', ''--target-database-url=/t'']"
  have run: "length (sw_ran (snd (restore_main demo_ext demo_machine ?argv demo_backup))) = 4" by code_simp
  then have "sw_ran (snd (restore_main demo_ext demo_machine ?argv demo_backup)) \<noteq> sw_ran demo_backup"
    by (auto simp: demo_backup_def)
  from restore_guarded [OF this] obtain path target production checksum where
    "restore_target demo_machine (parseArgs ?argv) = Inr (path, target)" "isProductionLikeDatabase demo_machine target = Inr production"
    "fst (verifyChecksumFile demo_ext path demo_backup) = Inr checksum" by blast
  moreover have "restore_target demo_machine (parseArgs ?argv) = Inr (''b'', ''/t'')" by code_simp
  ultimately show ?thesis using run by auto
qed

section \<open>Which backups remain\<close>

lemma prune_None: "pruneOldBackups M directory None w = (Inr a, v) \<Longrightarrow> list_all (\<lambda>e. entry_of directory (fst e) = None) (sw_files v)"
  by (auto simp: pruneOldBackups_def kept_def list_all_iff Let_def)

lemma prune_keeps:
  assumes "pruneOldBackups M directory (Some d) w = (Inr a, v)" "(path, f) \<in> set (sw_files w)" "fl_mtime f = mc_now M"
  shows "(path, f) \<in> set (sw_files v)"
  using assms by (cases "d \<le> 0") (auto simp: pruneOldBackups_def kept_def run_simps Let_def)

text \<open>The last steps of a backup: the metadata is written, then old files are removed.\<close>

lemma backup_end:
  assumes "backup_main E M render migrations argv w = (Inr r, v)"
    and "backup_settings M (parseArgs argv) = (url, dir, dump, days)"
  shows "br_retentionDays r = days"
    "\<exists>t u. pruneOldBackups M dir days (snd (write_file M (br_backupPath r @ ''.json'') t u)) = (Inr (br_removed r), v)"
proof -
  have "br_retentionDays r = days \<and>
      (\<exists>t u. fst (pruneOldBackups M dir days (snd (write_file M (br_backupPath r @ ''.json'') t u))) = Inr (br_removed r) \<and>
         snd (pruneOldBackups M dir days (snd (write_file M (br_backupPath r @ ''.json'') t u))) = v)"
    using assms(1) unfolding backup_main_def assms(2)
    by (auto simp: run_simps Let_def write_file_def split: sum.splits prod.splits) blast
  then show "br_retentionDays r = days"
    "\<exists>t u. pruneOldBackups M dir days (snd (write_file M (br_backupPath r @ ''.json'') t u)) = (Inr (br_removed r), v)"
    by (metis prod.collapse)+
qed


text \<open>The machine with a dump program that writes its file.\<close>

definition demo_dumping :: machine where
  "demo_dumping = demo_machine\<lparr>mc_spawn := (\<lambda>w p. (Exited 0 (''16 '' @ concat (pg_args p)) [],
     if ''--file'' \<in> set (pg_args p) then AList.update (last (pg_args p)) \<lparr>fl_text = ''dump'', fl_mtime = 0\<rparr> (sw_files w)
     else sw_files w))\<rparr>"


section \<open>Checksums and names\<close>

lemma first_word_line:
  assumes "checksum \<noteq> []" "list_all (\<lambda>c. \<not> is_ws c) checksum"
  shows "first_word (checksum_line path checksum) = checksum"
proof -
  let ?tail = "''  '' @ base_name path @ newline"
  let ?z = "rev (dropWhile is_ws (rev ?tail))"
  have front: "dropWhile is_ws (checksum @ ?tail) = checksum @ ?tail" using assms by (cases checksum) auto
  have "dropWhile is_ws (rev checksum) = rev checksum"
    using assms by (simp add: dropWhile_eq_self_iff hd_rev list_all_iff)
  then have "dropWhile is_ws (rev ?tail @ rev checksum) = dropWhile is_ws (rev ?tail) @ rev checksum"
    by (simp only: dropWhile_append) (auto simp: dropWhile_eq_Nil_conv)
  then have trimmed: "trim (checksum @ ?tail) = checksum @ ?z"
    unfolding trim_def front rev_append [of checksum] by simp
  have "?z @ rev (takeWhile is_ws (rev ?tail)) = ?tail"
    by (metis rev_append rev_rev_ident takeWhile_dropWhile_id)
  moreover have "takeWhile (\<lambda>c. \<not> is_ws c) z = []" if "z @ y = ''  '' @ u" for z y u
    using that by (cases z) (auto simp: is_ws_def)
  ultimately have "takeWhile (\<lambda>c. \<not> is_ws c) ?z = []" by blast
  moreover have "takeWhile (\<lambda>c. \<not> is_ws c) (checksum @ ?z) = checksum @ takeWhile (\<lambda>c. \<not> is_ws c) ?z"
    using assms(2) by (intro takeWhile_append2) (auto simp: list_all_iff)
  ultimately show ?thesis unfolding first_word_def checksum_line_def trimmed by simp
qed

text \<open>A checksum file is read back as it was written: after a backup has written the hexadecimal digest of
  its dump, a verification of the file accepts exactly a content with that digest.\<close>

theorem checksum_roundtrip:
  assumes "checksum \<noteq> []" "list_all (\<lambda>c. \<not> is_ws c) checksum" "map_of (sw_files w) path = Some f"
  shows "fst (verifyChecksumFile E path (snd (writeChecksumFile M path checksum w))) = Inr c \<longleftrightarrow>
    c = checksum \<and> x_sha256 E (fl_text f) = checksum"
proof -
  have "path \<noteq> path @ ''.sha256''" by simp
  then show ?thesis
    using assms(3) first_word_line [OF assms(1,2), of path]
    by (auto simp: verifyChecksumFile_def writeChecksumFile_def write_file_def read_file_def sha256File_def run_simps update_conv)
qed

theorem checksum_roundtrip_witness:
  "fst (verifyChecksumFile demo_ext ''b'' (snd (writeChecksumFile demo_machine ''b'' ''data'' demo_backup))) = Inr ''data''"
proof -
  have "map_of (sw_files demo_backup) ''b'' = Some \<lparr>fl_text = ''data'', fl_mtime = 0\<rparr>" by (simp add: demo_backup_def)
  moreover have "list_all (\<lambda>c. \<not> is_ws c) ''data''" by (simp add: is_ws_def)
  ultimately show ?thesis
    using checksum_roundtrip [of "''data''" demo_backup "''b''" _ demo_ext demo_machine "''data''"] by (simp add: demo_ext_def)
qed

lemma temp_name_bound: "length (createTempDatabaseName seed) \<le> 63"
  by (simp add: createTempDatabaseName_def TEMP_PREFIX_def Let_def)

text \<open>The value of a flag ends at its second equals sign: a URL with a query loses what it asks for.\<close>

lemma flag_cut: "split_flag (''k='' @ v) = (''k'', Some (takeWhile (\<lambda>c. c \<noteq> CHR ''='') v))"
  by (simp add: split_flag_def Let_def)

lemma sslmode_lost:
  "sa_flags (parseArgs [''--target-database-url=postgres://u@db/csa?sslmode=require'']) ''target-database-url'' =
     Some ''postgres://u@db/csa?sslmode''"
  by code_simp

text \<open>Only the host decides whether a target looks like production.\<close>

lemma production_by_address:
  "mc_url M u = Some d \<Longrightarrow> url_protocol d = ''postgres:'' \<Longrightarrow> url_hostname d = ''10.0.0.5'' \<Longrightarrow> url_pathname d = ''/production'' \<Longrightarrow>
     isProductionLikeDatabase M u = Inr False"
  by (simp add: isProductionLikeDatabase_def parseDatabaseUrl_def Let_def starts_with_def to_lower_def lower_char_def)

end
