(* ===== verification/Inbound.thy ===== *)
theory Inbound
  imports Channels Lease
begin

text \<open>
  \<^verbatim>\<open>apps/api/src/channels/channels.service.ts\<close>, second part: a signed webhook is verified,
  parsed and applied in one transaction (a new message, or the callback of a delivery), and the
  run it created is handed to the support queue through the inbound dispatch table.
\<close>

section \<open>The inbound path inside the transaction\<close>

definition upsertExternalCustomer ::
  "ext \<Rightarrow> string \<Rightarrow> string \<Rightarrow> string option \<Rightarrow> string option \<Rightarrow> string option \<Rightarrow> string option \<Rightarrow>
   external_customer act" where
  "upsertExternalCustomer E orgId channelConnectionId externalCustomerId email normalizedEmail displayName =
     (let fresh = (\<lambda>i now. blank_external_customer\<lparr>cu_id := i, cu_createdAt := now,
            cu_organizationId := orgId, cu_channelConnectionId := channelConnectionId,
            cu_displayName := displayName\<rparr>)
      in if truthy externalCustomerId
         then upsert_row E externalCustomer_t
           (\<lambda>c. cu_organizationId c = orgId \<and> cu_channelConnectionId c = channelConnectionId \<and>
                cu_externalCustomerId c = externalCustomerId)
           (Some (\<lambda>c. c\<lparr>cu_email := nullish2 email (cu_email c), cu_normalizedEmail := normalizedEmail,
                cu_displayName := nullish2 displayName (cu_displayName c)\<rparr>))
           (\<lambda>i now. (fresh i now)\<lparr>cu_externalCustomerId := externalCustomerId, cu_email := email,
                cu_normalizedEmail := normalizedEmail\<rparr>)
         else if truthy normalizedEmail
         then upsert_row E externalCustomer_t
           (\<lambda>c. cu_organizationId c = orgId \<and> cu_channelConnectionId c = channelConnectionId \<and>
                cu_normalizedEmail c = normalizedEmail)
           (Some (\<lambda>c. c\<lparr>cu_email := nullish2 email (cu_email c),
                cu_displayName := nullish2 displayName (cu_displayName c)\<rparr>))
           (\<lambda>i now. (fresh i now)\<lparr>cu_email := email, cu_normalizedEmail := normalizedEmail\<rparr>)
         else create_row E externalCustomer_t fresh)"

text \<open>The loop over \<^verbatim>\<open>[inReplyTo, ...references].filter(Boolean)\<close>.\<close>

primrec find_referenced :: "string \<Rightarrow> string list \<Rightarrow> conversation option act" where
  "find_referenced channelConnectionId [] = ret_x None"
| "find_referenced channelConnectionId (providerMessageId # rest) =
     bind_x (find_first externalMessage_t (\<lambda>m. xm_channelConnectionId m = channelConnectionId \<and>
         xm_providerMessageId m = Some providerMessageId)) (\<lambda>message.
       case message of
         None \<Rightarrow> find_referenced channelConnectionId rest
       | Some m \<Rightarrow>
           bind_x (find_first conversation_t (\<lambda>c. cv_id c = xm_conversationId m)) (\<lambda>c.
           bind_x (require_x c missing_record) (\<lambda>conversation. ret_x (Some conversation))))"

definition createConversation ::
  "ext \<Rightarrow> string \<Rightarrow> string \<Rightarrow> string \<Rightarrow> string option \<Rightarrow> string option \<Rightarrow> conversation act" where
  "createConversation E orgId channelConnectionId customerId externalThreadId subject =
     create_row E conversation_t (\<lambda>i now. blank_conversation\<lparr>cv_id := i, cv_createdAt := now,
       cv_lastMessageAt := now, cv_organizationId := orgId,
       cv_channelConnectionId := channelConnectionId, cv_externalCustomerId := Some customerId,
       cv_externalThreadId := externalThreadId, cv_subject := subject\<rparr>)"

definition findOrCreateConversation ::
  "ext \<Rightarrow> string \<Rightarrow> string \<Rightarrow> string \<Rightarrow> string option \<Rightarrow> string option \<Rightarrow> string option \<Rightarrow> string list \<Rightarrow>
   string option \<Rightarrow> (conversation \<times> bool) act" where
  "findOrCreateConversation E orgId channelConnectionId customerId providerThreadId
     providerMessageId inReplyTo references subject =
     (if truthy providerThreadId
      then bind_x (find_first conversation_t (\<lambda>c. cv_organizationId c = orgId \<and>
             cv_channelConnectionId c = channelConnectionId \<and>
             cv_externalThreadId c = providerThreadId)) (\<lambda>existing.
        case existing of
          Some c \<Rightarrow> ret_x (c, False)
        | None \<Rightarrow> bind_x (createConversation E orgId channelConnectionId customerId providerThreadId subject)
            (\<lambda>created. ret_x (created, True)))
      else bind_x (find_referenced channelConnectionId
             (filter (\<lambda>r. r \<noteq> []) ((case inReplyTo of None \<Rightarrow> [] | Some r \<Rightarrow> [r]) @ references)))
        (\<lambda>referenced. case referenced of
          Some c \<Rightarrow> ret_x (c, False)
        | None \<Rightarrow> bind_x (createConversation E orgId channelConnectionId customerId
              (if truthy providerMessageId then Some (''message:'' @ the providerMessageId) else None)
              subject)
            (\<lambda>created. ret_x (created, True))))"

record run_data =
  rd_orgId :: string
  rd_runId :: string
  rd_ticketId :: string
  rd_subject :: string
  rd_body :: string
  rd_customerEmail :: string
  rd_correlationId :: "string option"
  rd_queuedAt :: int
  rd_dispatchId :: string

text \<open>The queue payload of a run, stored in the dispatch row and later handed to the queue.\<close>

definition run_payload ::
  "ext \<Rightarrow> string \<Rightarrow> string \<Rightarrow> string \<Rightarrow> string \<Rightarrow> string \<Rightarrow> string \<Rightarrow> string option \<Rightarrow> int \<Rightarrow> json" where
  "run_payload E orgId runId ticketId subject body customerEmail correlationId queuedAt =
     JObj [(''orgId'', JStr orgId), (''runId'', JStr runId), (''ticketId'', JStr ticketId),
       (''subject'', JStr subject), (''body'', JStr body), (''customerEmail'', JStr customerEmail),
       (''correlationId'', j_str correlationId), (''triggerType'', JStr ''TICKET_CREATED''),
       (''enqueuedAt'', JStr (x_iso E queuedAt))]"

definition createQueuedRun :: "ext \<Rightarrow> string \<Rightarrow> string \<Rightarrow> int \<Rightarrow> agent_run act" where
  "createQueuedRun E orgId ticketId queuedAt =
     bind_x correlation_x (\<lambda>correlationId.
       create_row E agentRun_t (\<lambda>i now. blank_agent_run\<lparr>run_id := i, run_createdAt := now,
         run_orgId := orgId, run_ticketId := ticketId, run_status := AgentRunStatus.QUEUED,
         run_trigger := AgentRunTrigger.TICKET_CREATED, run_correlationId := correlationId,
         run_queuedAt := queuedAt\<rparr>))"

definition upsertDispatch ::
  "ext \<Rightarrow> string \<Rightarrow> string \<Rightarrow> string \<Rightarrow> string \<Rightarrow> json \<Rightarrow> inbound_dispatch act" where
  "upsertDispatch E orgId ticketId runId webhookReceiptId payload =
     (let idempotencyKey = ''inbound-run:'' @ runId @ '':support:v1''
      in upsert_row E inboundDispatch_t (\<lambda>d. di_idempotencyKey d = idempotencyKey) None
           (\<lambda>i now. blank_inbound_dispatch\<lparr>di_id := i, di_createdAt := now, di_availableAt := now,
             di_organizationId := orgId, di_ticketId := ticketId, di_runId := runId,
             di_webhookReceiptId := Some webhookReceiptId, di_idempotencyKey := idempotencyKey,
             di_payload := payload\<rparr>))"

definition queued_event :: json where
  "queued_event = JObj [(''actorType'', JStr ''SYSTEM''), (''source'', JStr ''channel'')]"

definition ensure_existing_ticket ::
  "ext \<Rightarrow> string \<Rightarrow> string \<Rightarrow> string \<Rightarrow> string \<Rightarrow> string \<Rightarrow> string \<Rightarrow> int \<Rightarrow> run_data act" where
  "ensure_existing_ticket E orgId webhookReceiptId ticketId subject body customerEmail queuedAt =
     then_x (create_row E ticketMessage_t (\<lambda>i now. blank_ticket_message\<lparr>tm_id := i, tm_createdAt := now,
         tm_orgId := orgId, tm_ticketId := ticketId, tm_body := body,
         tm_direction := MessageDirection.INBOUND, tm_status := MessageStatus.RECEIVED\<rparr>))
     (then_x (update_row E ticket_t (\<lambda>t. tk_id t = ticketId) (\<lambda>t. t\<lparr>tk_status := TicketStatus.OPEN\<rparr>))
     (bind_x (createQueuedRun E orgId ticketId queuedAt) (\<lambda>run.
      then_x (ch_appendTimelineEvent E orgId ticketId AgentEventType.RUN_QUEUED queued_event (Some (run_id run)))
      (bind_x (upsertDispatch E orgId ticketId (run_id run) webhookReceiptId
         (run_payload E orgId (run_id run) ticketId subject body customerEmail
           (run_correlationId run) queuedAt)) (\<lambda>dispatch.
       ret_x \<lparr>rd_orgId = orgId, rd_runId = run_id run, rd_ticketId = ticketId, rd_subject = subject,
         rd_body = body, rd_customerEmail = customerEmail, rd_correlationId = run_correlationId run,
         rd_queuedAt = queuedAt, rd_dispatchId = di_id dispatch\<rparr>)))))"

definition ensure_new_ticket ::
  "ext \<Rightarrow> string \<Rightarrow> string \<Rightarrow> string \<Rightarrow> string \<Rightarrow> string \<Rightarrow> string \<Rightarrow> string option \<Rightarrow> int \<Rightarrow> run_data act" where
  "ensure_new_ticket E orgId conversationId webhookReceiptId subject body customerEmail customerName queuedAt =
     bind_x (create_row E ticket_t (\<lambda>i now. blank_ticket\<lparr>tk_id := i, tk_createdAt := now,
         tk_updatedAt := now, tk_orgId := orgId, tk_subject := sanitizeSubject E (Some subject),
         tk_status := TicketStatus.OPEN, tk_priority := TicketPriority.NORMAL,
         tk_customerEmail := customerEmail, tk_customerName := customerName\<rparr>)) (\<lambda>ticket.
     then_x (create_row E ticketMessage_t (\<lambda>i now. blank_ticket_message\<lparr>tm_id := i, tm_createdAt := now,
         tm_orgId := orgId, tm_ticketId := tk_id ticket, tm_direction := MessageDirection.INBOUND,
         tm_status := MessageStatus.RECEIVED, tm_body := body\<rparr>))
     (bind_x (createQueuedRun E orgId (tk_id ticket) queuedAt) (\<lambda>run.
      then_x (update_row E conversation_t (\<lambda>c. cv_id c = conversationId)
         (\<lambda>c. c\<lparr>cv_ticketId := Some (tk_id ticket)\<rparr>))
      (then_x (ch_appendTimelineEvent E orgId (tk_id ticket) AgentEventType.RUN_QUEUED queued_event
         (Some (run_id run)))
      (bind_x (upsertDispatch E orgId (tk_id ticket) (run_id run) webhookReceiptId
         (run_payload E orgId (run_id run) (tk_id ticket) (tk_subject ticket) body customerEmail
           (run_correlationId run) queuedAt)) (\<lambda>dispatch.
       ret_x \<lparr>rd_orgId = orgId, rd_runId = run_id run, rd_ticketId = tk_id ticket,
         rd_subject = tk_subject ticket, rd_body = body, rd_customerEmail = customerEmail,
         rd_correlationId = run_correlationId run, rd_queuedAt = queuedAt,
         rd_dispatchId = di_id dispatch\<rparr>))))))"

definition ensureTicketAndRun ::
  "ext \<Rightarrow> string \<Rightarrow> string \<Rightarrow> string \<Rightarrow> string option \<Rightarrow> string \<Rightarrow> string \<Rightarrow> string \<Rightarrow> string option \<Rightarrow>
   run_data act" where
  "ensureTicketAndRun E orgId conversationId webhookReceiptId ticketId subject body customerEmail customerName =
     bind_x (now_x E) (\<lambda>queuedAt.
       if truthy ticketId
       then ensure_existing_ticket E orgId webhookReceiptId (the ticketId) subject body customerEmail queuedAt
       else ensure_new_ticket E orgId conversationId webhookReceiptId subject body customerEmail
         customerName queuedAt)"

datatype webhook_response =
    Accepted string string string string
  | IgnoredUnknown
  | IgnoredTerminal string OutboundMessageStatus
  | CallbackApplied string OutboundMessageStatus
  | DuplicateEvent string

definition recordAttachment ::
  "ext \<Rightarrow> string \<Rightarrow> string \<Rightarrow> string \<Rightarrow> parsed_attachment \<Rightarrow> unit act" where
  "recordAttachment E orgId externalMessageId ticketId attachment =
     then_x (create_row E messageAttachment_t (\<lambda>i now. blank_message_attachment\<lparr>at_id := i,
         at_createdAt := now, at_organizationId := orgId, at_externalMessageId := externalMessageId,
         at_providerAttachmentId := pa_providerAttachmentId attachment,
         at_filename := pa_filename attachment, at_mimeType := pa_mimeType attachment,
         at_sizeBytes := pa_sizeBytes attachment,
         at_contentDisposition := pa_contentDisposition attachment,
         at_contentId := pa_contentId attachment, at_checksum := pa_checksum attachment,
         at_metadata := Some (nullish (pa_metadata attachment) (JObj [(''metadataOnly'', JBool True)]))\<rparr>))
       (ch_appendTimelineEvent E orgId ticketId AgentEventType.CHANNEL_ATTACHMENT_RECORDED
         (JObj [(''externalMessageId'', JStr externalMessageId), (''filename'', JStr (pa_filename attachment)),
           (''mimeType'', JStr (pa_mimeType attachment)), (''sizeBytes'', j_int (pa_sizeBytes attachment)),
           (''status'', JStr ''METADATA_ONLY'')]) None)"

definition storeInboundMessage ::
  "ext \<Rightarrow> string \<Rightarrow> string \<Rightarrow> string \<Rightarrow> parsed_inbound \<Rightarrow> external_message act" where
  "storeInboundMessage E orgId conversationId channelConnectionId event =
     bind_x (require_x (pi_receivedAt event) invalid_value) (\<lambda>receivedAt.
       create_row E externalMessage_t (\<lambda>i now. blank_external_message\<lparr>xm_id := i, xm_createdAt := now,
         xm_organizationId := orgId, xm_conversationId := conversationId,
         xm_channelConnectionId := channelConnectionId,
         xm_providerMessageId := pi_providerMessageId event,
         xm_providerEventId := Some (pi_providerEventId event),
         xm_direction := ExternalMessageDirection.INBOUND, xm_sender := j_address (pi_from event),
         xm_recipients := JArr (map j_address (pi_recipients event)), xm_subject := pi_subject event,
         xm_textBody := pi_textBody event, xm_htmlBody := pi_htmlBody event,
         xm_sanitizedHtmlBody := sanitizeHtml E (pi_htmlBody event), xm_inReplyTo := pi_inReplyTo event,
         xm_references := Some (JArr (map JStr (nullish (pi_references event) []))),
         xm_receivedAt := Some receivedAt,
         xm_metadata := Some (nullish (pi_metadata event) (JObj []))\<rparr>))"

text \<open>The rows settled once the message is stored: conversation, connection, receipt.\<close>

definition settleInbound ::
  "ext \<Rightarrow> string \<Rightarrow> string \<Rightarrow> string \<Rightarrow> string \<Rightarrow> string \<Rightarrow> parsed_inbound \<Rightarrow> unit act" where
  "settleInbound E connectionId receiptId conversationId customerId ticketId event =
     bind_x (require_x (pi_receivedAt event) invalid_value) (\<lambda>receivedAt.
     then_x (update_row E conversation_t (\<lambda>c. cv_id c = conversationId) (\<lambda>c. c\<lparr>
         cv_ticketId := Some ticketId, cv_externalCustomerId := Some customerId,
         cv_lastMessageAt := receivedAt, cv_status := ConversationStatus.OPEN\<rparr>))
     (bind_x (now_x E) (\<lambda>done_at.
      then_x (update_row E channelConnection_t (\<lambda>c. cc_id c = connectionId) (\<lambda>c. c\<lparr>
         cc_status := ChannelConnectionStatus.ACTIVE, cc_lastSuccessfulEventAt := Some done_at,
         cc_lastErrorAt := None, cc_lastErrorCode := None, cc_lastErrorRedacted := None\<rparr>))
     (bind_x (now_x E) (\<lambda>processedAt.
      then_x (update_row E webhookReceipt_t (\<lambda>r. wr_id r = receiptId) (\<lambda>r. r\<lparr>
         wr_status := WebhookReceiptStatus.PROCESSED, wr_processedAt := Some processedAt\<rparr>))
       (ret_x ()))))))"

definition inboundTimeline ::
  "ext \<Rightarrow> string \<Rightarrow> ChannelProvider \<Rightarrow> string \<Rightarrow> string \<Rightarrow> string option \<Rightarrow> conversation \<times> bool \<Rightarrow>
   string \<Rightarrow> bool \<Rightarrow> run_data \<Rightarrow> parsed_inbound \<Rightarrow> unit act" where
  "inboundTimeline E orgId provider receiptId customerId normalizedEmail conversation
     externalMessageId isNewTicket runData event =
     (let append = (\<lambda>ty payload. ch_appendTimelineEvent E orgId (rd_ticketId runData) ty payload
                      (Some (rd_runId runData)));
          label = [name_of_ChannelProvider provider]
      in then_x (append AgentEventType.CHANNEL_WEBHOOK_RECEIVED (JObj [(''receiptId'', JStr receiptId),
           (''providerEventId'', JStr (pi_providerEventId event)), (''provider'', j_provider provider)]))
         (then_x (append AgentEventType.CHANNEL_CUSTOMER_MATCHED (JObj [
           (''externalCustomerId'', JStr customerId), (''normalizedEmail'', j_str normalizedEmail)]))
         (then_x (when_x (snd conversation)
           (then_x (metric_x ''incrementChannelConversationCreated'' label)
             (append AgentEventType.CHANNEL_CONVERSATION_CREATED (JObj [
               (''conversationId'', JStr (cv_id (fst conversation))),
               (''externalThreadId'', j_str (cv_externalThreadId (fst conversation)))]))))
         (then_x (append AgentEventType.CHANNEL_MESSAGE_RECEIVED (JObj
           ((''externalMessageId'', JStr externalMessageId) #
            j_field ''providerMessageId'' (map_option JStr (pi_providerMessageId event)))))
         (then_x (metric_x ''incrementChannelInboundMessage'' label)
           (when_x isNewTicket
             (then_x (metric_x ''incrementChannelTicketCreated'' label)
               (append AgentEventType.CHANNEL_TICKET_CREATED (JObj [
                 (''conversationId'', JStr (cv_id (fst conversation)))])))))))))"

definition processInboundMessage ::
  "ext \<Rightarrow> channel_connection \<Rightarrow> string \<Rightarrow> parsed_inbound \<Rightarrow> (webhook_response \<times> string option) act" where
  "processInboundMessage E connection receiptId event =
     (let orgId = cc_organizationId connection;
          normalizedEmail = normalizeEmail (ad_email (pi_from event))
      in bind_x (upsertExternalCustomer E orgId (cc_id connection) (ad_externalId (pi_from event))
           (ad_email (pi_from event)) normalizedEmail (ad_name (pi_from event))) (\<lambda>customer.
         bind_x (findOrCreateConversation E orgId (cc_id connection) (cu_id customer)
           (pi_providerThreadId event) (pi_providerMessageId event) (pi_inReplyTo event)
           (nullish (pi_references event) []) (pi_subject event)) (\<lambda>conversation.
         let body = nullish (nullish2 (pi_textBody event) (sanitizeHtml E (pi_htmlBody event))) ''(empty message)'';
             isNewTicket = (\<not> truthy (cv_ticketId (fst conversation)))
         in bind_x (ensureTicketAndRun E orgId (cv_id (fst conversation)) receiptId
           (cv_ticketId (fst conversation)) (nullish (pi_subject event) ''(no subject)'') body
           (nullish (nullish2 normalizedEmail (ad_email (pi_from event))) ''unknown@example.invalid'')
           (ad_name (pi_from event))) (\<lambda>runData.
         bind_x (storeInboundMessage E orgId (cv_id (fst conversation)) (cc_id connection) event)
           (\<lambda>externalMessage.
         then_x (for_x (pi_attachments event)
           (recordAttachment E orgId (xm_id externalMessage) (rd_ticketId runData)))
         (then_x (settleInbound E (cc_id connection) receiptId (cv_id (fst conversation))
           (cu_id customer) (rd_ticketId runData) event)
         (then_x (inboundTimeline E orgId (cc_provider connection) receiptId (cu_id customer)
           normalizedEmail conversation (xm_id externalMessage) isNewTicket runData event)
           (ret_x (Accepted receiptId (rd_ticketId runData) (cv_id (fst conversation))
             (xm_id externalMessage), Some (rd_dispatchId runData)))))))))) "

section \<open>Delivery callbacks\<close>

definition finish_receipt :: "ext \<Rightarrow> string \<Rightarrow> json option \<Rightarrow> unit act" where
  "finish_receipt E receiptId metadata =
     bind_x (now_x E) (\<lambda>done_at.
     then_x (update_row E webhookReceipt_t (\<lambda>r. wr_id r = receiptId) (\<lambda>r. r\<lparr>
         wr_status := WebhookReceiptStatus.PROCESSED, wr_processedAt := Some done_at,
         wr_metadata := nullish2 metadata (wr_metadata r)\<rparr>))
       (ret_x ()))"

definition callback_failed :: "string \<Rightarrow> bool" where
  "callback_failed status \<longleftrightarrow> status \<in> {''bounced'', ''rejected'', ''failed''}"

definition callback_status :: "string \<Rightarrow> OutboundMessageStatus" where
  "callback_status status =
     (if status = ''delivered'' then OutboundMessageStatus.DELIVERED
      else if callback_failed status then OutboundMessageStatus.FAILED
      else OutboundMessageStatus.SENT)"

text \<open>A callback that changes nothing: the message is delivered, or already in that state.\<close>

definition callback_ignored :: "OutboundMessageStatus \<Rightarrow> OutboundMessageStatus \<Rightarrow> bool" where
  "callback_ignored current next \<longleftrightarrow>
     current = OutboundMessageStatus.DELIVERED \<or>
     (current = OutboundMessageStatus.SENT \<and> next = OutboundMessageStatus.SENT)"

definition apply_callback :: "string \<Rightarrow> int option \<Rightarrow> outbound_message \<Rightarrow> outbound_message" where
  "apply_callback status occurredAt m =
     m\<lparr>om_status := callback_status status,
       om_deliveredAt := (if status = ''delivered'' then occurredAt else om_deliveredAt m),
       om_failedAt := (if callback_failed status then occurredAt else om_failedAt m),
       om_lastErrorCode := (if callback_failed status then Some (to_upper status) else None),
       om_lastErrorRedacted := (if callback_failed status
         then Some (''Provider callback: '' @ status) else None)\<rparr>"

definition processDeliveryCallback ::
  "ext \<Rightarrow> channel_connection \<Rightarrow> string \<Rightarrow> parsed_callback \<Rightarrow> (webhook_response \<times> string option) act" where
  "processDeliveryCallback E connection receiptId callback =
     bind_x (find_first outboundMessage_t (\<lambda>m. om_channelConnectionId m = cc_id connection \<and>
         om_providerMessageId m = Some (pc_providerMessageId callback))) (\<lambda>found.
     case found of
       None \<Rightarrow>
         then_x (finish_receipt E receiptId
           (Some (JObj [(''unknownProviderMessageId'', JStr (pc_providerMessageId callback))])))
           (ret_x (IgnoredUnknown, None))
     | Some outbound \<Rightarrow>
         (let status = pc_status callback;
              delivered = (status = ''delivered'');
              failed = callback_failed status;
              nextStatus = callback_status status
          in if callback_ignored (om_status outbound) nextStatus
             then then_x (finish_receipt E receiptId (Some (JObj [
                 (''ignoredCallbackStatus'', JStr status),
                 (''currentOutboundStatus'', JStr (name_of_OutboundMessageStatus (om_status outbound)))])))
               (ret_x (IgnoredTerminal (om_id outbound) (om_status outbound), None))
             else
               then_x (when_x ((delivered \<or> failed) \<and> pc_occurredAt callback = None) (throw_x invalid_value))
               (then_x (update_row E outboundMessage_t (\<lambda>m. om_id m = om_id outbound)
                 (apply_callback status (pc_occurredAt callback)))
               (then_x (finish_receipt E receiptId None)
               (then_x (ch_appendTimelineEvent E (cc_organizationId connection) (om_ticketId outbound)
                 (if delivered then AgentEventType.CHANNEL_MESSAGE_DELIVERED
                  else if failed then AgentEventType.CHANNEL_MESSAGE_FAILED
                  else AgentEventType.CHANNEL_MESSAGE_SENT)
                 (JObj [(''outboundMessageId'', JStr (om_id outbound)),
                   (''providerMessageId'', JStr (pc_providerMessageId callback)),
                   (''status'', JStr status)]) None)
                 (ret_x (CallbackApplied (om_id outbound) nextStatus, None)))))))"

section \<open>Handing runs to the support queue\<close>

text \<open>The dispatches that are due: waiting and available, or claimed with an expired lease.\<close>

definition dispatch_due :: "int \<Rightarrow> inbound_dispatch \<Rightarrow> bool" where
  "dispatch_due now d \<longleftrightarrow>
     (di_status d \<in> {InboundDispatchStatus.PENDING, InboundDispatchStatus.FAILED} \<and> di_availableAt d \<le> now) \<or>
     (di_status d = InboundDispatchStatus.PROCESSING \<and>
      (case di_lockExpiresAt d of None \<Rightarrow> False | Some t \<Rightarrow> t < now))"

definition claim_dispatch :: "int \<Rightarrow> string \<Rightarrow> int \<Rightarrow> inbound_dispatch \<Rightarrow> inbound_dispatch" where
  "claim_dispatch now lockOwner lockExpiresAt d =
     d\<lparr>di_status := InboundDispatchStatus.PROCESSING, di_claimedAt := Some now,
       di_lockOwner := Some lockOwner, di_lockExpiresAt := Some lockExpiresAt,
       di_attemptCount := di_attemptCount d + 1, di_lastErrorCode := None,
       di_lastErrorRedacted := None\<rparr>"

definition complete_dispatch :: "int \<Rightarrow> string \<Rightarrow> inbound_dispatch \<Rightarrow> inbound_dispatch" where
  "complete_dispatch completedAt jobId d =
     d\<lparr>di_status := InboundDispatchStatus.COMPLETED, di_completedAt := Some completedAt,
       di_lockOwner := None, di_lockExpiresAt := None, di_jobId := Some jobId,
       di_lastErrorCode := None, di_lastErrorRedacted := None\<rparr>"

definition requeue_dispatch :: "int \<Rightarrow> string \<Rightarrow> inbound_dispatch \<Rightarrow> inbound_dispatch" where
  "requeue_dispatch availableAt message d =
     d\<lparr>di_status := InboundDispatchStatus.PENDING, di_availableAt := availableAt,
       di_lockOwner := None, di_lockExpiresAt := None,
       di_lastErrorCode := Some ''QUEUE_ENQUEUE_FAILED'', di_lastErrorRedacted := Some message\<rparr>"

record dispatch_result =
  dp_id :: string
  dp_status :: InboundDispatchStatus
  dp_jobId :: "string option"
  dp_errorCode :: "string option"

definition support_call :: "json \<Rightarrow> string \<Rightarrow> queue_call" where
  "support_call payload runId = \<lparr>qc_queue = SUPPORT_QUEUE_NAME, qc_name = ''ticket.process'',
     qc_payload = payload, qc_jobId = Some (''support-'' @ runId), qc_delay = None\<rparr>"

definition enqueue_claimed :: "ext \<Rightarrow> inbound_dispatch \<Rightarrow> dispatch_result list act" where
  "enqueue_claimed E current =
     catch_x
       (bind_x (queue_add E (support_call (di_payload current) (di_runId current))) (\<lambda>jobId.
        bind_x (now_x E) (\<lambda>completedAt.
        then_x (update_row E inboundDispatch_t (\<lambda>d. di_id d = di_id current)
            (complete_dispatch completedAt jobId))
          (ret_x [\<lparr>dp_id = di_id current, dp_status = InboundDispatchStatus.COMPLETED,
             dp_jobId = Some jobId, dp_errorCode = None\<rparr>]))))
       (\<lambda>err.
        bind_x (now_x E) (\<lambda>now'.
        bind_x (require_x (INBOUND_DISPATCH_RETRY_DELAY_MS E) invalid_value) (\<lambda>delay.
        then_x (update_row E inboundDispatch_t (\<lambda>d. di_id d = di_id current)
            (requeue_dispatch (now' + delay) (redactedMessage err)))
          (ret_x [\<lparr>dp_id = di_id current, dp_status = InboundDispatchStatus.PENDING,
             dp_jobId = None, dp_errorCode = Some ''QUEUE_ENQUEUE_FAILED''\<rparr>]))))"

definition claim_inbound :: "ext \<Rightarrow> int \<Rightarrow> string \<Rightarrow> int \<Rightarrow> string \<Rightarrow> nat act" where
  "claim_inbound E now lockOwner lockExpiresAt dispatchId =
     update_many E inboundDispatch_t (\<lambda>d. di_id d = dispatchId \<and> dispatch_due now d)
       (claim_dispatch now lockOwner lockExpiresAt)"

definition dispatch_one :: "ext \<Rightarrow> int \<Rightarrow> inbound_dispatch \<Rightarrow> dispatch_result list act" where
  "dispatch_one E now dispatch =
     bind_x (now_x E) (\<lambda>at'.
     let lockOwner = ''api:'' @ x_pid E @ '':'' @ show_int at' @ '':'' @ di_id dispatch
     in bind_x (require_x (INBOUND_DISPATCH_LEASE_MS E) invalid_value) (\<lambda>lease.
        bind_x (claim_inbound E now lockOwner (now + lease) (di_id dispatch)) (\<lambda>claimed.
        if claimed \<noteq> 1 then ret_x []
        else bind_x (find_first inboundDispatch_t (\<lambda>d. di_id d = di_id dispatch)) (\<lambda>current.
          case current of None \<Rightarrow> ret_x [] | Some c \<Rightarrow> enqueue_claimed E c))))"

definition dispatchPendingInbound :: "ext \<Rightarrow> nat \<Rightarrow> dispatch_result list act" where
  "dispatchPendingInbound E limit =
     bind_x (now_x E) (\<lambda>now.
     bind_x (find_many inboundDispatch_t (dispatch_due now)) (\<lambda>due.
       collect_x (take limit (order_asc di_availableAt (order_asc di_createdAt due)))
         (dispatch_one E now)))"

text \<open>The direct hand-over; no method calls it any more.\<close>

definition enqueueSupportRun :: "ext \<Rightarrow> run_data \<Rightarrow> unit act" where
  "enqueueSupportRun E run =
     bind_x (queue_add E (support_call (run_payload E (rd_orgId run) (rd_runId run) (rd_ticketId run)
         (rd_subject run) (rd_body run) (rd_customerEmail run) (rd_correlationId run)
         (rd_queuedAt run)) (rd_runId run))) (\<lambda>_. ret_x ())"

section \<open>The webhook\<close>

definition new_receipt ::
  "channel_connection \<Rightarrow> string \<Rightarrow> string \<Rightarrow> string \<Rightarrow> string option \<Rightarrow> string \<Rightarrow> int \<Rightarrow> webhook_receipt" where
  "new_receipt connection providerEventId eventType payloadHash correlationId i now =
     blank_webhook_receipt\<lparr>wr_id := i, wr_receivedAt := now,
       wr_organizationId := cc_organizationId connection, wr_channelConnectionId := cc_id connection,
       wr_provider := cc_provider connection, wr_providerEventId := providerEventId,
       wr_eventType := eventType, wr_payloadHash := payloadHash, wr_correlationId := correlationId\<rparr>"

definition recordRejectedVerifiedReceipt ::
  "ext \<Rightarrow> channel_connection \<Rightarrow> string \<Rightarrow> string \<Rightarrow> string \<Rightarrow> string \<Rightarrow> string \<Rightarrow> string option \<Rightarrow> unit act" where
  "recordRejectedVerifiedReceipt E connection providerEventId eventType payloadHash failureCode
     failureMessageRedacted correlationId =
     ignore_x (create_row E webhookReceipt_t (\<lambda>i now.
       (new_receipt connection providerEventId eventType payloadHash correlationId i now)\<lparr>
         wr_signatureVerified := True, wr_status := WebhookReceiptStatus.REJECTED,
         wr_failureCode := Some failureCode,
         wr_failureMessageRedacted := Some failureMessageRedacted\<rparr>))"

definition event_id_of :: "ParsedChannelEvent \<Rightarrow> string" where
  "event_id_of parsed = (case parsed of inbound ev \<Rightarrow> pi_providerEventId ev
     | delivery_callback c \<Rightarrow> pc_providerEventId c)"

definition event_type_of :: "ParsedChannelEvent \<Rightarrow> string" where
  "event_type_of parsed = (case parsed of inbound ev \<Rightarrow> pi_eventType ev
     | delivery_callback c \<Rightarrow> pc_eventType c)"

text \<open>The unverified webhook: counted, recorded if it can be, refused.\<close>

definition refuse_unverified ::
  "ext \<Rightarrow> channel_connection \<Rightarrow> verified_webhook \<Rightarrow> string \<Rightarrow> string option \<Rightarrow> 'a act" where
  "refuse_unverified E connection verified payloadHash correlationId =
     then_x (metric_x ''incrementChannelSignatureFailure'' [name_of_ChannelProvider (cc_provider connection)])
     (then_x (ignore_x (create_row E webhookReceipt_t (\<lambda>i now.
       (new_receipt connection
          (nullish (vw_providerEventId verified) (''unverified:'' @ take 32 payloadHash))
          (nullish (vw_eventType verified) ''unknown'') payloadHash correlationId i now)\<lparr>
         wr_signatureVerified := False, wr_status := WebhookReceiptStatus.REJECTED,
         wr_failureCode := Some (nullish (vw_failureCode verified) ''INVALID_SIGNATURE''),
         wr_failureMessageRedacted := Some (nullish (vw_failureMessage verified) ''Invalid signature'')\<rparr>)))
       (throw_x (forbidden ''Invalid webhook signature'')))"

text \<open>The transaction: the receipt first (its uniqueness is the deduplication), then the event.\<close>

definition webhook_transaction ::
  "ext \<Rightarrow> channel_connection \<Rightarrow> ParsedChannelEvent \<Rightarrow> string \<Rightarrow> string option \<Rightarrow>
   (webhook_response \<times> string option) act" where
  "webhook_transaction E connection parsed payloadHash correlationId =
     transaction
       (bind_x (create_row E webhookReceipt_t (\<lambda>i now.
          (new_receipt connection (event_id_of parsed) (event_type_of parsed) payloadHash
             correlationId i now)\<lparr>wr_signatureVerified := True,
             wr_status := WebhookReceiptStatus.PROCESSING\<rparr>)) (\<lambda>receipt.
        case parsed of
          delivery_callback c \<Rightarrow> processDeliveryCallback E connection (wr_id receipt) c
        | inbound ev \<Rightarrow> processInboundMessage E connection (wr_id receipt) ev))"

definition mark_duplicate :: "ext \<Rightarrow> channel_connection \<Rightarrow> ParsedChannelEvent \<Rightarrow> webhook_response act" where
  "mark_duplicate E connection parsed =
     (let provider = name_of_ChannelProvider (cc_provider connection)
      in then_x (update_many E webhookReceipt_t (\<lambda>r. wr_channelConnectionId r = cc_id connection \<and>
             wr_providerEventId r = event_id_of parsed) (\<lambda>r. r\<lparr>
             wr_status := WebhookReceiptStatus.DUPLICATE, wr_retryCount := wr_retryCount r + 1\<rparr>))
         (then_x (metric_x ''incrementChannelDuplicateWebhook'' [provider])
         (then_x (metric_x ''incrementChannelWebhook'' [provider, event_type_of parsed, ''duplicate''])
           (ret_x (DuplicateEvent (event_id_of parsed))))))"

definition mark_connection_error :: "ext \<Rightarrow> channel_connection \<Rightarrow> js_error \<Rightarrow> unit act" where
  "mark_connection_error E connection err =
     bind_x (now_x E) (\<lambda>now'.
       ignore_x (update_row E channelConnection_t (\<lambda>c. cc_id c = cc_id connection) (\<lambda>c. c\<lparr>
         cc_status := ChannelConnectionStatus.ERROR, cc_lastErrorAt := Some now',
         cc_lastErrorCode := Some ''WEBHOOK_PROCESSING_FAILED'',
         cc_lastErrorRedacted := Some (redactedMessage err)\<rparr>)))"

definition ingest_parsed ::
  "ext \<Rightarrow> channel_connection \<Rightarrow> ParsedChannelEvent \<Rightarrow> string \<Rightarrow> string option \<Rightarrow> webhook_response act" where
  "ingest_parsed E connection parsed payloadHash correlationId =
     catch_x
       (bind_x (webhook_transaction E connection parsed payloadHash correlationId) (\<lambda>result.
        then_x (when_x (truthy (snd result))
            (bind_x (dispatchPendingInbound E 25) (\<lambda>_. ret_x ())))
        (then_x (metric_x ''incrementChannelWebhook''
            [name_of_ChannelProvider (cc_provider connection), event_type_of parsed, ''success''])
          (ret_x (fst result)))))
       (\<lambda>err. if isUniqueConstraint err then mark_duplicate E connection parsed
              else then_x (mark_connection_error E connection err) (throw_x err))"

definition payload_too_large :: "ext \<Rightarrow> json \<Rightarrow> string option \<Rightarrow> bool" where
  "payload_too_large E payload rawBody =
     (let payloadBytes = (case rawBody of Some b \<Rightarrow> int (length b)
            | None \<Rightarrow> int (length (utf8 (stableStringify (x_num E) payload))))
      in case MAX_WEBHOOK_BYTES E of None \<Rightarrow> False | Some m \<Rightarrow> payloadBytes > m)"

definition ingestWebhook ::
  "ext \<Rightarrow> string \<Rightarrow> json \<Rightarrow> string option \<Rightarrow> string option \<Rightarrow> webhook_response act" where
  "ingestWebhook E publicId payload signature rawBody =
     (if payload_too_large E payload rawBody then throw_x (bad_request ''Webhook payload too large'')
      else
        bind_x (find_first channelConnection_t (\<lambda>c. cc_publicId c = publicId)) (\<lambda>found.
        bind_x (require_x found (not_found ''Channel connection not found'')) (\<lambda>connection.
        then_x (getProvider (cc_provider connection))
        (bind_x (verifyWebhook E payload rawBody signature
            (cc_webhookSigningSecretReference connection)) (\<lambda>verified.
         let payloadHash = x_sha256 E (nullish rawBody (utf8 (stableStringify (x_num E) payload)))
         in bind_x correlation_x (\<lambda>correlationId.
            if \<not> vw_verified verified
            then refuse_unverified E connection verified payloadHash correlationId
            else
              bind_x (catch_x (parseEvent E payload) (\<lambda>err.
                then_x (recordRejectedVerifiedReceipt E connection
                    (nullish (vw_providerEventId verified) (''unverified:'' @ take 32 payloadHash))
                    (nullish (vw_eventType verified) ''malformed'') payloadHash ''MALFORMED_PAYLOAD''
                    (redactedMessage err) correlationId)
                  (throw_x (bad_request ''Malformed webhook payload'')))) (\<lambda>parsed.
              ingest_parsed E connection parsed payloadHash correlationId)))))))"

section \<open>Claiming a dispatch\<close>

interpretation inbound_lease: lease inboundDispatch_t dispatch_due
    "\<lambda>i s. claim_inbound E (fst s) (fst (snd s)) (snd (snd s)) i" fst "\<lambda>s. snd (snd s)"
    "\<lambda>now s. claim_dispatch (fst s) (fst (snd s)) (snd (snd s))" for E
proof
  show "\<not> dispatch_due later (claim_dispatch (fst s) (fst (snd s)) (snd (snd s)) r)" if "later \<le> snd (snd s)" for later r
    and s :: "int \<times> string \<times> int"
    using that by (simp add: claim_dispatch_def dispatch_due_def)
qed (simp_all add: claim_inbound_def run_simps replace_rows_def inboundDispatch_t_def, simp add: claim_dispatch_def)

text \<open>C7: Of all claims of one inbound dispatch made within the lease that each would get, at most one
  succeeds, so a run is not handed to the queue twice by dispatchers that run at the same time.\<close>

theorem dispatch_claim_exclusive:
  assumes "no_clash inboundDispatch_t (db w)"
    and "\<forall>s \<in> set ss. fst s \<le> until \<and> until \<le> snd (snd s)"
  shows "sum_list (claim_counts (map (\<lambda>s. claim_inbound E (fst s) (fst (snd s)) (snd (snd s)) i) ss) w) \<le> 1"
  by (rule inbound_lease.exclusive [OF inboundDispatch_tb.unique_ids [OF assms(1)] assms(2)])

section \<open>Webhooks\<close>

lemma ingest_verified:
  assumes "\<not> payload_too_large E payload rawBody"
    and "first_where (\<lambda>c. cc_publicId c = publicId) (channelConnections (db w)) = Some connection"
    and "cc_provider connection = ChannelProvider.MOCK_EMAIL"
    and "verifyWebhook E payload rawBody signature (cc_webhookSigningSecretReference connection) w = (Inr v, w)"
    and "vw_verified v" "parseEvent E payload w = (Inr parsed, w')"
  shows "ingestWebhook E publicId payload signature rawBody w =
      ingest_parsed E connection parsed (x_sha256 E (nullish rawBody (utf8 (stableStringify (x_num E) payload))))
        (co_correlationId (ctx w)) w'"
  using assms by (simp add: ingestWebhook_def getProvider_def run_simps channelConnection_t_def Let_def)

lemma parseEvent_frame: "db (snd (parseEvent E payload w)) = db w" 
  by (auto simp: parseEvent_def parse_callback_def parse_inbound_def occurred_at_def run_simps Let_def split: option.split)

lemma mark_duplicate_run:
  "\<exists>n. fst (mark_duplicate E connection parsed w) = Inr (DuplicateEvent (event_id_of parsed)) \<and>
   db (snd (mark_duplicate E connection parsed w)) = (db w)\<lparr>webhookReceipts := update_where
       (\<lambda>r. wr_channelConnectionId r = cc_id connection \<and> wr_providerEventId r = event_id_of parsed)
       (\<lambda>r. r\<lparr>wr_status := WebhookReceiptStatus.DUPLICATE, wr_retryCount := wr_retryCount r + 1\<rparr>)
       (webhookReceipts (db w))\<rparr> \<and> qlog (snd (mark_duplicate E connection parsed w)) = qlog w"
  by (simp add: mark_duplicate_def run_simps replace_rows_def webhookReceipt_t_def Let_def)

lemma unique_tx_duplicate:
  assumes "fst (webhook_transaction E connection parsed h c w) = Inl unique_violation"
  shows "ingest_parsed E connection parsed h c w =
     mark_duplicate E connection parsed (snd (webhook_transaction E connection parsed h c w)) \<and>
     db (snd (webhook_transaction E connection parsed h c w)) = db w"
  using assms
  by (auto simp: ingest_parsed_def run_simps isUniqueConstraint_def error_defs webhook_transaction_def split: sum.splits)

lemma receipt_clash:
  assumes "r \<in> set (webhookReceipts (db w))" "wr_channelConnectionId r = cc_id connection"
    "wr_providerEventId r = event_id_of parsed"
  shows "fst (webhook_transaction E connection parsed h c w) = Inl unique_violation"
proof -
  have "list_ex (webhookReceipt_clash x) (webhookReceipts (db w))"
    if "wr_channelConnectionId x = cc_id connection" "wr_providerEventId x = event_id_of parsed" for x
    using assms that unfolding list_ex_iff by (intro bexI [of _ r]) (simp_all add: webhookReceipt_clash_def)
  then show ?thesis
    by (simp add: webhook_transaction_def run_simps insert_row_def webhookReceipt_t_def new_receipt_def)
qed

text \<open>C11: A verified event whose id is already on record for the connection is acknowledged as a
  duplicate, and all it changes in the database is the status and retry count of that receipt: no
  ticket, message, run or dispatch is created a second time.\<close>

theorem duplicate_webhook:
  assumes "\<not> payload_too_large E payload rawBody"
    and "first_where (\<lambda>c. cc_publicId c = publicId) (channelConnections (db w)) = Some connection"
    and "cc_provider connection = ChannelProvider.MOCK_EMAIL"
    and "verifyWebhook E payload rawBody signature (cc_webhookSigningSecretReference connection) w = (Inr v, w)"
    and "vw_verified v" "fst (parseEvent E payload w) = Inr parsed"
    and "r \<in> set (webhookReceipts (db w))" "wr_channelConnectionId r = cc_id connection"
    and "wr_providerEventId r = event_id_of parsed"
  shows "fst (ingestWebhook E publicId payload signature rawBody w) = Inr (DuplicateEvent (event_id_of parsed)) \<and>
    db (snd (ingestWebhook E publicId payload signature rawBody w)) = (db w)\<lparr>webhookReceipts := update_where
       (\<lambda>r. wr_channelConnectionId r = cc_id connection \<and> wr_providerEventId r = event_id_of parsed)
       (\<lambda>r. r\<lparr>wr_status := WebhookReceiptStatus.DUPLICATE, wr_retryCount := wr_retryCount r + 1\<rparr>)
       (webhookReceipts (db w))\<rparr>"
proof -
  let ?w = "snd (parseEvent E payload w)"
  let ?h = "x_sha256 E (nullish rawBody (utf8 (stableStringify (x_num E) payload)))"
  have p: "parseEvent E payload w = (Inr parsed, ?w)" using assms(6) by (cases "parseEvent E payload w") simp
  have r: "r \<in> set (webhookReceipts (db ?w))" using assms(7) by (simp add: parseEvent_frame)
  note tx = unique_tx_duplicate [OF receipt_clash [OF r assms(8,9), of E ?h "co_correlationId (ctx w)"]]
  show ?thesis
    unfolding ingest_verified [OF assms(1-5) p] conjunct1 [OF tx]
    using mark_duplicate_run [of E connection parsed] conjunct2 [OF tx] parseEvent_frame [of E payload w]
    by auto
qed

text \<open>C17: A new event is lost when its sender has an id unknown to the connection and an address that
  another customer of it has: creating the customer violates a unique index, the handler takes
  every such violation for a repeated event, answers duplicate, and leaves the database, which has
  no receipt of the event, exactly as it was.\<close>

theorem customer_email_collision:
  assumes "\<not> payload_too_large E payload rawBody"
    and "first_where (\<lambda>c. cc_publicId c = publicId) (channelConnections (db w)) = Some connection"
    and "cc_provider connection = ChannelProvider.MOCK_EMAIL"
    and "verifyWebhook E payload rawBody signature (cc_webhookSigningSecretReference connection) w = (Inr v, w)"
    and "vw_verified v" "fst (parseEvent E payload w) = Inr (inbound event)"
    and "\<forall>r \<in> set (webhookReceipts (db w)). \<not> (wr_channelConnectionId r = cc_id connection \<and>
          wr_providerEventId r = pi_providerEventId event)"
    and "normalizeEmail (ad_email (pi_from event)) = Some email" "truthy (ad_externalId (pi_from event))"
    and "\<forall>c \<in> set (externalCustomers (db w)). \<not> (cu_organizationId c = cc_organizationId connection \<and>
          cu_channelConnectionId c = cc_id connection \<and> cu_externalCustomerId c = ad_externalId (pi_from event))"
    and "c \<in> set (externalCustomers (db w))" "cu_organizationId c = cc_organizationId connection"
    and "cu_channelConnectionId c = cc_id connection" "cu_normalizedEmail c = Some email"
  shows "fst (ingestWebhook E publicId payload signature rawBody w) = Inr (DuplicateEvent (pi_providerEventId event)) \<and>
    db (snd (ingestWebhook E publicId payload signature rawBody w)) = db w"
proof -
  let ?w = "snd (parseEvent E payload w)"
  let ?h = "x_sha256 E (nullish rawBody (utf8 (stableStringify (x_num E) payload)))"
  let ?c = "co_correlationId (ctx w)"
  have p: "parseEvent E payload w = (Inr (inbound event), ?w)" using assms(6) by (cases "parseEvent E payload w") simp
  have none: "first_where (\<lambda>c. cu_organizationId c = cc_organizationId connection \<and>
          cu_channelConnectionId c = cc_id connection \<and> cu_externalCustomerId c = ad_externalId (pi_from event))
       (externalCustomers (db w)) = None"
    using assms(10) by (simp add: first_where_None)
  have clash: "list_ex (externalCustomer_clash x) (externalCustomers (db w))"
    if "cu_organizationId x = cc_organizationId connection" "cu_channelConnectionId x = cc_id connection"
      "cu_normalizedEmail x = Some email" for x
    using assms(11-14) that unfolding list_ex_iff
    by (intro bexI [of _ c]) (simp_all add: externalCustomer_clash_def both_some_def)
  have cust: "fst (processInboundMessage E connection rid event v) = Inl unique_violation"
    if "externalCustomers (db v) = externalCustomers (db w)" for rid v
    using none clash that assms(8,9)
    by (simp add: processInboundMessage_def upsertExternalCustomer_def run_simps insert_row_def externalCustomer_t_def
        blank_external_customer_def Let_def)
  have "fst (webhook_transaction E connection (inbound event) ?h ?c ?w) = Inl unique_violation"
  proof (cases "fst (create_row E webhookReceipt_t (\<lambda>i now.
          (new_receipt connection (event_id_of (inbound event)) (event_type_of (inbound event)) ?h ?c i now)\<lparr>
             wr_signatureVerified := True, wr_status := WebhookReceiptStatus.PROCESSING\<rparr>) ?w)")
    case (Inl e)
    then show ?thesis
      by (auto simp: webhook_transaction_def run_simps insert_row_def split: if_splits)
  next
    case (Inr r)
    then have "externalCustomers (db (snd (create_row E webhookReceipt_t (\<lambda>i now.
          (new_receipt connection (event_id_of (inbound event)) (event_type_of (inbound event)) ?h ?c i now)\<lparr>
             wr_signatureVerified := True, wr_status := WebhookReceiptStatus.PROCESSING\<rparr>) ?w))) = externalCustomers (db w)"
      by (auto simp: run_simps insert_row_def webhookReceipt_t_def parseEvent_frame)
    from cust [OF this] Inr show ?thesis
      by (simp add: webhook_transaction_def transaction_run bind_x_run)
  qed
  note tx = unique_tx_duplicate [OF this]
  have same: "update_where (\<lambda>r. wr_channelConnectionId r = cc_id connection \<and> wr_providerEventId r = pi_providerEventId event) f
      (webhookReceipts (db w)) = webhookReceipts (db w)" for f
    using assms(7) by (intro update_where_none) (simp add: count_where_def filter_empty_conv)
  show ?thesis
    unfolding ingest_verified [OF assms(1-5) p] conjunct1 [OF tx]
    using mark_duplicate_run [of E connection "inbound event"] conjunct2 [OF tx] parseEvent_frame [of E payload w]
    by (simp add: event_id_of_def same)
qed

text \<open>C9: A webhook whose signature does not verify is refused with 403, and the only trace in the
  database is at most one added receipt, marked rejected and unverified.\<close>

theorem unsigned_webhook_refused:
  assumes "\<not> payload_too_large E payload rawBody"
    and "first_where (\<lambda>c. cc_publicId c = publicId) (channelConnections (db w)) = Some connection"
    and "cc_provider connection = ChannelProvider.MOCK_EMAIL"
    and "verifyWebhook E payload rawBody signature (cc_webhookSigningSecretReference connection) w = (Inr v, w)"
    and "\<not> vw_verified v"
  shows "fst (ingestWebhook E publicId payload signature rawBody w) = Inl (forbidden ''Invalid webhook signature'') \<and>
    (\<exists>added. db (snd (ingestWebhook E publicId payload signature rawBody w)) =
       (db w)\<lparr>webhookReceipts := webhookReceipts (db w) @ added\<rparr> \<and> length added \<le> 1 \<and>
       list_all (\<lambda>r. wr_status r = WebhookReceiptStatus.REJECTED \<and> \<not> wr_signatureVerified r) added)"
proof -
  have "ingestWebhook E publicId payload signature rawBody w =
    refuse_unverified E connection v (x_sha256 E (nullish rawBody (utf8 (stableStringify (x_num E) payload))))
      (co_correlationId (ctx w)) w"
    using assms by (simp add: ingestWebhook_def getProvider_def run_simps channelConnection_t_def Let_def)
  moreover have "fst (refuse_unverified E connection v h c w) = Inl (forbidden ''Invalid webhook signature'') \<and>
    (\<exists>added. db (snd (refuse_unverified E connection v h c w)) = (db w)\<lparr>webhookReceipts := webhookReceipts (db w) @ added\<rparr> \<and>
       length added \<le> 1 \<and> list_all (\<lambda>r. wr_status r = WebhookReceiptStatus.REJECTED \<and> \<not> wr_signatureVerified r) added)" for h c
  proof -
    let ?mk = "\<lambda>i now. (new_receipt connection
          (nullish (vw_providerEventId v) (''unverified:'' @ take 32 h))
          (nullish (vw_eventType v) ''unknown'') h c i now)\<lparr>
         wr_signatureVerified := False, wr_status := WebhookReceiptStatus.REJECTED,
         wr_failureCode := Some (nullish (vw_failureCode v) ''INVALID_SIGNATURE''),
         wr_failureMessageRedacted := Some (nullish (vw_failureMessage v) ''Invalid signature'')\<rparr>"
    let ?v = "w\<lparr>mlog := mlog w @ [(''incrementChannelSignatureFailure'', [name_of_ChannelProvider (cc_provider connection)])]\<rparr>"
    have run: "refuse_unverified E connection v h c w =
        (Inl (forbidden ''Invalid webhook signature''), snd (create_row E webhookReceipt_t ?mk ?v))"
      by (simp add: refuse_unverified_def metric_x_run then_x_run ignore_x_run throw_x_run)
    from create_row_cases [of E webhookReceipt_t ?mk ?v] show ?thesis
    proof (elim disjE exE)
      assume "db (snd (create_row E webhookReceipt_t ?mk ?v)) = db ?v"
      then show ?thesis unfolding run by (intro conjI exI [of _ "[]"]) simp_all
    next
      fix i now assume "db (snd (create_row E webhookReceipt_t ?mk ?v)) = t_map webhookReceipt_t (\<lambda>t. t @ [?mk i now]) (db ?v)"
      then show ?thesis unfolding run by (intro conjI exI [of _ "[?mk i now]"]) (simp_all add: webhookReceipt_t_def)
    qed
  qed
  ultimately show ?thesis by simp
qed

section \<open>An inbound message and the connection\<close>

definition connections_all :: "string \<Rightarrow> (channel_connection \<Rightarrow> bool) \<Rightarrow> db \<Rightarrow> bool" where
  "connections_all i Q d \<longleftrightarrow> (\<forall>c \<in> set (channelConnections d). cc_id c = i \<longrightarrow> Q c)"

lemma connections_all_ignores:
  "ignores webhookReceipt_t (connections_all i Q)" "ignores agentEvent_t (connections_all i Q)"
  "ignores inboundDispatch_t (connections_all i Q)"
  by (simp_all add: ignores_def connections_all_def table_defs)

lemma settleInbound_activates:
  "establishes (on_db (connections_all connectionId (\<lambda>c. cc_status c = ChannelConnectionStatus.ACTIVE)))
     (settleInbound E connectionId receiptId conversationId customerId ticketId event)"
proof -
  have u: "establishes (on_db (connections_all connectionId (\<lambda>c. cc_status c = ChannelConnectionStatus.ACTIVE)))
     (update_row E channelConnection_t (\<lambda>c. cc_id c = connectionId) (\<lambda>c. c\<lparr>
         cc_status := ChannelConnectionStatus.ACTIVE, cc_lastSuccessfulEventAt := t,
         cc_lastErrorAt := None, cc_lastErrorCode := None, cc_lastErrorRedacted := None\<rparr>))" for t
  proof -
    have "establishes (on_db (\<lambda>d. \<forall>c \<in> set (t_get channelConnection_t d). cc_id c = connectionId \<longrightarrow>
        cc_status c = ChannelConnectionStatus.ACTIVE)) (update_row E channelConnection_t (\<lambda>c. cc_id c = connectionId) (\<lambda>c. c\<lparr>
         cc_status := ChannelConnectionStatus.ACTIVE, cc_lastSuccessfulEventAt := t,
         cc_lastErrorAt := None, cc_lastErrorCode := None, cc_lastErrorRedacted := None\<rparr>))"
      by (rule establishes_update_row [where k = connectionId]) (simp_all add: channelConnection_t_def)
    then show ?thesis by (simp add: connections_all_def [abs_def] channelConnection_t_def)
  qed
  show ?thesis
    unfolding settleInbound_def
    by (rule establishes_rest, rule establishes_then_rest, rule establishes_rest, rule establishes_then_first [OF u],
        intro preserve_rules preserves_other_table connections_all_ignores)
qed

lemma processInbound_activates:
  "establishes (on_db (connections_all (cc_id connection) (\<lambda>c. cc_status c = ChannelConnectionStatus.ACTIVE)))
     (processInboundMessage E connection receiptId event)"
  unfolding processInboundMessage_def Let_def inboundTimeline_def
  by (rule establishes_rest, rule establishes_rest, rule establishes_rest, rule establishes_rest,
      rule establishes_then_rest, rule establishes_then_first [OF settleInbound_activates],
      intro preserve_rules ch.append_other connections_all_ignores)

text \<open>An accepted inbound message sets the connection active, whatever its status was: one event
  from outside enables a connection that an operator has disabled.\<close>

theorem inbound_reactivates_connection:
  assumes "fst (ingest_parsed E connection (inbound event) payloadHash correlationId w) =
      Inr (Accepted receiptId ticketId conversationId messageId)"
  shows "\<forall>c \<in> set (channelConnections (db (snd (ingest_parsed E connection (inbound event) payloadHash correlationId w)))).
    cc_id c = cc_id connection \<longrightarrow> cc_status c = ChannelConnectionStatus.ACTIVE"
proof -
  let ?I = "on_db (connections_all (cc_id connection) (\<lambda>c. cc_status c = ChannelConnectionStatus.ACTIVE))"
  have tx: "establishes ?I (webhook_transaction E connection (inbound event) payloadHash correlationId)"
    unfolding webhook_transaction_def
    by (rule establishes_transaction, rule establishes_rest) (simp add: processInbound_activates)
  have run: "establishes ?I (bind_x (webhook_transaction E connection (inbound event) payloadHash correlationId) (\<lambda>result.
        then_x (when_x (truthy (snd result)) (bind_x (dispatchPendingInbound E 25) (\<lambda>_. ret_x ())))
        (then_x (metric_x ''incrementChannelWebhook''
            [name_of_ChannelProvider (cc_provider connection), event_type_of (inbound event), ''success''])
          (ret_x (fst result)))))"
    by (rule establishes_first [OF tx], unfold dispatchPendingInbound_def dispatch_one_def claim_inbound_def enqueue_claimed_def Let_def,
        intro preserve_rules preserves_other_table connections_all_ignores)
  have "ensures (\<lambda>_. True) (ingest_parsed E connection (inbound event) payloadHash correlationId)
      (\<lambda>r w. (\<exists>a b c d. r = Accepted a b c d) \<longrightarrow> ?I w)"
    unfolding ingest_parsed_def
  proof (rule ensures_catch)
    fix err
    show "ensures (\<lambda>_. True) (if isUniqueConstraint err then mark_duplicate E connection (inbound event)
              else then_x (mark_connection_error E connection err) (throw_x err))
        (\<lambda>r w. (\<exists>a b c d. r = Accepted a b c d) \<longrightarrow> ?I w)"
      using mark_duplicate_run [of E connection "inbound event"]
      by (auto simp: ensures_def run_simps split: sum.splits)
  qed (rule ensures_weaken [OF ensures_establishes [OF run]], simp_all)
  from ensuresD [OF this _ assms] show ?thesis by (simp add: on_db_def connections_all_def)
qed

section \<open>Handing over a claimed dispatch\<close>

definition dispatches_all :: "string \<Rightarrow> (inbound_dispatch \<Rightarrow> bool) \<Rightarrow> db \<Rightarrow> bool" where
  "dispatches_all i Q d \<longleftrightarrow> (\<forall>x \<in> set (inboundDispatches d). di_id x = i \<longrightarrow> Q x)"

lemma update_own_dispatch:
  assumes "no_clash inboundDispatch_t (db w)" "x \<in> set (inboundDispatches (db w))"
    and "\<And>a b. inboundDispatch_clash (f a) b = inboundDispatch_clash a b"
    and "\<And>a. Q (f a)"
  shows "fst (update_row E inboundDispatch_t (\<lambda>d. di_id d = di_id x) f w) = Inr (f x) \<and>
    dispatches_all (di_id x) Q (db (snd (update_row E inboundDispatch_t (\<lambda>d. di_id d = di_id x) f w)))"
proof -
  have uniq: "y = x" if "y \<in> set (inboundDispatches (db w))" "di_id y = di_id x" for y
    using inboundDispatch_tb.no_clash_pair [OF assms(1), of y x] that assms(2) inboundDispatch_tb.clash_id [of y x]
    by (simp add: inboundDispatch_t_def)
  obtain y where y: "first_where (\<lambda>d. di_id d = di_id x) (inboundDispatches (db w)) = Some y"
    using assms(2) first_where_None [of "\<lambda>d. di_id d = di_id x"] by (cases "first_where (\<lambda>d. di_id d = di_id x) (inboundDispatches (db w))") auto
  with first_where_Some [OF y] uniq have yx: "first_where (\<lambda>d. di_id d = di_id x) (inboundDispatches (db w)) = Some x" by blast
  have free: "\<not> list_ex (\<lambda>s. di_id s \<noteq> di_id x \<and> inboundDispatch_clash (f x) s) (inboundDispatches (db w))"
    using inboundDispatch_tb.no_clash_pair [OF assms(1), of x] assms(2,3)
    by (auto simp: list_ex_iff inboundDispatch_t_def)
  show ?thesis
    using yx free assms(4)
    by (auto simp: run_simps replace_row_def inboundDispatch_t_def dispatches_all_def set_update_where)
qed

text \<open>Handing over a claimed dispatch never loses it: when the queue takes the job, the row is
  completed with the id of the job; when it refuses, the row is pending again, without a lock and
  due after the retry delay, and the caller is told so instead of getting an error.\<close>

theorem claimed_dispatch_outcome:
  assumes "no_clash inboundDispatch_t (db w)" "current \<in> set (inboundDispatches (db w))"
    and "INBOUND_DISPATCH_RETRY_DELAY_MS E = Some delay"
  shows "case x_queue E (length (qlog w)) of
      Inr job \<Rightarrow> fst (enqueue_claimed E current w) = Inr [\<lparr>dp_id = di_id current,
          dp_status = InboundDispatchStatus.COMPLETED, dp_jobId = Some job, dp_errorCode = None\<rparr>] \<and>
        dispatches_all (di_id current) (\<lambda>d. di_status d = InboundDispatchStatus.COMPLETED \<and> di_jobId d = Some job)
          (db (snd (enqueue_claimed E current w)))
    | Inl err \<Rightarrow> fst (enqueue_claimed E current w) = Inr [\<lparr>dp_id = di_id current,
          dp_status = InboundDispatchStatus.PENDING, dp_jobId = None, dp_errorCode = Some ''QUEUE_ENQUEUE_FAILED''\<rparr>] \<and>
        dispatches_all (di_id current) (\<lambda>d. di_status d = InboundDispatchStatus.PENDING \<and>
          di_availableAt d = x_clock E (ticks w) + delay \<and> di_lockOwner d = None)
          (db (snd (enqueue_claimed E current w)))"
proof (cases "x_queue E (length (qlog w))")
  case (Inl err)
  let ?v = "w\<lparr>qlog := qlog w @ [support_call (di_payload current) (di_runId current)], ticks := Suc (ticks w)\<rparr>"
  have here: "no_clash inboundDispatch_t (db ?v)" "current \<in> set (inboundDispatches (db ?v))"
    using assms by simp_all
  note up = update_own_dispatch [OF here, where Q = "\<lambda>d. di_status d = InboundDispatchStatus.PENDING \<and>
      di_availableAt d = x_clock E (ticks w) + delay \<and> di_lockOwner d = None"]
  show ?thesis
    using Inl assms(3) up [where f = "requeue_dispatch (x_clock E (ticks w) + delay) (redactedMessage err)"]
    by (simp add: enqueue_claimed_def catch_x_run bind_x_run then_x_run queue_add_run now_x_run require_x_run ret_x_run
        inboundDispatch_clash_def requeue_dispatch_def split: sum.split)
next
  case (Inr job)
  let ?v = "w\<lparr>qlog := qlog w @ [support_call (di_payload current) (di_runId current)], ticks := Suc (ticks w)\<rparr>"
  have here: "no_clash inboundDispatch_t (db ?v)" "current \<in> set (inboundDispatches (db ?v))"
    using assms by simp_all
  note up = update_own_dispatch [OF here, where Q = "\<lambda>d. di_status d = InboundDispatchStatus.COMPLETED \<and> di_jobId d = Some job"]
  show ?thesis
    using Inr up [where f = "complete_dispatch (x_clock E (ticks w)) job"]
    by (simp add: enqueue_claimed_def catch_x_run bind_x_run then_x_run queue_add_run now_x_run ret_x_run
        inboundDispatch_clash_def complete_dispatch_def split: sum.split)
qed

section \<open>Webhooks in the demonstration world\<close>

definition demo_signed :: ext where
  "demo_signed = demo_ext\<lparr>x_hmac := \<lambda>_ _. replicate 64 CHR ''0''\<rparr>"

definition demo_header :: "string option" where
  "demo_header = Some (''v1='' @ replicate 64 CHR ''0'')"

definition demo_payload :: json where
  "demo_payload = JObj [(''eventId'', JStr ''e''), (''type'', JStr ''message.received''),
     (''message'', JObj [(''messageId'', JStr ''m1''), (''text'', JStr ''help''),
       (''from'', JObj [(''email'', JStr ''a@b.c''), (''id'', JStr ''x'')])])]"

definition demo_channel :: channel_connection where
  "demo_channel = blank_channel_connection\<lparr>cc_id := ''k'', cc_publicId := ''p'', cc_organizationId := ''o'',
     cc_provider := ChannelProvider.MOCK_EMAIL, cc_status := ChannelConnectionStatus.DISABLED\<rparr>"

definition demo_inbound :: "webhook_receipt list \<Rightarrow> external_customer list \<Rightarrow> world" where
  "demo_inbound rs cs = demo_world (empty_db\<lparr>channelConnections := [demo_channel],
     webhookReceipts := rs, externalCustomers := cs\<rparr>)"

definition demo_receipt :: webhook_receipt where
  "demo_receipt = blank_webhook_receipt\<lparr>wr_id := ''r'', wr_channelConnectionId := ''k'',
     wr_providerEventId := ''e''\<rparr>"

definition demo_customer :: external_customer where
  "demo_customer = blank_external_customer\<lparr>cu_id := ''c'', cu_organizationId := ''o'',
     cu_channelConnectionId := ''k'', cu_externalCustomerId := Some ''y'', cu_normalizedEmail := Some ''a@b.c''\<rparr>"

definition demo_dispatch :: inbound_dispatch where
  "demo_dispatch = blank_inbound_dispatch\<lparr>di_id := ''d'', di_runId := ''r''\<rparr>"

lemma demo_small: "\<not> payload_too_large demo_signed demo_payload (Some ''raw'')"
  by code_simp

lemma demo_found: "first_where (\<lambda>c. cc_publicId c = ''p'') (channelConnections (db (demo_inbound rs cs))) = Some demo_channel"
  by (simp add: demo_inbound_def demo_world_def first_where_def demo_channel_def)

lemma demo_mail: "cc_provider demo_channel = ChannelProvider.MOCK_EMAIL"
  by (simp add: demo_channel_def)

lemma verify_frame:
  "payload \<noteq> JNull \<Longrightarrow> verifyWebhook E payload rawBody header secretReference w =
     (Inr (projr (fst (verifyWebhook E payload rawBody header secretReference w))), w)"
  by (auto simp: verifyWebhook_def Let_def run_simps rejected_webhook_def split: option.split)

lemma demo_verified:
  "vw_verified (projr (fst (verifyWebhook demo_signed demo_payload (Some ''raw'') demo_header
     (cc_webhookSigningSecretReference demo_channel) (demo_inbound [demo_receipt] []))))"
  "vw_verified (projr (fst (verifyWebhook demo_signed demo_payload (Some ''raw'') demo_header
     (cc_webhookSigningSecretReference demo_channel) (demo_inbound [] [demo_customer]))))"
  "\<not> vw_verified (projr (fst (verifyWebhook demo_signed demo_payload (Some ''raw'') (Some ''v1=00'')
     (cc_webhookSigningSecretReference demo_channel) (demo_inbound [] []))))"
  by code_simp+

definition demo_event :: parsed_inbound where
  "demo_event = (case projr (fst (parseEvent demo_signed demo_payload (demo_inbound [] []))) of
     inbound ev \<Rightarrow> ev | delivery_callback c \<Rightarrow> undefined)"

lemma parseEvent_ticks: "ticks v = ticks w \<Longrightarrow> fst (parseEvent E payload v) = fst (parseEvent E payload w)"
  by (simp add: parseEvent_def parse_callback_def parse_inbound_def occurred_at_def run_simps Let_def split: option.split)

lemma demo_parsed: "fst (parseEvent demo_signed demo_payload (demo_inbound rs cs)) = Inr (inbound demo_event)"
proof -
  have "case fst (parseEvent demo_signed demo_payload (demo_inbound [] [])) of Inr (inbound ev) \<Rightarrow> True | _ \<Rightarrow> False"
    by code_simp
  then have "fst (parseEvent demo_signed demo_payload (demo_inbound [] [])) = Inr (inbound demo_event)"
    by (auto simp: demo_event_def split: sum.splits ParsedChannelEvent.splits)
  then show ?thesis
    using parseEvent_ticks [of "demo_inbound rs cs" "demo_inbound [] []"] by (simp add: demo_inbound_def demo_world_def)
qed

lemma demo_event_fields:
  "pi_providerEventId demo_event = ''e''" "ad_externalId (pi_from demo_event) = Some ''x''"
  "normalizeEmail (ad_email (pi_from demo_event)) = Some ''a@b.c''"
  by code_simp+

theorem dispatch_claim_exclusive_witness:
  "sum_list (claim_counts (map (\<lambda>s. claim_inbound demo_ext (fst s) (fst (snd s)) (snd (snd s)) ''d'')
     [(0, ''a'', 9), (5, ''b'', 20)]) (demo_world (empty_db\<lparr>inboundDispatches := [demo_dispatch]\<rparr>))) \<le> 1"
  by (rule dispatch_claim_exclusive [where until = 8])
     (simp_all add: no_clash_def demo_world_def inboundDispatch_t_def)

theorem claimed_dispatch_outcome_witness:
  "fst (enqueue_claimed demo_ext demo_dispatch (demo_world (empty_db\<lparr>inboundDispatches := [demo_dispatch]\<rparr>))) =
     Inr [\<lparr>dp_id = di_id demo_dispatch, dp_status = InboundDispatchStatus.COMPLETED,
       dp_jobId = Some (show_nat 0), dp_errorCode = None\<rparr>]"
proof -
  let ?w = "demo_world (empty_db\<lparr>inboundDispatches := [demo_dispatch]\<rparr>)"
  have delay: "INBOUND_DISPATCH_RETRY_DELAY_MS demo_ext = Some 5000" by code_simp
  have w: "no_clash inboundDispatch_t (db ?w)" "demo_dispatch \<in> set (inboundDispatches (db ?w))"
    by (simp_all add: no_clash_def demo_world_def inboundDispatch_t_def)
  show ?thesis
    using claimed_dispatch_outcome [OF w delay] by (simp add: demo_ext_def demo_world_def)
qed

theorem duplicate_webhook_witness:
  "fst (ingestWebhook demo_signed ''p'' demo_payload demo_header (Some ''raw'') (demo_inbound [demo_receipt] [])) =
     Inr (DuplicateEvent ''e'')"
proof -
  have p: "demo_payload \<noteq> JNull" by (simp add: demo_payload_def)
  have r: "demo_receipt \<in> set (webhookReceipts (db (demo_inbound [demo_receipt] [])))"
    by (simp add: demo_inbound_def demo_world_def)
  show ?thesis
    using duplicate_webhook [OF demo_small demo_found demo_mail verify_frame [OF p] demo_verified(1) demo_parsed r]
    by (simp add: demo_receipt_def demo_channel_def event_id_of_def demo_event_fields)
qed

theorem customer_email_collision_witness:
  "db (snd (ingestWebhook demo_signed ''p'' demo_payload demo_header (Some ''raw'') (demo_inbound [] [demo_customer]))) =
     db (demo_inbound [] [demo_customer])"
proof -
  have p: "demo_payload \<noteq> JNull" by (simp add: demo_payload_def)
  show ?thesis
    using customer_email_collision [OF demo_small demo_found demo_mail verify_frame [OF p] demo_verified(2)
      demo_parsed _ demo_event_fields(3), of demo_customer]
    by (simp add: demo_inbound_def demo_world_def empty_db_def demo_customer_def demo_channel_def
        demo_event_fields truthy_def)
qed

theorem unsigned_webhook_refused_witness:
  "fst (ingestWebhook demo_signed ''p'' demo_payload (Some ''v1=00'') (Some ''raw'') (demo_inbound [] [])) =
     Inl (forbidden ''Invalid webhook signature'')"
proof -
  have p: "demo_payload \<noteq> JNull" by (simp add: demo_payload_def)
  show ?thesis
    using unsigned_webhook_refused [OF demo_small demo_found demo_mail verify_frame [OF p] demo_verified(3)] by simp
qed

theorem inbound_reactivates_connection_witness:
  "cc_status demo_channel = ChannelConnectionStatus.DISABLED \<and>
   filter (\<lambda>c. cc_id c = cc_id demo_channel \<and> cc_status c \<noteq> ChannelConnectionStatus.ACTIVE)
     (channelConnections (db (snd (ingest_parsed demo_signed demo_channel (inbound demo_event) ''h'' None
      (demo_inbound [] []))))) = []"
proof -
  have "case fst (ingest_parsed demo_signed demo_channel (inbound demo_event) ''h'' None (demo_inbound [] [])) of
      Inr (Accepted a b c d) \<Rightarrow> True | _ \<Rightarrow> False" by code_simp
  then obtain a b c d where "fst (ingest_parsed demo_signed demo_channel (inbound demo_event) ''h'' None
      (demo_inbound [] [])) = Inr (Accepted a b c d)"
    by (auto split: sum.splits webhook_response.splits)
  from inbound_reactivates_connection [OF this] show ?thesis
    by (simp add: demo_channel_def filter_empty_conv)
qed

end
