(* ===== verification/Support.thy ===== *)
theory Support
  imports Outbound
begin

text \<open>
  \<^verbatim>\<open>apps/api/src/support/support.service.ts\<close> (tickets, timeline, drafts, sending),
  \<^verbatim>\<open>apps/api/src/approvals/approvals.controller.ts\<close> (the human decision on a draft) and
  the handlers of \<^verbatim>\<open>apps/api/src/tickets/tickets.controller.ts\<close> with logic of their own. A
  method that reads a row and then writes in a transaction is split there, so the transaction can
  be run on a stale snapshot.
\<close>

section \<open>Lookups\<close>

definition getOrganizationById :: "string \<Rightarrow> organization act" where
  "getOrganizationById orgId =
     bind_x (find_first organization_t (\<lambda>g. og_id g = orgId)) (\<lambda>found.
       require_x found (not_found ''Organization not found''))"

definition own_ticket :: "string \<Rightarrow> string \<Rightarrow> ticket \<Rightarrow> bool" where
  "own_ticket ticketId orgId t \<longleftrightarrow> tk_id t = ticketId \<and> tk_orgId t = orgId"

definition assertTicketAccess :: "string \<Rightarrow> string \<Rightarrow> ticket act" where
  "assertTicketAccess ticketId orgId =
     bind_x (find_first ticket_t (own_ticket ticketId orgId)) (\<lambda>found.
       require_x found (not_found ''Ticket not found''))"

record ticket_full =
  tf_ticket :: ticket
  tf_messages :: "ticket_message list"
  tf_agentRuns :: "(agent_run \<times> agent_step list) list"
  tf_events :: "agent_event list"
  tf_drafts :: "(outbound_draft \<times> human_approval list) list"

definition draft_approvals :: "human_approval list \<Rightarrow> outbound_draft \<Rightarrow> human_approval list" where
  "draft_approvals aps d = order_desc ap_createdAt (filter (\<lambda>a. ap_outboundDraftId a = Some (dr_id d)) aps)"

text \<open>\<^verbatim>\<open>sequence asc, createdAt asc\<close> (and the same descending).\<close>

definition events_asc :: "agent_event list \<Rightarrow> agent_event list" where
  "events_asc evs = order_asc ev_sequence (order_asc ev_createdAt evs)"

definition events_desc :: "agent_event list \<Rightarrow> agent_event list" where
  "events_desc evs = order_desc ev_sequence (order_desc ev_createdAt evs)"

text \<open>\<^verbatim>\<open>ticketDetailInclude\<close>\<close>

definition include_detail :: "db \<Rightarrow> ticket \<Rightarrow> ticket_full" where
  "include_detail d t = \<lparr>tf_ticket = t,
     tf_messages = order_asc tm_createdAt (filter (\<lambda>m. tm_ticketId m = tk_id t) (ticketMessages d)),
     tf_agentRuns = map (\<lambda>r. (r, order_asc st_createdAt
         (filter (\<lambda>s. st_agentRunId s = run_id r) (agentSteps d))))
       (take 1 (order_desc run_createdAt (filter (\<lambda>r. run_ticketId r = tk_id t) (agentRuns d)))),
     tf_events = events_asc (filter (\<lambda>e. ev_ticketId e = tk_id t) (agentEvents d)),
     tf_drafts = map (\<lambda>x. (x, draft_approvals (humanApprovals d) x))
       (order_desc dr_createdAt (filter (\<lambda>x. dr_ticketId x = tk_id t) (outboundDrafts d)))\<rparr>"

definition getTicketOrThrow :: "string \<Rightarrow> string \<Rightarrow> ticket_full act" where
  "getTicketOrThrow ticketId orgId =
     bind_x (find_first ticket_t (own_ticket ticketId orgId)) (\<lambda>found.
     bind_x (require_x found (not_found ''Ticket not found'')) (\<lambda>t.
       gets_x (\<lambda>w. include_detail (db w) t)))"

definition truncate_preview :: "string option \<Rightarrow> nat \<Rightarrow> string option" where
  "truncate_preview value maxLength =
     (if \<not> truthy value then None
      else Some (if length (the value) > maxLength then take (maxLength - 1) (the value) @ ''...''
                 else the value))"

record ticket_summary =
  ts_ticket :: ticket
  ts_latestMessagePreview :: "string option"
  ts_latestTimelineEvent :: "(AgentEventType \<times> int) option"

definition head_option :: "'a list \<Rightarrow> 'a option" where
  "head_option xs = (case xs of [] \<Rightarrow> None | x # _ \<Rightarrow> Some x)"

definition summarize_ticket :: "db \<Rightarrow> ticket \<Rightarrow> ticket_summary" where
  "summarize_ticket d t =
     (let m = head_option (order_desc tm_createdAt (filter (\<lambda>m. tm_ticketId m = tk_id t) (ticketMessages d)));
          e = head_option (events_desc (filter (\<lambda>e. ev_ticketId e = tk_id t) (agentEvents d)))
      in \<lparr>ts_ticket = t, ts_latestMessagePreview = truncate_preview (map_option tm_body m) 140,
          ts_latestTimelineEvent = map_option (\<lambda>e. (ev_type e, ev_createdAt e)) e\<rparr>)"

definition listTickets :: "string \<Rightarrow> ticket_summary list act" where
  "listTickets orgId =
     bind_x (find_many ticket_t (\<lambda>t. tk_orgId t = orgId)) (\<lambda>tickets.
       gets_x (\<lambda>w. map (summarize_ticket (db w))
         (order_desc tk_updatedAt (order_desc tk_createdAt tickets))))"

record timeline_entry =
  te_id :: string
  te_runId :: "string option"
  te_type :: AgentEventType
  te_sequence :: int
  te_payload :: json
  te_createdAt :: int

definition timeline_entry_of :: "agent_event \<Rightarrow> timeline_entry" where
  "timeline_entry_of e = \<lparr>te_id = ev_id e, te_runId = ev_runId e, te_type = ev_type e,
     te_sequence = ev_sequence e, te_payload = ev_payload e, te_createdAt = ev_createdAt e\<rparr>"

record ticket_detail =
  td_ticket :: ticket
  td_messages :: "ticket_message list"
  td_latestAgentRun :: "(agent_run \<times> agent_step list) option"
  td_drafts :: "(outbound_draft \<times> human_approval list) list"
  td_agentSteps :: "agent_step list"
  td_timeline :: "timeline_entry list"

definition getTicketDetail :: "string \<Rightarrow> string \<Rightarrow> ticket_detail act" where
  "getTicketDetail ticketId orgId =
     bind_x (getTicketOrThrow ticketId orgId) (\<lambda>t.
       let latestAgentRun = head_option (tf_agentRuns t)
       in ret_x \<lparr>td_ticket = tf_ticket t, td_messages = tf_messages t,
            td_latestAgentRun = latestAgentRun, td_drafts = tf_drafts t,
            td_agentSteps = (case latestAgentRun of None \<Rightarrow> [] | Some r \<Rightarrow> snd r),
            td_timeline = map timeline_entry_of (tf_events t)\<rparr>)"

definition getApprovalOrThrow :: "string \<Rightarrow> string \<Rightarrow> human_approval act" where
  "getApprovalOrThrow approvalId orgId =
     bind_x (find_first humanApproval_t (\<lambda>a. ap_id a = approvalId \<and> ap_orgId a = orgId)) (\<lambda>found.
       require_x found (not_found ''Approval not found''))"

definition getDraftOrThrow :: "string \<Rightarrow> string \<Rightarrow> (outbound_draft \<times> human_approval list) act" where
  "getDraftOrThrow draftId orgId =
     bind_x (find_first outboundDraft_t (\<lambda>d. dr_id d = draftId \<and> dr_orgId d = orgId)) (\<lambda>found.
     bind_x (require_x found (not_found ''Draft not found'')) (\<lambda>draft.
       gets_x (\<lambda>w. (draft, draft_approvals (humanApprovals (db w)) draft))))"

definition listDrafts :: "string \<Rightarrow> string \<Rightarrow> (outbound_draft \<times> human_approval list) list act" where
  "listDrafts ticketId orgId =
     then_x (assertTicketAccess ticketId orgId)
     (bind_x (find_many outboundDraft_t (\<lambda>d. dr_orgId d = orgId \<and> dr_ticketId d = ticketId)) (\<lambda>ds.
       gets_x (\<lambda>w. map (\<lambda>d. (d, draft_approvals (humanApprovals (db w)) d)) (order_desc dr_createdAt ds))))"

definition getDraftDetail :: "string \<Rightarrow> string \<Rightarrow> (outbound_draft \<times> human_approval list) act" where
  "getDraftDetail draftId orgId = getDraftOrThrow draftId orgId"

definition getTimeline :: "string \<Rightarrow> string \<Rightarrow> timeline_entry list act" where
  "getTimeline ticketId orgId =
     then_x (assertTicketAccess ticketId orgId)
     (bind_x (find_many agentEvent_t (\<lambda>e. ev_orgId e = orgId \<and> ev_ticketId e = ticketId)) (\<lambda>evs.
       ret_x (map timeline_entry_of (events_asc evs))))"

definition getAgentSteps :: "string \<Rightarrow> string \<Rightarrow> agent_step list act" where
  "getAgentSteps ticketId orgId =
     bind_x (getTicketOrThrow ticketId orgId) (\<lambda>t.
     case tf_agentRuns t of
       [] \<Rightarrow> ret_x []
     | latest # _ \<Rightarrow>
         bind_x (find_many agentStep_t (\<lambda>s. st_orgId s = tk_orgId (tf_ticket t) \<and>
             st_agentRunId s = run_id (fst latest))) (\<lambda>steps.
           ret_x (order_asc st_createdAt steps)))"

definition getRetrievals :: "string \<Rightarrow> string \<Rightarrow> knowledge_retrieval list act" where
  "getRetrievals ticketId orgId =
     then_x (assertTicketAccess ticketId orgId)
     (bind_x (find_many knowledgeRetrieval_t (\<lambda>r. kr_orgId r = orgId \<and> kr_ticketId r = ticketId)) (\<lambda>rs.
       ret_x (order_desc kr_createdAt rs)))"

definition getOrCreateOrganizationSettings :: "ext \<Rightarrow> string \<Rightarrow> org_settings act" where
  "getOrCreateOrganizationSettings E orgId =
     upsert_row E organizationSettings_t (\<lambda>s. os_orgId s = orgId) None
       (\<lambda>i now. blank_org_settings\<lparr>os_id := i, os_createdAt := now, os_orgId := orgId\<rparr>)"

text \<open>\<^verbatim>\<open>updateSettings\<close> of the organisation's controller: a field that the body leaves out keeps its
  value.\<close>

record settings_dto =
  sd_autoRespond :: "bool option"
  sd_requireHumanApproval :: "bool option"
  sd_maxAgentCostCents :: "int option"
  sd_maxAutoSendCostCents :: "int option"
  sd_requireApprovalForLowConfidence :: "bool option"
  sd_blockOnPiiDetection :: "bool option"
  sd_minCriticCompletenessScore :: "int option"

definition edit_settings :: "settings_dto \<Rightarrow> org_settings \<Rightarrow> org_settings" where
  "edit_settings dto s = s\<lparr>
     os_autoRespond := nullish (sd_autoRespond dto) (os_autoRespond s),
     os_requireHumanApproval := nullish (sd_requireHumanApproval dto) (os_requireHumanApproval s),
     os_maxAgentCostCents := nullish (sd_maxAgentCostCents dto) (os_maxAgentCostCents s),
     os_maxAutoSendCostCents := nullish (sd_maxAutoSendCostCents dto) (os_maxAutoSendCostCents s),
     os_requireApprovalForLowConfidence :=
       nullish (sd_requireApprovalForLowConfidence dto) (os_requireApprovalForLowConfidence s),
     os_blockOnPiiDetection := nullish (sd_blockOnPiiDetection dto) (os_blockOnPiiDetection s),
     os_minCriticCompletenessScore :=
       nullish (sd_minCriticCompletenessScore dto) (os_minCriticCompletenessScore s)\<rparr>"

definition updateSettings :: "ext \<Rightarrow> settings_dto \<Rightarrow> string \<Rightarrow> org_settings act" where
  "updateSettings E dto orgId =
     then_x (getOrCreateOrganizationSettings E orgId)
       (update_row E organizationSettings_t (\<lambda>s. os_orgId s = orgId) (edit_settings dto))"

section \<open>Ticket changes\<close>

definition su_appendTimelineEvent ::
  "ext \<Rightarrow> string \<Rightarrow> string \<Rightarrow> AgentEventType \<Rightarrow> json \<Rightarrow> string option \<Rightarrow> agent_event act" where
  "su_appendTimelineEvent E orgId ticketId ty payload runId =
     append_event E orgId ticketId runId ty payload"

definition updateTicketStatus :: "ext \<Rightarrow> string \<Rightarrow> string \<Rightarrow> TicketStatus \<Rightarrow> ticket act" where
  "updateTicketStatus E ticketId orgId status =
     then_x (assertTicketAccess ticketId orgId)
     (transaction
       (bind_x (update_row E ticket_t (\<lambda>t. tk_id t = ticketId) (\<lambda>t. t\<lparr>tk_status := status\<rparr>)) (\<lambda>ticket.
        then_x (append_event E orgId ticketId None AgentEventType.TICKET_STATUS_CHANGED
            (JObj [(''status'', JStr (name_of_TicketStatus status))]))
          (ret_x ticket))))"

definition updateTicketPriority :: "ext \<Rightarrow> string \<Rightarrow> string \<Rightarrow> TicketPriority \<Rightarrow> ticket act" where
  "updateTicketPriority E ticketId orgId priority =
     then_x (assertTicketAccess ticketId orgId)
     (transaction
       (bind_x (update_row E ticket_t (\<lambda>t. tk_id t = ticketId) (\<lambda>t. t\<lparr>tk_priority := priority\<rparr>)) (\<lambda>ticket.
        then_x (append_event E orgId ticketId None AgentEventType.TICKET_PRIORITY_CHANGED
            (JObj [(''priority'', JStr (name_of_TicketPriority priority))]))
          (ret_x ticket))))"

record create_ticket_dto =
  ct_subject :: string
  ct_body :: string
  ct_customerEmail :: string
  ct_customerName :: "string option"
  ct_priority :: "TicketPriority option"

definition createTicket_tx ::
  "ext \<Rightarrow> create_ticket_dto \<Rightarrow> string \<Rightarrow> string \<Rightarrow> string option \<Rightarrow> int \<Rightarrow> (ticket \<times> agent_run) act" where
  "createTicket_tx E dto orgId userId correlationId queuedAt =
     transaction
       (bind_x (create_row E ticket_t (\<lambda>i now. blank_ticket\<lparr>tk_id := i, tk_createdAt := now,
            tk_updatedAt := now, tk_orgId := orgId, tk_subject := ct_subject dto,
            tk_status := TicketStatus.OPEN, tk_priority := nullish (ct_priority dto) TicketPriority.NORMAL,
            tk_customerEmail := ct_customerEmail dto, tk_customerName := ct_customerName dto\<rparr>)) (\<lambda>ticket.
        then_x (create_row E ticketMessage_t (\<lambda>i now. blank_ticket_message\<lparr>tm_id := i, tm_createdAt := now,
            tm_orgId := orgId, tm_ticketId := tk_id ticket, tm_direction := MessageDirection.INBOUND,
            tm_body := ct_body dto\<rparr>))
        (bind_x (create_row E agentRun_t (\<lambda>i now. blank_agent_run\<lparr>run_id := i, run_createdAt := now,
            run_orgId := orgId, run_ticketId := tk_id ticket, run_correlationId := correlationId,
            run_status := AgentRunStatus.QUEUED, run_trigger := AgentRunTrigger.TICKET_CREATED,
            run_queuedAt := queuedAt\<rparr>)) (\<lambda>run.
         then_x (append_event_with E correlationId orgId (tk_id ticket) (Some (run_id run))
            AgentEventType.RUN_QUEUED (JObj [(''subject'', JStr (ct_subject dto)),
              (''actorType'', JStr ''USER''), (''actorUserId'', JStr userId),
              (''correlationId'', j_str correlationId)]))
          (ret_x (ticket, run))))))"

definition createTicket ::
  "ext \<Rightarrow> create_ticket_dto \<Rightarrow> string \<Rightarrow> string \<Rightarrow> string \<Rightarrow> (string \<times> string) act" where
  "createTicket E dto orgId orgSlug userId =
     bind_x correlation_x (\<lambda>correlationId.
     bind_x (now_x E) (\<lambda>queuedAt.
     bind_x (createTicket_tx E dto orgId userId correlationId queuedAt) (\<lambda>result.
     bind_x (queue_add E \<lparr>qc_queue = SUPPORT_QUEUE_NAME, qc_name = ''ticket.process'',
         qc_payload = JObj [(''orgId'', JStr orgId), (''orgSlug'', JStr orgSlug),
           (''runId'', JStr (run_id (snd result))), (''ticketId'', JStr (tk_id (fst result))),
           (''subject'', JStr (ct_subject dto)), (''body'', JStr (ct_body dto)),
           (''customerEmail'', JStr (ct_customerEmail dto)), (''requestedByUserId'', JStr userId),
           (''correlationId'', j_str correlationId), (''triggerType'', JStr ''TICKET_CREATED''),
           (''enqueuedAt'', JStr (x_iso E queuedAt))],
         qc_jobId = Some (''support-'' @ run_id (snd result)), qc_delay = None\<rparr>) (\<lambda>job.
     then_x (metric_x ''incrementQueueEnqueued'' [''ticket.process'', ''TICKET_CREATED''])
     (then_x (metric_x ''incrementAgentRun'' [''queued'', ''ticket_created''])
       (ret_x (tk_id (fst result), job)))))))"

section \<open>Drafts\<close>

definition toUserActor :: "string \<Rightarrow> string" where
  "toUserActor userId = ''user:'' @ userId"

definition draft_note :: "string \<Rightarrow> DraftStatus \<Rightarrow> string \<Rightarrow> json" where
  "draft_note draftId status actorUserId =
     JObj [(''draftId'', JStr draftId), (''status'', JStr (name_of_DraftStatus status)),
       (''actorType'', JStr ''USER''), (''actorUserId'', JStr actorUserId)]"

definition createManualDraft :: "ext \<Rightarrow> string \<Rightarrow> string \<Rightarrow> string \<Rightarrow> string \<Rightarrow> outbound_draft act" where
  "createManualDraft E ticketId orgId body actorUserId =
     then_x (assertTicketAccess ticketId orgId)
     (transaction
       (bind_x (create_row E outboundDraft_t (\<lambda>i now. blank_outbound_draft\<lparr>dr_id := i,
            dr_createdAt := now, dr_orgId := orgId, dr_ticketId := ticketId, dr_body := body,
            dr_status := DraftStatus.DRAFT, dr_createdBy := toUserActor actorUserId,
            dr_createdByType := ActorType.USER, dr_createdByUserId := Some actorUserId\<rparr>)) (\<lambda>draft.
        then_x (su_appendTimelineEvent E orgId ticketId AgentEventType.DRAFT_CREATED
            (draft_note (dr_id draft) DraftStatus.DRAFT actorUserId) None)
        (then_x (metric_x ''incrementDraftCreated'' [''user''])
          (ret_x draft)))))"

definition edit_tx :: "ext \<Rightarrow> string \<Rightarrow> outbound_draft \<Rightarrow> string \<Rightarrow> string \<Rightarrow> outbound_draft act" where
  "edit_tx E draftId draft orgId body =
     transaction
       (bind_x (update_row E outboundDraft_t (\<lambda>d. dr_id d = draftId) (\<lambda>d. d\<lparr>dr_body := body\<rparr>)) (\<lambda>updated.
        then_x (su_appendTimelineEvent E orgId (dr_ticketId draft) AgentEventType.DRAFT_EDITED
            (JObj [(''draftId'', JStr draftId),
              (''status'', JStr (name_of_DraftStatus (dr_status updated)))]) (dr_agentRunId draft))
          (ret_x updated)))"

definition editDraft :: "ext \<Rightarrow> string \<Rightarrow> string \<Rightarrow> string \<Rightarrow> outbound_draft act" where
  "editDraft E draftId orgId body =
     bind_x (getDraftOrThrow draftId orgId) (\<lambda>found.
       if dr_status (fst found) = DraftStatus.SENT
       then throw_x (bad_request ''Sent drafts cannot be edited'')
       else edit_tx E draftId (fst found) orgId body)"

definition mark_sent :: "int \<Rightarrow> string \<Rightarrow> outbound_draft \<Rightarrow> outbound_draft" where
  "mark_sent sentAt actorUserId d =
     d\<lparr>dr_status := DraftStatus.SENT, dr_sentAt := Some sentAt, dr_sentBy := Some (toUserActor actorUserId),
       dr_sentByType := Some ActorType.USER, dr_sentByUserId := Some actorUserId\<rparr>"

text \<open>The transaction of \<^verbatim>\<open>sendDraft\<close>, on the draft read before it.\<close>

definition send_tx ::
  "ext \<Rightarrow> string \<Rightarrow> outbound_draft \<Rightarrow> string \<Rightarrow> string \<Rightarrow> (outbound_draft \<times> ticket_message) act" where
  "send_tx E draftId draft orgId actorUserId =
     transaction
       (bind_x (now_x E) (\<lambda>sentAt.
        bind_x (update_many E outboundDraft_t (\<lambda>d. dr_id d = draftId \<and> dr_orgId d = orgId \<and>
            dr_status d \<noteq> DraftStatus.SENT) (mark_sent sentAt actorUserId)) (\<lambda>updated.
        if updated \<noteq> 1 then throw_x (bad_request ''Draft already sent'')
        else
          bind_x (create_row E ticketMessage_t (\<lambda>i now. blank_ticket_message\<lparr>tm_id := i,
            tm_createdAt := now, tm_orgId := orgId, tm_ticketId := dr_ticketId draft,
            tm_body := dr_body draft, tm_direction := MessageDirection.OUTBOUND,
            tm_status := MessageStatus.SENT\<rparr>)) (\<lambda>message.
          bind_x (find_first outboundDraft_t (\<lambda>d. dr_id d = draftId)) (\<lambda>sent.
          bind_x (require_x sent missing_record) (\<lambda>sentDraft.
          then_x (update_row E ticket_t (\<lambda>t. tk_id t = dr_ticketId draft)
            (\<lambda>t. t\<lparr>tk_status := TicketStatus.WAITING_CUSTOMER\<rparr>))
          (then_x (su_appendTimelineEvent E orgId (dr_ticketId draft)
            AgentEventType.OUTBOUND_MESSAGE_CREATED
            (JObj [(''draftId'', JStr draftId), (''messageId'', JStr (tm_id message))])
            (dr_agentRunId draft))
          (then_x (su_appendTimelineEvent E orgId (dr_ticketId draft) AgentEventType.DRAFT_SENT
            (draft_note draftId DraftStatus.SENT actorUserId) (dr_agentRunId draft))
          (then_x (metric_x ''incrementDraftSent'' [''user''])
            (ret_x (sentDraft, message)))))))))))"

definition sendDraft ::
  "ext \<Rightarrow> string \<Rightarrow> string \<Rightarrow> string \<Rightarrow> (outbound_draft \<times> ticket_message) act" where
  "sendDraft E draftId orgId actorUserId =
     bind_x (getDraftOrThrow draftId orgId) (\<lambda>found.
       if dr_status (fst found) = DraftStatus.SENT then throw_x (bad_request ''Draft already sent'')
       else bind_x (getOrCreateOrganizationSettings E orgId) (\<lambda>settings.
         if os_requireHumanApproval settings \<and> dr_status (fst found) \<noteq> DraftStatus.APPROVED
         then throw_x (bad_request ''Draft must be approved before sending'')
         else send_tx E draftId (fst found) orgId actorUserId))"

section \<open>Approvals\<close>

definition createApproval ::
  "ext \<Rightarrow> string \<Rightarrow> string option \<Rightarrow> string option \<Rightarrow> string \<Rightarrow> human_approval act" where
  "createApproval E ticketId agentRunId proposedResponse orgId =
     bind_x (assertTicketAccess ticketId orgId) (\<lambda>ticket.
     bind_x (if truthy agentRunId
             then find_first agentRun_t (\<lambda>r. Some (run_id r) = agentRunId \<and> run_orgId r = orgId \<and>
               run_ticketId r = tk_id ticket)
             else ret_x None) (\<lambda>agentRun.
       if truthy agentRunId \<and> agentRun = None
       then throw_x (bad_request ''agentRunId does not belong to this ticket'')
       else create_row E humanApproval_t (\<lambda>i now. blank_human_approval\<lparr>ap_id := i, ap_createdAt := now,
         ap_orgId := orgId, ap_ticketId := tk_id ticket, ap_agentRunId := agentRunId,
         ap_status := ApprovalStatus.PENDING, ap_proposedResponse := proposedResponse\<rparr>)))"

definition decision_note :: "string \<Rightarrow> string \<Rightarrow> DraftStatus \<Rightarrow> string \<Rightarrow> json" where
  "decision_note approvalId draftId status userId =
     JObj [(''approvalId'', JStr approvalId), (''draftId'', JStr draftId),
       (''status'', JStr (name_of_DraftStatus status)), (''actorType'', JStr ''USER''),
       (''actorUserId'', JStr userId)]"

definition approve_draft :: "human_approval \<Rightarrow> string \<Rightarrow> outbound_draft \<Rightarrow> outbound_draft" where
  "approve_draft approval userId d =
     d\<lparr>dr_status := DraftStatus.APPROVED, dr_approvedBy := Some (toUserActor userId),
       dr_approvedByType := Some ActorType.USER, dr_approvedByUserId := Some userId,
       dr_rejectedReason := None, dr_body := nullish (ap_proposedResponse approval) (dr_body d)\<rparr>"

definition approve_step ::
  "ext \<Rightarrow> human_approval \<Rightarrow> string \<Rightarrow> string \<Rightarrow> string \<Rightarrow> string option act" where
  "approve_step E approval draftId orgId userId =
     then_x (update_row E outboundDraft_t (\<lambda>d. dr_id d = draftId) (approve_draft approval userId))
     (then_x (su_appendTimelineEvent E orgId (ap_ticketId approval) AgentEventType.DRAFT_APPROVED
        (decision_note (ap_id approval) draftId DraftStatus.APPROVED userId) (ap_agentRunId approval))
     (bind_x (createOutboundForApprovedDraft E orgId draftId userId) (\<lambda>outbound.
       ret_x (map_option om_id outbound))))"

definition reject_step ::
  "ext \<Rightarrow> human_approval \<Rightarrow> string \<Rightarrow> string option \<Rightarrow> string \<Rightarrow> string \<Rightarrow> unit act" where
  "reject_step E approval draftId reviewerNote orgId userId =
     then_x (update_row E outboundDraft_t (\<lambda>d. dr_id d = draftId) (\<lambda>d. d\<lparr>
        dr_status := DraftStatus.REJECTED, dr_rejectedReason := reviewerNote\<rparr>))
     (then_x (su_appendTimelineEvent E orgId (ap_ticketId approval) AgentEventType.DRAFT_REJECTED
        (decision_note (ap_id approval) draftId DraftStatus.REJECTED userId) (ap_agentRunId approval))
       (ret_x ()))"

text \<open>The transaction of \<^verbatim>\<open>updateApproval\<close>, on the approval read before it; \<open>status\<close> is
  \<^verbatim>\<open>APPROVED\<close> or \<^verbatim>\<open>REJECTED\<close>, the only values the DTO admits.\<close>

definition approval_tx ::
  "ext \<Rightarrow> human_approval \<Rightarrow> ApprovalStatus \<Rightarrow> string option \<Rightarrow> string \<Rightarrow> string \<Rightarrow>
   (human_approval \<times> string option) act" where
  "approval_tx E approval status reviewerNote orgId userId =
     transaction
       (bind_x (update_many E humanApproval_t (\<lambda>a. ap_id a = ap_id approval \<and>
            ap_status a = ApprovalStatus.PENDING) (\<lambda>a. a\<lparr>ap_status := status,
            ap_reviewerNote := nullish2 reviewerNote (ap_reviewerNote a),
            ap_reviewedByUserId := Some userId\<rparr>)) (\<lambda>transition.
        if transition \<noteq> 1 then throw_x (bad_request ''Approval has already been decided'')
        else
          bind_x (find_first humanApproval_t (\<lambda>a. ap_id a = ap_id approval)) (\<lambda>found.
          bind_x (require_x found missing_record) (\<lambda>updatedApproval.
          bind_x (if truthy (ap_outboundDraftId approval) \<and> status = ApprovalStatus.APPROVED
                  then approve_step E approval (the (ap_outboundDraftId approval)) orgId userId
                  else ret_x None) (\<lambda>outboundMessageId.
          then_x (when_x (truthy (ap_outboundDraftId approval) \<and> status = ApprovalStatus.REJECTED)
                  (reject_step E approval (the (ap_outboundDraftId approval)) reviewerNote orgId userId))
            (ret_x (updatedApproval, outboundMessageId)))))))"

definition updateApproval ::
  "ext \<Rightarrow> string \<Rightarrow> ApprovalStatus \<Rightarrow> string option \<Rightarrow> string \<Rightarrow> string \<Rightarrow> human_approval act" where
  "updateApproval E approvalId status reviewerNote orgId userId =
     bind_x (getApprovalOrThrow approvalId orgId) (\<lambda>approval.
     bind_x (approval_tx E approval status reviewerNote orgId userId) (\<lambda>result.
     then_x (when_x (truthy (snd result))
         (bind_x (enqueueDelivery E (the (snd result))) (\<lambda>_. ret_x ())))
       (ret_x (fst result))))"

section \<open>Listings of the tickets controller\<close>

definition getTicketApprovals ::
  "string \<Rightarrow> string \<Rightarrow> (human_approval \<times> outbound_draft option) list act" where
  "getTicketApprovals ticketId orgId =
     then_x (assertTicketAccess ticketId orgId)
     (bind_x (find_many humanApproval_t (\<lambda>a. ap_orgId a = orgId \<and> ap_ticketId a = ticketId)) (\<lambda>aps.
       gets_x (\<lambda>w. map (\<lambda>a. (a, case ap_outboundDraftId a of None \<Rightarrow> None
           | Some i \<Rightarrow> first_where (\<lambda>d. dr_id d = i) (outboundDrafts (db w))))
         (order_desc ap_createdAt aps))))"

definition getTicketGuardrails :: "string \<Rightarrow> string \<Rightarrow> guardrail_check list act" where
  "getTicketGuardrails ticketId orgId =
     then_x (assertTicketAccess ticketId orgId)
     (bind_x (find_many agentGuardrailCheck_t (\<lambda>g. gc_orgId g = orgId \<and> gc_ticketId g = ticketId)) (\<lambda>gs.
       ret_x (order_desc gc_createdAt gs)))"

interpretation su: event_log "\<lambda>orgId ticketId ty payload. su_appendTimelineEvent E orgId ticketId ty payload runId"
    runId for E runId
  by unfold_locales (simp_all add: su_appendTimelineEvent_def append_event_spec)

section \<open>A decision is made once\<close>

text \<open>No approval of that id waits for a decision.\<close>

definition decided :: "string \<Rightarrow> db \<Rightarrow> bool" where
  "decided approvalId d \<longleftrightarrow> (\<forall>a \<in> set (humanApprovals d). ap_id a = approvalId \<longrightarrow> ap_status a \<noteq> ApprovalStatus.PENDING)"

lemma decided_ignores:
  "ignores outboundMessage_t (decided i)" "ignores agentEvent_t (decided i)" "ignores channelAuditEvent_t (decided i)"
  "ignores outboundDraft_t (decided i)"
  by (simp_all add: ignores_def decided_def table_defs)

lemma approval_tx_decides:
  assumes "status \<noteq> ApprovalStatus.PENDING"
  shows "establishes (on_db (decided (ap_id approval))) (approval_tx E approval status note orgId userId)"
proof -
  let ?m = "update_many E humanApproval_t (\<lambda>a. ap_id a = ap_id approval \<and> ap_status a = ApprovalStatus.PENDING)
        (\<lambda>a. a\<lparr>ap_status := status, ap_reviewerNote := nullish2 note (ap_reviewerNote a),
            ap_reviewedByUserId := Some userId\<rparr>)"
  have "establishes (on_db (\<lambda>d. \<forall>a \<in> set (t_get humanApproval_t d).
      ap_id a = ap_id approval \<longrightarrow> ap_status a \<noteq> ApprovalStatus.PENDING)) ?m"
    by (rule establishes_update_many) (simp_all add: humanApproval_t_def assms)
  then have u: "establishes (on_db (decided (ap_id approval))) ?m"
    by (simp add: decided_def [abs_def] humanApproval_t_def)
  show ?thesis
    unfolding approval_tx_def approve_step_def reject_step_def
    by (rule establishes_transaction, rule establishes_first [OF u],
        intro preserve_rules preserves_other_table su.append_other createOutbound_other decided_ignores)
qed

text \<open>C4: A decision on an approval is taken at most once, whoever decides and on however stale a
  read: after one has been committed, a later one with any status, by any user, is refused with
  an error and leaves the database as it was.\<close>

theorem approval_decided_once:
  assumes "status \<noteq> ApprovalStatus.PENDING"
    and "fst (approval_tx E approval status note orgId userId w) = Inr r"
  shows "decided (ap_id approval) (db (snd (approval_tx E approval status note orgId userId w))) \<and>
    (\<forall>stale status' note' orgId' userId' w'. ap_id stale = ap_id approval \<and> decided (ap_id approval) (db w') \<longrightarrow>
       fst (approval_tx E stale status' note' orgId' userId' w') =
         Inl (bad_request ''Approval has already been decided'') \<and>
       db (snd (approval_tx E stale status' note' orgId' userId' w')) = db w')"
proof
  show "decided (ap_id approval) (db (snd (approval_tx E approval status note orgId userId w)))"
    using establishesD [OF approval_tx_decides [OF assms(1)] assms(2)] by (simp add: on_db_def)
  show "\<forall>stale status' note' orgId' userId' w'. ap_id stale = ap_id approval \<and> decided (ap_id approval) (db w') \<longrightarrow>
       fst (approval_tx E stale status' note' orgId' userId' w') =
         Inl (bad_request ''Approval has already been decided'') \<and>
       db (snd (approval_tx E stale status' note' orgId' userId' w')) = db w'"
    by (auto simp: approval_tx_def run_simps replace_rows_def decided_def humanApproval_t_def count_where_def filter_empty_conv)
qed

definition demo_approval :: human_approval where
  "demo_approval = blank_human_approval\<lparr>ap_id := ''a'', ap_status := ApprovalStatus.PENDING,
     ap_outboundDraftId := Some ''d'', ap_proposedResponse := Some ''proposed''\<rparr>"

definition demo_draft :: outbound_draft where
  "demo_draft = blank_outbound_draft\<lparr>dr_id := ''d'', dr_orgId := ''o'', dr_ticketId := ''t'',
     dr_status := DraftStatus.APPROVED, dr_body := ''edited''\<rparr>"

definition demo_support :: world where
  "demo_support = demo_world (empty_db\<lparr>humanApprovals := [demo_approval], outboundDrafts := [demo_draft],
     tickets := [blank_ticket\<lparr>tk_id := ''t'', tk_orgId := ''o''\<rparr>]\<rparr>)"

lemma demo_runs:
  "\<not> isl (fst (approval_tx demo_ext demo_approval ApprovalStatus.REJECTED None ''o'' ''u'' demo_support))"
  "\<not> isl (fst (approval_tx demo_ext demo_approval ApprovalStatus.APPROVED None ''o'' ''u'' demo_support))"
  "\<not> isl (fst (send_tx demo_ext ''d'' demo_draft ''o'' ''u'' demo_support))"
  "\<not> isl (fst (editDraft demo_ext ''d'' ''o'' ''new'' demo_support))"
  by code_simp+

theorem approval_decided_once_witness:
  "decided ''a'' (db (snd (approval_tx demo_ext demo_approval ApprovalStatus.REJECTED None ''o'' ''u''
     demo_support)))"
  using approval_decided_once [OF _ not_isl [OF demo_runs(1)]] by (simp add: demo_approval_def)

section \<open>A draft is sent once\<close>

definition sent_draft :: "string \<Rightarrow> string \<Rightarrow> db \<Rightarrow> bool" where
  "sent_draft draftId orgId d \<longleftrightarrow> (\<forall>x \<in> set (outboundDrafts d). dr_id x = draftId \<and> dr_orgId x = orgId \<longrightarrow> dr_status x = DraftStatus.SENT)"

lemma sent_draft_ignores:
  "ignores ticketMessage_t (sent_draft i oi)" "ignores agentEvent_t (sent_draft i oi)" "ignores ticket_t (sent_draft i oi)"
  by (simp_all add: ignores_def sent_draft_def table_defs)

lemma send_tx_sends: "establishes (on_db (sent_draft draftId orgId)) (send_tx E draftId draft orgId actor)"
proof -
  let ?m = "\<lambda>sentAt. update_many E outboundDraft_t (\<lambda>d. dr_id d = draftId \<and> dr_orgId d = orgId \<and>
            dr_status d \<noteq> DraftStatus.SENT) (mark_sent sentAt actor)"
  have "establishes (on_db (\<lambda>d. \<forall>x \<in> set (t_get outboundDraft_t d).
      dr_id x = draftId \<and> dr_orgId x = orgId \<longrightarrow> dr_status x = DraftStatus.SENT)) (?m sentAt)" for sentAt
    by (rule establishes_update_many) (auto simp: outboundDraft_t_def mark_sent_def)
  then have u: "establishes (on_db (sent_draft draftId orgId)) (?m sentAt)" for sentAt
    by (simp add: sent_draft_def [abs_def] outboundDraft_t_def)
  show ?thesis
    unfolding send_tx_def
    by (rule establishes_transaction, rule establishes_rest, rule establishes_first [OF u],
        intro preserve_rules preserves_other_table su.append_other sent_draft_ignores)
qed



section \<open>Organisations\<close>



text \<open>The preview of a message is the message when it has at most 140 characters; a longer one
  gives a preview of 142, two more than the limit, since the three dots replace one character.\<close>

theorem preview_length:
  "truncate_preview (Some s) 140 = Some p \<Longrightarrow> length p \<le> 142 \<and> (length s \<le> 140 \<longrightarrow> p = s) \<and> (140 < length s \<longrightarrow> length p = 142)"
  by (auto simp: truncate_preview_def truthy_def split: if_splits)

theorem preview_length_witness:
  "length (the (truncate_preview (Some ''hello'') 140)) \<le> 142"
  using preview_length [of "''hello''" "''hello''"] by (simp add: truncate_preview_def truthy_def)

section \<open>Texts and statuses of a draft\<close>

lemma edit_tx_run:
  assumes "fst (edit_tx E draftId draft orgId body w) = Inr d"
  shows "\<exists>old \<in> set (outboundDrafts (db w)). dr_id old = draftId \<and> d = old\<lparr>dr_body := body\<rparr> \<and> d \<in> set (outboundDrafts (db (snd (edit_tx E draftId draft orgId body w))))"
  using assms unfolding edit_tx_def
  apply (simp add: run_simps replace_row_def table_defs su_appendTimelineEvent_def append_event_def append_event_with_def insert_row_def
     split: option.splits if_splits sum.splits)
  apply (auto dest!: first_where_Some simp: set_update_where)
  done

text \<open>An edit replaces the text and nothing else: a draft that was approved keeps its approval
  with a text that nobody approved.\<close>

theorem edit_keeps_status:
  assumes "fst (editDraft E draftId orgId body w) = Inr d"
  shows "\<exists>old \<in> set (outboundDrafts (db w)). dr_id old = draftId \<and> d = old\<lparr>dr_body := body\<rparr> \<and>
     d \<in> set (outboundDrafts (db (snd (editDraft E draftId orgId body w))))"
proof -
  from assms obtain f where f: "fst (getDraftOrThrow draftId orgId w) = Inr f"
      "editDraft E draftId orgId body w = (if dr_status (fst f) = DraftStatus.SENT
       then throw_x (bad_request ''Sent drafts cannot be edited'')
       else edit_tx E draftId (fst f) orgId body) (snd (getDraftOrThrow draftId orgId w))"
    unfolding editDraft_def by (rule bind_x_ok)
  have g: "snd (getDraftOrThrow draftId orgId w) = w"
    by (simp add: getDraftOrThrow_def run_simps split: option.split)
  have e: "editDraft E draftId orgId body w = edit_tx E draftId (fst f) orgId body w"
    using assms f(2) by (auto simp: g run_simps split: if_splits)
  show ?thesis using edit_tx_run [of E draftId "fst f" orgId body w d] assms unfolding e by blast
qed

theorem edit_keeps_status_witness:
  "\<exists>old \<in> set (outboundDrafts (db demo_support)). dr_status old = DraftStatus.APPROVED \<and>
     old\<lparr>dr_body := ''new''\<rparr> \<in>
       set (outboundDrafts (db (snd (editDraft demo_ext ''d'' ''o'' ''new'' demo_support))))"
proof -
  obtain old where old: "old \<in> set (outboundDrafts (db demo_support))"
      "old\<lparr>dr_body := ''new''\<rparr> \<in> set (outboundDrafts (db (snd (editDraft demo_ext ''d'' ''o'' ''new'' demo_support))))"
    using edit_keeps_status [OF not_isl [OF demo_runs(4)]] by auto
  have "dr_status old = DraftStatus.APPROVED"
    using old(1) by (simp add: demo_support_def demo_world_def demo_draft_def)
  with old show ?thesis by blast
qed

definition drafts_all :: "string \<Rightarrow> (outbound_draft \<Rightarrow> bool) \<Rightarrow> db \<Rightarrow> bool" where
  "drafts_all i Q d \<longleftrightarrow> (\<forall>x \<in> set (outboundDrafts d). dr_id x = i \<longrightarrow> Q x)"

lemma drafts_all_ignores:
  "ignores outboundMessage_t (drafts_all i Q)" "ignores agentEvent_t (drafts_all i Q)"
  "ignores channelAuditEvent_t (drafts_all i Q)" "ignores humanApproval_t (drafts_all i Q)"
  by (simp_all add: ignores_def drafts_all_def table_defs)

text \<open>Approving puts the proposed response of the approval into the draft, whatever text the
  draft has by then (a human edit is overwritten) and whatever its status (a draft already sent
  is approved again, so it can be sent a second time).\<close>

theorem approval_restores_proposal:
  assumes "fst (approval_tx E approval ApprovalStatus.APPROVED note orgId userId w) = Inr r"
    and "ap_outboundDraftId approval = Some draftId" "draftId \<noteq> []" "ap_proposedResponse approval = Some proposed"
  shows "\<forall>x \<in> set (outboundDrafts (db (snd (approval_tx E approval ApprovalStatus.APPROVED note orgId userId w)))).
    dr_id x = draftId \<longrightarrow> dr_status x = DraftStatus.APPROVED \<and> dr_body x = proposed"
proof -
  let ?Q = "\<lambda>x. dr_status x = DraftStatus.APPROVED \<and> dr_body x = proposed"
  have "establishes (on_db (\<lambda>d. \<forall>x \<in> set (t_get outboundDraft_t d). dr_id x = draftId \<longrightarrow> ?Q x))
      (update_row E outboundDraft_t (\<lambda>d. dr_id d = draftId) (approve_draft approval userId))"
    by (rule establishes_update_row [where k = draftId])
       (auto simp: outboundDraft_t_def approve_draft_def assms)
  then have u: "establishes (on_db (drafts_all draftId ?Q))
      (update_row E outboundDraft_t (\<lambda>d. dr_id d = draftId) (approve_draft approval userId))"
    by (simp add: drafts_all_def [abs_def] outboundDraft_t_def)
  have t: "truthy (Some draftId)" using assms(3) by (simp add: truthy_def)
  have s: "establishes (on_db (drafts_all draftId ?Q)) (approve_step E approval draftId orgId userId)"
    unfolding approve_step_def
    by (rule establishes_then_first [OF u], intro preserve_rules su.append_other createOutbound_other drafts_all_ignores)
  have a: "establishes (on_db (drafts_all draftId ?Q)) (if truthy (Some draftId) \<and> ApprovalStatus.APPROVED = ApprovalStatus.APPROVED
      then approve_step E approval (the (Some draftId)) orgId userId else ret_x None)"
    using s t by simp
  have z: "preserves (on_db (drafts_all draftId ?Q)) (then_x (when_x (truthy (Some draftId) \<and>
      ApprovalStatus.APPROVED = ApprovalStatus.REJECTED) m) (ret_x v))" for m v
    by (simp add: when_x_def) (intro preserve_rules)
  have "establishes (on_db (drafts_all draftId ?Q)) (approval_tx E approval ApprovalStatus.APPROVED note orgId userId)"
    unfolding approval_tx_def assms(2)
    by (rule establishes_transaction, rule establishes_rest, rule establishes_if, rule establishes_throw,
        rule establishes_rest, rule establishes_rest, rule establishes_first [OF a z])
  from establishesD [OF this assms(1)] show ?thesis by (simp add: on_db_def drafts_all_def)
qed

theorem approval_restores_proposal_witness:
  "filter (\<lambda>x. dr_id x = ''d'' \<and> (dr_status x \<noteq> DraftStatus.APPROVED \<or> dr_body x \<noteq> ''proposed''))
     (outboundDrafts (db (snd (approval_tx demo_ext demo_approval ApprovalStatus.APPROVED None
       ''o'' ''u'' demo_support)))) = []"
  using approval_restores_proposal [OF not_isl [OF demo_runs(2)], of "''d''" "''proposed''"]
  by (auto simp: demo_approval_def filter_empty_conv)

section \<open>A new ticket and the queue\<close>

lemma createTicket_tx_qlog: "qlog (snd (createTicket_tx E dto orgId u c q w)) = qlog w"
proof -
  have "preserves (queued_calls (qlog w)) (createTicket_tx E dto orgId u c q)"
    unfolding createTicket_tx_def by (intro preserve_rules)
  from preservesD [OF this, of w] show ?thesis by simp
qed

lemma createTicket_tx_dispatches: "inboundDispatches (db (snd (createTicket_tx E dto orgId u c q w))) = inboundDispatches (db w)"
proof -
  have "preserves (on_db (\<lambda>d. inboundDispatches d = inboundDispatches (db w))) (createTicket_tx E dto orgId u c q)"
    unfolding createTicket_tx_def
    by (intro preserve_rules preserves_other_table evw.append_other; simp add: ignores_def table_defs)
  from preservesD [OF this, of w] show ?thesis by (simp add: on_db_def)
qed

lemma createTicket_tx_ok:
  "ensures (\<lambda>_. True) (createTicket_tx E dto orgId u c q)
     (\<lambda>r w. fst r \<in> set (tickets (db w)) \<and> snd r \<in> set (agentRuns (db w)) \<and>
        run_status (snd r) = AgentRunStatus.QUEUED \<and> run_ticketId (snd r) = tk_id (fst r))"
proof -
  note keep = preserve_rules preserves_True preserves_both preserves_other_table evw.append_other
  show ?thesis
    unfolding createTicket_tx_def
    apply (rule ensures_transaction)
    apply (rule ensures_bind_create)
      apply (rule preserves_True)
     apply (simp add: table_defs)
    apply (rule ensures_then_keep)
     apply (intro keep; simp add: ignores_def table_defs)
    apply (rule ensures_bind_create)
      apply (intro keep; simp add: ignores_def table_defs)
     apply (simp add: table_defs)
    apply (rule ensures_then_keep)
     apply (intro keep; simp add: ignores_def table_defs)
    apply (rule ensures_ret)
    apply (simp add: on_db_def table_defs blank_agent_run_def)
    done
qed

text \<open>A ticket is committed before its job is queued. When the queue refuses the job, the caller
  gets the error, the ticket and its queued run stay, and no dispatch row exists from which the
  job could be queued later.\<close>

theorem createTicket_queue_failure:
  assumes "x_queue E (length (qlog w)) = Inl e"
    and "fst (createTicket_tx E dto orgId u (co_correlationId (ctx w)) (x_clock E (ticks w))
      (w\<lparr>ticks := ticks w + 1\<rparr>)) = Inr (t, run)"
  shows "fst (createTicket E dto orgId slug u w) = Inl e \<and>
    t \<in> set (tickets (db (snd (createTicket E dto orgId slug u w)))) \<and>
    run \<in> set (agentRuns (db (snd (createTicket E dto orgId slug u w)))) \<and>
    run_status run = AgentRunStatus.QUEUED \<and> run_ticketId run = tk_id t \<and>
    inboundDispatches (db (snd (createTicket E dto orgId slug u w))) = inboundDispatches (db w)"
proof -
  let ?m = "createTicket_tx E dto orgId u (co_correlationId (ctx w)) (x_clock E (ticks w))"
  let ?w = "w\<lparr>ticks := ticks w + 1\<rparr>"
  have "fst (createTicket E dto orgId slug u w) = Inl e \<and>
      db (snd (createTicket E dto orgId slug u w)) = db (snd (?m ?w))"
    using assms by (simp add: createTicket_def run_simps createTicket_tx_qlog)
  with ensuresD [OF createTicket_tx_ok _ assms(2)] createTicket_tx_dispatches [of E dto orgId u _ _ ?w]
  show ?thesis by simp
qed

definition demo_dto :: create_ticket_dto where
  "demo_dto = \<lparr>ct_subject = ''s'', ct_body = ''b'', ct_customerEmail = ''a@b.c'', ct_customerName = None,
     ct_priority = None\<rparr>"

theorem createTicket_queue_failure_witness:
  "fst (createTicket (demo_ext\<lparr>x_queue := \<lambda>_. Inl (plain_error ''down'')\<rparr>) demo_dto ''o'' ''s'' ''u''
     demo_support) = Inl (plain_error ''down'')"
proof -
  let ?E = "demo_ext\<lparr>x_queue := \<lambda>_. Inl (plain_error ''down'')\<rparr>"
  have "\<not> isl (fst (createTicket_tx ?E demo_dto ''o'' ''u'' (co_correlationId (ctx demo_support))
      (x_clock ?E (ticks demo_support)) (demo_support\<lparr>ticks := ticks demo_support + 1\<rparr>)))"
    by code_simp
  then obtain t run where "fst (createTicket_tx ?E demo_dto ''o'' ''u'' (co_correlationId (ctx demo_support))
      (x_clock ?E (ticks demo_support)) (demo_support\<lparr>ticks := ticks demo_support + 1\<rparr>)) = Inr (t, run)"
    using not_isl by (metis surj_pair)
  from createTicket_queue_failure [OF _ this] show ?thesis by simp
qed

end
