(* ===== verification/Guardrails.thy ===== *)
theory Guardrails
  imports Sanitizer
begin

text \<open>
  \<^verbatim>\<open>apps/worker/src/guardrails\<close>: the six checks on a drafted reply
  (\<^verbatim>\<open>guardrail.service.ts\<close>), the detectors they use (\<^verbatim>\<open>pii-detector.ts\<close>,
  \<^verbatim>\<open>secret-detector.ts\<close>) and the cost estimate (\<^verbatim>\<open>cost-estimator.ts\<close>). Scores and
  confidences are rationals.
\<close>

section \<open>Detectors\<close>

definition digit :: rx where
  "digit = Cls is_digit"

definition sep_opt :: rx where
  "sep_opt = opt (Cls (\<lambda>c. c = CHR ''-'' \<or> c = CHR ''.'' \<or> is_ws c))"

definition between :: "nat \<Rightarrow> nat \<Rightarrow> rx \<Rightarrow> rx" where
  "between m n r = Seq (times m r) (upto_times (n - m) r)"

definition SSN_PATTERN :: rx where
  "SSN_PATTERN = Seq WordB (Seq (times 3 digit) (Seq sep_opt (Seq (times 2 digit)
     (Seq sep_opt (Seq (times 4 digit) WordB)))))"

definition CARD_PATTERN :: rx where
  "CARD_PATTERN = Seq WordB (Seq (between 13 16
     (Seq digit (opt (Cls (\<lambda>c. c = CHR '' '' \<or> c = CHR ''-''))))) WordB)"

definition PASSPORT_PATTERN :: rx where
  "PASSPORT_PATTERN = Seq WordB (Seq (between 1 2 (Cls is_upper)) (Seq (between 6 9 digit) WordB))"

definition PII_PATTERNS :: "(rx \<times> string) list" where
  "PII_PATTERNS = [(SSN_PATTERN, ''ssn''), (CARD_PATTERN, ''credit_card''),
     (PASSPORT_PATTERN, ''passport_number'')]"

definition detect :: "(rx \<times> string) list \<Rightarrow> string \<Rightarrow> bool \<times> string list" where
  "detect patterns text =
     (let types = map snd (filter (\<lambda>p. rx_test (fst p) text) patterns) in (types \<noteq> [], types))"

definition detectPii :: "string \<Rightarrow> bool \<times> string list" where
  "detectPii text = detect PII_PATTERNS text"

definition alnum :: "char \<Rightarrow> bool" where
  "alnum c \<longleftrightarrow> is_lower c \<or> is_upper c \<or> is_digit c"

definition OPENAI_PATTERN :: rx where
  "OPENAI_PATTERN = Seq (lit ''sk-'') (at_least 20 (Cls alnum))"

definition AWS_PATTERN :: rx where
  "AWS_PATTERN = Seq (lit ''AKIA'') (times 16 (Cls (\<lambda>c. is_digit c \<or> is_upper c)))"

definition GITHUB_PATTERN :: rx where
  "GITHUB_PATTERN = Seq (lit ''ghp_'') (times 36 (Cls alnum))"

definition SLACK_PATTERN :: rx where
  "SLACK_PATTERN = Seq (lit ''xox'') (Seq (Cls (\<lambda>c. c \<in> set ''baprs''))
     (Seq (lit ''-'') (at_least 10 (Cls alnum))))"

definition PRIVATE_KEY_PATTERN :: rx where
  "PRIVATE_KEY_PATTERN = Seq (lit ''-----BEGIN '') (Seq (opt (Alt (lit ''RSA '') (lit ''EC '')))
     (lit ''PRIVATE KEY-----''))"

definition SECRET_PATTERNS :: "(rx \<times> string) list" where
  "SECRET_PATTERNS = [(OPENAI_PATTERN, ''openai_key''), (AWS_PATTERN, ''aws_access_key''),
     (GITHUB_PATTERN, ''github_pat''), (SLACK_PATTERN, ''slack_token''),
     (PRIVATE_KEY_PATTERN, ''private_key'')]"

definition detectSecrets :: "string \<Rightarrow> bool \<times> string list" where
  "detectSecrets text = detect SECRET_PATTERNS text"

text \<open>\<^verbatim>\<open>Math.ceil(totalChars * 0.005)\<close>, that is \<open>totalChars / 200\<close> rounded up.\<close>

definition estimateCostCents :: "string \<Rightarrow> string \<Rightarrow> int" where
  "estimateCostCents subject draftBody =
     (let totalChars = int (length subject) + int (length draftBody) in (totalChars + 199) div 200)"

section \<open>Checks\<close>

record guardrail_settings =
  gs_maxAutoSendCostCents :: int
  gs_requireApprovalForLowConfidence :: bool
  gs_blockOnPiiDetection :: bool
  gs_minCriticCompletenessScore :: int

record guardrail_context =
  gx_orgId :: string
  gx_ticketId :: string
  gx_agentRunId :: string
  gx_draftBody :: string
  gx_resolverConfidence :: rat
  gx_usedKnowledgeArticleIds :: "string list"
  gx_criticPassed :: bool
  gx_criticSafetyVerdict :: string
  gx_criticCompletenessScore :: rat
  gx_estimatedCostCents :: int
  gx_settings :: guardrail_settings

record check_result =
  ck_guardrailType :: GuardrailType
  ck_decision :: GuardrailDecision
  ck_reason :: string
  ck_metadata :: "json option"

definition check :: "GuardrailType \<Rightarrow> GuardrailDecision \<Rightarrow> string \<Rightarrow> json option \<Rightarrow> check_result" where
  "check ty d r m = \<lparr>ck_guardrailType = ty, ck_decision = d, ck_reason = r, ck_metadata = m\<rparr>"

definition cent_sign :: char where
  "cent_sign = char_of (162 :: nat)"

text \<open>\<^verbatim>\<open>Math.round\<close> and \<^verbatim>\<open>toFixed(2)\<close>.\<close>

definition js_round :: "rat \<Rightarrow> int" where
  "js_round q = \<lfloor>q + 1 / 2\<rfloor>"

definition to_fixed2 :: "rat \<Rightarrow> string" where
  "to_fixed2 q =
     (let n = js_round (100 * \<bar>q\<bar>);
          frac = show_int (n mod 100)
      in (if q < 0 \<and> n \<noteq> 0 then ''-'' else []) @ show_int (n div 100) @ ''.'' @
         (if n mod 100 < 10 then ''0'' else []) @ frac)"

definition checkSafetyPolicy :: "guardrail_context \<Rightarrow> check_result" where
  "checkSafetyPolicy c =
     (let completenessPercent = js_round (gx_criticCompletenessScore c * 100);
          threshold = gs_minCriticCompletenessScore (gx_settings c)
      in if gx_criticSafetyVerdict c = ''blocked''
         then check GuardrailType.SAFETY_POLICY GuardrailDecision.BLOCK
           ''Critic flagged content as blocked'' None
         else if \<not> gx_criticPassed c \<and> completenessPercent < threshold
         then check GuardrailType.SAFETY_POLICY GuardrailDecision.BLOCK
           (''Completeness score '' @ show_int completenessPercent @ ''% below threshold '' @
             show_int threshold @ ''%'')
           (Some (JObj [(''completenessPercent'', j_int completenessPercent), (''threshold'', j_int threshold)]))
         else if \<not> gx_criticPassed c
         then check GuardrailType.SAFETY_POLICY GuardrailDecision.REQUIRE_APPROVAL
           ''Critic did not pass; human review required''
           (Some (JObj [(''completenessPercent'', j_int completenessPercent), (''issues'', JArr [])]))
         else check GuardrailType.SAFETY_POLICY GuardrailDecision.ALLOW ''Safety policy passed'' None)"

definition checkCostLimit :: "guardrail_context \<Rightarrow> check_result" where
  "checkCostLimit c =
     (let cost = gx_estimatedCostCents c; limit = gs_maxAutoSendCostCents (gx_settings c)
      in if cost > limit
         then check GuardrailType.COST_LIMIT GuardrailDecision.REQUIRE_APPROVAL
           (''Estimated cost '' @ show_int cost @ [cent_sign] @ '' exceeds auto-send limit '' @
             show_int limit @ [cent_sign])
           (Some (JObj [(''estimatedCostCents'', j_int cost), (''maxAutoSendCostCents'', j_int limit)]))
         else check GuardrailType.COST_LIMIT GuardrailDecision.ALLOW
           (''Cost '' @ show_int cost @ [cent_sign] @ '' within limit'') None)"

definition checkKnowledgeGrounding :: "guardrail_context \<Rightarrow> check_result" where
  "checkKnowledgeGrounding c =
     (if gx_usedKnowledgeArticleIds c = []
      then check GuardrailType.KNOWLEDGE_GROUNDING GuardrailDecision.REQUIRE_APPROVAL
        ''Response not grounded in any knowledge base articles'' None
      else check GuardrailType.KNOWLEDGE_GROUNDING GuardrailDecision.ALLOW
        (''Grounded in '' @ show_nat (length (gx_usedKnowledgeArticleIds c)) @ '' article(s)'')
        (Some (JObj [(''articleIds'', JArr (map JStr (gx_usedKnowledgeArticleIds c)))])))"

definition checkPiiDetection :: "guardrail_context \<Rightarrow> check_result" where
  "checkPiiDetection c =
     (let (detected, types) = detectPii (gx_draftBody c)
      in if detected
         then check GuardrailType.PII_DETECTION
           (if gs_blockOnPiiDetection (gx_settings c) then GuardrailDecision.BLOCK
            else GuardrailDecision.REQUIRE_APPROVAL)
           (''PII detected: '' @ join_with '', '' types)
           (Some (JObj [(''piiTypes'', JArr (map JStr types))]))
         else check GuardrailType.PII_DETECTION GuardrailDecision.ALLOW ''No PII detected'' None)"

definition checkSecretDetection :: "guardrail_context \<Rightarrow> check_result" where
  "checkSecretDetection c =
     (let (detected, types) = detectSecrets (gx_draftBody c)
      in if detected
         then check GuardrailType.SECRET_DETECTION GuardrailDecision.BLOCK
           (''Secrets detected: '' @ join_with '', '' types)
           (Some (JObj [(''secretTypes'', JArr (map JStr types))]))
         else check GuardrailType.SECRET_DETECTION GuardrailDecision.ALLOW ''No secrets detected'' None)"

definition checkAutoSendPolicy :: "guardrail_context \<Rightarrow> check_result" where
  "checkAutoSendPolicy c =
     (if gs_requireApprovalForLowConfidence (gx_settings c) \<and> gx_resolverConfidence c < 7 / 10
      then check GuardrailType.AUTO_SEND_POLICY GuardrailDecision.REQUIRE_APPROVAL
        (''Resolver confidence '' @ to_fixed2 (gx_resolverConfidence c) @ '' below threshold 0.70'')
        (Some (JObj [(''resolverConfidence'', JNum (gx_resolverConfidence c))]))
      else check GuardrailType.AUTO_SEND_POLICY GuardrailDecision.ALLOW
        ''Confidence sufficient for auto-send'' None)"

definition guardrail_checks :: "guardrail_context \<Rightarrow> check_result list" where
  "guardrail_checks c = [checkSafetyPolicy c, checkCostLimit c, checkKnowledgeGrounding c,
     checkPiiDetection c, checkSecretDetection c, checkAutoSendPolicy c]"

primrec DECISION_RANK :: "GuardrailDecision \<Rightarrow> nat" where
  "DECISION_RANK GuardrailDecision.ALLOW = 0"
| "DECISION_RANK GuardrailDecision.REQUIRE_APPROVAL = 1"
| "DECISION_RANK GuardrailDecision.BLOCK = 2"

definition aggregate_checks :: "check_result list \<Rightarrow> GuardrailDecision" where
  "aggregate_checks checks =
     foldl (\<lambda>aggregate c. if DECISION_RANK (ck_decision c) > DECISION_RANK aggregate then ck_decision c
                          else aggregate) GuardrailDecision.ALLOW checks"

definition persistChecks :: "ext \<Rightarrow> guardrail_context \<Rightarrow> check_result list \<Rightarrow> unit act" where
  "persistChecks E c checks =
     transaction (for_x checks (\<lambda>k.
       bind_x (create_row E agentGuardrailCheck_t (\<lambda>i now. blank_guardrail_check\<lparr>gc_id := i,
         gc_createdAt := now, gc_orgId := gx_orgId c, gc_ticketId := gx_ticketId c,
         gc_agentRunId := Some (gx_agentRunId c), gc_guardrailType := ck_guardrailType k,
         gc_decision := ck_decision k, gc_reason := Some (ck_reason k),
         gc_metadata := ck_metadata k\<rparr>)) (\<lambda>_. ret_x ())))"

definition runAll :: "ext \<Rightarrow> guardrail_context \<Rightarrow> (check_result list \<times> GuardrailDecision) act" where
  "runAll E c =
     (let checks = guardrail_checks c
      in then_x (persistChecks E c checks) (ret_x (checks, aggregate_checks checks)))"

section \<open>The decision\<close>

lemma aggregate_fold:
  "DECISION_RANK (foldl (\<lambda>a c. if DECISION_RANK (ck_decision c) > DECISION_RANK a then ck_decision c else a) d cs) =
   foldl max (DECISION_RANK d) (map (\<lambda>c. DECISION_RANK (ck_decision c)) cs)"
  by (induction cs arbitrary: d) (auto simp: max_def)

lemma rank_inj: "DECISION_RANK a = DECISION_RANK b \<longleftrightarrow> a = b"
  by (cases a; cases b) simp_all

lemma foldl_max_nat: "(k::nat) \<le> foldl max m ns \<longleftrightarrow> k \<le> m \<or> (\<exists>n \<in> set ns. k \<le> n)"
  by (induction ns arbitrary: m) (auto simp: le_max_iff_disj)

lemma rank_bounds: "2 \<le> DECISION_RANK d \<longleftrightarrow> d = GuardrailDecision.BLOCK"
  "Suc 0 \<le> DECISION_RANK d \<longleftrightarrow> d \<noteq> GuardrailDecision.ALLOW"
  by (cases d; simp)+

lemma aggregate_iff:
  "(aggregate_checks cs = GuardrailDecision.BLOCK \<longleftrightarrow> (\<exists>c \<in> set cs. ck_decision c = GuardrailDecision.BLOCK)) \<and>
   (aggregate_checks cs = GuardrailDecision.ALLOW \<longleftrightarrow> list_all (\<lambda>c. ck_decision c = GuardrailDecision.ALLOW) cs)"
proof -
  let ?r = "DECISION_RANK (aggregate_checks cs)"
  have r: "k \<le> ?r \<longleftrightarrow> k \<le> 0 \<or> (\<exists>c \<in> set cs. k \<le> DECISION_RANK (ck_decision c))" for k
    unfolding aggregate_checks_def aggregate_fold foldl_max_nat by simp
  show ?thesis
    using r [of 2] r [of "Suc 0"] by (auto simp: rank_bounds list_all_iff)
qed

text \<open>C13: The decision over all checks is the strictest one: it blocks exactly when some check blocks,
  and allows exactly when every check allows.\<close>

theorem aggregate_checks_spec:
  "(aggregate_checks cs = GuardrailDecision.BLOCK \<longleftrightarrow> (\<exists>c \<in> set cs. ck_decision c = GuardrailDecision.BLOCK)) \<and>
   (aggregate_checks cs = GuardrailDecision.ALLOW \<longleftrightarrow> list_all (\<lambda>c. ck_decision c = GuardrailDecision.ALLOW) cs)"
  by (rule aggregate_iff)

section \<open>Secrets\<close>

text \<open>What a reply must not contain: the five key and token shapes of the detector.\<close>

definition openai_key :: "string \<Rightarrow> bool" where
  "openai_key t \<longleftrightarrow> (\<exists>k. t = ''sk-'' @ k \<and> 20 \<le> length k \<and> list_all alnum k)"

definition aws_key :: "string \<Rightarrow> bool" where
  "aws_key t \<longleftrightarrow> (\<exists>k. t = ''AKIA'' @ k \<and> length k = 16 \<and> list_all (\<lambda>c. is_digit c \<or> is_upper c) k)"

definition github_token :: "string \<Rightarrow> bool" where
  "github_token t \<longleftrightarrow> (\<exists>k. t = ''ghp_'' @ k \<and> length k = 36 \<and> list_all alnum k)"

definition slack_token :: "string \<Rightarrow> bool" where
  "slack_token t \<longleftrightarrow> (\<exists>c k. t = ''xox'' @ [c] @ ''-'' @ k \<and> c \<in> set ''baprs'' \<and> 10 \<le> length k \<and> list_all alnum k)"

definition private_key_header :: "string \<Rightarrow> bool" where
  "private_key_header t \<longleftrightarrow>
     (\<exists>w \<in> {''RSA '', ''EC '', []}. t = ''-----BEGIN '' @ w @ ''PRIVATE KEY-----'')"

definition secret_token :: "string \<Rightarrow> bool" where
  "secret_token t \<longleftrightarrow> openai_key t \<or> aws_key t \<or> github_token t \<or> slack_token t \<or> private_key_header t"

lemma secret_languages:
  "language OPENAI_PATTERN openai_key" "language AWS_PATTERN aws_key" "language GITHUB_PATTERN github_token"
  unfolding OPENAI_PATTERN_def AWS_PATTERN_def GITHUB_PATTERN_def
    openai_key_def [abs_def] aws_key_def [abs_def] github_token_def [abs_def]
  by (rule lang_prefix language_at_least language_times)+

lemma slack_language: "language SLACK_PATTERN slack_token"
  unfolding SLACK_PATTERN_def
proof (rule language_cong [OF lang_prefix [OF language_seq [OF language_cls lang_prefix [OF language_at_least]]]])
  show "(\<exists>k. u = ''xox'' @ k \<and> (\<exists>v w. k = v @ w \<and> (\<exists>c. v = [c] \<and> c \<in> set ''baprs'') \<and>
      (\<exists>k. w = ''-'' @ k \<and> 10 \<le> length k \<and> list_all alnum k))) = slack_token u" for u
    unfolding slack_token_def by blast
qed

lemma private_key_language: "language PRIVATE_KEY_PATTERN private_key_header"
  unfolding PRIVATE_KEY_PATTERN_def private_key_header_def [abs_def]
proof (rule lang_between)
  show "language (opt (Alt (lit ''RSA '') (lit ''EC ''))) (\<lambda>w. (w = ''RSA '' \<or> w = ''EC '') \<or> w = [])"
    by (rule language_opt [OF language_alt [OF language_lit language_lit]])
  show "((w = ''RSA '' \<or> w = ''EC '') \<or> w = []) \<longleftrightarrow> w \<in> {''RSA '', ''EC '', []}" for w
    unfolding insert_iff empty_iff by blast
qed

text \<open>C15: The secret detector fires exactly on texts that contain a token of one of the five shapes.\<close>

theorem detectSecrets_iff:
  "fst (detectSecrets text) \<longleftrightarrow> (\<exists>a t b. text = a @ t @ b \<and> secret_token t)"
proof -
  have "fst (detectSecrets text) \<longleftrightarrow> rx_test OPENAI_PATTERN text \<or> rx_test AWS_PATTERN text \<or>
      rx_test GITHUB_PATTERN text \<or> rx_test SLACK_PATTERN text \<or> rx_test PRIVATE_KEY_PATTERN text"
    by (simp add: detectSecrets_def detect_def SECRET_PATTERNS_def)
  also have "\<dots> \<longleftrightarrow> (\<exists>a t b. text = a @ t @ b \<and> secret_token t)"
    unfolding secret_languages [THEN rx_test_language] rx_test_language [OF slack_language]
      rx_test_language [OF private_key_language]
    by (simp only: secret_token_def conj_disj_distribL ex_disj_distrib)
  finally show ?thesis .
qed

text \<open>C14: A reply is allowed to go out without a human exactly when the critic passed it and did not
  block it, its cost is within the organisation's limit, it cites some article, neither detector
  fires on it, and the resolver was confident where the organisation asks for that. A critic
  verdict other than \<^verbatim>\<open>blocked\<close> does not matter once the critic passed.\<close>

theorem auto_allow_iff:
  "aggregate_checks (guardrail_checks c) = GuardrailDecision.ALLOW \<longleftrightarrow>
     gx_criticPassed c \<and> gx_criticSafetyVerdict c \<noteq> ''blocked'' \<and>
     gx_estimatedCostCents c \<le> gs_maxAutoSendCostCents (gx_settings c) \<and>
     gx_usedKnowledgeArticleIds c \<noteq> [] \<and>
     \<not> fst (detectPii (gx_draftBody c)) \<and> \<not> fst (detectSecrets (gx_draftBody c)) \<and>
     (if gs_requireApprovalForLowConfidence (gx_settings c) then 7 / 10 \<le> gx_resolverConfidence c else True)"
  using aggregate_iff [of "guardrail_checks c"]
  by (auto simp: guardrail_checks_def checkSafetyPolicy_def checkCostLimit_def checkKnowledgeGrounding_def
      checkPiiDetection_def checkSecretDetection_def checkAutoSendPolicy_def check_def Let_def
      split: prod.splits if_splits)

end
