(* ===== verification/Processor.thy ===== *)
theory Processor
  imports Guardrails Llm Tables
begin

text \<open>
  \<^verbatim>\<open>apps/worker/src/support.processor.ts\<close>: one job of the support queue runs the agents on a
  ticket, checks the drafted reply and leaves a draft with the approval it needs. The agent
  pipeline is the argument \<open>runPipeline\<close> here; \<^verbatim>\<open>Runtime\<close> provides it.
\<close>

section \<open>Jobs and results\<close>

record support_job =
  sj_id :: string
  sj_name :: string
  sj_queueName :: string
  sj_attemptsMade :: int
  sj_attempts :: "int option"
  sj_data :: json

definition job_field :: "support_job \<Rightarrow> string \<Rightarrow> string" where
  "job_field job k = nullish (j_get_str k (sj_data job)) []"

definition jb_orgId :: "support_job \<Rightarrow> string" where "jb_orgId job = job_field job ''orgId''"
definition jb_runId :: "support_job \<Rightarrow> string" where "jb_runId job = job_field job ''runId''"
definition jb_ticketId :: "support_job \<Rightarrow> string" where "jb_ticketId job = job_field job ''ticketId''"
definition jb_subject :: "support_job \<Rightarrow> string" where "jb_subject job = job_field job ''subject''"
definition jb_body :: "support_job \<Rightarrow> string" where "jb_body job = job_field job ''body''"

definition jb_correlationId :: "support_job \<Rightarrow> string" where
  "jb_correlationId job = nullish (j_get_str ''correlationId'' (sj_data job)) (''job-'' @ sj_id job)"

definition jb_attemptNumber :: "support_job \<Rightarrow> int" where
  "jb_attemptNumber job = sj_attemptsMade job + 1"

record pipeline_result =
  pl_resolver :: resolver_output
  pl_critic :: critic_output
  pl_estimatedCostCents :: "int option"

record pipeline_input =
  pn_orgId :: string
  pn_ticketId :: string
  pn_runId :: string
  pn_subject :: string
  pn_body :: string

datatype job_outcome = JobHello | JobUnknown | JobSkipped | JobFinished AgentRunStatus | JobBlocked

definition TERMINAL_RUN_STATUSES :: "AgentRunStatus set" where
  "TERMINAL_RUN_STATUSES = {AgentRunStatus.SUCCEEDED, AgentRunStatus.BLOCKED}"

definition SUPPORT_DEAD_LETTER_QUEUE_NAME :: string where
  "SUPPORT_DEAD_LETTER_QUEUE_NAME = ''support-dead-letter''"

section \<open>Events, draft, approval\<close>

definition sp_appendAgentEvent ::
  "ext \<Rightarrow> string \<Rightarrow> string \<Rightarrow> string \<Rightarrow> AgentEventType \<Rightarrow> json \<Rightarrow> unit act" where
  "sp_appendAgentEvent E orgId ticketId runId ty payload =
     transaction (bind_x (append_event E orgId ticketId (Some runId) ty payload) (\<lambda>_. ret_x ()))"

definition appendAgentEventOnce ::
  "ext \<Rightarrow> string \<Rightarrow> string \<Rightarrow> string \<Rightarrow> AgentEventType \<Rightarrow> json \<Rightarrow> unit act" where
  "appendAgentEventOnce E orgId ticketId runId ty payload =
     bind_x (find_first agentEvent_t (\<lambda>e. ev_orgId e = orgId \<and> ev_ticketId e = ticketId \<and>
         ev_runId e = Some runId \<and> ev_type e = ty)) (\<lambda>existing.
       case existing of
         Some _ \<Rightarrow> ret_x ()
       | None \<Rightarrow> sp_appendAgentEvent E orgId ticketId runId ty payload)"

definition agent_approval :: "DraftStatus \<Rightarrow> string option \<times> ActorType option" where
  "agent_approval status =
     (if status = DraftStatus.APPROVED then (Some ''agent'', Some ActorType.AGENT) else (None, None))"

definition ensureRunDraft ::
  "ext \<Rightarrow> string \<Rightarrow> string \<Rightarrow> string \<Rightarrow> string \<Rightarrow> DraftStatus \<Rightarrow> outbound_draft act" where
  "ensureRunDraft E orgId ticketId runId body status =
     bind_x (find_first_asc outboundDraft_t (\<lambda>d. dr_orgId d = orgId \<and> dr_ticketId d = ticketId \<and>
         dr_agentRunId d = Some runId \<and> dr_createdByType d = ActorType.AGENT) dr_createdAt) (\<lambda>existing.
       case existing of
         Some d \<Rightarrow> update_row E outboundDraft_t (\<lambda>x. dr_id x = dr_id d) (\<lambda>x. x\<lparr>
             dr_body := body, dr_status := status, dr_approvedBy := fst (agent_approval status),
             dr_approvedByType := snd (agent_approval status)\<rparr>)
       | None \<Rightarrow> create_row E outboundDraft_t (\<lambda>i now. blank_outbound_draft\<lparr>dr_id := i,
             dr_createdAt := now, dr_orgId := orgId, dr_ticketId := ticketId,
             dr_agentRunId := Some runId, dr_body := body, dr_status := status,
             dr_createdBy := ''agent'', dr_createdByType := ActorType.AGENT,
             dr_approvedBy := fst (agent_approval status),
             dr_approvedByType := snd (agent_approval status)\<rparr>))"

definition ensureApproval ::
  "ext \<Rightarrow> string \<Rightarrow> string \<Rightarrow> string \<Rightarrow> string \<Rightarrow> string \<Rightarrow> human_approval act" where
  "ensureApproval E orgId ticketId runId draftId proposedResponse =
     bind_x (find_first_desc humanApproval_t (\<lambda>a. ap_orgId a = orgId \<and> ap_ticketId a = ticketId \<and>
         ap_agentRunId a = Some runId \<and> ap_outboundDraftId a = Some draftId) ap_createdAt) (\<lambda>existing.
       case existing of
         Some a \<Rightarrow> ret_x a
       | None \<Rightarrow> create_row E humanApproval_t (\<lambda>i now. blank_human_approval\<lparr>ap_id := i,
           ap_createdAt := now, ap_orgId := orgId, ap_ticketId := ticketId,
           ap_agentRunId := Some runId, ap_outboundDraftId := Some draftId,
           ap_status := ApprovalStatus.PENDING, ap_proposedResponse := Some proposedResponse\<rparr>))"

definition recordOperationalFailure ::
  "ext \<Rightarrow> support_job \<Rightarrow> string \<Rightarrow> string \<Rightarrow> int \<Rightarrow> string act" where
  "recordOperationalFailure E job errorCode safeErrorMessage attemptCount =
     bind_x (find_first_desc operationalFailure_t (\<lambda>f. of_runId f = Some (jb_runId job) \<and>
         of_queueName f = sj_queueName job \<and> of_jobName f = sj_name job \<and>
         of_resolvedAt f = None) of_failedAt) (\<lambda>existing.
       case existing of
         Some f \<Rightarrow>
           bind_x (now_x E) (\<lambda>now.
           then_x (update_row E operationalFailure_t (\<lambda>x. of_id x = of_id f) (\<lambda>x. x\<lparr>
             of_jobId := Some (sj_id job), of_correlationId := j_get_str ''correlationId'' (sj_data job),
             of_errorCode := errorCode, of_safeErrorMessage := safeErrorMessage,
             of_attemptCount := attemptCount,
             of_payloadSummaryJson := Some (sanitize_top E (sj_data job)), of_failedAt := now\<rparr>))
             (ret_x (of_id f)))
       | None \<Rightarrow>
           bind_x (create_row E operationalFailure_t (\<lambda>i now. blank_operational_failure\<lparr>of_id := i,
             of_failedAt := now, of_organizationId := Some (jb_orgId job),
             of_queueName := sj_queueName job, of_jobName := sj_name job,
             of_jobId := Some (sj_id job), of_correlationId := j_get_str ''correlationId'' (sj_data job),
             of_ticketId := Some (jb_ticketId job), of_runId := Some (jb_runId job),
             of_errorCode := errorCode, of_safeErrorMessage := safeErrorMessage,
             of_attemptCount := attemptCount,
             of_payloadSummaryJson := Some (sanitize_top E (sj_data job))\<rparr>)) (\<lambda>f. ret_x (of_id f)))"

section \<open>The successful path\<close>

definition start_run :: "ext \<Rightarrow> support_job \<Rightarrow> string \<Rightarrow> unit act" where
  "start_run E job trigger =
     then_x (metric_x ''incrementQueueStarted'' [sj_name job])
     (then_x (metric_x ''incrementAgentRun'' [''running'', to_lower trigger])
     (bind_x (now_x E) (\<lambda>startedAt.
      then_x (update_row E agentRun_t (\<lambda>r. run_id r = jb_runId job) (\<lambda>r. r\<lparr>
          run_status := AgentRunStatus.RUNNING, run_startedAt := Some startedAt,
          run_attemptCount := jb_attemptNumber job, run_correlationId := Some (jb_correlationId job),
          run_failureStage := None, run_lastErrorCode := None, run_lastErrorMessage := None\<rparr>))
        (appendAgentEventOnce E (jb_orgId job) (jb_ticketId job) (jb_runId job)
          AgentEventType.RUN_STARTED (JObj [(''jobId'', JStr (sj_id job)),
            (''subject'', JStr (jb_subject job)), (''attemptNumber'', j_int (jb_attemptNumber job))])))))"

definition run_cost :: "support_job \<Rightarrow> pipeline_result \<Rightarrow> int" where
  "run_cost job pipeline =
     (let pipelineCost = nullish (pl_estimatedCostCents pipeline) 0
      in if pipelineCost > 0 then pipelineCost
         else estimateCostCents (jb_subject job) (ro_draftBody (pl_resolver pipeline)))"

definition guardrail_context_of ::
  "support_job \<Rightarrow> pipeline_result \<Rightarrow> org_settings \<Rightarrow> guardrail_context" where
  "guardrail_context_of job pipeline settings =
     \<lparr>gx_orgId = jb_orgId job, gx_ticketId = jb_ticketId job, gx_agentRunId = jb_runId job,
      gx_draftBody = ro_draftBody (pl_resolver pipeline),
      gx_resolverConfidence = ro_confidence (pl_resolver pipeline),
      gx_usedKnowledgeArticleIds = ro_usedKnowledgeArticleIds (pl_resolver pipeline),
      gx_criticPassed = co_passed (pl_critic pipeline),
      gx_criticSafetyVerdict = co_safetyVerdict (pl_critic pipeline),
      gx_criticCompletenessScore = co_completenessScore (pl_critic pipeline),
      gx_estimatedCostCents = run_cost job pipeline,
      gx_settings = \<lparr>gs_maxAutoSendCostCents = os_maxAutoSendCostCents settings,
        gs_requireApprovalForLowConfidence = os_requireApprovalForLowConfidence settings,
        gs_blockOnPiiDetection = os_blockOnPiiDetection settings,
        gs_minCriticCompletenessScore = os_minCriticCompletenessScore settings\<rparr>\<rparr>"

text \<open>The event a failed check leaves; the other two kinds of check leave none.\<close>

definition check_event :: "check_result \<Rightarrow> (AgentEventType \<times> json) option" where
  "check_event c =
     (let full = JObj [(''reason'', JStr (ck_reason c)), (''metadata'', nullish (ck_metadata c) JNull)]
      in if ck_decision c = GuardrailDecision.ALLOW then None
         else case ck_guardrailType c of
           GuardrailType.PII_DETECTION \<Rightarrow> Some (AgentEventType.GUARDRAIL_PII_DETECTED, full)
         | GuardrailType.SECRET_DETECTION \<Rightarrow> Some (AgentEventType.GUARDRAIL_SECRET_DETECTED, full)
         | GuardrailType.COST_LIMIT \<Rightarrow> Some (AgentEventType.GUARDRAIL_COST_LIMIT_EXCEEDED, full)
         | GuardrailType.KNOWLEDGE_GROUNDING \<Rightarrow>
             Some (AgentEventType.GUARDRAIL_KNOWLEDGE_GROUNDING_FAILED,
               JObj [(''reason'', JStr (ck_reason c))])
         | _ \<Rightarrow> None)"

definition report_check :: "ext \<Rightarrow> support_job \<Rightarrow> check_result \<Rightarrow> unit act" where
  "report_check E job c =
     then_x (metric_x ''incrementGuardrailOutcome''
         [to_lower (name_of_GuardrailType (ck_guardrailType c)),
          to_lower (name_of_GuardrailDecision (ck_decision c))])
       (case check_event c of
          None \<Rightarrow> ret_x ()
        | Some e \<Rightarrow> sp_appendAgentEvent E (jb_orgId job) (jb_ticketId job) (jb_runId job) (fst e) (snd e))"

definition draft_status_for :: "GuardrailDecision \<Rightarrow> bool \<Rightarrow> DraftStatus" where
  "draft_status_for aggregate requireHumanApproval =
     (if aggregate = GuardrailDecision.BLOCK then DraftStatus.DRAFT
      else if aggregate = GuardrailDecision.REQUIRE_APPROVAL then DraftStatus.PENDING_APPROVAL
      else if requireHumanApproval then DraftStatus.PENDING_APPROVAL
      else DraftStatus.APPROVED)"

definition settle_decision ::
  "ext \<Rightarrow> support_job \<Rightarrow> check_result list \<Rightarrow> GuardrailDecision \<Rightarrow> bool \<Rightarrow> outbound_draft \<Rightarrow> string \<Rightarrow>
   unit act" where
  "settle_decision E job checks aggregate requireHumanApproval draft draftBody =
     (let once = appendAgentEventOnce E (jb_orgId job) (jb_ticketId job) (jb_runId job)
      in if aggregate = GuardrailDecision.BLOCK
         then once AgentEventType.GUARDRAIL_BLOCKED (JObj [(''draftId'', JStr (dr_id draft)),
           (''checks'', JArr (map (\<lambda>c. JObj [
              (''type'', JStr (name_of_GuardrailType (ck_guardrailType c))),
              (''decision'', JStr (name_of_GuardrailDecision (ck_decision c))),
              (''reason'', JStr (ck_reason c))]) checks))])
         else if aggregate = GuardrailDecision.REQUIRE_APPROVAL \<or> requireHumanApproval
         then then_x (ensureApproval E (jb_orgId job) (jb_ticketId job) (jb_runId job) (dr_id draft) draftBody)
           (then_x (metric_x ''incrementApprovalRequired''
              [if aggregate = GuardrailDecision.REQUIRE_APPROVAL then ''guardrail'' else ''policy''])
             (once (if aggregate = GuardrailDecision.REQUIRE_APPROVAL
                    then AgentEventType.GUARDRAIL_REQUIRES_APPROVAL
                    else AgentEventType.HUMAN_APPROVAL_CREATED)
               (JObj [(''draftId'', JStr (dr_id draft)), (''status'', JStr ''PENDING'')])))
         else then_x (once AgentEventType.GUARDRAIL_CHECK_PASSED (JObj [(''draftId'', JStr (dr_id draft)),
             (''checksCount'', j_int (int (length checks)))]))
           (once AgentEventType.DRAFT_AUTO_APPROVED (JObj [(''draftId'', JStr (dr_id draft)),
             (''status'', JStr ''APPROVED''), (''actorType'', JStr ''AGENT'')])))"

definition final_status :: "GuardrailDecision \<Rightarrow> AgentRunStatus" where
  "final_status aggregate =
     (if aggregate = GuardrailDecision.BLOCK then AgentRunStatus.BLOCKED else AgentRunStatus.SUCCEEDED)"

definition finish_run ::
  "ext \<Rightarrow> support_job \<Rightarrow> string \<Rightarrow> AgentRunStatus \<Rightarrow> int \<Rightarrow> job_outcome act" where
  "finish_run E job trigger finalStatus costCents =
     (let label = (if finalStatus = AgentRunStatus.BLOCKED then ''blocked'' else ''success'')
      in bind_x (elapsed_x E) (\<lambda>durationMs.
         then_x (appendAgentEventOnce E (jb_orgId job) (jb_ticketId job) (jb_runId job)
             AgentEventType.RUN_FINISHED
             (JObj [(''status'', JStr (name_of_AgentRunStatus finalStatus))]))
         (bind_x (now_x E) (\<lambda>finishedAt.
          then_x (update_row E agentRun_t (\<lambda>r. run_id r = jb_runId job) (\<lambda>r. r\<lparr>
             run_status := finalStatus, run_finishedAt := Some finishedAt,
             run_durationMs := Some durationMs, run_totalCostCents := costCents,
             run_attemptCount := jb_attemptNumber job\<rparr>))
         (then_x (metric_x ''incrementQueueCompleted'' [sj_name job])
         (then_x (metric_x ''observeQueueDuration'' [sj_name job, label])
         (then_x (metric_x ''incrementAgentRun'' [label, to_lower trigger])
         (then_x (metric_x ''observeAgentRunDuration'' [label])
           (ret_x (JobFinished finalStatus))))))))))"

definition attempt_run ::
  "ext \<Rightarrow> (pipeline_input \<Rightarrow> pipeline_result act) \<Rightarrow> support_job \<Rightarrow> string \<Rightarrow> job_outcome act" where
  "attempt_run E runPipeline job trigger =
     then_x (start_run E job trigger)
     (bind_x (runPipeline \<lparr>pn_orgId = jb_orgId job, pn_ticketId = jb_ticketId job,
         pn_runId = jb_runId job, pn_subject = jb_subject job, pn_body = jb_body job\<rparr>) (\<lambda>pipeline.
      bind_x (upsert_row E organizationSettings_t (\<lambda>s. os_orgId s = jb_orgId job) None
         (\<lambda>i now. blank_org_settings\<lparr>os_id := i, os_createdAt := now, os_orgId := jb_orgId job\<rparr>)) (\<lambda>settings.
      let draftBody = ro_draftBody (pl_resolver pipeline); costCents = run_cost job pipeline
      in then_x (sp_appendAgentEvent E (jb_orgId job) (jb_ticketId job) (jb_runId job)
           AgentEventType.GUARDRAIL_STARTED (JObj [(''estimatedCostCents'', j_int costCents)]))
        (bind_x (runAll E (guardrail_context_of job pipeline settings)) (\<lambda>result.
         then_x (for_x (fst result) (report_check E job))
         (bind_x (ensureRunDraft E (jb_orgId job) (jb_ticketId job) (jb_runId job) draftBody
            (draft_status_for (snd result) (os_requireHumanApproval settings))) (\<lambda>draft.
          then_x (metric_x ''incrementDraftCreated'' [''agent''])
          (then_x (appendAgentEventOnce E (jb_orgId job) (jb_ticketId job) (jb_runId job)
             AgentEventType.DRAFT_CREATED (JObj [(''draftId'', JStr (dr_id draft)),
               (''status'', JStr (name_of_DraftStatus (dr_status draft))), (''actorType'', JStr ''AGENT'')]))
          (then_x (settle_decision E job (fst result) (snd result) (os_requireHumanApproval settings)
             draft draftBody)
            (finish_run E job trigger (final_status (snd result)) costCents)))))))))) "

section \<open>Failures\<close>

definition unrecoverable :: "string \<Rightarrow> js_error" where
  "unrecoverable m = (plain_error m)\<lparr>er_name := ''UnrecoverableError''\<rparr>"

definition has_remaining_attempts :: "support_job \<Rightarrow> bool" where
  "has_remaining_attempts job \<longleftrightarrow>
     jb_attemptNumber job < nullish (sj_attempts job) (jb_attemptNumber job)"

definition block_run :: "ext \<Rightarrow> support_job \<Rightarrow> string \<Rightarrow> int \<Rightarrow> job_outcome act" where
  "block_run E job trigger durationMs =
     bind_x (now_x E) (\<lambda>finishedAt.
     then_x (update_row E agentRun_t (\<lambda>r. run_id r = jb_runId job) (\<lambda>r. r\<lparr>
         run_status := AgentRunStatus.BLOCKED, run_finishedAt := Some finishedAt,
         run_durationMs := Some durationMs, run_attemptCount := jb_attemptNumber job\<rparr>))
     (then_x (metric_x ''observeQueueDuration'' [sj_name job, ''blocked''])
     (then_x (metric_x ''incrementAgentRun'' [''blocked'', to_lower trigger])
     (then_x (metric_x ''observeAgentRunDuration'' [''blocked''])
       (ret_x JobBlocked)))))"

definition fail_run :: "ext \<Rightarrow> support_job \<Rightarrow> string \<Rightarrow> int \<Rightarrow> retry_classification \<Rightarrow> unit act" where
  "fail_run E job trigger durationMs c =
     (let code = ser_errorCode (rc_serialized c); msg = ser_message (rc_serialized c)
      in then_x (appendAgentEventOnce E (jb_orgId job) (jb_ticketId job) (jb_runId job)
           AgentEventType.RUN_FAILED (JObj [(''errorCode'', JStr code), (''message'', JStr msg),
             (''attemptNumber'', j_int (jb_attemptNumber job))]))
        (bind_x (now_x E) (\<lambda>finishedAt.
         then_x (update_row E agentRun_t (\<lambda>r. run_id r = jb_runId job) (\<lambda>r. r\<lparr>
           run_status := AgentRunStatus.FAILED, run_errorCode := Some code,
           run_errorMessage := Some msg, run_lastErrorCode := Some code,
           run_lastErrorMessage := Some msg, run_failureStage := Some ''support.processor'',
           run_finishedAt := Some finishedAt, run_durationMs := Some durationMs,
           run_attemptCount := jb_attemptNumber job\<rparr>))
         (then_x (metric_x ''incrementQueueFailed'' [sj_name job, rc_metricOutcome c])
         (then_x (metric_x ''observeQueueDuration'' [sj_name job, rc_metricOutcome c])
         (then_x (metric_x ''incrementAgentRun'' [''failed'', to_lower trigger])
           (metric_x ''observeAgentRunDuration'' [''failed'']))))))) "

definition dead_letter :: "ext \<Rightarrow> support_job \<Rightarrow> retry_classification \<Rightarrow> unit act" where
  "dead_letter E job c =
     bind_x (recordOperationalFailure E job (ser_errorCode (rc_serialized c))
         (ser_message (rc_serialized c)) (jb_attemptNumber job)) (\<lambda>failureId.
     then_x (metric_x ''incrementDeadLetter'' [sj_name job, rc_metricOutcome c])
     (bind_x (queue_add E \<lparr>qc_queue = SUPPORT_DEAD_LETTER_QUEUE_NAME,
         qc_name = ''ticket.process.failed'',
         qc_payload = JObj [(''failureId'', JStr failureId), (''queueName'', JStr (sj_queueName job)),
           (''originalJobId'', JStr (sj_id job)), (''runId'', JStr (jb_runId job)),
           (''ticketId'', JStr (jb_ticketId job)), (''correlationId'', JStr (jb_correlationId job))],
         qc_jobId = Some (''dead-letter-'' @ sj_id job), qc_delay = None\<rparr>) (\<lambda>_. ret_x ())))"

definition fail_job :: "ext \<Rightarrow> support_job \<Rightarrow> string \<Rightarrow> js_error \<Rightarrow> job_outcome act" where
  "fail_job E job trigger err =
     (let c = classifyRetryableError E err
      in bind_x (elapsed_x E) (\<lambda>durationMs.
         if rc_disposition c = BLOCKED then block_run E job trigger durationMs
         else then_x (fail_run E job trigger durationMs c)
           (if rc_retryable c \<and> has_remaining_attempts job
            then then_x (metric_x ''incrementQueueRetried'' [sj_name job, rc_metricOutcome c])
              (throw_x err)
            else then_x (when_x (rc_shouldDeadLetter c) (dead_letter E job c))
              (if rc_useUnrecoverableError c
               then throw_x (unrecoverable (ser_message (rc_serialized c)))
               else throw_x err))))"

section \<open>The job\<close>

definition processTicketJob ::
  "ext \<Rightarrow> (pipeline_input \<Rightarrow> pipeline_result act) \<Rightarrow> support_job \<Rightarrow> job_outcome act" where
  "processTicketJob E runPipeline job =
     with_context \<lparr>co_correlationId = Some (jb_correlationId job),
         co_retryAttempt = Some (jb_attemptNumber job)\<rparr>
       (bind_x (find_first agentRun_t (\<lambda>r. run_id r = jb_runId job)) (\<lambda>existingRun.
        let trigger = nullish (nullish2 (j_get_str ''triggerType'' (sj_data job))
              (map_option (\<lambda>r. name_of_AgentRunTrigger (run_trigger r)) existingRun)) ''ticket_created''
        in case existingRun of
             Some r \<Rightarrow>
               if run_status r \<in> TERMINAL_RUN_STATUSES then ret_x JobSkipped
               else catch_x (attempt_run E runPipeline job trigger) (fail_job E job trigger)
           | None \<Rightarrow> catch_x (attempt_run E runPipeline job trigger) (fail_job E job trigger)))"

definition process_job ::
  "ext \<Rightarrow> (pipeline_input \<Rightarrow> pipeline_result act) \<Rightarrow> support_job \<Rightarrow> job_outcome act" where
  "process_job E runPipeline job =
     (if sj_name job = ''ticket.process'' then processTicketJob E runPipeline job
      else if sj_name job = ''hello'' then ret_x JobHello
      else ret_x JobUnknown)"

interpretation sp: event_log "\<lambda>orgId ticketId ty payload. sp_appendAgentEvent E orgId ticketId runId ty payload"
    "Some runId" for E runId
proof
  fix orgId ticketId ty payload w a
  assume "fst (sp_appendAgentEvent E orgId ticketId runId ty payload w) = Inr (a :: unit)"
  then show "appended orgId ticketId ty payload (Some runId) (db w)
      (db (snd (sp_appendAgentEvent E orgId ticketId runId ty payload w)))"
    using append_event_spec(1) [of E orgId ticketId "Some runId" ty payload w]
    by (auto simp: sp_appendAgentEvent_def run_simps split: sum.splits)
next
  fix orgId ticketId ty payload w e
  assume "fst (sp_appendAgentEvent E orgId ticketId runId ty payload w) = Inl e"
  then show "db (snd (sp_appendAgentEvent E orgId ticketId runId ty payload w)) = db w"
    by (auto simp: sp_appendAgentEvent_def run_simps split: sum.splits)
qed

section \<open>Runs that are done, and drafts of runs that are done again\<close>

text \<open>A job for a run that has succeeded or was blocked does nothing: it reports that it
  skipped, changes no table, and queues nothing.\<close>

theorem finished_run_skipped:
  assumes "sj_name job = ''ticket.process''"
    and "first_where (\<lambda>r. run_id r = jb_runId job) (agentRuns (db w)) = Some run"
    and "run_status run \<in> TERMINAL_RUN_STATUSES"
  shows "process_job E runPipeline job w = (Inr JobSkipped, w)"
  using assms by (simp add: process_job_def processTicketJob_def run_simps agentRun_t_def Let_def)

definition demo_support_job :: support_job where
  "demo_support_job = \<lparr>sj_id = ''j'', sj_name = ''ticket.process'', sj_queueName = ''support'',
     sj_attemptsMade = 0, sj_attempts = Some 3,
     sj_data = JObj [(''orgId'', JStr ''o''), (''runId'', JStr ''r''), (''ticketId'', JStr ''t''),
       (''subject'', JStr ''s''), (''body'', JStr ''b'')]\<rparr>"

definition demo_run_world :: world where
  "demo_run_world = demo_world (empty_db\<lparr>
     agentRuns := [blank_agent_run\<lparr>run_id := ''r'', run_status := AgentRunStatus.SUCCEEDED\<rparr>],
     outboundDrafts := [blank_outbound_draft\<lparr>dr_id := ''d'', dr_orgId := ''o'', dr_ticketId := ''t'',
       dr_agentRunId := Some ''r'', dr_createdByType := ActorType.AGENT,
       dr_status := DraftStatus.SENT\<rparr>]\<rparr>)"

theorem finished_run_skipped_witness:
  "process_job demo_ext (\<lambda>_. throw_x (plain_error ''never'')) demo_support_job demo_run_world =
     (Inr JobSkipped, demo_run_world)"
proof (rule finished_run_skipped)
  show "first_where (\<lambda>r. run_id r = jb_runId demo_support_job) (agentRuns (db demo_run_world)) =
      Some (blank_agent_run\<lparr>run_id := ''r'', run_status := AgentRunStatus.SUCCEEDED\<rparr>)"
    by (simp add: demo_run_world_def demo_world_def demo_support_job_def jb_runId_def job_field_def
        j_get_str_def j_get_def first_where_def)
qed (simp_all add: demo_support_job_def TERMINAL_RUN_STATUSES_def)

text \<open>When a run is done again, its draft is overwritten with the new text and status whatever
  its status has become meanwhile: a draft that a human has approved, rejected or already sent is
  pending or approved again.\<close>

theorem rerun_resets_draft:
  assumes "first_where (\<lambda>d. dr_orgId d = orgId \<and> dr_ticketId d = ticketId \<and> dr_agentRunId d = Some runId \<and>
      dr_createdByType d = ActorType.AGENT) (order_asc dr_createdAt (outboundDrafts (db w))) = Some d"
  shows "\<exists>x. fst (ensureRunDraft E orgId ticketId runId body status w) = Inr x \<and> dr_id x = dr_id d \<and>
    dr_status x = status \<and> dr_body x = body \<and>
    x \<in> set (outboundDrafts (db (snd (ensureRunDraft E orgId ticketId runId body status w))))"
proof -
  have d: "d \<in> set (outboundDrafts (db w))" using first_where_Some [OF assms] by simp
  then obtain y where y: "first_where (\<lambda>x. dr_id x = dr_id d) (outboundDrafts (db w)) = Some y"
    using first_where_None [of "\<lambda>x. dr_id x = dr_id d"]
    by (cases "first_where (\<lambda>x. dr_id x = dr_id d) (outboundDrafts (db w))") auto
  then show ?thesis
    using assms first_where_Some [OF y]
    by (auto simp: ensureRunDraft_def run_simps replace_row_def outboundDraft_t_def outboundDraft_clash_def
        set_update_where list_ex_iff)
qed

theorem rerun_resets_draft_witness:
  "\<exists>x. fst (ensureRunDraft demo_ext ''o'' ''t'' ''r'' ''new'' DraftStatus.APPROVED demo_run_world) = Inr x \<and>
     dr_id x = ''d'' \<and> dr_status x = DraftStatus.APPROVED"
  using rerun_resets_draft [of "''o''" "''t''" "''r''" demo_run_world _ demo_ext "''new''" DraftStatus.APPROVED]
  by (fastforce simp: demo_run_world_def demo_world_def first_where_def order_asc_def)

end
