(* ===== verification/Knowledge.thy ===== *)
theory Knowledge
  imports Tables Regex
begin

text \<open>
  \<^verbatim>\<open>packages/db/src/knowledge-search.ts\<close> (the ranking of articles by shared words, used by
  the API and by the retriever of the worker) and
  \<^verbatim>\<open>apps/api/src/knowledge/knowledge.service.ts\<close> (the articles of an organisation).
\<close>

section \<open>Words\<close>

definition token_char :: "char \<Rightarrow> bool" where
  "token_char c \<longleftrightarrow> is_lower c \<or> is_upper c \<or> is_digit c"

definition tokenize :: "string \<Rightarrow> string list" where
  "tokenize value = filter (\<lambda>t. t \<noteq> []) (map trim (words_of token_char [] (to_lower value)))"

text \<open>The map of counts that \<^verbatim>\<open>countTokenMatches\<close> builds, and the sum it takes.\<close>

definition token_counts :: "string list \<Rightarrow> string \<Rightarrow> int option" where
  "token_counts haystackTokens =
     foldl (\<lambda>m t. m(t := Some (nullish (m t) 0 + 1))) (\<lambda>_. None) haystackTokens"

definition countTokenMatches :: "string list \<Rightarrow> string list \<Rightarrow> int" where
  "countTokenMatches tokens haystackTokens =
     (if tokens = [] \<or> haystackTokens = [] then 0
      else foldl (\<lambda>total t. total + nullish (token_counts haystackTokens t) 0) 0 tokens)"

definition normalized_body :: "string \<Rightarrow> string" where
  "normalized_body body = trim (rx_replace (plus (Cls is_ws)) '' '' body)"

definition first_match_index :: "string \<Rightarrow> string list \<Rightarrow> nat option" where
  "first_match_index lowercaseBody tokens =
     (case sort (List.map_filter (\<lambda>t. index_of t lowercaseBody) tokens) of [] \<Rightarrow> None | i # _ \<Rightarrow> Some i)"

definition buildSnippet :: "string \<Rightarrow> string list \<Rightarrow> string" where
  "buildSnippet body tokens =
     (let b = normalized_body body
      in if b = [] then []
         else case first_match_index (to_lower b) tokens of
           None \<Rightarrow> take 180 b
         | Some i \<Rightarrow>
             (let start = i - 60; stop = min (length b) (i + 140)
              in (if start > 0 then ''...'' else []) @ take (stop - start) (drop start b) @
                 (if stop < length b then ''...'' else [])))"

section \<open>Ranking\<close>

record search_result =
  sr_articleId :: string
  sr_title :: string
  sr_snippet :: string
  sr_score :: int
  sr_tags :: "string list"

definition article_score :: "string list \<Rightarrow> knowledge_article \<Rightarrow> int" where
  "article_score tokens a =
     countTokenMatches tokens (tokenize (ka_title a)) * 10 +
     countTokenMatches tokens (concat (map tokenize (ka_tags a))) * 6 +
     countTokenMatches tokens (tokenize (ka_body a)) * 2"

definition search_result_of :: "string list \<Rightarrow> knowledge_article \<Rightarrow> search_result" where
  "search_result_of tokens a = \<lparr>sr_articleId = ka_id a, sr_title = ka_title a,
     sr_snippet = buildSnippet (ka_body a) tokens, sr_score = article_score tokens a,
     sr_tags = ka_tags a\<rparr>"

text \<open>The comparison function orders by score and then by date, both descending; the sort is
  stable, so it is a sort by date followed by one by score.\<close>

definition ranked :: "string list \<Rightarrow> knowledge_article list \<Rightarrow> knowledge_article list" where
  "ranked tokens articles =
     order_desc (article_score tokens) (order_desc ka_updatedAt
       (filter (\<lambda>a. article_score tokens a > 0) articles))"

definition rankKnowledgeArticles :: "knowledge_article list \<Rightarrow> string \<Rightarrow> nat option \<Rightarrow> search_result list" where
  "rankKnowledgeArticles articles query limit =
     (let tokens = tokenize query
      in if tokens = [] then []
         else map (search_result_of tokens) (take (nullish limit 5) (ranked tokens articles)))"

text \<open>\<^verbatim>\<open>xs.filter((x, i, all) => all.indexOf(x) === i)\<close>\<close>

primrec unseen :: "'a set \<Rightarrow> 'a list \<Rightarrow> 'a list" where
  "unseen seen [] = []"
| "unseen seen (x # xs) = (if x \<in> seen then unseen seen xs else x # unseen (insert x seen) xs)"

definition buildKnowledgeSearchQuery :: "string list \<Rightarrow> string" where
  "buildKnowledgeSearchQuery parts = join_with '' '' (unseen {} (concat (map tokenize parts)))"

section \<open>Articles\<close>

definition normalizeTags :: "string list option \<Rightarrow> string list" where
  "normalizeTags tags =
     (case tags of None \<Rightarrow> []
      | Some ts \<Rightarrow> unseen {} (filter (\<lambda>t. t \<noteq> []) (map (\<lambda>t. to_lower (trim t)) ts)))"

record article_dto =
  ad_title :: "string option"
  ad_body :: "string option"
  ad_tags :: "string list option"
  ad_status :: "KnowledgeArticleStatus option"

definition createArticle ::
  "ext \<Rightarrow> string \<Rightarrow> string \<Rightarrow> string list option \<Rightarrow> KnowledgeArticleStatus option \<Rightarrow> string \<Rightarrow>
   knowledge_article act" where
  "createArticle E title body tags status orgId =
     create_row E knowledgeArticle_t (\<lambda>i now. blank_knowledge_article\<lparr>ka_id := i, ka_createdAt := now,
       ka_updatedAt := now, ka_orgId := orgId, ka_title := trim title, ka_body := trim body,
       ka_tags := normalizeTags tags, ka_status := nullish status KnowledgeArticleStatus.DRAFT\<rparr>)"

definition newest_first :: "knowledge_article list \<Rightarrow> knowledge_article list" where
  "newest_first articles = order_desc ka_updatedAt (order_desc ka_createdAt articles)"

definition listArticles ::
  "KnowledgeArticleStatus option \<Rightarrow> string option \<Rightarrow> string \<Rightarrow> knowledge_article list act" where
  "listArticles status query orgId =
     (let q = nullish (map_option trim query) [];
          tokens = words_of token_char [] (to_lower q)
      in bind_x (find_many knowledgeArticle_t (\<lambda>a. ka_orgId a = orgId \<and>
             (case status of None \<Rightarrow> True | Some s \<Rightarrow> ka_status a = s) \<and>
             (tokens \<noteq> [] \<longrightarrow> contains (to_lower q) (to_lower (ka_title a)) \<or>
                contains (to_lower q) (to_lower (ka_body a)) \<or>
                list_ex (\<lambda>t. t \<in> set (ka_tags a)) tokens))) (\<lambda>articles.
           ret_x (newest_first articles)))"

definition own_article :: "string \<Rightarrow> string \<Rightarrow> knowledge_article \<Rightarrow> bool" where
  "own_article articleId orgId a \<longleftrightarrow> ka_id a = articleId \<and> ka_orgId a = orgId"

definition getArticle :: "string \<Rightarrow> string \<Rightarrow> knowledge_article act" where
  "getArticle articleId orgId =
     bind_x (find_first knowledgeArticle_t (own_article articleId orgId)) (\<lambda>found.
       require_x found (not_found ''Knowledge article not found''))"

definition edit_article :: "article_dto \<Rightarrow> knowledge_article \<Rightarrow> knowledge_article" where
  "edit_article dto a = a\<lparr>
     ka_title := nullish (map_option trim (ad_title dto)) (ka_title a),
     ka_body := nullish (map_option trim (ad_body dto)) (ka_body a),
     ka_tags := nullish (map_option (\<lambda>ts. normalizeTags (Some ts)) (ad_tags dto)) (ka_tags a),
     ka_status := nullish (ad_status dto) (ka_status a)\<rparr>"

definition updateArticle :: "ext \<Rightarrow> string \<Rightarrow> article_dto \<Rightarrow> string \<Rightarrow> knowledge_article act" where
  "updateArticle E articleId dto orgId =
     bind_x (getArticle articleId orgId) (\<lambda>article.
       if ad_title dto = None \<and> ad_body dto = None \<and> ad_tags dto = None \<and> ad_status dto = None
       then throw_x (bad_request ''No knowledge article fields provided'')
       else update_row E knowledgeArticle_t (\<lambda>a. ka_id a = ka_id article) (edit_article dto))"

definition archiveArticle :: "ext \<Rightarrow> string \<Rightarrow> string \<Rightarrow> knowledge_article act" where
  "archiveArticle E articleId orgId =
     bind_x (getArticle articleId orgId) (\<lambda>article.
       update_row E knowledgeArticle_t (\<lambda>a. ka_id a = ka_id article)
         (\<lambda>a. a\<lparr>ka_status := KnowledgeArticleStatus.ARCHIVED\<rparr>))"

text \<open>What the search reads, also in the retriever of the worker.\<close>

definition published :: "string \<Rightarrow> knowledge_article \<Rightarrow> bool" where
  "published orgId a \<longleftrightarrow> ka_orgId a = orgId \<and> ka_status a = KnowledgeArticleStatus.PUBLISHED"

definition search_articles :: "string \<Rightarrow> nat option \<Rightarrow> string \<Rightarrow> search_result list act" where
  "search_articles dtoQuery limit orgId =
     (let query = buildKnowledgeSearchQuery [dtoQuery]
      in if query = [] then throw_x (bad_request ''Search query must contain searchable terms'')
         else bind_x (find_many knowledgeArticle_t (published orgId)) (\<lambda>articles.
           ret_x (rankKnowledgeArticles (newest_first articles) query (Some (nullish limit 5)))))"

section \<open>What a match is\<close>

lemma token_counts_snoc:
  "token_counts (hs @ [h]) = (token_counts hs)(h := Some (nullish (token_counts hs h) 0 + 1))"
  by (simp add: token_counts_def)

lemma token_counts_count: "nullish (token_counts hs t) 0 = int (count_list hs t)"
  by (induction hs rule: rev_induct)
     (auto simp: token_counts_snoc token_counts_def [of "[]"])

lemma foldl_plus: "foldl (\<lambda>n t. n + f t) (k :: int) ts = k + (\<Sum>t \<leftarrow> ts. f t)"
  by (induction ts arbitrary: k) simp_all

lemma countTokenMatches_sum:
  "countTokenMatches ts hs = (\<Sum>t \<leftarrow> ts. int (count_list hs t))"
proof (cases "hs = []")
  case True
  have "(\<Sum>t \<leftarrow> ts. int (count_list [] t)) = 0" by (induction ts) simp_all
  with True show ?thesis by (simp add: countTokenMatches_def)
qed (simp add: countTokenMatches_def token_counts_count foldl_plus)

lemma matches_nonneg: "0 \<le> countTokenMatches ts hs"
  unfolding countTokenMatches_sum by (induction ts) simp_all

lemma matches_pos: "0 < countTokenMatches ts hs \<longleftrightarrow> (\<exists>t \<in> set ts. t \<in> set hs)"
proof (induction ts)
  case (Cons t ts)
  have "0 < countTokenMatches (t # ts) hs \<longleftrightarrow> 0 < count_list hs t \<or> 0 < countTokenMatches ts hs"
    using matches_nonneg [of ts hs] by (auto simp: countTokenMatches_sum)
  with Cons show ?case by (simp add: count_list_0_iff [symmetric] del: count_list_0_iff) (metis count_list_0_iff neq0_conv)
qed (simp add: countTokenMatches_def)

definition article_words :: "knowledge_article \<Rightarrow> string set" where
  "article_words a = set (tokenize (ka_title a)) \<union> set (concat (map tokenize (ka_tags a))) \<union> set (tokenize (ka_body a))"

lemma score_pos: "0 < article_score ts a \<longleftrightarrow> set ts \<inter> article_words a \<noteq> {}"
proof -
  have three: "0 < x * 10 + y * 6 + z * (2::int) \<longleftrightarrow> 0 < x \<or> 0 < y \<or> 0 < z" if "0 \<le> x" "0 \<le> y" "0 \<le> z" for x y z
    using that by linarith
  show ?thesis
    unfolding article_score_def three [OF matches_nonneg matches_nonneg matches_nonneg] matches_pos article_words_def
    by auto
qed

section \<open>The best articles\<close>

lemma set_ranked: "set (ranked ts as) = {a \<in> set as. 0 < article_score ts a}"
  by (simp add: ranked_def)

lemma length_ranked: "length (ranked ts as) = length (filter (\<lambda>a. 0 < article_score ts a) as)"
  by (simp add: ranked_def order_desc_def)

lemma ranked_sorted: "sorted_wrt (\<lambda>a b. article_score ts b \<le> article_score ts a) (ranked ts as)"
proof -
  have "sorted (map (\<lambda>a. - article_score ts a) (ranked ts as))" by (simp add: ranked_def order_desc_def)
  then show ?thesis by (simp add: sorted_map)
qed

lemma ranked_top:
  assumes "a \<in> set (take k (ranked ts as))" "b \<in> set (drop k (ranked ts as))"
  shows "article_score ts b \<le> article_score ts a"
  using ranked_sorted [of ts as] assms by (metis append_take_drop_id sorted_wrt_append)

lemma sorted_wrt_take: "sorted_wrt P xs \<Longrightarrow> sorted_wrt P (take k xs)"
  by (metis append_take_drop_id sorted_wrt_append)

section \<open>Words of a query\<close>

lemma lower_char_idem: "lower_char (lower_char c) = lower_char c"
  by (auto simp: lower_char_def Let_def)

lemma words_of_token: "list_all p t \<Longrightarrow> words_of p acc (t @ s) = words_of p (rev t @ acc) s"
  by (induction t arbitrary: acc) simp_all

lemma words_of_form: "list_all p acc \<Longrightarrow> w \<in> set (words_of p acc s) \<Longrightarrow> w \<noteq> [] \<and> list_all p w \<and> set w \<subseteq> set acc \<union> set s"
proof (induction p acc s rule: words_of.induct)
  case (2 p acc c cs)
  then show ?case by (fastforce split: if_splits simp: list_all_iff)
qed (auto simp: list_all_iff split: if_splits)

lemma words_of_join:
  "\<lbrakk>\<And>t. t \<in> set ts \<Longrightarrow> t \<noteq> [] \<and> list_all p t; \<not> p c\<rbrakk> \<Longrightarrow> words_of p [] (join_with [c] ts) = ts"
proof (induction ts rule: induct_list012)
  case (2 u)
  then show ?case using words_of_token [of p u "[]" "[]"] by simp
next
  case (3 s t ss)
  then have IH: "words_of p [] (join_with [c] (t # ss)) = t # ss" by simp
  from 3 show ?case by (simp add: words_of_token IH)
qed simp

text \<open>A word of \<open>tokenize\<close>: lower case letters and digits.\<close>

definition is_token :: "string \<Rightarrow> bool" where
  "is_token t \<longleftrightarrow> t \<noteq> [] \<and> list_all (\<lambda>c. token_char c \<and> lower_char c = c) t"

lemma trim_nows:
  assumes "\<And>c. c \<in> set s \<Longrightarrow> \<not> is_ws c"
  shows "trim s = s"
proof -
  have dw: "dropWhile is_ws xs = xs" if "set xs \<subseteq> set s" for xs
    using that assms by (cases xs) auto
  show ?thesis by (simp add: trim_def dw)
qed

lemma token_no_ws: "token_char c \<Longrightarrow> \<not> is_ws c"
  by (auto simp: token_char_def is_lower_def is_upper_def is_digit_def is_ws_def)

lemma tokenize_words: "tokenize s = words_of token_char [] (to_lower s)"
proof -
  have "map trim (words_of token_char [] (to_lower s)) = words_of token_char [] (to_lower s)"
    using words_of_form [of token_char "[]"] token_no_ws by (intro map_idI trim_nows) (auto simp: list_all_iff)
  moreover have "filter (\<lambda>t. t \<noteq> []) (words_of token_char [] (to_lower s)) = words_of token_char [] (to_lower s)"
    by (auto simp: filter_id_conv dest!: words_of_form [of token_char "[]", simplified])
  ultimately show ?thesis by (simp add: tokenize_def)
qed

lemma tokenize_tokens: "t \<in> set (tokenize s) \<Longrightarrow> is_token t"
  using words_of_form [of token_char "[]" t "to_lower s"]
  by (auto simp: tokenize_words is_token_def list_all_iff to_lower_def lower_char_idem subset_iff)

lemma to_lower_tokens: "(\<And>t. t \<in> set ts \<Longrightarrow> is_token t) \<Longrightarrow> to_lower (join_with '' '' ts) = join_with '' '' ts"
proof (induction ts rule: induct_list012)
  case (2 s)
  then show ?case by (auto simp: to_lower_def is_token_def list_all_iff intro: map_idI)
next
  case (3 s t ss)
  then have "map lower_char s = s" by (auto simp: is_token_def list_all_iff intro!: map_idI)
  with 3 show ?case by (simp add: to_lower_def lower_char_def)
qed (simp add: to_lower_def)

lemma tokenize_join: "(\<And>t. t \<in> set ts \<Longrightarrow> is_token t) \<Longrightarrow> tokenize (join_with '' '' ts) = ts"
  unfolding tokenize_words
  by (subst to_lower_tokens, assumption, rule words_of_join)
     (auto simp: is_token_def list_all_iff token_char_def is_lower_def is_upper_def is_digit_def)

lemma unseen_set: "set (unseen seen xs) = set xs - seen"
  by (induction xs arbitrary: seen) auto

lemma unseen_distinct: "distinct (unseen seen xs)"
  by (induction xs arbitrary: seen) (auto simp: unseen_set)

lemma unseen_id: "distinct xs \<Longrightarrow> set xs \<inter> seen = {} \<Longrightarrow> unseen seen xs = xs"
  by (induction xs arbitrary: seen) auto

lemma query_tokens: "tokenize (buildKnowledgeSearchQuery parts) = unseen {} (concat (map tokenize parts))"
  unfolding buildKnowledgeSearchQuery_def
  by (rule tokenize_join) (auto simp: unseen_set dest: tokenize_tokens)

text \<open>The query built of some texts is read back as exactly their words: no word is lost, none is
  doubled, and building a query of a query gives it back.\<close>

theorem query_roundtrip:
  "set (tokenize (buildKnowledgeSearchQuery parts)) = (\<Union>part \<in> set parts. set (tokenize part)) \<and>
   distinct (tokenize (buildKnowledgeSearchQuery parts)) \<and>
   buildKnowledgeSearchQuery [buildKnowledgeSearchQuery parts] = buildKnowledgeSearchQuery parts"
proof (intro conjI)
  show "set (tokenize (buildKnowledgeSearchQuery parts)) = (\<Union>part \<in> set parts. set (tokenize part))"
    by (auto simp: query_tokens unseen_set)
  show "distinct (tokenize (buildKnowledgeSearchQuery parts))" by (simp add: query_tokens unseen_distinct)
  show "buildKnowledgeSearchQuery [buildKnowledgeSearchQuery parts] = buildKnowledgeSearchQuery parts"
    by (subst buildKnowledgeSearchQuery_def)
       (simp add: query_tokens unseen_id unseen_distinct, simp add: buildKnowledgeSearchQuery_def)
qed

text \<open>C21: A search returns the best articles. The published articles of the organisation that share a
  word with the query split into those returned and the rest: as many are returned as the limit
  allows, by descending score, and none of the rest has a higher score than one returned. An
  article that shares no word is never returned.\<close>

theorem search_returns_best:
  assumes "fst (search_articles q limit orgId w) = Inr rs"
  shows "\<exists>top rest. mset (top @ rest) = mset (filter (\<lambda>a. published orgId a \<and>
        set (tokenize q) \<inter> article_words a \<noteq> {}) (knowledgeArticles (db w))) \<and>
    rs = map (search_result_of (unseen {} (tokenize q))) top \<and>
    length top = min (nullish limit 5) (length (top @ rest)) \<and>
    sorted_wrt (\<lambda>r s. sr_score s \<le> sr_score r) rs \<and>
    list_all (\<lambda>b. list_all (\<lambda>r. article_score (unseen {} (tokenize q)) b \<le> sr_score r) rs) rest"
proof -
  let ?ts = "unseen {} (tokenize q)" and ?n = "nullish limit 5"
  let ?as = "newest_first (filter (published orgId) (knowledgeArticles (db w)))"
  let ?xs = "ranked ?ts ?as"
  have q: "tokenize (buildKnowledgeSearchQuery [q]) = ?ts" by (simp add: query_tokens)
  have "buildKnowledgeSearchQuery [q] \<noteq> []"
    using assms by (auto simp: search_articles_def run_simps Let_def split: if_splits)
  then have "rs = rankKnowledgeArticles ?as (buildKnowledgeSearchQuery [q]) (Some ?n)"
    using assms by (simp add: search_articles_def run_simps Let_def knowledgeArticle_t_def)
  moreover have "?ts \<noteq> []"
    using \<open>buildKnowledgeSearchQuery [q] \<noteq> []\<close> by (auto simp: buildKnowledgeSearchQuery_def)
  ultimately have rs: "rs = map (search_result_of ?ts) (take ?n ?xs)"
    by (simp add: rankKnowledgeArticles_def q Let_def)
  have "mset ?xs = mset (filter (\<lambda>a. 0 < article_score ?ts a) (filter (published orgId) (knowledgeArticles (db w))))"
    by (simp add: ranked_def order_desc_def newest_first_def filter_filter_mset)
  then have "mset ?xs = mset (filter (\<lambda>a. published orgId a \<and> set (tokenize q) \<inter> article_words a \<noteq> {}) (knowledgeArticles (db w)))"
    by (simp only: filter_filter score_pos unseen_set Diff_empty)
  moreover have "length (take ?n ?xs) = min ?n (length (take ?n ?xs @ drop ?n ?xs))" by simp
  moreover have "sorted_wrt (\<lambda>r s. sr_score s \<le> sr_score r) rs"
    using sorted_wrt_take [OF ranked_sorted [of ?ts ?as], of ?n]
    by (simp add: rs sorted_wrt_map search_result_of_def)
  moreover have "list_all (\<lambda>b. list_all (\<lambda>r. article_score ?ts b \<le> sr_score r) rs) (drop ?n ?xs)"
    by (auto simp: rs list_all_iff search_result_of_def dest: ranked_top)
  ultimately show ?thesis
    by (intro exI [of _ "take ?n ?xs"] exI [of _ "drop ?n ?xs"]) (simp add: rs del: mset_append)
qed

definition demo_knowledge :: world where
  "demo_knowledge = demo_world (empty_db\<lparr>knowledgeArticles := [
     blank_knowledge_article\<lparr>ka_id := ''a'', ka_orgId := ''o'', ka_title := ''Refund'',
       ka_status := KnowledgeArticleStatus.PUBLISHED, ka_body := ''see billing''\<rparr>,
     blank_knowledge_article\<lparr>ka_id := ''b'', ka_orgId := ''o'', ka_title := ''Refund policy'',
       ka_tags := [''refund''], ka_status := KnowledgeArticleStatus.PUBLISHED\<rparr>]\<rparr>)"

lemma demo_search: "\<not> isl (fst (search_articles ''Re 1?'' None ''o'' demo_knowledge))"
  by (simp add: search_articles_def buildKnowledgeSearchQuery_def tokenize_words to_lower_def lower_char_def
      token_char_def is_lower_def is_upper_def is_digit_def run_simps)

theorem search_returns_best_witness:
  "sorted_wrt (\<lambda>r s. sr_score s \<le> sr_score r) (projr (fst (search_articles ''Re 1?'' None ''o'' demo_knowledge)))"
  using search_returns_best [OF not_isl [OF demo_search]] by blast

text \<open>A snippet is at most 206 characters long, whatever the article and the query.\<close>

theorem snippet_bound: "length (buildSnippet body tokens) \<le> 206"
proof -
  have "min n (min (k + 140) n - (k - 60)) \<le> 200" for n k :: nat by linarith
  then show ?thesis
    by (simp add: buildSnippet_def Let_def split: option.split) (auto simp: min_def split: if_splits)
qed

end
