(* ===== verification/Runtime.thy ===== *)
theory Runtime
  imports Processor Knowledge
begin

text \<open>
  \<^verbatim>\<open>apps/worker/src/agent-runtime\<close>: the four agents and the pipeline that runs them as
  recorded steps, each through a language model when one is configured and by its rules when none
  is or the call fails (\<^verbatim>\<open>agent-runtime.service.ts\<close>).
\<close>

section \<open>Agents\<close>

definition urgency_if :: "string \<Rightarrow> string list \<Rightarrow> string" where
  "urgency_if text words = (if includesAny text words then ''high'' else ''normal'')"

definition route :: "string \<Rightarrow> string \<Rightarrow> router_output" where
  "route subject body =
     (let text = to_lower (subject @ '' '' @ body)
      in if includesAny text [''billing'', ''invoice'', ''payment'', ''card'']
         then \<lparr>ru_category = BILLING, ru_intent = ''assist_billing_issue'',
           ru_urgency = urgency_if text [''urgent'', ''immediately'', ''asap''], ru_confidence = 91 / 100,
           ru_notes = ''Matched billing-related keywords in subject/body.''\<rparr>
         else if includesAny text [''login'', ''password'', ''account'', ''export'']
         then \<lparr>ru_category = ACCOUNT, ru_intent = ''assist_account_request'',
           ru_urgency = urgency_if text [''locked'', ''cannot access'', ''urgent''], ru_confidence = 88 / 100,
           ru_notes = ''Matched account-access keywords in subject/body.''\<rparr>
         else if includesAny text [''bug'', ''error'', ''not working'', ''api'']
         then \<lparr>ru_category = TECHNICAL, ru_intent = ''assist_technical_issue'',
           ru_urgency = urgency_if text [''down'', ''broken'', ''error''], ru_confidence = 9 / 10,
           ru_notes = ''Matched technical issue keywords in subject/body.''\<rparr>
         else \<lparr>ru_category = GENERAL, ru_intent = ''assist_general_request'', ru_urgency = ''low'',
           ru_confidence = 76 / 100, ru_notes = ''No strong routing signal; using general support path.''\<rparr>)"

record retriever_output =
  re_query :: string
  re_results :: "search_result list"
  re_resultCount :: nat

definition retrieve :: "string \<Rightarrow> string \<Rightarrow> string \<Rightarrow> router_output \<Rightarrow> retriever_output act" where
  "retrieve orgId subject body router =
     (let query = buildKnowledgeSearchQuery [subject, body, category_name (ru_category router),
        ru_intent router, ru_notes router]
      in bind_x (find_many knowledgeArticle_t (published orgId)) (\<lambda>articles.
         let results = rankKnowledgeArticles (newest_first articles) query (Some 5)
         in ret_x \<lparr>re_query = query, re_results = results, re_resultCount = length results\<rparr>))"

primrec template :: "TicketCategory \<Rightarrow> string" where
  "template BILLING = ''Thanks for reaching out about your billing request. We are reviewing the payment details you mentioned and will follow up with the next steps shortly.''"
| "template TECHNICAL = ''Thanks for flagging this technical issue. We are reviewing the behavior you described and will follow up with troubleshooting guidance shortly.''"
| "template ACCOUNT = ''Thanks for contacting us about your account request. We are reviewing the access details you shared and will follow up with the next steps shortly.''"
| "template GENERAL = ''Thanks for reaching out. We are reviewing your request and will follow up with an update shortly.''"

primrec category_opener :: "TicketCategory \<Rightarrow> string" where
  "category_opener BILLING = ''Thanks for reaching out about your billing request.''"
| "category_opener TECHNICAL = ''Thanks for flagging this technical issue.''"
| "category_opener ACCOUNT = ''Thanks for contacting us about your account request.''"
| "category_opener GENERAL = ''Thanks for reaching out.''"

definition resolve :: "router_output \<Rightarrow> retriever_output \<Rightarrow> resolver_output" where
  "resolve router retrieval =
     (let category = category_name (ru_category router)
      in case re_results retrieval of
           topResult # _ \<Rightarrow>
             \<lparr>ro_draftBody = category_opener (ru_category router) @ '' Based on our '' @ to_lower (sr_title topResult) @
                '', the recommended next step is to confirm the relevant details you shared so we can review the records accurately. We will verify the information against our internal guidance and follow up with the next support action shortly.'',
              ro_resolutionSummary = ''Prepared a '' @ category @ '' response using knowledge article '' @
                sr_articleId topResult @ ''.'',
              ro_confidence = min (98 / 100) (ru_confidence router + 5 / 100),
              ro_usedKnowledgeArticleIds = [sr_articleId topResult]\<rparr>
         | [] \<Rightarrow>
             \<lparr>ro_draftBody = template (ru_category router),
              ro_resolutionSummary = ''Prepared a '' @ category @ '' response for intent '' @ ru_intent router @ ''.'',
              ro_confidence = min (95 / 100) (ru_confidence router + 3 / 100),
              ro_usedKnowledgeArticleIds = []\<rparr>)"

definition critic_issues :: "resolver_output \<Rightarrow> retriever_output \<Rightarrow> string list" where
  "critic_issues resolver retrieval =
     (let draft = trim (ro_draftBody resolver); found = re_resultCount retrieval
      in (if length draft < 30 then [''Draft body is too short.''] else []) @
         (if includesAny (to_lower draft) [''[todo]'', ''[placeholder]'', ''lorem ipsum'']
          then [''Draft contains unsafe placeholder content.''] else []) @
         (if ro_confidence resolver < 6 / 10 then [''Resolver confidence is below acceptable threshold.''] else []) @
         (if found > 0 \<and> ro_usedKnowledgeArticleIds resolver = []
          then [''Retrieved context was available but not used''] else []) @
         (if found = 0 \<and> includesAny (to_lower draft) [''based on our'', ''internal guidance'', ''policy'']
          then [''Draft references unsupported knowledge''] else []))"

definition review :: "resolver_output \<Rightarrow> retriever_output \<Rightarrow> critic_output" where
  "review resolver retrieval =
     (let issues = critic_issues resolver retrieval
      in if issues \<noteq> []
         then \<lparr>co_passed = False, co_safetyVerdict = ''blocked'',
           co_completenessScore = (if re_resultCount retrieval > 0 \<and> ro_usedKnowledgeArticleIds resolver = []
             then 31 / 100 else 42 / 100),
           co_issues = issues, co_recommendedAction = ''revise''\<rparr>
         else \<lparr>co_passed = True, co_safetyVerdict = ''safe'', co_completenessScore = 91 / 100, co_issues = [],
           co_recommendedAction = ''approve''\<rparr>)"

section \<open>Outputs as stored\<close>

definition j_router :: "router_output \<Rightarrow> json" where
  "j_router r = JObj [(''category'', JStr (category_name (ru_category r))), (''intent'', JStr (ru_intent r)),
     (''urgency'', JStr (ru_urgency r)), (''confidence'', JNum (ru_confidence r)), (''notes'', JStr (ru_notes r))]"

definition j_search_result :: "search_result \<Rightarrow> json" where
  "j_search_result r = JObj [(''articleId'', JStr (sr_articleId r)), (''title'', JStr (sr_title r)),
     (''snippet'', JStr (sr_snippet r)), (''score'', j_int (sr_score r)), (''tags'', JArr (map JStr (sr_tags r)))]"

definition j_retrieval :: "retriever_output \<Rightarrow> json" where
  "j_retrieval r = JObj [(''query'', JStr (re_query r)), (''results'', JArr (map j_search_result (re_results r))),
     (''resultCount'', j_int (int (re_resultCount r)))]"

definition j_resolver :: "resolver_output \<Rightarrow> json" where
  "j_resolver r = JObj [(''draftBody'', JStr (ro_draftBody r)), (''resolutionSummary'', JStr (ro_resolutionSummary r)),
     (''confidence'', JNum (ro_confidence r)),
     (''usedKnowledgeArticleIds'', JArr (map JStr (ro_usedKnowledgeArticleIds r)))]"

definition j_critic :: "critic_output \<Rightarrow> json" where
  "j_critic c = JObj [(''passed'', JBool (co_passed c)), (''safetyVerdict'', JStr (co_safetyVerdict c)),
     (''completenessScore'', JNum (co_completenessScore c)), (''issues'', JArr (map JStr (co_issues c))),
     (''recommendedAction'', JStr (co_recommendedAction c))]"

section \<open>A step\<close>

record agent_meta =
  me_provider :: string
  me_model :: "string option"
  me_usage :: llm_usage
  me_fallbackUsed :: bool
  me_finishReason :: "string option"

definition zero_usage :: llm_usage where
  "zero_usage = \<lparr>lu_inputTokens = 0, lu_outputTokens = 0, lu_totalTokens = 0, lu_microunits = Some 0,
     lu_cents = Some 0\<rparr>"

definition DETERMINISTIC_META :: agent_meta where
  "DETERMINISTIC_META = \<lparr>me_provider = ''deterministic'', me_model = None, me_usage = zero_usage,
     me_fallbackUsed = False, me_finishReason = None\<rparr>"

definition classifyLlmOutcome :: "js_error \<Rightarrow> string" where
  "classifyLlmOutcome err =
     (let message = to_lower (er_message err)
      in if includesAny message [''429'', ''rate limit''] then ''rate_limited''
         else if includesAny message [''timeout'', ''timed out'', ''abort''] then ''timeout''
         else ''provider_error'')"

primrec step_status_label :: "AgentStepStatus \<Rightarrow> string" where
  "step_status_label AgentStepStatus.STARTED = ''started''"
| "step_status_label AgentStepStatus.SUCCEEDED = ''succeeded''"
| "step_status_label AgentStepStatus.FAILED = ''failed''"
| "step_status_label AgentStepStatus.BLOCKED = ''blocked''"

primrec task_name :: "LLMTask \<Rightarrow> string" where
  "task_name ROUTER_TASK = ''ROUTER''"
| "task_name RESOLVER_TASK = ''RESOLVER''"
| "task_name CRITIC_TASK = ''CRITIC''"

text \<open>The prompts of a step that may use a model, and the parameters of \<^verbatim>\<open>executeStep\<close>.\<close>

record 'o llm_task =
  lt_task :: LLMTask
  lt_systemPrompt :: string
  lt_userPrompt :: string
  lt_validate :: "json \<Rightarrow> js_error + 'o"

record 'o step =
  sp_stepType :: AgentStepType
  sp_startEvent :: AgentEventType
  sp_input :: json
  sp_execute :: "'o act"
  sp_json :: "'o \<Rightarrow> json"
  sp_status :: "'o \<Rightarrow> AgentStepStatus"
  sp_event :: "'o \<Rightarrow> AgentEventType"
  sp_after :: "'o \<Rightarrow> unit act"
  sp_llm :: "'o llm_task option"

definition rt_append :: "ext \<Rightarrow> pipeline_input \<Rightarrow> AgentEventType \<Rightarrow> json \<Rightarrow> unit act" where
  "rt_append E i ty payload =
     bind_x (append_event E (pn_orgId i) (pn_ticketId i) (Some (pn_runId i)) ty payload) (\<lambda>_. ret_x ())"

definition step_field :: "'o step \<Rightarrow> string \<times> json" where
  "step_field s = (''stepType'', JStr (name_of_AgentStepType (sp_stepType s)))"

definition j_opt_int :: "int option \<Rightarrow> json" where
  "j_opt_int v = (case v of None \<Rightarrow> JNull | Some n \<Rightarrow> j_int n)"

text \<open>The model's answer, and what is recorded of it.\<close>

definition llm_success ::
  "ext \<Rightarrow> llm_net \<Rightarrow> llm_config \<Rightarrow> pipeline_input \<Rightarrow> 'o step \<Rightarrow> 'o llm_task \<Rightarrow> ('o \<times> agent_meta) act" where
  "llm_success E N cfg i s t =
     bind_x (generateStructured E N cfg (lt_task t) (lt_systemPrompt t) (lt_userPrompt t)
         (name_of_AgentStepType (sp_stepType s)) (lt_validate t)) (\<lambda>r.
     then_x (metric_x ''recordLlmCall'' [lo_provider r, lo_model r, ''success''])
     (then_x (metric_x ''observeLlmLatency'' [lo_provider r, lo_model r, ''success''])
     (then_x (metric_x ''recordLlmUsage'' [lo_provider r, lo_model r])
     (then_x (rt_append E i AgentEventType.LLM_CALL_SUCCEEDED
         (JObj [step_field s, (''model'', JStr (lo_model r)), (''provider'', JStr (lo_provider r))]))
     (then_x (rt_append E i AgentEventType.LLM_USAGE_RECORDED
         (JObj [(''provider'', JStr (lo_provider r)), (''model'', JStr (lo_model r)),
           (''inputTokens'', j_int (lu_inputTokens (lo_usage r))),
           (''outputTokens'', j_int (lu_outputTokens (lo_usage r))),
           (''estimatedCostCents'', j_opt_int (lu_cents (lo_usage r)))]))
       (ret_x (lo_output r, \<lparr>me_provider = lo_provider r, me_model = Some (lo_model r),
          me_usage = lo_usage r, me_fallbackUsed = False, me_finishReason = lo_finishReason r\<rparr>)))))))"

definition llm_failure ::
  "ext \<Rightarrow> llm_config \<Rightarrow> pipeline_input \<Rightarrow> 'o step \<Rightarrow> 'o llm_task \<Rightarrow> js_error \<Rightarrow> ('o \<times> agent_meta) act" where
  "llm_failure E cfg i s t err =
     (let provider = lf_provider cfg; model = getModelForTask cfg (lt_task t)
      in then_x (rt_append E i AgentEventType.LLM_CALL_FAILED
           (JObj [step_field s, (''message'', JStr (take 500 (er_message err)))]))
        (then_x (metric_x ''recordLlmCall'' [provider, model, classifyLlmOutcome err])
        (then_x (metric_x ''observeLlmLatency'' [provider, model, classifyLlmOutcome err])
          (if \<not> lf_enableFallback cfg then throw_x err
           else then_x (rt_append E i AgentEventType.LLM_FALLBACK_USED
                (JObj [step_field s, (''reason'', JStr (take 200 (er_message err)))]))
             (then_x (metric_x ''incrementLlmFallback'' [provider, model])
             (bind_x (sp_execute s) (\<lambda>output.
               ret_x (output, \<lparr>me_provider = provider, me_model = Some model, me_usage = zero_usage,
                 me_fallbackUsed = True, me_finishReason = None\<rparr>))))))))"

definition obtain_output ::
  "ext \<Rightarrow> llm_net \<Rightarrow> llm_config option \<Rightarrow> pipeline_input \<Rightarrow> 'o step \<Rightarrow> ('o \<times> agent_meta) act" where
  "obtain_output E N svc i s =
     (case (svc, sp_llm s) of
        (Some cfg, Some t) \<Rightarrow>
          if llm_isEnabled cfg
          then then_x (rt_append E i AgentEventType.LLM_CALL_STARTED
                 (JObj [step_field s, (''task'', JStr (task_name (lt_task t))),
                   (''model'', JStr (getModelForTask cfg (lt_task t)))]))
               (catch_x (llm_success E N cfg i s t) (llm_failure E cfg i s t))
          else bind_x (sp_execute s) (\<lambda>output. ret_x (output, DETERMINISTIC_META))
      | _ \<Rightarrow> bind_x (sp_execute s) (\<lambda>output. ret_x (output, DETERMINISTIC_META)))"

definition by_model :: "agent_meta \<Rightarrow> bool" where
  "by_model m \<longleftrightarrow> me_provider m \<noteq> ''deterministic'' \<or> me_fallbackUsed m"

definition j_usage :: "llm_usage \<Rightarrow> json" where
  "j_usage u = JObj [(''inputTokens'', j_int (lu_inputTokens u)), (''outputTokens'', j_int (lu_outputTokens u)),
     (''totalTokens'', j_int (lu_totalTokens u)), (''estimatedCostMicrounits'', j_opt_int (lu_microunits u)),
     (''estimatedCostCents'', j_opt_int (lu_cents u))]"

definition output_json :: "json \<Rightarrow> agent_meta \<Rightarrow> json" where
  "output_json output m =
     (if by_model m
      then JObj ((case output of JObj kvs \<Rightarrow> kvs | j \<Rightarrow> [(''value'', j)]) @
        [(''_llm'', JObj ([(''provider'', JStr (me_provider m))] @ j_field ''model'' (map_option JStr (me_model m)) @
           [(''usage'', j_usage (me_usage m)), (''fallbackUsed'', JBool (me_fallbackUsed m))] @
           j_field ''finishReason'' (map_option JStr (me_finishReason m))))])
      else output)"

definition finish_step :: "ext \<Rightarrow> pipeline_input \<Rightarrow> 'o step \<Rightarrow> string \<Rightarrow> 'o \<times> agent_meta \<Rightarrow> ('o \<times> agent_meta) act" where
  "finish_step E i s stepId r =
     (let output = fst r; m = snd r; status = sp_status s output
      in bind_x (now_x E) (\<lambda>finishedAt.
         bind_x (elapsed_x E) (\<lambda>durationMs.
         then_x (update_row E agentStep_t (\<lambda>x. st_id x = stepId) (\<lambda>x. x\<lparr>
             st_status := status, st_outputJson := Some (output_json (sp_json s output) m),
             st_provider := (if by_model m then Some (me_provider m) else None), st_model := me_model m,
             st_inputTokens := Some (lu_inputTokens (me_usage m)),
             st_outputTokens := Some (lu_outputTokens (me_usage m)),
             st_estimatedCostCents := lu_cents (me_usage m), st_finishedAt := Some finishedAt,
             st_durationMs := Some durationMs\<rparr>))
         (then_x (metric_x ''incrementAgentStep'' [name_of_AgentStepType (sp_stepType s), step_status_label status])
         (then_x (sp_after s output)
         (then_x (rt_append E i (sp_event s output)
             (JObj [(''stepId'', JStr stepId), step_field s, (''output'', sp_json s output)]))
           (ret_x r)))))))"

definition fail_step :: "ext \<Rightarrow> pipeline_input \<Rightarrow> 'o step \<Rightarrow> string \<Rightarrow> js_error \<Rightarrow> 'b act" where
  "fail_step E i s stepId err =
     (let serialized = serializeError E err
      in bind_x (now_x E) (\<lambda>finishedAt.
         bind_x (elapsed_x E) (\<lambda>durationMs.
         then_x (update_row E agentStep_t (\<lambda>x. st_id x = stepId) (\<lambda>x. x\<lparr>
             st_status := AgentStepStatus.FAILED, st_errorMessage := Some (ser_message serialized),
             st_errorCode := Some (ser_errorCode serialized), st_finishedAt := Some finishedAt,
             st_durationMs := Some durationMs\<rparr>))
         (then_x (metric_x ''incrementAgentStep'' [name_of_AgentStepType (sp_stepType s), ''failed''])
         (then_x (rt_append E i AgentEventType.AGENT_STEP_FAILED
             (JObj [(''stepId'', JStr stepId), step_field s, (''message'', JStr (ser_message serialized)),
               (''errorCode'', JStr (ser_errorCode serialized))]))
           (throw_x err))))))"

definition create_step :: "ext \<Rightarrow> pipeline_input \<Rightarrow> 'o step \<Rightarrow> agent_step act" where
  "create_step E i s =
     bind_x (gets_x (\<lambda>w. max (nullish (co_retryAttempt (ctx w)) 1 - 1) 0)) (\<lambda>retryCount.
       create_row E agentStep_t (\<lambda>sid now. blank_agent_step\<lparr>st_id := sid, st_createdAt := now,
         st_startedAt := now, st_orgId := pn_orgId i, st_agentRunId := pn_runId i,
         st_stepType := sp_stepType s, st_status := AgentStepStatus.STARTED,
         st_inputJson := Some (sp_input s), st_retryCount := retryCount\<rparr>))"

definition executeStep ::
  "ext \<Rightarrow> llm_net \<Rightarrow> llm_config option \<Rightarrow> pipeline_input \<Rightarrow> 'o step \<Rightarrow> ('o \<times> agent_meta) act" where
  "executeStep E N svc i s =
     bind_x (create_step E i s) (\<lambda>step.
     then_x (metric_x ''incrementAgentStep'' [name_of_AgentStepType (sp_stepType s), ''started''])
     (then_x (rt_append E i (sp_startEvent s) (JObj [(''stepId'', JStr (st_id step)), step_field s]))
       (catch_x (bind_x (obtain_output E N svc i s) (finish_step E i s (st_id step)))
         (fail_step E i s (st_id step)))))"

section \<open>The pipeline\<close>

definition router_step :: "ext \<Rightarrow> pipeline_input \<Rightarrow> router_output step" where
  "router_step E i = \<lparr>sp_stepType = AgentStepType.ROUTER, sp_startEvent = AgentEventType.ROUTER_STARTED,
     sp_input = JObj [(''subject'', JStr (pn_subject i)), (''body'', JStr (pn_body i))],
     sp_execute = ret_x (route (pn_subject i) (pn_body i)), sp_json = j_router,
     sp_status = (\<lambda>_. AgentStepStatus.SUCCEEDED), sp_event = (\<lambda>_. AgentEventType.ROUTER_DECISION),
     sp_after = (\<lambda>_. ret_x ()),
     sp_llm = Some \<lparr>lt_task = ROUTER_TASK, lt_systemPrompt = ROUTER_SYSTEM_PROMPT,
       lt_userPrompt = buildRouterUserPrompt (pn_subject i) (pn_body i), lt_validate = validateRouterOutput E\<rparr>\<rparr>"

definition record_retrieval :: "ext \<Rightarrow> pipeline_input \<Rightarrow> retriever_output \<Rightarrow> unit act" where
  "record_retrieval E i output =
     (let outcome = (if re_resultCount output > 0 then ''success'' else ''no_result'')
      in then_x (metric_x ''incrementKnowledgeRetrieval'' [outcome])
        (then_x (metric_x ''observeKnowledgeResults'' [outcome])
        (bind_x (create_row E knowledgeRetrieval_t (\<lambda>kid now. blank_knowledge_retrieval\<lparr>kr_id := kid,
           kr_createdAt := now, kr_orgId := pn_orgId i, kr_ticketId := pn_ticketId i,
           kr_agentRunId := Some (pn_runId i), kr_query := re_query output,
           kr_resultCount := int (re_resultCount output),
           kr_resultsJson := JArr (map j_search_result (re_results output))\<rparr>)) (\<lambda>_. ret_x ()))))"

definition retriever_step :: "ext \<Rightarrow> pipeline_input \<Rightarrow> router_output \<Rightarrow> retriever_output step" where
  "retriever_step E i router = \<lparr>sp_stepType = AgentStepType.RETRIEVER,
     sp_startEvent = AgentEventType.RETRIEVER_STARTED,
     sp_input = JObj [(''subject'', JStr (pn_subject i)), (''body'', JStr (pn_body i)), (''router'', j_router router)],
     sp_execute = retrieve (pn_orgId i) (pn_subject i) (pn_body i) router, sp_json = j_retrieval,
     sp_status = (\<lambda>_. AgentStepStatus.SUCCEEDED),
     sp_event = (\<lambda>output. if re_resultCount output > 0 then AgentEventType.RETRIEVER_RESULTS
       else AgentEventType.KNOWLEDGE_NOT_FOUND),
     sp_after = record_retrieval E i, sp_llm = None\<rparr>"

definition snippet_of :: "search_result \<Rightarrow> knowledge_snippet" where
  "snippet_of r = \<lparr>kn_articleId = sr_articleId r, kn_title = sr_title r, kn_snippet = sr_snippet r\<rparr>"

definition resolver_step :: "ext \<Rightarrow> pipeline_input \<Rightarrow> router_output \<Rightarrow> retriever_output \<Rightarrow> resolver_output step" where
  "resolver_step E i router retrieval = \<lparr>sp_stepType = AgentStepType.RESOLVER,
     sp_startEvent = AgentEventType.RESOLVER_STARTED,
     sp_input = JObj [(''subject'', JStr (pn_subject i)), (''body'', JStr (pn_body i)),
       (''router'', j_router router), (''retrieval'', j_retrieval retrieval)],
     sp_execute = ret_x (resolve router retrieval), sp_json = j_resolver,
     sp_status = (\<lambda>_. AgentStepStatus.SUCCEEDED), sp_event = (\<lambda>_. AgentEventType.RESOLVER_DRAFTED),
     sp_after = (\<lambda>_. ret_x ()),
     sp_llm = Some \<lparr>lt_task = RESOLVER_TASK, lt_systemPrompt = RESOLVER_SYSTEM_PROMPT,
       lt_userPrompt = buildResolverUserPrompt (pn_subject i) (pn_body i) (category_name (ru_category router))
         (ru_intent router) (map snippet_of (re_results retrieval)),
       lt_validate = validateResolverOutput\<rparr>\<rparr>"

definition critic_step ::
  "ext \<Rightarrow> pipeline_input \<Rightarrow> router_output \<Rightarrow> retriever_output \<Rightarrow> resolver_output \<Rightarrow> critic_output step" where
  "critic_step E i router retrieval resolver = \<lparr>sp_stepType = AgentStepType.CRITIC,
     sp_startEvent = AgentEventType.CRITIC_STARTED,
     sp_input = JObj [(''retrieval'', j_retrieval retrieval), (''resolver'', j_resolver resolver)],
     sp_execute = ret_x (review resolver retrieval), sp_json = j_critic,
     sp_status = (\<lambda>output. if co_passed output then AgentStepStatus.SUCCEEDED else AgentStepStatus.BLOCKED),
     sp_event = (\<lambda>output. if co_passed output then AgentEventType.CRITIC_REVIEWED else AgentEventType.CRITIC_BLOCKED),
     sp_after = (\<lambda>_. ret_x ()),
     sp_llm = Some \<lparr>lt_task = CRITIC_TASK, lt_systemPrompt = CRITIC_SYSTEM_PROMPT,
       lt_userPrompt = buildCriticUserPrompt (pn_subject i) (ro_draftBody resolver)
         (category_name (ru_category router)) (ro_usedKnowledgeArticleIds resolver)
         (map snippet_of (re_results retrieval)),
       lt_validate = validateCriticOutput E\<rparr>\<rparr>"

definition report_used :: "ext \<Rightarrow> pipeline_input \<Rightarrow> resolver_output \<Rightarrow> unit act" where
  "report_used E i resolver =
     when_x (ro_usedKnowledgeArticleIds resolver \<noteq> [])
       (then_x (metric_x ''incrementKnowledgeUsed'' [''resolver''])
         (rt_append E i AgentEventType.KNOWLEDGE_USED
           (JObj [(''usedKnowledgeArticleIds'', JArr (map JStr (ro_usedKnowledgeArticleIds resolver)))])))"

text \<open>The result has the fields of it that the processor reads.\<close>

definition runPipeline :: "ext \<Rightarrow> llm_net \<Rightarrow> llm_config option \<Rightarrow> pipeline_input \<Rightarrow> pipeline_result act" where
  "runPipeline E N svc i =
     bind_x (executeStep E N svc i (router_step E i)) (\<lambda>r1.
     bind_x (executeStep E N svc i (retriever_step E i (fst r1))) (\<lambda>r2.
     bind_x (executeStep E N svc i (resolver_step E i (fst r1) (fst r2))) (\<lambda>r3.
     then_x (report_used E i (fst r3))
     (bind_x (executeStep E N svc i (critic_step E i (fst r1) (fst r2) (fst r3))) (\<lambda>r4.
       ret_x \<lparr>pl_resolver = fst r3, pl_critic = fst r4,
         pl_estimatedCostCents = sumEstimatedCostCents
           [lu_cents (me_usage (snd r1)), lu_cents (me_usage (snd r3)), lu_cents (me_usage (snd r4))]\<rparr>)))))"

end
