(* ===== verification/Pipeline.thy ===== *)
theory Pipeline
  imports Runtime
begin

text \<open>
  What the agent pipeline of \<^verbatim>\<open>Runtime\<close> does: every output it lets through is well formed
  whatever a model answers; without a model, or when no model answers, it returns and computes a
  function of the ticket and the published articles; every step of a run that returns is on record.
\<close>

section \<open>What a step returns\<close>

lemma fail_step_throws: "ensures P (fail_step E i s stepId err) Q"
  by (auto simp: ensures_def fail_step_def run_simps Let_def split: sum.splits)

lemmas returns_rules = ensures_true_bind ensures_true_then ensures_if ensures_throw fail_step_throws
  ensures_catch

lemma safeParseJson_valid: "safeParseJson raw validate name = Inr a \<Longrightarrow> \<exists>j. validate j = Inr a"
  by (auto simp: safeParseJson_def Let_def split: option.splits if_splits sum.splits)

lemma structured_valid:
  "ensures (\<lambda>_. True) (structured E p m raw validate n a b c f) (\<lambda>r _. \<exists>j. validate j = Inr (lo_output r))"
  unfolding structured_def ensures_def
  by (auto simp: run_simps split: sum.splits dest!: safeParseJson_valid)

lemma generated_valid:
  "ensures (\<lambda>_. True) (generateStructured E N cfg t sys usr n validate) (\<lambda>r _. \<exists>j. validate j = Inr (lo_output r))"
  unfolding generateStructured_def provider_generate_def openai_generate_def anthropic_generate_def Let_def
  by (intro returns_rules structured_valid)

lemma executeStep_output:
  assumes "ensures (\<lambda>_. True) (sp_execute s) (\<lambda>r _. Q r)"
    and "\<And>t j r. sp_llm s = Some t \<Longrightarrow> lt_validate t j = Inr r \<Longrightarrow> Q r"
  shows "ensures (\<lambda>_. True) (executeStep E N svc i s) (\<lambda>r _. Q (fst r))"
proof -
  have rules: "ensures (\<lambda>_. True) (bind_x (sp_execute s) (\<lambda>out. ret_x (out, m))) (\<lambda>r _. Q (fst r))" for m
    by (rule ensures_bind [OF assms(1)]) (simp add: ensures_ret)
  have model: "ensures (\<lambda>_. True) (llm_success E N cfg i s t) (\<lambda>r _. Q (fst r))" if "sp_llm s = Some t" for cfg t
    unfolding llm_success_def
    by (rule ensures_bind [OF generated_valid])
       (auto intro!: ensures_then_keep [OF preserves_True] ensures_ret
          intro: assms(2) [OF that] ensures_weaken [where P = "\<lambda>_. True"] simp: ensures_def run_simps split: sum.splits)
  have out: "ensures (\<lambda>_. True) (obtain_output E N svc i s) (\<lambda>r _. Q (fst r))"
    unfolding obtain_output_def llm_failure_def Let_def
    by (auto split: option.split intro!: returns_rules rules model)
  have finish: "ensures (\<lambda>_. Q (fst r)) (finish_step E i s sid r) (\<lambda>r _. Q (fst r))" for r sid
    by (auto simp: ensures_def finish_step_def run_simps Let_def split: sum.splits)
  show ?thesis
    unfolding executeStep_def by (intro returns_rules ensures_bind [OF out] finish)
qed

lemma route_ok: "router_ok (route subject body)"
  by (simp add: route_def router_ok_def urgency_if_def Let_def)

lemma opener_long: "10 \<le> length (category_opener c)" "10 \<le> length (template c)"
  by (cases c; simp)+

lemma resolve_ok: "router_ok r \<Longrightarrow> resolver_ok (resolve r t)"
  using opener_long [of "ru_category r"]
  by (auto simp: resolve_def resolver_ok_def router_ok_def Let_def split: list.split)

lemma review_ok: "critic_ok (review a t)"
  by (simp add: review_def critic_ok_def Let_def)

definition rules_retrieval :: "knowledge_article list \<Rightarrow> string \<Rightarrow> string \<Rightarrow> string \<Rightarrow> router_output \<Rightarrow> retriever_output" where
  "rules_retrieval articles orgId subject body r =
     (let query = buildKnowledgeSearchQuery [subject, body, category_name (ru_category r), ru_intent r, ru_notes r];
          results = rankKnowledgeArticles (newest_first (filter (published orgId) articles)) query (Some 5)
      in \<lparr>re_query = query, re_results = results, re_resultCount = length results\<rparr>)"

lemma retrieve_run: "retrieve orgId subject body r w =
    (Inr (rules_retrieval (knowledgeArticles (db w)) orgId subject body r), w)"
  by (simp add: retrieve_def rules_retrieval_def run_simps knowledgeArticle_t_def Let_def)

lemma steps_ok:
  "ensures (\<lambda>_. True) (executeStep E N svc i (router_step E i)) (\<lambda>r _. router_ok (fst r))"
  "router_ok a \<Longrightarrow> ensures (\<lambda>_. True) (executeStep E N svc i (resolver_step E i a t)) (\<lambda>r _. resolver_ok (fst r))"
  "ensures (\<lambda>_. True) (executeStep E N svc i (critic_step E i a t b)) (\<lambda>r _. critic_ok (fst r))"
  by (rule executeStep_output; auto simp: router_step_def resolver_step_def critic_step_def ensures_def run_simps
        route_ok resolve_ok review_ok dest: validated)+

section \<open>The pipeline without a model\<close>

text \<open>A world in which no id has been given out that the generator has still to give.\<close>

definition fresh_ids :: "ext \<Rightarrow> world \<Rightarrow> bool" where
  "fresh_ids E w \<longleftrightarrow> inj (x_uuid E) \<and> (\<forall>n \<ge> uuids w.
     x_uuid E n \<notin> st_id ` set (agentSteps (db w)) \<union> ev_id ` set (agentEvents (db w)) \<union>
       kr_id ` set (knowledgeRetrievals (db w)))"

definition ready :: "ext \<Rightarrow> knowledge_article list \<Rightarrow> world \<Rightarrow> bool" where
  "ready E as w \<longleftrightarrow> fresh_ids E w \<and> knowledgeArticles (db w) = as"

lemma ready_simps [simp]:
  "ready E as (w\<lparr>mlog := l\<rparr>) = ready E as w" "ready E as (w\<lparr>ticks := n\<rparr>) = ready E as w"
  by (simp_all add: ready_def fresh_ids_def)

lemma ready_next: "ready E as w \<Longrightarrow> m = Suc (uuids w) \<Longrightarrow> ready E as (w\<lparr>uuids := m, ticks := n\<rparr>)"
  by (auto simp: ready_def fresh_ids_def)

lemma rt_append_ready: "achieves (ready E as) (rt_append E i ty payload) (\<lambda>_. ready E as)"
  unfolding achieves_def
proof (intro allI impI)
  fix w assume w: "ready E as w"
  then have "\<not> list_ex (agentEvent_clash (x\<lparr>ev_id := x_uuid E (uuids w)\<rparr>)) (agentEvents (db w))" for x
    by (auto simp: ready_def fresh_ids_def agentEvent_clash_def list_ex_iff image_iff)
  with w show "\<exists>a. fst (rt_append E i ty payload w) = Inr a \<and> ready E as (snd (rt_append E i ty payload w))"
    by (auto simp: rt_append_def append_event_def append_event_with_def run_simps insert_row_def agentEvent_t_def
        agentEvent_clash_def ready_def fresh_ids_def list_ex_iff inj_eq)
qed

lemma record_retrieval_ready: "achieves (ready E as) (record_retrieval E i t) (\<lambda>_. ready E as)"
  unfolding achieves_def
  by (auto simp: record_retrieval_def Let_def run_simps insert_row_def knowledgeRetrieval_t_def
        knowledgeRetrieval_clash_def ready_def fresh_ids_def list_ex_iff inj_eq image_iff split: if_splits)

definition has_step :: "string \<Rightarrow> world \<Rightarrow> bool" where
  "has_step sid w \<longleftrightarrow> sid \<in> st_id ` set (agentSteps (db w))"

lemma create_step_ready: "achieves (ready E as) (create_step E i s) (\<lambda>x w. ready E as w \<and> has_step (st_id x) w)"
  unfolding achieves_def
  by (auto simp: create_step_def run_simps insert_row_def agentStep_t_def has_step_def
        agentStep_clash_def ready_def fresh_ids_def list_ex_iff inj_eq image_iff split: if_splits)

lemma observe_ready:
  "achieves (\<lambda>w. ready E as w \<and> has_step sid w) (now_x E) (\<lambda>_ w. ready E as w \<and> has_step sid w)"
  "achieves (\<lambda>w. ready E as w \<and> has_step sid w) (elapsed_x E) (\<lambda>_ w. ready E as w \<and> has_step sid w)"
  "achieves (\<lambda>w. ready E as w \<and> has_step sid w) (metric_x n l) (\<lambda>_ w. ready E as w \<and> has_step sid w)"
  "achieves (ready E as) (metric_x n l) (\<lambda>_. ready E as)"
  by (simp_all add: achieves_def run_simps has_step_def)

lemma update_step_ready:
  assumes "\<And>x. st_id (f x) = st_id x"
  shows "achieves (\<lambda>w. ready E as w \<and> has_step sid w) (update_row E agentStep_t (\<lambda>x. st_id x = sid) f)
    (\<lambda>_. ready E as)"
  unfolding achieves_def
proof (intro allI impI)
  fix w assume w: "ready E as w \<and> has_step sid w"
  then obtain x where x: "first_where (\<lambda>x. st_id x = sid) (agentSteps (db w)) = Some x"
    by (cases "first_where (\<lambda>x. st_id x = sid) (agentSteps (db w))") (auto simp: has_step_def first_where_None)
  have "st_id ` (\<lambda>r. if P r then f r else r) ` A = st_id ` A" for P A
    unfolding image_image by (rule image_cong) (simp_all add: assms)
  with w x assms show "\<exists>a. fst (update_row E agentStep_t (\<lambda>x. st_id x = sid) f w) = Inr a \<and>
      ready E as (snd (update_row E agentStep_t (\<lambda>x. st_id x = sid) f w))"
    by (auto simp: run_simps replace_row_def agentStep_t_def agentStep_clash_def list_ex_iff
        ready_def fresh_ids_def set_update_where)
qed

lemma has_step_kept: "preserves (has_step sid) (rt_append E i ty payload)"
proof -
  have "preserves (on_db (\<lambda>d. sid \<in> st_id ` set (agentSteps d))) (rt_append E i ty payload)"
    unfolding rt_append_def
    by (intro preserve_rules ev.append_other) (simp add: ignores_def agentEvent_t_def)
  then show ?thesis by (simp add: preserves_def on_db_def has_step_def)
qed

lemma finish_step_ready:
  assumes "achieves (ready E as) (sp_after s (fst r)) (\<lambda>_. ready E as)"
  shows "achieves (\<lambda>w. ready E as w \<and> has_step sid w) (finish_step E i s sid r) (\<lambda>r' w. r' = r \<and> ready E as w)"
  unfolding finish_step_def Let_def
  by (intro achieves_keep [OF observe_ready(1)] achieves_keep [OF observe_ready(2)]
      achieves_then [OF update_step_ready] achieves_then_keep [OF observe_ready(4)] achieves_then_keep [OF assms]
      achieves_then_keep [OF rt_append_ready] achieves_ret) simp_all

text \<open>When no model is asked, or none answers and falling back is allowed, a step runs its rules.\<close>

definition no_answer :: "llm_net \<Rightarrow> bool" where
  "no_answer N \<longleftrightarrow> (\<forall>n c. (\<forall>r. net_openai N n c \<noteq> Reply r) \<and> (\<forall>r. net_anthropic N n c \<noteq> Reply r))"

definition by_rules :: "llm_net \<Rightarrow> llm_config option \<Rightarrow> bool" where
  "by_rules N svc \<longleftrightarrow> (case svc of None \<Rightarrow> True
     | Some cfg \<Rightarrow> \<not> llm_isEnabled cfg \<or> lf_enableFallback cfg \<and> no_answer N)"

lemma no_answer_fails: "no_answer N \<Longrightarrow> \<exists>e. generateStructured E N cfg t sys usr n validate w = (Inl e, w)"
proof -
  assume N: "no_answer N"
  have o: "\<exists>e. reply_x name (net_openai N) c w = (Inl e, w)"
    and a: "\<exists>e. reply_x name (net_anthropic N) c w = (Inl e, w)" for name c
    using N by (auto simp: reply_x_def run_simps no_answer_def split: http_reply.split)
  have o': "\<exists>e. bind_x (reply_x name (net_openai N) c) k w = (Inl e, w)"
    and a': "\<exists>e. bind_x (reply_x name (net_anthropic N) c) l w = (Inl e, w)" for name c k l
    using o [of name c] a [of name c] by (auto simp: run_simps)
  show ?thesis
    unfolding generateStructured_def provider_generate_def openai_generate_def anthropic_generate_def
    by (simp add: o' a' throw_x_run)
qed

lemma success_fails: "no_answer N \<Longrightarrow> \<exists>e. llm_success E N cfg i s t w = (Inl e, w)"
proof -
  assume "no_answer N"
  then obtain e where "generateStructured E N cfg (lt_task t) (lt_systemPrompt t) (lt_userPrompt t)
      (name_of_AgentStepType (sp_stepType s)) (lt_validate t) w = (Inl e, w)"
    using no_answer_fails by blast
  then show ?thesis by (simp add: llm_success_def bind_x_run)
qed

lemma executeStep_rules:
  assumes "by_rules N svc" "\<And>w. knowledgeArticles (db w) = as \<Longrightarrow> sp_execute s w = (Inr out, w)"
    and "achieves (ready E as) (sp_after s out) (\<lambda>_. ready E as)"
  shows "achieves (ready E as) (executeStep E N svc i s)
    (\<lambda>r w. fst r = out \<and> lu_cents (me_usage (snd r)) = Some 0 \<and> ready E as w)"
proof -
  let ?R = "\<lambda>sid w. ready E as w \<and> has_step sid w"
  let ?O = "\<lambda>sid r w. fst r = out \<and> lu_cents (me_usage (snd r)) = Some 0 \<and> ready E as w \<and> has_step sid w"
  have run: "achieves (?R sid) (sp_execute s) (\<lambda>a w. a = out \<and> ?R sid w)" for sid
    using assms(2) by (auto simp: achieves_def ready_def)
  have append: "achieves (?R sid) (rt_append E i ty payload) (\<lambda>_. ?R sid)" for sid ty payload
    by (rule achieves_preserves [OF rt_append_ready has_step_kept])
  have meta: "achieves (?R sid) (bind_x (sp_execute s) (\<lambda>a. ret_x (a, m))) (?O sid)"
    if "lu_cents (me_usage m) = Some 0" for sid m
    by (rule achieves_bind [OF run]) (use that in \<open>auto simp: achieves_def run_simps\<close>)
  have zero: "lu_cents (me_usage DETERMINISTIC_META) = Some 0" "lu_cents zero_usage = Some 0"
    by (simp_all add: DETERMINISTIC_META_def zero_usage_def)
  have failure: "achieves (?R sid) (llm_failure E cfg i s t err) (?O sid)" if "lf_enableFallback cfg" for sid cfg t err
    using that unfolding llm_failure_def Let_def
    by (simp, intro achieves_then_keep [OF append] achieves_then_keep [OF observe_ready(3)] meta) (simp add: zero)
  have asked: "achieves (?R sid) (catch_x (llm_success E N cfg i s t) (llm_failure E cfg i s t)) (?O sid)"
    if fb: "lf_enableFallback cfg" and na: "no_answer N" for sid cfg t
    unfolding achieves_def
  proof (intro allI impI)
    fix w assume w: "?R sid w"
    obtain e where "llm_success E N cfg i s t w = (Inl e, w)" using success_fails [OF na] by blast
    with achievesD [OF failure [OF fb] w]
    show "\<exists>a. fst (catch_x (llm_success E N cfg i s t) (llm_failure E cfg i s t) w) = Inr a \<and>
        ?O sid a (snd (catch_x (llm_success E N cfg i s t) (llm_failure E cfg i s t) w))"
      by (simp add: catch_x_run)
  qed
  have obtained: "achieves (?R sid) (obtain_output E N svc i s) (?O sid)" for sid
    using assms(1) unfolding obtain_output_def by_rules_def
    by (auto split: option.split intro!: meta [OF zero(1)] achieves_then_keep [OF append] asked)
  have finished: "achieves (?O sid r) (finish_step E i s sid r)
      (\<lambda>r w. fst r = out \<and> lu_cents (me_usage (snd r)) = Some 0 \<and> ready E as w)" for sid r
  proof (rule achieves_fixed)
    assume r: "fst r = out" "lu_cents (me_usage (snd r)) = Some 0"
    have after: "achieves (ready E as) (sp_after s (fst r)) (\<lambda>_. ready E as)" using assms(3) r by simp
    show "achieves (\<lambda>w. ready E as w \<and> has_step sid w) (finish_step E i s sid r)
        (\<lambda>r w. fst r = out \<and> lu_cents (me_usage (snd r)) = Some 0 \<and> ready E as w)"
      by (rule achieves_weaken [OF finish_step_ready [OF after]]) (use r in auto)
  qed
  show ?thesis
    unfolding executeStep_def
    by (intro achieves_bind [OF create_step_ready] achieves_then_keep [OF observe_ready(3)]
        achieves_then_keep [OF append] achieves_catch achieves_bind [OF obtained] finished)
qed

text \<open>The pipeline as a function of the ticket and the articles.\<close>

definition rules_result :: "knowledge_article list \<Rightarrow> pipeline_input \<Rightarrow> pipeline_result" where
  "rules_result articles i =
     (let router = route (pn_subject i) (pn_body i);
          retrieval = rules_retrieval articles (pn_orgId i) (pn_subject i) (pn_body i) router;
          resolver = resolve router retrieval
      in \<lparr>pl_resolver = resolver, pl_critic = review resolver retrieval, pl_estimatedCostCents = Some 0\<rparr>)"

lemma report_used_ready: "achieves (ready E as) (report_used E i r) (\<lambda>_. ready E as)"
  unfolding report_used_def
  by (intro achieves_when achieves_then_keep [OF observe_ready(4)] rt_append_ready)

lemma pipeline_achieves:
  assumes "by_rules N svc"
  shows "achieves (ready E as) (runPipeline E N svc i) (\<lambda>p _. p = rules_result as i)"
proof -
  let ?r = "route (pn_subject i) (pn_body i)"
  let ?t = "rules_retrieval as (pn_orgId i) (pn_subject i) (pn_body i) ?r"
  let ?Q = "\<lambda>out r w. fst r = out \<and> lu_cents (me_usage (snd r)) = Some 0 \<and> ready E as w"
  note rules = executeStep_rules [OF assms]
  have 1: "achieves (ready E as) (executeStep E N svc i (router_step E i)) (?Q ?r)"
    by (rule rules) (simp_all add: router_step_def run_simps achieves_ret)
  have 2: "achieves (ready E as) (executeStep E N svc i (retriever_step E i ?r)) (?Q ?t)"
    by (rule rules) (simp_all add: retriever_step_def retrieve_run record_retrieval_ready)
  have 3: "achieves (ready E as) (executeStep E N svc i (resolver_step E i ?r ?t)) (?Q (resolve ?r ?t))"
    by (rule rules) (simp_all add: resolver_step_def run_simps achieves_ret)
  have 4: "achieves (ready E as) (executeStep E N svc i (critic_step E i ?r ?t b)) (?Q (review b ?t))" for b
    by (rule rules) (simp_all add: critic_step_def run_simps achieves_ret)
  show ?thesis
    unfolding runPipeline_def
    by (auto intro!: achieves_bind [OF 1] achieves_fixed achieves_bind [OF 2] achieves_bind [OF 3] achieves_bind [OF 4]
      achieves_then_keep [OF report_used_ready] achieves_ret simp: rules_result_def sumEstimatedCostCents_def Let_def)
qed

lemma pipeline_returns:
  "by_rules N svc \<Longrightarrow> fresh_ids E w \<Longrightarrow> fst (runPipeline E N svc i w) = Inr (rules_result (knowledgeArticles (db w)) i)"
  using achievesD [OF pipeline_achieves, of N svc E "knowledgeArticles (db w)" w i] by (auto simp: ready_def)

text \<open>An outside that gives out ids, a model behind a network that is down, and a ticket.\<close>

definition demo_ids :: ext where
  "demo_ids = demo_ext\<lparr>x_uuid := (\<lambda>n. replicate n CHR ''i'')\<rparr>"

definition demo_net :: llm_net where
  "demo_net = \<lparr>net_openai = (\<lambda>n c. NotOk 503 ''busy''), net_anthropic = (\<lambda>n c. Failed (plain_error ''timeout''))\<rparr>"

definition demo_llm :: llm_config where
  "demo_llm = \<lparr>lf_provider = ''openai'', lf_apiKey = Some ''k'', lf_modelRouter = ''m'', lf_modelResolver = ''m'',
     lf_modelCritic = ''m'', lf_timeoutMs = 1000, lf_maxOutputTokens = 700, lf_temperature = 0, lf_enableFallback = True\<rparr>"

definition demo_input :: pipeline_input where
  "demo_input = \<lparr>pn_orgId = ''o'', pn_ticketId = ''t'', pn_runId = ''r'', pn_subject = ''Refund'', pn_body = ''invoice''\<rparr>"

lemma demo_by_rules: "by_rules demo_net (Some demo_llm)"
  by (simp add: by_rules_def demo_net_def demo_llm_def no_answer_def)

lemma demo_fresh: "fresh_ids demo_ids demo_knowledge"
  by (auto simp: fresh_ids_def demo_ids_def demo_knowledge_def demo_world_def empty_db_def inj_def replicate_eq_replicate)

lemma demo_pipeline:
  "fst (runPipeline demo_ids demo_net (Some demo_llm) demo_input demo_knowledge) =
     Inr (rules_result (knowledgeArticles (db demo_knowledge)) demo_input)"
  by (rule pipeline_returns [OF demo_by_rules demo_fresh])



text \<open>C19: Whatever a model answers, the pipeline returns only a draft of at least ten characters with a
  confidence between 0 and 1, and a review whose verdict and action are among those listed and
  whose score is between 0 and 1: an answer of another form never leaves its step.\<close>

theorem pipeline_output_ok:
  assumes "fst (runPipeline E N svc i w) = Inr p"
  shows "resolver_ok (pl_resolver p) \<and> critic_ok (pl_critic p)"
proof -
  have "ensures (\<lambda>_. True) (runPipeline E N svc i) (\<lambda>p _. resolver_ok (pl_resolver p) \<and> critic_ok (pl_critic p))"
    unfolding runPipeline_def
    by (intro ensures_bind_value [OF steps_ok(1)] ensures_true_bind ensures_true_then
        ensures_bind_value [OF steps_ok(2)] ensures_bind_value [OF steps_ok(3)] ensures_ret) simp_all
  with assms show ?thesis by (auto simp: ensures_def)
qed

theorem pipeline_output_ok_witness:
  "resolver_ok (pl_resolver (rules_result (knowledgeArticles (db demo_knowledge)) demo_input))"
  using pipeline_output_ok [OF demo_pipeline] by simp

section \<open>Drafts made by rules\<close>

definition clean_template :: "TicketCategory \<Rightarrow> bool" where
  "clean_template c \<longleftrightarrow> \<not> length (trim (template c)) < 30 \<and> \<not> includesAny (to_lower (trim (template c)))
     [''[todo]'', ''[placeholder]'', ''lorem ipsum'', ''based on our'', ''internal guidance'', ''policy'']"

lemma templates_clean: "clean_template c"
proof -
  have "list_all clean_template [BILLING, TECHNICAL, ACCOUNT, GENERAL]" by code_simp
  then show ?thesis by (cases c) simp_all
qed

lemma trim_id: "s \<noteq> [] \<Longrightarrow> \<not> is_ws (hd s) \<Longrightarrow> \<not> is_ws (last s) \<Longrightarrow> trim s = s"
  by (simp add: trim_def dropWhile_eq_self_iff [THEN iffD2] hd_rev)

lemma route_confident: "76 / 100 \<le> ru_confidence (route subject body)"
  by (simp add: route_def Let_def)

lemma opener_first: "\<not> is_ws (hd (category_opener c))" "category_opener c \<noteq> []"  "30 \<le> length (category_opener c @ '' Based on our '')"
  by (cases c; simp add: is_ws_def)+
definition PLACEHOLDERS :: "string list" where
  "PLACEHOLDERS = [''[todo]'', ''[placeholder]'', ''lorem ipsum'']"

lemma articles_draft_long:
  assumes "re_results t = best # rest"
  shows "\<not> length (trim (ro_draftBody (resolve r t))) < 30"
proof -
  define d where "d = ro_draftBody (resolve r t)"
  have d: "\<exists>mid. d = category_opener (ru_category r) @ '' Based on our '' @ mid @ ''.''"
    using assms by (simp add: d_def resolve_def Let_def)
  then have "trim d = d"
    using opener_first [of "ru_category r"] by (intro trim_id) (auto simp: is_ws_def)
  moreover have "30 \<le> length d"
    using d opener_first(3) [of "ru_category r"] by auto
  ultimately show ?thesis by (simp add: d_def)
qed

text \<open>A draft made by the rules passes the review by the rules, with or without articles found, unless
  the title of the best article brings one of the three placeholder texts into it.\<close>

theorem rules_draft_passes:
  "co_passed (pl_critic (rules_result articles i)) \<longleftrightarrow>
     \<not> includesAny (to_lower (trim (ro_draftBody (pl_resolver (rules_result articles i))))) PLACEHOLDERS"
proof -
  let ?r = "route (pn_subject i) (pn_body i)"
  let ?t = "rules_retrieval articles (pn_orgId i) (pn_subject i) (pn_body i) ?r"
  have n: "re_resultCount ?t = length (re_results ?t)" by (simp add: rules_retrieval_def Let_def)
  have c: "76 / 100 \<le> ru_confidence ?r" by (rule route_confident)
  have ok: "ro_confidence (resolve ?r ?t) < 6 / 10 \<longleftrightarrow> False"
    using c by (auto simp: resolve_def Let_def min_def split: list.split)
  have passes: "co_passed (review a t) \<longleftrightarrow> critic_issues a t = []" for a t by (simp add: review_def Let_def)
  show ?thesis
  proof (cases "re_results ?t")
    case Nil
    then show ?thesis using templates_clean [of "ru_category ?r"] n c
      unfolding rules_result_def Let_def pipeline_result.simps passes critic_issues_def ok
      by (simp add: resolve_def Let_def clean_template_def PLACEHOLDERS_def includesAny_def)
  next
    case (Cons best rest)
    have "\<not> length (trim (ro_draftBody (resolve ?r ?t))) < 30" by (rule articles_draft_long [OF Cons])
    then show ?thesis using n c Cons
      unfolding rules_result_def Let_def pipeline_result.simps passes critic_issues_def ok
      by (simp add: resolve_def Let_def PLACEHOLDERS_def includesAny_def)
  qed
qed

lemma category_of_name: "category_of (Some (JStr (category_name c))) = Some c"
  by (cases c) (simp_all add: category_of_def)

lemma strings_in_map: "strings_in (map JStr xs) = xs"
  by (induction xs) (simp_all add: strings_in_def)

text \<open>The output of an agent, as it is stored and as a model is asked to write it, is read back by the
  validator of its step to the same output.\<close>

theorem agent_output_roundtrip:
  assumes "router_ok r" "resolver_ok s" "critic_ok c"
  shows "validateRouterOutput E (j_router r) = Inr r \<and> validateResolverOutput (j_resolver s) = Inr s \<and>
    validateCriticOutput E (j_critic c) = Inr c"
  using assms
  by (auto simp: j_router_def j_resolver_def j_critic_def validateRouterOutput_def validateResolverOutput_def
     validateCriticOutput_def router_ok_def resolver_ok_def critic_ok_def and_then_def check_that_def
     j_get_def j_get_str_def get_num_def get_arr_def get_bool_def one_of_def truthy_def category_of_name
     strings_in_map clamp01_id)

theorem agent_output_roundtrip_witness:
  "validateRouterOutput demo_ext (j_router (route ''Refund'' ''invoice'')) = Inr (route ''Refund'' ''invoice'')"
  using agent_output_roundtrip [OF route_ok resolve_ok [OF route_ok] review_ok] by blast

section \<open>The steps on record\<close>

text \<open>A finished step of a run, with its type, status and output.\<close>

definition finished_step :: "string \<Rightarrow> AgentStepType \<Rightarrow> AgentStepStatus \<Rightarrow> json \<Rightarrow> agent_step \<Rightarrow> bool" where
  "finished_step runId ty status output x \<longleftrightarrow> st_agentRunId x = runId \<and> st_stepType x = ty \<and>
     st_status x = status \<and> st_finishedAt x \<noteq> None \<and> (\<exists>m. st_outputJson x = Some (output_json output m))"

lemma ignores_steps: "ignores agentEvent_t (\<lambda>d. Q (agentSteps d))" "ignores knowledgeRetrieval_t (\<lambda>d. Q (agentSteps d))"
  by (simp_all add: ignores_def agentEvent_t_def knowledgeRetrieval_t_def)

lemma rt_append_steps [preserve_rules]: "preserves (on_db (\<lambda>d. Q (agentSteps d))) (rt_append E i ty payload)"
  unfolding rt_append_def by (intro preserve_rules ev.append_other ignores_steps)

lemma record_retrieval_steps: "preserves (on_db (\<lambda>d. Q (agentSteps d))) (record_retrieval E i t)"
  unfolding record_retrieval_def by (intro preserve_rules preserves_other_table ignores_steps)

lemma preserves_reply [preserve_rules]:
  "(\<And>e. r = Failed e \<Longrightarrow> preserves I (f e)) \<Longrightarrow> (\<And>a b. r = NotOk a b \<Longrightarrow> preserves I (g a b)) \<Longrightarrow>
   (\<And>a. r = Reply a \<Longrightarrow> preserves I (h a)) \<Longrightarrow>
   preserves I (case r of Failed e \<Rightarrow> f e | NotOk a b \<Rightarrow> g a b | Reply a \<Rightarrow> h a)"
  by (cases r) simp_all

lemma generate_keeps [preserve_rules]: "preserves I (generateStructured E N cfg t sys usr n validate)"
  unfolding generateStructured_def provider_generate_def openai_generate_def anthropic_generate_def structured_def
    reply_x_def Let_def
  by (intro preserve_rules)

text \<open>A step whose rules and whose follow-up leave the other steps alone.\<close>

definition own_rows :: "'o step \<Rightarrow> bool" where
  "own_rows s \<longleftrightarrow> (\<forall>Q. preserves (on_db (\<lambda>d. Q (agentSteps d))) (sp_execute s)) \<and>
     (\<forall>Q out. preserves (on_db (\<lambda>d. Q (agentSteps d))) (sp_after s out))"

lemma retrieve_keeps: "preserves I (retrieve a b c d)"
  by (simp add: preserves_def retrieve_run)

lemma steps_own_rows:
  "own_rows (router_step E i)" "own_rows (retriever_step E i a)" "own_rows (resolver_step E i a t)"
  "own_rows (critic_step E i a t b)"
  unfolding own_rows_def router_step_def retriever_step_def resolver_step_def critic_step_def
  by (simp_all add: preserves_ret record_retrieval_steps retrieve_keeps)

lemma own_rowsD:
  "own_rows s \<Longrightarrow> preserves (on_db (\<lambda>d. Q (agentSteps d))) (sp_execute s)"
  "own_rows s \<Longrightarrow> preserves (on_db (\<lambda>d. Q (agentSteps d))) (sp_after s out)"
  by (simp_all add: own_rows_def)

lemma obtain_output_steps:
  assumes "own_rows s"
  shows "preserves (on_db (\<lambda>d. Q (agentSteps d))) (obtain_output E N svc i s)"
  unfolding obtain_output_def llm_success_def llm_failure_def Let_def
  by (auto split: option.split intro!: preserve_rules own_rowsD [OF assms])

lemma finish_step_keeps:
  assumes "own_rows s" "st_id x \<noteq> sid"
  shows "preserves (on_db (\<lambda>d. x \<in> set (agentSteps d))) (finish_step E i s sid r)"
proof -
  have "preserves (on_db (\<lambda>d. x \<in> set (agentSteps d))) (sp_after s out)" for out
    by (rule own_rowsD(2) [OF assms(1), where Q = "\<lambda>t. x \<in> set t"])
  moreover have "preserves (on_db (\<lambda>d. x \<in> set (agentSteps d))) (update_row E agentStep_t (\<lambda>x. st_id x = sid) f)" for f
    using assms(2) by (intro preserves_update) (auto simp: agentStep_t_def set_update_where dest!: first_where_Some)
  moreover have "preserves (on_db (\<lambda>d. x \<in> set (agentSteps d))) (rt_append E i ty payload)" for ty payload
    by (rule rt_append_steps [where Q = "\<lambda>t. x \<in> set t"])
  ultimately show ?thesis
    unfolding finish_step_def Let_def by (intro preserve_rules) 
qed

lemma create_step_spec:
  "ensures (on_db (\<lambda>d. x \<in> set (agentSteps d))) (create_step E i s)
     (\<lambda>y w. st_id x \<noteq> st_id y \<and> on_db (\<lambda>d. x \<in> set (agentSteps d)) w)"
  "ensures (\<lambda>_. True) (create_step E i s)
     (\<lambda>y. on_db (\<lambda>d. y \<in> set (agentSteps d) \<and> st_agentRunId y = pn_runId i \<and> st_stepType y = sp_stepType s))"
  by (auto simp: ensures_def create_step_def run_simps insert_row_def agentStep_t_def agentStep_clash_def
      on_db_def list_ex_iff split: if_splits)

lemma executeStep_keeps:
  assumes "own_rows s"
  shows "ensures (on_db (\<lambda>d. x \<in> set (agentSteps d))) (executeStep E N svc i s) (\<lambda>_. on_db (\<lambda>d. x \<in> set (agentSteps d)))"
proof -
  let ?I = "on_db (\<lambda>d. x \<in> set (agentSteps d))"
  note app = rt_append_steps [where Q = "\<lambda>t. x \<in> set t"] obtain_output_steps [OF assms, where Q = "\<lambda>t. x \<in> set t"]
  have keep: "preserves ?I m \<Longrightarrow> ensures ?I m (\<lambda>_. ?I)" for m :: "('a \<times> agent_meta) act"
    by (auto simp: preserves_def ensures_def)
  have body: "ensures (\<lambda>w. st_id x \<noteq> st_id y \<and> ?I w) (then_x (metric_x n l) (then_x (rt_append E i ty payload)
      (catch_x (bind_x (obtain_output E N svc i s) (finish_step E i s (st_id y))) (fail_step E i s (st_id y)))))
      (\<lambda>_. ?I)" for y n l ty payload
  proof (cases "st_id x = st_id y")
    case False
    have "ensures ?I (then_x (metric_x n l) (then_x (rt_append E i ty payload)
      (catch_x (bind_x (obtain_output E N svc i s) (finish_step E i s (st_id y))) (fail_step E i s (st_id y))))) (\<lambda>_. ?I)"
      by (intro ensures_then_keep preserves_metric app ensures_catch fail_step_throws keep preserves_bind
          finish_step_keeps [OF assms False])
    then show ?thesis by (rule ensures_weaken) auto
  qed (simp add: ensures_def)
  show ?thesis unfolding executeStep_def by (rule ensures_bind [OF create_step_spec(1) body])
qed

abbreviation step_in :: "(agent_step \<Rightarrow> bool) \<Rightarrow> world \<Rightarrow> bool" where
  "step_in P \<equiv> on_db (\<lambda>d. \<exists>x \<in> set (agentSteps d). P x)"

lemma update_step_in:
  assumes "\<And>x. P x \<Longrightarrow> st_id x = sid \<and> Q (f x)"
  shows "ensures (step_in P) (update_row E agentStep_t (\<lambda>x. st_id x = sid) f) (\<lambda>_. step_in Q)"
  unfolding ensures_def
proof (intro allI impI)
  fix w a assume "step_in P w" and ok: "fst (update_row E agentStep_t (\<lambda>x. st_id x = sid) f w) = Inr a"
  then obtain x where x: "x \<in> set (agentSteps (db w))" "P x" by (auto simp: on_db_def)
  from ok obtain r where r: "first_where (\<lambda>x. st_id x = sid) (agentSteps (db w)) = Some r"
    by (auto simp: run_simps replace_row_def agentStep_t_def split: option.splits)
  have "f x \<in> (\<lambda>y. if st_id y = sid then f y else y) ` set (agentSteps (db w))"
    using x assms [OF x(2)] by (auto intro: image_eqI [of _ _ x])
  with ok r first_where_Some [OF r] assms [OF x(2)]
  show "step_in Q (snd (update_row E agentStep_t (\<lambda>x. st_id x = sid) f w))"
    by (auto simp: run_simps replace_row_def agentStep_t_def on_db_def set_update_where split: if_splits)
qed

lemma finish_step_records:
  assumes "own_rows s"
  shows "ensures (step_in (\<lambda>x. st_id x = sid \<and> st_agentRunId x = pn_runId i \<and> st_stepType x = sp_stepType s))
    (finish_step E i s sid r)
    (\<lambda>r'. step_in (finished_step (pn_runId i) (sp_stepType s) (sp_status s (fst r')) (sp_json s (fst r'))))"
proof -
  let ?P = "\<lambda>x. st_id x = sid \<and> st_agentRunId x = pn_runId i \<and> st_stepType x = sp_stepType s"
  let ?K = "step_in (finished_step (pn_runId i) (sp_stepType s) (sp_status s (fst r)) (sp_json s (fst r)))"
  have keep: "preserves (step_in P) (rt_append E i ty payload)" "preserves (step_in P) (sp_after s out)" for P ty payload out
    by (rule rt_append_steps own_rowsD(2) [OF assms])+
  have update: "ensures (step_in ?P) (update_row E agentStep_t (\<lambda>x. st_id x = sid) (\<lambda>x. x\<lparr>
       st_status := sp_status s (fst r), st_outputJson := Some (output_json (sp_json s (fst r)) m),
       st_provider := a, st_model := b, st_inputTokens := c, st_outputTokens := d,
       st_estimatedCostCents := e, st_finishedAt := Some f, st_durationMs := g\<rparr>)) (\<lambda>_. ?K)" for m a b c d e f g
    by (rule update_step_in) (auto simp: finished_step_def)
  have "ensures (step_in ?P) (finish_step E i s sid r) (\<lambda>r' w. r' = r \<and> ?K w)"
    unfolding finish_step_def Let_def
    by (intro ensures_bind_keep [OF preserves_now] ensures_bind_keep [OF preserves_elapsed] ensures_then [OF update]
        ensures_then_keep [OF preserves_metric] ensures_then_keep [OF keep(1)] ensures_then_keep [OF keep(2)] ensures_ret) simp
  then show ?thesis by (rule ensures_weaken) auto
qed

lemma executeStep_records:
  assumes "own_rows s"
  shows "ensures (\<lambda>_. True) (executeStep E N svc i s)
    (\<lambda>r. step_in (finished_step (pn_runId i) (sp_stepType s) (sp_status s (fst r)) (sp_json s (fst r))))"
proof -
  let ?P = "\<lambda>sid x. st_id x = sid \<and> st_agentRunId x = pn_runId i \<and> st_stepType x = sp_stepType s"
  let ?Q = "\<lambda>r. step_in (finished_step (pn_runId i) (sp_stepType s) (sp_status s (fst r)) (sp_json s (fst r)))"
  have start: "ensures (\<lambda>_. True) (create_step E i s) (\<lambda>y. step_in (?P (st_id y)))"
    by (rule ensures_weaken [OF create_step_spec(2)]) (auto simp: on_db_def)
  have keep: "preserves (step_in P) (rt_append E i ty payload)" "preserves (step_in P) (obtain_output E N svc i s)" for P ty payload
    by (rule rt_append_steps obtain_output_steps [OF assms])+
  show ?thesis
    unfolding executeStep_def
    by (intro ensures_bind [OF start] ensures_then_keep [OF preserves_metric] ensures_then_keep [OF keep(1)]
        ensures_catch ensures_bind_keep [OF keep(2)] finish_step_records assms fail_step_throws)
qed

lemma executeStep_keeps_found:
  assumes "own_rows s"
  shows "ensures (step_in P) (executeStep E N svc i s) (\<lambda>_. step_in P)"
  using executeStep_keeps [OF assms] by (auto simp: ensures_def on_db_def) 

text \<open>C20: A run of the pipeline that returns has left a finished row of each of its four agents, with the
  agent's output: the resolver's is the draft returned, the critic's the review returned, and the
  critic's step is BLOCKED exactly when the review did not pass.\<close>

theorem pipeline_steps_recorded:
  assumes "fst (runPipeline E N svc i w) = Inr p"
  shows "\<exists>router retrieval. list_all (\<lambda>P. list_ex P (agentSteps (db (snd (runPipeline E N svc i w)))))
    [finished_step (pn_runId i) AgentStepType.ROUTER AgentStepStatus.SUCCEEDED (j_router router),
     finished_step (pn_runId i) AgentStepType.RETRIEVER AgentStepStatus.SUCCEEDED (j_retrieval retrieval),
     finished_step (pn_runId i) AgentStepType.RESOLVER AgentStepStatus.SUCCEEDED (j_resolver (pl_resolver p)),
     finished_step (pn_runId i) AgentStepType.CRITIC
       (if co_passed (pl_critic p) then AgentStepStatus.SUCCEEDED else AgentStepStatus.BLOCKED) (j_critic (pl_critic p))]"
proof -
  let ?f = "finished_step (pn_runId i)"
  let ?a = "\<lambda>r w. step_in (?f AgentStepType.ROUTER AgentStepStatus.SUCCEEDED (j_router r)) w"
  let ?b = "\<lambda>r w. step_in (?f AgentStepType.RETRIEVER AgentStepStatus.SUCCEEDED (j_retrieval r)) w"
  let ?c = "\<lambda>r w. step_in (?f AgentStepType.RESOLVER AgentStepStatus.SUCCEEDED (j_resolver r)) w"
  let ?d = "\<lambda>r w. step_in (?f AgentStepType.CRITIC
    (if co_passed r then AgentStepStatus.SUCCEEDED else AgentStepStatus.BLOCKED) (j_critic r)) w"
  note records = steps_own_rows [THEN executeStep_records, THEN ensures_weaken]
  note keeps = steps_own_rows [THEN executeStep_keeps_found]
  have 1: "ensures (\<lambda>_. True) (executeStep E N svc i (router_step E i)) (\<lambda>r. ?a (fst r))"
    by (rule records(1)) (simp_all add: router_step_def)
  have 2: "ensures (\<lambda>_. True) (executeStep E N svc i (retriever_step E i x)) (\<lambda>r. ?b (fst r))" for x
    by (rule records(2)) (simp_all add: retriever_step_def)
  have 3: "ensures (\<lambda>_. True) (executeStep E N svc i (resolver_step E i x y)) (\<lambda>r. ?c (fst r))" for x y
    by (rule records(3)) (simp_all add: resolver_step_def)
  have 4: "ensures (\<lambda>_. True) (executeStep E N svc i (critic_step E i x y z)) (\<lambda>r. ?d (fst r))" for x y z
    by (rule records(4)) (simp_all add: critic_step_def)
  note k = ensures_conj_keep and add = ensures_conj_add
  have report: "preserves (step_in P) (report_used E i x)" for P x
    unfolding report_used_def by (intro preserve_rules rt_append_steps)
  have "ensures (\<lambda>_. True) (runPipeline E N svc i)
    (\<lambda>p w. \<exists>x y. ?a x w \<and> ?b y w \<and> ?c (pl_resolver p) w \<and> ?d (pl_critic p) w)"
    unfolding runPipeline_def
    by (intro ensures_bind [OF 1] ensures_bind [OF add [OF keeps(2) 2]]
        ensures_bind [OF add [OF k [OF keeps(3) keeps(3)] 3]]
        ensures_then_keep [OF preserves_both [OF preserves_both [OF report report] report]]
        ensures_bind [OF add [OF k [OF k [OF keeps(4) keeps(4)] keeps(4)] 4]] ensures_ret) auto
  then show ?thesis using assms by (fastforce simp: ensures_def on_db_def list_ex_iff)
qed

theorem pipeline_steps_recorded_witness:
  "list_ex (\<lambda>x. st_stepType x = AgentStepType.CRITIC \<and> st_finishedAt x \<noteq> None)
     (agentSteps (db (snd (runPipeline demo_ids demo_net (Some demo_llm) demo_input demo_knowledge))))"
  using pipeline_steps_recorded [OF demo_pipeline] by (fastforce simp: list_ex_iff finished_step_def)

end
