(* ===== verification/Operations.thy ===== *)
theory Operations
  imports Support Tokens
begin

text \<open>
  \<^verbatim>\<open>apps/api/src/operations/operations.service.ts\<close>: the summary, runs and failures of an
  organisation, replay and resolution of a failure, search of the audit trail and its export as CSV.
  Postgres does not order the groups of a \<^verbatim>\<open>groupBy\<close>; the model lists them by first occurrence.
\<close>

section \<open>Event types as text\<close>

primrec name_of_AgentEventType :: "AgentEventType \<Rightarrow> string" where
  "name_of_AgentEventType AgentEventType.RUN_QUEUED = ''RUN_QUEUED''"
| "name_of_AgentEventType AgentEventType.RUN_STARTED = ''RUN_STARTED''"
| "name_of_AgentEventType AgentEventType.ROUTER_STARTED = ''ROUTER_STARTED''"
| "name_of_AgentEventType AgentEventType.ROUTER_DECISION = ''ROUTER_DECISION''"
| "name_of_AgentEventType AgentEventType.RETRIEVER_STARTED = ''RETRIEVER_STARTED''"
| "name_of_AgentEventType AgentEventType.RETRIEVER_RESULTS = ''RETRIEVER_RESULTS''"
| "name_of_AgentEventType AgentEventType.KNOWLEDGE_USED = ''KNOWLEDGE_USED''"
| "name_of_AgentEventType AgentEventType.KNOWLEDGE_NOT_FOUND = ''KNOWLEDGE_NOT_FOUND''"
| "name_of_AgentEventType AgentEventType.RESOLVER_STARTED = ''RESOLVER_STARTED''"
| "name_of_AgentEventType AgentEventType.RESOLVER_DRAFTED = ''RESOLVER_DRAFTED''"
| "name_of_AgentEventType AgentEventType.CRITIC_STARTED = ''CRITIC_STARTED''"
| "name_of_AgentEventType AgentEventType.CRITIC_REVIEWED = ''CRITIC_REVIEWED''"
| "name_of_AgentEventType AgentEventType.CRITIC_BLOCKED = ''CRITIC_BLOCKED''"
| "name_of_AgentEventType AgentEventType.DRAFT_CREATED = ''DRAFT_CREATED''"
| "name_of_AgentEventType AgentEventType.DRAFT_EDITED = ''DRAFT_EDITED''"
| "name_of_AgentEventType AgentEventType.DRAFT_APPROVED = ''DRAFT_APPROVED''"
| "name_of_AgentEventType AgentEventType.DRAFT_REJECTED = ''DRAFT_REJECTED''"
| "name_of_AgentEventType AgentEventType.DRAFT_AUTO_APPROVED = ''DRAFT_AUTO_APPROVED''"
| "name_of_AgentEventType AgentEventType.DRAFT_SENT = ''DRAFT_SENT''"
| "name_of_AgentEventType AgentEventType.OUTBOUND_MESSAGE_CREATED = ''OUTBOUND_MESSAGE_CREATED''"
| "name_of_AgentEventType AgentEventType.HUMAN_APPROVAL_CREATED = ''HUMAN_APPROVAL_CREATED''"
| "name_of_AgentEventType AgentEventType.AGENT_STEP_FAILED = ''AGENT_STEP_FAILED''"
| "name_of_AgentEventType AgentEventType.TICKET_STATUS_CHANGED = ''TICKET_STATUS_CHANGED''"
| "name_of_AgentEventType AgentEventType.TICKET_PRIORITY_CHANGED = ''TICKET_PRIORITY_CHANGED''"
| "name_of_AgentEventType AgentEventType.RUN_FINISHED = ''RUN_FINISHED''"
| "name_of_AgentEventType AgentEventType.RUN_FAILED = ''RUN_FAILED''"
| "name_of_AgentEventType AgentEventType.GUARDRAIL_STARTED = ''GUARDRAIL_STARTED''"
| "name_of_AgentEventType AgentEventType.GUARDRAIL_CHECK_PASSED = ''GUARDRAIL_CHECK_PASSED''"
| "name_of_AgentEventType AgentEventType.GUARDRAIL_REQUIRES_APPROVAL = ''GUARDRAIL_REQUIRES_APPROVAL''"
| "name_of_AgentEventType AgentEventType.GUARDRAIL_BLOCKED = ''GUARDRAIL_BLOCKED''"
| "name_of_AgentEventType AgentEventType.GUARDRAIL_PII_DETECTED = ''GUARDRAIL_PII_DETECTED''"
| "name_of_AgentEventType AgentEventType.GUARDRAIL_SECRET_DETECTED = ''GUARDRAIL_SECRET_DETECTED''"
| "name_of_AgentEventType AgentEventType.GUARDRAIL_COST_LIMIT_EXCEEDED = ''GUARDRAIL_COST_LIMIT_EXCEEDED''"
| "name_of_AgentEventType AgentEventType.GUARDRAIL_KNOWLEDGE_GROUNDING_FAILED = ''GUARDRAIL_KNOWLEDGE_GROUNDING_FAILED''"
| "name_of_AgentEventType AgentEventType.LLM_CALL_STARTED = ''LLM_CALL_STARTED''"
| "name_of_AgentEventType AgentEventType.LLM_CALL_SUCCEEDED = ''LLM_CALL_SUCCEEDED''"
| "name_of_AgentEventType AgentEventType.LLM_CALL_FAILED = ''LLM_CALL_FAILED''"
| "name_of_AgentEventType AgentEventType.LLM_FALLBACK_USED = ''LLM_FALLBACK_USED''"
| "name_of_AgentEventType AgentEventType.LLM_USAGE_RECORDED = ''LLM_USAGE_RECORDED''"
| "name_of_AgentEventType AgentEventType.CHANNEL_CONNECTION_CREATED = ''CHANNEL_CONNECTION_CREATED''"
| "name_of_AgentEventType AgentEventType.CHANNEL_CONNECTION_UPDATED = ''CHANNEL_CONNECTION_UPDATED''"
| "name_of_AgentEventType AgentEventType.CHANNEL_CONNECTION_DISABLED = ''CHANNEL_CONNECTION_DISABLED''"
| "name_of_AgentEventType AgentEventType.CHANNEL_CONNECTION_ENABLED = ''CHANNEL_CONNECTION_ENABLED''"
| "name_of_AgentEventType AgentEventType.CHANNEL_CONNECTION_TESTED = ''CHANNEL_CONNECTION_TESTED''"
| "name_of_AgentEventType AgentEventType.CHANNEL_WEBHOOK_RECEIVED = ''CHANNEL_WEBHOOK_RECEIVED''"
| "name_of_AgentEventType AgentEventType.CHANNEL_WEBHOOK_DUPLICATE = ''CHANNEL_WEBHOOK_DUPLICATE''"
| "name_of_AgentEventType AgentEventType.CHANNEL_WEBHOOK_REJECTED = ''CHANNEL_WEBHOOK_REJECTED''"
| "name_of_AgentEventType AgentEventType.CHANNEL_CUSTOMER_MATCHED = ''CHANNEL_CUSTOMER_MATCHED''"
| "name_of_AgentEventType AgentEventType.CHANNEL_CONVERSATION_CREATED = ''CHANNEL_CONVERSATION_CREATED''"
| "name_of_AgentEventType AgentEventType.CHANNEL_MESSAGE_RECEIVED = ''CHANNEL_MESSAGE_RECEIVED''"
| "name_of_AgentEventType AgentEventType.CHANNEL_TICKET_CREATED = ''CHANNEL_TICKET_CREATED''"
| "name_of_AgentEventType AgentEventType.CHANNEL_ATTACHMENT_RECORDED = ''CHANNEL_ATTACHMENT_RECORDED''"
| "name_of_AgentEventType AgentEventType.CHANNEL_DRAFT_APPROVED_FOR_DELIVERY = ''CHANNEL_DRAFT_APPROVED_FOR_DELIVERY''"
| "name_of_AgentEventType AgentEventType.CHANNEL_OUTBOUND_QUEUED = ''CHANNEL_OUTBOUND_QUEUED''"
| "name_of_AgentEventType AgentEventType.CHANNEL_DELIVERY_ATTEMPT_STARTED = ''CHANNEL_DELIVERY_ATTEMPT_STARTED''"
| "name_of_AgentEventType AgentEventType.CHANNEL_DELIVERY_RETRY_SCHEDULED = ''CHANNEL_DELIVERY_RETRY_SCHEDULED''"
| "name_of_AgentEventType AgentEventType.CHANNEL_MESSAGE_SENT = ''CHANNEL_MESSAGE_SENT''"
| "name_of_AgentEventType AgentEventType.CHANNEL_MESSAGE_DELIVERED = ''CHANNEL_MESSAGE_DELIVERED''"
| "name_of_AgentEventType AgentEventType.CHANNEL_MESSAGE_FAILED = ''CHANNEL_MESSAGE_FAILED''"
| "name_of_AgentEventType AgentEventType.CHANNEL_MESSAGE_DEAD_LETTERED = ''CHANNEL_MESSAGE_DEAD_LETTERED''"
| "name_of_AgentEventType AgentEventType.CHANNEL_MESSAGE_REPLAYED = ''CHANNEL_MESSAGE_REPLAYED''"
| "name_of_AgentEventType AgentEventType.CHANNEL_OUTBOUND_CANCELLED = ''CHANNEL_OUTBOUND_CANCELLED''"

definition AgentEventType_values :: "AgentEventType list" where
  "AgentEventType_values = [AgentEventType.RUN_QUEUED, AgentEventType.RUN_STARTED, AgentEventType.ROUTER_STARTED,
     AgentEventType.ROUTER_DECISION, AgentEventType.RETRIEVER_STARTED,
     AgentEventType.RETRIEVER_RESULTS, AgentEventType.KNOWLEDGE_USED,
     AgentEventType.KNOWLEDGE_NOT_FOUND, AgentEventType.RESOLVER_STARTED,
     AgentEventType.RESOLVER_DRAFTED, AgentEventType.CRITIC_STARTED,
     AgentEventType.CRITIC_REVIEWED, AgentEventType.CRITIC_BLOCKED,
     AgentEventType.DRAFT_CREATED, AgentEventType.DRAFT_EDITED, AgentEventType.DRAFT_APPROVED,
     AgentEventType.DRAFT_REJECTED, AgentEventType.DRAFT_AUTO_APPROVED,
     AgentEventType.DRAFT_SENT, AgentEventType.OUTBOUND_MESSAGE_CREATED,
     AgentEventType.HUMAN_APPROVAL_CREATED, AgentEventType.AGENT_STEP_FAILED,
     AgentEventType.TICKET_STATUS_CHANGED, AgentEventType.TICKET_PRIORITY_CHANGED,
     AgentEventType.RUN_FINISHED, AgentEventType.RUN_FAILED, AgentEventType.GUARDRAIL_STARTED,
     AgentEventType.GUARDRAIL_CHECK_PASSED, AgentEventType.GUARDRAIL_REQUIRES_APPROVAL,
     AgentEventType.GUARDRAIL_BLOCKED, AgentEventType.GUARDRAIL_PII_DETECTED,
     AgentEventType.GUARDRAIL_SECRET_DETECTED, AgentEventType.GUARDRAIL_COST_LIMIT_EXCEEDED,
     AgentEventType.GUARDRAIL_KNOWLEDGE_GROUNDING_FAILED, AgentEventType.LLM_CALL_STARTED,
     AgentEventType.LLM_CALL_SUCCEEDED, AgentEventType.LLM_CALL_FAILED,
     AgentEventType.LLM_FALLBACK_USED, AgentEventType.LLM_USAGE_RECORDED,
     AgentEventType.CHANNEL_CONNECTION_CREATED, AgentEventType.CHANNEL_CONNECTION_UPDATED,
     AgentEventType.CHANNEL_CONNECTION_DISABLED, AgentEventType.CHANNEL_CONNECTION_ENABLED,
     AgentEventType.CHANNEL_CONNECTION_TESTED, AgentEventType.CHANNEL_WEBHOOK_RECEIVED,
     AgentEventType.CHANNEL_WEBHOOK_DUPLICATE, AgentEventType.CHANNEL_WEBHOOK_REJECTED,
     AgentEventType.CHANNEL_CUSTOMER_MATCHED, AgentEventType.CHANNEL_CONVERSATION_CREATED,
     AgentEventType.CHANNEL_MESSAGE_RECEIVED, AgentEventType.CHANNEL_TICKET_CREATED,
     AgentEventType.CHANNEL_ATTACHMENT_RECORDED,
     AgentEventType.CHANNEL_DRAFT_APPROVED_FOR_DELIVERY, AgentEventType.CHANNEL_OUTBOUND_QUEUED,
     AgentEventType.CHANNEL_DELIVERY_ATTEMPT_STARTED,
     AgentEventType.CHANNEL_DELIVERY_RETRY_SCHEDULED, AgentEventType.CHANNEL_MESSAGE_SENT,
     AgentEventType.CHANNEL_MESSAGE_DELIVERED, AgentEventType.CHANNEL_MESSAGE_FAILED,
     AgentEventType.CHANNEL_MESSAGE_DEAD_LETTERED, AgentEventType.CHANNEL_MESSAGE_REPLAYED,
     AgentEventType.CHANNEL_OUTBOUND_CANCELLED]"

section \<open>Queries\<close>

definition clampLimit :: "int option \<Rightarrow> int \<Rightarrow> int \<Rightarrow> int" where
  "clampLimit v fallback maximum =
     (case v of None \<Rightarrow> fallback | Some n \<Rightarrow> if n = 0 then fallback else min (max n 1) maximum)"

record runs_query =
  rn_status :: "AgentRunStatus option"
  rn_ticketId :: "string option"
  rn_correlationId :: "string option"
  rn_limit :: "int option"

record failures_query =
  fq_status :: "string option"
  fq_limit :: "int option"

record audit_query =
  qy_startDate :: "string option"
  qy_endDate :: "string option"
  qy_eventType :: "string option"
  qy_ticketId :: "string option"
  qy_runId :: "string option"
  qy_correlationId :: "string option"
  qy_actorType :: "string option"
  qy_actorUserId :: "string option"
  qy_outcome :: "string option"
  qy_limit :: "int option"

text \<open>A \<^verbatim>\<open>where\<close> field given as \<^verbatim>\<open>undefined\<close> does not filter.\<close>

definition wanted :: "'a option \<Rightarrow> 'a \<Rightarrow> bool" where
  "wanted q v \<longleftrightarrow> (case q of None \<Rightarrow> True | Some x \<Rightarrow> v = x)"

definition take_int :: "int \<Rightarrow> 'a list \<Rightarrow> 'a list" where
  "take_int n xs = take (nat n) xs"

section \<open>Summary\<close>

definition group_counts :: "('r \<Rightarrow> 'k) \<Rightarrow> 'r list \<Rightarrow> ('k \<times> nat) list" where
  "group_counts k rs = map (\<lambda>v. (v, count_where (\<lambda>r. k r = v) rs)) (rev (remdups (rev (map k rs))))"

definition sum_some :: "int option list \<Rightarrow> int" where
  "sum_some vs = sum_list (List.map_filter id vs)"

text \<open>\<^verbatim>\<open>Math.round(avg ?? 0)\<close>\<close>

definition rounded_average :: "int list \<Rightarrow> int" where
  "rounded_average ns = (if ns = [] then 0 else \<lfloor>(of_int (sum_list ns) :: rat) / of_nat (length ns) + 1 / 2\<rfloor>)"

record operations_summary =
  sm_ticketsByStatus :: "(TicketStatus \<times> nat) list"
  sm_runsByStatus :: "(AgentRunStatus \<times> nat) list"
  sm_blockedRuns :: nat
  sm_pendingApprovals :: nat
  sm_recentFailures :: "operational_failure list"
  sm_inputTokens :: int
  sm_outputTokens :: int
  sm_estimatedCostCents :: int
  sm_averageRunDurationMs :: int
  sm_activeRuns :: nat
  sm_unresolvedFailures :: nat
  sm_pendingOutbound :: nat
  sm_retryingOutbound :: nat
  sm_deadLetterOutbound :: nat
  sm_recentChannelFailures :: "outbound_message list"

definition summary_of :: "string \<Rightarrow> db \<Rightarrow> operations_summary" where
  "summary_of orgId d =
     (let runs = filter (\<lambda>r. run_orgId r = orgId) (agentRuns d);
          failures = filter (\<lambda>f. of_organizationId f = Some orgId) (operationalFailures d);
          steps = filter (\<lambda>s. st_orgId s = orgId) (agentSteps d);
          outbound = filter (\<lambda>m. om_organizationId m = orgId) (outboundMessages d);
          with_status = (\<lambda>s. count_where (\<lambda>m. om_status m = s) outbound)
      in \<lparr>sm_ticketsByStatus = group_counts tk_status (filter (\<lambda>t. tk_orgId t = orgId) (tickets d)),
          sm_runsByStatus = group_counts run_status runs,
          sm_blockedRuns = count_where (\<lambda>r. run_status r = AgentRunStatus.BLOCKED) runs,
          sm_pendingApprovals =
            count_where (\<lambda>a. ap_orgId a = orgId \<and> ap_status a = ApprovalStatus.PENDING) (humanApprovals d),
          sm_recentFailures = take 5 (order_desc of_failedAt failures),
          sm_inputTokens = sum_some (map st_inputTokens steps),
          sm_outputTokens = sum_some (map st_outputTokens steps),
          sm_estimatedCostCents = sum_some (map st_estimatedCostCents steps),
          sm_averageRunDurationMs = rounded_average (List.map_filter run_durationMs runs),
          sm_activeRuns = count_where (\<lambda>r. run_status r \<in> {AgentRunStatus.QUEUED, AgentRunStatus.RUNNING}) runs,
          sm_unresolvedFailures = count_where (\<lambda>f. of_resolvedAt f = None) failures,
          sm_pendingOutbound = with_status OutboundMessageStatus.PENDING,
          sm_retryingOutbound = with_status OutboundMessageStatus.RETRY_SCHEDULED,
          sm_deadLetterOutbound = with_status OutboundMessageStatus.DEAD_LETTER,
          sm_recentChannelFailures =
            take 5 (order_desc om_updatedAt (filter (\<lambda>m. om_lastErrorCode m \<noteq> None) outbound))\<rparr>)"

definition getSummary :: "string \<Rightarrow> operations_summary act" where
  "getSummary orgId = gets_x (\<lambda>w. summary_of orgId (db w))"

section \<open>Runs and failures\<close>

definition listRuns :: "string \<Rightarrow> runs_query \<Rightarrow> (agent_run \<times> ticket option) list act" where
  "listRuns orgId q =
     bind_x (find_many agentRun_t (\<lambda>r. run_orgId r = orgId \<and> wanted (rn_status q) (run_status r) \<and>
        wanted (rn_ticketId q) (run_ticketId r) \<and> wanted (map_option Some (rn_correlationId q)) (run_correlationId r))) (\<lambda>runs.
       gets_x (\<lambda>w. map (\<lambda>r. (r, first_where (\<lambda>t. tk_id t = run_ticketId r) (tickets (db w))))
         (take_int (clampLimit (rn_limit q) 25 100) (order_desc run_createdAt runs))))"

definition inbound_of :: "string \<Rightarrow> db \<Rightarrow> ticket_message option" where
  "inbound_of ticketId d = first_where (\<lambda>m. tm_ticketId m = ticketId \<and> tm_direction m = MessageDirection.INBOUND)
     (order_asc tm_createdAt (ticketMessages d))"

definition getRun :: "string \<Rightarrow> string \<Rightarrow> (agent_run \<times> agent_step list \<times> ticket option \<times> ticket_message option) act" where
  "getRun orgId runId =
     bind_x (find_first agentRun_t (\<lambda>r. run_id r = runId \<and> run_orgId r = orgId)) (\<lambda>found.
     bind_x (require_x found (not_found ''Run not found'')) (\<lambda>run.
       gets_x (\<lambda>w. (run, order_asc st_createdAt (filter (\<lambda>s. st_agentRunId s = runId) (agentSteps (db w))),
         first_where (\<lambda>t. tk_id t = run_ticketId run) (tickets (db w)), inbound_of (run_ticketId run) (db w)))))"

definition listFailures :: "string \<Rightarrow> failures_query \<Rightarrow> operational_failure list act" where
  "listFailures orgId q =
     bind_x (find_many operationalFailure_t (\<lambda>f. of_organizationId f = Some orgId \<and>
        (fq_status q = Some ''resolved'' \<longrightarrow> of_resolvedAt f \<noteq> None) \<and>
        (fq_status q = Some ''open'' \<longrightarrow> of_resolvedAt f = None))) (\<lambda>fs.
       ret_x (take_int (clampLimit (fq_limit q) 25 100) (order_desc of_failedAt fs)))"

definition getFailure :: "string \<Rightarrow> string \<Rightarrow> operational_failure act" where
  "getFailure orgId failureId =
     bind_x (find_first operationalFailure_t (\<lambda>f. of_id f = failureId \<and> of_organizationId f = Some orgId)) (\<lambda>found.
       require_x found (not_found ''Failure not found''))"

definition resolveFailure :: "ext \<Rightarrow> string \<Rightarrow> string \<Rightarrow> string \<Rightarrow> string \<Rightarrow> operational_failure act" where
  "resolveFailure E orgId failureId actorUserId note =
     bind_x (getFailure orgId failureId) (\<lambda>failure.
       if of_resolvedAt failure \<noteq> None then ret_x failure
       else bind_x (now_x E) (\<lambda>now.
         update_row E operationalFailure_t (\<lambda>f. of_id f = failureId)
           (\<lambda>f. f\<lparr>of_resolvedAt := Some now, of_resolvedByUserId := Some actorUserId,
              of_resolutionNote := Some (trim note)\<rparr>)))"

section \<open>Replay\<close>

record replay_result =
  ry_failureId :: string
  ry_replayRunId :: "string option"
  ry_replayJobId :: "string option"
  ry_correlationId :: "string option"
  ry_duplicateReplay :: bool

definition duplicate_replay :: "operational_failure \<Rightarrow> replay_result act" where
  "duplicate_replay failure =
     bind_x correlation_x (\<lambda>c. ret_x \<lparr>ry_failureId = of_id failure, ry_replayRunId = None,
       ry_replayJobId = of_replayedJobId failure, ry_correlationId = nullish2 c (of_correlationId failure),
       ry_duplicateReplay = True\<rparr>)"

definition replay_payload :: "ext \<Rightarrow> string \<Rightarrow> string \<Rightarrow> ticket \<Rightarrow> ticket_message \<Rightarrow> string \<Rightarrow> string option \<Rightarrow> int \<Rightarrow> json" where
  "replay_payload E orgId runId ticket message actorUserId correlationId enqueuedAt =
     JObj [(''orgId'', JStr orgId), (''runId'', JStr runId), (''ticketId'', JStr (tk_id ticket)),
       (''subject'', JStr (tk_subject ticket)), (''body'', JStr (tm_body message)),
       (''customerEmail'', JStr (tk_customerEmail ticket)), (''requestedByUserId'', JStr actorUserId),
       (''correlationId'', j_str correlationId), (''triggerType'', JStr ''FAILURE_REPLAY''),
       (''enqueuedAt'', JStr (x_iso E enqueuedAt))]"

definition find_when :: "'r table \<Rightarrow> string option \<Rightarrow> (string \<Rightarrow> 'r \<Rightarrow> bool) \<Rightarrow> 'r option act" where
  "find_when T i P = (if truthy i then find_first T (P (the i)) else ret_x None)"

definition replay_ticket :: "string \<Rightarrow> operational_failure \<Rightarrow> (ticket \<times> ticket_message) act" where
  "replay_ticket orgId failure =
     bind_x (find_when ticket_t (of_ticketId failure) (\<lambda>i t. tk_id t = i \<and> tk_orgId t = orgId)) (\<lambda>found.
     bind_x (gets_x (\<lambda>w. case found of None \<Rightarrow> None
         | Some t \<Rightarrow> map_option (\<lambda>m. (t, m)) (inbound_of (tk_id t) (db w)))) (\<lambda>context.
       require_x context (not_found ''Ticket context for replay no longer exists'')))"

definition replay_enqueue :: "ext \<Rightarrow> string \<Rightarrow> operational_failure \<Rightarrow> string \<Rightarrow> replay_result act" where
  "replay_enqueue E orgId failure actorUserId =
     bind_x (find_when agentRun_t (of_runId failure) (\<lambda>i r. run_id r = i \<and> run_orgId r = orgId)) (\<lambda>sourceRun.
     bind_x (replay_ticket orgId failure) (\<lambda>(ticket, message).
     bind_x correlation_x (\<lambda>c. let correlationId = nullish2 c (of_correlationId failure) in
     bind_x (create_row E agentRun_t (\<lambda>i now. blank_agent_run\<lparr>run_id := i, run_createdAt := now, run_queuedAt := now,
         run_orgId := orgId, run_ticketId := tk_id ticket, run_status := AgentRunStatus.QUEUED,
         run_trigger := (case sourceRun of None \<Rightarrow> AgentRunTrigger.TICKET_CREATED | Some r \<Rightarrow> run_trigger r),
         run_correlationId := correlationId\<rparr>)) (\<lambda>run.
     bind_x (now_x E) (\<lambda>enqueuedAt.
     bind_x (queue_add E \<lparr>qc_queue = SUPPORT_QUEUE_NAME, qc_name = ''ticket.process'',
         qc_payload = replay_payload E orgId (run_id run) ticket message actorUserId correlationId enqueuedAt,
         qc_jobId = Some (''support-'' @ run_id run), qc_delay = None\<rparr>) (\<lambda>job.
     then_x (update_row E operationalFailure_t (\<lambda>f. of_id f = of_id failure) (\<lambda>f. f\<lparr>of_replayedJobId := Some job\<rparr>))
     (then_x (transaction (append_event_with E correlationId orgId (tk_id ticket) (Some (run_id run))
         AgentEventType.RUN_QUEUED (JObj [(''replayOfFailureId'', JStr (of_id failure)), (''actorUserId'', JStr actorUserId)])))
       (ret_x \<lparr>ry_failureId = of_id failure, ry_replayRunId = Some (run_id run), ry_replayJobId = Some job,
          ry_correlationId = correlationId, ry_duplicateReplay = False\<rparr>))))))))"

definition release_replay :: "string \<Rightarrow> string \<Rightarrow> operational_failure \<Rightarrow> bool" where
  "release_replay failureId claim f \<longleftrightarrow> of_id f = failureId \<and> of_replayedJobId f = Some claim"

text \<open>What follows the first read of the failure, on the row as it was read.\<close>

definition replay_read :: "ext \<Rightarrow> string \<Rightarrow> string \<Rightarrow> operational_failure \<Rightarrow> replay_result act" where
  "replay_read E orgId actorUserId failure =
     (if truthy (of_replayedJobId failure) then duplicate_replay failure
      else bind_x (uuid_x E) (\<lambda>u. let claim = ''pending:'' @ u in
        bind_x (update_many E operationalFailure_t (\<lambda>f. of_id f = of_id failure \<and> of_replayedJobId f = None)
          (\<lambda>f. f\<lparr>of_replayedJobId := Some claim\<rparr>)) (\<lambda>count.
        if count \<noteq> 1 then bind_x (getFailure orgId (of_id failure)) duplicate_replay
        else catch_x (replay_enqueue E orgId failure actorUserId)
          (\<lambda>err. then_x (update_many E operationalFailure_t (release_replay (of_id failure) claim)
              (\<lambda>f. f\<lparr>of_replayedJobId := None\<rparr>)) (throw_x err)))))"

definition replayFailure :: "ext \<Rightarrow> string \<Rightarrow> string \<Rightarrow> string \<Rightarrow> replay_result act" where
  "replayFailure E orgId failureId actorUserId =
     bind_x (getFailure orgId failureId) (replay_read E orgId actorUserId)"

section \<open>Audit\<close>

record audit_event =
  ae_id :: string
  ae_ticketId :: "string option"
  ae_runId :: "string option"
  ae_type :: string
  ae_sequence :: int
  ae_correlationId :: "string option"
  ae_createdAt :: int
  ae_payload :: json

definition audit_of_event :: "ext \<Rightarrow> agent_event \<Rightarrow> audit_event" where
  "audit_of_event E e = \<lparr>ae_id = ev_id e, ae_ticketId = Some (ev_ticketId e), ae_runId = ev_runId e,
     ae_type = name_of_AgentEventType (ev_type e), ae_sequence = ev_sequence e, ae_correlationId = ev_correlationId e,
     ae_createdAt = ev_createdAt e, ae_payload = sanitize_top E (ev_payload e)\<rparr>"

definition audit_of_channel :: "ext \<Rightarrow> channel_audit_event \<Rightarrow> audit_event" where
  "audit_of_channel E c = \<lparr>ae_id = ca_id c, ae_ticketId = None, ae_runId = None, ae_type = ca_action c,
     ae_sequence = 0, ae_correlationId = ca_correlationId c, ae_createdAt = ca_createdAt c,
     ae_payload = sanitize_top E (JObj [(''actorUserId'', j_str (ca_actorUserId c)), (''targetType'', JStr (ca_targetType c)),
       (''targetId'', JStr (ca_targetId c)), (''metadata'', nullish (ca_metadata c) JNull)])\<rparr>"

definition DAY_MS :: int where
  "DAY_MS = 24 * 60 * 60 * 1000"

text \<open>The range of a query. \<open>None\<close> is an invalid date: comparing it is false, and as a bound of the query
  the client refuses it.\<close>

definition audit_end :: "ext \<Rightarrow> audit_query \<Rightarrow> int \<Rightarrow> int option" where
  "audit_end E q now = (if truthy (qy_endDate q) then x_date E (the (qy_endDate q)) else Some now)"

definition audit_start :: "ext \<Rightarrow> audit_query \<Rightarrow> int option \<Rightarrow> int option" where
  "audit_start E q end_at =
     (let start = (if truthy (qy_startDate q) then x_date E (the (qy_startDate q))
            else map_option (\<lambda>t. t - 7 * DAY_MS) end_at)
      in case (start, end_at, env_int_trim E ''OPERATIONS_MAX_AUDIT_RANGE_DAYS'' ''31'') of
           (Some s, Some t, Some days) \<Rightarrow> Some (if s < t - max days 1 * DAY_MS then t - max days 1 * DAY_MS else s)
         | _ \<Rightarrow> start)"

text \<open>\<^verbatim>\<open>eventType\<close> filters agent events only when it names one of their types.\<close>

definition event_type_filter :: "string option \<Rightarrow> AgentEventType option" where
  "event_type_filter v =
     (if truthy v then List.find (\<lambda>ty. name_of_AgentEventType ty = the v) AgentEventType_values else None)"

definition agent_events_in :: "string \<Rightarrow> audit_query \<Rightarrow> int \<Rightarrow> int \<Rightarrow> db \<Rightarrow> agent_event list" where
  "agent_events_in orgId q lo hi d =
     take_int (clampLimit (qy_limit q) 100 1000)
       (order_desc ev_createdAt (order_desc ev_sequence (filter (\<lambda>e. ev_orgId e = orgId \<and>
          lo \<le> ev_createdAt e \<and> ev_createdAt e \<le> hi \<and> wanted (event_type_filter (qy_eventType q)) (ev_type e) \<and>
          wanted (qy_ticketId q) (ev_ticketId e) \<and> wanted (map_option Some (qy_runId q)) (ev_runId e) \<and>
          wanted (map_option Some (qy_correlationId q)) (ev_correlationId e)) (agentEvents d))))"

definition channel_events_in :: "string \<Rightarrow> audit_query \<Rightarrow> int \<Rightarrow> int \<Rightarrow> db \<Rightarrow> channel_audit_event list" where
  "channel_events_in orgId q lo hi d =
     take_int (clampLimit (qy_limit q) 100 1000)
       (order_desc ca_createdAt (filter (\<lambda>c. ca_organizationId c = orgId \<and>
          lo \<le> ca_createdAt c \<and> ca_createdAt c \<le> hi \<and> wanted (qy_eventType q) (ca_action c) \<and>
          wanted (map_option Some (qy_correlationId q)) (ca_correlationId c)) (channelAuditEvents d)))"

definition payload_keeps :: "string \<Rightarrow> string option \<Rightarrow> json \<Rightarrow> bool" where
  "payload_keeps field v payload \<longleftrightarrow> \<not> truthy v \<or> j_get field payload = Some (JStr (the v))"

definition audit_keeps :: "audit_query \<Rightarrow> audit_event \<Rightarrow> bool" where
  "audit_keeps q e \<longleftrightarrow> payload_keeps ''actorType'' (qy_actorType q) (ae_payload e) \<and>
     payload_keeps ''actorUserId'' (qy_actorUserId q) (ae_payload e) \<and> payload_keeps ''status'' (qy_outcome q) (ae_payload e)"

definition audit_filters :: "audit_query \<Rightarrow> bool" where
  "audit_filters q \<longleftrightarrow> truthy (qy_actorType q) \<or> truthy (qy_actorUserId q) \<or> truthy (qy_outcome q)"

definition audit_slice :: "ext \<Rightarrow> string \<Rightarrow> audit_query \<Rightarrow> int \<Rightarrow> int \<Rightarrow> db \<Rightarrow> audit_event list" where
  "audit_slice E orgId q lo hi d =
     take_int (clampLimit (qy_limit q) 100 1000) (order_desc ae_createdAt
       (map (audit_of_event E) (agent_events_in orgId q lo hi d) @
        map (audit_of_channel E) (channel_events_in orgId q lo hi d)))"

definition searchAudit :: "ext \<Rightarrow> string \<Rightarrow> audit_query \<Rightarrow> audit_event list act" where
  "searchAudit E orgId q =
     bind_x (if truthy (qy_endDate q) then ret_x 0 else now_x E) (\<lambda>now.
       let end_at = audit_end E q now in
       case (audit_start E q end_at, end_at) of
         (Some lo, Some hi) \<Rightarrow>
           bind_x (gets_x (\<lambda>w. audit_slice E orgId q lo hi (db w))) (\<lambda>events.
             if audit_filters q \<and> list_ex (\<lambda>e. ae_payload e = JNull) events then throw_x type_error
             else ret_x (filter (audit_keeps q) events))
       | _ \<Rightarrow> throw_x invalid_value)"

section \<open>CSV\<close>

definition double_quote :: char where
  "double_quote = char_of (34 :: nat)"

definition sanitizeCsvCell :: "string option \<Rightarrow> string" where
  "sanitizeCsvCell v =
     (let text = nullish v []
      in if text \<noteq> [] \<and> hd text \<in> set ''=+-@'' then char_of (39 :: nat) # text else text)"

definition csv_quote :: "string \<Rightarrow> string" where
  "csv_quote cell = [double_quote] @ concat (map (\<lambda>c. if c = double_quote then [c, c] else [c]) cell) @ [double_quote]"

definition csv_cells :: "ext \<Rightarrow> audit_event \<Rightarrow> string list" where
  "csv_cells E e = [sanitizeCsvCell (Some (ae_id e)), sanitizeCsvCell (Some (x_iso E (ae_createdAt e))),
     sanitizeCsvCell (Some (ae_type e)), sanitizeCsvCell (ae_ticketId e), sanitizeCsvCell (ae_runId e),
     sanitizeCsvCell (ae_correlationId e),
     sanitizeCsvCell (Some (take 500 (js_stringify (x_num E) (sanitize_top E (ae_payload e)))))]"

definition CSV_HEADER :: "string list" where
  "CSV_HEADER = [''eventId'', ''createdAt'', ''type'', ''ticketId'', ''runId'', ''correlationId'', ''payloadSummary'']"

definition csv_text :: "ext \<Rightarrow> audit_event list \<Rightarrow> string" where
  "csv_text E events =
     join_with [char_of (10 :: nat)] (join_with '','' CSV_HEADER #
       map (\<lambda>e. join_with '','' (map csv_quote (csv_cells E e))) events)"

definition exportAuditCsv :: "ext \<Rightarrow> string \<Rightarrow> audit_query \<Rightarrow> string act" where
  "exportAuditCsv E orgId q = bind_x (searchAudit E orgId q) (\<lambda>events. ret_x (csv_text E events))"

section \<open>A failure is replayed once\<close>

definition replayed :: "string \<Rightarrow> db \<Rightarrow> bool" where
  "replayed failureId d \<longleftrightarrow> (\<forall>f \<in> set (operationalFailures d). of_id f = failureId \<longrightarrow> of_replayedJobId f \<noteq> None)"

lemma replayed_ignores:
  "ignores agentRun_t (replayed i)" "ignores agentEvent_t (replayed i)"
  by (simp_all add: ignores_def replayed_def table_defs)

lemma find_when_ok [preserve_rules]: "preserves (on_db J) (find_when T i P)"
  unfolding find_when_def by (intro preserve_rules)

lemma replay_ticket_ok [preserve_rules]: "preserves (on_db J) (replay_ticket orgId failure)"
  unfolding replay_ticket_def by (intro preserve_rules)

lemma duplicate_ok [preserve_rules]:
  "preserves (on_db J) (duplicate_replay failure)" "preserves (on_db J) (getFailure orgId i)"
  unfolding duplicate_replay_def getFailure_def by (intro preserve_rules)+

lemma replay_enqueue_keeps: "preserves (on_db (replayed i)) (replay_enqueue E orgId failure actorUserId)"
  unfolding replay_enqueue_def Let_def
  by (intro preserve_rules preserves_update preserves_other_table(1) evw.append_other replayed_ignores)
    (auto simp: replayed_def operationalFailure_t_def set_update_where)

lemma replay_claims:
  "establishes (on_db (replayed i)) (update_many E operationalFailure_t (\<lambda>f. of_id f = i \<and> of_replayedJobId f = None)
     (\<lambda>f. f\<lparr>of_replayedJobId := Some claim\<rparr>))"
proof -
  have "establishes (on_db (\<lambda>d. \<forall>f \<in> set (t_get operationalFailure_t d). of_id f = i \<longrightarrow> of_replayedJobId f \<noteq> None))
      (update_many E operationalFailure_t (\<lambda>f. of_id f = i \<and> of_replayedJobId f = None) (\<lambda>f. f\<lparr>of_replayedJobId := Some claim\<rparr>))"
    by (rule establishes_update_many) (auto simp: operationalFailure_t_def)
  then show ?thesis by (simp add: replayed_def [abs_def] operationalFailure_t_def)
qed

text \<open>A read that comes too late, whatever it has read.\<close>

lemma late_replay:
  assumes "replayed (of_id stale) (db v)"
  shows "(case fst (replay_read E orgId actor stale v) of Inl e \<Rightarrow> e = not_found ''Failure not found'' | Inr r \<Rightarrow> ry_duplicateReplay r) \<and>
    db (snd (replay_read E orgId actor stale v)) = db v \<and> qlog (snd (replay_read E orgId actor stale v)) = qlog v"
proof -
  have none: "count_where (\<lambda>f. of_id f = of_id stale \<and> of_replayedJobId f = None) (operationalFailures (db v)) = 0"
    using assms by (auto simp: replayed_def count_where_def filter_empty_conv)
  show ?thesis
    using none update_where_none [OF none]
    by (auto simp: replay_read_def duplicate_replay_def getFailure_def run_simps replace_rows_def operationalFailure_t_def
        Let_def split: option.split)
qed

lemma replay_keeps: "preserves (on_db (replayed i)) (replay_read E orgId actor failure)"
proof (rule preservesI)
  fix w assume w: "on_db (replayed i) w"
  show "on_db (replayed i) (snd (replay_read E orgId actor failure w))"
  proof (cases "of_id failure = i")
    case True
    with w late_replay [of failure w E orgId actor] show ?thesis by (simp add: on_db_def)
  next
    case False
    have up: "preserves (on_db (replayed i)) (update_many E operationalFailure_t P (\<lambda>f. f\<lparr>of_replayedJobId := v\<rparr>))"
      if "\<And>f. P f \<Longrightarrow> of_id f \<noteq> i" for P v
      by (rule preserves_update_many)
        (auto simp: replayed_def operationalFailure_t_def set_update_where dest: that)
    have "preserves (on_db (replayed i)) (replay_read E orgId actor failure)"
      unfolding replay_read_def Let_def using False
      by (intro preserve_rules replay_enqueue_keeps up) (auto simp: release_replay_def)
    then show ?thesis using w by (rule preservesD)
  qed
qed

lemma replay_establishes:
  "ensures (\<lambda>_. True) (replay_read E orgId actor failure) (\<lambda>r v. \<not> ry_duplicateReplay r \<longrightarrow> replayed (of_id failure) (db v))"
proof -
  let ?Q = "\<lambda>r v. \<not> ry_duplicateReplay r \<longrightarrow> replayed (of_id failure) (db v)"
  have dup: "ensures P (duplicate_replay f) ?Q" for P f
    by (simp add: duplicate_replay_def ensures_def run_simps)
  have found: "ensures P (bind_x (getFailure orgId i) duplicate_replay) ?Q" for P i
    by (rule ensures_bind [where M = "\<lambda>_ _. True"]) (simp_all add: ensures_def dup [unfolded ensures_def])
  have enqueue: "ensures (on_db (replayed (of_id failure))) (catch_x (replay_enqueue E orgId failure actor) (\<lambda>err. then_x m (throw_x err))) ?Q"
    for m :: "nat act"
  proof (rule ensures_catch)
    show "ensures (on_db (replayed (of_id failure))) (replay_enqueue E orgId failure actor) ?Q"
      using replay_enqueue_keeps by (auto simp: ensures_def preserves_def on_db_def)
    show "ensures (\<lambda>_. True) (then_x m (throw_x e)) ?Q" for e
      by (simp add: ensures_def run_simps split: sum.split)
  qed
  show ?thesis
    unfolding replay_read_def Let_def
    by (intro ensures_if dup ensures_true_bind ensures_bind [OF ensures_establishes [OF replay_claims]] found enqueue)
qed

text \<open>C29: A failure is replayed once. After a replay that was not refused as a duplicate, no request for the same
  failure queues another job or writes anything, also one that had read the failure before: it is
  answered as a duplicate (or the failure is not found). No other replay, of any failure, undoes that.\<close>

theorem failure_replayed_once:
  assumes "fst (replay_read E orgId actor failure w) = Inr r" "\<not> ry_duplicateReplay r"
  shows "replayed (of_id failure) (db (snd (replay_read E orgId actor failure w))) \<and>
    (\<forall>E' orgId' actor' other. preserves (on_db (replayed (of_id failure))) (replay_read E' orgId' actor' other)) \<and>
    (\<forall>E' orgId' actor' stale v. of_id stale = of_id failure \<and> replayed (of_id failure) (db v) \<longrightarrow>
       (case fst (replay_read E' orgId' actor' stale v) of
          Inl e \<Rightarrow> e = not_found ''Failure not found'' | Inr r \<Rightarrow> ry_duplicateReplay r) \<and>
       db (snd (replay_read E' orgId' actor' stale v)) = db v \<and> qlog (snd (replay_read E' orgId' actor' stale v)) = qlog v)"
  using ensuresD [OF replay_establishes _ assms(1)] assms(2) replay_keeps late_replay by simp

definition demo_failures :: world where
  "demo_failures = demo_world (empty_db\<lparr>
     operationalFailures := [blank_operational_failure\<lparr>of_id := ''f'', of_organizationId := Some ''o'', of_ticketId := Some ''t''\<rparr>],
     tickets := [blank_ticket\<lparr>tk_id := ''t'', tk_orgId := ''o''\<rparr>],
     ticketMessages := [blank_ticket_message\<lparr>tm_id := ''m'', tm_ticketId := ''t''\<rparr>]\<rparr>)"

definition demo_failure :: operational_failure where
  "demo_failure = hd (operationalFailures (db demo_failures))"

lemma demo_replay:
  "\<exists>r. fst (replay_read demo_ext ''o'' ''u'' demo_failure demo_failures) = Inr r \<and> \<not> ry_duplicateReplay r"
proof -
  have "(filter (\<lambda>f. of_replayedJobId f = None) [demo_failure]) = [demo_failure]"
    by (simp add: demo_failure_def demo_failures_def demo_world_def blank_operational_failure_def)
  then show ?thesis
    by (simp add: replay_read_def replay_enqueue_def replay_ticket_def find_when_def inbound_of_def run_simps replace_rows_def
        replace_row_def insert_row_def append_event_with_def nextEventSequence_def operationalFailure_t_def agentRun_t_def agentEvent_t_def
        ticket_t_def count_where_def update_where_def first_where_def order_asc_def demo_failure_def demo_failures_def
        demo_world_def empty_db_def blank_operational_failure_def blank_ticket_def blank_ticket_message_def Let_def demo_ext_def)
qed

theorem failure_replayed_once_witness:
  "\<exists>v. v = snd (replay_read demo_ext ''o'' ''u'' demo_failure demo_failures) \<and>
     qlog (snd (replay_read demo_ext ''o'' ''u2'' demo_failure v)) = qlog v"
proof -
  obtain r where r: "fst (replay_read demo_ext ''o'' ''u'' demo_failure demo_failures) = Inr r" "\<not> ry_duplicateReplay r"
    using demo_replay by blast
  note once = failure_replayed_once [OF r]
  from once [THEN conjunct2, THEN conjunct2, rule_format, OF conjI [OF HOL.refl once [THEN conjunct1]], of demo_ext "''o''" "''u2''"]
  show ?thesis by simp
qed

section \<open>The audit trail\<close>

lemma set_take_int: "set (take_int n xs) \<subseteq> set xs"
  by (simp add: take_int_def set_take_subset)

lemma sorted_filter_take:
  fixes k :: "'r \<Rightarrow> int"
  shows "sorted_wrt (\<lambda>a b. k b \<le> k a) (filter P (take_int n (order_desc k xs)))"
proof -
  have "sorted_wrt (\<lambda>a b. k b \<le> k a) (order_desc k xs)"
    using sorted_sort_key [of "\<lambda>r. - k r" xs] by (simp add: order_desc_def sorted_wrt_map)
  then show ?thesis by (simp add: sorted_wrt_filter sorted_wrt_take take_int_def)
qed

lemma clampLimit_bound: "1 \<le> m \<Longrightarrow> f \<le> m \<Longrightarrow> clampLimit v f m \<le> m"
  by (simp add: clampLimit_def split: option.split)

text \<open>A search of the audit trail returns rows of the asking organisation only, made safe for display, from
  inside the range asked for, newest first and at most 1000 of them; the range never reaches
  further back from its end than the configured number of days (when that setting is a number).\<close>

theorem audit_bounded:
  assumes "fst (searchAudit E orgId q w) = Inr events"
  shows "sorted_wrt (\<lambda>a b. ae_createdAt b \<le> ae_createdAt a) events \<and> length events \<le> 1000 \<and>
    (\<exists>lo hi. list_all (\<lambda>e. lo \<le> ae_createdAt e \<and> ae_createdAt e \<le> hi \<and>
       (e \<in> audit_of_event E ` {r \<in> set (agentEvents (db w)). ev_orgId r = orgId} \<or>
        e \<in> audit_of_channel E ` {c \<in> set (channelAuditEvents (db w)). ca_organizationId c = orgId})) events \<and>
      (case env_int_trim E ''OPERATIONS_MAX_AUDIT_RANGE_DAYS'' ''31'' of
         None \<Rightarrow> True | Some days \<Rightarrow> hi - max days 1 * DAY_MS \<le> lo))"
proof -
  define now where "now = (if truthy (qy_endDate q) then 0 else x_clock E (ticks w))"
  obtain lo hi where range: "audit_end E q now = Some hi" "audit_start E q (Some hi) = Some lo"
    and ev: "events = filter (audit_keeps q) (audit_slice E orgId q lo hi (db w))"
    using assms by (auto simp: searchAudit_def Let_def run_simps now_def split: option.splits if_splits)
  have "length events \<le> 1000"
    using clampLimit_bound [of 1000 100 "qy_limit q"]
    by (auto simp: ev audit_slice_def take_int_def intro!: order_trans [OF length_filter_le])
  moreover have "lo \<le> ae_createdAt e \<and> ae_createdAt e \<le> hi \<and>
      (e \<in> audit_of_event E ` {r \<in> set (agentEvents (db w)). ev_orgId r = orgId} \<or>
       e \<in> audit_of_channel E ` {c \<in> set (channelAuditEvents (db w)). ca_organizationId c = orgId})"
    if "e \<in> set events" for e
  proof -
    have "e \<in> audit_of_event E ` set (agent_events_in orgId q lo hi (db w)) \<union>
        audit_of_channel E ` set (channel_events_in orgId q lo hi (db w))"
      using that set_take_int by (fastforce simp: ev audit_slice_def)
    moreover have "set (agent_events_in orgId q lo hi d) \<subseteq> {r \<in> set (agentEvents d). ev_orgId r = orgId \<and> lo \<le> ev_createdAt r \<and> ev_createdAt r \<le> hi}" for d
      using set_take_int by (fastforce simp: agent_events_in_def)
    moreover have "set (channel_events_in orgId q lo hi d) \<subseteq>
        {c \<in> set (channelAuditEvents d). ca_organizationId c = orgId \<and> lo \<le> ca_createdAt c \<and> ca_createdAt c \<le> hi}" for d
      using set_take_int by (fastforce simp: channel_events_in_def)
    ultimately show ?thesis
      by (fastforce simp: audit_of_event_def audit_of_channel_def)
  qed
  moreover have "case env_int_trim E ''OPERATIONS_MAX_AUDIT_RANGE_DAYS'' ''31'' of
      None \<Rightarrow> True | Some days \<Rightarrow> hi - max days 1 * DAY_MS \<le> lo"
    using range(2) by (auto simp: audit_start_def Let_def split: option.splits if_splits)
  ultimately show ?thesis
    using sorted_filter_take unfolding ev audit_slice_def list_all_iff by blast
qed

definition any_audit :: audit_query where
  "any_audit = \<lparr>qy_startDate = None, qy_endDate = None, qy_eventType = None, qy_ticketId = None, qy_runId = None,
     qy_correlationId = None, qy_actorType = None, qy_actorUserId = None, qy_outcome = None, qy_limit = None\<rparr>"

definition demo_audit :: world where
  "demo_audit = demo_world (empty_db\<lparr>agentEvents := [blank_agent_event\<lparr>ev_id := ''e'', ev_orgId := ''o'', ev_payload := JObj []\<rparr>,
     blank_agent_event\<lparr>ev_id := ''x'', ev_orgId := ''p''\<rparr>]\<rparr>)"

lemma demo_audit_run: "\<exists>events. fst (searchAudit demo_ext ''o'' any_audit demo_audit) = Inr events \<and> map ae_id events = [''e'']"
proof -
  have days: "env_int_trim demo_ext ''OPERATIONS_MAX_AUDIT_RANGE_DAYS'' ''31'' = Some 31"
    by (simp add: env_int_trim_def demo_ext_def) code_simp
  have "searchAudit demo_ext ''o'' any_audit demo_audit =
      (Inr (audit_slice demo_ext ''o'' any_audit (- 7 * DAY_MS) 0 (db demo_audit)), demo_audit\<lparr>ticks := 1\<rparr>)"
    by (simp add: searchAudit_def audit_end_def audit_start_def audit_filters_def audit_keeps_def payload_keeps_def
        any_audit_def days run_simps Let_def demo_audit_def demo_world_def DAY_MS_def) (simp add: demo_ext_def)
  moreover have "agent_events_in ''o'' any_audit (- 7 * DAY_MS) 0 (db demo_audit) =
      [blank_agent_event\<lparr>ev_id := ''e'', ev_orgId := ''o'', ev_payload := JObj []\<rparr>]"
    by (simp add: agent_events_in_def any_audit_def wanted_def take_int_def clampLimit_def order_desc_def event_type_filter_def
        demo_audit_def demo_world_def blank_agent_event_def DAY_MS_def)
  moreover have "channel_events_in ''o'' any_audit (- 7 * DAY_MS) 0 (db demo_audit) = []"
    by (simp add: channel_events_in_def take_int_def order_desc_def demo_audit_def demo_world_def empty_db_def)
  ultimately show ?thesis
    by (simp add: audit_slice_def order_desc_def take_int_def clampLimit_def any_audit_def audit_of_event_def)
qed

theorem audit_bounded_witness:
  "\<exists>events. fst (searchAudit demo_ext ''o'' any_audit demo_audit) = Inr events \<and> map ae_id events = [''e''] \<and>
     sorted_wrt (\<lambda>a b. ae_createdAt b \<le> ae_createdAt a) events \<and> length events \<le> 1000"
proof -
  obtain events where e: "fst (searchAudit demo_ext ''o'' any_audit demo_audit) = Inr events" "map ae_id events = [''e'']"
    using demo_audit_run by (elim exE conjE)
  note bounded = audit_bounded [OF e(1)]
  show ?thesis
    by (rule exI [of _ events]) (intro conjI e bounded [THEN conjunct1] bounded [THEN conjunct2, THEN conjunct1])
qed

section \<open>The export\<close>

text \<open>A reader of CSV as RFC 4180 describes it: cells in double quotes with doubled quotes inside, or bare.\<close>

datatype csv_mode = Bare | Quoted | Closed_quote

definition csv_end_cell :: "char \<Rightarrow> string list list \<times> string list \<times> string \<Rightarrow> string list list \<times> string list \<times> string \<times> csv_mode" where
  "csv_end_cell c = (\<lambda>(rows, row, cell).
     if c = CHR '','' then (rows, row @ [cell], [], Bare)
     else if c = char_of (10 :: nat) then (rows @ [row @ [cell]], [], [], Bare)
     else (rows, row, cell @ [c], Bare))"

definition csv_step :: "char \<Rightarrow> string list list \<times> string list \<times> string \<times> csv_mode \<Rightarrow> string list list \<times> string list \<times> string \<times> csv_mode" where
  "csv_step c = (\<lambda>(rows, row, cell, m). case m of
     Quoted \<Rightarrow> if c = double_quote then (rows, row, cell, Closed_quote) else (rows, row, cell @ [c], Quoted)
   | Closed_quote \<Rightarrow> if c = double_quote then (rows, row, cell @ [c], Quoted) else csv_end_cell c (rows, row, cell)
   | Bare \<Rightarrow> if c = double_quote \<and> cell = [] then (rows, row, cell, Quoted) else csv_end_cell c (rows, row, cell))"

definition csv_parse :: "string \<Rightarrow> string list list" where
  "csv_parse s = (case fold csv_step s ([], [], [], Bare) of (rows, row, cell, m) \<Rightarrow> rows @ [row @ [cell]])"

lemma csv_chars [simp]: "double_quote \<noteq> CHR '',''" "CHR '','' \<noteq> double_quote" "char_of (10 :: nat) \<noteq> double_quote"
  "double_quote \<noteq> char_of (10 :: nat)" "char_of (10 :: nat) \<noteq> CHR '',''"
  by (simp_all add: double_quote_def flip: of_char_eq_iff [where 'a = nat])

lemma csv_quoted:
  "fold csv_step (csv_quote s) (rows, row, [], Bare) = (rows, row, s, Closed_quote)"
proof -
  have "fold csv_step (concat (map (\<lambda>c. if c = double_quote then [c, c] else [c]) s)) (rows, row, cell, Quoted) = (rows, row, cell @ s, Quoted)" for cell
    by (induction s arbitrary: cell) (simp_all add: csv_step_def)
  then show ?thesis by (simp add: csv_quote_def) (simp add: csv_step_def)
qed

lemma csv_bare:
  assumes "double_quote \<notin> set s" "CHR '','' \<notin> set s" "char_of (10 :: nat) \<notin> set s"
  shows "fold csv_step s (rows, row, [], Bare) = (rows, row, s, Bare)"
proof -
  have "fold csv_step s (rows, row, cell, Bare) = (rows, row, cell @ s, Bare)" for cell
    using assms by (induction s arbitrary: cell) (auto simp: csv_step_def csv_end_cell_def)
  then show ?thesis by simp
qed

text \<open>What ends a cell: a comma goes on to the next, a line feed to the next row.\<close>

definition reads :: "string \<Rightarrow> string \<Rightarrow> bool" where
  "reads text cell \<longleftrightarrow> (\<forall>rows row. \<exists>m. m \<noteq> Quoted \<and> fold csv_step text (rows, row, [], Bare) = (rows, row, cell, m))"

lemma csv_separators:
  "m \<noteq> Quoted \<Longrightarrow> csv_step CHR '','' (rows, row, cell, m) = (rows, row @ [cell], [], Bare)"
  "m \<noteq> Quoted \<Longrightarrow> csv_step (char_of (10 :: nat)) (rows, row, cell, m) = (rows @ [row @ [cell]], [], [], Bare)"
  by (cases m; simp add: csv_step_def csv_end_cell_def)+

lemma csv_row:
  "list_all2 reads texts cells \<Longrightarrow> texts \<noteq> [] \<Longrightarrow>
   \<exists>m. m \<noteq> Quoted \<and> fold csv_step (join_with '','' texts) (rows, row, [], Bare) = (rows, row @ butlast cells, last cells, m)"
proof (induction texts arbitrary: cells row rule: induct_list012)
  case (2 t)
  then obtain c where "cells = [c]" "reads t c" by (cases cells) auto
  then show ?case by (simp add: reads_def)
next
  case (3 t u ts)
  then obtain c cs where c: "cells = c # cs" "reads t c" "list_all2 reads (u # ts) cs" "cs \<noteq> []"
    by (cases cells) (auto simp: list_all2_Cons1)
  obtain m where "m \<noteq> Quoted" "fold csv_step t (rows, row, [], Bare) = (rows, row, c, m)"
    using c(2) unfolding reads_def by blast
  with 3(2) [OF c(3), of "row @ [c]"] c show ?case by (simp add: csv_separators)
qed simp

definition row_text :: "string \<Rightarrow> string list \<Rightarrow> bool" where
  "row_text text cells \<longleftrightarrow> cells \<noteq> [] \<and> (\<forall>rows. \<exists>m. m \<noteq> Quoted \<and>
     fold csv_step text (rows, [], [], Bare) = (rows, butlast cells, last cells, m))"

lemma csv_rows:
  "list_all2 row_text lines rs \<Longrightarrow> lines \<noteq> [] \<Longrightarrow>
   \<exists>m. fold csv_step (join_with [char_of (10 :: nat)] lines) (rows, [], [], Bare) = (rows @ butlast rs, butlast (last rs), last (last rs), m) \<and> last rs \<noteq> []"
proof (induction lines arbitrary: rs rows rule: induct_list012)
  case (2 t)
  then obtain r where "rs = [r]" "row_text t r" by (cases rs) auto
  then show ?case unfolding row_text_def by auto
next
  case (3 t u ts)
  then obtain r qs where r: "rs = r # qs" "row_text t r" "list_all2 row_text (u # ts) qs" "qs \<noteq> []"
    by (cases rs) (auto simp: list_all2_Cons1)
  obtain m where "m \<noteq> Quoted" "fold csv_step t (rows, [], [], Bare) = (rows, butlast r, last r, m)" "r \<noteq> []"
    using r(2) unfolding row_text_def by blast
  with 3(2) [OF r(3), of "rows @ [r]"] r show ?case by (simp add: csv_separators)
qed simp

lemma header_row: "row_text (join_with '','' CSV_HEADER) CSV_HEADER"
proof -
  have "list_all (\<lambda>h. double_quote \<notin> set h \<and> CHR '','' \<notin> set h \<and> char_of (10 :: nat) \<notin> set h) CSV_HEADER"
    by (simp add: CSV_HEADER_def double_quote_def flip: of_char_eq_iff [where 'a = nat])
  then have "list_all2 reads CSV_HEADER CSV_HEADER"
    by (auto simp: list_all_iff list.rel_refl_strong reads_def csv_bare intro!: list.rel_refl_strong exI [of _ Bare])
  then show ?thesis
    unfolding row_text_def using csv_row [of CSV_HEADER CSV_HEADER _ "[]"] by (simp add: CSV_HEADER_def)
qed

lemma quoted_row: "cells \<noteq> [] \<Longrightarrow> row_text (join_with '','' (map csv_quote cells)) cells"
proof -
  assume "cells \<noteq> []"
  moreover have "list_all2 reads (map csv_quote cells) cells"
    by (induction cells) (auto simp: reads_def csv_quoted)
  ultimately show ?thesis
    unfolding row_text_def using csv_row [of "map csv_quote cells" cells _ "[]"] by simp
qed

lemma event_row: "row_text (join_with '','' (map csv_quote (csv_cells E e))) (csv_cells E e)"
  by (rule quoted_row) (simp add: csv_cells_def)

text \<open>C30: Nothing of an export is lost or broken, and nothing of it runs: a reader of CSV gets back the header
  and one row per event with exactly the cells that were written, whatever characters they hold,
  and no cell begins as a formula of a spreadsheet does.\<close>

theorem csv_roundtrip:
  "csv_parse (csv_text E events) = CSV_HEADER # map (csv_cells E) events \<and>
   list_all (\<lambda>e. list_all (\<lambda>cell. take 1 cell \<notin> {''='', ''+'', ''-'', ''@''}) (csv_cells E e)) events"
proof
  let ?lines = "join_with '','' CSV_HEADER # map (\<lambda>e. join_with '','' (map csv_quote (csv_cells E e))) events"
  let ?rs = "CSV_HEADER # map (csv_cells E) events"
  have "list_all2 row_text ?lines ?rs"
    by (simp add: header_row list.rel_map event_row list.rel_refl_strong)
  from csv_rows [OF this, of "[]"] obtain m where
    "fold csv_step (csv_text E events) ([], [], [], Bare) = (butlast ?rs, butlast (last ?rs), last (last ?rs), m)" "last ?rs \<noteq> []"
    by (auto simp: csv_text_def)
  then show "csv_parse (csv_text E events) = ?rs"
    by (simp only: csv_parse_def prod.case append_butlast_last_id) simp
  have "take 1 (sanitizeCsvCell v) \<notin> {''='', ''+'', ''-'', ''@''}" for v
    by (cases "nullish v []") (auto simp: sanitizeCsvCell_def Let_def simp flip: of_char_eq_iff [where 'a = nat] split: if_splits)
  then show "list_all (\<lambda>e. list_all (\<lambda>cell. take 1 cell \<notin> {''='', ''+'', ''-'', ''@''}) (csv_cells E e)) events"
    by (simp add: list_all_iff csv_cells_def)
qed

end
