(* ===== verification/Steps.thy ===== *)
theory Steps
  imports Inbound Delivery Support Pipeline Auth Operations
begin

text \<open>
  The program as a whole: one step is one call of an operation of the API or of a worker, on any
  arguments, with any answers from outside. Every step keeps \<open>db_ok\<close>, so every database
  reached from an empty one has gapless timelines and no violated unique index.
\<close>

section \<open>Every operation keeps the invariant\<close>

lemmas appends_db_ok [preserve_rules] =
  ch.append_db_ok dl.append_db_ok su.append_db_ok sp.append_db_ok

lemma table_keys:
  "t_id organization_t = og_id" "t_id user_t = us_id" "t_id organizationMembership_t = mb_id"
  "t_id refreshSession_t = se_id" "t_id ticket_t = tk_id" "t_id ticketMessage_t = tm_id"
  "t_id agentRun_t = run_id" "t_id agentStep_t = st_id" "t_id knowledgeArticle_t = ka_id"
  "t_id knowledgeRetrieval_t = kr_id" "t_id agentEvent_t = ev_id" "t_id organizationSettings_t = os_id"
  "t_id humanApproval_t = ap_id" "t_id outboundDraft_t = dr_id" "t_id agentGuardrailCheck_t = gc_id"
  "t_id operationalFailure_t = of_id" "t_id channelConnection_t = cc_id" "t_id externalCustomer_t = cu_id"
  "t_id conversation_t = cv_id" "t_id externalMessage_t = xm_id" "t_id messageAttachment_t = at_id"
  "t_id webhookReceipt_t = wr_id" "t_id inboundDispatch_t = di_id" "t_id outboundMessage_t = om_id"
  "t_id deliveryAttempt_t = da_id" "t_id channelAuditEvent_t = ca_id" "t_clash organization_t = organization_clash"
  "t_clash user_t = user_clash" "t_clash organizationMembership_t = organizationMembership_clash" "t_clash refreshSession_t = refreshSession_clash"
  "t_clash ticket_t = ticket_clash" "t_clash ticketMessage_t = ticketMessage_clash" "t_clash agentRun_t = agentRun_clash"
  "t_clash agentStep_t = agentStep_clash" "t_clash knowledgeArticle_t = knowledgeArticle_clash" "t_clash knowledgeRetrieval_t = knowledgeRetrieval_clash"
  "t_clash agentEvent_t = agentEvent_clash" "t_clash organizationSettings_t = organizationSettings_clash" "t_clash humanApproval_t = humanApproval_clash"
  "t_clash outboundDraft_t = outboundDraft_clash" "t_clash agentGuardrailCheck_t = agentGuardrailCheck_clash" "t_clash operationalFailure_t = operationalFailure_clash"
  "t_clash channelConnection_t = channelConnection_clash" "t_clash externalCustomer_t = externalCustomer_clash" "t_clash conversation_t = conversation_clash"
  "t_clash externalMessage_t = externalMessage_clash" "t_clash messageAttachment_t = messageAttachment_clash" "t_clash webhookReceipt_t = webhookReceipt_clash"
  "t_clash inboundDispatch_t = inboundDispatch_clash" "t_clash outboundMessage_t = outboundMessage_clash" "t_clash deliveryAttempt_t = deliveryAttempt_clash"
  "t_clash channelAuditEvent_t = channelAuditEvent_clash"
  by (simp_all add: table_defs)

subsection \<open>Channels\<close>

lemma create_audit_db_ok [preserve_rules]: "preserves (on_db db_ok) (create_audit E a b c d e f)"
  unfolding create_audit_def by (intro preserve_rules)

lemma recordChannelAudit_db_ok [preserve_rules]:
  "preserves (on_db db_ok) (recordChannelAudit E a b c d e)"
  unfolding recordChannelAudit_def by (intro preserve_rules)

lemma getProvider_ok [preserve_rules]: "preserves I (getProvider p)"
  unfolding getProvider_def by (intro preserve_rules)

lemma getConnection_ok [preserve_rules]: "preserves (on_db J) (getConnection E a b)"
  unfolding getConnection_def by (intro preserve_rules)

lemma connections_db_ok [preserve_rules]:
  "preserves (on_db db_ok) (createConnection E orgId cdto actor)"
  "preserves (on_db db_ok) (updateConnection E orgId connectionId udto actor)"
  "preserves (on_db db_ok) (setConnectionEnabled E orgId connectionId enabled actor)"
  "preserves (on_db db_ok) (testConnection E orgId connectionId actor)"
  unfolding createConnection_def updateConnection_def setConnectionEnabled_def testConnection_def
  by (intro preserve_rules; simp add: table_keys)+

lemma upsertExternalCustomer_db_ok [preserve_rules]:
  "preserves (on_db db_ok) (upsertExternalCustomer E a b c d e f)"
  unfolding upsertExternalCustomer_def by (auto intro!: preserve_rules simp: table_keys)

lemma find_referenced_ok [preserve_rules]: "preserves (on_db J) (find_referenced c rs)"
  by (induction rs) (auto intro!: preserve_rules split: option.split)

lemma findOrCreateConversation_db_ok [preserve_rules]:
  "preserves (on_db db_ok) (findOrCreateConversation E a b c d e f g h)"
  unfolding findOrCreateConversation_def createConversation_def by (intro preserve_rules)

lemma ensureTicketAndRun_db_ok [preserve_rules]:
  "preserves (on_db db_ok) (ensureTicketAndRun E a b c d e f g h)"
  unfolding ensureTicketAndRun_def ensure_existing_ticket_def ensure_new_ticket_def
    createQueuedRun_def upsertDispatch_def
  by (intro preserve_rules; simp add: table_keys)

lemma processInboundMessage_db_ok [preserve_rules]:
  "preserves (on_db db_ok) (processInboundMessage E connection receiptId event)"
  unfolding processInboundMessage_def storeInboundMessage_def recordAttachment_def settleInbound_def
    inboundTimeline_def Let_def
  by (intro preserve_rules; simp add: table_keys)

lemma finish_receipt_db_ok [preserve_rules]: "preserves (on_db db_ok) (finish_receipt E r m)"
  unfolding finish_receipt_def by (intro preserve_rules; simp add: table_keys)

lemma processDeliveryCallback_db_ok [preserve_rules]:
  "preserves (on_db db_ok) (processDeliveryCallback E connection receiptId callback)"
  unfolding processDeliveryCallback_def Let_def
  by (intro preserve_rules; simp add: table_keys apply_callback_def)

lemma dispatch_db_ok [preserve_rules]: "preserves (on_db db_ok) (dispatchPendingInbound E limit)"
  unfolding dispatchPendingInbound_def dispatch_one_def claim_inbound_def enqueue_claimed_def Let_def
  by (intro preserve_rules;
      simp add: table_keys claim_dispatch_def complete_dispatch_def requeue_dispatch_def
        inboundDispatch_clash_def)

lemma verifyWebhook_ok [preserve_rules]: "preserves I (verifyWebhook E a b c d)"
  unfolding verifyWebhook_def by (intro preserve_rules)

lemma parseEvent_ok [preserve_rules]: "preserves (on_db J) (parseEvent E payload)"
  unfolding parseEvent_def parse_callback_def parse_inbound_def occurred_at_def
  by (intro preserve_rules)

lemma preserves_parsed [preserve_rules]:
  "(\<And>ev. p = inbound ev \<Longrightarrow> preserves I (f ev)) \<Longrightarrow>
   (\<And>c. p = delivery_callback c \<Longrightarrow> preserves I (g c)) \<Longrightarrow>
   preserves I (case p of inbound ev \<Rightarrow> f ev | delivery_callback c \<Rightarrow> g c)"
  by (cases p) simp_all

lemma ingest_parsed_db_ok [preserve_rules]: "preserves (on_db db_ok) (ingest_parsed E a b c d)"
  unfolding ingest_parsed_def webhook_transaction_def mark_duplicate_def mark_connection_error_def
    Let_def
  by (intro preserve_rules; simp add: table_keys webhookReceipt_clash_def)

lemma ingestWebhook_db_ok [preserve_rules]:
  "preserves (on_db db_ok) (ingestWebhook E publicId payload signature rawBody)"
  unfolding ingestWebhook_def refuse_unverified_def recordRejectedVerifiedReceipt_def Let_def
  by (intro preserve_rules)

lemma getOutboundMessage_ok [preserve_rules]: "preserves (on_db J) (getOutboundMessage a b)"
  unfolding getOutboundMessage_def by (intro preserve_rules)

lemma enqueueDelivery_db_ok [preserve_rules]: "preserves (on_db db_ok) (enqueueDelivery E a)"
  unfolding enqueueDelivery_def by (intro preserve_rules; simp add: table_keys)

lemma outbound_db_ok [preserve_rules]:
  "preserves (on_db db_ok) (replayOutboundMessage E a b c)"
  "preserves (on_db db_ok) (cancelOutboundMessage E a b c)"
  unfolding replayOutboundMessage_def replay_tx_def cancelOutboundMessage_def cancel_tx_def Let_def
  by (intro preserve_rules; simp add: table_keys replay_message_def cancel_message_def)+

lemma deliverable_conversation_ok [preserve_rules]:
  "preserves I (deliverable_conversation a b)" "preserves (on_db J) (customer_of c)"
  "preserves (on_db J) (run_of_draft d)"
  unfolding deliverable_conversation_def customer_of_def run_of_draft_def by (intro preserve_rules)+

lemma createOutbound_db_ok [preserve_rules]:
  "preserves (on_db db_ok) (createOutboundForApprovedDraft E a b c)"
  unfolding createOutboundForApprovedDraft_def queue_for_delivery_def upsert_outbound_def
  by (intro preserve_rules)

subsection \<open>Support\<close>

lemma lookups_ok [preserve_rules]:
  "preserves (on_db J) (assertTicketAccess a b)" "preserves (on_db J) (getDraftOrThrow c d)"
  "preserves (on_db J) (getApprovalOrThrow e f)"
  unfolding assertTicketAccess_def getDraftOrThrow_def getApprovalOrThrow_def
  by (intro preserve_rules)+

lemma support_db_ok [preserve_rules]:
  "preserves (on_db db_ok) (updateTicketStatus E t orgId status)"
  "preserves (on_db db_ok) (updateTicketPriority E t orgId priority)"
  "preserves (on_db db_ok) (createTicket E dto orgId slug u)"
  "preserves (on_db db_ok) (createManualDraft E t orgId body u)"
  "preserves (on_db db_ok) (editDraft E dId orgId body)"
  "preserves (on_db db_ok) (sendDraft E dId orgId u)"
  unfolding updateTicketStatus_def updateTicketPriority_def createTicket_def createTicket_tx_def
    createManualDraft_def editDraft_def edit_tx_def sendDraft_def send_tx_def
    getOrCreateOrganizationSettings_def Let_def
  by (intro preserve_rules; simp add: table_keys humanApproval_clash_def outboundDraft_clash_def approve_draft_def mark_sent_def)+

lemma approvals_db_ok [preserve_rules]:
  "preserves (on_db db_ok) (createApproval E t runId p orgId)"
  "preserves (on_db db_ok) (updateApproval E aId st note orgId u)"
  unfolding createApproval_def updateApproval_def approval_tx_def approve_step_def reject_step_def
  by (intro preserve_rules; simp add: table_keys humanApproval_clash_def outboundDraft_clash_def approve_draft_def mark_sent_def)+

lemma settings_db_ok [preserve_rules]:
  "preserves (on_db db_ok) (getOrCreateOrganizationSettings E orgId)"
  "preserves (on_db db_ok) (updateSettings E sdto orgId)"
  unfolding updateSettings_def getOrCreateOrganizationSettings_def
  by (intro preserve_rules; simp add: table_keys organizationSettings_clash_def edit_settings_def)+

subsection \<open>Workers\<close>

lemma load_outbound_ok [preserve_rules]: "preserves (on_db J) (load_outbound i)"
  unfolding load_outbound_def by (intro preserve_rules)

lemma dl_enqueue_ok [preserve_rules]: "preserves (on_db J) (dl_enqueue E a b)"
  unfolding dl_enqueue_def by (intro preserve_rules)

lemma send_checked_ok [preserve_rules]: "preserves (on_db J) (send_checked E a b c)"
  unfolding send_checked_def by (intro preserve_rules worker_mail.send_preserves)

lemma deliver_claimed_db_ok [preserve_rules]: "preserves (on_db db_ok) (deliver_claimed E a b c d)"
  unfolding deliver_claimed_def success_tx_def sent_events_def Let_def
  by (intro preserve_rules; simp add: table_keys sent_message_def)

lemma handle_failure_db_ok [preserve_rules]: "preserves (on_db db_ok) (handle_failure E a b c d e)"
  unfolding handle_failure_def failure_tx_def record_dead_letter_def Let_def
  by (intro preserve_rules; simp add: table_keys failed_message_def)

lemma process_delivery_db_ok [preserve_rules]: "preserves (on_db db_ok) (process_delivery E job)"
  unfolding process_delivery_def sendOutboundMessage_def run_attempt_def claim_delivery_def
    start_attempt_def Let_def
  by (intro preserve_rules; simp add: table_keys claim_message_def outboundMessage_clash_def)

lemma reconcile_ok [preserve_rules]: "preserves (on_db J) (reconcile E running limit)"
  unfolding reconcile_def reconcile_one_def by (intro preserve_rules)

lemma once_db_ok [preserve_rules]: "preserves (on_db db_ok) (appendAgentEventOnce E a b c d e)"
  unfolding appendAgentEventOnce_def by (intro preserve_rules)

lemma runAll_db_ok [preserve_rules]: "preserves (on_db db_ok) (runAll E c)"
  unfolding runAll_def persistChecks_def Let_def by (intro preserve_rules)

lemma attempt_run_db_ok [preserve_rules]:
  assumes "\<And>i. preserves (on_db db_ok) (pl i)"
  shows "preserves (on_db db_ok) (attempt_run E pl job trigger)"
  unfolding attempt_run_def start_run_def report_check_def ensureRunDraft_def settle_decision_def
    ensureApproval_def finish_run_def Let_def
  by (intro preserve_rules assms; simp add: table_keys)

lemma fail_job_db_ok [preserve_rules]: "preserves (on_db db_ok) (fail_job E job trigger err)"
  unfolding fail_job_def block_run_def fail_run_def dead_letter_def recordOperationalFailure_def Let_def
  by (intro preserve_rules; simp add: table_keys)

lemma process_job_db_ok:
  assumes "\<And>i. preserves (on_db db_ok) (pl i)"
  shows "preserves (on_db db_ok) (process_job E pl job)"
  unfolding process_job_def processTicketJob_def Let_def
  by (intro preserve_rules assms)

lemma rt_append_db_ok [preserve_rules]: "preserves (on_db db_ok) (rt_append E i ty payload)"
  unfolding rt_append_def by (intro preserve_rules)

lemma executeStep_db_ok:
  assumes [preserve_rules]: "preserves (on_db db_ok) (sp_execute s)" "\<And>out. preserves (on_db db_ok) (sp_after s out)"
  shows "preserves (on_db db_ok) (executeStep E N svc i s)"
proof -
  have [preserve_rules]: "preserves (on_db db_ok) (obtain_output E N svc i s)"
    unfolding obtain_output_def llm_success_def llm_failure_def Let_def
    by (auto split: option.split intro!: preserve_rules)
  show ?thesis
    unfolding executeStep_def create_step_def finish_step_def fail_step_def Let_def
    by (intro preserve_rules; simp add: agentStep_t_def)
qed

lemma runPipeline_db_ok: "preserves (on_db db_ok) (runPipeline E N svc i)"
proof -
  have [preserve_rules]:
    "preserves (on_db db_ok) (executeStep E N svc i (router_step E i))"
    "preserves (on_db db_ok) (executeStep E N svc i (retriever_step E i a))"
    "preserves (on_db db_ok) (executeStep E N svc i (resolver_step E i a t))"
    "preserves (on_db db_ok) (executeStep E N svc i (critic_step E i a t b))" for a t b
    by (rule executeStep_db_ok;
        simp add: router_step_def retriever_step_def resolver_step_def critic_step_def preserve_rules retrieve_keeps
          record_retrieval_def Let_def)+
  show ?thesis
    unfolding runPipeline_def report_used_def by (intro preserve_rules)
qed

subsection \<open>Knowledge\<close>

lemma getArticle_ok [preserve_rules]: "preserves (on_db J) (getArticle a b)"
  unfolding getArticle_def by (intro preserve_rules)

lemma articles_db_ok [preserve_rules]:
  "preserves (on_db db_ok) (createArticle E title body tags st orgId)"
  "preserves (on_db db_ok) (updateArticle E articleId adto orgId)"
  "preserves (on_db db_ok) (archiveArticle E articleId orgId)"
  unfolding createArticle_def updateArticle_def archiveArticle_def
  by (intro preserve_rules; simp add: edit_article_def knowledgeArticle_t_def)+

subsection \<open>Operations\<close>

lemma failures_db_ok [preserve_rules]:
  "preserves (on_db db_ok) (replayFailure E orgId failureId actor)"
  "preserves (on_db db_ok) (resolveFailure E orgId failureId actor note)"
  unfolding replayFailure_def replay_read_def replay_enqueue_def resolveFailure_def Let_def
  by (intro preserve_rules; simp add: table_keys operationalFailure_clash_def)+

subsection \<open>Accounts\<close>

lemma tokens_ok [preserve_rules]:
  "preserves (on_db J) (createAccessToken E A a b)" "preserves (on_db J) (createRefreshToken E A a b)"
  "preserves (on_db J) (verifyRefreshToken E A t)" "preserves (on_db J) (getMe a)"
  unfolding createAccessToken_def createRefreshToken_def verifyRefreshToken_def signToken_def verifyToken_def getMe_def Let_def
  by (intro preserve_rules)+

lemma accounts_db_ok [preserve_rules]:
  "preserves (on_db db_ok) (register E A P dto md)"
  "preserves (on_db db_ok) (login E A P (\<lambda>_ _. of_result answer) email password md)"
  "preserves (on_db db_ok) (refresh E A token md)"
  "preserves (on_db db_ok) (logout E A token)"
  unfolding register_def register_body_def create_owner_def hash_x_def create_session_def login_def refuse_login_def
    open_session_def refresh_def refuse_refresh_def rotate_session_def rotate_tx_def logout_def Let_def
  by (intro preserve_rules; simp add: table_keys refreshSession_clash_def revoke_session_def)+

section \<open>Steps and reachable worlds\<close>

datatype operation =
    CreateConnection string create_connection_dto "string option"
  | UpdateConnection string string update_connection_dto "string option"
  | SetConnectionEnabled string string bool "string option"
  | TestConnection string string "string option"
  | IngestWebhook string json "string option" "string option"
  | DispatchInbound nat
  | ReplayOutbound string string string
  | CancelOutbound string string string
  | UpdateTicketStatus string string TicketStatus
  | UpdateTicketPriority string string TicketPriority
  | CreateTicket create_ticket_dto string string string
  | CreateManualDraft string string string string
  | EditDraft string string string
  | SendDraft string string string
  | CreateApproval string "string option" "string option" string
  | UpdateApproval string ApprovalStatus "string option" string string
  | GetSettings string
  | UpdateSettings settings_dto string
  | DeliveryJob delivery_job
  | Reconcile bool nat
  | SupportJob llm_net "llm_config option" support_job
  | CreateArticle string string "string list option" "KnowledgeArticleStatus option" string
  | UpdateArticle string article_dto string
  | ArchiveArticle string string
  | ReplayFailure string string string
  | ResolveFailure string string string string
  | RegisterOwner auth_config passwords register_dto request_metadata
  | LoginUser auth_config passwords "js_error + unit" string string request_metadata
  | RefreshSession auth_config string request_metadata
  | LogoutSession auth_config string

fun perform :: "ext \<Rightarrow> operation \<Rightarrow> world \<Rightarrow> world" where
  "perform E (CreateConnection orgId dto actor) w = snd (createConnection E orgId dto actor w)"
| "perform E (UpdateConnection orgId i dto actor) w = snd (updateConnection E orgId i dto actor w)"
| "perform E (SetConnectionEnabled orgId i enabled actor) w = snd (setConnectionEnabled E orgId i enabled actor w)"
| "perform E (TestConnection orgId i actor) w = snd (testConnection E orgId i actor w)"
| "perform E (IngestWebhook publicId payload signature raw) w = snd (ingestWebhook E publicId payload signature raw w)"
| "perform E (DispatchInbound limit) w = snd (dispatchPendingInbound E limit w)"
| "perform E (ReplayOutbound orgId i actor) w = snd (replayOutboundMessage E orgId i actor w)"
| "perform E (CancelOutbound orgId i actor) w = snd (cancelOutboundMessage E orgId i actor w)"
| "perform E (UpdateTicketStatus i orgId st) w = snd (updateTicketStatus E i orgId st w)"
| "perform E (UpdateTicketPriority i orgId p) w = snd (updateTicketPriority E i orgId p w)"
| "perform E (CreateTicket dto orgId slug u) w = snd (createTicket E dto orgId slug u w)"
| "perform E (CreateManualDraft i orgId body actor) w = snd (createManualDraft E i orgId body actor w)"
| "perform E (EditDraft i orgId body) w = snd (editDraft E i orgId body w)"
| "perform E (SendDraft i orgId actor) w = snd (sendDraft E i orgId actor w)"
| "perform E (CreateApproval i run proposed orgId) w = snd (createApproval E i run proposed orgId w)"
| "perform E (UpdateApproval i st note orgId u) w = snd (updateApproval E i st note orgId u w)"
| "perform E (GetSettings orgId) w = snd (getOrCreateOrganizationSettings E orgId w)"
| "perform E (UpdateSettings dto orgId) w = snd (updateSettings E dto orgId w)"
| "perform E (DeliveryJob job) w = snd (process_delivery E job w)"
| "perform E (Reconcile running limit) w = snd (reconcile E running limit w)"
| "perform E (SupportJob N svc job) w = snd (process_job E (runPipeline E N svc) job w)"
| "perform E (CreateArticle title body tags st orgId) w = snd (createArticle E title body tags st orgId w)"
| "perform E (UpdateArticle i dto orgId) w = snd (updateArticle E i dto orgId w)"
| "perform E (ArchiveArticle i orgId) w = snd (archiveArticle E i orgId w)"
| "perform E (ReplayFailure orgId failureId actor) w = snd (replayFailure E orgId failureId actor w)"
| "perform E (ResolveFailure orgId failureId actor note) w = snd (resolveFailure E orgId failureId actor note w)"
| "perform E (RegisterOwner A P dto md) w = snd (register E A P dto md w)"
| "perform E (LoginUser A P answer email password md) w =
     snd (login E A P (\<lambda>_ _. of_result answer) email password md w)"
| "perform E (RefreshSession A token md) w = snd (refresh E A token md w)"
| "perform E (LogoutSession A token) w = snd (logout E A token w)"

text \<open>The program starts with an empty database. A step performs an operation, with
  any outside, or is the start of another request with its own correlation context.\<close>

inductive reachable :: "world \<Rightarrow> bool" where
  start: "db w = empty_db \<Longrightarrow> reachable w"
| operation: "reachable w \<Longrightarrow> reachable (perform E op w)"
| request: "reachable w \<Longrightarrow> reachable (w\<lparr>ctx := c\<rparr>)"

inductive_cases reachable_cases: "reachable w"

lemma start_db_ok: "db_ok empty_db"
  by (simp add: db_ok_def timeline_ok_def ticket_events_def no_clash_def empty_db_def table_defs)

lemma perform_db_ok: "db_ok (db w) \<Longrightarrow> db_ok (db (perform E op w))"
proof -
  assume w: "db_ok (db w)"
  have keep: "preserves (on_db db_ok) m \<Longrightarrow> db_ok (db (snd (m w)))" for m :: "'a act"
    using w preservesD [of "on_db db_ok" m w] by (simp add: on_db_def)
  show ?thesis
    by (cases op) (simp_all add: keep preserve_rules process_job_db_ok [OF runPipeline_db_ok])
qed

text \<open>C1: In every database the program can reach, by any sequence of its operations and with any
  answers from outside, the timeline of every ticket is numbered without gap or repetition, and no
  unique index of the schema is violated by two rows.\<close>

theorem reachable_db_ok: "reachable w \<Longrightarrow> db_ok (db w)"
proof (induction rule: reachable.induct)
  case (start w)
  then show ?case by (simp add: start_db_ok)
next
  case (operation w E op)
  then show ?case by (simp add: perform_db_ok)
qed simp

theorem reachable_db_ok_witness:
  "db_ok (db (perform demo_ext (CreateManualDraft ''t'' ''o'' ''b'' ''u'')
     (perform demo_ext (CreateTicket demo_dto ''o'' ''s'' ''u'') (demo_world empty_db))))"
proof (rule reachable_db_ok)
  have "reachable (demo_world empty_db)" by (rule reachable.start) (simp add: demo_world_def)
  then show "reachable (perform demo_ext (CreateManualDraft ''t'' ''o'' ''b'' ''u'')
      (perform demo_ext (CreateTicket demo_dto ''o'' ''s'' ''u'') (demo_world empty_db)))"
    by (intro reachable.operation)
qed

end
