(* ===== verification/Access.thy ===== *)
theory Access
  imports Auth Knowledge
begin

text \<open>
  What the names, logins and guards of \<^verbatim>\<open>Auth\<close> guarantee: the slug of an organisation against a
  definition without regular expressions, refusals of a login that tell nothing, and exactly which
  requests pass the three guards of the controllers.
\<close>

section \<open>Slugs\<close>

lemma star_greedy: "\<exists>more. mt (Star True (Cls P)) (p, s) = (after p (takeWhile P s), dropWhile P s) # more"
proof (induction s arbitrary: p)
  case Nil
  then show ?case by (simp add: mt.simps(5))
next
  case (Cons c cs)
  show ?case
  proof (cases "P c")
    case True
    obtain more where "mt (Star True (Cls P)) (Some c, cs) = (after (Some c) (takeWhile P cs), dropWhile P cs) # more"
      using Cons.IH by blast
    with True show ?thesis by (subst mt.simps(5)) (simp add: Let_def after_def)
  qed (simp add: mt.simps(5))
qed

lemma plus_greedy:
  "P c \<Longrightarrow> \<exists>more. mt (plus (Cls P)) (p, c # cs) = (after (Some c) (takeWhile P cs), dropWhile P cs) # more"
  "\<not> P c \<Longrightarrow> mt (plus (Cls P)) (p, c # cs) = []" "mt (plus (Cls P)) (p, []) = []"
proof -
  assume "P c"
  moreover obtain more where "mt (Star True (Cls P)) (Some c, cs) = (after (Some c) (takeWhile P cs), dropWhile P cs) # more"
    using star_greedy by blast
  ultimately show "\<exists>more. mt (plus (Cls P)) (p, c # cs) = (after (Some c) (takeWhile P cs), dropWhile P cs) # more"
    by (simp add: plus_def)
qed (simp_all add: plus_def)

text \<open>Replacing the runs of a class.\<close>

lemma replace_runs:
  "replace_at (plus (Cls P)) new p [] = []"
  "P c \<Longrightarrow> replace_at (plus (Cls P)) new p (c # cs) =
     new @ replace_at (plus (Cls P)) new (after (Some c) (takeWhile P cs)) (dropWhile P cs)"
  "\<not> P c \<Longrightarrow> replace_at (plus (Cls P)) new p (c # cs) = c # replace_at (plus (Cls P)) new (Some c) cs"
proof -
  show "replace_at (plus (Cls P)) new p [] = []" by (subst replace_at.simps) (simp add: plus_greedy)
  have "length (dropWhile P cs) \<le> length cs" by (rule length_dropWhile_le)
  then have "length (dropWhile P cs) < Suc (length cs)" by simp
  then show "P c \<Longrightarrow> replace_at (plus (Cls P)) new p (c # cs) =
     new @ replace_at (plus (Cls P)) new (after (Some c) (takeWhile P cs)) (dropWhile P cs)"
    using plus_greedy(1) [of P c p cs] by (subst replace_at.simps) auto
  show "\<not> P c \<Longrightarrow> replace_at (plus (Cls P)) new p (c # cs) = c # replace_at (plus (Cls P)) new (Some c) cs"
    by (subst replace_at.simps) (simp add: plus_greedy)
qed

lemma replace_nothing: "\<not> test_at r p s \<Longrightarrow> replace_at r new p s = s"
proof (induction s arbitrary: p)
  case Nil
  then show ?case by (subst replace_at.simps) simp
next
  case (Cons c cs)
  then show ?case by (subst replace_at.simps) simp
qed

abbreviation squeeze :: "char option \<Rightarrow> string \<Rightarrow> string" where
  "squeeze \<equiv> replace_at (plus (Cls (\<lambda>c. \<not> slug_char c))) ''-''"

abbreviation ends_rx :: rx where
  "ends_rx \<equiv> Alt (Seq Bos (plus (chr CHR ''-''))) (Seq (plus (chr CHR ''-'')) Eos)"

lemma hyphen_no_slug: "\<not> slug_char CHR ''-''"
  by (simp add: slug_char_def is_lower_def is_digit_def)

lemma ends_inside:
  "replace_at ends_rx [] q [] = []"
  "c \<noteq> CHR ''-'' \<Longrightarrow> replace_at ends_rx [] q (c # cs) = c # replace_at ends_rx [] (Some c) cs"
  "replace_at ends_rx [] q ''-'' = []"
  "c \<noteq> CHR ''-'' \<Longrightarrow> replace_at ends_rx [] (Some p) (CHR ''-'' # c # cs) = CHR ''-'' # replace_at ends_rx [] (Some CHR ''-'') (c # cs)"
  "c \<noteq> CHR ''-'' \<Longrightarrow> replace_at ends_rx [] None (CHR ''-'' # c # cs) = replace_at ends_rx [] (Some CHR ''-'') (c # cs)"
  by (subst replace_at.simps; simp add: plus_def chr_def mt.simps(5))+

lemma words_of_skip: "words_of p [] cs = words_of p [] (dropWhile (\<lambda>c. \<not> p c) cs)"
  by (induction cs) simp_all

lemma words_of_acc: "acc \<noteq> [] \<Longrightarrow> words_of p acc s \<noteq> []"
  by (induction p acc s rule: words_of.induct) auto

lemma join_cons: "ss \<noteq> [] \<Longrightarrow> join_with sep (s # ss) = s @ sep @ join_with sep ss"
  by (cases ss) simp_all

text \<open>Inside a word, \<open>acc\<close> is what has been read of it.\<close>

lemma slug_inside:
  "acc \<noteq> [] \<Longrightarrow> rev acc @ replace_at ends_rx [] (Some p) (squeeze q s) = join_with ''-'' (words_of slug_char acc s)"
proof (induction s arbitrary: acc p q rule: length_induct)
  case (1 s)
  show ?case
  proof (cases s)
    case Nil
    with 1(2) show ?thesis by (simp add: replace_runs ends_inside)
  next
    case (Cons c cs)
    show ?thesis
    proof (cases "slug_char c")
      case True
      then have "c \<noteq> CHR ''-''" using hyphen_no_slug by auto
      with True Cons 1(1) [rule_format, of cs "c # acc" c "Some c"] show ?thesis
        by (simp add: replace_runs ends_inside)
    next
      case False
      let ?d = "dropWhile (\<lambda>c. \<not> slug_char c) cs"
      have words: "words_of slug_char acc s = rev acc # words_of slug_char [] ?d"
        using False Cons 1(2) words_of_skip [of slug_char cs] by simp
      show ?thesis
      proof (cases ?d)
        case Nil
        with False Cons words show ?thesis
          by (simp add: replace_runs ends_inside del: dropWhile_eq_Nil_conv words_of.simps(2))
      next
        case (Cons e es)
        then have e: "slug_char e" "e \<noteq> CHR ''-''" using hyphen_no_slug by (auto simp: dropWhile_eq_Cons_conv)
        have "length es < length s"
          using length_dropWhile_le [of "\<lambda>c. \<not> slug_char c" cs] Cons \<open>s = c # cs\<close> by simp
        then have "e # replace_at ends_rx [] (Some e) (squeeze (Some e) es) = join_with ''-'' (words_of slug_char [e] es)"
          using 1(1) [rule_format, of es "[e]" e "Some e"] by simp
        with False Cons \<open>s = c # cs\<close> words e words_of_acc [of "[e]" slug_char es] show ?thesis
          by (simp add: replace_runs ends_inside join_cons)
      qed
    qed
  qed
qed

lemma slug_ends: "replace_at ends_rx [] None (squeeze q s) = join_with ''-'' (words_of slug_char [] s)"
proof -
  let ?d = "dropWhile (\<lambda>c. \<not> slug_char c) s"
  have in_word: "c # replace_at ends_rx [] (Some c) (squeeze (Some c) cs) = join_with ''-'' (words_of slug_char [c] cs)" for c cs
    using slug_inside [of "[c]" c "Some c" cs] by simp
  show ?thesis
  proof (cases s)
    case Nil
    then show ?thesis by (simp add: replace_runs ends_inside)
  next
    case (Cons c cs)
    show ?thesis
    proof (cases "slug_char c")
      case True
      then have "c \<noteq> CHR ''-''" using hyphen_no_slug by auto
      with True Cons in_word show ?thesis by (simp add: replace_runs ends_inside)
    next
      case False
      then have d: "dropWhile (\<lambda>c. \<not> slug_char c) cs = ?d" "words_of slug_char [] s = words_of slug_char [] ?d"
        using Cons words_of_skip [of slug_char s] by simp_all
      show ?thesis
      proof (cases ?d)
        case Nil
        with False Cons d show ?thesis
          by (simp add: replace_runs ends_inside del: dropWhile_eq_Nil_conv)
      next
        case (Cons e es)
        then have e: "slug_char e" "e \<noteq> CHR ''-''" using hyphen_no_slug by (auto simp: dropWhile_eq_Cons_conv)
        have "words_of slug_char [] s = words_of slug_char [e] es" unfolding d(2) Cons using e by simp
        moreover obtain p where "squeeze q s = CHR ''-'' # squeeze p (e # es)"
          unfolding \<open>s = c # cs\<close> using False d(1) Cons by (simp add: replace_runs del: dropWhile_eq_Cons_conv)
        ultimately show ?thesis using e in_word by (simp add: replace_runs ends_inside)
      qed
    qed
  qed
qed

text \<open>Words joined by single hyphens have no two hyphens in a row.\<close>

definition single_hyphens :: "string \<Rightarrow> bool" where
  "single_hyphens s \<longleftrightarrow> successively (\<lambda>a b. \<not> (a = CHR ''-'' \<and> b = CHR ''-'')) s"

lemma join_single:
  assumes "\<And>t. t \<in> set ts \<Longrightarrow> t \<noteq> [] \<and> list_all slug_char t"
  shows "single_hyphens (join_with ''-'' ts) \<and> (ts \<noteq> [] \<longrightarrow> join_with ''-'' ts \<noteq> [] \<and>
     hd (join_with ''-'' ts) \<noteq> CHR ''-'' \<and> last (join_with ''-'' ts) \<noteq> CHR ''-'')"
  using assms
proof (induction ts rule: induct_list012)
  case 1
  then show ?case by (simp add: single_hyphens_def)
next
  case (2 t)
  have word: "successively (\<lambda>a b. \<not> (a = CHR ''-'' \<and> b = CHR ''-'')) u" if "list_all slug_char u" for u
    using that hyphen_no_slug by (induction u rule: induct_list012) auto
  from 2 have "t \<noteq> []" "list_all slug_char t" by auto
  then have "hd t \<noteq> CHR ''-''" "last t \<noteq> CHR ''-''" using hyphen_no_slug by (auto simp: list_all_iff dest: hd_in_set last_in_set)
  with word 2 show ?case by (simp add: single_hyphens_def)
next
  case (3 t u ts)
  have word: "successively (\<lambda>a b. \<not> (a = CHR ''-'' \<and> b = CHR ''-'')) u" if "list_all slug_char u" for u
    using that hyphen_no_slug by (induction u rule: induct_list012) auto
  from 3 have t: "t \<noteq> []" "list_all slug_char t" by auto
  then have "hd t \<noteq> CHR ''-''" "last t \<noteq> CHR ''-''" using hyphen_no_slug by (auto simp: list_all_iff dest: hd_in_set last_in_set)
  with word [OF t(2)] t(1) 3 show ?case
    by (auto simp: single_hyphens_def successively_append_iff successively_Cons)
qed

lemma no_double: "single_hyphens s \<Longrightarrow> \<not> test_at (at_least 2 (chr CHR ''-'')) p s"
proof
  assume s: "single_hyphens s" and "test_at (at_least 2 (chr CHR ''-'')) p s"
  then obtain u v w where "s = u @ w @ v" "2 \<le> length w" "list_all (\<lambda>d. d = CHR ''-'') w"
    unfolding test_at_iff chr_def mat_at_least_cls by blast
  moreover from this obtain t where "w = CHR ''-'' # CHR ''-'' # t"
    by (cases w rule: remdups_adj.cases) auto
  ultimately show False using s by (simp add: single_hyphens_def successively_append_iff)
qed

lemma slug_of_words: "slug_of value = join_with ''-'' (words_of slug_char [] (to_lower (trim value)))"
proof -
  let ?ws = "words_of slug_char [] (to_lower (trim value))"
  have "single_hyphens (join_with ''-'' ?ws)"
    using join_single [of ?ws] words_of_form [of slug_char "[]" _ "to_lower (trim value)"] by simp
  then show ?thesis
    using replace_nothing [OF no_double] by (simp add: slug_of_def rx_replace_def slug_ends)
qed

lemma slug_chars: "set (slug_of value) \<subseteq> {c. slug_char c} \<union> {CHR ''-''}"
proof -
  have "set (join_with ''-'' ts) \<subseteq> \<Union> (set ` set ts) \<union> {CHR ''-''}" for ts
    by (induction ts rule: induct_list012) auto
  then show ?thesis
    using words_of_form [of slug_char "[]" _ "to_lower (trim value)"]
    unfolding slug_of_words by (fastforce simp: list_all_iff)
qed

lemma slug_plain: "slug_char c \<or> c = CHR ''-'' \<Longrightarrow> lower_char c = c \<and> \<not> is_ws c"
  by (auto simp: slug_char_def is_lower_def is_digit_def lower_char_def is_upper_def is_ws_def)

lemma slug_idem: "slug_of (slug_of value) = slug_of value"
proof -
  have plain: "trim (slug_of value) = slug_of value" "to_lower (slug_of value) = slug_of value"
    using slug_chars [of "value"] slug_plain
    by (auto intro!: trim_nows map_idI simp: to_lower_def)
  have "words_of slug_char [] (slug_of value) = words_of slug_char [] (to_lower (trim value))"
    unfolding slug_of_words using words_of_form [of slug_char "[]" _ "to_lower (trim value)"]
    by (intro words_of_join) (simp_all add: hyphen_no_slug)
  then show ?thesis by (subst slug_of_words) (simp add: plain, simp add: slug_of_words)
qed

text \<open>The slug of an organisation is the maximal runs of letters and digits of its name, in lower
  case, joined by single hyphens, and it is accepted exactly when it has 3 to 64 characters; the
  slug of a slug is the slug itself.\<close>

theorem slug_joins_words:
  "normalizeOrganizationSlug value =
     (let slug = join_with ''-'' (words_of slug_char [] (to_lower (trim value)))
      in if 3 \<le> length slug \<and> length slug \<le> 64 then Inr slug
         else Inl (conflict ''Organization slug must be between 3 and 64 characters after normalization'')) \<and>
   slug_of (slug_of value) = slug_of value"
  by (simp add: normalizeOrganizationSlug_def slug_idem) (auto simp: slug_of_words Let_def)

section \<open>Guards\<close>

context prisma_table
begin

lemma first_where_unique:
  assumes "no_clash T d" "\<And>a b. P a \<Longrightarrow> P b \<Longrightarrow> t_clash T a b"
  shows "first_where P (t_get T d) = Some r \<longleftrightarrow> r \<in> set (t_get T d) \<and> P r"
proof
  assume r: "r \<in> set (t_get T d) \<and> P r"
  then obtain s where "first_where P (t_get T d) = Some s"
    by (cases "first_where P (t_get T d)") (auto simp: first_where_None)
  with r show "first_where P (t_get T d) = Some r"
    using first_where_Some [of P "t_get T d" s] no_clash_pair [OF assms(1), of r s] assms(2) by blast
qed (rule first_where_Some)

end

lemma guard_frames:
  "db (snd (verifyAccessToken E A t w)) = db w"
  "db (snd (jwt_guard E A rq w)) = db w"
  by (auto simp: verifyAccessToken_def verifyToken_def jwt_guard_def run_simps split: sum.splits option.splits)

definition member :: "db \<Rightarrow> string \<Rightarrow> string \<Rightarrow> tenant_membership \<Rightarrow> bool" where
  "member d userId orgId m \<longleftrightarrow>
     list_ex (\<lambda>u. us_id u = userId \<and> us_isActive u) (users d) \<and>
     list_ex (\<lambda>g. og_id g = orgId \<and>
       list_ex (\<lambda>b. mb_userId b = userId \<and> mb_organizationId b = orgId \<and>
         m = \<lparr>tm_membershipId = mb_id b, tm_organizationId = orgId, tm_organizationSlug = og_slug g,
           tm_organizationName = og_name g, tm_role = mb_role b\<rparr>) (organizationMemberships d)) (organizations d)"

lemma resolve_iff:
  assumes "db_ok (db w)"
  shows "\<exists>r. resolveTenantMembership userId orgId w = (Inr r, w) \<and> (\<forall>m. r = Some m \<longleftrightarrow> member (db w) userId orgId m)"
proof -
  have keys: "no_clash organizationMembership_t (db w)" "no_clash organization_t (db w)"
    using assms by (simp_all add: db_ok_def)
  let ?active = "first_where (\<lambda>u. us_id u = userId \<and> us_isActive u) (users (db w))"
  let ?b = "first_where (\<lambda>m. mb_userId m = userId \<and> mb_organizationId m = orgId) (organizationMemberships (db w))"
  let ?g = "first_where (\<lambda>g. og_id g = orgId) (organizations (db w))"
  have b: "?b = Some b \<longleftrightarrow> b \<in> set (organizationMemberships (db w)) \<and> mb_userId b = userId \<and> mb_organizationId b = orgId" for b
    using organizationMembership_tb.first_where_unique [OF keys(1), of "\<lambda>m. mb_userId m = userId \<and> mb_organizationId m = orgId" b]
    by (simp add: organizationMembership_t_def organizationMembership_clash_def)
  have g: "?g = Some g \<longleftrightarrow> g \<in> set (organizations (db w)) \<and> og_id g = orgId" for g
    using organization_tb.first_where_unique [OF keys(2), of "\<lambda>g. og_id g = orgId" g]
    by (simp add: organization_t_def organization_clash_def)
  have active: "?active \<noteq> None \<longleftrightarrow> list_ex (\<lambda>u. us_id u = userId \<and> us_isActive u) (users (db w))"
    unfolding first_where_None by (auto simp: list_ex_iff)
  let ?r = "if ?active = None then None else case (?b, ?g) of
     (Some m, Some g) \<Rightarrow> Some \<lparr>tm_membershipId = mb_id m, tm_organizationId = og_id g,
        tm_organizationSlug = og_slug g, tm_organizationName = og_name g, tm_role = mb_role m\<rparr> | _ \<Rightarrow> None"
  have "first_where (\<lambda>_. False) t = None" for t :: "membership list" by (simp add: first_where_None)
  then have "resolveTenantMembership userId orgId w = (Inr ?r, w)"
    by (simp add: resolveTenantMembership_def run_simps user_t_def organization_t_def organizationMembership_t_def)
  moreover have "?r = Some m \<longleftrightarrow> member (db w) userId orgId m" for m
  proof -
    have "?r = Some m \<longleftrightarrow> ?active \<noteq> None \<and> (\<exists>b g. ?b = Some b \<and> ?g = Some g \<and>
        m = \<lparr>tm_membershipId = mb_id b, tm_organizationId = og_id g, tm_organizationSlug = og_slug g,
          tm_organizationName = og_name g, tm_role = mb_role b\<rparr>)"
      by (auto split: option.split)
    then show ?thesis unfolding active b g member_def list_ex_iff by auto
  qed
  ultimately show ?thesis by blast
qed

lemma authorize_spec:
  assumes "db_ok (db w)"
  shows "(fst (authorize E A roles rq w) = Inr (p, m) \<longleftrightarrow>
      (\<exists>h t. rq_authorization rq = Some (''Bearer '' @ h) \<and> fst (verifyAccessToken E A (trim h) w) = Inr p \<and>
        t = trim_or (rq_organizationId rq) [] \<and> t \<noteq> [] \<and> member (db w) (ap_sub p) t m \<and>
        (roles = [] \<or> tm_role m \<in> set roles))) \<and>
    db (snd (authorize E A roles rq w)) = db w"
proof -
  let ?w = "snd (jwt_guard E A rq w)" and ?t = "trim_or (rq_organizationId rq) []"
  have jwt: "fst (jwt_guard E A rq w) = Inr q \<longleftrightarrow>
      (\<exists>h. rq_authorization rq = Some (''Bearer '' @ h) \<and> fst (verifyAccessToken E A (trim h) w) = Inr q)" for q
  proof (cases "rq_authorization rq")
    case (Some a)
    show ?thesis
    proof (cases "starts_with ''Bearer '' a")
      case True
      then obtain h where h: "a = ''Bearer '' @ h" by (auto simp: starts_with_iff)
      with Some True show ?thesis
        by (cases "fst (verifyAccessToken E A (trim h) w)") (simp_all add: jwt_guard_def run_simps)
    next
      case False
      then have "a \<noteq> ''Bearer '' @ h" for h by (auto simp: starts_with_iff)
      with Some False show ?thesis by (simp add: jwt_guard_def run_simps)
    qed
  qed (simp add: jwt_guard_def run_simps)
  have ok: "db_ok (db ?w)" using assms by (simp add: guard_frames)
  have tenant: "fst (tenant_guard rq (Some q) ?w) = Inr m \<longleftrightarrow> ?t \<noteq> [] \<and> member (db w) (ap_sub q) ?t m"
    and same: "snd (tenant_guard rq (Some q) ?w) = ?w" for q m
  proof -
    obtain r where r: "resolveTenantMembership (ap_sub q) ?t ?w = (Inr r, ?w)"
      and found: "\<And>m. r = Some m \<longleftrightarrow> member (db ?w) (ap_sub q) ?t m"
      using resolve_iff [OF ok] by blast
    show "fst (tenant_guard rq (Some q) ?w) = Inr m \<longleftrightarrow> ?t \<noteq> [] \<and> member (db w) (ap_sub q) ?t m"
      using found [of m] by (cases r) (simp_all add: tenant_guard_def Let_def run_simps r guard_frames)
    show "snd (tenant_guard rq (Some q) ?w) = ?w"
      by (cases r) (simp_all add: tenant_guard_def Let_def run_simps r)
  qed
  have roles: "roles_guard roles (Some n) v = (if roles = [] \<or> tm_role n \<in> set roles then Inr () else
      Inl (forbidden ''Insufficient organization role''), v)" for n v
    by (simp add: roles_guard_def run_simps)
  have "fst (authorize E A roles rq w) = Inr (p, m) \<longleftrightarrow>
      (\<exists>h t. rq_authorization rq = Some (''Bearer '' @ h) \<and> fst (verifyAccessToken E A (trim h) w) = Inr p \<and>
        t = ?t \<and> t \<noteq> [] \<and> member (db w) (ap_sub p) t m \<and> (roles = [] \<or> tm_role m \<in> set roles))"
    using jwt [of p] tenant [of p m]
    by (cases "fst (jwt_guard E A rq w)"; cases "fst (tenant_guard rq (Some (projr (fst (jwt_guard E A rq w)))) ?w)")
      (auto simp: authorize_def run_simps roles same)
  moreover have "db (snd (authorize E A roles rq w)) = db w"
    by (cases "fst (jwt_guard E A rq w)"; cases "fst (tenant_guard rq (Some (projr (fst (jwt_guard E A rq w)))) ?w)")
      (simp_all add: authorize_def run_simps roles same guard_frames)
  ultimately show ?thesis by blast
qed

text \<open>C26: Exactly these requests pass the three guards: the bearer token verifies as an access token, its
  user is active, the header names an organisation of which the user is a member, and the
  membership's role is among those required (any role when none is). What the controller is then
  given is that member's organisation and role and the token's user. The guards write nothing.\<close>

theorem authorize_iff:
  assumes "db_ok (db w)"
  shows "(fst (authorize E A roles rq w) = Inr (p, m) \<longleftrightarrow>
      (\<exists>h t. rq_authorization rq = Some (''Bearer '' @ h) \<and> fst (verifyAccessToken E A (trim h) w) = Inr p \<and>
        t = trim_or (rq_organizationId rq) [] \<and> t \<noteq> [] \<and> member (db w) (ap_sub p) t m \<and>
        (roles = [] \<or> tm_role m \<in> set roles))) \<and>
    db (snd (authorize E A roles rq w)) = db w"
  using assms by (rule authorize_spec)

definition demo_access :: string where
  "demo_access = signed_text demo_ext ''a'' (timed_payload (access_claims ''u'' ''e'') 0 900)"

definition demo_tenant :: world where
  "demo_tenant = demo_world (empty_db\<lparr>users := [blank_user\<lparr>us_id := ''u''\<rparr>],
     organizations := [blank_organization\<lparr>og_id := ''o'', og_slug := ''acme'', og_name := ''Acme''\<rparr>],
     organizationMemberships := [blank_membership\<lparr>mb_id := ''m'', mb_userId := ''u'', mb_organizationId := ''o'',
       mb_role := OrganizationRole.AGENT\<rparr>]\<rparr>)"

definition demo_request :: request where
  "demo_request = \<lparr>rq_authorization = Some (''Bearer '' @ demo_access), rq_organizationId = Some ''o''\<rparr>"

lemma demo_access_trim: "trim demo_access = demo_access"
proof (rule trim_nows)
  have "set (base64UrlEncode s) \<subseteq> url_char ` (b64_char ` UNIV \<union> {CHR ''=''})" for s
    using b64_encode_chars [of s] by (fastforce simp: base64UrlEncode_def dest!: set_dropWhileD)
  moreover have "\<not> is_ws (url_char (b64_char n))" for n
    by (auto simp: url_char_def b64_char_def is_ws_def)
  moreover have "\<not> is_ws (url_char CHR ''='')" "\<not> is_ws CHR ''.''" by (simp_all add: url_char_def is_ws_def)
  ultimately have "\<not> is_ws c" if "c \<in> set (base64UrlEncode s)" for c s
    using that by blast
  with \<open>\<not> is_ws CHR ''.''\<close> show "c \<in> set demo_access \<Longrightarrow> \<not> is_ws c" for c
    by (auto simp: demo_access_def signed_text_def token_part_def Let_def)
qed

lemma demo_access_ok: "fst (verifyAccessToken demo_ext demo_auth demo_access demo_tenant) = Inr \<lparr>ap_sub = ''u'', ap_email = ''e''\<rparr>"
proof -
  let ?kvs = "timed_payload (access_claims ''u'' ''e'') 0 900"
  note c = claims_ok [OF disjI1 [OF HOL.refl]]
  have "verify_text demo_ext ''a'' (signed_text demo_ext ''a'' ?kvs) = Inr (JObj ?kvs)"
    by (rule verify_signed(1) [OF demo_num c(1)]) (simp_all add: c)
  moreover have "x_clock demo_ext (ticks demo_tenant) = 0" by (simp add: demo_ext_def demo_tenant_def demo_world_def)
  ultimately show ?thesis
    by (simp add: verifyAccessToken_def verifyToken_def run_simps demo_auth_def demo_access_def c access_fields of_int_le)
qed

theorem authorize_iff_witness:
  "fst (authorize demo_ext demo_auth MUTATING_ORG_ROLES demo_request demo_tenant) =
     Inr (\<lparr>ap_sub = ''u'', ap_email = ''e''\<rparr>, \<lparr>tm_membershipId = ''m'', tm_organizationId = ''o'',
       tm_organizationSlug = ''acme'', tm_organizationName = ''Acme'', tm_role = OrganizationRole.AGENT\<rparr>)"
proof -
  have "db_ok (db demo_tenant)"
    by (simp add: demo_tenant_def demo_world_def db_ok_def timeline_ok_def ticket_events_def no_clash_def empty_db_def table_defs)
  moreover have "trim_or (Some ''o'') [] = ''o''" by code_simp
  ultimately show ?thesis
    using demo_access_ok
    by (subst authorize_iff [THEN conjunct1])
      (simp_all add: demo_request_def demo_access_trim member_def MUTATING_ORG_ROLES_def demo_tenant_def demo_world_def
        empty_db_def blank_user_def blank_organization_def blank_membership_def)
qed

section \<open>Refused logins\<close>

text \<open>A refused login does not tell why. Whether no user has the address, the user is not active or the
  password is wrong: the answer, the metric and the database left behind are the same, and nothing
  is written.\<close>

theorem login_refusal_uniform:
  assumes "L (auth_normalizeEmail email) (md_ipAddress md) w = (Inr (), v)"
    and "\<not> list_ex (\<lambda>u. us_normalizedEmail u = auth_normalizeEmail email \<and> us_isActive u \<and>
       pw_verify P (us_passwordHash u) password \<noteq> Inr False) (users (db v))"
  shows "login E A P L email password md w =
    (Inl (unauthorized ''Invalid email or password''), v\<lparr>mlog := mlog v @ [(''incrementAuthFailure'', [''login'', ''auth_error''])]\<rparr>)"
proof (cases "first_where (\<lambda>u. us_normalizedEmail u = auth_normalizeEmail email) (users (db v))")
  case (Some u)
  then have "us_isActive u \<Longrightarrow> pw_verify P (us_passwordHash u) password = Inr False"
    using first_where_Some [OF Some] assms(2) by (auto simp: list_ex_iff)
  with Some assms(1) show ?thesis
    by (cases "us_isActive u") (simp_all add: login_def refuse_login_def Let_def run_simps user_t_def)
qed (use assms(1) in \<open>simp add: login_def refuse_login_def Let_def run_simps user_t_def\<close>)

theorem login_refusal_uniform_witness:
  "fst (login demo_ext demo_auth demo_passwords (\<lambda>_ _. ret_x ()) ''nobody'' ''x'' demo_md demo_tenant) =
   fst (login demo_ext demo_auth demo_passwords (\<lambda>_ _. ret_x ()) [] ''wrong'' demo_md demo_tenant)"
proof -
  have norm: "auth_normalizeEmail ''nobody'' = ''nobody''" "auth_normalizeEmail [] = []" by code_simp+
  show ?thesis
    by (subst (1 2) login_refusal_uniform [where v = demo_tenant])
      (simp_all add: run_simps norm demo_passwords_def demo_tenant_def demo_world_def empty_db_def blank_user_def)
qed

end
