(* ===== verification/Metrics.thy ===== *)
theory Metrics
  imports Retry RuntimeConfig "HOL-Library.Sublist"
begin

text \<open>
  \<^verbatim>\<open>packages/observability/src/metrics.ts\<close> and the metrics services of the API and the worker
  (\<^verbatim>\<open>observability/metrics.service.ts\<close>): the metrics each registers and what each method asks of
  them. The registry is a package; a method is the list of calls it makes to it. The methods of the two
  services that have one name are the same code.
\<close>

section \<open>What is registered\<close>

datatype metric_kind = Counter | Gauge | Histogram "rat list"

record metric =
  mt_key :: string
  mt_name :: "string option"
  mt_kind :: metric_kind
  mt_help :: string
  mt_labels :: "string list"

definition METRIC_OUTCOMES :: "string list" where
  "METRIC_OUTCOMES = [''success'', ''blocked'', ''timeout'', ''rate_limited'', ''provider_error'',
     ''validation_error'', ''auth_error'', ''authorization_denied'', ''configuration_error'',
     ''no_result'', ''unknown'']"

definition toStatusClass :: "int \<Rightarrow> string" where
  "toStatusClass statusCode = show_int (statusCode div 100) @ ''xx''"

definition normalizeMetricOutcome :: "string option \<Rightarrow> string" where
  "normalizeMetricOutcome v =
     (if truthy v \<and> the v \<in> set METRIC_OUTCOMES then the v else ''unknown'')"

definition METRIC_NAMES :: "(string \<times> string) list" where
  "METRIC_NAMES = [
     (''httpRequestsTotal'', ''autonomous_http_requests_total''),
     (''httpRequestDurationMs'', ''autonomous_http_request_duration_ms''),
     (''httpActiveRequests'', ''autonomous_http_active_requests''),
     (''authFailuresTotal'', ''autonomous_auth_failures_total''),
     (''authorizationDenialsTotal'', ''autonomous_authorization_denials_total''),
     (''authLoginsTotal'', ''autonomous_auth_logins_total''),
     (''authRefreshTotal'', ''autonomous_auth_refresh_total''),
     (''authRegistrationsTotal'', ''autonomous_auth_registrations_total''),
     (''queueJobsEnqueuedTotal'', ''autonomous_queue_jobs_enqueued_total''),
     (''queueJobsStartedTotal'', ''autonomous_queue_jobs_started_total''),
     (''queueJobsCompletedTotal'', ''autonomous_queue_jobs_completed_total''),
     (''queueJobsFailedTotal'', ''autonomous_queue_jobs_failed_total''),
     (''queueJobsRetriedTotal'', ''autonomous_queue_jobs_retried_total''),
     (''queueJobDurationMs'', ''autonomous_queue_job_duration_ms''),
     (''queueDeadLetteredTotal'', ''autonomous_queue_dead_lettered_total''),
     (''agentRunsTotal'', ''autonomous_agent_runs_total''),
     (''agentRunDurationMs'', ''autonomous_agent_run_duration_ms''),
     (''agentStepsTotal'', ''autonomous_agent_steps_total''),
     (''guardrailOutcomesTotal'', ''autonomous_guardrail_outcomes_total''),
     (''approvalsRequiredTotal'', ''autonomous_approvals_required_total''),
     (''draftsCreatedTotal'', ''autonomous_drafts_created_total''),
     (''draftsSentTotal'', ''autonomous_drafts_sent_total''),
     (''llmCallsTotal'', ''autonomous_llm_calls_total''),
     (''llmInputTokensTotal'', ''autonomous_llm_input_tokens_total''),
     (''llmOutputTokensTotal'', ''autonomous_llm_output_tokens_total''),
     (''llmEstimatedCostMicrounitsTotal'', ''autonomous_llm_estimated_cost_microunits_total''),
     (''llmFallbacksTotal'', ''autonomous_llm_fallbacks_total''),
     (''llmLatencyMs'', ''autonomous_llm_latency_ms''),
     (''knowledgeRetrievalsTotal'', ''autonomous_knowledge_retrievals_total''),
     (''knowledgeResultsCount'', ''autonomous_knowledge_results_count''),
     (''knowledgeUsedTotal'', ''autonomous_knowledge_used_total''),
     (''channelWebhooksTotal'', ''autonomous_channel_webhooks_total''),
     (''channelWebhookSignatureFailuresTotal'', ''autonomous_channel_webhook_signature_failures_total''),
     (''channelDuplicateWebhooksTotal'', ''autonomous_channel_duplicate_webhooks_total''),
     (''channelInboundMessagesTotal'', ''autonomous_channel_inbound_messages_total''),
     (''channelConversationsCreatedTotal'', ''autonomous_channel_conversations_created_total''),
     (''channelTicketsCreatedTotal'', ''autonomous_channel_tickets_created_total''),
     (''channelOutboundQueuedTotal'', ''autonomous_channel_outbound_queued_total'')]"

definition new_metric :: "string \<Rightarrow> metric_kind \<Rightarrow> string \<Rightarrow> string list \<Rightarrow> metric" where
  "new_metric key kind help labels = \<lparr>mt_key = key, mt_name = map_of METRIC_NAMES key, mt_kind = kind,
     mt_help = help, mt_labels = labels\<rparr>"

definition http_metrics :: "metric list" where
  "http_metrics = [
     new_metric ''httpRequestsTotal'' Counter
        ''Total HTTP requests handled by route and status class.'' [''method'', ''route'', ''statusClass''],
     new_metric ''httpRequestDurationMs'' (Histogram [10, 25, 50, 100, 250, 500, 1000, 2500, 5000, 10000])
        ''HTTP request duration in milliseconds.'' [''method'', ''route'', ''statusClass''],
     new_metric ''httpActiveRequests'' Gauge
        ''Currently active HTTP requests.'' [''route'', ''method''],
     new_metric ''authFailuresTotal'' Counter
        ''Authentication failures by flow and reason.'' [''flow'', ''reason''],
     new_metric ''authorizationDenialsTotal'' Counter
        ''Authorization denials for authenticated requests.'' [],
     new_metric ''authLoginsTotal'' Counter
        ''Login operations by outcome.'' [''outcome''],
     new_metric ''authRefreshTotal'' Counter
        ''Refresh token operations by outcome.'' [''outcome''],
     new_metric ''authRegistrationsTotal'' Counter
        ''Registration operations by outcome.'' [''outcome'']]"

definition queue_metrics :: "metric list" where
  "queue_metrics = [
     new_metric ''queueJobsEnqueuedTotal'' Counter
        ''Queue jobs enqueued.'' [''jobName'', ''trigger''],
     new_metric ''queueJobsStartedTotal'' Counter
        ''Queue jobs started for processing.'' [''jobName''],
     new_metric ''queueJobsCompletedTotal'' Counter
        ''Queue jobs completed.'' [''jobName''],
     new_metric ''queueJobsFailedTotal'' Counter
        ''Queue jobs failed.'' [''jobName'', ''outcome''],
     new_metric ''queueJobsRetriedTotal'' Counter
        ''Queue jobs retried.'' [''jobName'', ''outcome''],
     new_metric ''queueJobDurationMs'' (Histogram [50, 100, 250, 500, 1000, 2500, 5000, 10000, 30000])
        ''Queue job duration in milliseconds.'' [''jobName'', ''outcome''],
     new_metric ''queueDeadLetteredTotal'' Counter
        ''Queue jobs sent to dead-letter handling.'' [''jobName'', ''outcome'']]"

definition agent_metrics :: "metric list" where
  "agent_metrics = [
     new_metric ''agentRunsTotal'' Counter
        ''Agent runs by status and trigger.'' [''status'', ''trigger''],
     new_metric ''agentRunDurationMs'' (Histogram [100, 250, 500, 1000, 2500, 5000, 10000, 30000])
        ''Agent run duration in milliseconds.'' [''status''],
     new_metric ''agentStepsTotal'' Counter
        ''Agent steps by type and status.'' [''stepType'', ''status''],
     new_metric ''guardrailOutcomesTotal'' Counter
        ''Guardrail outcomes.'' [''guardrailType'', ''decision''],
     new_metric ''approvalsRequiredTotal'' Counter
        ''Runs requiring human approval by source.'' [''source''],
     new_metric ''draftsCreatedTotal'' Counter
        ''Drafts created by source.'' [''source''],
     new_metric ''draftsSentTotal'' Counter
        ''Drafts sent by source.'' [''source''],
     new_metric ''llmCallsTotal'' Counter
        ''LLM calls by provider, model, and outcome.'' [''provider'', ''model'', ''outcome''],
     new_metric ''llmInputTokensTotal'' Counter
        ''LLM input tokens by provider and model.'' [''provider'', ''model''],
     new_metric ''llmOutputTokensTotal'' Counter
        ''LLM output tokens by provider and model.'' [''provider'', ''model''],
     new_metric ''llmEstimatedCostMicrounitsTotal'' Counter
        ''Estimated LLM cost in integer microunits.'' [''provider'', ''model''],
     new_metric ''llmFallbacksTotal'' Counter
        ''LLM fallbacks used.'' [''provider'', ''model''],
     new_metric ''llmLatencyMs'' (Histogram [100, 250, 500, 1000, 2500, 5000, 10000, 30000])
        ''LLM latency in milliseconds.'' [''provider'', ''model'', ''outcome''],
     new_metric ''knowledgeRetrievalsTotal'' Counter
        ''Knowledge retrieval calls by outcome.'' [''outcome''],
     new_metric ''knowledgeResultsCount'' (Histogram [0, 1, 2, 3, 5, 10, 20])
        ''Knowledge retrieval result count distribution.'' [''outcome''],
     new_metric ''knowledgeUsedTotal'' Counter
        ''Knowledge-backed responses by source.'' [''source'']]"

definition channel_metrics :: "metric list" where
  "channel_metrics = [
     new_metric ''channelWebhooksTotal'' Counter
        ''Channel webhooks by provider, event type, and outcome.'' [''provider'', ''eventType'', ''outcome''],
     new_metric ''channelWebhookSignatureFailuresTotal'' Counter
        ''Channel webhook signature failures by provider.'' [''provider''],
     new_metric ''channelDuplicateWebhooksTotal'' Counter
        ''Duplicate channel webhooks by provider.'' [''provider''],
     new_metric ''channelInboundMessagesTotal'' Counter
        ''Inbound channel messages by provider.'' [''provider''],
     new_metric ''channelConversationsCreatedTotal'' Counter
        ''Channel conversations created by provider.'' [''provider''],
     new_metric ''channelTicketsCreatedTotal'' Counter
        ''Tickets created from channel messages by provider.'' [''provider''],
     new_metric ''channelOutboundQueuedTotal'' Counter
        ''Outbound channel messages queued by provider.'' [''provider'']]"

definition api_metrics :: "metric list" where
  "api_metrics = http_metrics @ queue_metrics @ agent_metrics @ channel_metrics"

definition worker_queue_metrics :: "metric list" where
  "worker_queue_metrics = [
     new_metric ''httpRequestsTotal'' Counter
        ''Total HTTP requests handled by route and status class.'' [''method'', ''route'', ''statusClass''],
     new_metric ''httpRequestDurationMs'' (Histogram [10, 25, 50, 100, 250, 500, 1000, 2500, 5000, 10000])
        ''HTTP request duration in milliseconds.'' [''method'', ''route'', ''statusClass''],
     new_metric ''httpActiveRequests'' Gauge
        ''Currently active HTTP requests.'' [''route'', ''method''],
     new_metric ''queueJobsEnqueuedTotal'' Counter
        ''Queue jobs enqueued.'' [''jobName'', ''trigger''],
     new_metric ''queueJobsStartedTotal'' Counter
        ''Queue jobs started for processing.'' [''jobName''],
     new_metric ''queueJobsCompletedTotal'' Counter
        ''Queue jobs completed.'' [''jobName''],
     new_metric ''queueJobsFailedTotal'' Counter
        ''Queue jobs failed.'' [''jobName'', ''outcome''],
     new_metric ''queueJobsRetriedTotal'' Counter
        ''Queue jobs retried.'' [''jobName'', ''outcome''],
     new_metric ''queueJobDurationMs'' (Histogram [50, 100, 250, 500, 1000, 2500, 5000, 10000, 30000])
        ''Queue job duration in milliseconds.'' [''jobName'', ''outcome''],
     new_metric ''queueDeadLetteredTotal'' Counter
        ''Queue jobs sent to dead-letter handling.'' [''jobName'', ''outcome''],
     new_metric ''agentRunsTotal'' Counter
        ''Agent runs by status and trigger.'' [''status'', ''trigger''],
     new_metric ''agentRunDurationMs'' (Histogram [100, 250, 500, 1000, 2500, 5000, 10000, 30000])
        ''Agent run duration in milliseconds.'' [''status''],
     new_metric ''agentStepsTotal'' Counter
        ''Agent steps by type and status.'' [''stepType'', ''status''],
     new_metric ''guardrailOutcomesTotal'' Counter
        ''Guardrail outcomes.'' [''guardrailType'', ''decision''],
     new_metric ''approvalsRequiredTotal'' Counter
        ''Runs requiring human approval by source.'' [''source''],
     new_metric ''draftsCreatedTotal'' Counter
        ''Drafts created by source.'' [''source'']]"

definition worker_llm_metrics :: "metric list" where
  "worker_llm_metrics = [
     new_metric ''draftsSentTotal'' Counter
        ''Drafts sent by source.'' [''source''],
     new_metric ''llmCallsTotal'' Counter
        ''LLM calls by provider, model, and outcome.'' [''provider'', ''model'', ''outcome''],
     new_metric ''llmInputTokensTotal'' Counter
        ''LLM input tokens by provider and model.'' [''provider'', ''model''],
     new_metric ''llmOutputTokensTotal'' Counter
        ''LLM output tokens by provider and model.'' [''provider'', ''model''],
     new_metric ''llmEstimatedCostMicrounitsTotal'' Counter
        ''Estimated LLM cost in integer microunits.'' [''provider'', ''model''],
     new_metric ''llmFallbacksTotal'' Counter
        ''LLM fallbacks used.'' [''provider'', ''model''],
     new_metric ''llmLatencyMs'' (Histogram [100, 250, 500, 1000, 2500, 5000, 10000, 30000])
        ''LLM latency in milliseconds.'' [''provider'', ''model'', ''outcome''],
     new_metric ''knowledgeRetrievalsTotal'' Counter
        ''Knowledge retrieval calls by outcome.'' [''outcome''],
     new_metric ''knowledgeResultsCount'' (Histogram [0, 1, 2, 3, 5, 10, 20])
        ''Knowledge retrieval result count distribution.'' [''outcome''],
     new_metric ''knowledgeUsedTotal'' Counter
        ''Knowledge-backed responses by source.'' [''source'']]"

definition worker_metrics :: "metric list" where
  "worker_metrics = worker_queue_metrics @ worker_llm_metrics"


section \<open>The methods\<close>

text \<open>Calls to the registry: \<^verbatim>\<open>labels(...)\<close> then \<^verbatim>\<open>inc\<close>, \<^verbatim>\<open>dec\<close> or \<^verbatim>\<open>observe\<close>. A metric is named by its
  field of the state.\<close>

datatype registry_call =
    Inc string "string list" rat
  | Dec string "string list"
  | Observe string "string list" rat

definition isMetricsEnabled :: "env \<Rightarrow> bool" where
  "isMetricsEnabled env \<longleftrightarrow> map_option (\<lambda>v. to_lower (trim v)) (env ''METRICS_ENABLED'') \<noteq> Some ''false''"

definition metered :: "env \<Rightarrow> registry_call list \<Rightarrow> registry_call list" where
  "metered env calls = (if isMetricsEnabled env then calls else [])"

definition isAuthorized :: "env \<Rightarrow> string option \<Rightarrow> bool" where
  "isAuthorized env authHeader =
     (let token = map_option trim (env ''METRICS_AUTH_TOKEN'') in
      if truthy token then authHeader = Some (''Bearer '' @ the token) else True)"

text \<open>What a request does at its start and what the returned function does at its end.\<close>

definition startHttpRequest :: "env \<Rightarrow> string \<Rightarrow> string \<Rightarrow> registry_call list \<times> registry_call list" where
  "startHttpRequest env verb route =
     (metered env [Inc ''httpActiveRequests'' [route, verb] 1], metered env [Dec ''httpActiveRequests'' [route, verb]])"

definition recordHttpRequest :: "env \<Rightarrow> string \<Rightarrow> string \<Rightarrow> int \<Rightarrow> rat \<Rightarrow> registry_call list" where
  "recordHttpRequest env verb route statusCode durationMs =
     (let statusClass = toStatusClass statusCode in
      metered env [Inc ''httpRequestsTotal'' [verb, route, statusClass] 1,
        Observe ''httpRequestDurationMs'' [verb, route, statusClass] durationMs])"

definition recordLlmUsage :: "env \<Rightarrow> string \<Rightarrow> string \<Rightarrow> int \<Rightarrow> int \<Rightarrow> int option \<Rightarrow> registry_call list" where
  "recordLlmUsage env provider model inputTokens outputTokens estimatedCostMicrounits =
     metered env ([Inc ''llmInputTokensTotal'' [provider, model] (rat_of_int inputTokens),
        Inc ''llmOutputTokensTotal'' [provider, model] (rat_of_int outputTokens)] @
       (case estimatedCostMicrounits of None \<Rightarrow> []
        | Some c \<Rightarrow> [Inc ''llmEstimatedCostMicrounitsTotal'' [provider, model] (rat_of_int c)]))"

definition incrementAuthFailure :: "env \<Rightarrow> string \<Rightarrow> string \<Rightarrow> registry_call list" where
  "incrementAuthFailure env flow reason = metered env [Inc ''authFailuresTotal'' [flow, normalizeMetricOutcome (Some reason)] 1]"

definition incrementAuthorizationDenied :: "env \<Rightarrow> registry_call list" where
  "incrementAuthorizationDenied env = metered env [Inc ''authorizationDenialsTotal'' [] 1]"

definition incrementAuthRefresh :: "env \<Rightarrow> string \<Rightarrow> registry_call list" where
  "incrementAuthRefresh env outcome = metered env [Inc ''authRefreshTotal'' [normalizeMetricOutcome (Some outcome)] 1]"

definition incrementAuthLogin :: "env \<Rightarrow> string \<Rightarrow> registry_call list" where
  "incrementAuthLogin env outcome = metered env [Inc ''authLoginsTotal'' [normalizeMetricOutcome (Some outcome)] 1]"

definition incrementAuthRegistration :: "env \<Rightarrow> string \<Rightarrow> registry_call list" where
  "incrementAuthRegistration env outcome = metered env [Inc ''authRegistrationsTotal'' [normalizeMetricOutcome (Some outcome)] 1]"

definition incrementQueueEnqueued :: "env \<Rightarrow> string \<Rightarrow> string \<Rightarrow> registry_call list" where
  "incrementQueueEnqueued env jobName trigger = metered env [Inc ''queueJobsEnqueuedTotal'' [jobName, trigger] 1]"

definition incrementQueueStarted :: "env \<Rightarrow> string \<Rightarrow> registry_call list" where
  "incrementQueueStarted env jobName = metered env [Inc ''queueJobsStartedTotal'' [jobName] 1]"

definition incrementQueueCompleted :: "env \<Rightarrow> string \<Rightarrow> registry_call list" where
  "incrementQueueCompleted env jobName = metered env [Inc ''queueJobsCompletedTotal'' [jobName] 1]"

definition incrementQueueFailed :: "env \<Rightarrow> string \<Rightarrow> string \<Rightarrow> registry_call list" where
  "incrementQueueFailed env jobName outcome = metered env [Inc ''queueJobsFailedTotal'' [jobName, normalizeMetricOutcome (Some outcome)] 1]"

definition incrementQueueRetried :: "env \<Rightarrow> string \<Rightarrow> string \<Rightarrow> registry_call list" where
  "incrementQueueRetried env jobName outcome = metered env [Inc ''queueJobsRetriedTotal'' [jobName, normalizeMetricOutcome (Some outcome)] 1]"

definition observeQueueDuration :: "env \<Rightarrow> string \<Rightarrow> string \<Rightarrow> rat \<Rightarrow> registry_call list" where
  "observeQueueDuration env jobName outcome durationMs = metered env [Observe ''queueJobDurationMs'' [jobName, normalizeMetricOutcome (Some outcome)] durationMs]"

definition incrementDeadLetter :: "env \<Rightarrow> string \<Rightarrow> string \<Rightarrow> registry_call list" where
  "incrementDeadLetter env jobName outcome = metered env [Inc ''queueDeadLetteredTotal'' [jobName, normalizeMetricOutcome (Some outcome)] 1]"

definition incrementAgentRun :: "env \<Rightarrow> string \<Rightarrow> string \<Rightarrow> registry_call list" where
  "incrementAgentRun env status trigger = metered env [Inc ''agentRunsTotal'' [status, trigger] 1]"

definition observeAgentRunDuration :: "env \<Rightarrow> string \<Rightarrow> rat \<Rightarrow> registry_call list" where
  "observeAgentRunDuration env status durationMs = metered env [Observe ''agentRunDurationMs'' [status] durationMs]"

definition incrementAgentStep :: "env \<Rightarrow> string \<Rightarrow> string \<Rightarrow> registry_call list" where
  "incrementAgentStep env stepType status = metered env [Inc ''agentStepsTotal'' [stepType, status] 1]"

definition incrementGuardrailOutcome :: "env \<Rightarrow> string \<Rightarrow> string \<Rightarrow> registry_call list" where
  "incrementGuardrailOutcome env guardrailType decision = metered env [Inc ''guardrailOutcomesTotal'' [guardrailType, decision] 1]"

definition incrementApprovalRequired :: "env \<Rightarrow> string \<Rightarrow> registry_call list" where
  "incrementApprovalRequired env source = metered env [Inc ''approvalsRequiredTotal'' [source] 1]"

definition incrementDraftCreated :: "env \<Rightarrow> string \<Rightarrow> registry_call list" where
  "incrementDraftCreated env source = metered env [Inc ''draftsCreatedTotal'' [source] 1]"

definition incrementDraftSent :: "env \<Rightarrow> string \<Rightarrow> registry_call list" where
  "incrementDraftSent env source = metered env [Inc ''draftsSentTotal'' [source] 1]"

definition recordLlmCall :: "env \<Rightarrow> string \<Rightarrow> string \<Rightarrow> string \<Rightarrow> registry_call list" where
  "recordLlmCall env provider model outcome = metered env [Inc ''llmCallsTotal'' [provider, model, normalizeMetricOutcome (Some outcome)] 1]"

definition observeLlmLatency :: "env \<Rightarrow> string \<Rightarrow> string \<Rightarrow> string \<Rightarrow> rat \<Rightarrow> registry_call list" where
  "observeLlmLatency env provider model outcome durationMs = metered env [Observe ''llmLatencyMs'' [provider, model, normalizeMetricOutcome (Some outcome)] durationMs]"

definition incrementLlmFallback :: "env \<Rightarrow> string \<Rightarrow> string \<Rightarrow> registry_call list" where
  "incrementLlmFallback env provider model = metered env [Inc ''llmFallbacksTotal'' [provider, model] 1]"

definition incrementKnowledgeRetrieval :: "env \<Rightarrow> string \<Rightarrow> registry_call list" where
  "incrementKnowledgeRetrieval env outcome = metered env [Inc ''knowledgeRetrievalsTotal'' [normalizeMetricOutcome (Some outcome)] 1]"

definition observeKnowledgeResults :: "env \<Rightarrow> string \<Rightarrow> rat \<Rightarrow> registry_call list" where
  "observeKnowledgeResults env outcome resultCount = metered env [Observe ''knowledgeResultsCount'' [normalizeMetricOutcome (Some outcome)] resultCount]"

definition incrementKnowledgeUsed :: "env \<Rightarrow> string \<Rightarrow> registry_call list" where
  "incrementKnowledgeUsed env source = metered env [Inc ''knowledgeUsedTotal'' [source] 1]"

definition incrementChannelWebhook :: "env \<Rightarrow> string \<Rightarrow> string \<Rightarrow> string \<Rightarrow> registry_call list" where
  "incrementChannelWebhook env provider eventType outcome = metered env [Inc ''channelWebhooksTotal'' [to_lower provider, to_lower eventType, outcome] 1]"

definition incrementChannelSignatureFailure :: "env \<Rightarrow> string \<Rightarrow> registry_call list" where
  "incrementChannelSignatureFailure env provider = metered env [Inc ''channelWebhookSignatureFailuresTotal'' [to_lower provider] 1]"

definition incrementChannelDuplicateWebhook :: "env \<Rightarrow> string \<Rightarrow> registry_call list" where
  "incrementChannelDuplicateWebhook env provider = metered env [Inc ''channelDuplicateWebhooksTotal'' [to_lower provider] 1]"

definition incrementChannelInboundMessage :: "env \<Rightarrow> string \<Rightarrow> registry_call list" where
  "incrementChannelInboundMessage env provider = metered env [Inc ''channelInboundMessagesTotal'' [to_lower provider] 1]"

definition incrementChannelConversationCreated :: "env \<Rightarrow> string \<Rightarrow> registry_call list" where
  "incrementChannelConversationCreated env provider = metered env [Inc ''channelConversationsCreatedTotal'' [to_lower provider] 1]"

definition incrementChannelTicketCreated :: "env \<Rightarrow> string \<Rightarrow> registry_call list" where
  "incrementChannelTicketCreated env provider = metered env [Inc ''channelTicketsCreatedTotal'' [to_lower provider] 1]"

definition incrementChannelOutboundQueued :: "env \<Rightarrow> string \<Rightarrow> registry_call list" where
  "incrementChannelOutboundQueued env provider = metered env [Inc ''channelOutboundQueuedTotal'' [to_lower provider] 1]"

section \<open>Every call fits what is registered\<close>

text \<open>A label carries the argument of its name, as given, in lower case or as one of the listed outcomes,
  or the class of a status.\<close>

definition label_fits :: "(string \<Rightarrow> string) \<Rightarrow> int \<Rightarrow> string \<Rightarrow> string \<Rightarrow> bool" where
  "label_fits a st l v \<longleftrightarrow>
     (if l = ''statusClass'' then v = toStatusClass st
      else v = a l \<or> v = to_lower (a l) \<or> v = normalizeMetricOutcome (Some (a l)))"

definition labels_fit :: "(string \<Rightarrow> string) \<Rightarrow> int \<Rightarrow> metric \<Rightarrow> string list \<Rightarrow> bool" where
  "labels_fit a st m vs \<longleftrightarrow> list_all2 (label_fits a st) (mt_labels m) vs"

definition is_histogram :: "metric_kind \<Rightarrow> bool" where
  "is_histogram k \<longleftrightarrow> (case k of Histogram bs \<Rightarrow> bs \<noteq> [] | _ \<Rightarrow> False)"

definition metric_of :: "metric list \<Rightarrow> string \<Rightarrow> metric option" where
  "metric_of cat key = find (\<lambda>m. mt_key m = key) cat"

fun call_key :: "registry_call \<Rightarrow> string" where
  "call_key (Inc key vs q) = key"
| "call_key (Dec key vs) = key"
| "call_key (Observe key vs q) = key"

fun call_labels :: "registry_call \<Rightarrow> string list" where
  "call_labels (Inc key vs q) = vs"
| "call_labels (Dec key vs) = vs"
| "call_labels (Observe key vs q) = vs"

fun kind_fits :: "metric_kind \<Rightarrow> registry_call \<Rightarrow> bool" where
  "kind_fits k (Inc key vs q) \<longleftrightarrow> \<not> is_histogram k"
| "kind_fits k (Dec key vs) \<longleftrightarrow> k = Gauge"
| "kind_fits k (Observe key vs q) \<longleftrightarrow> is_histogram k"

definition registered :: "metric list \<Rightarrow> (string \<Rightarrow> string) \<Rightarrow> int \<Rightarrow> registry_call \<Rightarrow> bool" where
  "registered cat a st c \<longleftrightarrow> (case metric_of cat (call_key c) of None \<Rightarrow> False
     | Some m \<Rightarrow> kind_fits (mt_kind m) c \<and> labels_fit a st m (call_labels c))"

text \<open>All calls of a service when each argument of a method has the value \<open>a\<close> gives its name.\<close>

definition http_calls :: "env \<Rightarrow> (string \<Rightarrow> string) \<Rightarrow> int \<Rightarrow> rat \<Rightarrow> registry_call list list" where
  "http_calls env a st q = [
     fst (startHttpRequest env (a ''method'') (a ''route'')), snd (startHttpRequest env (a ''method'') (a ''route'')),
     recordHttpRequest env (a ''method'') (a ''route'') st q]"

definition queue_calls :: "env \<Rightarrow> (string \<Rightarrow> string) \<Rightarrow> rat \<Rightarrow> registry_call list list" where
  "queue_calls env a q = [
     incrementQueueEnqueued env (a ''jobName'') (a ''trigger''),
     incrementQueueStarted env (a ''jobName''),
     incrementQueueCompleted env (a ''jobName''),
     incrementQueueFailed env (a ''jobName'') (a ''outcome''),
     incrementQueueRetried env (a ''jobName'') (a ''outcome''),
     observeQueueDuration env (a ''jobName'') (a ''outcome'') q,
     incrementDeadLetter env (a ''jobName'') (a ''outcome'')]"

definition agent_calls :: "env \<Rightarrow> (string \<Rightarrow> string) \<Rightarrow> rat \<Rightarrow> registry_call list list" where
  "agent_calls env a q = [
     incrementAgentRun env (a ''status'') (a ''trigger''),
     observeAgentRunDuration env (a ''status'') q,
     incrementAgentStep env (a ''stepType'') (a ''status''),
     incrementGuardrailOutcome env (a ''guardrailType'') (a ''decision''),
     incrementApprovalRequired env (a ''source''),
     incrementDraftCreated env (a ''source''),
     incrementDraftSent env (a ''source'')]"

definition llm_calls :: "env \<Rightarrow> (string \<Rightarrow> string) \<Rightarrow> rat \<Rightarrow> registry_call list list" where
  "llm_calls env a q = [
     recordLlmCall env (a ''provider'') (a ''model'') (a ''outcome''),
     observeLlmLatency env (a ''provider'') (a ''model'') (a ''outcome'') q,
     incrementLlmFallback env (a ''provider'') (a ''model''),
     incrementKnowledgeRetrieval env (a ''outcome''),
     observeKnowledgeResults env (a ''outcome'') q,
     incrementKnowledgeUsed env (a ''source'')]"

definition shared_calls :: "env \<Rightarrow> (string \<Rightarrow> string) \<Rightarrow> int \<Rightarrow> rat \<Rightarrow> int \<Rightarrow> int \<Rightarrow> int option \<Rightarrow> registry_call list list" where
  "shared_calls env a st q i j k = recordLlmUsage env (a ''provider'') (a ''model'') i j k #
     http_calls env a st q @ queue_calls env a q @ agent_calls env a q @ llm_calls env a q"

text \<open>What only the API counts.\<close>

definition api_calls :: "env \<Rightarrow> (string \<Rightarrow> string) \<Rightarrow> registry_call list list" where
  "api_calls env a = [
     incrementAuthFailure env (a ''flow'') (a ''reason''),
     incrementAuthorizationDenied env,
     incrementAuthRefresh env (a ''outcome''),
     incrementAuthLogin env (a ''outcome''),
     incrementAuthRegistration env (a ''outcome''),
     incrementChannelWebhook env (a ''provider'') (a ''eventType'') (a ''outcome''),
     incrementChannelSignatureFailure env (a ''provider''),
     incrementChannelDuplicateWebhook env (a ''provider''),
     incrementChannelInboundMessage env (a ''provider''),
     incrementChannelConversationCreated env (a ''provider''),
     incrementChannelTicketCreated env (a ''provider''),
     incrementChannelOutboundQueued env (a ''provider'')]"

lemmas method_defs = startHttpRequest_def recordHttpRequest_def recordLlmUsage_def http_calls_def queue_calls_def
  agent_calls_def llm_calls_def api_calls_def
  incrementAuthFailure_def incrementAuthorizationDenied_def incrementAuthRefresh_def
  incrementAuthLogin_def incrementAuthRegistration_def incrementQueueEnqueued_def
  incrementQueueStarted_def incrementQueueCompleted_def incrementQueueFailed_def
  incrementQueueRetried_def observeQueueDuration_def incrementDeadLetter_def incrementAgentRun_def
  observeAgentRunDuration_def incrementAgentStep_def incrementGuardrailOutcome_def
  incrementApprovalRequired_def incrementDraftCreated_def incrementDraftSent_def recordLlmCall_def
  observeLlmLatency_def incrementLlmFallback_def incrementKnowledgeRetrieval_def
  observeKnowledgeResults_def incrementKnowledgeUsed_def incrementChannelWebhook_def
  incrementChannelSignatureFailure_def incrementChannelDuplicateWebhook_def
  incrementChannelInboundMessage_def incrementChannelConversationCreated_def
  incrementChannelTicketCreated_def incrementChannelOutboundQueued_def

lemmas catalogue_defs = http_metrics_def queue_metrics_def agent_metrics_def channel_metrics_def api_metrics_def
  worker_queue_metrics_def worker_llm_metrics_def worker_metrics_def

lemma metered_all [simp]: "list_all P (metered env cs) \<longleftrightarrow> (isMetricsEnabled env \<longrightarrow> list_all P cs)"
  by (simp add: metered_def)

lemma metric_of_new: "metric_of (new_metric k t h ls # cat) key = (if k = key then Some (new_metric k t h ls) else metric_of cat key)"
  by (simp add: metric_of_def new_metric_def)

lemma new_metric_sel: "mt_kind (new_metric k t h ls) = t" "mt_labels (new_metric k t h ls) = ls"
  by (simp_all add: new_metric_def)

lemmas registered_simps = registered_def catalogue_defs metric_of_new new_metric_sel labels_fit_def label_fits_def
  is_histogram_def

text \<open>The names of a catalogue exist and differ: the registry refuses a second metric of one name.\<close>

definition well_named :: "metric list \<Rightarrow> bool" where
  "well_named cat \<longleftrightarrow> list_all (\<lambda>m. mt_name m \<noteq> None) cat \<and> distinct (map mt_name cat)"

lemma names_distinct: "distinct (map fst METRIC_NAMES)" "distinct (map snd METRIC_NAMES)"
  by code_simp+

lemma well_named_sub:
  assumes "subseq (map mt_key cat) (map fst METRIC_NAMES)" "map mt_name cat = map (\<lambda>k. map_of METRIC_NAMES k) (map mt_key cat)"
  shows "well_named cat"
proof -
  have d1: "distinct (map mt_key cat)"
    using subseqs_distinctD [OF _ names_distinct(1)] assms(1) by simp
  have "k \<in> set (map fst METRIC_NAMES)" if "k \<in> set (map mt_key cat)" for k
    using list_emb_set [OF assms(1) that] by metis
  then have d2: "set (map mt_key cat) \<subseteq> dom (map_of METRIC_NAMES)"
    unfolding dom_map_of_conv_image_fst set_map by blast
  have "inj_on (map_of METRIC_NAMES) (dom (map_of METRIC_NAMES))"
  proof (rule inj_onI)
    fix x y assume "x \<in> dom (map_of METRIC_NAMES)" "y \<in> dom (map_of METRIC_NAMES)" "map_of METRIC_NAMES x = map_of METRIC_NAMES y"
    then obtain n where "(x, n) \<in> set METRIC_NAMES" "(y, n) \<in> set METRIC_NAMES"
      by (metis domD map_of_SomeD)
    with names_distinct(2) show "x = y" by (fastforce simp: distinct_map inj_on_def)
  qed
  then have "inj_on (map_of METRIC_NAMES) (set (map mt_key cat))" using d2 by (rule inj_on_subset)
  with d1 have "distinct (map mt_name cat)" unfolding assms(2) by (simp only: distinct_map simp_thms)
  moreover have "mt_name m \<noteq> None" if "m \<in> set cat" for m
  proof -
    have "mt_name m \<in> set (map mt_name cat)" using that by simp
    then show ?thesis unfolding assms(2) using d2 by auto
  qed
  ultimately show ?thesis by (simp add: well_named_def list_all_iff)
qed

lemma catalogues_named: "well_named api_metrics" "well_named worker_metrics"
proof -
  show "well_named api_metrics"
    by (rule well_named_sub) (code_simp, simp add: catalogue_defs new_metric_def)
  show "well_named worker_metrics"
    by (rule well_named_sub) (code_simp, simp add: catalogue_defs new_metric_def)
qed

lemma http_calls_registered:
  "list_all (list_all (registered api_metrics a st)) (http_calls env a st q)"
  "list_all (list_all (registered worker_metrics a st)) (http_calls env a st q)"
  by (simp_all add: method_defs registered_simps Let_def)

lemma queue_calls_registered:
  "list_all (list_all (registered api_metrics a st)) (queue_calls env a q)"
  "list_all (list_all (registered worker_metrics a st)) (queue_calls env a q)"
  by (simp_all add: method_defs registered_simps)

lemma agent_calls_registered:
  "list_all (list_all (registered api_metrics a st)) (agent_calls env a q)"
  "list_all (list_all (registered worker_metrics a st)) (agent_calls env a q)"
  by (simp_all add: method_defs registered_simps)

lemma llm_calls_registered:
  "list_all (list_all (registered api_metrics a st)) (llm_calls env a q)"
  "list_all (list_all (registered worker_metrics a st)) (llm_calls env a q)"
  by (simp_all add: method_defs registered_simps)

lemma usage_registered:
  "list_all (registered api_metrics a st) (recordLlmUsage env (a ''provider'') (a ''model'') i j k)"
  "list_all (registered worker_metrics a st) (recordLlmUsage env (a ''provider'') (a ''model'') i j k)"
  by (cases k; simp add: recordLlmUsage_def registered_simps)+

lemma api_calls_registered: "list_all (list_all (registered api_metrics a st)) (api_calls env a)"
  by (simp add: method_defs registered_simps)

text \<open>Every metric of either service has a name of its own, and whatever its methods are called
  with, each call goes to a metric that the service has registered, of a kind that allows the call, with
  exactly the labels registered for it, in their order: the label of a name carries the argument of that
  name.\<close>

theorem metrics_registered:
  "well_named api_metrics \<and> well_named worker_metrics \<and>
   list_all (list_all (registered api_metrics a st)) (shared_calls env a st q i j k @ api_calls env a) \<and>
   list_all (list_all (registered worker_metrics a st)) (shared_calls env a st q i j k)"
  by (simp add: catalogues_named shared_calls_def http_calls_registered queue_calls_registered
      agent_calls_registered llm_calls_registered usage_registered api_calls_registered)

end
