(* ===== verification/HttpEdge.thy ===== *)
theory HttpEdge
  imports Logger Metrics
begin

text \<open>
  What a service answers and counts at its edge: the exception filters, the interceptor, the health and
  metrics endpoints (\<^verbatim>\<open>observability/\<close> of \<^verbatim>\<open>apps/api\<close> and \<^verbatim>\<open>apps/worker\<close>, \<^verbatim>\<open>health.controller.ts\<close>) and
  \<^verbatim>\<open>packages/observability/src/deployment-metadata.ts\<close>. Time is in milliseconds and given to each
  definition; an HTTP exception is an error with a status, its class is its name.
\<close>

section \<open>The exception filters\<close>

record edge_request =
  eq_routePath :: "string option"
  eq_path :: "string option"
  eq_url :: string
  eq_originalUrl :: "string option"
  eq_method :: "string option"
  eq_correlation :: "string option"

record answer =
  an_status :: int
  an_correlation :: string
  an_body :: json

text \<open>\<^verbatim>\<open>name.replace(/Exception$/, '')\<close>\<close>

definition error_label :: "string \<Rightarrow> string" where
  "error_label name =
     (if drop (length name - 9) name = ''Exception'' then take (length name - 9) name else name)"

definition client_answer :: "ext \<Rightarrow> members option \<Rightarrow> edge_request \<Rightarrow> int \<Rightarrow> js_error \<Rightarrow> answer" where
  "client_answer E context rq now err =
     (let serialized = serializeError E err;
          statusCode = nullish (er_status err) 500;
          errorLabel = (if er_status err \<noteq> None then error_label (er_name err) else ''InternalServerError'');
          clientMessage = (if statusCode \<ge> 500 then ''Internal server error'' else ser_message serialized);
          correlation = nullish2 (Option.bind context (\<lambda>c. j_get_str ''correlationId'' (JObj c))) (eq_correlation rq)
      in \<lparr>an_status = statusCode, an_correlation = nullish correlation [],
          an_body = JObj [(''statusCode'', j_int statusCode), (''error'', JStr errorLabel),
            (''message'', JStr clientMessage), (''correlationId'', j_str correlation),
            (''timestamp'', JStr (x_iso E now)), (''path'', JStr (nullish (eq_originalUrl rq) (eq_url rq)))]\<rparr>)"

definition failure_line ::
  "ext \<Rightarrow> log_site \<Rightarrow> edge_request \<Rightarrow> int \<Rightarrow> string \<Rightarrow> logged_error \<Rightarrow> (stream \<times> string) option" where
  "failure_line E L rq now message err =
     (let serialized = serializeError E (le_error err)
      in child_line log_error E L (spread_members (nullish (ls_context L) [])
           ((''route'', JStr (nullish (nullish2 (eq_routePath rq) (eq_path rq)) (eq_url rq))) #
            j_field ''method'' (map_option JStr (eq_method rq)) @
            [(''statusCode'', j_int (nullish (er_status (le_error err)) 500)),
             (''errorCode'', JStr (ser_errorCode serialized)), (''errorName'', JStr (ser_errorName serialized))]))
           now message (Some err) [])"

definition failure_metrics :: "env \<Rightarrow> js_error \<Rightarrow> registry_call list" where
  "failure_metrics env err =
     (if er_name err = ''UnauthorizedException'' then incrementAuthFailure env ''access'' ''auth_error'' else []) @
     (if er_name err = ''ForbiddenException''
      then incrementAuthorizationDenied env @ incrementAuthFailure env ''authorization'' ''authorization_denied'' else [])"

definition api_catch ::
  "ext \<Rightarrow> log_site \<Rightarrow> edge_request \<Rightarrow> int \<Rightarrow> logged_error \<Rightarrow>
     answer \<times> registry_call list \<times> (stream \<times> string) option" where
  "api_catch E L rq now err =
     (client_answer E (ls_context L) rq now (le_error err), failure_metrics (ls_env L) (le_error err),
      failure_line E L rq now ''HTTP request failed'' err)"

definition worker_catch ::
  "ext \<Rightarrow> log_site \<Rightarrow> edge_request \<Rightarrow> int \<Rightarrow> logged_error \<Rightarrow> answer \<times> (stream \<times> string) option" where
  "worker_catch E L rq now err =
     (client_answer E (ls_context L) rq now (le_error err), failure_line E L rq now ''Worker HTTP request failed'' err)"

section \<open>The interceptor\<close>

text \<open>What it does before the handler and, in \<^verbatim>\<open>finalize\<close>, after it: \<open>statusCode\<close> is the status the
  response has at that moment.\<close>

definition request_route :: "edge_request \<Rightarrow> string" where
  "request_route rq = nullish (nullish2 (eq_routePath rq) (eq_path rq)) (eq_url rq)"

definition intercept_start :: "env \<Rightarrow> edge_request \<Rightarrow> registry_call list" where
  "intercept_start env rq = fst (startHttpRequest env (nullish (eq_method rq) ''GET'') (request_route rq))"

definition intercept_finalize ::
  "ext \<Rightarrow> log_site \<Rightarrow> edge_request \<Rightarrow> int \<Rightarrow> rat \<Rightarrow> int \<Rightarrow> registry_call list \<times> (stream \<times> string) option" where
  "intercept_finalize E L rq now durationMs statusCode =
     (let verb = nullish (eq_method rq) ''GET''; route = request_route rq
      in (snd (startHttpRequest (ls_env L) verb route) @ recordHttpRequest (ls_env L) verb route statusCode durationMs,
          child_line log_info E L (spread_members (nullish (ls_context L) [])
            [(''route'', JStr route), (''method'', JStr verb), (''statusCode'', j_int statusCode),
             (''durationMs'', JNum durationMs)]) now ''HTTP request completed'' None []))"

section \<open>Metrics endpoint\<close>

definition getMetrics :: "env \<Rightarrow> string option \<Rightarrow> string \<Rightarrow> js_error + string" where
  "getMetrics env authorization rendered =
     (if \<not> isMetricsEnabled env then Inl (not_found ''Not Found'')
      else if \<not> isAuthorized env authorization then Inl (unauthorized ''Metrics authentication required'')
      else Inr rendered)"

section \<open>Health\<close>

text \<open>A dependency that is asked: how long it would take and how that ends.\<close>

record probe =
  pb_ms :: int
  pb_result :: "js_error + unit"

record dependency_status =
  ds_up :: bool
  ds_latencyMs :: "int option"
  ds_error :: "string option"

definition withTimeout :: "int \<Rightarrow> probe \<Rightarrow> probe" where
  "withTimeout timeoutMs p =
     (if pb_ms p < timeoutMs then p else \<lparr>pb_ms = timeoutMs, pb_result = Inl (plain_error ''health timeout'')\<rparr>)"

definition toSafeErrorMessage :: "js_error \<Rightarrow> string \<Rightarrow> string" where
  "toSafeErrorMessage err fallback =
     (if \<not> er_isError err then fallback
      else let sanitized = sanitizeString (er_message err) in if trim sanitized \<noteq> [] then sanitized else fallback)"

definition settle :: "string \<Rightarrow> probe \<Rightarrow> dependency_status" where
  "settle fallback p =
     (case pb_result p of
        Inr _ \<Rightarrow> \<lparr>ds_up = True, ds_latencyMs = Some (pb_ms p), ds_error = None\<rparr>
      | Inl e \<Rightarrow> \<lparr>ds_up = False, ds_latencyMs = Some (pb_ms p), ds_error = Some (toSafeErrorMessage e fallback)\<rparr>)"

definition checkPostgres :: "int \<Rightarrow> probe \<Rightarrow> dependency_status" where
  "checkPostgres timeoutMs query = settle ''postgres unavailable'' (withTimeout timeoutMs query)"

definition checkRedis :: "int \<Rightarrow> probe \<Rightarrow> probe \<Rightarrow> dependency_status" where
  "checkRedis timeoutMs connect ping =
     (let c = withTimeout timeoutMs connect; g = withTimeout timeoutMs ping
      in settle ''redis unavailable''
           (case pb_result c of Inl _ \<Rightarrow> c | Inr _ \<Rightarrow> \<lparr>pb_ms = pb_ms c + pb_ms g, pb_result = pb_result g\<rparr>))"

definition checkConfig :: "bool \<Rightarrow> dependency_status" where
  "checkConfig shuttingDown =
     (if shuttingDown then \<lparr>ds_up = False, ds_latencyMs = None, ds_error = Some ''Shutdown in progress''\<rparr>
      else \<lparr>ds_up = True, ds_latencyMs = None, ds_error = None\<rparr>)"

record ready_status =
  rs_ready :: bool
  rs_postgres :: dependency_status
  rs_redis :: dependency_status
  rs_config :: dependency_status

text \<open>The shutdown flag is read when the checks start (\<open>early\<close>) and when they have ended (\<open>late\<close>).\<close>

definition getReadyStatus :: "int \<Rightarrow> probe \<Rightarrow> probe \<Rightarrow> probe \<Rightarrow> bool \<Rightarrow> bool \<Rightarrow> ready_status" where
  "getReadyStatus timeoutMs query connect ping early late =
     (let postgres = checkPostgres timeoutMs query; redis = checkRedis timeoutMs connect ping; config = checkConfig early
      in \<lparr>rs_ready = (ds_up postgres \<and> ds_up redis \<and> ds_up config \<and> \<not> late),
          rs_postgres = postgres, rs_redis = redis, rs_config = config\<rparr>)"

definition getReadyHealth :: "int \<Rightarrow> probe \<Rightarrow> probe \<Rightarrow> probe \<Rightarrow> bool \<Rightarrow> bool \<Rightarrow> js_error + ready_status" where
  "getReadyHealth timeoutMs query connect ping early late =
     (let status = getReadyStatus timeoutMs query connect ping early late
      in if \<not> rs_ready status
         then Inl (http_error ''ServiceUnavailableException'' 503 ''Service Unavailable Exception'') else Inr status)"

definition getLiveStatus :: "ext \<Rightarrow> env \<Rightarrow> string \<Rightarrow> int \<Rightarrow> json" where
  "getLiveStatus E env service now = JObj [(''status'', JStr ''ok''), (''service'', JStr service),
     (''timestamp'', JStr (x_iso E now)), (''version'', JStr (nullish (env ''APP_VERSION'') ''dev'')),
     (''gitSha'', JStr (nullish (env ''GIT_SHA'') ''local''))]"

section \<open>Deployment metadata\<close>

record DeploymentMetadata =
  dm_service :: string
  dm_appVersion :: string
  dm_gitSha :: string
  dm_environment :: string
  dm_buildTimestamp :: string

definition normalizeMetadataValue :: "string option \<Rightarrow> string \<Rightarrow> string" where
  "normalizeMetadataValue value' fallback =
     (let trimmed = map_option trim value' in
      if truthy trimmed \<and> length (the trimmed) \<le> 120 then the trimmed else fallback)"

definition loadDeploymentMetadata :: "string \<Rightarrow> env \<Rightarrow> DeploymentMetadata" where
  "loadDeploymentMetadata service env =
     \<lparr>dm_service = service, dm_appVersion = normalizeMetadataValue (env ''APP_VERSION'') ''dev'',
      dm_gitSha = normalizeMetadataValue (env ''GIT_SHA'') ''local'',
      dm_environment = normalizeMetadataValue (nullish2 (env ''APP_ENV'') (env ''NODE_ENV'')) ''development'',
      dm_buildTimestamp = normalizeMetadataValue (env ''BUILD_TIMESTAMP'') ''unknown''\<rparr>"

section \<open>What the edge gives away\<close>

text \<open>An internal failure tells the client nothing about itself. Two failures with the same status of
  500 or more, or two thrown values that are no HTTP exceptions, get the same answer from either filter,
  whatever their messages, codes and stacks, as long as HTTP exceptions have the same class.\<close>

theorem internal_errors_alike:
  assumes "er_status (le_error e) = er_status (le_error f)"
    and "case er_status (le_error e) of None \<Rightarrow> True | Some st \<Rightarrow> 500 \<le> st \<and> er_name (le_error e) = er_name (le_error f)"
  shows "fst (api_catch E L rq now e) = fst (api_catch E L rq now f) \<and>
    fst (worker_catch E L rq now e) = fst (worker_catch E L rq now f) \<and> 500 \<le> an_status (fst (api_catch E L rq now e))"
  using assms by (cases "er_status (le_error f)") (simp_all add: api_catch_def worker_catch_def client_answer_def Let_def nullish_def)

definition demo_failure :: "string \<Rightarrow> logged_error" where
  "demo_failure m = \<lparr>le_error = plain_error m, le_stack = m, le_cause = None, le_members = []\<rparr>"

definition demo_edge_request :: edge_request where
  "demo_edge_request = \<lparr>eq_routePath = Some ''/tickets/:id'', eq_path = Some ''/tickets/1'', eq_url = ''/tickets/1'',
     eq_originalUrl = None, eq_method = Some ''GET'', eq_correlation = Some ''c''\<rparr>"

theorem internal_errors_alike_witness:
  "fst (api_catch demo_ext demo_log_site demo_edge_request 0 (demo_failure ''relation tickets is missing'')) =
   fst (api_catch demo_ext demo_log_site demo_edge_request 0 (demo_failure ''connection refused''))"
  using internal_errors_alike [of "demo_failure ''relation tickets is missing''" "demo_failure ''connection refused''"
      demo_ext demo_log_site demo_edge_request 0]
  by (simp add: demo_failure_def plain_error_def)

text \<open>A service says that it is ready exactly when the database answers in time, the queue's server
  connects and answers in time, and no shutdown has begun. It says so, or that it is not, within two
  timeouts, however long the dependencies take.\<close>

theorem ready_iff:
  assumes "0 \<le> timeoutMs" "0 \<le> pb_ms query" "0 \<le> pb_ms connect" "0 \<le> pb_ms ping"
  shows "let status = getReadyStatus timeoutMs query connect ping early late in
    (rs_ready status \<longleftrightarrow> pb_ms query < timeoutMs \<and> pb_result query = Inr () \<and>
       pb_ms connect < timeoutMs \<and> pb_result connect = Inr () \<and> pb_ms ping < timeoutMs \<and> pb_result ping = Inr () \<and>
       \<not> early \<and> \<not> late) \<and>
    nullish (ds_latencyMs (rs_postgres status)) 0 \<in> {0..timeoutMs} \<and>
    nullish (ds_latencyMs (rs_redis status)) 0 \<in> {0..2 * timeoutMs}"
proof -
  let ?s = "getReadyStatus timeoutMs query connect ping early late"
  have w: "pb_result (withTimeout timeoutMs p) = Inr () \<longleftrightarrow> pb_ms p < timeoutMs \<and> pb_result p = Inr ()"
    "0 \<le> pb_ms p \<Longrightarrow> 0 \<le> pb_ms (withTimeout timeoutMs p) \<and> pb_ms (withTimeout timeoutMs p) \<le> timeoutMs" for p
    using assms(1) by (auto simp: withTimeout_def)
  have s: "ds_up (settle f p) \<longleftrightarrow> pb_result p = Inr ()" "nullish (ds_latencyMs (settle f p)) 0 = pb_ms p" for f p
    by (auto simp: settle_def nullish_def split: sum.splits)
  have pg: "ds_up (rs_postgres ?s) \<longleftrightarrow> pb_ms query < timeoutMs \<and> pb_result query = Inr ()"
    "nullish (ds_latencyMs (rs_postgres ?s)) 0 \<in> {0..timeoutMs}"
    using w(2) [OF assms(2)] by (simp_all add: getReadyStatus_def checkPostgres_def s w(1) Let_def)
  have rd: "ds_up (rs_redis ?s) \<longleftrightarrow> pb_ms connect < timeoutMs \<and> pb_result connect = Inr () \<and>
      pb_ms ping < timeoutMs \<and> pb_result ping = Inr ()"
    "nullish (ds_latencyMs (rs_redis ?s)) 0 \<in> {0..2 * timeoutMs}"
    using w(2) [OF assms(3)] w(2) [OF assms(4)] w(1) [of connect] w(1) [of ping]
    by (auto simp: getReadyStatus_def checkRedis_def s Let_def split: sum.split)
  have "rs_ready ?s \<longleftrightarrow> ds_up (rs_postgres ?s) \<and> ds_up (rs_redis ?s) \<and> \<not> early \<and> \<not> late"
    by (simp add: getReadyStatus_def checkConfig_def Let_def)
  with pg rd show ?thesis by (simp add: Let_def)
qed

definition demo_probe :: "int \<Rightarrow> probe" where
  "demo_probe t = \<lparr>pb_ms = t, pb_result = Inr ()\<rparr>"

theorem ready_iff_witness:
  "\<not> rs_ready (getReadyStatus 1000 (demo_probe 3) (demo_probe 5000) (demo_probe 1) False False) \<and>
   rs_ready (getReadyStatus 1000 (demo_probe 3) (demo_probe 5) (demo_probe 1) False False)"
  using ready_iff [of 1000 "demo_probe 3" "demo_probe 5000" "demo_probe 1" False False]
    ready_iff [of 1000 "demo_probe 3" "demo_probe 5" "demo_probe 1" False False]
  by (simp add: demo_probe_def Let_def)

text \<open>What a client that asks for readiness sees of a service that is not ready: no more than of any
  failure. The details that \<^verbatim>\<open>getReadyStatus\<close> collects stay inside.\<close>

lemma not_ready_opaque:
  assumes "getReadyHealth timeoutMs query connect ping early late = Inl e"
  shows "er_status e = Some 503" "an_body (client_answer E context rq now e) =
    JObj [(''statusCode'', j_int 503), (''error'', JStr ''ServiceUnavailable''), (''message'', JStr ''Internal server error''),
      (''correlationId'', j_str (nullish2 (Option.bind context (\<lambda>c. j_get_str ''correlationId'' (JObj c))) (eq_correlation rq))),
      (''timestamp'', JStr (x_iso E now)), (''path'', JStr (nullish (eq_originalUrl rq) (eq_url rq)))]"
proof -
  have e: "e = http_error ''ServiceUnavailableException'' 503 ''Service Unavailable Exception''"
    using assms by (auto simp: getReadyHealth_def Let_def split: if_splits)
  then show "er_status e = Some 503" by (simp add: http_error_def)
  have "error_label ''ServiceUnavailableException'' = ''ServiceUnavailable''" by code_simp
  with e show "an_body (client_answer E context rq now e) =
    JObj [(''statusCode'', j_int 503), (''error'', JStr ''ServiceUnavailable''), (''message'', JStr ''Internal server error''),
      (''correlationId'', j_str (nullish2 (Option.bind context (\<lambda>c. j_get_str ''correlationId'' (JObj c))) (eq_correlation rq))),
      (''timestamp'', JStr (x_iso E now)), (''path'', JStr (nullish (eq_originalUrl rq) (eq_url rq)))]"
    by (simp add: client_answer_def http_error_def plain_error_def nullish_def Let_def)
qed

text \<open>Who reads the metrics: with a token configured, only the bearer of exactly that token.\<close>

lemma getMetrics_iff:
  "getMetrics env authorization r = Inr t \<longleftrightarrow> isMetricsEnabled env \<and> t = r \<and>
     (truthy (map_option trim (env ''METRICS_AUTH_TOKEN'')) \<longrightarrow>
        authorization = Some (''Bearer '' @ trim (the (env ''METRICS_AUTH_TOKEN''))))"
  by (cases "env ''METRICS_AUTH_TOKEN''") (auto simp: getMetrics_def isAuthorized_def Let_def)

text \<open>A request moves the gauge of active requests up once and down once, on the same labels.\<close>

fun gauge :: "string \<Rightarrow> string list \<Rightarrow> registry_call list \<Rightarrow> rat" where
  "gauge key vs [] = 0"
| "gauge key vs (Inc k ws q # cs) = (if k = key \<and> ws = vs then q else 0) + gauge key vs cs"
| "gauge key vs (Dec k ws # cs) = (if k = key \<and> ws = vs then - 1 else 0) + gauge key vs cs"
| "gauge key vs (Observe k ws q # cs) = gauge key vs cs"

lemma request_gauge:
  "gauge ''httpActiveRequests'' vs (intercept_start (ls_env L) rq @ fst (intercept_finalize E L rq now d st)) = 0"
  by (simp add: intercept_start_def intercept_finalize_def startHttpRequest_def recordHttpRequest_def metered_def Let_def)

end
