(* ===== verification/Routes.thy ===== *)
theory Routes
  imports Steps Access HttpEdge
begin

text \<open>
  The controllers of the API (\<^verbatim>\<open>*.controller.ts\<close>). Those of an organisation's data stand behind
  the three guards of \<open>Auth\<close>: a method first authorises its caller for the roles it names and then
  calls its service with the organisation of the membership found, never with one that the caller sends.
  The bodies and queries are what the validation pipe of the framework lets through, as values of the types
  the DTO classes declare.
\<close>

section \<open>Methods behind the guards\<close>

definition READ_ORG_ROLES :: "OrganizationRole list" where
  "READ_ORG_ROLES = [OrganizationRole.OWNER, OrganizationRole.ADMIN, OrganizationRole.AGENT, OrganizationRole.VIEWER]"

definition guarded ::
  "ext \<Rightarrow> auth_config \<Rightarrow> OrganizationRole list \<Rightarrow> request \<Rightarrow>
   (access_payload \<Rightarrow> tenant_membership \<Rightarrow> 'a act) \<Rightarrow> 'a act" where
  "guarded E A roles rq handler =
     bind_x (authorize E A roles rq) (\<lambda>(user, organization). handler user organization)"

subsection \<open>Tickets\<close>

definition TicketsController_listTickets ::
  "ext \<Rightarrow> auth_config \<Rightarrow> request \<Rightarrow> ticket_summary list act" where
  "TicketsController_listTickets E A rq =
     guarded E A READ_ORG_ROLES rq (\<lambda>user org. listTickets (tm_organizationId org))"

definition TicketsController_getTicket ::
  "ext \<Rightarrow> auth_config \<Rightarrow> request \<Rightarrow> string \<Rightarrow> ticket_detail act" where
  "TicketsController_getTicket E A rq ticketId =
     guarded E A READ_ORG_ROLES rq (\<lambda>user org. getTicketDetail ticketId (tm_organizationId org))"

definition TicketsController_getTicketApprovals ::
  "ext \<Rightarrow> auth_config \<Rightarrow> request \<Rightarrow> string \<Rightarrow> (human_approval \<times> outbound_draft option) list act" where
  "TicketsController_getTicketApprovals E A rq ticketId =
     guarded E A READ_ORG_ROLES rq (\<lambda>user org. getTicketApprovals ticketId (tm_organizationId org))"

definition TicketsController_getTicketDrafts ::
  "ext \<Rightarrow> auth_config \<Rightarrow> request \<Rightarrow> string \<Rightarrow> (outbound_draft \<times> human_approval list) list act" where
  "TicketsController_getTicketDrafts E A rq ticketId =
     guarded E A READ_ORG_ROLES rq (\<lambda>user org. listDrafts ticketId (tm_organizationId org))"

definition TicketsController_getTicketAgentSteps ::
  "ext \<Rightarrow> auth_config \<Rightarrow> request \<Rightarrow> string \<Rightarrow> agent_step list act" where
  "TicketsController_getTicketAgentSteps E A rq ticketId =
     guarded E A READ_ORG_ROLES rq (\<lambda>user org. getAgentSteps ticketId (tm_organizationId org))"

definition TicketsController_getTicketGuardrails ::
  "ext \<Rightarrow> auth_config \<Rightarrow> request \<Rightarrow> string \<Rightarrow> guardrail_check list act" where
  "TicketsController_getTicketGuardrails E A rq ticketId =
     guarded E A READ_ORG_ROLES rq (\<lambda>user org. getTicketGuardrails ticketId (tm_organizationId org))"

definition TicketsController_getTicketRetrievals ::
  "ext \<Rightarrow> auth_config \<Rightarrow> request \<Rightarrow> string \<Rightarrow> knowledge_retrieval list act" where
  "TicketsController_getTicketRetrievals E A rq ticketId =
     guarded E A READ_ORG_ROLES rq (\<lambda>user org. getRetrievals ticketId (tm_organizationId org))"

definition TicketsController_createTicket ::
  "ext \<Rightarrow> auth_config \<Rightarrow> request \<Rightarrow> create_ticket_dto \<Rightarrow> (string \<times> string) act" where
  "TicketsController_createTicket E A rq dto =
     guarded E A MUTATING_ORG_ROLES rq (\<lambda>user org. createTicket E dto (tm_organizationId org) (tm_organizationSlug org) (ap_sub user))"

definition TicketsController_updateTicketStatus ::
  "ext \<Rightarrow> auth_config \<Rightarrow> request \<Rightarrow> string \<Rightarrow> TicketStatus \<Rightarrow> ticket act" where
  "TicketsController_updateTicketStatus E A rq ticketId status =
     guarded E A MUTATING_ORG_ROLES rq (\<lambda>user org. updateTicketStatus E ticketId (tm_organizationId org) status)"

definition TicketsController_updateTicketPriority ::
  "ext \<Rightarrow> auth_config \<Rightarrow> request \<Rightarrow> string \<Rightarrow> TicketPriority \<Rightarrow> ticket act" where
  "TicketsController_updateTicketPriority E A rq ticketId priority =
     guarded E A MUTATING_ORG_ROLES rq (\<lambda>user org. updateTicketPriority E ticketId (tm_organizationId org) priority)"

definition TicketsController_createTicketDraft ::
  "ext \<Rightarrow> auth_config \<Rightarrow> request \<Rightarrow> string \<Rightarrow> string \<Rightarrow> outbound_draft act" where
  "TicketsController_createTicketDraft E A rq ticketId body =
     guarded E A MUTATING_ORG_ROLES rq (\<lambda>user org. createManualDraft E ticketId (tm_organizationId org) body (ap_sub user))"

subsection \<open>Timeline and channels of a ticket\<close>

definition TicketsTimelineController_getTimeline ::
  "ext \<Rightarrow> auth_config \<Rightarrow> request \<Rightarrow> string \<Rightarrow> timeline_entry list act" where
  "TicketsTimelineController_getTimeline E A rq ticketId =
     guarded E A READ_ORG_ROLES rq (\<lambda>user org. getTimeline ticketId (tm_organizationId org))"

definition ChannelTicketController_getConversation ::
  "ext \<Rightarrow> auth_config \<Rightarrow> request \<Rightarrow> string \<Rightarrow> conversation_view option act" where
  "ChannelTicketController_getConversation E A rq ticketId =
     guarded E A READ_ORG_ROLES rq (\<lambda>user org. getTicketConversation E (tm_organizationId org) ticketId)"

definition ChannelTicketController_listMessages ::
  "ext \<Rightarrow> auth_config \<Rightarrow> request \<Rightarrow> string \<Rightarrow> (external_message \<times> message_attachment list) list act" where
  "ChannelTicketController_listMessages E A rq ticketId =
     guarded E A READ_ORG_ROLES rq (\<lambda>user org. listTicketMessages (tm_organizationId org) ticketId)"

definition ChannelTicketController_listOutboundMessages ::
  "ext \<Rightarrow> auth_config \<Rightarrow> request \<Rightarrow> string \<Rightarrow> (outbound_message \<times> delivery_attempt list) list act" where
  "ChannelTicketController_listOutboundMessages E A rq ticketId =
     guarded E A READ_ORG_ROLES rq (\<lambda>user org. listTicketOutboundMessages (tm_organizationId org) ticketId)"

subsection \<open>Drafts and approvals\<close>

definition DraftsController_getDraft ::
  "ext \<Rightarrow> auth_config \<Rightarrow> request \<Rightarrow> string \<Rightarrow> (outbound_draft \<times> human_approval list) act" where
  "DraftsController_getDraft E A rq draftId =
     guarded E A READ_ORG_ROLES rq (\<lambda>user org. getDraftDetail draftId (tm_organizationId org))"

definition DraftsController_updateDraft ::
  "ext \<Rightarrow> auth_config \<Rightarrow> request \<Rightarrow> string \<Rightarrow> string \<Rightarrow> outbound_draft act" where
  "DraftsController_updateDraft E A rq draftId body =
     guarded E A MUTATING_ORG_ROLES rq (\<lambda>user org. editDraft E draftId (tm_organizationId org) body)"

definition DraftsController_sendDraft ::
  "ext \<Rightarrow> auth_config \<Rightarrow> request \<Rightarrow> string \<Rightarrow> (outbound_draft \<times> ticket_message) act" where
  "DraftsController_sendDraft E A rq draftId =
     guarded E A MUTATING_ORG_ROLES rq (\<lambda>user org. sendDraft E draftId (tm_organizationId org) (ap_sub user))"

definition ApprovalsController_createApproval ::
  "ext \<Rightarrow> auth_config \<Rightarrow> request \<Rightarrow> string \<Rightarrow> string option \<Rightarrow> string option \<Rightarrow> human_approval act" where
  "ApprovalsController_createApproval E A rq ticketId agentRunId proposedResponse =
     guarded E A MUTATING_ORG_ROLES rq (\<lambda>user org. createApproval E ticketId agentRunId proposedResponse (tm_organizationId org))"

definition ApprovalsController_updateApproval ::
  "ext \<Rightarrow> auth_config \<Rightarrow> request \<Rightarrow> string \<Rightarrow> ApprovalStatus \<Rightarrow> string option \<Rightarrow> human_approval act" where
  "ApprovalsController_updateApproval E A rq approvalId status reviewerNote =
     guarded E A MUTATING_ORG_ROLES rq (\<lambda>user org. updateApproval E approvalId status reviewerNote (tm_organizationId org) (ap_sub user))"

subsection \<open>Settings and knowledge\<close>

definition OrgsController_getSettings ::
  "ext \<Rightarrow> auth_config \<Rightarrow> request \<Rightarrow> org_settings act" where
  "OrgsController_getSettings E A rq =
     guarded E A READ_ORG_ROLES rq (\<lambda>user org. getOrCreateOrganizationSettings E (tm_organizationId org))"

definition OrgsController_updateSettings ::
  "ext \<Rightarrow> auth_config \<Rightarrow> request \<Rightarrow> settings_dto \<Rightarrow> org_settings act" where
  "OrgsController_updateSettings E A rq dto =
     guarded E A MANAGE_ORG_ROLES rq (\<lambda>user org. updateSettings E dto (tm_organizationId org))"

definition KnowledgeController_createArticle ::
  "ext \<Rightarrow> auth_config \<Rightarrow> request \<Rightarrow> string \<Rightarrow> string \<Rightarrow> string list option \<Rightarrow> KnowledgeArticleStatus option \<Rightarrow> knowledge_article act" where
  "KnowledgeController_createArticle E A rq title body tags status =
     guarded E A MANAGE_ORG_ROLES rq (\<lambda>user org. createArticle E title body tags status (tm_organizationId org))"

definition KnowledgeController_listArticles ::
  "ext \<Rightarrow> auth_config \<Rightarrow> request \<Rightarrow> KnowledgeArticleStatus option \<Rightarrow> string option \<Rightarrow> knowledge_article list act" where
  "KnowledgeController_listArticles E A rq status q =
     guarded E A READ_ORG_ROLES rq (\<lambda>user org. listArticles status q (tm_organizationId org))"

definition KnowledgeController_getArticle ::
  "ext \<Rightarrow> auth_config \<Rightarrow> request \<Rightarrow> string \<Rightarrow> knowledge_article act" where
  "KnowledgeController_getArticle E A rq articleId =
     guarded E A READ_ORG_ROLES rq (\<lambda>user org. getArticle articleId (tm_organizationId org))"

definition KnowledgeController_updateArticle ::
  "ext \<Rightarrow> auth_config \<Rightarrow> request \<Rightarrow> string \<Rightarrow> article_dto \<Rightarrow> knowledge_article act" where
  "KnowledgeController_updateArticle E A rq articleId dto =
     guarded E A MANAGE_ORG_ROLES rq (\<lambda>user org. updateArticle E articleId dto (tm_organizationId org))"

definition KnowledgeController_archiveArticle ::
  "ext \<Rightarrow> auth_config \<Rightarrow> request \<Rightarrow> string \<Rightarrow> knowledge_article act" where
  "KnowledgeController_archiveArticle E A rq articleId =
     guarded E A MANAGE_ORG_ROLES rq (\<lambda>user org. archiveArticle E articleId (tm_organizationId org))"

definition KnowledgeController_search ::
  "ext \<Rightarrow> auth_config \<Rightarrow> request \<Rightarrow> string \<Rightarrow> nat option \<Rightarrow> search_result list act" where
  "KnowledgeController_search E A rq query limit =
     guarded E A READ_ORG_ROLES rq (\<lambda>user org. search_articles query limit (tm_organizationId org))"

subsection \<open>Channel connections and outbound messages\<close>

definition ChannelsController_listConnections ::
  "ext \<Rightarrow> auth_config \<Rightarrow> request \<Rightarrow> safe_connection list act" where
  "ChannelsController_listConnections E A rq =
     guarded E A READ_ORG_ROLES rq (\<lambda>user org. listConnections E (tm_organizationId org))"

definition ChannelsController_createConnection ::
  "ext \<Rightarrow> auth_config \<Rightarrow> request \<Rightarrow> create_connection_dto \<Rightarrow> safe_connection act" where
  "ChannelsController_createConnection E A rq dto =
     guarded E A MANAGE_ORG_ROLES rq (\<lambda>user org. createConnection E (tm_organizationId org) dto (Some (ap_sub user)))"

definition ChannelsController_getConnection ::
  "ext \<Rightarrow> auth_config \<Rightarrow> request \<Rightarrow> string \<Rightarrow> safe_connection act" where
  "ChannelsController_getConnection E A rq connectionId =
     guarded E A READ_ORG_ROLES rq (\<lambda>user org. getConnection E (tm_organizationId org) connectionId)"

definition ChannelsController_updateConnection ::
  "ext \<Rightarrow> auth_config \<Rightarrow> request \<Rightarrow> string \<Rightarrow> update_connection_dto \<Rightarrow> safe_connection act" where
  "ChannelsController_updateConnection E A rq connectionId dto =
     guarded E A MANAGE_ORG_ROLES rq (\<lambda>user org. updateConnection E (tm_organizationId org) connectionId dto (Some (ap_sub user)))"

definition ChannelsController_disableConnection ::
  "ext \<Rightarrow> auth_config \<Rightarrow> request \<Rightarrow> string \<Rightarrow> safe_connection act" where
  "ChannelsController_disableConnection E A rq connectionId =
     guarded E A MANAGE_ORG_ROLES rq (\<lambda>user org. setConnectionEnabled E (tm_organizationId org) connectionId False (Some (ap_sub user)))"

definition ChannelsController_enableConnection ::
  "ext \<Rightarrow> auth_config \<Rightarrow> request \<Rightarrow> string \<Rightarrow> safe_connection act" where
  "ChannelsController_enableConnection E A rq connectionId =
     guarded E A MANAGE_ORG_ROLES rq (\<lambda>user org. setConnectionEnabled E (tm_organizationId org) connectionId True (Some (ap_sub user)))"

definition ChannelsController_testConnection ::
  "ext \<Rightarrow> auth_config \<Rightarrow> request \<Rightarrow> string \<Rightarrow> (bool \<times> ChannelProvider \<times> json) act" where
  "ChannelsController_testConnection E A rq connectionId =
     guarded E A MANAGE_ORG_ROLES rq (\<lambda>user org. testConnection E (tm_organizationId org) connectionId (Some (ap_sub user)))"

definition OutboundMessagesController_getOutboundMessage ::
  "ext \<Rightarrow> auth_config \<Rightarrow> request \<Rightarrow> string \<Rightarrow> (outbound_message \<times> delivery_attempt list) act" where
  "OutboundMessagesController_getOutboundMessage E A rq outboundMessageId =
     guarded E A READ_ORG_ROLES rq (\<lambda>user org. getOutboundMessage (tm_organizationId org) outboundMessageId)"

definition OutboundMessagesController_replayOutboundMessage ::
  "ext \<Rightarrow> auth_config \<Rightarrow> request \<Rightarrow> string \<Rightarrow> (outbound_message \<times> delivery_attempt list) act" where
  "OutboundMessagesController_replayOutboundMessage E A rq outboundMessageId =
     guarded E A MANAGE_ORG_ROLES rq (\<lambda>user org. replayOutboundMessage E (tm_organizationId org) outboundMessageId (ap_sub user))"

definition OutboundMessagesController_cancelOutboundMessage ::
  "ext \<Rightarrow> auth_config \<Rightarrow> request \<Rightarrow> string \<Rightarrow> outbound_message act" where
  "OutboundMessagesController_cancelOutboundMessage E A rq outboundMessageId =
     guarded E A MANAGE_ORG_ROLES rq (\<lambda>user org. cancelOutboundMessage E (tm_organizationId org) outboundMessageId (ap_sub user))"

subsection \<open>Operations\<close>

definition OperationsController_getSummary ::
  "ext \<Rightarrow> auth_config \<Rightarrow> request \<Rightarrow> operations_summary act" where
  "OperationsController_getSummary E A rq =
     guarded E A READ_ORG_ROLES rq (\<lambda>user org. getSummary (tm_organizationId org))"

definition OperationsController_listRuns ::
  "ext \<Rightarrow> auth_config \<Rightarrow> request \<Rightarrow> runs_query \<Rightarrow> (agent_run \<times> ticket option) list act" where
  "OperationsController_listRuns E A rq query =
     guarded E A READ_ORG_ROLES rq (\<lambda>user org. listRuns (tm_organizationId org) query)"

definition OperationsController_getRun ::
  "ext \<Rightarrow> auth_config \<Rightarrow> request \<Rightarrow> string \<Rightarrow> (agent_run \<times> agent_step list \<times> ticket option \<times> ticket_message option) act" where
  "OperationsController_getRun E A rq runId =
     guarded E A READ_ORG_ROLES rq (\<lambda>user org. getRun (tm_organizationId org) runId)"

definition OperationsController_listFailures ::
  "ext \<Rightarrow> auth_config \<Rightarrow> request \<Rightarrow> failures_query \<Rightarrow> operational_failure list act" where
  "OperationsController_listFailures E A rq query =
     guarded E A READ_ORG_ROLES rq (\<lambda>user org. listFailures (tm_organizationId org) query)"

definition OperationsController_getFailure ::
  "ext \<Rightarrow> auth_config \<Rightarrow> request \<Rightarrow> string \<Rightarrow> operational_failure act" where
  "OperationsController_getFailure E A rq failureId =
     guarded E A READ_ORG_ROLES rq (\<lambda>user org. getFailure (tm_organizationId org) failureId)"

definition OperationsController_replayFailure ::
  "ext \<Rightarrow> auth_config \<Rightarrow> request \<Rightarrow> string \<Rightarrow> replay_result act" where
  "OperationsController_replayFailure E A rq failureId =
     guarded E A MANAGE_ORG_ROLES rq (\<lambda>user org. replayFailure E (tm_organizationId org) failureId (ap_sub user))"

definition OperationsController_resolveFailure ::
  "ext \<Rightarrow> auth_config \<Rightarrow> request \<Rightarrow> string \<Rightarrow> string \<Rightarrow> operational_failure act" where
  "OperationsController_resolveFailure E A rq failureId note =
     guarded E A MANAGE_ORG_ROLES rq (\<lambda>user org. resolveFailure E (tm_organizationId org) failureId (ap_sub user) note)"

definition OperationsController_searchAudit ::
  "ext \<Rightarrow> auth_config \<Rightarrow> request \<Rightarrow> audit_query \<Rightarrow> audit_event list act" where
  "OperationsController_searchAudit E A rq query =
     guarded E A READ_ORG_ROLES rq (\<lambda>user org. searchAudit E (tm_organizationId org) query)"

text \<open>The export is the one method that writes the response itself.\<close>

definition OperationsController_exportAudit ::
  "ext \<Rightarrow> auth_config \<Rightarrow> request \<Rightarrow> audit_query \<Rightarrow> ((string \<times> string) list \<times> string) act" where
  "OperationsController_exportAudit E A rq query =
     guarded E A READ_ORG_ROLES rq (\<lambda>user org.
       bind_x (exportAuditCsv E (tm_organizationId org) query) (\<lambda>csv.
         ret_x ([(''content-type'', ''text/csv; charset=utf-8''),
                 (''content-disposition'', ''attachment; filename=\"operations-audit.csv\"'')], csv)))"

section \<open>Methods without the guards\<close>

text \<open>\<^verbatim>\<open>getRequestMetadata\<close> reads the headers and the address of the connection.\<close>

record client =
  cl_headers :: "string \<Rightarrow> string option"
  cl_ip :: "string option"

definition getRequestMetadata :: "client \<Rightarrow> request_metadata" where
  "getRequestMetadata k = \<lparr>md_userAgent = cl_headers k ''user-agent'', md_ipAddress = cl_ip k\<rparr>"

definition AuthController_register ::
  "ext \<Rightarrow> auth_config \<Rightarrow> passwords \<Rightarrow> register_dto \<Rightarrow> client \<Rightarrow> auth_response act" where
  "AuthController_register E A P dto k = register E A P dto (getRequestMetadata k)"

definition AuthController_login ::
  "ext \<Rightarrow> auth_config \<Rightarrow> passwords \<Rightarrow> limiter \<Rightarrow> string \<Rightarrow> string \<Rightarrow> client \<Rightarrow> auth_response act" where
  "AuthController_login E A P L email password k = login E A P L email password (getRequestMetadata k)"

definition AuthController_refresh :: "ext \<Rightarrow> auth_config \<Rightarrow> string \<Rightarrow> client \<Rightarrow> auth_response act" where
  "AuthController_refresh E A token k = refresh E A token (getRequestMetadata k)"

definition AuthController_logout :: "ext \<Rightarrow> auth_config \<Rightarrow> string \<Rightarrow> unit act" where
  "AuthController_logout E A token = logout E A token"

definition AuthController_me :: "ext \<Rightarrow> auth_config \<Rightarrow> request \<Rightarrow> me_response act" where
  "AuthController_me E A rq = bind_x (jwt_guard E A rq) (\<lambda>user. getMe (ap_sub user))"

text \<open>A webhook carries no token: its signature is checked by \<open>ingestWebhook\<close>, over the bytes that
  the body parser keeps for these paths.\<close>

definition ChannelWebhooksController_receiveWebhook ::
  "ext \<Rightarrow> string \<Rightarrow> string option \<Rightarrow> string option \<Rightarrow> json \<Rightarrow> string option \<Rightarrow> webhook_response act" where
  "ChannelWebhooksController_receiveWebhook E connectionPublicId signature contentType payload rawBody =
     (case contentType of
        None \<Rightarrow> throw_x (http_error ''UnsupportedMediaTypeException'' 415 ''Webhook payload must be JSON'')
      | Some t \<Rightarrow>
          if \<not> starts_with ''application/json'' (to_lower t)
          then throw_x (http_error ''UnsupportedMediaTypeException'' 415 ''Webhook payload must be JSON'')
          else ingestWebhook E connectionPublicId payload signature rawBody)"

definition QueueController_enqueueHello :: "ext \<Rightarrow> string act" where
  "QueueController_enqueueHello E =
     (if x_env E ''NODE_ENV'' = Some ''production'' then throw_x (not_found ''Not Found'')
      else queue_add E \<lparr>qc_queue = SUPPORT_QUEUE_NAME, qc_name = ''hello'',
        qc_payload = JObj [(''msg'', JStr ''hello from api'')], qc_jobId = None, qc_delay = None\<rparr>)"

section \<open>One call of the guarded API\<close>

datatype api_call =
    Tickets_list
  | Tickets_get string
  | Tickets_approvals string
  | Tickets_drafts string
  | Tickets_agent_steps string
  | Tickets_guardrails string
  | Tickets_retrievals string
  | Tickets_create create_ticket_dto
  | Tickets_status string TicketStatus
  | Tickets_priority string TicketPriority
  | Tickets_draft string string
  | Tickets_timeline string
  | Tickets_conversation string
  | Tickets_channel_messages string
  | Tickets_outbound_messages string
  | Drafts_get string
  | Drafts_update string string
  | Drafts_send string
  | Approvals_create string "string option" "string option"
  | Approvals_update string ApprovalStatus "string option"
  | Orgs_settings
  | Orgs_update_settings settings_dto
  | Articles_create string string "string list option" "KnowledgeArticleStatus option"
  | Articles_list "KnowledgeArticleStatus option" "string option"
  | Articles_get string
  | Articles_update string article_dto
  | Articles_archive string
  | Articles_search string "nat option"
  | Connections_list
  | Connections_create create_connection_dto
  | Connections_get string
  | Connections_update string update_connection_dto
  | Connections_disable string
  | Connections_enable string
  | Connections_test string
  | Outbound_get string
  | Outbound_replay string
  | Outbound_cancel string
  | Operations_summary
  | Operations_runs runs_query
  | Operations_run string
  | Operations_failures failures_query
  | Operations_failure string
  | Operations_replay string
  | Operations_resolve string string
  | Operations_audit audit_query
  | Operations_export audit_query

definition answered :: "'a act \<Rightarrow> unit act" where
  "answered m = bind_x m (\<lambda>_. ret_x ())"

primrec api_serve :: "ext \<Rightarrow> auth_config \<Rightarrow> request \<Rightarrow> api_call \<Rightarrow> unit act" where
  "api_serve E A rq Tickets_list = answered (TicketsController_listTickets E A rq)"
| "api_serve E A rq (Tickets_get ticketId) = answered (TicketsController_getTicket E A rq ticketId)"
| "api_serve E A rq (Tickets_approvals ticketId) = answered (TicketsController_getTicketApprovals E A rq ticketId)"
| "api_serve E A rq (Tickets_drafts ticketId) = answered (TicketsController_getTicketDrafts E A rq ticketId)"
| "api_serve E A rq (Tickets_agent_steps ticketId) = answered (TicketsController_getTicketAgentSteps E A rq ticketId)"
| "api_serve E A rq (Tickets_guardrails ticketId) = answered (TicketsController_getTicketGuardrails E A rq ticketId)"
| "api_serve E A rq (Tickets_retrievals ticketId) = answered (TicketsController_getTicketRetrievals E A rq ticketId)"
| "api_serve E A rq (Tickets_create dto) = answered (TicketsController_createTicket E A rq dto)"
| "api_serve E A rq (Tickets_status ticketId status) = answered (TicketsController_updateTicketStatus E A rq ticketId status)"
| "api_serve E A rq (Tickets_priority ticketId priority) = answered (TicketsController_updateTicketPriority E A rq ticketId priority)"
| "api_serve E A rq (Tickets_draft ticketId body) = answered (TicketsController_createTicketDraft E A rq ticketId body)"
| "api_serve E A rq (Tickets_timeline ticketId) = answered (TicketsTimelineController_getTimeline E A rq ticketId)"
| "api_serve E A rq (Tickets_conversation ticketId) = answered (ChannelTicketController_getConversation E A rq ticketId)"
| "api_serve E A rq (Tickets_channel_messages ticketId) = answered (ChannelTicketController_listMessages E A rq ticketId)"
| "api_serve E A rq (Tickets_outbound_messages ticketId) = answered (ChannelTicketController_listOutboundMessages E A rq ticketId)"
| "api_serve E A rq (Drafts_get draftId) = answered (DraftsController_getDraft E A rq draftId)"
| "api_serve E A rq (Drafts_update draftId body) = answered (DraftsController_updateDraft E A rq draftId body)"
| "api_serve E A rq (Drafts_send draftId) = answered (DraftsController_sendDraft E A rq draftId)"
| "api_serve E A rq (Approvals_create ticketId agentRunId proposedResponse) = answered (ApprovalsController_createApproval E A rq ticketId agentRunId proposedResponse)"
| "api_serve E A rq (Approvals_update approvalId status reviewerNote) = answered (ApprovalsController_updateApproval E A rq approvalId status reviewerNote)"
| "api_serve E A rq Orgs_settings = answered (OrgsController_getSettings E A rq)"
| "api_serve E A rq (Orgs_update_settings dto) = answered (OrgsController_updateSettings E A rq dto)"
| "api_serve E A rq (Articles_create title body tags status) = answered (KnowledgeController_createArticle E A rq title body tags status)"
| "api_serve E A rq (Articles_list status q) = answered (KnowledgeController_listArticles E A rq status q)"
| "api_serve E A rq (Articles_get articleId) = answered (KnowledgeController_getArticle E A rq articleId)"
| "api_serve E A rq (Articles_update articleId dto) = answered (KnowledgeController_updateArticle E A rq articleId dto)"
| "api_serve E A rq (Articles_archive articleId) = answered (KnowledgeController_archiveArticle E A rq articleId)"
| "api_serve E A rq (Articles_search query limit) = answered (KnowledgeController_search E A rq query limit)"
| "api_serve E A rq Connections_list = answered (ChannelsController_listConnections E A rq)"
| "api_serve E A rq (Connections_create dto) = answered (ChannelsController_createConnection E A rq dto)"
| "api_serve E A rq (Connections_get connectionId) = answered (ChannelsController_getConnection E A rq connectionId)"
| "api_serve E A rq (Connections_update connectionId dto) = answered (ChannelsController_updateConnection E A rq connectionId dto)"
| "api_serve E A rq (Connections_disable connectionId) = answered (ChannelsController_disableConnection E A rq connectionId)"
| "api_serve E A rq (Connections_enable connectionId) = answered (ChannelsController_enableConnection E A rq connectionId)"
| "api_serve E A rq (Connections_test connectionId) = answered (ChannelsController_testConnection E A rq connectionId)"
| "api_serve E A rq (Outbound_get outboundMessageId) = answered (OutboundMessagesController_getOutboundMessage E A rq outboundMessageId)"
| "api_serve E A rq (Outbound_replay outboundMessageId) = answered (OutboundMessagesController_replayOutboundMessage E A rq outboundMessageId)"
| "api_serve E A rq (Outbound_cancel outboundMessageId) = answered (OutboundMessagesController_cancelOutboundMessage E A rq outboundMessageId)"
| "api_serve E A rq Operations_summary = answered (OperationsController_getSummary E A rq)"
| "api_serve E A rq (Operations_runs query) = answered (OperationsController_listRuns E A rq query)"
| "api_serve E A rq (Operations_run runId) = answered (OperationsController_getRun E A rq runId)"
| "api_serve E A rq (Operations_failures query) = answered (OperationsController_listFailures E A rq query)"
| "api_serve E A rq (Operations_failure failureId) = answered (OperationsController_getFailure E A rq failureId)"
| "api_serve E A rq (Operations_replay failureId) = answered (OperationsController_replayFailure E A rq failureId)"
| "api_serve E A rq (Operations_resolve failureId note) = answered (OperationsController_resolveFailure E A rq failureId note)"
| "api_serve E A rq (Operations_audit query) = answered (OperationsController_searchAudit E A rq query)"
| "api_serve E A rq (Operations_export query) = answered (OperationsController_exportAudit E A rq query)"

lemmas controller_defs =
  TicketsController_listTickets_def TicketsController_getTicket_def
  TicketsController_getTicketApprovals_def TicketsController_getTicketDrafts_def
  TicketsController_getTicketAgentSteps_def TicketsController_getTicketGuardrails_def
  TicketsController_getTicketRetrievals_def TicketsController_createTicket_def
  TicketsController_updateTicketStatus_def TicketsController_updateTicketPriority_def
  TicketsController_createTicketDraft_def TicketsTimelineController_getTimeline_def
  ChannelTicketController_getConversation_def ChannelTicketController_listMessages_def
  ChannelTicketController_listOutboundMessages_def DraftsController_getDraft_def
  DraftsController_updateDraft_def DraftsController_sendDraft_def
  ApprovalsController_createApproval_def ApprovalsController_updateApproval_def
  OrgsController_getSettings_def OrgsController_updateSettings_def
  KnowledgeController_createArticle_def KnowledgeController_listArticles_def
  KnowledgeController_getArticle_def KnowledgeController_updateArticle_def
  KnowledgeController_archiveArticle_def KnowledgeController_search_def
  ChannelsController_listConnections_def ChannelsController_createConnection_def
  ChannelsController_getConnection_def ChannelsController_updateConnection_def
  ChannelsController_disableConnection_def ChannelsController_enableConnection_def
  ChannelsController_testConnection_def OutboundMessagesController_getOutboundMessage_def
  OutboundMessagesController_replayOutboundMessage_def
  OutboundMessagesController_cancelOutboundMessage_def OperationsController_getSummary_def
  OperationsController_listRuns_def OperationsController_getRun_def
  OperationsController_listFailures_def OperationsController_getFailure_def
  OperationsController_replayFailure_def OperationsController_resolveFailure_def
  OperationsController_searchAudit_def OperationsController_exportAudit_def

text \<open>The roles that a call asks for, in one table.\<close>

definition managing :: "api_call \<Rightarrow> bool" where
  "managing c \<longleftrightarrow> (case c of
     Orgs_update_settings _ \<Rightarrow> True | Articles_create _ _ _ _ \<Rightarrow> True | Articles_update _ _ \<Rightarrow> True
   | Articles_archive _ \<Rightarrow> True | Connections_create _ \<Rightarrow> True | Connections_update _ _ \<Rightarrow> True
   | Connections_disable _ \<Rightarrow> True | Connections_enable _ \<Rightarrow> True | Connections_test _ \<Rightarrow> True
   | Outbound_replay _ \<Rightarrow> True | Outbound_cancel _ \<Rightarrow> True | Operations_replay _ \<Rightarrow> True
   | Operations_resolve _ _ \<Rightarrow> True | _ \<Rightarrow> False)"

definition changing :: "api_call \<Rightarrow> bool" where
  "changing c \<longleftrightarrow> managing c \<or> (case c of
     Tickets_create _ \<Rightarrow> True | Tickets_status _ _ \<Rightarrow> True | Tickets_priority _ _ \<Rightarrow> True
   | Tickets_draft _ _ \<Rightarrow> True | Drafts_update _ _ \<Rightarrow> True | Drafts_send _ \<Rightarrow> True
   | Approvals_create _ _ _ \<Rightarrow> True | Approvals_update _ _ _ \<Rightarrow> True | _ \<Rightarrow> False)"

definition required :: "api_call \<Rightarrow> OrganizationRole list" where
  "required c = (if managing c then MANAGE_ORG_ROLES else if changing c then MUTATING_ORG_ROLES else READ_ORG_ROLES)"

lemma answered_guarded: "answered (guarded E A roles rq h) = guarded E A roles rq (\<lambda>u g. answered (h u g))"
  by (auto simp: fun_eq_iff answered_def guarded_def run_simps split: sum.split prod.split)

lemma api_serve_guarded: "\<exists>h. api_serve E A rq c = guarded E A (required c) rq h"
  by (cases c) (auto simp: controller_defs answered_guarded required_def changing_def managing_def)

section \<open>What a call may change\<close>

definition caller :: "ext \<Rightarrow> auth_config \<Rightarrow> request \<Rightarrow> world \<Rightarrow> tenant_membership \<Rightarrow> bool" where
  "caller E A rq w m \<longleftrightarrow> (\<exists>h p t. rq_authorization rq = Some (''Bearer '' @ h) \<and>
     fst (verifyAccessToken E A (trim h) w) = Inr p \<and> rq_organizationId rq = Some t \<and>
     member (db w) (ap_sub p) (trim t) m)"

lemma trimmed_header: "trim_or v [] \<noteq> [] \<Longrightarrow> \<exists>t. v = Some t \<and> trim_or v [] = trim t"
  by (cases v) (simp_all add: trim_or_def str_or_def split: if_splits)

lemma guarded_caller:
  assumes "db_ok (db w)" "db (snd (guarded E A roles rq h w)) \<noteq> db w" "roles \<noteq> []"
  shows "\<exists>m. caller E A rq w m \<and> tm_role m \<in> set roles"
proof (cases "fst (authorize E A roles rq w)")
  case (Inl e)
  then show ?thesis using assms(2) authorize_spec [OF assms(1)] by (simp add: guarded_def run_simps)
next
  case (Inr a)
  then obtain p m where "fst (authorize E A roles rq w) = Inr (p, m)" by (cases a) simp
  then show ?thesis
    using authorize_spec [OF assms(1), of E A roles rq p m] assms(3) trimmed_header [of "rq_organizationId rq"]
    unfolding caller_def by fastforce
qed

abbreviation still :: "db \<Rightarrow> world \<Rightarrow> bool" where
  "still d \<equiv> on_db (\<lambda>d'. d' = d)"

lemma guarded_still [preserve_rules]:
  "(\<And>p m. preserves (still d) (h p m)) \<Longrightarrow> preserves (still d) (guarded E A roles rq h)"
  unfolding guarded_def authorize_def jwt_guard_def tenant_guard_def roles_guard_def resolveTenantMembership_def
    verifyAccessToken_def verifyToken_def Let_def
  by (intro preserve_rules)

lemma readers_keep [preserve_rules]:
  "preserves (on_db J) (getTicketOrThrow ticketId orgId)" "preserves (on_db J) (listTickets orgId)"
  "preserves (on_db J) (getTicketApprovals ticketId orgId)" "preserves (on_db J) (listDrafts ticketId orgId)"
  "preserves (on_db J) (getTicketGuardrails ticketId orgId)" "preserves (on_db J) (getRetrievals ticketId orgId)"
  "preserves (on_db J) (getTimeline ticketId orgId)" "preserves (on_db J) (getDraftDetail draftId orgId)"
  "preserves (on_db J) (getTicketConversation E orgId ticketId)"
  "preserves (on_db J) (listTicketMessages orgId ticketId)"
  "preserves (on_db J) (listTicketOutboundMessages orgId ticketId)"
  "preserves (on_db J) (listArticles status q orgId)" "preserves (on_db J) (search_articles term limit orgId)"
  "preserves (on_db J) (listConnections E orgId)" "preserves (on_db J) (getSummary orgId)"
  "preserves (on_db J) (listRuns orgId runs)" "preserves (on_db J) (getRun orgId runId)"
  "preserves (on_db J) (listFailures orgId fq)" "preserves (on_db J) (getFailure orgId failureId)"
  unfolding getTicketOrThrow_def listTickets_def getTicketApprovals_def listDrafts_def getTicketGuardrails_def
    getRetrievals_def getTimeline_def getDraftDetail_def getTicketConversation_def listTicketMessages_def
    listTicketOutboundMessages_def listArticles_def search_articles_def listConnections_def getSummary_def
    listRuns_def getRun_def listFailures_def getFailure_def Let_def
  by (intro preserve_rules)+

lemma assembled_keep [preserve_rules]:
  "preserves (on_db J) (getTicketDetail ticketId orgId)" "preserves (on_db J) (getAgentSteps ticketId orgId)"
  "preserves (on_db J) (searchAudit E orgId aq)" "preserves (on_db J) (exportAuditCsv E orgId aq)"
  unfolding getTicketDetail_def getAgentSteps_def exportAuditCsv_def searchAudit_def Let_def
  by (auto intro!: preserve_rules split: list.split)

lemma reads_still:
  assumes "\<not> changing c" "c \<noteq> Orgs_settings"
  shows "preserves (still d) (api_serve E A rq c)"
  using assms
  by (cases c)
    (simp_all add: changing_def managing_def controller_defs answered_def, (intro preserve_rules)+)

text \<open>C3: Who can change anything through the guarded API. Whenever a call, with whatever arguments, leaves
  another database behind, the request carried a bearer token that verifies, of an active user who is a member
  of the organisation its header names; that member is not a viewer, unless the call reads the settings (the one
  reading method that writes: it creates the settings when there are none), and is an owner or an
  administrator where the call manages settings, knowledge, connections, outbound messages or
  failures.\<close>

theorem role_limits:
  assumes "db_ok (db w)" "db (snd (api_serve E A rq c w)) \<noteq> db w"
  shows "\<exists>h p t m. rq_authorization rq = Some (''Bearer '' @ h) \<and> fst (verifyAccessToken E A (trim h) w) = Inr p \<and>
    rq_organizationId rq = Some t \<and> member (db w) (ap_sub p) (trim t) m \<and>
    (c = Orgs_settings \<or> tm_role m \<noteq> OrganizationRole.VIEWER) \<and>
    (managing c \<longrightarrow> tm_role m \<in> {OrganizationRole.OWNER, OrganizationRole.ADMIN})"
proof -
  obtain h where h: "api_serve E A rq c = guarded E A (required c) rq h"
    using api_serve_guarded by blast
  have some: "required c \<noteq> []"
    by (simp add: required_def MANAGE_ORG_ROLES_def MUTATING_ORG_ROLES_def READ_ORG_ROLES_def)
  obtain m where m: "caller E A rq w m" "tm_role m \<in> set (required c)"
    using guarded_caller [OF assms(1) assms(2) [unfolded h] some] by blast
  have "changing c \<or> c = Orgs_settings"
    using reads_still [of c "db w" E A rq] assms(2) by (auto simp: preserves_def on_db_def)
  then show ?thesis
    using m unfolding caller_def
    by (fastforce simp: required_def changing_def MANAGE_ORG_ROLES_def MUTATING_ORG_ROLES_def split: if_splits)
qed


definition demo_owner :: world where
  "demo_owner = demo_tenant\<lparr>db := (db demo_tenant)\<lparr>organizationMemberships := [blank_membership\<lparr>mb_id := ''m'',
     mb_userId := ''u'', mb_organizationId := ''o'', mb_role := OrganizationRole.OWNER\<rparr>]\<rparr>\<rparr>"

lemma demo_owner_ok: "db_ok (db demo_owner)"
  by (simp add: demo_owner_def demo_tenant_def demo_world_def db_ok_def timeline_ok_def ticket_events_def no_clash_def
    empty_db_def table_defs)

lemma demo_owner_caller:
  "\<exists>v p m. authorize demo_ext demo_auth MANAGE_ORG_ROLES demo_request demo_owner = (Inr (p, m), v) \<and> db v = db demo_owner"
proof -
  have "fst (verifyAccessToken demo_ext demo_auth demo_access demo_owner) =
      fst (verifyAccessToken demo_ext demo_auth demo_access demo_tenant)"
    by (auto simp: verifyAccessToken_def verifyToken_def run_simps demo_owner_def split: sum.split)
  moreover have "trim_or (Some ''o'') [] = ''o''" by code_simp
  ultimately have "fst (authorize demo_ext demo_auth MANAGE_ORG_ROLES demo_request demo_owner) =
      Inr (\<lparr>ap_sub = ''u'', ap_email = ''e''\<rparr>, \<lparr>tm_membershipId = ''m'', tm_organizationId = ''o'',
        tm_organizationSlug = ''acme'', tm_organizationName = ''Acme'', tm_role = OrganizationRole.OWNER\<rparr>)"
    using demo_access_ok
    by (subst authorize_spec [OF demo_owner_ok, THEN conjunct1])
      (simp_all add: demo_request_def demo_access_trim member_def MANAGE_ORG_ROLES_def demo_owner_def demo_tenant_def
        demo_world_def empty_db_def blank_user_def blank_organization_def blank_membership_def)
  then show ?thesis
    using authorize_spec [OF demo_owner_ok, THEN conjunct2] by (metis prod.collapse)
qed

theorem role_limits_witness:
  "\<exists>h p t m. rq_authorization demo_request = Some (''Bearer '' @ h) \<and>
    fst (verifyAccessToken demo_ext demo_auth (trim h) demo_owner) = Inr p \<and>
    rq_organizationId demo_request = Some t \<and> member (db demo_owner) (ap_sub p) (trim t) m \<and>
    (Articles_create ''t'' ''b'' None None = Orgs_settings \<or> tm_role m \<noteq> OrganizationRole.VIEWER) \<and>
    (managing (Articles_create ''t'' ''b'' None None) \<longrightarrow>
      tm_role m \<in> {OrganizationRole.OWNER, OrganizationRole.ADMIN})"
proof (rule role_limits [OF demo_owner_ok])
  obtain v p m where v: "authorize demo_ext demo_auth MANAGE_ORG_ROLES demo_request demo_owner = (Inr (p, m), v)"
     "db v = db demo_owner"
    using demo_owner_caller by blast
  have none: "knowledgeArticles (db demo_owner) = []"
    by (simp add: demo_owner_def demo_tenant_def demo_world_def empty_db_def)
  have "knowledgeArticles (db (snd (api_serve demo_ext demo_auth demo_request
      (Articles_create ''t'' ''b'' None None) demo_owner))) \<noteq> []"
    by (simp add: KnowledgeController_createArticle_def createArticle_def answered_def guarded_def run_simps v insert_row_def
      knowledgeArticle_t_def none)
  with none show "db (snd (api_serve demo_ext demo_auth demo_request (Articles_create ''t'' ''b'' None None) demo_owner)) \<noteq>
      db demo_owner"
    by auto
qed

end
