(* ===== verification/Tenancy.thy ===== *)
theory Tenancy
  imports Routes
begin

text \<open>
  Organisations side by side in one database: what a call of the guarded API (\<open>Routes\<close>) leaves
  untouched. \<open>foreign\<close> cuts the rows of one organisation out of a database; a table whose rows
  have an owner is the locale \<open>owned_table\<close>, in which every write through a delegate that stays with the
  organisation's own rows is shown to leave \<open>foreign\<close> as it was.
\<close>

section \<open>The rows of others\<close>

text \<open>Every table that a call of the guarded API may write is reduced to the rows of other organisations;
  the remaining tables stay whole.\<close>

definition foreign :: "string \<Rightarrow> db \<Rightarrow> db" where
  "foreign org d = d\<lparr>
     tickets := filter (\<lambda>r. tk_orgId r \<noteq> org) (tickets d),
     ticketMessages := filter (\<lambda>r. tm_orgId r \<noteq> org) (ticketMessages d),
     agentRuns := filter (\<lambda>r. run_orgId r \<noteq> org) (agentRuns d),
     agentEvents := filter (\<lambda>r. ev_orgId r \<noteq> org) (agentEvents d),
     organizationSettings := filter (\<lambda>r. os_orgId r \<noteq> org) (organizationSettings d),
     humanApprovals := filter (\<lambda>r. ap_orgId r \<noteq> org) (humanApprovals d),
     outboundDrafts := filter (\<lambda>r. dr_orgId r \<noteq> org) (outboundDrafts d),
     operationalFailures := filter (\<lambda>r. of_organizationId r \<noteq> Some org) (operationalFailures d),
     channelConnections := filter (\<lambda>r. cc_organizationId r \<noteq> org) (channelConnections d),
     knowledgeArticles := filter (\<lambda>r. ka_orgId r \<noteq> org) (knowledgeArticles d),
     outboundMessages := filter (\<lambda>r. om_organizationId r \<noteq> org) (outboundMessages d),
     channelAuditEvents := filter (\<lambda>r. ca_organizationId r \<noteq> org) (channelAuditEvents d)\<rparr>"

lemma others_update_where:
  assumes "\<And>x. x \<in> set xs \<Longrightarrow> Q x \<Longrightarrow> \<not> P x" "\<And>x. x \<in> set xs \<Longrightarrow> P x \<Longrightarrow> \<not> Q x \<Longrightarrow> \<not> Q (f x)"
  shows "filter Q (update_where P f xs) = filter Q xs"
  using assms by (induction xs) (auto simp: update_where_def)

definition ids_apart :: "'r table \<Rightarrow> db \<Rightarrow> string \<Rightarrow> bool" where
  "ids_apart T X k \<longleftrightarrow> (\<forall>s \<in> set (t_get T X). t_id T s \<noteq> k)"

locale owned_table = prisma_table T for T :: "'r table" +
  fixes owner :: "'r \<Rightarrow> string option" and org :: string and others :: "db \<Rightarrow> db"
  assumes others_get: "t_get T (others d) = filter (\<lambda>r. owner r \<noteq> Some org) (t_get T d)"
    and others_map: "filter (\<lambda>r. owner r \<noteq> Some org) (f (t_get T d)) = filter (\<lambda>r. owner r \<noteq> Some org) (t_get T d) \<Longrightarrow>
      others (t_map T f d) = others d"
    and touch_owner: "owner (t_touch T n r) = owner r"
begin

abbreviation apart :: "db \<Rightarrow> world \<Rightarrow> bool" where
  "apart X \<equiv> on_db (\<lambda>d. others d = X)"

lemma create_apart:
  "(\<And>i now. owner (mk i now) = Some org) \<Longrightarrow> preserves (apart X) (create_row E T mk)"
  by (rule preserves_create) (simp add: others_map)

lemma written_apart:
  assumes "\<And>s. s \<in> set (t_get T (others d)) \<Longrightarrow> \<not> P s" "\<And>r. owner (f r) = owner r"
  shows "others (t_map T (update_where P (\<lambda>r. t_touch T now (f r))) d) = others d"
  by (rule others_map, rule others_update_where) (use assms in \<open>auto simp: others_get touch_owner\<close>)

lemma update_apart:
  assumes "\<And>r s. P r \<Longrightarrow> s \<in> set (t_get T X) \<Longrightarrow> t_id T s \<noteq> t_id T r" "\<And>r. owner (f r) = owner r"
  shows "preserves (apart X) (update_row E T P f)"
proof (rule preserves_update)
  fix d r now assume d: "others d = X" "first_where P (t_get T d) = Some r"
  have "t_id T s \<noteq> t_id T r" if "s \<in> set (t_get T (others d))" for s
    using that assms(1) [of r s] d first_where_Some [OF d(2)] by blast
  with written_apart [OF _ assms(2), of d "\<lambda>s. t_id T s = t_id T r" now] d(1)
  show "others (t_map T (update_where (\<lambda>s. t_id T s = t_id T r) (\<lambda>r. t_touch T now (f r))) d) = X" by blast
qed

lemma update_many_apart:
  assumes "\<And>s. s \<in> set (t_get T X) \<Longrightarrow> \<not> P s" "\<And>r. owner (f r) = owner r"
  shows "preserves (apart X) (update_many E T P f)"
proof (rule preserves_update_many)
  fix d now assume "others d = X"
  then show "others (t_map T (update_where P (\<lambda>r. t_touch T now (f r))) d) = X"
    using written_apart [of d P f now] assms by simp
qed

lemma upsert_apart:
  assumes "\<And>i now. owner (mk i now) = Some org"
  shows "preserves (apart X) (upsert_row E T P None mk)"
proof (rule preserves_upsert)
  show "preserves (apart X) (create_row E T mk)" by (rule create_apart) (rule assms)
qed simp

text \<open>No row of another organisation has the id of an own row.\<close>

lemma own_id:
  assumes "no_clash T d" "r \<in> set (t_get T d)" "owner r = Some org"
  shows "ids_apart T (others d) (t_id T r)"
proof -
  have "t_id T s \<noteq> t_id T r" if "s \<in> set (t_get T d)" "owner s \<noteq> Some org" for s
    using that no_clash_pair [OF assms(1) _ assms(2)] clash_id assms(3) by blast
  then show ?thesis by (simp add: ids_apart_def others_get)
qed

text \<open>An update of the row that belongs to the organisation, found in this world.\<close>

lemma update_own_apart:
  assumes "no_clash T (db w)" "\<And>r. P r \<Longrightarrow> owner r = Some org" "\<And>r. owner (f r) = owner r"
  shows "others (db (snd (update_row E T P f w))) = others (db w)"
proof (cases "first_where P (t_get T (db w))")
  case (Some r)
  then have r: "r \<in> set (t_get T (db w))" "owner r = Some org"
    using first_where_Some [OF Some] assms(2) [of r] by simp_all
  show ?thesis
    by (auto simp: Some run_simps replace_row_def intro!: written_apart assms(3)
      dest: own_id [OF assms(1) r, unfolded ids_apart_def, rule_format])
qed (simp add: run_simps replace_row_def)

end

interpretation ticket_ow: owned_table ticket_t "\<lambda>r. Some (tk_orgId r)" org "foreign org" for org
  by unfold_locales (simp_all add: foreign_def ticket_t_def)

interpretation ticketMessage_ow: owned_table ticketMessage_t "\<lambda>r. Some (tm_orgId r)" org "foreign org" for org
  by unfold_locales (simp_all add: foreign_def ticketMessage_t_def)

interpretation agentRun_ow: owned_table agentRun_t "\<lambda>r. Some (run_orgId r)" org "foreign org" for org
  by unfold_locales (simp_all add: foreign_def agentRun_t_def)

interpretation agentEvent_ow: owned_table agentEvent_t "\<lambda>r. Some (ev_orgId r)" org "foreign org" for org
  by unfold_locales (simp_all add: foreign_def agentEvent_t_def)

interpretation settings_ow: owned_table organizationSettings_t "\<lambda>r. Some (os_orgId r)" org "foreign org" for org
  by unfold_locales (simp_all add: foreign_def organizationSettings_t_def)

interpretation approval_ow: owned_table humanApproval_t "\<lambda>r. Some (ap_orgId r)" org "foreign org" for org
  by unfold_locales (simp_all add: foreign_def humanApproval_t_def)

interpretation draft_ow: owned_table outboundDraft_t "\<lambda>r. Some (dr_orgId r)" org "foreign org" for org
  by unfold_locales (simp_all add: foreign_def outboundDraft_t_def)

interpretation failure_ow: owned_table operationalFailure_t of_organizationId org "foreign org" for org
  by unfold_locales (simp_all add: foreign_def operationalFailure_t_def)

interpretation connection_ow: owned_table channelConnection_t "\<lambda>r. Some (cc_organizationId r)" org "foreign org" for org
  by unfold_locales (simp_all add: foreign_def channelConnection_t_def)

interpretation article_ow: owned_table knowledgeArticle_t "\<lambda>r. Some (ka_orgId r)" org "foreign org" for org
  by unfold_locales (simp_all add: foreign_def knowledgeArticle_t_def)

interpretation message_ow: owned_table outboundMessage_t "\<lambda>r. Some (om_organizationId r)" org "foreign org" for org
  by unfold_locales (simp_all add: foreign_def outboundMessage_t_def)

interpretation audit_ow: owned_table channelAuditEvent_t "\<lambda>r. Some (ca_organizationId r)" org "foreign org" for org
  by unfold_locales (simp_all add: foreign_def channelAuditEvent_t_def)

section \<open>What the services write\<close>

abbreviation apart :: "string \<Rightarrow> db \<Rightarrow> world \<Rightarrow> bool" where
  "apart org X \<equiv> on_db (\<lambda>d. foreign org d = X)"

named_theorems apart_rules \<open>writes that stay with the rows of one organisation\<close>

lemmas apart_creates [apart_rules] =
  ticket_ow.create_apart ticketMessage_ow.create_apart agentRun_ow.create_apart agentEvent_ow.create_apart
  settings_ow.create_apart approval_ow.create_apart draft_ow.create_apart failure_ow.create_apart
  connection_ow.create_apart article_ow.create_apart message_ow.create_apart audit_ow.create_apart

lemmas apart_upserts [apart_rules] = settings_ow.upsert_apart message_ow.upsert_apart

lemmas apart_updates [apart_rules] =
  ticket_ow.update_apart approval_ow.update_apart draft_ow.update_apart failure_ow.update_apart
  connection_ow.update_apart article_ow.update_apart message_ow.update_apart

lemmas apart_updates_many [apart_rules] =
  approval_ow.update_many_apart draft_ow.update_many_apart failure_ow.update_many_apart

lemma append_apart [apart_rules]:
  "preserves (apart org X) (append_event_with E c org ticketId runId ty payload)"
  "preserves (apart org X) (append_event E org ticketId runId ty payload)"
  "preserves (apart org X) (su_appendTimelineEvent E org ticketId ty payload runId)"
  "preserves (apart org X) (ch_appendTimelineEvent E org ticketId ty payload runId)"
  unfolding su_appendTimelineEvent_def ch_appendTimelineEvent_def append_event_def append_event_with_def
  by (intro preserve_rules agentEvent_ow.create_apart; simp)+

lemma audit_apart [apart_rules]:
  "preserves (apart org X) (create_audit E org actor action ty i note)"
  "preserves (apart org X) (recordChannelAudit E org actor action i note)"
  unfolding recordChannelAudit_def create_audit_def
  by (intro preserve_rules audit_ow.create_apart; simp)+

lemma creations_apart [apart_rules]:
  "preserves (apart org X) (createTicket E dto org slug u)"
  "preserves (apart org X) (getOrCreateOrganizationSettings E org)"
  "preserves (apart org X) (createArticle E title body tags st org)"
  "preserves (apart org X) (createConnection E org cdto actor)"
  unfolding createTicket_def createTicket_tx_def getOrCreateOrganizationSettings_def createArticle_def createConnection_def
  by (intro preserve_rules apart_rules; simp)+

text \<open>A service first reads a row of the organisation and then writes; what is read holds of the database
  it starts in.\<close>

definition stays :: "string \<Rightarrow> 'a act \<Rightarrow> world \<Rightarrow> bool" where
  "stays org m w \<longleftrightarrow> foreign org (db (snd (m w))) = foreign org (db w)"

lemma stays_preserves: "preserves (apart org (foreign org (db w))) m \<Longrightarrow> stays org m w"
  by (auto simp: stays_def preserves_def on_db_def)

lemma stays_bind:
  assumes "db (snd (m w)) = db w" "\<And>a. fst (m w) = Inr a \<Longrightarrow> preserves (apart org (foreign org (db w))) (k a)"
  shows "stays org (bind_x m k) w"
  using assms by (cases "fst (m w)") (auto simp: stays_def run_simps preserves_def on_db_def)

lemma stays_then:
  assumes "db (snd (m w)) = db w" "\<And>a. fst (m w) = Inr a \<Longrightarrow> preserves (apart org (foreign org (db w))) k"
  shows "stays org (then_x m k) w"
  using assms by (cases "fst (m w)") (auto simp: stays_def run_simps preserves_def on_db_def)

lemma keys:
  assumes "db_ok d"
  shows "no_clash ticket_t d" "no_clash outboundDraft_t d" "no_clash humanApproval_t d" "no_clash knowledgeArticle_t d"
    "no_clash channelConnection_t d" "no_clash outboundMessage_t d" "no_clash operationalFailure_t d"
    "no_clash organizationSettings_t d"
  using assms by (simp_all add: db_ok_def)

text \<open>What the first read of a service tells of the row it found.\<close>

lemma read_ticket:
  assumes "db_ok (db w)" "fst (assertTicketAccess i org w) = Inr t"
  shows "ids_apart ticket_t (foreign org (db w)) i"
  using assms ticket_ow.own_id [OF keys(1) [OF assms(1)]]
  by (fastforce simp: assertTicketAccess_def own_ticket_def run_simps ticket_t_def split: option.splits dest!: first_where_Some)

lemma read_draft:
  assumes "db_ok (db w)" "fst (getDraftOrThrow i org w) = Inr found"
  shows "ids_apart outboundDraft_t (foreign org (db w)) i" "fst found \<in> set (outboundDrafts (db w))"
    "dr_orgId (fst found) = org"
  using assms draft_ow.own_id [OF keys(2) [OF assms(1)]]
  by (fastforce simp: getDraftOrThrow_def run_simps outboundDraft_t_def split: option.splits dest!: first_where_Some)+

lemma read_approval:
  assumes "db_ok (db w)" "fst (getApprovalOrThrow i org w) = Inr a"
  shows "ids_apart humanApproval_t (foreign org (db w)) (ap_id a)" "a \<in> set (humanApprovals (db w))" "ap_orgId a = org"
  using assms approval_ow.own_id [OF keys(3) [OF assms(1)]]
  by (fastforce simp: getApprovalOrThrow_def run_simps humanApproval_t_def split: option.splits dest!: first_where_Some)+

lemma read_article:
  assumes "db_ok (db w)" "fst (getArticle i org w) = Inr a"
  shows "ids_apart knowledgeArticle_t (foreign org (db w)) (ka_id a)"
  using assms article_ow.own_id [OF keys(4) [OF assms(1)]]
  by (fastforce simp: getArticle_def own_article_def run_simps knowledgeArticle_t_def split: option.splits dest!: first_where_Some)

lemma read_connection:
  assumes "db_ok (db w)"
  shows "fst (getConnection E org i w) = Inr c \<Longrightarrow> ids_apart channelConnection_t (foreign org (db w)) i"
    "fst (find_first channelConnection_t (own_connection org i) w) = Inr (Some k) \<Longrightarrow>
       ids_apart channelConnection_t (foreign org (db w)) (cc_id k)"
  using connection_ow.own_id [OF keys(5) [OF assms]]
  by (fastforce simp: getConnection_def own_connection_def run_simps channelConnection_t_def split: option.splits
    dest!: first_where_Some)+

lemma read_message:
  assumes "db_ok (db w)" "fst (getOutboundMessage org i w) = Inr found"
  shows "ids_apart outboundMessage_t (foreign org (db w)) (om_id (fst found))"
  using assms message_ow.own_id [OF keys(6) [OF assms(1)]]
  by (fastforce simp: getOutboundMessage_def own_outbound_def run_simps outboundMessage_t_def split: option.splits
    dest!: first_where_Some)

lemma read_failure:
  assumes "db_ok (db w)" "fst (getFailure org i w) = Inr f"
  shows "ids_apart operationalFailure_t (foreign org (db w)) (of_id f)" "of_id f = i"
  using assms failure_ow.own_id [OF keys(7) [OF assms(1)]]
  by (fastforce simp: getFailure_def run_simps operationalFailure_t_def split: option.splits dest!: first_where_Some)+

lemma reads_same:
  "db (snd (assertTicketAccess i org w)) = db w" "db (snd (getDraftOrThrow i org w)) = db w"
  "db (snd (getApprovalOrThrow i org w)) = db w" "db (snd (getArticle i org w)) = db w"
  "db (snd (getConnection E org i w)) = db w" "db (snd (find_first T P w)) = db w"
  "db (snd (getOutboundMessage org i w)) = db w" "db (snd (getFailure org i w)) = db w"
  by (auto simp: assertTicketAccess_def getDraftOrThrow_def getApprovalOrThrow_def getArticle_def getConnection_def
    getOutboundMessage_def getFailure_def run_simps split: option.split)

lemmas ids_simps = ids_apart_def ticket_t_def outboundDraft_t_def humanApproval_t_def knowledgeArticle_t_def
  channelConnection_t_def outboundMessage_t_def operationalFailure_t_def

lemma ticket_changes_stay:
  assumes "db_ok (db w)"
  shows "stays org (updateTicketStatus E i org status) w" "stays org (updateTicketPriority E i org priority) w"
    "stays org (createManualDraft E i org body u) w" "stays org (createApproval E i run proposed org) w"
  unfolding updateTicketStatus_def updateTicketPriority_def createManualDraft_def createApproval_def
  by (rule stays_then stays_bind, rule reads_same,
      (intro preserve_rules apart_rules; use read_ticket [OF assms] in \<open>auto simp: ids_simps\<close>))+

lemma article_changes_stay:
  assumes "db_ok (db w)"
  shows "stays org (updateArticle E i adto org) w" "stays org (archiveArticle E i org) w"
  unfolding updateArticle_def archiveArticle_def
  by (rule stays_bind, rule reads_same,
      (intro preserve_rules apart_rules; use read_article [OF assms] in \<open>auto simp: ids_simps edit_article_def\<close>))+

lemma preserves_require_bind:
  "(\<And>x. v = Some x \<Longrightarrow> preserves I (k x)) \<Longrightarrow> preserves I (bind_x (require_x v e) k)"
  by (cases v) (auto simp: preserves_def run_simps)

lemma connection_changes_stay:
  assumes "db_ok (db w)"
  shows "stays org (updateConnection E org i udto actor) w" "stays org (setConnectionEnabled E org i enabled actor) w"
    "stays org (testConnection E org i actor) w"
proof -
  show "stays org (updateConnection E org i udto actor) w" "stays org (setConnectionEnabled E org i enabled actor) w"
    unfolding updateConnection_def setConnectionEnabled_def
    by (rule stays_then, rule reads_same,
        (intro preserve_rules apart_rules; use read_connection(1) [OF assms] in \<open>auto simp: ids_simps\<close>))+
  show "stays org (testConnection E org i actor) w"
    unfolding testConnection_def Let_def
    by (rule stays_bind, rule reads_same, rule preserves_require_bind)
      (intro preserve_rules apart_rules; use read_connection(2) [OF assms] in \<open>auto simp: ids_apart_def channelConnection_t_def\<close>)
qed

lemma enqueue_apart:
  "ids_apart outboundMessage_t X i \<Longrightarrow> preserves (apart org X) (enqueueDelivery E i)"
  unfolding enqueueDelivery_def by (intro preserve_rules apart_rules; auto simp: ids_simps)

lemma message_changes_stay:
  assumes "db_ok (db w)"
  shows "stays org (replayOutboundMessage E org i u) w" "stays org (cancelOutboundMessage E org i u) w"
  unfolding replayOutboundMessage_def cancelOutboundMessage_def replay_tx_def cancel_tx_def Let_def
  by (rule stays_bind, rule reads_same,
      (intro preserve_rules apart_rules enqueue_apart;
       use read_message [OF assms] in \<open>auto simp: ids_simps replay_message_def cancel_message_def\<close>))+

lemma failure_changes_stay:
  assumes "db_ok (db w)"
  shows "stays org (replayFailure E org i u) w" "stays org (resolveFailure E org i u note) w"
  unfolding replayFailure_def replay_read_def replay_enqueue_def release_replay_def replay_ticket_def find_when_def
    duplicate_replay_def resolveFailure_def Let_def
  by (rule stays_bind, rule reads_same,
      (intro preserve_rules apart_rules; use read_failure [OF assms] in \<open>auto simp: ids_simps\<close>))+

lemma settings_changes_stay:
  assumes "db_ok (db w)"
  shows "stays org (updateSettings E sdto org) w"
proof -
  let ?v = "snd (getOrCreateOrganizationSettings E org w)"
  have "foreign org (db ?v) = foreign org (db w)"
    using stays_preserves [OF creations_apart(2)] by (simp add: stays_def)
  moreover have "db_ok (db ?v)"
    using settings_db_ok(1) assms by (simp add: preserves_def on_db_def)
  then have "foreign org (db (snd (update_row E organizationSettings_t (\<lambda>s. os_orgId s = org) (edit_settings sdto) ?v))) =
      foreign org (db ?v)"
    by (intro settings_ow.update_own_apart keys) (simp_all add: edit_settings_def)
  ultimately show ?thesis
    by (cases "fst (getOrCreateOrganizationSettings E org w)") (simp_all add: stays_def updateSettings_def run_simps)
qed

section \<open>References within an organisation\<close>

text \<open>Three references that the schema does not constrain to one organisation: the ticket of a draft, the
  draft of an approval, and the outbound message with the key of that draft.\<close>

definition local_refs :: "string \<Rightarrow> db \<Rightarrow> bool" where
  "local_refs org d \<longleftrightarrow>
     (\<forall>x \<in> set (outboundDrafts d). dr_orgId x = org \<longrightarrow>
        (\<forall>t \<in> set (tickets d). tk_id t = dr_ticketId x \<longrightarrow> tk_orgId t = org)) \<and>
     (\<forall>a \<in> set (humanApprovals d). ap_orgId a = org \<longrightarrow>
        (\<forall>x \<in> set (outboundDrafts d). ap_outboundDraftId a = Some (dr_id x) \<longrightarrow> dr_orgId x = org) \<and>
        (\<forall>m \<in> set (outboundMessages d). \<forall>i. ap_outboundDraftId a = Some i \<and> om_idempotencyKey m = draft_key i \<longrightarrow>
           om_organizationId m = org))"

lemma foreign_rows:
  "t \<in> set (tickets (foreign org d)) \<longleftrightarrow> t \<in> set (tickets d) \<and> tk_orgId t \<noteq> org"
  "x \<in> set (outboundDrafts (foreign org d)) \<longleftrightarrow> x \<in> set (outboundDrafts d) \<and> dr_orgId x \<noteq> org"
  "m \<in> set (outboundMessages (foreign org d)) \<longleftrightarrow> m \<in> set (outboundMessages d) \<and> om_organizationId m \<noteq> org"
  by (auto simp: foreign_def)

lemma draft_changes_stay:
  assumes "db_ok (db w)" "local_refs org (db w)"
  shows "stays org (editDraft E i org body) w" "stays org (sendDraft E i org u) w"
proof -
  have ticket: "ids_apart ticket_t (foreign org (db w)) (dr_ticketId (fst found))"
    if "fst (getDraftOrThrow i org w) = Inr found" for found
    using read_draft [OF assms(1) that] assms(2) by (auto simp: local_refs_def ids_apart_def ticket_t_def foreign_rows)
  show "stays org (editDraft E i org body) w" "stays org (sendDraft E i org u) w"
    unfolding editDraft_def edit_tx_def sendDraft_def send_tx_def
    by (rule stays_bind, rule reads_same,
        (intro preserve_rules apart_rules;
         use read_draft(1) [OF assms(1)] ticket in \<open>auto simp: ids_simps mark_sent_def foreign_rows\<close>))+
qed

text \<open>The outbound message of an approved draft: its key names the draft, so it is a row of the organisation,
  and no row of another has its id.\<close>

definition settled :: "string \<Rightarrow> db \<Rightarrow> world \<Rightarrow> bool" where
  "settled org X w \<longleftrightarrow> foreign org (db w) = X \<and> db_ok (db w)"

lemma preserves_settled:
  "preserves (apart org X) m \<Longrightarrow> preserves (on_db db_ok) m \<Longrightarrow> preserves (settled org X) m"
  by (auto simp: preserves_def settled_def on_db_def)

lemma ensures_fact: "(\<And>w. Q w \<Longrightarrow> C) \<Longrightarrow> (C \<Longrightarrow> ensures Q m R) \<Longrightarrow> ensures Q m R"
  by (auto simp: ensures_def)

lemma ensures_static: "(C \<Longrightarrow> ensures P m R) \<Longrightarrow> ensures (\<lambda>w. P w \<and> C) m R"
  by (auto simp: ensures_def)

lemma ensures_const_then: "ensures (\<lambda>_. True) n R \<Longrightarrow> ensures P (then_x m n) R"
  by (auto simp: ensures_def run_simps split: sum.splits)

lemma upsert_outbound_apart:
  "preserves (apart org X) (upsert_outbound E org draft c cu email u)"
  unfolding upsert_outbound_def by (intro preserve_rules apart_rules; simp)

lemma upsert_outbound_id:
  assumes "\<forall>m \<in> set (outboundMessages X). om_idempotencyKey m \<noteq> draft_key (dr_id draft)"
  shows "ensures (settled org X) (upsert_outbound E org draft c cu email u)
    (\<lambda>m _. ids_apart outboundMessage_t X (om_id m))"
proof (unfold ensures_def, intro allI impI)
  fix w m assume w: "settled org X w" and m: "fst (upsert_outbound E org draft c cu email u w) = Inr m"
  let ?v = "snd (upsert_outbound E org draft c cu email u w)"
  have "preserves (on_db db_ok) (upsert_outbound E org draft c cu email u)"
    unfolding upsert_outbound_def by (intro preserve_rules)
  then have v: "settled org X ?v"
    using w preservesD [OF preserves_settled [OF upsert_outbound_apart]] by blast
  have "m \<in> set (outboundMessages (db ?v))" "om_idempotencyKey m = draft_key (dr_id draft)"
    using upsert_outbound_spec [OF m] by (simp_all add: queued_once_def)
  then have "om_organizationId m = org"
    using assms v by (auto simp: settled_def foreign_rows)
  with \<open>m \<in> set (outboundMessages (db ?v))\<close> v message_ow.own_id [OF keys(6), of "db ?v" m org]
  show "ids_apart outboundMessage_t X (om_id m)"
    by (simp add: settled_def outboundMessage_t_def)
qed

lemma createOutbound_id:
  assumes "\<forall>m \<in> set (outboundMessages X). om_idempotencyKey m \<noteq> draft_key i"
  shows "ensures (settled org X) (createOutboundForApprovedDraft E org i u)
    (\<lambda>r _. \<forall>m. r = Some m \<longrightarrow> ids_apart outboundMessage_t X (om_id m))"
proof -
  have reads: "preserves (settled org X) (run_of_draft x)" "preserves (settled org X) (customer_of y)"
      "preserves (settled org X) (deliverable_conversation a b)" for x y a b
    by (auto simp: preserves_def run_of_draft_def customer_of_def deliverable_conversation_def run_simps split: option.split)
  have queue: "ensures (settled org X) (bind_x (queue_for_delivery E org draft conv cu email u) (\<lambda>x. ret_x (Some x)))
      (\<lambda>r _. \<forall>m. r = Some m \<longrightarrow> ids_apart outboundMessage_t X (om_id m))" if "dr_id draft = i" for draft conv cu email
  proof -
    have "ensures (settled org X) (queue_for_delivery E org draft conv cu email u) (\<lambda>m _. ids_apart outboundMessage_t X (om_id m))"
      unfolding queue_for_delivery_def
      by (rule ensures_bind, rule upsert_outbound_id, use assms that in simp,
          rule ensures_fact, assumption, (rule ensures_const_then)+, rule ensures_ret, simp)
    then show ?thesis by (auto simp: ensures_def run_simps split: sum.splits)
  qed
  have find: "ensures (settled org X) (find_first outboundDraft_t (\<lambda>d. dr_id d = i \<and> dr_orgId d = org))
      (\<lambda>found w. settled org X w \<and> (\<forall>x. found = Some x \<longrightarrow> dr_id x = i))"
    by (auto simp: ensures_def run_simps dest: first_where_Some)
  show ?thesis
    unfolding createOutboundForApprovedDraft_def
    by (rule ensures_bind [OF find], rule ensures_static)
      (intro ensures_option ensures_if ensures_throw ensures_bind_keep reads queue; simp add: ensures_ret)
qed

lemma createOutbound_apart [apart_rules]:
  "preserves (apart org X) (createOutboundForApprovedDraft E org i u)"
  unfolding createOutboundForApprovedDraft_def queue_for_delivery_def deliverable_conversation_def customer_of_def
    run_of_draft_def
  by (intro preserve_rules apart_rules upsert_outbound_apart)

lemma truthy_the: "truthy v \<Longrightarrow> v = Some (the v)"
  by (cases v) (simp_all add: truthy_def)

definition drafts_apart :: "db \<Rightarrow> human_approval \<Rightarrow> bool" where
  "drafts_apart X approval \<longleftrightarrow> (\<forall>i. ap_outboundDraftId approval = Some i \<longrightarrow> ids_apart outboundDraft_t X i \<and>
     (\<forall>m \<in> set (outboundMessages X). om_idempotencyKey m \<noteq> draft_key i))"

lemma approve_steps_apart:
  assumes "ids_apart outboundDraft_t X i"
  shows "preserves (apart org X) (approve_step E approval i org u)" "preserves (apart org X) (reject_step E approval i note org u)"
  unfolding approve_step_def reject_step_def
  by (intro preserve_rules apart_rules; use assms in \<open>auto simp: ids_simps approve_draft_def\<close>)+

lemma approve_steps_db_ok:
  "preserves (on_db db_ok) (approve_step E approval i org u)" "preserves (on_db db_ok) (reject_step E approval i note org u)"
  unfolding approve_step_def reject_step_def
  by (intro preserve_rules; simp add: table_keys outboundDraft_clash_def approve_draft_def)+

lemma approval_tx_apart:
  assumes "ids_apart humanApproval_t X (ap_id approval)" "drafts_apart X approval"
  shows "preserves (apart org X) (approval_tx E approval status note org u)"
proof -
  have draft: "ids_apart outboundDraft_t X (the (ap_outboundDraftId approval))" if "truthy (ap_outboundDraftId approval)"
    using assms(2) truthy_the [OF that] unfolding drafts_apart_def by blast
  show ?thesis
    unfolding approval_tx_def when_x_def
    by (intro preserve_rules approve_steps_apart approval_ow.update_many_apart)
      (use assms(1) draft in \<open>auto simp: ids_apart_def humanApproval_t_def\<close>)
qed

lemma approve_step_id:
  assumes "drafts_apart X approval" "ap_outboundDraftId approval = Some i"
  shows "ensures (settled org X) (approve_step E approval i org u) (\<lambda>r _. \<forall>k. r = Some k \<longrightarrow> ids_apart outboundMessage_t X k)"
proof -
  have i: "ids_apart outboundDraft_t X i" "\<forall>m \<in> set (outboundMessages X). om_idempotencyKey m \<noteq> draft_key i"
    using assms by (simp_all add: drafts_apart_def)
  have "preserves (settled org X) (update_row E outboundDraft_t (\<lambda>d. dr_id d = i) (approve_draft approval u))"
    by (rule preserves_settled, intro apart_rules; (intro preserve_rules)?;
        use i in \<open>auto simp: ids_simps approve_draft_def\<close>)
  moreover have "preserves (settled org X) (su_appendTimelineEvent E org t ty payload run)" for t ty payload run
    by (rule preserves_settled) (intro apart_rules preserve_rules)+
  moreover have "ensures (settled org X)
      (bind_x (createOutboundForApprovedDraft E org i u) (\<lambda>outbound. ret_x (map_option om_id outbound)))
      (\<lambda>r _. \<forall>k. r = Some k \<longrightarrow> ids_apart outboundMessage_t X k)"
    by (rule ensures_bind [OF createOutbound_id [OF i(2)]], rule ensures_ret) auto
  ultimately show ?thesis
    unfolding approve_step_def by (intro ensures_then_keep)
qed

lemma approval_tx_id:
  assumes "ids_apart humanApproval_t X (ap_id approval)" "drafts_apart X approval"
  shows "ensures (settled org X) (approval_tx E approval status note org u)
      (\<lambda>r _. \<forall>i. snd r = Some i \<longrightarrow> ids_apart outboundMessage_t X i)"
proof -
  let ?Q = "\<lambda>r (_ :: world). \<forall>k. r = Some k \<longrightarrow> ids_apart outboundMessage_t X k"
  have step: "ensures (settled org X)
      (if truthy (ap_outboundDraftId approval) \<and> status = ApprovalStatus.APPROVED
       then approve_step E approval (the (ap_outboundDraftId approval)) org u else ret_x None) ?Q"
    using approve_step_id [OF assms(2) truthy_the] by (auto intro!: ensures_if ensures_ret)
  have upd: "preserves (settled org X) (update_many E humanApproval_t (\<lambda>a. ap_id a = ap_id approval \<and>
      ap_status a = ApprovalStatus.PENDING) (\<lambda>a. a\<lparr>ap_status := status,
      ap_reviewerNote := nullish2 note (ap_reviewerNote a), ap_reviewedByUserId := Some u\<rparr>))"
    by (rule preserves_settled, rule approval_ow.update_many_apart; (intro preserve_rules)?;
        use assms(1) in \<open>auto simp: ids_simps humanApproval_clash_def\<close>)
  have find: "preserves (settled org X) (find_first humanApproval_t P)" "preserves (settled org X) (require_x v e)" for P v e
    by (auto simp: preserves_def run_simps split: option.split)
  show ?thesis
    unfolding approval_tx_def
  proof (intro ensures_transaction ensures_bind_keep [OF upd] ensures_if ensures_throw ensures_bind_keep [OF find(1)]
      ensures_bind_keep [OF find(2)] ensures_bind [OF step])
    fix a r
    show "ensures (?Q r) (then_x (when_x b m) (ret_x (a, r))) (\<lambda>r _. \<forall>i. snd r = Some i \<longrightarrow> ids_apart outboundMessage_t X i)"
      for b m by (rule ensures_fact, assumption, rule ensures_const_then, rule ensures_ret) auto
  qed
qed

lemma approval_stays:
  assumes "db_ok (db w)" "local_refs org (db w)"
  shows "stays org (updateApproval E i status note org u) w"
proof (cases "fst (getApprovalOrThrow i org w)")
  case (Inr a)
  note read = read_approval [OF assms(1) Inr]
  let ?X = "foreign org (db w)" and ?v = "snd (getApprovalOrThrow i org w)"
  have a: "drafts_apart ?X a"
    using read assms(2) by (auto simp: drafts_apart_def local_refs_def ids_simps foreign_rows)
  have v: "settled org ?X ?v" using assms(1) by (simp add: settled_def reads_same)
  let ?tx = "approval_tx E a status note org u"
  have db: "preserves (on_db db_ok) ?tx"
    unfolding approval_tx_def
    by (intro preserve_rules approve_steps_db_ok; simp add: table_keys humanApproval_clash_def)
  have tx: "foreign org (db (snd (?tx ?v))) = ?X"
    using preservesD [OF preserves_settled [OF approval_tx_apart [OF read(1) a] db] v] by (simp add: settled_def)
  show ?thesis
  proof (cases "fst (?tx ?v)")
    case (Inr r)
    have "foreign org (db (snd (enqueueDelivery E (the (snd r)) (snd (?tx ?v))))) = ?X" if "truthy (snd r)"
    proof -
      have "ids_apart outboundMessage_t ?X (the (snd r))"
        using ensuresD [OF approval_tx_id [OF read(1) a] v Inr] truthy_the [OF that] by blast
      from preservesD [OF enqueue_apart [OF this], where w = "snd (?tx ?v)"] tx show ?thesis by (simp add: on_db_def)
    qed
    then show ?thesis
      using tx \<open>fst (getApprovalOrThrow i org w) = Inr a\<close> Inr
      by (simp add: stays_def updateApproval_def run_simps split: sum.split)
  qed (use tx Inr in \<open>simp add: stays_def updateApproval_def run_simps\<close>)
qed (simp add: stays_def updateApproval_def run_simps reads_same)

section \<open>Calls\<close>

lemma guarded_stays:
  assumes "db_ok (db w)" "org = trim_or (rq_organizationId rq) []"
    and "\<And>p m v. db v = db w \<Longrightarrow> tm_organizationId m = org \<Longrightarrow> stays org (h p m) v"
  shows "stays org (answered (guarded E A roles rq h)) w"
proof (cases "fst (authorize E A roles rq w)")
  case (Inr a)
  then obtain p m where a: "fst (authorize E A roles rq w) = Inr (p, m)" by (cases a) simp
  note ok = authorize_spec [OF assms(1), of E A roles rq p m]
  have "tm_organizationId m = org" using ok a assms(2) by (auto simp: member_def list_ex_iff)
  with ok have "stays org (h p m) (snd (authorize E A roles rq w))" by (intro assms(3)) simp
  with ok a show ?thesis
    by (simp add: stays_def answered_def guarded_def run_simps split: sum.split)
qed (use authorize_spec [OF assms(1)] in \<open>simp add: stays_def answered_def guarded_def run_simps\<close>)

lemmas changes_stay = ticket_changes_stay article_changes_stay connection_changes_stay message_changes_stay
  failure_changes_stay settings_changes_stay draft_changes_stay approval_stays stays_preserves [OF creations_apart(1)]
  stays_preserves [OF creations_apart(2)] stays_preserves [OF creations_apart(3)] stays_preserves [OF creations_apart(4)]


definition demo_two :: world where
  "demo_two = demo_owner\<lparr>db := (db demo_owner)\<lparr>
     tickets := [blank_ticket\<lparr>tk_id := ''t'', tk_orgId := ''o''\<rparr>, blank_ticket\<lparr>tk_id := ''x'', tk_orgId := ''p''\<rparr>],
     outboundDrafts := [blank_outbound_draft\<lparr>dr_id := ''d'', dr_orgId := ''o'', dr_ticketId := ''t''\<rparr>,
       blank_outbound_draft\<lparr>dr_id := ''e'', dr_orgId := ''p'', dr_ticketId := ''x''\<rparr>],
     humanApprovals := [blank_human_approval\<lparr>ap_id := ''a'', ap_orgId := ''o'', ap_outboundDraftId := Some ''d''\<rparr>]\<rparr>\<rparr>"


end
