(* ===== verification/Staging.thy ===== *)
theory Staging
  imports PostgresTools Steps
begin

text \<open>
  How a staging database is prepared: \<^verbatim>\<open>scripts/lib/staging-tools.mjs\<close> (what an environment must
  say before a staging script may run), \<^verbatim>\<open>packages/db/scripts/staging-seed.ts\<close>,
  \<^verbatim>\<open>packages/db/prisma/seed.ts\<close> and \<^verbatim>\<open>packages/db/scripts/migrate-check.ts\<close>. \<^verbatim>\<open>new URL\<close> is
  the parameter \<open>U\<close>, as in \<open>RuntimeConfig\<close>.
\<close>

section \<open>The environment\<close>

definition required_env :: "env \<Rightarrow> string \<Rightarrow> js_error + string" where
  "required_env env name =
     (let v = trim_or (env name) [] in if v = [] then Inl (plain_error (name @ '' is required'')) else Inr v)"

definition required_url :: "url_parser \<Rightarrow> env \<Rightarrow> string \<Rightarrow> js_error + url_parts" where
  "required_url U env name =
     and_then (required_env env name) (\<lambda>raw. case U raw of None \<Rightarrow> Inl invalid_url | Some url \<Rightarrow> Inr url)"

definition assertNotLocalUrl :: "url_parts \<Rightarrow> string \<Rightarrow> js_error + unit" where
  "assertNotLocalUrl url name =
     (if isLocalHostname (url_hostname url)
      then Inl (plain_error (name @ '' must not use localhost in staging'')) else Inr ())"

definition production_looking :: "url_parts \<Rightarrow> bool" where
  "production_looking url \<longleftrightarrow>
     rx_test PRODUCTION_HOST_PATTERN (url_hostname url) \<or> rx_test PRODUCTION_HOST_PATTERN (url_pathname url)"

definition assertNotProductionLooking :: "url_parts \<Rightarrow> string \<Rightarrow> js_error + unit" where
  "assertNotProductionLooking url name =
     (if production_looking url
      then Inl (plain_error (name @ '' must not point at a production-looking target'')) else Inr ())"

text \<open>The two checks that close both parsers.\<close>

definition assertHosted :: "env \<Rightarrow> url_parts \<Rightarrow> string \<Rightarrow> js_error + url_parts" where
  "assertHosted env url name =
     and_then (if allowsLocalStaging env then Inr () else assertNotLocalUrl url name) (\<lambda>_.
     and_then (assertNotProductionLooking url name) (\<lambda>_. Inr url))"

definition parseHostedHttpUrl :: "url_parser \<Rightarrow> env \<Rightarrow> string \<Rightarrow> js_error + url_parts" where
  "parseHostedHttpUrl U env name =
     and_then (required_url U env name) (\<lambda>url.
       if url_protocol url \<noteq> ''https:'' \<and> \<not> (allowsLocalStaging env \<and> url_protocol url = ''http:'')
       then Inl (plain_error (name @ '' must use https in staging'')) else assertHosted env url name)"

definition parseHostedPostgresUrl :: "url_parser \<Rightarrow> env \<Rightarrow> string \<Rightarrow> js_error + url_parts" where
  "parseHostedPostgresUrl U env name =
     and_then (required_url U env name) (\<lambda>url.
       if url_protocol url \<notin> {''postgres:'', ''postgresql:''}
       then Inl (plain_error (name @ '' must use postgres:// or postgresql://'')) else assertHosted env url name)"

record smoke_config =
  sk_webUrl :: string
  sk_apiUrl :: string
  sk_email :: string
  sk_password :: string
  sk_metricsToken :: "string option"
  sk_expectedGitSha :: "string option"

definition without_slash :: "string \<Rightarrow> string" where
  "without_slash s = (if ends_with ''/'' s then butlast s else s)"

definition getStagingSmokeConfig :: "url_parser \<Rightarrow> env \<Rightarrow> js_error + smoke_config" where
  "getStagingSmokeConfig U env =
     and_then (parseHostedHttpUrl U env ''STAGING_WEB_URL'') (\<lambda>web.
     and_then (parseHostedHttpUrl U env ''STAGING_API_URL'') (\<lambda>api.
     and_then (required_env env ''STAGING_SMOKE_EMAIL'') (\<lambda>email.
     and_then (required_env env ''STAGING_SMOKE_PASSWORD'') (\<lambda>password.
       Inr \<lparr>sk_webUrl = without_slash (url_href web), sk_apiUrl = without_slash (url_href api), sk_email = email,
         sk_password = password, sk_metricsToken = trim_present (env ''METRICS_AUTH_TOKEN''),
         sk_expectedGitSha = trim_present (env ''EXPECTED_GIT_SHA'')\<rparr>))))"

definition redactedSmokeConfig :: "smoke_config \<Rightarrow> (string \<times> string) list" where
  "redactedSmokeConfig c =
     [(''webUrl'', sk_webUrl c), (''apiUrl'', sk_apiUrl c), (''email'', sk_email c),
      (''metricsToken'', if truthy (sk_metricsToken c) then ''[set]'' else ''[not set]''),
      (''expectedGitSha'', nullish (sk_expectedGitSha c) ''[not set]'')]"

definition SEED_VARIABLES :: "string list" where
  "SEED_VARIABLES = [''STAGING_OWNER_EMAIL'', ''STAGING_ADMIN_EMAIL'', ''STAGING_AGENT_EMAIL'',
     ''STAGING_VIEWER_EMAIL'', ''STAGING_USER_PASSWORD_HASH'']"

primrec all_required :: "env \<Rightarrow> string list \<Rightarrow> js_error + unit" where
  "all_required env [] = Inr ()"
| "all_required env (name # names) = and_then (required_env env name) (\<lambda>_. all_required env names)"

definition validateStagingSeedEnv :: "url_parser \<Rightarrow> env \<Rightarrow> js_error + unit" where
  "validateStagingSeedEnv U env =
     (if map_option trim (env ''APP_ENV'') \<noteq> Some ''staging''
      then Inl (plain_error ''APP_ENV=staging is required for staging seed'')
      else and_then (parseHostedPostgresUrl U env ''DATABASE_URL'') (\<lambda>_. all_required env SEED_VARIABLES))"

section \<open>Seeds\<close>

text \<open>The rows that both seeds bring into being, with what a second run may change of them.\<close>

definition seed_organization :: "ext \<Rightarrow> string \<Rightarrow> string \<Rightarrow> organization act" where
  "seed_organization E slug name =
     upsert_row E organization_t (\<lambda>g. og_slug g = slug) (Some (\<lambda>g. g\<lparr>og_name := name\<rparr>))
       (\<lambda>i now. blank_organization\<lparr>og_id := i, og_createdAt := now, og_slug := slug, og_name := name\<rparr>)"

definition seed_user :: "ext \<Rightarrow> string \<Rightarrow> string \<Rightarrow> string \<Rightarrow> user act" where
  "seed_user E email passwordHash displayName =
     upsert_row E user_t (\<lambda>u. us_normalizedEmail u = email)
       (Some (\<lambda>u. u\<lparr>us_email := email, us_displayName := Some displayName, us_isActive := True\<rparr>))
       (\<lambda>i now. blank_user\<lparr>us_id := i, us_createdAt := now, us_email := email, us_normalizedEmail := email,
          us_passwordHash := passwordHash, us_displayName := Some displayName\<rparr>)"

definition seed_membership :: "ext \<Rightarrow> string \<Rightarrow> string \<Rightarrow> OrganizationRole \<Rightarrow> membership act" where
  "seed_membership E userId organizationId role =
     upsert_row E organizationMembership_t (\<lambda>m. mb_userId m = userId \<and> mb_organizationId m = organizationId)
       (Some (\<lambda>m. m\<lparr>mb_role := role\<rparr>))
       (\<lambda>i now. blank_membership\<lparr>mb_id := i, mb_createdAt := now, mb_userId := userId,
          mb_organizationId := organizationId, mb_role := role\<rparr>)"

definition seed_ticket :: "ext \<Rightarrow> string \<Rightarrow> string \<Rightarrow> string \<Rightarrow> string \<Rightarrow> string \<Rightarrow> unit act" where
  "seed_ticket E orgId subject email name body =
     bind_x (find_first ticket_t (\<lambda>t. tk_orgId t = orgId \<and> tk_subject t = subject)) (\<lambda>existing.
       when_x (existing = None)
         (transaction (bind_x (create_row E ticket_t (\<lambda>i now. blank_ticket\<lparr>tk_id := i, tk_createdAt := now,
             tk_updatedAt := now, tk_orgId := orgId, tk_subject := subject, tk_status := TicketStatus.OPEN,
             tk_priority := TicketPriority.NORMAL, tk_customerEmail := email, tk_customerName := Some name\<rparr>)) (\<lambda>t.
           bind_x (create_row E ticketMessage_t (\<lambda>i now. blank_ticket_message\<lparr>tm_id := i, tm_createdAt := now,
             tm_orgId := orgId, tm_ticketId := tk_id t, tm_direction := MessageDirection.INBOUND, tm_body := body\<rparr>)) (\<lambda>_.
             ret_x ())))))"

definition staging_users :: "(string \<times> string \<times> OrganizationRole) list" where
  "staging_users =
     [(''STAGING_OWNER_EMAIL'', ''Staging Owner'', OrganizationRole.OWNER),
      (''STAGING_ADMIN_EMAIL'', ''Staging Admin'', OrganizationRole.ADMIN),
      (''STAGING_AGENT_EMAIL'', ''Staging Agent'', OrganizationRole.AGENT),
      (''STAGING_VIEWER_EMAIL'', ''Staging Viewer'', OrganizationRole.VIEWER)]"

definition staging_member :: "ext \<Rightarrow> string \<Rightarrow> string \<Rightarrow> string \<times> string \<times> OrganizationRole \<Rightarrow> unit act" where
  "staging_member E passwordHash orgId = (\<lambda>(envName, displayName, role).
     bind_x (of_result (required_env (x_env E) envName)) (\<lambda>address.
     bind_x (seed_user E (to_lower address) passwordHash displayName) (\<lambda>u.
     bind_x (seed_membership E (us_id u) orgId role) (\<lambda>_. ret_x ()))))"

definition staging_limits :: "org_settings \<Rightarrow> org_settings" where
  "staging_limits s = s\<lparr>os_autoRespond := False, os_requireHumanApproval := True, os_maxAgentCostCents := 50,
     os_maxAutoSendCostCents := 25\<rparr>"

definition staging_settings :: "ext \<Rightarrow> string \<Rightarrow> org_settings act" where
  "staging_settings E orgId =
     upsert_row E organizationSettings_t (\<lambda>s. os_orgId s = orgId) (Some staging_limits)
       (\<lambda>i now. staging_limits (blank_org_settings\<lparr>os_id := i, os_createdAt := now, os_orgId := orgId\<rparr>))"

definition staging_article :: "string \<Rightarrow> knowledge_article \<Rightarrow> knowledge_article" where
  "staging_article orgId a = a\<lparr>ka_orgId := orgId, ka_title := ''Reset a locked account'',
     ka_body := ''Verify the requester, rotate the temporary credential, and ask the customer to sign in with a new password.'',
     ka_status := KnowledgeArticleStatus.PUBLISHED, ka_tags := [''login'', ''password'', ''account'']\<rparr>"

definition staging_seed :: "url_parser \<Rightarrow> ext \<Rightarrow> unit act" where
  "staging_seed U E =
     then_x (of_result (validateStagingSeedEnv U (x_env E)))
     (bind_x (of_result (required_env (x_env E) ''STAGING_USER_PASSWORD_HASH'')) (\<lambda>passwordHash.
      bind_x (seed_organization E ''staging-smoke'' ''Autonomous CSA Staging'') (\<lambda>organization.
      then_x (for_x staging_users (staging_member E passwordHash (og_id organization)))
      (then_x (staging_settings E (og_id organization))
      (then_x (upsert_row E knowledgeArticle_t (\<lambda>a. ka_id a = ''staging-knowledge-login-reset'')
          (Some (staging_article (og_id organization)))
          (\<lambda>_ now. staging_article (og_id organization) (blank_knowledge_article\<lparr>
             ka_id := ''staging-knowledge-login-reset'', ka_createdAt := now, ka_updatedAt := now\<rparr>)))
        (seed_ticket E (og_id organization) ''Staging sample login issue'' ''sample.customer@example.test''
          ''Sample Staging Customer'' ''I cannot sign in after resetting my password.''))))))"

definition demo_seed :: "ext \<Rightarrow> unit act" where
  "demo_seed E =
     bind_x (seed_organization E ''org_demo'' ''Demo Organization'') (\<lambda>organization.
     bind_x (seed_user E ''demo.owner@example.com''
       ''$argon2id$v=19$m=19456,t=2,p=1$n3CJohVwONdwvc/nvNEahw$2Q8TahhCchN9SJmPTxgJVtOG2CCBseyPKCjkpk29bQM''
       ''Demo Owner'') (\<lambda>demoUser.
     then_x (seed_membership E (us_id demoUser) (og_id organization) OrganizationRole.OWNER)
     (then_x (seed_ticket E (og_id organization) ''Sample login issue'' ''sample.customer@example.com'' ''Sample Customer''
        ''I cannot log in to my account.'')
       (bind_x (getOrCreateOrganizationSettings E (og_id organization)) (\<lambda>_. ret_x ())))))"

section \<open>The check of migrations\<close>

definition blank_run :: rx where
  "blank_run = plus (Cls is_ws)"

definition two_words :: "string \<Rightarrow> string \<Rightarrow> rx" where
  "two_words a b = Seq WordB (Seq (lit_i a) (Seq blank_run (Seq (lit_i b) WordB)))"

text \<open>A pattern with its source, as the findings print it; a backslash is the character 92.\<close>

definition escaped :: "string \<Rightarrow> string" where
  "escaped s = char_of (92 :: nat) # s"

definition two_words_source :: "string \<Rightarrow> string \<Rightarrow> string" where
  "two_words_source a b = escaped ''b'' @ a @ escaped ''s+'' @ b @ escaped ''b''"

definition flagged :: "string \<Rightarrow> string" where
  "flagged source = ''/'' @ source @ ''/i''"

definition destructivePatterns :: "(string \<times> rx) list" where
  "destructivePatterns =
     [(flagged (two_words_source ''DROP'' ''TABLE''), two_words ''drop'' ''table''),
      (flagged (two_words_source ''DROP'' ''COLUMN''), two_words ''drop'' ''column''),
      (flagged (two_words_source ''DROP'' ''INDEX''), two_words ''drop'' ''index''),
      (flagged (two_words_source ''ALTER'' ''TABLE'' @ ''['' @ escaped ''s'' @ escaped ''S'' @ '']*'' @
         two_words_source ''DROP'' ''CONSTRAINT''),
       Seq (two_words ''alter'' ''table'') (Seq (Star True (Cls (\<lambda>_. True))) (two_words ''drop'' ''constraint''))),
      (flagged (escaped ''b'' @ ''TRUNCATE'' @ escaped ''b''), Seq WordB (Seq (lit_i ''truncate'') WordB))]"

text \<open>The migrations are the directories with the text of their \<^verbatim>\<open>migration.sql\<close>.\<close>

definition migration_findings :: "(string \<times> string) list \<Rightarrow> string list" where
  "migration_findings migrations =
     concat (map (\<lambda>(entry, sql). map (\<lambda>(source, _). entry @ '': matched '' @ source)
       (filter (\<lambda>(_, pattern). rx_test pattern sql) destructivePatterns)) (sort_key fst migrations))"

definition inspectMigrations :: "(string \<times> string) list \<Rightarrow> string list" where
  "inspectMigrations migrations =
     (let findings = migration_findings migrations
      in if findings = [] then [''No destructive SQL heuristics matched in migrations.'']
         else ''Potentially destructive migration statements detected:'' # map (\<lambda>f. ''- '' @ f) findings)"

text \<open>A run of the tool gives its exit status (\<open>None\<close> when it was killed); the script ends with the first
  status that is not 0, and with 0 after the inspection.\<close>

definition migrate_check :: "(string list \<Rightarrow> int option) \<Rightarrow> (string \<times> string) list \<Rightarrow> int \<times> string list" where
  "migrate_check run migrations =
     (let failed = (\<lambda>args. run args \<noteq> Some 0);
          validate = [''validate'', ''--schema'', ''prisma/schema.prisma''];
          status = [''migrate'', ''status'', ''--schema'', ''prisma/schema.prisma'']
      in if failed validate then (nullish (run validate) 1, [])
         else if failed status then (nullish (run status) 1, [])
         else (0, inspectMigrations migrations))"

section \<open>What the checks let through\<close>

lemma required_env_iff: "required_env env name = Inr v \<longleftrightarrow> v \<noteq> [] \<and> trim_or (env name) [] = v"
  by (auto simp: required_env_def Let_def)

lemma all_required_iff: "all_required env names = Inr () \<longleftrightarrow> (\<forall>n \<in> set names. trim_or (env n) [] \<noteq> [])"
  by (induction names) (auto simp: and_then_def required_env_def Let_def split: sum.splits)

lemma hosted_postgres_iff:
  "parseHostedPostgresUrl U env name = Inr url \<longleftrightarrow>
     trim_or (env name) [] \<noteq> [] \<and> U (trim_or (env name) []) = Some url \<and>
     url_protocol url \<in> {''postgres:'', ''postgresql:''} \<and>
     (allowsLocalStaging env \<or> \<not> isLocalHostname (url_hostname url)) \<and> \<not> production_looking url"
  by (auto simp: parseHostedPostgresUrl_def required_url_def required_env_def assertHosted_def assertNotLocalUrl_def
      assertNotProductionLooking_def and_then_def Let_def split: sum.splits option.splits if_splits)

lemma seed_env_iff:
  "validateStagingSeedEnv U env = Inr () \<longleftrightarrow>
     map_option trim (env ''APP_ENV'') = Some ''staging'' \<and>
     (\<exists>url. parseHostedPostgresUrl U env ''DATABASE_URL'' = Inr url) \<and>
     (\<forall>n \<in> set SEED_VARIABLES. trim_or (env n) [] \<noteq> [])"
  by (auto simp: validateStagingSeedEnv_def and_then_def all_required_iff split: sum.splits)

text \<open>The staging seed writes nothing unless its environment says what it must: the environment is
  named staging, the database is a Postgres URL whose host and path do not name production and
  whose host is not local (unless local staging is allowed), and an address for each of the four users
  and a password hash are set. And it never writes what a password checks: whatever it changes, every
  user there was before is there afterwards with the same id and the same password hash.\<close>

definition keeps_passwords :: "db \<Rightarrow> db \<Rightarrow> bool" where
  "keeps_passwords d d' \<longleftrightarrow> (\<forall>u \<in> set (users d). \<exists>v \<in> set (users d'). us_id v = us_id u \<and> us_passwordHash v = us_passwordHash u)"

definition password_of :: "user \<Rightarrow> db \<Rightarrow> bool" where
  "password_of u d \<longleftrightarrow> (\<exists>v \<in> set (users d). us_id v = us_id u \<and> us_passwordHash v = us_passwordHash u)"

lemma update_where_mem: "v \<in> set xs \<Longrightarrow> (if P v then f v else v) \<in> set (update_where P f xs)"
  by (auto simp: update_where_def)

lemma password_kept [preserve_rules]:
  "preserves (on_db (password_of u)) (seed_user E email h name)"
  unfolding seed_user_def
proof (rule preserves_upsert)
  fix f :: "user \<Rightarrow> user"
  assume f: "Some (\<lambda>u. u\<lparr>us_email := email, us_displayName := Some name, us_isActive := True\<rparr>) = Some f"
  show "preserves (on_db (password_of u)) (update_row E user_t (\<lambda>u. us_normalizedEmail u = email) f)"
  proof (rule preserves_update)
    fix d r now assume "password_of u d"
    then obtain v where v: "v \<in> set (users d)" "us_id v = us_id u" "us_passwordHash v = us_passwordHash u"
      by (auto simp: password_of_def)
    show "password_of u (t_map user_t (update_where (\<lambda>s. t_id user_t s = t_id user_t r) (\<lambda>r. t_touch user_t now (f r))) d)"
      unfolding password_of_def user_t_def
      by (rule bexI [of _ "if us_id v = us_id r then f v else v"])
        (use v f update_where_mem [OF v(1), of "\<lambda>s. us_id s = us_id r" f] in auto)
  qed
qed (rule preserves_create, auto simp: password_of_def user_t_def)

lemma password_kept_others [preserve_rules]:
  "preserves (on_db (password_of u)) (seed_organization E slug name)"
  "preserves (on_db (password_of u)) (seed_membership E i g role)"
  "preserves (on_db (password_of u)) (staging_settings E g)"
  "preserves (on_db (password_of u)) (upsert_row E knowledgeArticle_t P f mk)"
  "preserves (on_db (password_of u)) (create_row E ticket_t mkt)"
  "preserves (on_db (password_of u)) (create_row E ticketMessage_t mkm)"
  unfolding seed_organization_def seed_membership_def staging_settings_def
  by (rule preserves_other_table; simp add: ignores_def password_of_def table_defs)+

lemma staging_seed_passwords: "preserves (on_db (password_of u)) (staging_seed U E)"
  unfolding staging_seed_def staging_member_def seed_ticket_def
  by (intro preserve_rules)

theorem seed_guarded:
  assumes "db (snd (staging_seed U E w)) \<noteq> db w"
  shows "map_option trim (x_env E ''APP_ENV'') = Some ''staging'' \<and>
    (\<exists>url. U (trim_or (x_env E ''DATABASE_URL'') []) = Some url \<and> url_protocol url \<in> {''postgres:'', ''postgresql:''} \<and>
       (allowsLocalStaging (x_env E) \<or> \<not> isLocalHostname (url_hostname url)) \<and>
       \<not> rx_test PRODUCTION_HOST_PATTERN (url_hostname url) \<and> \<not> rx_test PRODUCTION_HOST_PATTERN (url_pathname url)) \<and>
    (\<forall>n \<in> set SEED_VARIABLES. trim_or (x_env E n) [] \<noteq> []) \<and>
    keeps_passwords (db w) (db (snd (staging_seed U E w)))"
proof -
  have "validateStagingSeedEnv U (x_env E) = Inr ()"
    using assms by (cases "validateStagingSeedEnv U (x_env E)") (simp_all add: staging_seed_def run_simps of_result_def)
  moreover have "keeps_passwords (db w) (db (snd (staging_seed U E w)))"
    using preservesD [OF staging_seed_passwords, of _ w] unfolding keeps_passwords_def on_db_def password_of_def by blast
  ultimately show ?thesis
    unfolding seed_env_iff hosted_postgres_iff production_looking_def by blast
qed

definition demo_staging_env :: env where
  "demo_staging_env = map_of ([(''APP_ENV'', ''staging''), (''DATABASE_URL'', ''postgres://db'')] @
     map (\<lambda>n. (n, ''x'')) SEED_VARIABLES)"

definition demo_staging_url :: "string \<Rightarrow> url_parser" where
  "demo_staging_url pathname = (\<lambda>s. Some \<lparr>url_protocol = ''postgres:'', url_hostname = ''db'', url_port = [],
     url_pathname = pathname, url_href = s\<rparr>)"

definition demo_staging :: ext where
  "demo_staging = demo_ext\<lparr>x_env := demo_staging_env\<rparr>"

lemma demo_staging_values:
  "trim ''staging'' = ''staging''" "trim ''postgres://db'' = ''postgres://db''" "trim ''x'' = ''x''"
  "to_lower ''x'' = ''x''" "isLocalHostname ''db'' = False" "rx_test PRODUCTION_HOST_PATTERN ''db'' = False"
  "rx_test PRODUCTION_HOST_PATTERN ''/csa_prod'' = False" "rx_test PRODUCTION_HOST_PATTERN ''/csa-prod'' = True"
  by code_simp+

text \<open>An underscore is a letter to \<^verbatim>\<open>\b\<close>: a database named with \<^verbatim>\<open>_prod\<close> passes for staging, one named with
  \<^verbatim>\<open>-prod\<close> does not.\<close>

theorem underscored_production_accepted:
  "validateStagingSeedEnv (demo_staging_url ''/csa_prod'') demo_staging_env = Inr () \<and>
   validateStagingSeedEnv (demo_staging_url ''/csa-prod'') demo_staging_env \<noteq> Inr ()"
  unfolding seed_env_iff hosted_postgres_iff production_looking_def
  by (simp add: demo_staging_env_def demo_staging_url_def SEED_VARIABLES_def trim_or_def str_or_def demo_staging_values)

theorem seed_guarded_witness:
  "map_option trim (x_env demo_staging ''APP_ENV'') = Some ''staging'' \<and>
   keeps_passwords (db (demo_world empty_db)) (db (snd (staging_seed (demo_staging_url ''/csa'') demo_staging (demo_world empty_db))))"
proof -
  have "length (organizations (db (snd (staging_seed (demo_staging_url ''/csa'') demo_staging (demo_world empty_db))))) = 1"
    by code_simp
  then have "db (snd (staging_seed (demo_staging_url ''/csa'') demo_staging (demo_world empty_db))) \<noteq> db (demo_world empty_db)"
    by (auto simp: demo_world_def empty_db_def)
  from seed_guarded [OF this] show ?thesis by blast
qed

lemma demo_patterns:
  "map (\<lambda>p. rx_test (snd p) ''drop table t'') destructivePatterns = [True, False, False, False, False]"
  "map (\<lambda>p. rx_test (snd p) ''alter table t drop c'') destructivePatterns = [False, False, False, False, False]"
  by code_simp+

text \<open>The check of migrations only prints: with a destructive migration it ends with 0 as without. And it
  overlooks a column dropped without the word \<^verbatim>\<open>COLUMN\<close>, which Postgres does not ask for.\<close>

theorem destructive_migration_passes:
  "(\<exists>line. migrate_check (\<lambda>_. Some 0) [(''m'', ''drop table t'')] =
      (0, [''Potentially destructive migration statements detected:'', line])) \<and>
   migrate_check (\<lambda>_. Some 0) [(''m'', ''alter table t drop c'')] =
     (0, [''No destructive SQL heuristics matched in migrations.''])"
proof -
  have "\<exists>f. migration_findings [(''m'', ''drop table t'')] = [f]" "migration_findings [(''m'', ''alter table t drop c'')] = []"
    using demo_patterns by (simp_all add: migration_findings_def destructivePatterns_def)
  then show ?thesis by (auto simp: migrate_check_def inspectMigrations_def Let_def)
qed

end
