(* ===== verification/Correlation.thy ===== *)
theory Correlation
  imports WebProxy Logger
begin

text \<open>
  Correlation contexts (\<^verbatim>\<open>packages/observability/src/correlation.ts\<close>): the middleware that both
  services run first. It gives every request an identifier, its own or a new one, writes it into the request
  and the response and runs the rest in a context that carries it. (\<open>normalizeCorrelationId\<close> stands
  in \<open>WebProxy\<close>; the store of the running context is the component \<open>ctx\<close> of \<open>Store\<close>.)
\<close>

text \<open>A header of a request is a string, or a value of another type, which the code does not read.\<close>

datatype header_value = One string | Other

record node_request =
  nr_headers :: "string \<Rightarrow> header_value option"
  nr_method :: "string option"
  nr_path :: "string option"

definition ensure_correlation_x :: "ext \<Rightarrow> string option \<Rightarrow> string act" where
  "ensure_correlation_x E value' =
     (case normalizeCorrelationId value' of Some c \<Rightarrow> ret_x c | None \<Rightarrow> uuid_x E)"

definition extractCorrelationId :: "ext \<Rightarrow> (string \<Rightarrow> string option) \<Rightarrow> string act" where
  "extractCorrelationId E headers = ensure_correlation_x E (headers CORRELATION_ID_HEADER)"

definition mergeCorrelationContext :: "members option \<Rightarrow> members \<Rightarrow> members option" where
  "mergeCorrelationContext current partial = map_option (\<lambda>c. spread_members c partial) current"

definition single_header :: "node_request \<Rightarrow> string \<Rightarrow> string option" where
  "single_header rq name = (case nr_headers rq name of Some (One v) \<Rightarrow> Some v | _ \<Rightarrow> None)"

definition request_context :: "string \<Rightarrow> node_request \<Rightarrow> members" where
  "request_context correlationId rq =
     (''correlationId'', JStr correlationId) # (''requestId'', JStr correlationId) #
     j_field ''method'' (map_option JStr (nr_method rq)) @ j_field ''route'' (map_option JStr (nr_path rq))"

text \<open>The rest of the request gets the changed request and the context, and gives its answer's headers.\<close>

definition bindCorrelationContext ::
  "ext \<Rightarrow> node_request \<Rightarrow> (node_request \<Rightarrow> members \<Rightarrow> 'a act) \<Rightarrow> ((string \<times> string) \<times> 'a) act" where
  "bindCorrelationContext E rq rest =
     bind_x (ensure_correlation_x E (single_header rq CORRELATION_ID_HEADER)) (\<lambda>correlationId.
     bind_x (with_context \<lparr>co_correlationId = Some correlationId, co_retryAttempt = None\<rparr>
       (rest (rq\<lparr>nr_headers := (nr_headers rq)(CORRELATION_ID_HEADER \<mapsto> One correlationId)\<rparr>)
          (request_context correlationId rq))) (\<lambda>answer.
       ret_x ((CORRELATION_ID_HEADER, correlationId), answer)))"

definition safe_id :: "string \<Rightarrow> bool" where
  "safe_id s \<longleftrightarrow> 8 \<le> length s \<and> length s \<le> 128 \<and> (\<forall>c \<in> set s. correlation_char c)"

lemma trim_nil: "trim [] = []"
  by (simp add: trim_def)

lemma normalized_iff: "normalizeCorrelationId v = Some c \<longleftrightarrow> (\<exists>s. v = Some s \<and> c = trim s \<and> safe_id c)"
  by (cases v) (auto simp: normalizeCorrelationId_def CORRELATION_ID_PATTERN_def CORRELATION_ID_MAX_LENGTH_def safe_id_def
    truthy_def list_all_iff trim_nil Let_def split: if_splits)

definition bound_id :: "ext \<Rightarrow> node_request \<Rightarrow> world \<Rightarrow> string" where
  "bound_id E rq w = nullish (normalizeCorrelationId (single_header rq CORRELATION_ID_HEADER)) (x_uuid E (uuids w))"

lemma bind_run:
  "fst (bindCorrelationContext E rq (\<lambda>rq' about. bind_x correlation_x (\<lambda>c. ret_x (rq', about, c))) w) =
     Inr ((CORRELATION_ID_HEADER, bound_id E rq w),
       rq\<lparr>nr_headers := (nr_headers rq)(CORRELATION_ID_HEADER \<mapsto> One (bound_id E rq w))\<rparr>,
       request_context (bound_id E rq w) rq, Some (bound_id E rq w))"
  by (simp add: bindCorrelationContext_def ensure_correlation_x_def run_simps bound_id_def nullish_def split: option.split)

text \<open>What comes back in the response header is what the rest of the request sees, in its header and in its
  context; it is the client's identifier, trimmed, when that has 8 to 128 letters, digits or marks of the five
  allowed, and a new one otherwise. So no client can smuggle a line break or a control character
  into a header or a log line this way.\<close>

theorem correlation_bound:
  assumes "\<And>n. safe_id (x_uuid E n)"
    and "fst (bindCorrelationContext E rq (\<lambda>rq' about. bind_x correlation_x (\<lambda>c. ret_x (rq', about, c))) w) =
      Inr (header, rq', about, running)"
  shows "\<exists>k. safe_id k \<and> header = (''x-correlation-id'', k) \<and> running = Some k \<and>
    nr_headers rq' ''x-correlation-id'' = Some (One k) \<and> j_get_str ''correlationId'' (JObj about) = Some k \<and>
    (k = x_uuid E (uuids w) \<or> (\<exists>s. nr_headers rq ''x-correlation-id'' = Some (One s) \<and> k = trim s)) \<and>
    (\<forall>s. nr_headers rq ''x-correlation-id'' = Some (One s) \<and> safe_id (trim s) \<longrightarrow> k = trim s)"
proof -
  let ?o = "normalizeCorrelationId (single_header rq CORRELATION_ID_HEADER)"
  let ?k = "bound_id E rq w"
  have given: "?o = Some k \<longleftrightarrow> (\<exists>s. nr_headers rq ''x-correlation-id'' = Some (One s) \<and> k = trim s \<and> safe_id k)" for k
    unfolding normalized_iff single_header_def CORRELATION_ID_HEADER_def
    by (auto split: option.splits header_value.splits)
  have "safe_id ?k \<and> (?k = x_uuid E (uuids w) \<or> (\<exists>s. nr_headers rq ''x-correlation-id'' = Some (One s) \<and> ?k = trim s))"
  proof (cases ?o)
    case None
    then show ?thesis using assms(1) by (simp add: bound_id_def nullish_def)
  next
    case (Some k)
    then have "?k = k" by (simp add: bound_id_def nullish_def)
    moreover obtain s where "nr_headers rq ''x-correlation-id'' = Some (One s)" "k = trim s" "safe_id k"
      using given [THEN iffD1, OF Some] by blast
    ultimately show ?thesis by simp
  qed
  moreover have "?k = trim s" if "nr_headers rq ''x-correlation-id'' = Some (One s)" "safe_id (trim s)" for s
    using given [of "trim s"] that by (auto simp: bound_id_def nullish_def)
  moreover have "header = (''x-correlation-id'', ?k)" "running = Some ?k" "about = request_context ?k rq"
    "nr_headers rq' ''x-correlation-id'' = Some (One ?k)"
    using assms(2) unfolding bind_run by (auto simp: CORRELATION_ID_HEADER_def)
  ultimately show ?thesis
    by (intro exI [of _ ?k]) (auto simp: request_context_def j_get_str_def j_get_def)
qed

definition demo_node :: node_request where
  "demo_node = \<lparr>nr_headers = [''x-correlation-id'' \<mapsto> One '' order-42:retry ''], nr_method = Some ''GET'', nr_path = None\<rparr>"

definition demo_uuid :: ext where
  "demo_uuid = demo_ext\<lparr>x_uuid := (\<lambda>_. ''0b0f8d9e-5a7c-4a58-9d3e-2f6c1b7a9e10'')\<rparr>"

theorem correlation_bound_witness:
  "\<exists>header rq' about running.
     fst (bindCorrelationContext demo_uuid demo_node
       (\<lambda>rq' about. bind_x correlation_x (\<lambda>c. ret_x (rq', about, c))) (demo_world empty_db)) =
       Inr (header, rq', about, running) \<and> snd header = ''order-42:retry'' \<and> running = Some ''order-42:retry''"
proof -
  have known: "trim '' order-42:retry '' = ''order-42:retry''" "safe_id ''order-42:retry''"
    "safe_id ''0b0f8d9e-5a7c-4a58-9d3e-2f6c1b7a9e10''" by code_simp+
  obtain header rq' about running where run: "fst (bindCorrelationContext demo_uuid demo_node
       (\<lambda>rq' about. bind_x correlation_x (\<lambda>c. ret_x (rq', about, c))) (demo_world empty_db)) =
       Inr (header, rq', about, running)"
    unfolding bind_run by simp
  moreover have "safe_id (x_uuid demo_uuid n)" for n using known(3) by (simp add: demo_uuid_def)
  ultimately show ?thesis
    using correlation_bound [OF _ run] known by (fastforce simp: demo_node_def)
qed

end
