(* ===== verification/Spec2Isabelle.thy ===== *)
theory Spec2Isabelle
  imports RateLimit Maintenance WebSession Retries Backups Tenancy Staging Correlation
begin

text \<open>
  A verification library for the customer-support service of this repository: an API
  (\<^verbatim>\<open>apps/api\<close>), a worker (\<^verbatim>\<open>apps/worker\<close>), a web console (\<^verbatim>\<open>apps/web\<close>) and two
  packages (\<^verbatim>\<open>packages/db\<close>, \<^verbatim>\<open>packages/observability\<close>) over one Postgres database and a
  Redis queue.

  \<^bold>\<open>How the program works.\<close> A message of a customer arrives as a signed webhook. The API stores
  it, opens or reopens a ticket and an agent run, and leaves an inbound dispatch that a dispatcher
  turns into a job of the support queue. The worker runs the agents on the job, checks the drafted
  reply with six guardrails and leaves a draft with the approval it needs. A human decides; an
  approved draft becomes an outbound message, which a delivery job claims under a lease, sends
  through a channel provider and records, with retries and a dead-letter table. Every step appends
  a numbered event to the timeline of the ticket.

  \<^bold>\<open>Theories and code.\<close>
  \<^item> \<^verbatim>\<open>Prelude\<close>, \<^verbatim>\<open>Exec\<close>, \<^verbatim>\<open>Store\<close>: strings and numbers of the language; computations that
    return a value or a thrown error and the world; the calculus of \<open>preserves\<close>, \<open>ensures\<close>
    and \<open>establishes\<close>; the database delegates of Prisma (unique violations and missing
    records included), transactions that roll back, clock, identifiers, queue and environment as
    the record \<open>ext\<close> of the outside.
  \<^item> \<^verbatim>\<open>Schema\<close>, \<^verbatim>\<open>Tables\<close>: \<^verbatim>\<open>packages/db/prisma/schema.prisma\<close>, an enum per datatype, a
    model per record, its unique indices as a clash predicate; \<^verbatim>\<open>Tables\<close> interprets the locale
    of a table for each and defines \<open>db_ok\<close>.
  \<^item> \<^verbatim>\<open>Timeline\<close>: \<^verbatim>\<open>packages/db/src/event-sequence.ts\<close>; the locale \<open>event_log\<close> holds for every
    appender of the program.
  \<^item> \<^verbatim>\<open>Json\<close>, \<^verbatim>\<open>Regex\<close>, \<^verbatim>\<open>Sanitizer\<close>: \<^verbatim>\<open>channel-sanitizer.ts\<close> and \<^verbatim>\<open>redaction.ts\<close>, with a
    backtracking matcher for the regular expressions they use.
  \<^item> \<^verbatim>\<open>Provider\<close>: both \<^verbatim>\<open>mock-email.provider.ts\<close>, as interpretations of \<open>channel_provider\<close>.
  \<^item> \<^verbatim>\<open>Channels\<close>, \<^verbatim>\<open>Inbound\<close>, \<^verbatim>\<open>Outbound\<close>: \<^verbatim>\<open>channels.service.ts\<close>.
  \<^item> \<^verbatim>\<open>Lease\<close>: the contract of a lease taken by a conditional update; \<^verbatim>\<open>Delivery\<close>
    (\<^verbatim>\<open>channel-delivery.processor.ts\<close>) and \<^verbatim>\<open>Inbound\<close> interpret it.
  \<^item> \<^verbatim>\<open>Support\<close>: \<^verbatim>\<open>support.service.ts\<close>, \<^verbatim>\<open>approvals.controller.ts\<close>, \<^verbatim>\<open>tickets.controller.ts\<close>.
  \<^item> \<^verbatim>\<open>Guardrails\<close>, \<^verbatim>\<open>Retry\<close>, \<^verbatim>\<open>Processor\<close>: the guardrails, \<^verbatim>\<open>retry-classifier.ts\<close> with
    \<^verbatim>\<open>errors.ts\<close>, and \<^verbatim>\<open>support.processor.ts\<close>.
  \<^item> \<^verbatim>\<open>Knowledge\<close>: \<^verbatim>\<open>knowledge-search.ts\<close> and the knowledge module of the API;
    \<^verbatim>\<open>JsonParse\<close>: \<^verbatim>\<open>JSON.parse\<close>, against the writer of \<^verbatim>\<open>Json\<close>.
  \<^item> \<^verbatim>\<open>Llm\<close> (\<^verbatim>\<open>worker/src/llm\<close>), \<^verbatim>\<open>Runtime\<close> and \<^verbatim>\<open>Pipeline\<close>
    (\<^verbatim>\<open>worker/src/agent-runtime\<close>): price list, configuration, the call of a model with its
    retries, the four agents and the pipeline that runs them.
  \<^item> \<^verbatim>\<open>RuntimeConfig\<close>: \<^verbatim>\<open>packages/observability/src/runtime-config.ts\<close>, the parsing of the
    environment and its checks for the API, the worker and the web console.
  \<^item> \<^verbatim>\<open>Tokens\<close>, \<^verbatim>\<open>Auth\<close>, \<^verbatim>\<open>Access\<close>: \<^verbatim>\<open>apps/api/src/auth\<close>, the signed tokens, the
    sessions with their rotation, the guards of the controllers and what they admit.
  \<^item> \<^verbatim>\<open>RateLimit\<close>: \<^verbatim>\<open>rate-limit.service.ts\<close> with its Redis script;
    \<^verbatim>\<open>Operations\<close>: \<^verbatim>\<open>operations.service.ts\<close>, the failures and their replay, the audit search
    and its export.
  \<^item> \<^verbatim>\<open>Retries\<close>: the life of a message over any number of delivery jobs.
  \<^item> \<^verbatim>\<open>Maintenance\<close>: \<^verbatim>\<open>packages/db/scripts/maintenance-cleanup.ts\<close>, whose loop need not end:
    a run is an option, \<open>None\<close> when it never returns.
  \<^item> \<^verbatim>\<open>WebProxy\<close>, \<^verbatim>\<open>WebSession\<close>: \<^verbatim>\<open>apps/web/src/app/api/_utils/proxy.ts\<close> with the session
    routes, and its composition with the token exchange of the API.
  \<^item> \<^verbatim>\<open>Metrics\<close>, \<^verbatim>\<open>Logger\<close>, \<^verbatim>\<open>HttpEdge\<close>: the metrics services, \<^verbatim>\<open>logger.ts\<close>, and the exception
    filters, interceptor and health endpoints of \<^verbatim>\<open>observability/\<close>.
  \<^item> \<^verbatim>\<open>PostgresTools\<close>, \<^verbatim>\<open>Backups\<close>: \<^verbatim>\<open>scripts/lib/postgres-tools.mjs\<close> and the scripts that take,
    restore and verify a backup; a script runs on a machine of files and programs.
  \<^item> \<^verbatim>\<open>Correlation\<close>: \<^verbatim>\<open>correlation.ts\<close>, the middleware that gives every request its identifier.
  \<^item> \<^verbatim>\<open>Staging\<close>: \<^verbatim>\<open>scripts/lib/staging-tools.mjs\<close>, the two seeds of \<^verbatim>\<open>packages/db\<close> and
    \<^verbatim>\<open>migrate-check.ts\<close>.
  \<^item> \<^verbatim>\<open>Steps\<close>: the operations as one datatype, the step of each, the reachable worlds.
  \<^item> \<^verbatim>\<open>Routes\<close>: the methods of the controllers (\<^verbatim>\<open>*.controller.ts\<close>), each behind its guards with
    the roles it names; \<open>api_call\<close> is what a caller may ask, \<open>api_serve\<close> what is done.
  \<^item> \<^verbatim>\<open>Tenancy\<close>: two organisations in one database. The locale \<open>owned_table\<close> is the contract of a
    table whose rows have an owner, \<open>foreign\<close> the rows of all other owners.

  \<^bold>\<open>What is shown.\<close> Every reachable database keeps every unique index of the schema and gapless
  timelines (\<^verbatim>\<open>Steps\<close>). Decisions, sends, claims, replays and uses of a refresh token happen
  once, also on stale reads and in any order (\<^verbatim>\<open>Support\<close>, \<^verbatim>\<open>Delivery\<close>, \<^verbatim>\<open>Inbound\<close>,
  \<^verbatim>\<open>Outbound\<close>, \<^verbatim>\<open>Operations\<close>, \<^verbatim>\<open>Auth\<close>). The outcome of each error path is stated where it
  matters: duplicate and unsigned webhooks, failed enqueueing, failed deliveries, blocked runs,
  refused logins. The pure parts have exact characterisations: signature check, guardrail
  decision, secret patterns, retry classes, canonical text of a value, sanitised names and
  addresses, slugs, the requests the guards admit. Encoders and decoders are shown to be inverse:
  tokens, JSON, agent outputs, the export of an audit search. Retries end (\<^verbatim>\<open>Retries\<close>), a
  clean-up that deletes returns and one that does not may run for ever (\<^verbatim>\<open>Maintenance\<close>), a request
  of the browser makes at most three calls (\<^verbatim>\<open>WebProxy\<close>). A restore starts nothing before its
  guards have passed, a verification writes to its own database only and drops it in the end
  (\<^verbatim>\<open>Backups\<close>), a seed of a staging database writes nothing unless the environment is one it accepts
  (\<^verbatim>\<open>Staging\<close>). Every metric a service moves is one it registered (\<^verbatim>\<open>Metrics\<close>). A call of the API
  that changes the database has a caller whose membership in the organisation allows it (\<^verbatim>\<open>Routes\<close>), and
  leaves the rows of every other organisation as they were (\<^verbatim>\<open>Tenancy\<close>); the latter assumes
  \<open>local_refs\<close>, that the drafts and approvals of the organisation refer to nothing outside it, which the
  code relies on where it follows an identifier out of a row it has checked. The pipeline gives well formed
  outputs whatever a model answers. Some theorems state behaviour that the code has and probably
  should not: they are the findings of the manifest.

  \<^bold>\<open>Bounds and limits of the model.\<close> Strings are lists of 8-bit code units. An operation runs as
  one sequence of steps; where the code reads a row and later writes in a transaction, the
  transaction is a definition of its own that takes the row read, so that theorems can run it on a
  stale one. A transaction either commits or leaves the database as it was. Timestamps are integers
  the outside supplies, scores and confidences rationals, integer columns integers. Hash, HMAC,
  dates, the job queue and the environment are fields of \<open>ext\<close> and arbitrary in every theorem;
  \<open>demo_ext\<close> is the concrete one of the witnesses. What the program uses of other packages is a
  parameter of the definitions that use it: the password hash of argon2 (a field of the
  configuration of \<^verbatim>\<open>Auth\<close>), the answers of a model over the network, the constructor of URLs,
  the state of Redis between two scripts, the programs a script starts. A loop that the code bounds (attempts of a model call)
  recurses on that bound; the matcher and the other loops are total, and no definition needs more
  fuel than the length of its input.

  \<^bold>\<open>Not modelled.\<close> HTTP decorators, the validation pipe with the rules of the DTO classes (a body
  is a value of the type its class declares) and modules of the framework, the order in which it runs filters
  and interceptors, process start-up and shutdown, React pages, the smoke tests and the scripts that drive a
  staging stack over the network. The operations of the other theories record a metric by name and labels and
  write no log lines. The clean-up is no operation of \<^verbatim>\<open>Steps\<close>: deleting events breaks the
  timelines; nor are the seeds, which no service runs.
\<close>

end
